(* ===== verification/Prelude.thy ===== *)
theory Prelude
  imports Main
begin

text \<open>
  Shared vocabulary of the development.

  \<^item> \<open>exn\<close>: the exceptions the Python code raises or catches, one constructor per class,
    with the data the code looks at (an HTTP status, a retry delay, an admission message).
  \<^item> \<open>('w, 'a) io\<close>: an effectful Python call, a function of the state \<open>'w\<close> of the world
    outside the process (the Kubernetes API server, its pods, the clock) that returns an
    exception or a value, and the new world.  \<open>'w\<close> is a type variable throughout: the API
    server is not part of this repository, its calls are parameters of the model.
  \<^item> \<open>dict\<close>: a Python dictionary as an association list in insertion order.
  \<^item> a small Hoare logic (\<open>valid\<close>) with its rules in the collection \<open>wp\<close>.
\<close>

named_theorems wp \<open>rules of the Hoare logic for io actions\<close>
named_theorems py \<open>unfolding rules of the string and dictionary helpers\<close>

section \<open>Exceptions\<close>

datatype exn =
    ApiException nat                     \<comment> \<open>kubernetes.client.ApiException, its HTTP status\<close>
  | RuntimeError
  | ValueError
  | KeyError
  | TypeError
  | IndexError
  | AttributeError
  | StopIteration
  | SSLEOFError
  | ConnectionResetError
  | WebSocketConnectionClosed
  | TarReadError
  | PlainException                       \<comment> \<open>raise Exception(...)\<close>
  | OtherError                           \<comment> \<open>any other class a call outside the repository raises\<close>
  | TransitionNotAllowed                 \<comment> \<open>statemachine.exceptions\<close>
  | TemporaryError "nat option"          \<comment> \<open>kopf.TemporaryError, the delay if one is given\<close>
  | PermanentError
  | AdmissionError string
  | BridgeInstallException
  | BridgeMountException
  | BridgeMountInstallException
  | BridgeMountTargetException
  | TimeoutError                         \<comment> \<open>from here on: the Python client\<close>
  | CommandTimeoutError
  | GefyraObjectNotFound
  | GefyraClientAlreadyExists
  | GefyraBridgeError
  | GefyraConnectionError
  | DockerError nat                      \<comment> \<open>docker.errors.APIError, its HTTP status\<close>
  | UsageError                           \<comment> \<open>click.UsageError and its subclasses\<close>
  | ClientConfigurationError
  | MaxRetryError                        \<comment> \<open>urllib3: the API server cannot be reached\<close>
  | OSError
  | MinikubeError
  | PodNotFoundError
  | WorkloadNotFoundError
  | ClusterError
  | FailToCreateError nat                \<comment> \<open>kubernetes.utils, the status of its first exception\<close>
  | KeyboardInterrupt
  | SystemExit nat                       \<comment> \<open>\<open>sys.exit\<close>, not an \<open>Exception\<close>\<close>
  | ConfigException                      \<comment> \<open>kubernetes.config\<close>

fun status_of :: "exn \<Rightarrow> nat option" where
  "status_of (ApiException n) = Some n"
| "status_of _ = None"

fun is_api_exception :: "exn \<Rightarrow> bool" where
  "is_api_exception (ApiException _) = True"
| "is_api_exception _ = False"

section \<open>Effectful calls\<close>

type_synonym ('w, 'a) io = "'w \<Rightarrow> (exn + 'a) \<times> 'w"

definition ret :: "'a \<Rightarrow> ('w, 'a) io" where
  "ret x = (\<lambda>w. (Inr x, w))"

definition raise :: "exn \<Rightarrow> ('w, 'a) io" where
  "raise e = (\<lambda>w. (Inl e, w))"

definition bind :: "('w, 'a) io \<Rightarrow> ('a \<Rightarrow> ('w, 'b) io) \<Rightarrow> ('w, 'b) io" where
  "bind m f = (\<lambda>w. case m w of (Inl e, w') \<Rightarrow> (Inl e, w') | (Inr x, w') \<Rightarrow> f x w')"

definition thn :: "('w, 'a) io \<Rightarrow> ('w, 'b) io \<Rightarrow> ('w, 'b) io" where
  "thn m k = bind m (\<lambda>_. k)"

definition try_except :: "('w, 'a) io \<Rightarrow> (exn \<Rightarrow> ('w, 'a) io) \<Rightarrow> ('w, 'a) io" where
  "try_except m h = (\<lambda>w. case m w of (Inl e, w') \<Rightarrow> h e w' | (Inr x, w') \<Rightarrow> (Inr x, w'))"

definition try_except_else ::
    "('w, 'a) io \<Rightarrow> (exn \<Rightarrow> ('w, 'b) io) \<Rightarrow> ('a \<Rightarrow> ('w, 'b) io) \<Rightarrow> ('w, 'b) io" where
  "try_except_else m h f = (\<lambda>w. case m w of (Inl e, w') \<Rightarrow> h e w' | (Inr x, w') \<Rightarrow> f x w')"

definition of_sum :: "exn + 'a \<Rightarrow> ('w, 'a) io" where
  "of_sum r = (\<lambda>w. (r, w))"

definition unless :: "bool \<Rightarrow> ('w, unit) io \<Rightarrow> ('w, unit) io" where
  "unless b m = (if b then ret () else m)"

definition whenever :: "bool \<Rightarrow> ('w, unit) io \<Rightarrow> ('w, unit) io" where
  "whenever b m = (if b then m else ret ())"

primrec for_each :: "('a \<Rightarrow> ('w, unit) io) \<Rightarrow> 'a list \<Rightarrow> ('w, unit) io" where
  "for_each f [] = ret ()"
| "for_each f (x # xs) = thn (f x) (for_each f xs)"

primrec map_io :: "('a \<Rightarrow> ('w, 'b) io) \<Rightarrow> 'a list \<Rightarrow> ('w, 'b list) io" where
  "map_io f [] = ret []"
| "map_io f (x # xs) = bind (f x) (\<lambda>y. bind (map_io f xs) (\<lambda>ys. ret (y # ys)))"

primrec fold_io :: "('s \<Rightarrow> 'a \<Rightarrow> ('w, 's) io) \<Rightarrow> 's \<Rightarrow> 'a list \<Rightarrow> ('w, 's) io" where
  "fold_io f s [] = ret s"
| "fold_io f s (x # xs) = bind (f s x) (\<lambda>s'. fold_io f s' xs)"

definition sbind :: "exn + 'a \<Rightarrow> ('a \<Rightarrow> exn + 'b) \<Rightarrow> exn + 'b" where
  "sbind r f = (case r of Inl e \<Rightarrow> Inl e | Inr x \<Rightarrow> f x)"

primrec map_sum_list :: "('a \<Rightarrow> exn + 'b) \<Rightarrow> 'a list \<Rightarrow> exn + 'b list" where
  "map_sum_list f [] = Inr []"
| "map_sum_list f (x # xs) = sbind (f x) (\<lambda>y. sbind (map_sum_list f xs) (\<lambda>ys. Inr (y # ys)))"

lemma ret_apply [simp]: "ret x w = (Inr x, w)" by (simp add: ret_def)
lemma raise_apply [simp]: "raise e w = (Inl e, w)" by (simp add: raise_def)
lemma of_sum_apply [simp]: "of_sum r w = (r, w)" by (simp add: of_sum_def)

lemma bind_Inr: "m w = (Inr x, w') \<Longrightarrow> bind m f w = f x w'" by (simp add: bind_def)
lemma bind_Inl: "m w = (Inl e, w') \<Longrightarrow> bind m f w = (Inl e, w')" by (simp add: bind_def)
lemma thn_Inr: "m w = (Inr x, w') \<Longrightarrow> thn m k w = k w'" by (simp add: thn_def bind_def)
lemma thn_Inl: "m w = (Inl e, w') \<Longrightarrow> thn m k w = (Inl e, w')" by (simp add: thn_def bind_def)
lemma try_Inr: "m w = (Inr x, w') \<Longrightarrow> try_except m h w = (Inr x, w')" by (simp add: try_except_def)
lemma try_Inl: "m w = (Inl e, w') \<Longrightarrow> try_except m h w = h e w'" by (simp add: try_except_def)
lemma try_else_Inr: "m w = (Inr x, w') \<Longrightarrow> try_except_else m h f w = f x w'"
  by (simp add: try_except_else_def)
lemma try_else_Inl: "m w = (Inl e, w') \<Longrightarrow> try_except_else m h f w = h e w'"
  by (simp add: try_except_else_def)

lemmas io_step = bind_Inr bind_Inl thn_Inr thn_Inl try_Inr try_Inl try_else_Inr try_else_Inl

lemma bind_ret [simp]: "bind (ret x) f = f x" by (rule ext) (simp add: bind_def)
lemma thn_ret [simp]: "thn (ret x) k = k" by (simp add: thn_def)
lemma bind_raise [simp]: "bind (raise e) f = raise e" by (rule ext) (simp add: bind_def)
lemma thn_raise [simp]: "thn (raise e) k = raise e" by (simp add: thn_def)
lemma try_ret [simp]: "try_except (ret x) h = ret x" by (rule ext) (simp add: try_except_def)
lemma try_raise [simp]: "try_except (raise e) h = h e" by (rule ext) (simp add: try_except_def)
lemma bind_of_Inr [simp]: "bind (of_sum (Inr x)) f = f x" by (rule ext) (simp add: bind_def)
lemma bind_of_Inl [simp]: "bind (of_sum (Inl e)) f = raise e" by (rule ext) (simp add: bind_def)
lemma whenever_simps [simp]: "whenever True m = m" "whenever False m = ret ()"
  by (simp_all add: whenever_def)
lemma unless_simps [simp]: "unless True m = ret ()" "unless False m = m"
  by (simp_all add: unless_def)

lemma whenever_total: "(\<And>w. fst (m w) = Inr ()) \<Longrightarrow> \<exists>w2. whenever b m w = (Inr (), w2)"
  by (cases b) (simp_all, metis prod.collapse)

lemma bind_assoc: "bind (bind m f) g = bind m (\<lambda>x. bind (f x) g)"
  by (rule ext) (simp add: bind_def split: prod.split sum.split)

lemma bind_Inr_iff:
  "bind m f w = (Inr y, w'') \<longleftrightarrow> (\<exists>x w'. m w = (Inr x, w') \<and> f x w' = (Inr y, w''))"
  by (auto simp: bind_def split: prod.splits sum.splits)

lemma thn_Inr_iff:
  "thn m k w = (Inr y, w'') \<longleftrightarrow> (\<exists>x w'. m w = (Inr x, w') \<and> k w' = (Inr y, w''))"
  by (simp add: thn_def bind_Inr_iff)

lemma bind_Inl_iff:
  "bind m f w = (Inl e, w'') \<longleftrightarrow>
     m w = (Inl e, w'') \<or> (\<exists>x w'. m w = (Inr x, w') \<and> f x w' = (Inl e, w''))"
  by (auto simp: bind_def split: prod.splits sum.splits)

lemma thn_Inl_iff:
  "thn m k w = (Inl e, w'') \<longleftrightarrow>
     m w = (Inl e, w'') \<or> (\<exists>x w'. m w = (Inr x, w') \<and> k w' = (Inl e, w''))"
  by (simp add: thn_def bind_Inl_iff)

lemma sbind_Inr_iff [simp]: "sbind r f = Inr y \<longleftrightarrow> (\<exists>x. r = Inr x \<and> f x = Inr y)"
  by (cases r) (simp_all add: sbind_def)
lemma sbind_simps [simp]: "sbind (Inr x) f = f x" "sbind (Inl e) f = Inl e"
  by (simp_all add: sbind_def)

section \<open>Hoare logic\<close>

text \<open>\<open>valid P m Q E\<close>: from a world with \<open>P\<close>, \<open>m\<close> returns a value and a world with \<open>Q\<close>,
  or raises an exception with \<open>E\<close>.\<close>

definition valid ::
    "('w \<Rightarrow> bool) \<Rightarrow> ('w, 'a) io \<Rightarrow> ('a \<Rightarrow> 'w \<Rightarrow> bool) \<Rightarrow> (exn \<Rightarrow> 'w \<Rightarrow> bool) \<Rightarrow> bool" where
  "valid P m Q E \<longleftrightarrow>
     (\<forall>w. P w \<longrightarrow> (case m w of (Inr x, w') \<Rightarrow> Q x w' | (Inl e, w') \<Rightarrow> E e w'))"

lemma validI:
  assumes "\<And>w x w'. P w \<Longrightarrow> m w = (Inr x, w') \<Longrightarrow> Q x w'"
    and "\<And>w e w'. P w \<Longrightarrow> m w = (Inl e, w') \<Longrightarrow> E e w'"
  shows "valid P m Q E"
  using assms by (auto simp: valid_def split: prod.split sum.split)

lemma validD: "valid P m Q E \<Longrightarrow> P w \<Longrightarrow> m w = (Inr x, w') \<Longrightarrow> Q x w'"
  by (fastforce simp: valid_def split: prod.splits sum.splits)

lemma validDE: "valid P m Q E \<Longrightarrow> P w \<Longrightarrow> m w = (Inl e, w') \<Longrightarrow> E e w'"
  by (fastforce simp: valid_def split: prod.splits sum.splits)

lemma valid_weaken:
  assumes "valid P m Q E" and "\<And>w. P' w \<Longrightarrow> P w"
    and "\<And>x w. Q x w \<Longrightarrow> Q' x w" and "\<And>e w. E e w \<Longrightarrow> E' e w"
  shows "valid P' m Q' E'"
  using assms by (fastforce simp: valid_def split: prod.splits sum.splits)

lemma valid_ret [wp]: "valid (Q x) (ret x) Q E"
  by (simp add: valid_def)

lemma valid_raise [wp]: "valid (E e) (raise e) Q E"
  by (simp add: valid_def)

lemma valid_bind [wp]:
  assumes "\<And>x. valid (R x) (f x) Q E" and "valid P m R E"
  shows "valid P (bind m f) Q E"
  using assms by (fastforce simp: valid_def bind_def split: prod.splits sum.splits)

lemma valid_thn [wp]:
  assumes "valid R k Q E" and "valid P m (\<lambda>_. R) E"
  shows "valid P (thn m k) Q E"
  unfolding thn_def by (rule valid_bind) (use assms in auto)

lemma valid_try [wp]:
  assumes "\<And>e. valid (H e) (h e) Q E" and "valid P m Q H"
  shows "valid P (try_except m h) Q E"
  using assms by (fastforce simp: valid_def try_except_def split: prod.splits sum.splits)

lemma valid_try_else [wp]:
  assumes "\<And>e. valid (H e) (h e) Q E" and "\<And>x. valid (R x) (f x) Q E" and "valid P m R H"
  shows "valid P (try_except_else m h f) Q E"
  using assms by (fastforce simp: valid_def try_except_else_def split: prod.splits sum.splits)

lemma valid_if [wp]:
  assumes "b \<Longrightarrow> valid P1 m Q E" and "\<not> b \<Longrightarrow> valid P2 k Q E"
  shows "valid (\<lambda>w. (b \<longrightarrow> P1 w) \<and> (\<not> b \<longrightarrow> P2 w)) (if b then m else k) Q E"
  using assms by (simp add: valid_def)

lemma valid_for_each:
  assumes "\<And>x. x \<in> set xs \<Longrightarrow> valid I (f x) (\<lambda>_. I) E"
  shows "valid I (for_each f xs) (\<lambda>_. I) E"
  using assms by (induction xs) (auto intro: valid_ret valid_thn)

text \<open>Frame: an action that keeps an observation \<open>v\<close> of the world, whatever its outcome.\<close>

definition keeps :: "('w \<Rightarrow> 'v) \<Rightarrow> ('w, 'a) io \<Rightarrow> bool" where
  "keeps v m \<longleftrightarrow> (\<forall>w. v (snd (m w)) = v w)"

lemma keepsD: "keeps v m \<Longrightarrow> m w = (r, w') \<Longrightarrow> v w' = v w"
  by (metis keeps_def snd_conv)

lemma keeps_ret [simp]: "keeps v (ret x)" by (simp add: keeps_def)
lemma keeps_raise [simp]: "keeps v (raise x)" by (simp add: keeps_def)
lemma keeps_of_sum [simp]: "keeps v (of_sum x)" by (simp add: keeps_def)

lemma keeps_bind: "keeps v m \<Longrightarrow> (\<And>x. keeps v (f x)) \<Longrightarrow> keeps v (bind m f)"
  by (auto simp: keeps_def bind_def split: prod.splits sum.splits) (metis snd_conv)+

lemma keeps_thn: "keeps v m \<Longrightarrow> keeps v k \<Longrightarrow> keeps v (thn m k)"
  by (simp add: thn_def keeps_bind)

lemma keeps_try: "keeps v m \<Longrightarrow> (\<And>e. keeps v (h e)) \<Longrightarrow> keeps v (try_except m h)"
  by (auto simp: keeps_def try_except_def split: prod.splits sum.splits) (metis snd_conv)+

lemma keeps_whenever: "(b \<Longrightarrow> keeps v m) \<Longrightarrow> keeps v (whenever b m)"
  by (simp add: whenever_def)

lemma keeps_for_each: "(\<And>x. x \<in> set xs \<Longrightarrow> keeps v (f x)) \<Longrightarrow> keeps v (for_each f xs)"
  by (induction xs) (auto intro: keeps_thn)

lemmas keeps_intros = keeps_bind keeps_thn keeps_try keeps_whenever keeps_for_each

section \<open>Lists\<close>

fun index_where :: "('a \<Rightarrow> bool) \<Rightarrow> 'a list \<Rightarrow> nat option" where
  "index_where p [] = None"
| "index_where p (x # xs) = (if p x then Some 0 else map_option Suc (index_where p xs))"

lemma index_where_Some: "index_where p xs = Some i \<Longrightarrow> i < length xs \<and> p (xs ! i) \<and> (\<forall>j < i. \<not> p (xs ! j))"
proof (induction xs arbitrary: i)
  case (Cons x xs)
  show ?case
  proof (cases "p x")
    case False
    with Cons.prems obtain k where "i = Suc k" "index_where p xs = Some k" by auto
    with Cons.IH [of k] False show ?thesis by (auto simp: nth_Cons split: nat.splits)
  qed (use Cons.prems in simp)
qed simp

lemma index_where_None: "index_where p xs = None \<longleftrightarrow> (\<forall>x \<in> set xs. \<not> p x)"
  by (induction xs) auto

section \<open>Dictionaries\<close>

type_synonym 'v dict = "(string \<times> 'v) list"

fun dget :: "'v dict \<Rightarrow> string \<Rightarrow> 'v option" where
  "dget [] k = None"
| "dget ((k', v) # d) k = (if k = k' then Some v else dget d k)"

fun dset :: "'v dict \<Rightarrow> string \<Rightarrow> 'v \<Rightarrow> 'v dict" where
  "dset [] k v = [(k, v)]"
| "dset ((k', v') # d) k v = (if k = k' then (k, v) # d else (k', v') # dset d k v)"

fun ddel :: "'v dict \<Rightarrow> string \<Rightarrow> 'v dict" where
  "ddel [] k = []"
| "ddel ((k', v) # d) k = (if k = k' then d else (k', v) # ddel d k)"

definition dupdate :: "'v dict \<Rightarrow> 'v dict \<Rightarrow> 'v dict" where
  "dupdate d e = foldl (\<lambda>a (k, v). dset a k v) d e"

definition keys :: "'v dict \<Rightarrow> string list" where
  "keys d = map fst d"

definition dvalues :: "'v dict \<Rightarrow> 'v list" where
  "dvalues d = map snd d"

text \<open>\<open>d[k]\<close> raises \<open>KeyError\<close> where \<open>d.get(k)\<close> returns nothing.\<close>

definition item :: "'v dict \<Rightarrow> string \<Rightarrow> exn + 'v" where
  "item d k = (case dget d k of None \<Rightarrow> Inl KeyError | Some v \<Rightarrow> Inr v)"

lemma keys_simps [simp]: "keys [] = []" "keys ((k, v) # d) = k # keys d"
  by (simp_all add: keys_def)

lemma dget_dset: "dget (dset d k v) k' = (if k' = k then Some v else dget d k')"
  by (induction d k v rule: dset.induct) auto

lemma dget_notin: "k \<notin> set (keys d) \<Longrightarrow> dget d k = None"
  by (induction d) auto

lemma dget_Some_in: "dget d k = Some v \<Longrightarrow> (k, v) \<in> set d"
  by (induction d k rule: dget.induct) (auto split: if_splits)

lemma in_dget: "distinct (keys d) \<Longrightarrow> (k, v) \<in> set d \<Longrightarrow> dget d k = Some v"
  by (induction d) (auto simp: keys_def rev_image_eqI split: if_splits)

lemma keys_dset: "set (keys (dset d k v)) = insert k (set (keys d))"
  by (induction d k v rule: dset.induct) auto

lemma distinct_dset: "distinct (keys d) \<Longrightarrow> distinct (keys (dset d k v))"
  by (induction d k v rule: dset.induct) (auto simp: keys_dset)

lemma keys_ddel_subset: "set (keys (ddel d k)) \<subseteq> set (keys d)"
  by (induction d k rule: ddel.induct) auto

lemma distinct_ddel: "distinct (keys d) \<Longrightarrow> distinct (keys (ddel d k))"
  by (induction d k rule: ddel.induct) (use keys_ddel_subset in fastforce)+

lemma set_ddel: "distinct (keys d) \<Longrightarrow> set (ddel d k) = {(k', v) \<in> set d. k' \<noteq> k}"
  by (induction d k rule: ddel.induct) (auto simp: keys_def rev_image_eqI)

lemma dget_ddel: "distinct (keys d) \<Longrightarrow> dget (ddel d k) k' = (if k' = k then None else dget d k')"
  by (induction d k rule: ddel.induct) (auto simp: dget_notin)

lemma set_dset_new: "k \<notin> set (keys d) \<Longrightarrow> dset d k v = d @ [(k, v)]"
  by (induction d k v rule: dset.induct) auto

lemma set_dset_subset: "set (dset d k v) \<subseteq> insert (k, v) (set d)"
  by (induction d k v rule: dset.induct) auto

lemma dupdate_Nil [simp]: "dupdate d [] = d" by (simp add: dupdate_def)
lemma dupdate_Cons [simp]: "dupdate d ((k, v) # e) = dupdate (dset d k v) e"
  by (simp add: dupdate_def)

lemma dget_dupdate: "distinct (keys e) \<Longrightarrow>
    dget (dupdate d e) k = (case dget e k of Some v \<Rightarrow> Some v | None \<Rightarrow> dget d k)"
proof (induction e arbitrary: d)
  case (Cons p e)
  obtain k' v where p: "p = (k', v)" by force
  with Cons show ?case by (auto simp: dget_dset dget_notin split: option.splits)
qed simp

lemma distinct_dupdate: "distinct (keys d) \<Longrightarrow> distinct (keys (dupdate d e))"
  by (induction e arbitrary: d) (auto simp: distinct_dset)

lemma dset_same: "dget d k = Some v \<Longrightarrow> dset d k v = d"
  by (induction d) (auto split: if_splits)

lemma item_Inr_iff [simp]: "item d k = Inr v \<longleftrightarrow> dget d k = Some v"
  by (simp add: item_def split: option.split)

text \<open>Updating a dictionary with (a copy of) itself plus one new key, as the ConfigMap patch
  of the proxy routes does, is the insertion of that key.\<close>

lemma dupdate_sub:
  assumes "\<And>k v. (k, v) \<in> set e \<Longrightarrow> dget d k = Some v"
  shows "dupdate d e = d"
  using assms by (induction e) (auto simp: dset_same)

lemma dset_comm_same: "distinct (keys d) \<Longrightarrow> (k', v') \<in> set d \<Longrightarrow> k \<noteq> k' \<Longrightarrow>
    dget (dset d k v) k' = Some v'"
  by (simp add: dget_dset in_dget)

end
