(* ===== verification/PyStr.thy ===== *)
theory PyStr
  imports Prelude "HOL-Library.Sublist"
begin

text \<open>
  The string operations of the Python standard library that the code uses, on \<open>string\<close>
  (a list of characters; a character stands for a code point below 256): \<open>split\<close>,
  \<open>rsplit\<close>, \<open>join\<close>, \<open>strip\<close>, \<open>replace\<close>, \<open>lower\<close>, \<open>in\<close>, \<open>startswith\<close>, \<open>str\<close> and
  \<open>int\<close>, with the round-trip laws the components rely on.
\<close>

section \<open>Splitting and joining\<close>

fun split :: "char \<Rightarrow> string \<Rightarrow> string list" where
  "split c [] = [[]]"
| "split c (x # xs) =
     (if x = c then [] # split c xs
      else case split c xs of [] \<Rightarrow> [[x]] | y # ys \<Rightarrow> (x # y) # ys)"

text \<open>\<open>s.split(c, 1)\<close> and \<open>s.rsplit(c, 1)\<close>: one part, or two.\<close>

definition split1 :: "char \<Rightarrow> string \<Rightarrow> string list" where
  "split1 c s = (if c \<in> set s then [takeWhile (\<lambda>x. x \<noteq> c) s, tl (dropWhile (\<lambda>x. x \<noteq> c) s)] else [s])"

definition rsplit1 :: "char \<Rightarrow> string \<Rightarrow> string list" where
  "rsplit1 c s = (if c \<in> set s
     then [rev (tl (dropWhile (\<lambda>x. x \<noteq> c) (rev s))), rev (takeWhile (\<lambda>x. x \<noteq> c) (rev s))] else [s])"

fun join :: "string \<Rightarrow> string list \<Rightarrow> string" where
  "join sep [] = []"
| "join sep [x] = x"
| "join sep (x # y # ys) = x @ sep @ join sep (y # ys)"

text \<open>Tuple unpacking \<open>a, b = parts\<close> raises \<open>ValueError\<close> unless there are exactly two parts;
  \<open>parts[i]\<close> raises \<open>IndexError\<close> out of range.\<close>

definition unpack2 :: "'a list \<Rightarrow> exn + 'a \<times> 'a" where
  "unpack2 xs = (case xs of [a, b] \<Rightarrow> Inr (a, b) | _ \<Rightarrow> Inl ValueError)"

definition nth_item :: "'a list \<Rightarrow> nat \<Rightarrow> exn + 'a" where
  "nth_item xs i = (if i < length xs then Inr (xs ! i) else Inl IndexError)"

lemma split_nonempty [simp]: "split c s \<noteq> []"
  by (induction c s rule: split.induct) (auto split: list.splits)

lemma split_notin [simp]: "c \<notin> set s \<Longrightarrow> split c s = [s]"
  by (induction s) auto

lemma split_append: "c \<notin> set s \<Longrightarrow> split c (s @ c # t) = s # split c t"
  by (induction s) auto

lemma join_split [simp]: "join [c] (split c s) = s"
proof (induction c s rule: split.induct)
  case (2 c x xs)
  then show ?case by (cases "split c xs") (auto, (cases "tl (split c xs)"; auto)+)
qed simp

lemma split_join: "xs \<noteq> [] \<Longrightarrow> (\<And>x. x \<in> set xs \<Longrightarrow> c \<notin> set x) \<Longrightarrow> split c (join [c] xs) = xs"
proof (induction "[c]" xs rule: join.induct)
  case (3 x y ys)
  then show ?case by (simp add: split_append)
qed simp_all

lemma split_parts_notin: "x \<in> set (split c s) \<Longrightarrow> c \<notin> set x"
  by (induction c s arbitrary: x rule: split.induct) (auto split: if_splits list.splits)

lemma takeWhile_until: "c \<notin> set s \<Longrightarrow> takeWhile (\<lambda>x. x \<noteq> c) (s @ c # t) = s"
  by (induction s) auto

lemma dropWhile_until: "c \<notin> set s \<Longrightarrow> dropWhile (\<lambda>x. x \<noteq> c) (s @ c # t) = c # t"
  by (induction s) auto

lemma split1_append: "c \<notin> set s \<Longrightarrow> split1 c (s @ c # t) = [s, t]"
  by (simp add: split1_def takeWhile_until dropWhile_until)

lemma split1_notin: "c \<notin> set s \<Longrightarrow> split1 c s = [s]"
  by (simp add: split1_def)

lemma rsplit1_append: "c \<notin> set t \<Longrightarrow> rsplit1 c (s @ c # t) = [s, t]"
  by (simp add: rsplit1_def takeWhile_until dropWhile_until)

lemma rsplit1_notin: "c \<notin> set s \<Longrightarrow> rsplit1 c s = [s]"
  by (simp add: rsplit1_def)

lemma unpack2_simps [simp]: "unpack2 [a, b] = Inr (a, b)" "unpack2 [a] = Inl ValueError"
  "unpack2 [] = Inl ValueError" "unpack2 (a # b # c # xs) = Inl ValueError"
  by (simp_all add: unpack2_def)

lemma unpack2_Inr_iff: "unpack2 xs = Inr (a, b) \<longleftrightarrow> xs = [a, b]"
  by (auto simp: unpack2_def split: list.splits)

lemma split1_unpack: "c \<in> set s \<Longrightarrow> \<exists>a b. unpack2 (split1 c s) = Inr (a, b) \<and> s = a @ c # b"
proof -
  assume c: "c \<in> set s"
  have "dropWhile (\<lambda>x. x \<noteq> c) s = c # tl (dropWhile (\<lambda>x. x \<noteq> c) s)"
    using c by (induction s) auto
  then have "s = takeWhile (\<lambda>x. x \<noteq> c) s @ c # tl (dropWhile (\<lambda>x. x \<noteq> c) s)"
    by (metis takeWhile_dropWhile_id)
  with c show ?thesis by (auto simp: split1_def)
qed

section \<open>Characters, trimming, replacing\<close>

definition is_space :: "char \<Rightarrow> bool" where
  "is_space c \<longleftrightarrow> (of_char c :: nat) \<in> {9, 10, 11, 12, 13, 28, 29, 30, 31, 32, 133, 160}"

definition lstrip :: "string \<Rightarrow> string" where
  "lstrip s = dropWhile is_space s"

definition strip :: "string \<Rightarrow> string" where
  "strip s = rev (dropWhile is_space (rev (dropWhile is_space s)))"

definition strip_char :: "char \<Rightarrow> string \<Rightarrow> string" where
  "strip_char c s = rev (dropWhile (\<lambda>x. x = c) (rev (dropWhile (\<lambda>x. x = c) s)))"

definition startswith :: "string \<Rightarrow> string \<Rightarrow> bool" where
  "startswith s p \<longleftrightarrow> prefix p s"

text \<open>\<open>needle in s\<close> for strings: substring search.\<close>

fun contains :: "string \<Rightarrow> string \<Rightarrow> bool" where
  "contains [] needle = (needle = [])"
| "contains (x # xs) needle = (prefix needle (x # xs) \<or> contains xs needle)"

definition replace_char :: "char \<Rightarrow> char \<Rightarrow> string \<Rightarrow> string" where
  "replace_char a b s = map (\<lambda>x. if x = a then b else x) s"

definition lower_char :: "char \<Rightarrow> char" where
  "lower_char c = (if 65 \<le> (of_char c :: nat) \<and> (of_char c :: nat) \<le> 90
     then char_of ((of_char c :: nat) + 32) else c)"

definition lower :: "string \<Rightarrow> string" where
  "lower s = map lower_char s"

definition is_digit :: "char \<Rightarrow> bool" where
  "is_digit c \<longleftrightarrow> 48 \<le> (of_char c :: nat) \<and> (of_char c :: nat) \<le> 57"

text \<open>\<open>string.printable[:62]\<close>: the digits and the ASCII letters.\<close>

definition is_alnum :: "char \<Rightarrow> bool" where
  "is_alnum c \<longleftrightarrow> is_digit c \<or> (97 \<le> (of_char c :: nat) \<and> (of_char c :: nat) \<le> 122)
     \<or> (65 \<le> (of_char c :: nat) \<and> (of_char c :: nat) \<le> 90)"

lemma contains_iff: "contains s needle \<longleftrightarrow> (\<exists>a b. s = a @ needle @ b)"
proof (induction s)
  case (Cons x xs)
  show ?case
  proof
    assume "contains (x # xs) needle"
    then consider "prefix needle (x # xs)" | "contains xs needle" by auto
    then show "\<exists>a b. x # xs = a @ needle @ b"
    proof cases
      case 1
      then show ?thesis by (metis append_Nil prefixE)
    next
      case 2
      with Cons.IH obtain a b where "xs = a @ needle @ b" by blast
      then show ?thesis by (metis append_Cons)
    qed
  next
    assume "\<exists>a b. x # xs = a @ needle @ b"
    then obtain a b where ab: "x # xs = a @ needle @ b" by blast
    show "contains (x # xs) needle"
    proof (cases a)
      case Nil
      with ab have "prefix needle (x # xs)" by (simp add: prefix_def)
      then show ?thesis by simp
    next
      case (Cons y ys)
      with ab have "xs = ys @ needle @ b" by simp
      with Cons.IH show ?thesis by auto
    qed
  qed
qed auto

lemma contains_self [simp]: "contains s s" by (metis contains_iff append_Nil append_Nil2)

lemma contains_prefix: "contains (s @ t) s" by (metis contains_iff append_Nil)

lemma strip_id:
  assumes "s \<noteq> []" and "\<not> is_space (hd s)" and "\<not> is_space (last s)"
  shows "strip s = s"
proof -
  have "dropWhile is_space s = s" using assms(1,2) by (cases s) auto
  moreover have "dropWhile is_space (rev s) = rev s"
    using assms(1,3) by (cases s rule: rev_cases) auto
  ultimately show ?thesis by (simp add: strip_def)
qed

lemma strip_Nil [simp]: "strip [] = []" by (simp add: strip_def)

lemma strip_no_space: "(\<And>x. x \<in> set s \<Longrightarrow> \<not> is_space x) \<Longrightarrow> strip s = s"
  by (cases "s = []") (auto intro: strip_id)

section \<open>Numbers\<close>

definition digit :: "nat \<Rightarrow> char" where
  "digit n = char_of (48 + n)"

fun str_nat :: "nat \<Rightarrow> string" where
  "str_nat n = (if n < 10 then [digit n] else str_nat (n div 10) @ [digit (n mod 10)])"

declare str_nat.simps [simp del]

definition str_int :: "int \<Rightarrow> string" where
  "str_int i = (if i < 0 then CHR ''-'' # str_nat (nat (- i)) else str_nat (nat i))"

definition digit_val :: "char \<Rightarrow> nat" where
  "digit_val c = (of_char c :: nat) - 48"

definition digits_val :: "string \<Rightarrow> nat" where
  "digits_val s = foldl (\<lambda>a c. 10 * a + digit_val c) 0 s"

text \<open>\<open>int(s)\<close>: surrounding white space, an optional sign, decimal digits with single
  underscores between them; \<open>ValueError\<close> otherwise.\<close>

definition py_digits :: "string \<Rightarrow> exn + nat" where
  "py_digits s = (if list_all (\<lambda>p. p \<noteq> [] \<and> list_all is_digit p) (split (CHR ''_'') s)
     then Inr (digits_val (concat (split (CHR ''_'') s))) else Inl ValueError)"

definition py_int :: "string \<Rightarrow> exn + int" where
  "py_int s = (case strip s of
       [] \<Rightarrow> Inl ValueError
     | c # cs \<Rightarrow> (if c = CHR ''-'' then sbind (py_digits cs) (\<lambda>n. Inr (- int n))
                 else if c = CHR ''+'' then sbind (py_digits cs) (\<lambda>n. Inr (int n))
                 else sbind (py_digits (c # cs)) (\<lambda>n. Inr (int n))))"

lemma digit_simps [simp]:
  "digit 0 = CHR ''0''" "digit 1 = CHR ''1''" "digit (Suc 0) = CHR ''1''"
  "digit 2 = CHR ''2''" "digit 3 = CHR ''3''" "digit 4 = CHR ''4''" "digit 5 = CHR ''5''" "digit 6 = CHR ''6''" "digit 7 = CHR ''7''" "digit 8 = CHR ''8''" "digit 9 = CHR ''9''"
  by (simp_all add: digit_def char_of_def bit_Suc_0_iff)

text \<open>For closed instances: \<open>simp add: str_nat_eval\<close> prints a numeral.\<close>

lemmas str_nat_eval = str_nat.simps str_int_def

lemma of_char_digit: "n < 10 \<Longrightarrow> (of_char (digit n) :: nat) = 48 + n"
  by (simp add: digit_def)

lemma is_digit_digit: "n < 10 \<Longrightarrow> is_digit (digit n)"
  by (simp add: is_digit_def of_char_digit)

lemma str_nat_digits: "c \<in> set (str_nat n) \<Longrightarrow> is_digit c"
proof (induction n rule: str_nat.induct)
  case (1 n)
  show ?case
  proof (cases "n < 10")
    case True
    with 1 show ?thesis by (simp add: str_nat.simps [of n] is_digit_digit)
  next
    case False
    with 1 show ?thesis by (auto simp: str_nat.simps [of n] is_digit_digit)
  qed
qed

lemma str_nat_nonempty [simp]: "str_nat n \<noteq> []"
  by (simp add: str_nat.simps [of n])

lemma digits_val_str_nat [simp]: "digits_val (str_nat n) = n"
proof (induction n rule: str_nat.induct)
  case (1 n)
  show ?case
  proof (cases "n < 10")
    case True
    then show ?thesis
      by (simp add: str_nat.simps [of n] digits_val_def digit_val_def of_char_digit)
  next
    case False
    with 1 have "foldl (\<lambda>a c. 10 * a + digit_val c) 0 (str_nat (n div 10)) = n div 10"
      by (simp add: digits_val_def)
    with False show ?thesis
      by (simp add: str_nat.simps [of n] digits_val_def digit_val_def of_char_digit)
  qed
qed

lemma digit_not_special: "is_digit c \<Longrightarrow> c \<noteq> CHR ''_'' \<and> c \<noteq> CHR ''-'' \<and> c \<noteq> CHR ''+''
    \<and> c \<noteq> CHR '':'' \<and> c \<noteq> CHR '','' \<and> c \<noteq> CHR ''.'' \<and> c \<noteq> CHR ''/'' \<and> \<not> is_space c"
  by (auto simp: is_digit_def is_space_def)

lemma str_nat_notin:
  "CHR ''_'' \<notin> set (str_nat n)" "CHR ''-'' \<notin> set (str_nat n)" "CHR ''+'' \<notin> set (str_nat n)"
  "CHR '':'' \<notin> set (str_nat n)" "CHR '','' \<notin> set (str_nat n)" "CHR ''.'' \<notin> set (str_nat n)"
  using str_nat_digits digit_not_special by blast+

lemma py_digits_str_nat [simp]: "py_digits (str_nat n) = Inr n"
  by (auto simp: py_digits_def str_nat_notin list_all_iff str_nat_digits)

lemma strip_str_nat [simp]: "strip (str_nat n) = str_nat n"
  using str_nat_digits digit_not_special by (blast intro: strip_no_space)

lemma py_int_str_nat [simp]: "py_int (str_nat n) = Inr (int n)"
proof (cases "str_nat n")
  case (Cons c cs)
  then have "is_digit c" using str_nat_digits [of c n] by simp
  then have "c \<noteq> CHR ''-''" "c \<noteq> CHR ''+''" by (auto simp: digit_not_special)
  then show ?thesis using Cons py_digits_str_nat [of n] strip_str_nat [of n]
    by (simp add: py_int_def del: py_digits_str_nat strip_str_nat)
qed simp

lemma str_nat_inj: "str_nat m = str_nat n \<longleftrightarrow> m = n"
  by (metis digits_val_str_nat)

lemma strip_str_int: "strip (str_int i) = str_int i"
proof (rule strip_no_space)
  fix x assume "x \<in> set (str_int i)"
  then have "x = CHR ''-'' \<or> is_digit x" by (auto simp: str_int_def str_nat_digits split: if_splits)
  then show "\<not> is_space x" using digit_not_special by (auto simp: is_space_def)
qed

lemma py_int_str_int [simp]: "py_int (str_int i) = Inr i"
proof (cases "i < 0")
  case True
  then show ?thesis using strip_str_int [of i] by (simp add: py_int_def str_int_def)
next
  case False
  then show ?thesis by (simp add: str_int_def)
qed

lemma str_int_inj: "str_int i = str_int j \<longleftrightarrow> i = j"
  by (metis py_int_str_int sum.inject(2))

lemma str_int_notin: "CHR '':'' \<notin> set (str_int i)" "CHR '','' \<notin> set (str_int i)"
  by (auto simp: str_int_def str_nat_notin)

end
