(* ===== verification/Kube.thy ===== *)
theory Kube
  imports PyStr
begin

text \<open>
  The operator's configuration and its view of Kubernetes.

  \<^item> \<open>operator_configuration\<close> is \<open>OperatorConfiguration\<close> (operator/gefyra/configuration.py).
  \<^item> The \<open>record\<close>s below hold the attributes of the client library's model classes
    (\<open>V1ConfigMap\<close>, \<open>V1Service\<close>, \<open>V1Pod\<close>, \<dots>) that the code reads or sets.
  \<^item> \<open>core_v1\<close>, \<open>apps_v1\<close>, \<open>custom_objects\<close>, \<open>events_v1\<close> and \<open>host\<close> stand for the calls that
    leave the process (the API server, pod exec, the clock, the random generator).  They are
    records of functions, always an argument of the definitions that use them; no definition
    of this development says what they return.
\<close>

section \<open>Configuration\<close>

record operator_configuration =
  NAMESPACE :: string
  STOWAWAY_IMAGE :: string
  STOWAWAY_IMAGE_PULLPOLICY :: string
  STOWAWAY_TAG :: string
  WIREGUARD_EXT_PORT :: int
  STOWAWAY_PGID :: string
  STOWAWAY_PUID :: string
  CONNECTION_PROVIDER_STARTUP_TIMEOUT :: int
  STOWAWAY_PEER_DNS :: string
  STOWAWAY_PEER_CONFIG_PATH :: string
  STOWAWAY_INTERNAL_SUBNET :: string
  STOWAWAY_PROXYROUTE_CONFIGMAPNAME :: string
  STOWAWAY_CONFIGMAPNAME :: string
  STOWAWAY_STORAGE :: int
  STOWAWAY_MAX_CONNECTION_AGE :: int
  CARRIER_IMAGE :: string
  CARRIER_IMAGE_TAG :: string
  CARRIER_STARTUP_TIMEOUT :: int
  CARRIER2_IMAGE :: string
  CARRIER2_DEBUG :: bool
  CARRIER2_IMAGE_TAG :: string
  CARRIER_RUNNING_TIMEOUT :: int
  BRIDGE_MOUNT_MISSING_GRACE_PERIOD :: int
  DISABLE_CLIENT_SA_MANAGEMENT :: bool
  APP_REVISION :: string

text \<open>\<open>config(name, default=d, cast=c)\<close> of python-decouple: \<open>env name\<close> is the value set in the
  environment, if any; \<open>to_bool\<close> is the library's cast to \<open>bool\<close>, a parameter.\<close>

definition config_str :: "(string \<Rightarrow> string option) \<Rightarrow> string \<Rightarrow> string \<Rightarrow> string" where
  "config_str env name d = (case env name of None \<Rightarrow> d | Some v \<Rightarrow> v)"

definition config_int :: "(string \<Rightarrow> string option) \<Rightarrow> string \<Rightarrow> int \<Rightarrow> exn + int" where
  "config_int env name d = (case env name of None \<Rightarrow> Inr d | Some v \<Rightarrow> py_int v)"

definition config_bool ::
    "(string \<Rightarrow> exn + bool) \<Rightarrow> (string \<Rightarrow> string option) \<Rightarrow> string \<Rightarrow> bool \<Rightarrow> exn + bool" where
  "config_bool to_bool env name d = (case env name of None \<Rightarrow> Inr d | Some v \<Rightarrow> to_bool v)"

definition config_age :: "(string \<Rightarrow> string option) \<Rightarrow> string \<Rightarrow> int \<Rightarrow> exn + int" where
  "config_age env name d =
     (case env name of None \<Rightarrow> Inr d | Some v \<Rightarrow> if v = [] then Inr (- 1) else py_int v)"

definition OperatorConfiguration ::
    "(string \<Rightarrow> exn + bool) \<Rightarrow> (string \<Rightarrow> string option) \<Rightarrow> exn + operator_configuration" where
  "OperatorConfiguration to_bool env =
     sbind (config_int env ''GEFYRA_STOWAWAY_SERVERPORT'' 31820) (\<lambda>port.
     sbind (config_int env ''CONNECTION_PROVIDER_STARTUP_TIMEOUT'' 180) (\<lambda>timeout.
     sbind (config_int env ''GEFYRA_STOWAWAY_STORAGE'' 64) (\<lambda>storage.
     sbind (config_age env ''GEFYRA_STOWAWAY_MAX_CONNECTION_AGE'' (- 1)) (\<lambda>age.
     sbind (config_int env ''GEFYRA_CARRIER_STARTUP_TIMEOUT'' 60) (\<lambda>cstart.
     sbind (config_bool to_bool env ''GEFYRA_CARRIER2_DEBUG'' False) (\<lambda>debug.
     sbind (config_int env ''GEFYRA_CARRIER_RUNNING_TIMEOUT'' 30) (\<lambda>crun.
     sbind (config_int env ''GEFYRA_BRIDGE_MOUNT_MISSING_GRACE_PERIOD'' 86400) (\<lambda>grace.
     sbind (config_bool to_bool env ''GEFYRA_DISABLE_CLIENT_SA_MANAGEMENT'' False) (\<lambda>nosa.
     Inr \<lparr>NAMESPACE = config_str env ''GEFYRA_NAMESPACE'' ''gefyra'',
       STOWAWAY_IMAGE = config_str env ''GEFYRA_STOWAWAY_IMAGE'' ''quay.io/gefyra/stowaway'',
       STOWAWAY_IMAGE_PULLPOLICY =
         config_str env ''GEFYRA_STOWAWAY_IMAGE_PULLPOLICY'' ''IfNotPresent'',
       STOWAWAY_TAG = config_str env ''GEFYRA_STOWAWAY_TAG'' ''latest'',
       WIREGUARD_EXT_PORT = port,
       STOWAWAY_PGID = config_str env ''GEFYRA_STOWAWAY_PGID'' ''1000'',
       STOWAWAY_PUID = config_str env ''GEFYRA_STOWAWAY_PUID'' ''1000'',
       CONNECTION_PROVIDER_STARTUP_TIMEOUT = timeout,
       STOWAWAY_PEER_DNS = config_str env ''GEFYRA_STOWAWAY_PUID'' ''auto'',
       STOWAWAY_PEER_CONFIG_PATH = config_str env ''GEFYRA_STOWAWAY_PEER_CONFIG_PATH'' ''/config/'',
       STOWAWAY_INTERNAL_SUBNET = config_str env ''GEFYRA_INTERNAL_SUBNET'' ''192.168.99.0'',
       STOWAWAY_PROXYROUTE_CONFIGMAPNAME = ''gefyra-stowaway-proxyroutes'',
       STOWAWAY_CONFIGMAPNAME = ''gefyra-stowaway-config'',
       STOWAWAY_STORAGE = storage,
       STOWAWAY_MAX_CONNECTION_AGE = age,
       CARRIER_IMAGE = config_str env ''GEFYRA_CARRIER_IMAGE'' ''quay.io/gefyra/carrier'',
       CARRIER_IMAGE_TAG = config_str env ''GEFYRA_CARRIER_IMAGE_TAG'' ''latest'',
       CARRIER_STARTUP_TIMEOUT = cstart,
       CARRIER2_IMAGE = config_str env ''GEFYRA_CARRIER2_IMAGE'' ''quay.io/gefyra/carrier2'',
       CARRIER2_DEBUG = debug,
       CARRIER2_IMAGE_TAG = config_str env ''GEFYRA_CARRIER2_IMAGE_TAG'' ''latest'',
       CARRIER_RUNNING_TIMEOUT = crun,
       BRIDGE_MOUNT_MISSING_GRACE_PERIOD = grace,
       DISABLE_CLIENT_SA_MANAGEMENT = nosa,
       APP_REVISION = config_str env ''GEFYRA_APP_REVISION'' ''unknown''\<rparr>)))))))))"

text \<open>The configuration of an operator started without any environment variable.\<close>

definition default_configuration :: operator_configuration where
  "default_configuration = (case OperatorConfiguration (\<lambda>_. Inl ValueError) (\<lambda>_. None) of Inr c \<Rightarrow> c)"

lemma default_configuration_eq:
  "OperatorConfiguration (\<lambda>_. Inl ValueError) (\<lambda>_. None) = Inr default_configuration"
  by (simp add: default_configuration_def OperatorConfiguration_def config_int_def config_bool_def
      config_age_def)

lemma default_configuration_fields [simp]:
  "NAMESPACE default_configuration = ''gefyra''"
  "STOWAWAY_PROXYROUTE_CONFIGMAPNAME default_configuration = ''gefyra-stowaway-proxyroutes''"
  "STOWAWAY_CONFIGMAPNAME default_configuration = ''gefyra-stowaway-config''"
  "CONNECTION_PROVIDER_STARTUP_TIMEOUT default_configuration = 180"
  "BRIDGE_MOUNT_MISSING_GRACE_PERIOD default_configuration = 86400"
  "DISABLE_CLIENT_SA_MANAGEMENT default_configuration = False"
  "STOWAWAY_MAX_CONNECTION_AGE default_configuration = -1"
  "CARRIER2_DEBUG default_configuration = False"
  "CARRIER2_IMAGE default_configuration = ''quay.io/gefyra/carrier2''"
  "CARRIER2_IMAGE_TAG default_configuration = ''latest''"
  by (simp_all add: default_configuration_def OperatorConfiguration_def config_int_def
      config_bool_def config_age_def config_str_def)

section \<open>Kubernetes objects\<close>

record config_map =
  cm_name :: string
  cm_namespace :: string
  cm_labels :: "string dict"
  cm_data :: "string dict option"

record service_port =
  sp_name :: string
  sp_port :: int
  sp_target_port :: int
  sp_protocol :: "string option"
  sp_node_port :: "int option"

record service =
  svc_name :: string
  svc_namespace :: "string option"
  svc_labels :: "string dict option"
  svc_type :: "string option"
  svc_selector :: "string dict"
  svc_ports :: "service_port list"

record http_get_action =
  hg_port :: int
  hg_scheme :: "string option"

record probe =
  pr_exec :: bool
  pr_tcp_socket :: bool
  pr_http_get :: "http_get_action option"
  pr_period_seconds :: "nat option"
  pr_initial_delay_seconds :: "nat option"

record container_port =
  cp_container_port :: int
  cp_protocol :: "string option"

record container =
  c_name :: string
  c_image :: string
  c_command :: "string list option"
  c_args :: "string list option"
  c_ports :: "container_port list option"
  c_startup_probe :: "probe option"
  c_readiness_probe :: "probe option"
  c_liveness_probe :: "probe option"
  c_image_pull_policy :: "string option"
  c_requests :: "string dict"
  c_limits :: "string dict"
  c_env_from :: "string list"
  c_privileged :: bool
  c_capabilities :: "string list"
  c_volume_mounts :: "(string \<times> string) list"

record running_state =
  started_at :: "string option"

record container_state =
  running :: "running_state option"

record container_status =
  cs_name :: string
  cs_ready :: bool
  cs_started :: bool
  cs_state :: "container_state option"
  cs_restart_count :: nat

record pod =
  pod_name :: string
  pod_namespace :: string
  pod_labels :: "string dict option"
  pod_owner_references :: "string list"
  pod_phase :: string
  pod_containers :: "container list"
  pod_container_statuses :: "container_status list option"

datatype workload_kind = Deployment | StatefulSet | PodKind

text \<open>\<open>V1Deployment\<close>, \<open>V1StatefulSet\<close> and \<open>V1Pod\<close> in one record: \<open>wl_kind\<close> is the class; the
  fields under \<open>spec.template\<close> and \<open>spec.selector\<close> are meaningful for the first two.\<close>

record workload =
  wl_kind :: workload_kind
  wl_name :: string
  wl_namespace :: "string option"
  wl_labels :: "string dict option"
  wl_annotations :: "string dict option"
  wl_resource_version :: "string option"
  wl_uid :: "string option"
  wl_match_labels :: "string dict option"
  wl_template_labels :: "string dict option"
  wl_template_annotations :: "string dict option"
  wl_containers :: "container list"
  wl_replicas :: "nat option"
  wl_service_name :: "string option"
  wl_service_account_name :: "string option"
  wl_config_map_volumes :: "(string \<times> string) list"
  wl_host_path_volumes :: "(string \<times> string) list"
  wl_volume_claims :: "(string \<times> string) list"

record service_account =
  sa_name :: string
  sa_namespace :: string
  sa_labels :: "string dict"

section \<open>Calls that leave the process\<close>

record 'w core_v1 =
  create_config_map :: "string \<Rightarrow> config_map \<Rightarrow> ('w, unit) io"
  read_config_map :: "string \<Rightarrow> string \<Rightarrow> ('w, config_map) io"
  patch_config_map :: "string \<Rightarrow> string \<Rightarrow> string dict \<Rightarrow> ('w, unit) io"
  replace_config_map :: "string \<Rightarrow> string \<Rightarrow> config_map \<Rightarrow> ('w, unit) io"
  delete_config_map :: "string \<Rightarrow> string \<Rightarrow> ('w, unit) io"
  list_config_map :: "string \<Rightarrow> string \<Rightarrow> ('w, config_map list) io"
  create_service :: "string \<Rightarrow> service \<Rightarrow> ('w, unit) io"
  read_service :: "string \<Rightarrow> string \<Rightarrow> ('w, service) io"
  patch_service :: "string \<Rightarrow> string \<Rightarrow> service \<Rightarrow> ('w, unit) io"
  delete_service :: "string \<Rightarrow> string \<Rightarrow> ('w, unit) io"
  list_service :: "string \<Rightarrow> string \<Rightarrow> ('w, service list) io"
  list_pod :: "string \<Rightarrow> string \<Rightarrow> ('w, pod list) io"
  read_pod :: "string \<Rightarrow> string \<Rightarrow> ('w, pod) io"
  read_pod_status :: "string \<Rightarrow> string \<Rightarrow> ('w, pod) io"
  patch_pod :: "string \<Rightarrow> string \<Rightarrow> pod \<Rightarrow> ('w, unit) io"
  patch_pod_annotations :: "string \<Rightarrow> string \<Rightarrow> string dict \<Rightarrow> ('w, unit) io"
  delete_pod :: "string \<Rightarrow> string \<Rightarrow> ('w, unit) io"
  exec_pod :: "string \<Rightarrow> string \<Rightarrow> string \<Rightarrow> string list \<Rightarrow> ('w, string) io"
  copy_from_pod :: "string \<Rightarrow> string \<Rightarrow> string \<Rightarrow> ('w, string) io"
  create_service_account :: "string \<Rightarrow> service_account \<Rightarrow> ('w, service_account) io"
  read_service_account :: "string \<Rightarrow> string \<Rightarrow> ('w, service_account) io"
  delete_service_account :: "string \<Rightarrow> string \<Rightarrow> ('w, unit) io"
  read_secret :: "string \<Rightarrow> string \<Rightarrow> ('w, string dict option) io"
  create_token_secret :: "string \<Rightarrow> string \<Rightarrow> string \<Rightarrow> ('w, string dict option) io"
  read_namespace :: "string \<Rightarrow> ('w, unit) io"

record 'w apps_v1 =
  create_workload :: "workload_kind \<Rightarrow> string \<Rightarrow> workload \<Rightarrow> ('w, unit) io"
  read_workload :: "workload_kind \<Rightarrow> string \<Rightarrow> string \<Rightarrow> ('w, workload) io"
  patch_workload :: "workload_kind \<Rightarrow> string \<Rightarrow> string \<Rightarrow> workload \<Rightarrow> ('w, unit) io"
  delete_workload :: "workload_kind \<Rightarrow> string \<Rightarrow> string \<Rightarrow> ('w, unit) io"

record policy_rule =
  pol_api_groups :: "string list"
  pol_resources :: "string list"
  pol_verbs :: "string list"
  pol_resource_names :: "string list"

text \<open>The role calls return the name of the role; a binding has a name, a subject (name and
  namespace of a service account) and the name of the role.\<close>

record 'w rbac_v1 =
  read_cluster_role :: "string \<Rightarrow> ('w, string) io"
  create_cluster_role :: "string \<Rightarrow> policy_rule list \<Rightarrow> ('w, string) io"
  create_cluster_role_binding :: "string \<Rightarrow> string \<times> string \<Rightarrow> string \<Rightarrow> ('w, unit) io"
  delete_cluster_role_binding :: "string \<Rightarrow> ('w, unit) io"

text \<open>\<open>datetime\<close>: a wall-clock time in microseconds, naive or with a UTC offset.\<close>

datatype timestamp = Naive int | Aware int int

record 'w host =
  utcnow :: "('w, int) io"                       \<comment> \<open>the clock, in microseconds\<close>
  isoformat_now :: "('w, string) io"             \<comment> \<open>the current time in ISO format\<close>
  random_suffix :: "('w, string) io"             \<comment> \<open>ten random lower-case letters\<close>
  uuid4 :: "('w, string) io"
  fromisoformat :: "string \<Rightarrow> exn + timestamp"     \<comment> \<open>datetime.fromisoformat\<close>
  sleep :: "nat \<Rightarrow> ('w, unit) io"                \<comment> \<open>milliseconds\<close>

record 'w cluster =
  core :: "'w core_v1"
  apps :: "'w apps_v1"
  host :: "'w host"

text \<open>\<open>_get_now\<close> of operator/gefyra/resources/events.py.\<close>

definition get_now :: "'w host \<Rightarrow> ('w, string) io" where
  "get_now H = bind (isoformat_now H) (\<lambda>s. ret (s @ ''Z''))"

text \<open>\<open>get_label_selector\<close> of operator/gefyra/utils.py.\<close>

definition get_label_selector :: "string dict \<Rightarrow> string" where
  "get_label_selector labels = join '','' (map (\<lambda>(k, v). k @ ''='' @ v) labels)"

end
