(* ===== verification/ConnectionProvider.thy ===== *)
theory ConnectionProvider
  imports Kube
begin

text \<open>
  The interface of a connection provider, operator/gefyra/connection/abstract.py: a record with
  one field per abstract method.  The state machines of clients and bridges hold such a record
  and call it; \<open>StowawayProvider\<close> builds the one the repository has.

  The locales state what the callers rely on.  \<open>destination_provider\<close>: an endpoint returned by
  \<open>add_destination\<close> or \<open>get_destination\<close> has the form \<open>host:port\<close>, which the bridge unpacks
  with \<open>split(":", 1)\<close>.  \<open>peer_provider\<close>: an API error while looking up, adding or removing a
  peer is handled inside the provider.
\<close>

record 'w connection_provider =
  cp_installed :: "('w, bool) io"
  cp_install :: "('w, unit) io"
  cp_uninstall :: "('w, unit) io"
  cp_ready :: "('w, bool) io"
  cp_add_peer :: "string \<Rightarrow> string dict option \<Rightarrow> ('w, unit) io"
  cp_remove_peer :: "string \<Rightarrow> ('w, bool) io"
  cp_get_peer_config :: "string \<Rightarrow> ('w, string dict) io"
  cp_peer_exists :: "string \<Rightarrow> ('w, bool) io"
  cp_add_destination :: "string \<Rightarrow> string \<Rightarrow> int \<Rightarrow> ('w, string) io"
  cp_remove_destination :: "string \<Rightarrow> string \<Rightarrow> int \<Rightarrow> ('w, unit) io"
  cp_destination_exists :: "string \<Rightarrow> string \<Rightarrow> int \<Rightarrow> ('w, bool) io"
  cp_get_destination :: "string \<Rightarrow> string \<Rightarrow> int \<Rightarrow> ('w, string) io"
  cp_validate :: "string dict option \<Rightarrow> string dict \<Rightarrow> ('w, unit) io"

locale destination_provider =
  fixes P :: "'w connection_provider"
  assumes add_endpoint:
      "cp_add_destination P c ip port w = (Inr s, w') \<Longrightarrow> CHR '':'' \<in> set s"
    and get_endpoint:
      "cp_get_destination P c ip port w = (Inr s, w') \<Longrightarrow> CHR '':'' \<in> set s"
    and exists_handled:
      "cp_destination_exists P c ip port w = (Inl e, w') \<Longrightarrow> \<not> is_api_exception e"
begin

lemma add_unpacks:
  "cp_add_destination P c ip port w = (Inr s, w') \<Longrightarrow> \<exists>h q. unpack2 (split1 (CHR '':'') s) = Inr (h, q)"
  by (blast dest: add_endpoint split1_unpack)

lemma get_unpacks:
  "cp_get_destination P c ip port w = (Inr s, w') \<Longrightarrow> \<exists>h q. unpack2 (split1 (CHR '':'') s) = Inr (h, q)"
  by (blast dest: get_endpoint split1_unpack)

end

locale peer_provider =
  fixes P :: "'w connection_provider"
  assumes peer_exists_handled:
      "cp_peer_exists P c w = (Inl e, w') \<Longrightarrow> \<not> is_api_exception e"
    and add_peer_handled:
      "cp_add_peer P c ps w = (Inl e, w') \<Longrightarrow> \<not> is_api_exception e"
    and remove_peer_handled:
      "cp_remove_peer P c w = (Inl e, w') \<Longrightarrow> \<not> is_api_exception e"

end
