(* ===== verification/StowawayResources.thy ===== *)
theory StowawayResources
  imports Kube
begin

text \<open>
  The Kubernetes objects of the Stowaway connection provider
  (operator/gefyra/connection/stowaway/resources/) and the functions that create, check and
  remove them (components.py).  Log lines are left out; every API call is a call on the
  parameter \<open>K\<close>.
\<close>

section \<open>Objects\<close>

definition STOWAWAY_LABELS :: "string dict" where
  "STOWAWAY_LABELS =
     [(''gefyra.dev/app'', ''stowaway''), (''gefyra.dev/role'', ''connection''),
      (''gefyra.dev/provider'', ''stowaway'')]"

definition GEFYRA_APP_LABEL :: string where
  "GEFYRA_APP_LABEL = ''gefyra.dev/app''"

definition create_stowaway_proxyroute_configmap :: "operator_configuration \<Rightarrow> config_map" where
  "create_stowaway_proxyroute_configmap cfg =
     \<lparr>cm_name = STOWAWAY_PROXYROUTE_CONFIGMAPNAME cfg, cm_namespace = NAMESPACE cfg,
      cm_labels = [(''gefyra.dev/app'', ''stowaway''), (''gefyra.dev/role'', ''proxyroute'')],
      cm_data = Some []\<rparr>"

definition create_stowaway_configmap :: "operator_configuration \<Rightarrow> int \<Rightarrow> config_map" where
  "create_stowaway_configmap cfg max_connection_age =
     \<lparr>cm_name = STOWAWAY_CONFIGMAPNAME cfg, cm_namespace = NAMESPACE cfg,
      cm_labels = [(''gefyra.dev/app'', ''stowaway''), (''gefyra.dev/role'', ''connection'')],
      cm_data = Some
        [(''PEERS'', ''0''),
         (''SERVERPORT'', str_int (WIREGUARD_EXT_PORT cfg)),
         (''PUID'', STOWAWAY_PUID cfg),
         (''PGID'', STOWAWAY_PGID cfg),
         (''PEERDNS'', STOWAWAY_PEER_DNS cfg),
         (''INTERNAL_SUBNET'', STOWAWAY_INTERNAL_SUBNET cfg),
         (''DEFAULT_MAX_CONNECTION_AGE'', str_int max_connection_age),
         (''LOG_CONFS'', ''false'')]\<rparr>"

definition create_stowaway_serviceaccount :: "operator_configuration \<Rightarrow> service_account" where
  "create_stowaway_serviceaccount cfg =
     \<lparr>sa_name = ''gefyra-stowaway'', sa_namespace = NAMESPACE cfg,
      sa_labels = [(''gefyra.dev/app'', ''stowaway'')]\<rparr>"

definition stowaway_probe :: probe where
  "stowaway_probe = \<lparr>pr_exec = False, pr_tcp_socket = False,
     pr_http_get = Some \<lparr>hg_port = 51822, hg_scheme = None\<rparr>,
     pr_period_seconds = Some 1, pr_initial_delay_seconds = Some 5\<rparr>"

definition stowaway_container :: "operator_configuration \<Rightarrow> container" where
  "stowaway_container cfg =
     \<lparr>c_name = ''stowaway'',
      c_image = STOWAWAY_IMAGE cfg @ '':'' @ STOWAWAY_TAG cfg,
      c_command = None, c_args = None,
      c_ports = Some [\<lparr>cp_container_port = 51820, cp_protocol = Some ''UDP''\<rparr>,
                      \<lparr>cp_container_port = 51822, cp_protocol = Some ''TCP''\<rparr>],
      c_startup_probe = Some stowaway_probe,
      c_readiness_probe = Some stowaway_probe,
      c_liveness_probe = Some stowaway_probe,
      c_image_pull_policy = Some (STOWAWAY_IMAGE_PULLPOLICY cfg),
      c_requests = [(''cpu'', ''0.1''), (''memory'', ''100Mi'')],
      c_limits = [(''cpu'', ''0.75''), (''memory'', ''500Mi'')],
      c_env_from = [STOWAWAY_CONFIGMAPNAME cfg],
      c_privileged = True,
      c_capabilities = [''NET_ADMIN'', ''SYS_MODULE''],
      c_volume_mounts = [(''proxyroutes'', ''/stowaway/proxyroutes''),
                         (''host-libs'', ''/lib/modules''),
                         (''stowaway-config'', ''/config'')]\<rparr>"

definition create_stowaway_statefulset :: "string dict \<Rightarrow> operator_configuration \<Rightarrow> workload" where
  "create_stowaway_statefulset labels cfg =
     \<lparr>wl_kind = StatefulSet, wl_name = ''gefyra-stowaway'', wl_namespace = Some (NAMESPACE cfg),
      wl_labels = Some labels, wl_annotations = None, wl_resource_version = None, wl_uid = None,
      wl_match_labels = Some labels, wl_template_labels = Some labels,
      wl_template_annotations = None,
      wl_containers = [stowaway_container cfg],
      wl_replicas = Some 1,
      wl_service_name = Some ''gefyra-stowaway'',
      wl_service_account_name = Some ''gefyra-stowaway'',
      wl_config_map_volumes = [(''proxyroutes'', STOWAWAY_PROXYROUTE_CONFIGMAPNAME cfg)],
      wl_host_path_volumes = [(''host-libs'', ''/lib/modules'')],
      wl_volume_claims = [(''stowaway-config'', str_int (STOWAWAY_STORAGE cfg) @ ''Mi'')]\<rparr>"

definition template_selector :: "workload \<Rightarrow> string dict" where
  "template_selector wl = (case wl_template_labels wl of None \<Rightarrow> [] | Some l \<Rightarrow> l)"

definition create_stowaway_nodeport_service :: "operator_configuration \<Rightarrow> workload \<Rightarrow> service" where
  "create_stowaway_nodeport_service cfg stowaway_deployment =
     \<lparr>svc_name = ''gefyra-stowaway-wireguard'',
      svc_namespace = wl_namespace stowaway_deployment,
      svc_labels = Some [(GEFYRA_APP_LABEL, ''stowaway'')],
      svc_type = Some ''NodePort'',
      svc_selector = template_selector stowaway_deployment,
      svc_ports = [\<lparr>sp_name = ''gefyra-wireguard'', sp_port = 51820, sp_target_port = 51820,
        sp_protocol = Some ''UDP'', sp_node_port = Some (WIREGUARD_EXT_PORT cfg)\<rparr>]\<rparr>"

definition create_stowaway_proxy_service :: "workload \<Rightarrow> int \<Rightarrow> string \<Rightarrow> string \<Rightarrow> service" where
  "create_stowaway_proxy_service stowaway_deployment port destination client_id =
     \<lparr>svc_name = ''gefyra-stowaway-proxy-'' @ str_int port,
      svc_namespace = wl_namespace stowaway_deployment,
      svc_labels = Some [(GEFYRA_APP_LABEL, ''stowaway''),
        (''gefyra.dev/role'', ''proxy''),
        (''gefyra.dev/proxy-port'', str_int port),
        (''gefyra.dev/client-id'', client_id),
        (''gefyra.dev/destination'', destination)],
      svc_type = Some ''ClusterIP'',
      svc_selector = template_selector stowaway_deployment,
      svc_ports = [\<lparr>sp_name = str_int port, sp_port = port, sp_target_port = port,
        sp_protocol = None, sp_node_port = None\<rparr>]\<rparr>"

section \<open>Components\<close>

definition on_status :: "nat list \<Rightarrow> ('w, 'a) io \<Rightarrow> exn \<Rightarrow> ('w, 'a) io" where
  "on_status codes m e = (case e of ApiException n \<Rightarrow> if n \<in> set codes then m else raise e | _ \<Rightarrow> raise e)"

definition handle_serviceaccount :: "'w cluster \<Rightarrow> operator_configuration \<Rightarrow> ('w, unit) io" where
  "handle_serviceaccount K cfg =
     try_except
       (thn (create_service_account (core K) (NAMESPACE cfg) (create_stowaway_serviceaccount cfg)) (ret ()))
       (on_status [409] (ret ()))"

definition check_serviceaccount :: "'w cluster \<Rightarrow> operator_configuration \<Rightarrow> ('w, bool) io" where
  "check_serviceaccount K cfg =
     (let sa = create_stowaway_serviceaccount cfg in
      try_except
        (thn (read_service_account (core K) (sa_name sa) (sa_namespace sa)) (ret True))
        (on_status [404] (ret False)))"

definition handle_proxyroute_configmap ::
    "'w cluster \<Rightarrow> operator_configuration \<Rightarrow> ('w, config_map) io" where
  "handle_proxyroute_configmap K cfg =
     (let cm = create_stowaway_proxyroute_configmap cfg in
      thn (try_except
        (create_config_map (core K) (NAMESPACE cfg) cm)
        (on_status [409] (replace_config_map (core K) (cm_name cm) (NAMESPACE cfg) cm)))
      (ret cm))"

definition check_proxyroute_configmap :: "'w cluster \<Rightarrow> operator_configuration \<Rightarrow> ('w, bool) io" where
  "check_proxyroute_configmap K cfg =
     (let cm = create_stowaway_proxyroute_configmap cfg in
      try_except
        (thn (read_config_map (core K) (cm_name cm) (cm_namespace cm)) (ret True))
        (on_status [404] (ret False)))"

definition handle_config_configmap ::
    "'w cluster \<Rightarrow> operator_configuration \<Rightarrow> ('w, config_map) io" where
  "handle_config_configmap K cfg =
     (let cm = create_stowaway_configmap cfg (- 1) in
      thn (try_except
        (create_config_map (core K) (NAMESPACE cfg) cm)
        (on_status [409] (replace_config_map (core K) (cm_name cm) (NAMESPACE cfg) cm)))
      (ret cm))"

definition check_config_configmap :: "'w cluster \<Rightarrow> operator_configuration \<Rightarrow> ('w, bool) io" where
  "check_config_configmap K cfg =
     (let cm = create_stowaway_configmap cfg (- 1) in
      try_except
        (thn (read_config_map (core K) (cm_name cm) (cm_namespace cm)) (ret True))
        (on_status [404] (ret False)))"

definition handle_stowaway_statefulset ::
    "'w cluster \<Rightarrow> operator_configuration \<Rightarrow> string dict \<Rightarrow> ('w, workload) io" where
  "handle_stowaway_statefulset K cfg labels =
     (let sts = create_stowaway_statefulset labels cfg in
      thn (try_except
        (create_workload (apps K) StatefulSet (NAMESPACE cfg) sts)
        (on_status [409] (patch_workload (apps K) StatefulSet (wl_name sts) (NAMESPACE cfg) sts)))
      (ret sts))"

text \<open>\<open>containers[0].image\<close> of a StatefulSet read from the cluster.\<close>

definition first_image :: "workload \<Rightarrow> exn + string" where
  "first_image wl = sbind (nth_item (wl_containers wl) 0) (\<lambda>c. Inr (c_image c))"

definition check_stowaway_statefulset ::
    "'w cluster \<Rightarrow> operator_configuration \<Rightarrow> string dict \<Rightarrow> ('w, bool) io" where
  "check_stowaway_statefulset K cfg labels =
     (let stowaway_sts = create_stowaway_statefulset labels cfg;
          ns = NAMESPACE cfg in
      try_except
        (bind (read_workload (apps K) StatefulSet (wl_name stowaway_sts) ns) (\<lambda>sts.
         bind (of_sum (first_image sts)) (\<lambda>img.
         bind (of_sum (first_image stowaway_sts)) (\<lambda>wanted.
         thn (whenever (img \<noteq> wanted)
           (thn (delete_workload (apps K) StatefulSet (wl_name stowaway_sts) ns)
             (thn (handle_stowaway_statefulset K cfg labels) (ret ()))))
         (ret True)))))
        (on_status [404] (ret False)))"

definition handle_stowaway_nodeport_service ::
    "'w cluster \<Rightarrow> operator_configuration \<Rightarrow> workload \<Rightarrow> ('w, unit) io" where
  "handle_stowaway_nodeport_service K cfg stowaway_sts =
     try_except
       (create_service (core K) (NAMESPACE cfg) (create_stowaway_nodeport_service cfg stowaway_sts))
       (on_status [409, 422] (ret ()))"

definition ns_of :: "string option \<Rightarrow> string" where
  "ns_of n = (case n of None \<Rightarrow> ''None'' | Some s \<Rightarrow> s)"

definition check_stowaway_nodeport_service ::
    "'w cluster \<Rightarrow> operator_configuration \<Rightarrow> workload \<Rightarrow> ('w, bool) io" where
  "check_stowaway_nodeport_service K cfg stowaway_sts =
     (let svc = create_stowaway_nodeport_service cfg stowaway_sts in
      try_except
        (thn (read_service (core K) (svc_name svc) (ns_of (svc_namespace svc))) (ret True))
        (on_status [404] (ret False)))"

definition swallow_api_exception :: "exn \<Rightarrow> ('w, unit) io" where
  "swallow_api_exception e = (if is_api_exception e then ret () else raise e)"

definition remove_stowaway_services :: "'w cluster \<Rightarrow> operator_configuration \<Rightarrow> ('w, unit) io" where
  "remove_stowaway_services K cfg =
     try_except
       (bind (list_service (core K) (NAMESPACE cfg) ''gefyra.dev/app=stowaway'') (\<lambda>svc_list.
        for_each (\<lambda>svc. delete_service (core K) (svc_name svc) (NAMESPACE cfg)) svc_list))
       swallow_api_exception"

definition remove_stowaway_statefulset :: "'w cluster \<Rightarrow> workload \<Rightarrow> ('w, unit) io" where
  "remove_stowaway_statefulset K stowaway_sts =
     try_except
       (delete_workload (apps K) StatefulSet (wl_name stowaway_sts) (ns_of (wl_namespace stowaway_sts)))
       swallow_api_exception"

definition remove_stowaway_configmaps :: "'w cluster \<Rightarrow> operator_configuration \<Rightarrow> ('w, unit) io" where
  "remove_stowaway_configmaps K cfg =
     try_except
       (bind (list_config_map (core K) (NAMESPACE cfg) ''gefyra.dev/app=stowaway'') (\<lambda>configmaps.
        for_each (\<lambda>cm. delete_config_map (core K) (cm_name cm) (cm_namespace cm)) configmaps))
       swallow_api_exception"

definition handle_stowaway_proxy_service ::
    "'w cluster \<Rightarrow> operator_configuration \<Rightarrow> workload \<Rightarrow> int \<Rightarrow> string \<Rightarrow> string \<Rightarrow> ('w, service) io" where
  "handle_stowaway_proxy_service K cfg deployment_stowaway port destination client_id =
     (let svc = create_stowaway_proxy_service deployment_stowaway port destination client_id in
      thn (try_except
        (create_service (core K) (NAMESPACE cfg) svc)
        (on_status [409, 422] (patch_service (core K) (svc_name svc) (NAMESPACE cfg) svc)))
      (ret svc))"

section \<open>Facts\<close>

lemma on_status_simps [simp]:
  "n \<in> set codes \<Longrightarrow> on_status codes m (ApiException n) = m"
  "n \<notin> set codes \<Longrightarrow> on_status codes m (ApiException n) = raise (ApiException n)"
  "\<not> is_api_exception e \<Longrightarrow> on_status codes m e = raise e"
  by (auto simp: on_status_def split: exn.split)

lemma keeps_on_status: "keeps v m \<Longrightarrow> keeps v (on_status codes m e)"
  by (cases e) (auto simp: on_status_def)

lemma keeps_swallow [simp]: "keeps v (swallow_api_exception e)"
  by (simp add: swallow_api_exception_def)

text \<open>The services, probes and volumes of the StatefulSet refer to what it declares.\<close>

definition declared_ports :: "workload \<Rightarrow> int set" where
  "declared_ports wl =
     (\<Union>c \<in> set (wl_containers wl). case c_ports c of None \<Rightarrow> {} | Some ps \<Rightarrow> cp_container_port ` set ps)"

definition declared_volumes :: "workload \<Rightarrow> string set" where
  "declared_volumes wl = fst ` (set (wl_config_map_volumes wl) \<union> set (wl_host_path_volumes wl)
     \<union> set (wl_volume_claims wl))"

lemma stowaway_nodeport_selects:
  "svc_selector (create_stowaway_nodeport_service cfg (create_stowaway_statefulset labels cfg)) = labels"
  by (simp add: create_stowaway_nodeport_service_def create_stowaway_statefulset_def
      template_selector_def)

lemma proxy_service_name_inj:
  "svc_name (create_stowaway_proxy_service d p dest c) = svc_name (create_stowaway_proxy_service d' p' dest' c')
     \<longleftrightarrow> p = p'"
  by (simp add: create_stowaway_proxy_service_def str_int_inj)

end
