(* ===== verification/Stowaway.thy ===== *)
theory Stowaway
  imports StowawayResources
begin

text \<open>
  The Stowaway connection provider, operator/gefyra/connection/stowaway/__init__.py: WireGuard
  peers in the \<open>PEERS\<close> entry of one ConfigMap, proxy routes \<open>ip:port,stowaway_port\<close> in
  another, one proxy Service per route.  Every method is a definition with the same name; the
  API calls go through the parameter \<open>K\<close>.
\<close>

section \<open>Reading the cluster\<close>

definition get_stowaway_pod :: "'w cluster \<Rightarrow> operator_configuration \<Rightarrow> ('w, pod option) io" where
  "get_stowaway_pod K cfg =
     bind (list_pod (core K) (NAMESPACE cfg) (get_label_selector STOWAWAY_LABELS)) (\<lambda>pods.
     ret (case pods of [] \<Rightarrow> None | p # _ \<Rightarrow> Some p))"

definition read_wireguard_status ::
    "'w cluster \<Rightarrow> operator_configuration \<Rightarrow> ('w, string option) io" where
  "read_wireguard_status K cfg =
     bind (get_stowaway_pod K cfg) (\<lambda>pod. case pod of
       None \<Rightarrow> ret None
     | Some p \<Rightarrow> try_except
         (bind (exec_pod (core K) (pod_name p) (pod_namespace p) ''stowaway'' [''wg''])
           (\<lambda>out. ret (Some out)))
         (\<lambda>_. ret None))"

definition stowaway_ready :: "'w cluster \<Rightarrow> operator_configuration \<Rightarrow> ('w, bool) io" where
  "stowaway_ready K cfg =
     bind (get_stowaway_pod K cfg) (\<lambda>pod. case pod of
       None \<Rightarrow> ret False
     | Some p \<Rightarrow> (case pod_container_statuses p of
         None \<Rightarrow> ret False
       | Some sts \<Rightarrow> bind (of_sum (nth_item sts 0)) (\<lambda>s. ret (cs_ready s))))"

section \<open>Installation\<close>

definition stowaway_install :: "'w cluster \<Rightarrow> operator_configuration \<Rightarrow> ('w, unit) io" where
  "stowaway_install K cfg =
     thn (handle_serviceaccount K cfg)
     (thn (handle_proxyroute_configmap K cfg)
     (thn (handle_config_configmap K cfg)
     (bind (handle_stowaway_statefulset K cfg STOWAWAY_LABELS) (\<lambda>sts_stowaway.
      handle_stowaway_nodeport_service K cfg sts_stowaway))))"

definition stowaway_installed :: "'w cluster \<Rightarrow> operator_configuration \<Rightarrow> ('w, bool) io" where
  "stowaway_installed K cfg =
     bind (check_serviceaccount K cfg) (\<lambda>b1.
     bind (check_proxyroute_configmap K cfg) (\<lambda>b2.
     bind (check_config_configmap K cfg) (\<lambda>b3.
     bind (check_stowaway_statefulset K cfg STOWAWAY_LABELS) (\<lambda>b4.
     bind (check_stowaway_nodeport_service K cfg
             (create_stowaway_statefulset STOWAWAY_LABELS cfg)) (\<lambda>b5.
     ret (b1 \<and> b2 \<and> b3 \<and> b4 \<and> b5))))))"

definition stowaway_uninstall :: "'w cluster \<Rightarrow> operator_configuration \<Rightarrow> ('w, unit) io" where
  "stowaway_uninstall K cfg =
     thn (remove_stowaway_services K cfg)
     (thn (remove_stowaway_statefulset K (create_stowaway_statefulset STOWAWAY_LABELS cfg))
     (remove_stowaway_configmaps K cfg))"

section \<open>Peers\<close>

text \<open>\<open>re.sub\<close> of every character that is not an ASCII letter or digit by \<open>000\<close>.\<close>

definition translate_peer_name :: "string \<Rightarrow> string" where
  "translate_peer_name peer_id = concat (map (\<lambda>c. if is_alnum c then [c] else ''000'') peer_id)"

text \<open>\<open>configmap.data[k]\<close>: \<open>data\<close> is None for a ConfigMap without data.\<close>

definition data_item :: "config_map \<Rightarrow> string \<Rightarrow> exn + string" where
  "data_item cm k = (case cm_data cm of None \<Rightarrow> Inl TypeError | Some d \<Rightarrow> item d k)"

definition ALLOWEDIPS :: string where
  "ALLOWEDIPS = ''SERVER_ALLOWEDIPS_PEER_''"

text \<open>The two bodies of \<open>_edit_peer_configmap\<close>: the data patched in when a peer is added, and
  the data that replaces the ConfigMap's when one is removed.\<close>

definition peer_patch :: "string list \<Rightarrow> string \<Rightarrow> string option \<Rightarrow> string dict" where
  "peer_patch peers add subnet =
     (let data = [(''PEERS'', join '','' (add # peers))] in
      case subnet of
        Some s \<Rightarrow> if s = [] then data else dset data (ALLOWEDIPS @ add) s
      | None \<Rightarrow> data)"

definition peer_removed :: "string dict \<Rightarrow> string list \<Rightarrow> string \<Rightarrow> string dict" where
  "peer_removed d peers rm = dset (ddel d (ALLOWEDIPS @ rm)) ''PEERS'' (join '','' (remove1 rm peers))"

definition edit_peer_configmap ::
    "'w cluster \<Rightarrow> operator_configuration \<Rightarrow> string option \<Rightarrow> string option \<Rightarrow> string option
     \<Rightarrow> ('w, unit) io" where
  "edit_peer_configmap K cfg add remove subnet =
     (let config = create_stowaway_configmap cfg (- 1) in
      bind (read_config_map (core K) (cm_name config) (cm_namespace config)) (\<lambda>configmap.
      bind (of_sum (data_item configmap ''PEERS'')) (\<lambda>entry.
      let peers = split (CHR '','') entry;
          adding = (case add of None \<Rightarrow> None
            | Some a \<Rightarrow> if a = [] then None else Some (translate_peer_name a));
          removing = (case remove of None \<Rightarrow> None
            | Some r \<Rightarrow> if r = [] then None else Some (translate_peer_name r)) in
      bind (case adding of
          None \<Rightarrow> ret peers
        | Some a \<Rightarrow> if a \<in> set peers then ret peers
            else thn (patch_config_map (core K) (cm_name configmap) (cm_namespace configmap)
                   (peer_patch peers a subnet)) (ret (a # peers))) (\<lambda>peers.
      case removing of
        None \<Rightarrow> ret ()
      | Some r \<Rightarrow> if r \<notin> set peers then ret ()
          else replace_config_map (core K) (cm_name configmap) (cm_namespace configmap)
            (configmap\<lparr>cm_data :=
               map_option (\<lambda>d. peer_removed d peers r) (cm_data configmap)\<rparr>)))))"

text \<open>The busy wait of \<open>_restart_stowaway\<close>: at most \<open>CONNECTION_PROVIDER_STARTUP_TIMEOUT\<close> rounds.\<close>

fun wait_ready :: "'w cluster \<Rightarrow> operator_configuration \<Rightarrow> nat \<Rightarrow> ('w, unit) io" where
  "wait_ready K cfg 0 = bind (stowaway_ready K cfg) (\<lambda>_. ret ())"
| "wait_ready K cfg (Suc n) = bind (stowaway_ready K cfg) (\<lambda>r.
     if r then ret () else thn (sleep (host K) 1000) (wait_ready K cfg n))"

definition restart_stowaway :: "'w cluster \<Rightarrow> operator_configuration \<Rightarrow> ('w, unit) io" where
  "restart_stowaway K cfg =
     bind (get_stowaway_pod K cfg) (\<lambda>pod. case pod of
       None \<Rightarrow> raise RuntimeError
     | Some p \<Rightarrow> thn (delete_pod (core K) (pod_name p) (pod_namespace p))
         (wait_ready K cfg (nat (CONNECTION_PROVIDER_STARTUP_TIMEOUT cfg))))"

definition add_peer ::
    "'w cluster \<Rightarrow> operator_configuration \<Rightarrow> string \<Rightarrow> string dict option \<Rightarrow> ('w, unit) io" where
  "add_peer K cfg peer_id parameters =
     (let params = (case parameters of None \<Rightarrow> [] | Some d \<Rightarrow> d) in
      try_except
        (thn (edit_peer_configmap K cfg (Some peer_id) None (dget params ''subnet''))
         (thn (restart_stowaway K cfg) (sleep (host K) 1000)))
        swallow_api_exception)"

definition remove_peer :: "'w cluster \<Rightarrow> operator_configuration \<Rightarrow> string \<Rightarrow> ('w, bool) io" where
  "remove_peer K cfg peer_id =
     try_except
       (thn (edit_peer_configmap K cfg None (Some peer_id) None)
        (bind (get_stowaway_pod K cfg) (\<lambda>pod. case pod of
           None \<Rightarrow> raise RuntimeError
         | Some p \<Rightarrow>
             thn (exec_pod (core K) (pod_name p) (pod_namespace p) ''stowaway''
                    [''rm'', ''-rf'', ''/config/peer_'' @ translate_peer_name peer_id])
             (thn (restart_stowaway K cfg)
             (thn (sleep (host K) 1000) (ret True))))))
       (\<lambda>e. if is_api_exception e then ret False else raise e)"

definition peer_exists :: "'w cluster \<Rightarrow> operator_configuration \<Rightarrow> string \<Rightarrow> ('w, bool) io" where
  "peer_exists K cfg peer_id =
     (let config = create_stowaway_configmap cfg (- 1) in
      try_except
        (bind (read_config_map (core K) (cm_name config) (cm_namespace config)) (\<lambda>configmap.
         bind (of_sum (data_item configmap ''PEERS'')) (\<lambda>entry.
         ret (translate_peer_name peer_id \<in> set (split (CHR '','') entry)))))
        (\<lambda>e. if is_api_exception e then ret False else raise e))"

text \<open>One line of \<open>_read_wireguard_config\<close>: the section prefix and the dictionary so far.\<close>

fun read_wireguard_line :: "string \<times> string dict \<Rightarrow> string \<Rightarrow> string \<times> string dict" where
  "read_wireguard_line (pre, data) line =
     (if strip line = [] then (pre, data)
      else if contains line ''[Interface]'' then (''Interface'', data)
      else if contains line ''[Peer]'' then (''Peer'', data)
      else case split1 (CHR ''='') line of
             [key, value] \<Rightarrow> (pre, dset data (pre @ ''.'' @ strip key) (strip value))
           | _ \<Rightarrow> (pre, data))"

definition read_wireguard_config :: "string \<Rightarrow> string dict" where
  "read_wireguard_config raw =
     snd (foldl read_wireguard_line (''none'', []) (split (CHR ''\<newline>'') raw))"

text \<open>\<open>os.path.join\<close> of relative parts.\<close>

definition path_join2 :: "string \<Rightarrow> string \<Rightarrow> string" where
  "path_join2 a b = (if b \<noteq> [] \<and> hd b = CHR ''/'' then b
     else if a = [] \<or> last a = CHR ''/'' then a @ b else a @ ''/'' @ b)"

definition get_wireguard_connection_details ::
    "'w cluster \<Rightarrow> operator_configuration \<Rightarrow> string \<Rightarrow> ('w, string dict) io" where
  "get_wireguard_connection_details K cfg peer_id =
     bind (get_stowaway_pod K cfg) (\<lambda>pod. case pod of
       None \<Rightarrow> raise RuntimeError
     | Some p \<Rightarrow>
         (let peer = translate_peer_name peer_id;
              dir = path_join2 (STOWAWAY_PEER_CONFIG_PATH cfg) (''peer_'' @ peer);
              peer_config_file = path_join2 dir (''peer_'' @ peer @ ''.conf'');
              peer_public_key = path_join2 dir (''publickey-peer_'' @ peer) in
          bind (copy_from_pod (core K) (pod_name p) (NAMESPACE cfg) peer_config_file) (\<lambda>raw.
          bind (copy_from_pod (core K) (pod_name p) (NAMESPACE cfg) peer_public_key) (\<lambda>pubkey.
          ret (dset (read_wireguard_config raw) ''Interface.PublicKey'' (strip pubkey))))))"

definition get_peer_config ::
    "'w cluster \<Rightarrow> operator_configuration \<Rightarrow> string \<Rightarrow> ('w, string dict) io" where
  "get_peer_config K cfg peer_id =
     bind (peer_exists K cfg peer_id) (\<lambda>b.
       if b then get_wireguard_connection_details K cfg peer_id else raise RuntimeError)"

section \<open>Proxy routes\<close>

text \<open>The lowest port from 10000 to 59999 that is not taken.\<close>

function first_free :: "int set \<Rightarrow> nat \<Rightarrow> nat option" where
  "first_free taken port =
     (if 60000 \<le> port then None
      else if int port \<notin> taken then Some port else first_free taken (Suc port))"
  by pat_completeness auto
termination
  by (relation "measure (\<lambda>(taken, port). 60000 - port)") auto

declare first_free.simps [simp del]

text \<open>\<open>int(v.split(",")[1])\<close> and \<open>v.split(",")[0]\<close> of a route \<open>ip:port,stowaway_port\<close>.\<close>

definition route_port_str :: "string \<Rightarrow> exn + string" where
  "route_port_str v = nth_item (split (CHR '','') v) 1"

definition route_port :: "string \<Rightarrow> exn + int" where
  "route_port v = sbind (route_port_str v) py_int"

definition route_dest :: "string \<Rightarrow> string" where
  "route_dest v = hd (split (CHR '','') v)"

definition free_port_of :: "string dict option \<Rightarrow> exn + nat" where
  "free_port_of routes =
     (case routes of
        None \<Rightarrow> (case first_free {} 10000 of Some p \<Rightarrow> Inr p | None \<Rightarrow> Inl RuntimeError)
      | Some d \<Rightarrow> sbind (map_sum_list route_port (dvalues d)) (\<lambda>taken_ports.
          case first_free (set taken_ports) 10000 of Some p \<Rightarrow> Inr p | None \<Rightarrow> Inl RuntimeError))"

definition get_free_proxyroute_port :: "'w cluster \<Rightarrow> operator_configuration \<Rightarrow> ('w, nat) io" where
  "get_free_proxyroute_port K cfg =
     (let config = create_stowaway_proxyroute_configmap cfg in
      bind (read_config_map (core K) (cm_name config) (cm_namespace config)) (\<lambda>configmap.
      of_sum (free_port_of (cm_data configmap))))"

text \<open>The loop of the \<open>remove\<close> branch: the last route with this destination, and its port; no
  route is \<open>(None, "0")\<close>.  A matching route without a port raises \<open>IndexError\<close>.\<close>

fun find_route ::
    "string \<Rightarrow> string option \<times> string \<Rightarrow> string dict \<Rightarrow> exn + string option \<times> string" where
  "find_route remove acc [] = Inr acc"
| "find_route remove acc ((k, v) # routes) =
     (if route_dest v = remove
      then sbind (route_port_str v) (\<lambda>p. find_route remove (Some k, p) routes)
      else find_route remove acc routes)"

definition edit_proxyroutes_add ::
    "'w cluster \<Rightarrow> operator_configuration \<Rightarrow> string \<Rightarrow> string \<Rightarrow> ('w, nat) io" where
  "edit_proxyroutes_add K cfg peer_id add =
     (let config = create_stowaway_proxyroute_configmap cfg in
      bind (read_config_map (core K) (cm_name config) (cm_namespace config)) (\<lambda>configmap.
      let routes = (case cm_data configmap of None \<Rightarrow> [] | Some d \<Rightarrow> d) in
      bind (get_free_proxyroute_port K cfg) (\<lambda>stowaway_port.
      bind (random_suffix (host K)) (\<lambda>rnd.
      thn (patch_config_map (core K) (cm_name configmap) (cm_namespace configmap)
            (dset routes (peer_id @ ''-'' @ rnd) (add @ '','' @ str_nat stowaway_port)))
      (ret stowaway_port)))))"

definition delete_route ::
    "'w cluster \<Rightarrow> config_map \<Rightarrow> string dict \<Rightarrow> string option \<Rightarrow> ('w, unit) io" where
  "delete_route K configmap routes to_be_deleted =
     (case to_be_deleted of
        None \<Rightarrow> ret ()
      | Some k \<Rightarrow> if k = [] then ret () else
          replace_config_map (core K) (cm_name configmap) (cm_namespace configmap)
            (configmap\<lparr>cm_data := Some (ddel routes k)\<rparr>))"

definition edit_proxyroutes_remove ::
    "'w cluster \<Rightarrow> operator_configuration \<Rightarrow> string \<Rightarrow> ('w, int) io" where
  "edit_proxyroutes_remove K cfg remove =
     (let config = create_stowaway_proxyroute_configmap cfg in
      bind (read_config_map (core K) (cm_name config) (cm_namespace config)) (\<lambda>configmap.
      let routes = (case cm_data configmap of None \<Rightarrow> [] | Some d \<Rightarrow> d) in
      bind (of_sum (find_route remove (None, ''0'') routes)) (\<lambda>(to_be_deleted, stowaway_port).
      thn (delete_route K configmap routes to_be_deleted) (of_sum (py_int stowaway_port)))))"

definition edit_proxyroutes_configmap ::
    "'w cluster \<Rightarrow> operator_configuration \<Rightarrow> string \<Rightarrow> string option \<Rightarrow> string option \<Rightarrow> ('w, int) io" where
  "edit_proxyroutes_configmap K cfg peer_id add remove =
     (case add of
        Some (a # as) \<Rightarrow> bind (edit_proxyroutes_add K cfg peer_id (a # as)) (\<lambda>p. ret (int p))
      | _ \<Rightarrow> (case remove of
          Some (r # rs) \<Rightarrow> edit_proxyroutes_remove K cfg (r # rs)
        | _ \<Rightarrow> thn (let config = create_stowaway_proxyroute_configmap cfg in
                    read_config_map (core K) (cm_name config) (cm_namespace config))
               (raise ValueError)))"

section \<open>Destinations\<close>

definition notify_stowaway_pod :: "'w cluster \<Rightarrow> operator_configuration \<Rightarrow> string \<Rightarrow> ('w, unit) io" where
  "notify_stowaway_pod K cfg name =
     thn (try_except
           (bind (get_now (host K)) (\<lambda>now.
            patch_pod_annotations (core K) name (NAMESPACE cfg)
              [(''operator'', ''update-notification-'' @ now)]))
           swallow_api_exception)
     (sleep (host K) 1000)"

definition destination_str :: "string \<Rightarrow> int \<Rightarrow> string" where
  "destination_str ip port = ip @ '':'' @ str_int port"

definition destination_label :: "string \<Rightarrow> int \<Rightarrow> string" where
  "destination_label ip port = ip @ ''_'' @ str_int port"

definition destination_labels :: "string \<Rightarrow> string \<Rightarrow> int \<Rightarrow> string dict" where
  "destination_labels peer_id ip port =
     [(''gefyra.dev/app'', ''stowaway''), (''gefyra.dev/role'', ''proxy''),
      (''gefyra.dev/client-id'', peer_id), (''gefyra.dev/destination'', destination_label ip port)]"

definition endpoint_url :: "operator_configuration \<Rightarrow> string \<Rightarrow> string \<Rightarrow> string" where
  "endpoint_url cfg svc port = svc @ ''.'' @ NAMESPACE cfg @ ''.svc.cluster.local:'' @ port"

definition add_destination ::
    "'w cluster \<Rightarrow> operator_configuration \<Rightarrow> string \<Rightarrow> string \<Rightarrow> int \<Rightarrow> ('w, string) io" where
  "add_destination K cfg peer_id destination_ip destination_port =
     bind (edit_proxyroutes_configmap K cfg peer_id
             (Some (destination_str destination_ip destination_port)) None) (\<lambda>stowaway_port.
     bind (handle_stowaway_proxy_service K cfg (create_stowaway_statefulset STOWAWAY_LABELS cfg)
             stowaway_port (destination_label destination_ip destination_port) peer_id) (\<lambda>svc.
     bind (get_stowaway_pod K cfg) (\<lambda>stowaway_pod. case stowaway_pod of
         None \<Rightarrow> raise RuntimeError
       | Some p \<Rightarrow> thn (notify_stowaway_pod K cfg (pod_name p))
           (ret (endpoint_url cfg (svc_name svc) (str_int stowaway_port))))))"

definition list_destination_services ::
    "'w cluster \<Rightarrow> operator_configuration \<Rightarrow> string \<Rightarrow> string \<Rightarrow> int \<Rightarrow> ('w, service list) io" where
  "list_destination_services K cfg peer_id ip port =
     list_service (core K) (NAMESPACE cfg) (get_label_selector (destination_labels peer_id ip port))"

definition get_destination ::
    "'w cluster \<Rightarrow> operator_configuration \<Rightarrow> string \<Rightarrow> string \<Rightarrow> int \<Rightarrow> ('w, string) io" where
  "get_destination K cfg peer_id destination_ip destination_port =
     bind (list_destination_services K cfg peer_id destination_ip destination_port) (\<lambda>svcs.
     case svcs of
       [] \<Rightarrow> raise RuntimeError
     | svc # _ \<Rightarrow>
         bind (of_sum (unpack2 (rsplit1 (CHR ''-'') (svc_name svc)))) (\<lambda>(_, stowaway_port).
         ret (endpoint_url cfg (svc_name svc) stowaway_port)))"

definition remove_destination ::
    "'w cluster \<Rightarrow> operator_configuration \<Rightarrow> string \<Rightarrow> string \<Rightarrow> int \<Rightarrow> ('w, unit) io" where
  "remove_destination K cfg peer_id destination_ip destination_port =
     bind (edit_proxyroutes_configmap K cfg peer_id None
             (Some (destination_str destination_ip destination_port))) (\<lambda>stowaway_port.
     let proxy_svc = create_stowaway_proxy_service (create_stowaway_statefulset STOWAWAY_LABELS cfg)
           stowaway_port (destination_label destination_ip destination_port) peer_id in
     thn (try_except
           (delete_service (core K) (svc_name proxy_svc) (ns_of (svc_namespace proxy_svc)))
           (on_status [404] (ret ())))
     (bind (get_stowaway_pod K cfg) (\<lambda>stowaway_pod. case stowaway_pod of
         None \<Rightarrow> raise RuntimeError
       | Some p \<Rightarrow> notify_stowaway_pod K cfg (pod_name p))))"

definition destination_exists ::
    "'w cluster \<Rightarrow> operator_configuration \<Rightarrow> string \<Rightarrow> string \<Rightarrow> int \<Rightarrow> ('w, bool) io" where
  "destination_exists K cfg peer_id destination_ip destination_port =
     (let config = create_stowaway_proxyroute_configmap cfg in
      try_except
        (bind (list_destination_services K cfg peer_id destination_ip destination_port) (\<lambda>svcs.
         if svcs = [] then ret False else
         bind (read_config_map (core K) (cm_name config) (cm_namespace config)) (\<lambda>configmap.
         case cm_data configmap of
           None \<Rightarrow> ret False
         | Some d \<Rightarrow> ret (\<exists>v \<in> set (dvalues d).
             contains v (destination_str destination_ip destination_port)))))
        (\<lambda>e. if is_api_exception e then ret False else raise e))"

section \<open>Validation\<close>

text \<open>\<open>WIREGUARD_CIDR_PATTERN.match\<close>: four groups of one to three digits, a slash and another;
  \<open>$\<close> also matches before one trailing newline.\<close>

definition digits_1_3 :: "string \<Rightarrow> bool" where
  "digits_1_3 s \<longleftrightarrow> 1 \<le> length s \<and> length s \<le> 3 \<and> list_all is_digit s"

definition drop_final_newline :: "string \<Rightarrow> string" where
  "drop_final_newline s = (if s \<noteq> [] \<and> last s = CHR ''\<newline>'' then butlast s else s)"

definition cidr_match :: "string \<Rightarrow> bool" where
  "cidr_match s = (case split (CHR ''/'') (drop_final_newline s) of
     [ip, len] \<Rightarrow> length (split (CHR ''.'') ip) = 4 \<and> list_all digits_1_3 (split (CHR ''.'') ip)
       \<and> digits_1_3 len
   | _ \<Rightarrow> False)"

definition subnet_taken :: "'w cluster \<Rightarrow> operator_configuration \<Rightarrow> string \<Rightarrow> ('w, bool) io" where
  "subnet_taken K cfg subnet =
     (let config = create_stowaway_configmap cfg (- 1) in
      bind (read_config_map (core K) (cm_name config) (cm_namespace config)) (\<lambda>configmap.
      case cm_data configmap of
        None \<Rightarrow> raise AttributeError
      | Some d \<Rightarrow> ret (\<exists>(k, v) \<in> set d. startswith k ALLOWEDIPS
          \<and> hd (split1 (CHR ''/'') v) = hd (split1 (CHR ''/'') subnet))))"

definition stowaway_validate ::
    "'w cluster \<Rightarrow> operator_configuration \<Rightarrow> string dict option \<Rightarrow> string dict \<Rightarrow> ('w, unit) io" where
  "stowaway_validate K cfg providerParameter hints =
     (case providerParameter of None \<Rightarrow> ret () | Some wireguard_parameter \<Rightarrow>
      (case dget wireguard_parameter ''subnet'' of None \<Rightarrow> ret () | Some subnet \<Rightarrow>
       if subnet = [] then ret ()
       else if \<not> cidr_match subnet then raise (AdmissionError ''subnet does not validate'')
       else if dget hints ''added'' = Some ''providerParameter''
         then bind (subnet_taken K cfg subnet) (\<lambda>taken.
           if taken then raise (AdmissionError ''subnet is already taken'') else ret ())
         else ret ()))"

end
