(* ===== verification/StowawayRoutes.thy ===== *)
theory StowawayRoutes
  imports Stowaway
begin

text \<open>
  The proxy-route table: what a route is, which port a new route gets, and the invariant that
  every operation on the table keeps, whatever the API server answers (\<open>route_store\<close> states
  what a ConfigMap promises: a read returns the data, a patch merges, a replace overwrites, and a
  failed call changes nothing).
\<close>

section \<open>Free ports\<close>

lemma first_free_Some:
  "first_free taken port = Some p \<Longrightarrow>
     port \<le> p \<and> p < 60000 \<and> int p \<notin> taken \<and> (\<forall>q. port \<le> q \<longrightarrow> q < p \<longrightarrow> int q \<in> taken)"
proof (induction taken port rule: first_free.induct)
  case (1 taken port)
  show ?case
  proof (cases "60000 \<le> port \<or> int port \<notin> taken")
    case True
    with 1 show ?thesis by (auto simp: first_free.simps [of taken port] split: if_splits)
  next
    case False
    with 1 have "Suc port \<le> p \<and> p < 60000 \<and> int p \<notin> taken
        \<and> (\<forall>q. Suc port \<le> q \<longrightarrow> q < p \<longrightarrow> int q \<in> taken)"
      by (simp add: first_free.simps [of taken port])
    then have "Suc port \<le> p" "p < 60000" "int p \<notin> taken"
      and mid: "\<And>q. Suc port \<le> q \<Longrightarrow> q < p \<Longrightarrow> int q \<in> taken" by auto
    moreover have "int q \<in> taken" if "port \<le> q" "q < p" for q
      using that False mid by (cases "q = port") auto
    ultimately show ?thesis by auto
  qed
qed

lemma first_free_None:
  "first_free taken port = None \<longleftrightarrow> (\<forall>q. port \<le> q \<longrightarrow> q < 60000 \<longrightarrow> int q \<in> taken)"
proof (induction taken port rule: first_free.induct)
  case (1 taken port)
  show ?case
  proof (cases "60000 \<le> port \<or> int port \<notin> taken")
    case True
    then show ?thesis by (auto simp: first_free.simps [of taken port] intro: leI)
  next
    case False
    with 1 have "first_free taken port = None \<longleftrightarrow> (\<forall>q. Suc port \<le> q \<longrightarrow> q < 60000 \<longrightarrow> int q \<in> taken)"
      by (simp add: first_free.simps [of taken port])
    with False show ?thesis by (metis Suc_leD not_less_eq_eq le_antisym)
  qed
qed

section \<open>Routes\<close>

text \<open>A well-formed route: a destination without a comma, and a port of the allotted range.\<close>

definition route_ok :: "string \<Rightarrow> bool" where
  "route_ok v \<longleftrightarrow> (\<exists>dest p. v = dest @ CHR '','' # str_nat p \<and> CHR '','' \<notin> set dest
     \<and> 10000 \<le> p \<and> p < 60000)"

definition routes_inv :: "string dict \<Rightarrow> bool" where
  "routes_inv d \<longleftrightarrow> distinct (keys d) \<and> list_all route_ok (dvalues d)
     \<and> distinct (map route_port (dvalues d))"

definition routes_data :: "string dict option \<Rightarrow> string dict" where
  "routes_data r = (case r of None \<Rightarrow> [] | Some d \<Rightarrow> d)"

lemma split_route: "CHR '','' \<notin> set dest \<Longrightarrow>
    split (CHR '','') (dest @ CHR '','' # str_nat p) = [dest, str_nat p]"
  by (simp add: split_append str_nat_notin)

lemma route_of_dest [simp]: "CHR '','' \<notin> set dest \<Longrightarrow> route_dest (dest @ CHR '','' # str_nat p) = dest"
  by (simp add: route_dest_def split_route)

lemma route_port_str_of [simp]:
  "CHR '','' \<notin> set dest \<Longrightarrow> route_port_str (dest @ CHR '','' # str_nat p) = Inr (str_nat p)"
  by (simp add: route_port_str_def split_route nth_item_def)

lemma route_port_of [simp]: "CHR '','' \<notin> set dest \<Longrightarrow> route_port (dest @ CHR '','' # str_nat p) = Inr (int p)"
  by (simp add: route_port_def)

lemma routes_inv_Nil [simp]: "routes_inv []"
  by (simp add: routes_inv_def dvalues_def)

lemma dvalues_simps [simp]: "dvalues [] = []" "dvalues ((k, v) # d) = v # dvalues d"
  by (simp_all add: dvalues_def)

lemma in_dvalues: "v \<in> set (dvalues d) \<longleftrightarrow> (\<exists>k. (k, v) \<in> set d)"
  by (force simp: dvalues_def)

lemma dvalues_dset_subset: "set (dvalues (dset d k v)) \<subseteq> insert v (set (dvalues d))"
  using set_dset_subset [of d k v] by (fastforce simp: in_dvalues)

lemma distinct_dvalues_dset:
  "distinct (map f (dvalues d)) \<Longrightarrow> f v \<notin> f ` set (dvalues d) \<Longrightarrow> distinct (map f (dvalues (dset d k v)))"
proof (induction d k v rule: dset.induct)
  case (2 k' v' d k v)
  show ?case
  proof (cases "k = k'")
    case False
    with 2 have "distinct (map f (dvalues (dset d k v)))" by simp
    moreover have "f v' \<notin> f ` set (dvalues (dset d k v))"
      using 2 dvalues_dset_subset [of d k v] by fastforce
    ultimately show ?thesis using False by simp
  qed (use 2 in auto)
qed simp

lemma dvalues_ddel_subset: "set (dvalues (ddel d k)) \<subseteq> set (dvalues d)"
  by (induction d k rule: ddel.induct) auto

lemma distinct_dvalues_ddel: "distinct (map f (dvalues d)) \<Longrightarrow> distinct (map f (dvalues (ddel d k)))"
proof (induction d k rule: ddel.induct)
  case (2 k' v d k)
  then show ?case using dvalues_ddel_subset [of d k] by auto
qed simp

lemma routes_inv_ddel: "routes_inv d \<Longrightarrow> routes_inv (ddel d k)"
  using dvalues_ddel_subset [of d k]
  by (auto simp: routes_inv_def distinct_ddel distinct_dvalues_ddel list_all_iff)

lemma map_sum_list_Inr:
  "map_sum_list f xs = Inr ys \<longleftrightarrow> map f xs = map Inr ys"
proof (induction xs arbitrary: ys)
  case (Cons x xs)
  show ?case by (cases ys) (auto simp: Cons)
qed auto

lemma route_ports_defined: "list_all route_ok vs \<Longrightarrow> \<exists>ps. map_sum_list route_port vs = Inr ps"
proof (induction vs)
  case (Cons v vs)
  from Cons.prems have "\<exists>p. route_port v = Inr p" by (auto simp: route_ok_def)
  with Cons show ?case by auto
qed simp

text \<open>The free port is in the range, and no route of the table has it.\<close>

lemma free_port_fresh:
  assumes "free_port_of (Some d) = Inr p"
  shows "10000 \<le> p \<and> p < 60000 \<and> Inr (int p) \<notin> route_port ` set (dvalues d)"
proof -
  from assms obtain ps where ps: "map_sum_list route_port (dvalues d) = Inr ps"
    and f: "first_free (set ps) 10000 = Some p"
    by (auto simp: free_port_of_def split: option.splits)
  from ps have "route_port ` set (dvalues d) = Inr ` set ps"
    by (metis map_sum_list_Inr list.set_map)
  with first_free_Some [OF f] show ?thesis by auto
qed

lemma free_port_range: "free_port_of r = Inr p \<Longrightarrow> 10000 \<le> p \<and> p < 60000"
  using free_port_fresh first_free_Some [of "{}" 10000 p]
  by (cases r) (auto simp: free_port_of_def split: option.splits)

lemma routes_inv_dset:
  assumes inv: "routes_inv d" and p: "free_port_of (Some d) = Inr p" and dest: "CHR '','' \<notin> set dest"
  shows "routes_inv (dset d k (dest @ CHR '','' # str_nat p))"
proof -
  let ?v = "dest @ CHR '','' # str_nat p"
  have "route_ok ?v" using free_port_fresh [OF p] dest by (auto simp: route_ok_def)
  then have "list_all route_ok (dvalues (dset d k ?v))"
    using inv dvalues_dset_subset [of d k ?v] by (auto simp: routes_inv_def list_all_iff)
  moreover have "route_port ?v \<notin> route_port ` set (dvalues d)"
    using free_port_fresh [OF p] dest by (simp)
  then have "distinct (map route_port (dvalues (dset d k ?v)))"
    using inv by (simp add: routes_inv_def distinct_dvalues_dset)
  ultimately show ?thesis using inv by (simp add: routes_inv_def distinct_dset)
qed

lemma find_route_spec:
  assumes "list_all route_ok (dvalues d)" and "\<And>k v. acc = (Some k, v) \<Longrightarrow> P k v"
    and "\<And>k v. (k, v) \<in> set d \<Longrightarrow> route_dest v = remove \<Longrightarrow> \<exists>p. route_port_str v = Inr (str_nat p) \<and> P k (str_nat p)"
  shows "\<exists>ko s. find_route remove acc d = Inr (ko, s) \<and> (\<forall>k. ko = Some k \<longrightarrow> P k s)
    \<and> (ko = None \<longrightarrow> acc = (None, s) \<and> (\<forall>v \<in> set (dvalues d). route_dest v \<noteq> remove))"
  using assms
proof (induction d arbitrary: acc)
  case Nil
  then show ?case by (cases acc) auto
next
  case (Cons kv d)
  obtain k v where kv: "kv = (k, v)" by force
  show ?case
  proof (cases "route_dest v = remove")
    case True
    with Cons.prems(3) [of k v] kv obtain p where p: "route_port_str v = Inr (str_nat p)" "P k (str_nat p)"
      by auto
    have "\<exists>ko s. find_route remove (Some k, str_nat p) d = Inr (ko, s) \<and> (\<forall>k. ko = Some k \<longrightarrow> P k s)
      \<and> (ko = None \<longrightarrow> (Some k, str_nat p) = (None, s) \<and> (\<forall>v \<in> set (dvalues d). route_dest v \<noteq> remove))"
      by (rule Cons.IH) (use Cons.prems kv p in auto)
    with True p kv show ?thesis by auto
  next
    case False
    have "\<exists>ko s. find_route remove acc d = Inr (ko, s) \<and> (\<forall>k. ko = Some k \<longrightarrow> P k s)
      \<and> (ko = None \<longrightarrow> acc = (None, s) \<and> (\<forall>v \<in> set (dvalues d). route_dest v \<noteq> remove))"
      by (rule Cons.IH) (use Cons.prems kv in auto)
    with False kv show ?thesis by auto
  qed
qed

lemma find_route_inv:
  assumes "routes_inv d" and "remove \<noteq> []"
  shows "(\<exists>k p. find_route remove (None, ''0'') d = Inr (Some k, str_nat p)
            \<and> dget d k = Some (remove @ CHR '','' # str_nat p) \<and> CHR '','' \<notin> set remove)
       \<or> (find_route remove (None, ''0'') d = Inr (None, ''0'')
            \<and> (\<forall>v \<in> set (dvalues d). route_dest v \<noteq> remove))"
proof -
  let ?P = "\<lambda>k s. \<exists>p. s = str_nat p \<and> dget d k = Some (remove @ CHR '','' # str_nat p) \<and> CHR '','' \<notin> set remove"
  have step: "\<exists>p. route_port_str v = Inr (str_nat p) \<and> ?P k (str_nat p)"
    if kv: "(k, v) \<in> set d" and rd: "route_dest v = remove" for k v
  proof -
    have "route_ok v" using assms(1) kv by (auto simp: routes_inv_def list_all_iff in_dvalues)
    then obtain dest p where v: "v = dest @ CHR '','' # str_nat p" "CHR '','' \<notin> set dest"
      by (auto simp: route_ok_def)
    with rd have "dest = remove" by (simp)
    with v kv assms(1) show ?thesis
      by (intro exI [of _ p] conjI) (auto simp: in_dget routes_inv_def)
  qed
  have "\<exists>ko s. find_route remove (None, ''0'') d = Inr (ko, s) \<and> (\<forall>k. ko = Some k \<longrightarrow> ?P k s)
    \<and> (ko = None \<longrightarrow> (None :: string option, ''0'') = (None, s) \<and> (\<forall>v \<in> set (dvalues d). route_dest v \<noteq> remove))"
    by (rule find_route_spec) (use assms step in \<open>auto simp: routes_inv_def\<close>)
  then obtain ko s where ks: "find_route remove (None, ''0'') d = Inr (ko, s)"
    "\<forall>k. ko = Some k \<longrightarrow> ?P k s"
    "ko = None \<longrightarrow> s = ''0'' \<and> (\<forall>v \<in> set (dvalues d). route_dest v \<noteq> remove)" by auto
  then show ?thesis by (cases ko) auto
qed

section \<open>The table in the cluster\<close>

text \<open>What the API server promises for the ConfigMap \<open>name\<close>: \<open>view\<close> is its data in a world.\<close>

definition config_map_store ::
    "'w cluster \<Rightarrow> string \<Rightarrow> string \<Rightarrow> ('w \<Rightarrow> string dict option) \<Rightarrow> bool" where
  "config_map_store K name ns view \<longleftrightarrow>
     (\<forall>w r w'. read_config_map (core K) name ns w = (r, w') \<longrightarrow> view w' = view w \<and>
        (\<forall>cm. r = Inr cm \<longrightarrow> cm_name cm = name \<and> cm_namespace cm = ns \<and> cm_data cm = view w))
   \<and> (\<forall>d w r w'. patch_config_map (core K) name ns d w = (r, w') \<longrightarrow>
        view w' = (case r of Inl _ \<Rightarrow> view w | Inr _ \<Rightarrow> Some (dupdate (routes_data (view w)) d)))
   \<and> (\<forall>cm w r w'. replace_config_map (core K) name ns cm w = (r, w') \<longrightarrow>
        view w' = (case r of Inl _ \<Rightarrow> view w | Inr _ \<Rightarrow> cm_data cm))
   \<and> keeps view (random_suffix (host K))"

abbreviation route_store :: "'w cluster \<Rightarrow> operator_configuration \<Rightarrow> ('w \<Rightarrow> string dict option) \<Rightarrow> bool" where
  "route_store K cfg view \<equiv>
     config_map_store K (STOWAWAY_PROXYROUTE_CONFIGMAPNAME cfg) (NAMESPACE cfg) view"

lemma store_read:
  "config_map_store K name ns view \<Longrightarrow> read_config_map (core K) name ns w = (Inr cm, w') \<Longrightarrow>
     view w' = view w \<and> cm_name cm = name \<and> cm_namespace cm = ns \<and> cm_data cm = view w"
  unfolding config_map_store_def by blast

lemma store_read_err:
  "config_map_store K name ns view \<Longrightarrow> read_config_map (core K) name ns w = (r, w') \<Longrightarrow> view w' = view w"
  unfolding config_map_store_def by blast

lemma store_patch:
  "config_map_store K name ns view \<Longrightarrow> patch_config_map (core K) name ns d w = (r, w') \<Longrightarrow>
     view w' = (case r of Inl _ \<Rightarrow> view w | Inr _ \<Rightarrow> Some (dupdate (routes_data (view w)) d))"
  unfolding config_map_store_def by blast

lemma store_replace:
  "config_map_store K name ns view \<Longrightarrow> replace_config_map (core K) name ns cm w = (r, w') \<Longrightarrow>
     view w' = (case r of Inl _ \<Rightarrow> view w | Inr _ \<Rightarrow> cm_data cm)"
  unfolding config_map_store_def by blast

lemma store_random:
  "config_map_store K name ns view \<Longrightarrow> random_suffix (host K) w = (r, w') \<Longrightarrow> view w' = view w"
  unfolding config_map_store_def by (blast dest: keepsD)

lemma dset_split: "dget d k = Some v0 \<Longrightarrow> \<exists>a b. d = a @ (k, v0) # b \<and> dset d k v = a @ (k, v) # b"
proof (induction d)
  case (Cons p d)
  obtain k' v' where p: "p = (k', v')" by force
  show ?case
  proof (cases "k = k'")
    case True
    with Cons.prems p have "p # d = [] @ (k, v0) # d \<and> dset (p # d) k v = [] @ (k, v) # d" by auto
    then show ?thesis by blast
  next
    case False
    with Cons p obtain a b where "d = a @ (k, v0) # b" "dset d k v = a @ (k, v) # b" by auto
    with False p show ?thesis by (intro exI [of _ "p # a"] exI [of _ b]) auto
  qed
qed simp

lemma dupdate_append: "dupdate d (e @ f) = dupdate (dupdate d e) f"
  by (simp add: dupdate_def)

lemma dupdate_dset_same:
  assumes "distinct (keys d)"
  shows "dupdate d (dset d k v) = dset d k v"
proof (cases "dget d k")
  case None
  then have "k \<notin> set (keys d)"
    using assms by (metis (no_types, lifting) in_dget keys_def imageE list.set_map option.distinct(1) prod.collapse)
  moreover have "dupdate d d = d" using assms by (intro dupdate_sub) (simp add: in_dget)
  ultimately show ?thesis by (simp add: set_dset_new dupdate_append)
next
  case (Some v0)
  from dset_split [OF this, of v] obtain a b
    where ab: "d = a @ (k, v0) # b" "dset d k v = a @ (k, v) # b" by (elim exE conjE)
  have a: "dupdate d a = d" using assms ab by (intro dupdate_sub) (simp add: in_dget)
  have "distinct (keys (dset d k v))" using assms by (rule distinct_dset)
  then have b: "dupdate (dset d k v) b = dset d k v"
    using ab by (intro dupdate_sub) (simp add: in_dget)
  have "dupdate d (dset d k v) = dupdate (dset (dupdate d a) k v) b"
    by (subst ab(2)) (simp add: dupdate_append)
  then show ?thesis using a b by simp
qed

text \<open>The \<open>add\<close> branch: one read of the table, a second read for the free port, one patch.\<close>

lemma free_port_io:
  assumes store: "route_store K cfg view" and run: "get_free_proxyroute_port K cfg w = (r, w')"
  shows "view w' = view w \<and> (\<forall>p. r = Inr p \<longrightarrow> free_port_of (view w) = Inr p)"
proof -
  obtain r1 w1 where r1: "read_config_map (core K) (STOWAWAY_PROXYROUTE_CONFIGMAPNAME cfg)
      (NAMESPACE cfg) w = (r1, w1)" by force
  show ?thesis
  proof (cases r1)
    case (Inl e)
    with r1 run store_read_err [OF store r1] show ?thesis
      by (auto simp: get_free_proxyroute_port_def Let_def create_stowaway_proxyroute_configmap_def bind_Inl)
  next
    case (Inr cm)
    with r1 run store_read [OF store r1 [unfolded Inr]] show ?thesis
      by (auto simp: get_free_proxyroute_port_def Let_def create_stowaway_proxyroute_configmap_def bind_Inr)
  qed
qed

lemma edit_add_cases:
  assumes store: "route_store K cfg view"
    and run: "edit_proxyroutes_add K cfg peer dest w = (r, w')"
    and inv: "distinct (keys (routes_data (view w)))"
  shows "(\<exists>e. r = Inl e \<and> view w' = view w) \<or>
         (\<exists>p k. r = Inr p \<and> free_port_of (view w) = Inr p
            \<and> view w' = Some (dset (routes_data (view w)) k (dest @ CHR '','' # str_nat p)))"
proof -
  obtain r1 w1 where r1: "read_config_map (core K) (STOWAWAY_PROXYROUTE_CONFIGMAPNAME cfg)
      (NAMESPACE cfg) w = (r1, w1)" by force
  note e1 = store_read_err [OF store r1]
  obtain r2 w2 where r2: "get_free_proxyroute_port K cfg w1 = (r2, w2)" by force
  note s2 = free_port_io [OF store r2]
  obtain r3 w3 where r3: "random_suffix (host K) w2 = (r3, w3)" by force
  note s3 = store_random [OF store r3]
  show ?thesis
  proof (cases "\<exists>cm p rnd. r1 = Inr cm \<and> r2 = Inr p \<and> r3 = Inr rnd")
    case False
    then have "view w' = view w \<and> (\<exists>e. r = Inl e)"
      using run r1 e1 r2 s2 r3 s3
      by (cases r1; cases r2; cases r3) (auto simp: edit_proxyroutes_add_def Let_def
          create_stowaway_proxyroute_configmap_def bind_Inl bind_Inr)
    then show ?thesis by blast
  next
    case True
    then obtain cm p rnd where vals: "r1 = Inr cm" "r2 = Inr p" "r3 = Inr rnd" by blast
    note s1 = store_read [OF store r1 [unfolded vals]]
    let ?d = "dset (routes_data (view w)) (peer @ CHR ''-'' # rnd) (dest @ CHR '','' # str_nat p)"
    obtain r4 w4 where r4: "patch_config_map (core K) (STOWAWAY_PROXYROUTE_CONFIGMAPNAME cfg)
      (NAMESPACE cfg) ?d w3 = (r4, w4)" by force
    have "(r, w') = (case r4 of Inl e \<Rightarrow> (Inl e, w4) | Inr _ \<Rightarrow> (Inr p, w4))"
      using run r1 r2 r3 r4 s1 vals
      by (cases r4) (auto simp: edit_proxyroutes_add_def Let_def routes_data_def
          create_stowaway_proxyroute_configmap_def bind_Inr thn_Inr thn_Inl)
    moreover have "dupdate (routes_data (view w3)) ?d = ?d"
      using s1 s2 s3 inv by (simp add: dupdate_dset_same)
    ultimately show ?thesis
      using store_patch [OF store r4] s1 s2 s3 vals by (auto split: sum.splits)
  qed
qed

lemma edit_remove_cases:
  assumes store: "route_store K cfg view" and inv: "routes_inv (routes_data (view w))"
    and dest: "dest \<noteq> []" and run: "edit_proxyroutes_remove K cfg dest w = (r, w')"
  shows "(\<exists>e. r = Inl e \<and> view w' = view w) \<or>
    (\<exists>k p. r = Inr (int p) \<and> dget (routes_data (view w)) k = Some (dest @ CHR '','' # str_nat p)
       \<and> (view w' = Some (ddel (routes_data (view w)) k) \<or> k = [] \<and> view w' = view w)) \<or>
    (r = Inr 0 \<and> view w' = view w \<and> (\<forall>v \<in> set (dvalues (routes_data (view w))). route_dest v \<noteq> dest))"
proof (cases "read_config_map (core K) (STOWAWAY_PROXYROUTE_CONFIGMAPNAME cfg) (NAMESPACE cfg) w")
  case (Pair r1 w1)
  show ?thesis
  proof (cases r1)
    case (Inl e)
    with Pair run store_read_err [OF store Pair] show ?thesis
      by (auto simp: edit_proxyroutes_remove_def Let_def create_stowaway_proxyroute_configmap_def bind_def)
  next
    case (Inr cm)
    note s1 = store_read [OF store Pair [unfolded Inr]]
    have run': "edit_proxyroutes_remove K cfg dest w =
        bind (of_sum (find_route dest (None, ''0'') (routes_data (view w))))
          (\<lambda>(ko, port). thn (delete_route K cm (routes_data (view w)) ko) (of_sum (py_int port))) w1"
      using Pair s1 unfolding Inr
      by (simp add: edit_proxyroutes_remove_def Let_def create_stowaway_proxyroute_configmap_def
          bind_Inr routes_data_def)
    from find_route_inv [OF inv dest] show ?thesis
    proof (elim disjE exE conjE)
      fix k p
      assume k: "find_route dest (None, ''0'') (routes_data (view w)) = Inr (Some k, str_nat p)"
        and v: "dget (routes_data (view w)) k = Some (dest @ CHR '','' # str_nat p)"
      obtain r2 w2 where r2: "delete_route K cm (routes_data (view w)) (Some k) w1 = (r2, w2)" by force
      have "view w2 = (case r2 of Inl _ \<Rightarrow> view w | Inr _ \<Rightarrow>
          if k = [] then view w else Some (ddel (routes_data (view w)) k))"
        using r2 s1 store_replace [OF store] by (cases r2) (auto simp: delete_route_def split: if_splits)
      moreover have "(r, w') = (case r2 of Inl e \<Rightarrow> (Inl e, w2) | Inr _ \<Rightarrow> (Inr (int p), w2))"
        using run' run k r2 by (cases r2) (auto simp: thn_Inr thn_Inl)
      ultimately show ?thesis using v by (auto split: sum.splits if_splits)
    next
      assume k: "find_route dest (None, ''0'') (routes_data (view w)) = Inr (None, ''0'')"
        and none: "\<forall>v \<in> set (dvalues (routes_data (view w))). route_dest v \<noteq> dest"
      have "py_int ''0'' = Inr 0" by code_simp
      with run' run k none s1 show ?thesis by (auto simp: delete_route_def)
    qed
  qed
qed

end
