(* ===== verification/MemCluster.thy ===== *)
theory MemCluster
  imports StowawayRoutes
begin

text \<open>
  A small cluster in memory: concrete functions for the parameters of the model, used only to
  show that the hypotheses about the API server can hold together.  Names are unique across one
  namespace, reads of missing objects fail with 404 and creations of existing ones with 409.
\<close>

record mem =
  mm_config_maps :: "config_map dict"
  mm_services :: "service dict"
  mm_pods :: "pod dict"
  mm_workloads :: "workload dict"
  mm_clock :: int
  mm_random :: string
  mm_log :: "string list"
  mm_cache :: "((string \<times> string) \<times> (string dict \<times> int)) list"

definition mem_read :: "(mem \<Rightarrow> 'a dict) \<Rightarrow> string \<Rightarrow> (mem, 'a) io" where
  "mem_read f n = (\<lambda>m. case dget (f m) n of None \<Rightarrow> (Inl (ApiException 404), m) | Some x \<Rightarrow> (Inr x, m))"

definition mem_create_service :: "service \<Rightarrow> (mem, unit) io" where
  "mem_create_service s = (\<lambda>m. case dget (mm_services m) (svc_name s) of
      Some _ \<Rightarrow> (Inl (ApiException 409), m)
    | None \<Rightarrow> (Inr (), m\<lparr>mm_services := dset (mm_services m) (svc_name s) s\<rparr>))"

definition mem_delete_service :: "string \<Rightarrow> (mem, unit) io" where
  "mem_delete_service n = (\<lambda>m. case dget (mm_services m) n of
      None \<Rightarrow> (Inl (ApiException 404), m)
    | Some _ \<Rightarrow> (Inr (), m\<lparr>mm_services := ddel (mm_services m) n\<rparr>))"

definition mem_patch_config_map :: "string \<Rightarrow> string dict \<Rightarrow> (mem, unit) io" where
  "mem_patch_config_map n d = (\<lambda>m. case dget (mm_config_maps m) n of
      None \<Rightarrow> (Inl (ApiException 404), m)
    | Some cm \<Rightarrow> (Inr (), m\<lparr>mm_config_maps := dset (mm_config_maps m) n
         (cm\<lparr>cm_data := Some (dupdate (routes_data (cm_data cm)) d)\<rparr>)\<rparr>))"

definition mem_replace_config_map :: "string \<Rightarrow> config_map \<Rightarrow> (mem, unit) io" where
  "mem_replace_config_map n cm = (\<lambda>m. case dget (mm_config_maps m) n of
      None \<Rightarrow> (Inl (ApiException 404), m)
    | Some _ \<Rightarrow> (Inr (), m\<lparr>mm_config_maps := dset (mm_config_maps m) n cm\<rparr>))"

text \<open>An equality-based label selector \<open>k=v,k=v\<close>.\<close>

definition selects :: "string \<Rightarrow> string dict \<Rightarrow> bool" where
  "selects sel labels = list_all (\<lambda>part. case split1 (CHR ''='') part of
      [k, v] \<Rightarrow> dget labels k = Some v | _ \<Rightarrow> False) (split (CHR '','') sel)"

definition mem_core :: "mem core_v1" where
  "mem_core = \<lparr>
     create_config_map = (\<lambda>ns cm m. case dget (mm_config_maps m) (cm_name cm) of
        Some _ \<Rightarrow> (Inl (ApiException 409), m)
      | None \<Rightarrow> (Inr (), m\<lparr>mm_config_maps := dset (mm_config_maps m) (cm_name cm) cm\<rparr>)),
     read_config_map = (\<lambda>n ns. bind (mem_read mm_config_maps n) (\<lambda>cm.
        ret (cm\<lparr>cm_name := n, cm_namespace := ns\<rparr>))),
     patch_config_map = (\<lambda>n ns d. mem_patch_config_map n d),
     replace_config_map = (\<lambda>n ns cm. mem_replace_config_map n cm),
     delete_config_map = (\<lambda>n ns m. (Inr (), m\<lparr>mm_config_maps := ddel (mm_config_maps m) n\<rparr>)),
     list_config_map = (\<lambda>ns sel m. (Inr (filter (\<lambda>c. selects sel (cm_labels c)) (dvalues (mm_config_maps m))), m)),
     create_service = (\<lambda>ns s. mem_create_service s),
     read_service = (\<lambda>n ns. mem_read mm_services n),
     patch_service = (\<lambda>n ns s m. (Inr (), m\<lparr>mm_services := dset (mm_services m) n s\<rparr>)),
     delete_service = (\<lambda>n ns. mem_delete_service n),
     list_service = (\<lambda>ns sel m.
        (Inr (filter (\<lambda>s. selects sel (routes_data (svc_labels s))) (dvalues (mm_services m))), m)),
     list_pod = (\<lambda>ns sel m.
        (Inr (filter (\<lambda>p. selects sel (routes_data (pod_labels p))) (dvalues (mm_pods m))), m)),
     read_pod = (\<lambda>n ns. mem_read mm_pods n),
     read_pod_status = (\<lambda>n ns. mem_read mm_pods n),
     patch_pod = (\<lambda>n ns p m. (Inr (), m\<lparr>mm_pods := dset (mm_pods m) n p\<rparr>)),
     patch_pod_annotations = (\<lambda>n ns a. ret ()),
     delete_pod = (\<lambda>n ns. ret ()),
     exec_pod = (\<lambda>n ns c cmd m. (Inr '''', m\<lparr>mm_log := join '' '' cmd # mm_log m\<rparr>)),
     copy_from_pod = (\<lambda>n ns path. ret ''''),
     create_service_account = (\<lambda>ns sa. ret sa),
     read_service_account = (\<lambda>n ns. raise (ApiException 404)),
     delete_service_account = (\<lambda>n ns. ret ()),
     read_secret = (\<lambda>n ns. ret (Some [(''token'', ''t'')])),
     create_token_secret = (\<lambda>n ns sa. ret None),
     read_namespace = (\<lambda>n. ret ())\<rparr>"

definition mem_apps :: "mem apps_v1" where
  "mem_apps = \<lparr>
     create_workload = (\<lambda>k ns wl m. case dget (mm_workloads m) (wl_name wl) of
        Some _ \<Rightarrow> (Inl (ApiException 409), m)
      | None \<Rightarrow> (Inr (), m\<lparr>mm_workloads := dset (mm_workloads m) (wl_name wl) wl\<rparr>)),
     read_workload = (\<lambda>k n ns. mem_read mm_workloads n),
     patch_workload = (\<lambda>k n ns wl m. (Inr (), m\<lparr>mm_workloads := dset (mm_workloads m) n wl\<rparr>)),
     delete_workload = (\<lambda>k n ns m. case dget (mm_workloads m) n of
        None \<Rightarrow> (Inl (ApiException 404), m)
      | Some _ \<Rightarrow> (Inr (), m\<lparr>mm_workloads := ddel (mm_workloads m) n\<rparr>))\<rparr>"

definition mem_host :: "mem host" where
  "mem_host = \<lparr>utcnow = (\<lambda>m. (Inr (mm_clock m), m)), isoformat_now = ret ''now'',
     random_suffix = (\<lambda>m. (Inr (mm_random m), m)), uuid4 = ret ''uuid'',
     fromisoformat = (\<lambda>s. sbind (py_int s) (\<lambda>n. Inr (Naive n))), 
     sleep = (\<lambda>n m. (Inr (), m\<lparr>mm_clock := mm_clock m + int n * 1000\<rparr>))\<rparr>"

definition mem_cluster :: "mem cluster" where
  "mem_cluster = \<lparr>core = mem_core, apps = mem_apps, host = mem_host\<rparr>"

definition mem_view :: "string \<Rightarrow> mem \<Rightarrow> string dict option" where
  "mem_view n m = (case dget (mm_config_maps m) n of None \<Rightarrow> None | Some cm \<Rightarrow> cm_data cm)"

definition mem_empty :: mem where
  "mem_empty = \<lparr>mm_config_maps = [], mm_services = [], mm_pods = [], mm_workloads = [],
     mm_clock = 0, mm_random = ''abcdefghij'', mm_log = [], mm_cache = []\<rparr>"

lemma mem_fields [simp]:
  "core mem_cluster = mem_core" "apps mem_cluster = mem_apps" "host mem_cluster = mem_host"
  by (simp_all add: mem_cluster_def)

lemma mem_config_map_store: "config_map_store mem_cluster n ns (mem_view n)"
  unfolding config_map_store_def
proof (intro conjI allI impI)
  fix w r w' assume "read_config_map (core mem_cluster) n ns w = (r, w')"
  then show "mem_view n w' = mem_view n w"
    by (auto simp: mem_core_def mem_read_def bind_def split: option.splits)
next
  fix w r w' cm assume "read_config_map (core mem_cluster) n ns w = (r, w')" "r = Inr cm"
  then show "cm_name cm = n" "cm_namespace cm = ns" "cm_data cm = mem_view n w"
    by (auto simp: mem_core_def mem_read_def mem_view_def bind_def split: option.splits)
next
  fix d w r w' assume "patch_config_map (core mem_cluster) n ns d w = (r, w')"
  then show "mem_view n w' = (case r of Inl _ \<Rightarrow> mem_view n w
      | Inr _ \<Rightarrow> Some (dupdate (routes_data (mem_view n w)) d))"
    by (auto simp: mem_core_def mem_patch_config_map_def mem_view_def dget_dset split: option.splits)
next
  fix cm w r w' assume "replace_config_map (core mem_cluster) n ns cm w = (r, w')"
  then show "mem_view n w' = (case r of Inl _ \<Rightarrow> mem_view n w | Inr _ \<Rightarrow> cm_data cm)"
    by (auto simp: mem_core_def mem_replace_config_map_def mem_view_def dget_dset split: option.splits)
next
  show "keeps (mem_view n) (random_suffix (host mem_cluster))"
    by (simp add: mem_host_def keeps_def)
qed

end
