(* ===== verification/StowawayProvider.thy ===== *)
theory StowawayProvider
  imports ConnectionProvider MemCluster
begin

text \<open>
  Stowaway as a connection provider: the record of its methods, the interface laws, and the
  properties of peers, proxy routes and destinations.
\<close>

definition stowaway_provider :: "'w cluster \<Rightarrow> operator_configuration \<Rightarrow> 'w connection_provider" where
  "stowaway_provider K cfg = \<lparr>
     cp_installed = stowaway_installed K cfg,
     cp_install = stowaway_install K cfg,
     cp_uninstall = stowaway_uninstall K cfg,
     cp_ready = stowaway_ready K cfg,
     cp_add_peer = add_peer K cfg,
     cp_remove_peer = remove_peer K cfg,
     cp_get_peer_config = get_peer_config K cfg,
     cp_peer_exists = peer_exists K cfg,
     cp_add_destination = add_destination K cfg,
     cp_remove_destination = remove_destination K cfg,
     cp_destination_exists = destination_exists K cfg,
     cp_get_destination = get_destination K cfg,
     cp_validate = stowaway_validate K cfg\<rparr>"

section \<open>The interface\<close>

lemma try_handled:
  "try_except m (\<lambda>e. if is_api_exception e then ret x else raise e) w = (Inl e, w') \<Longrightarrow> \<not> is_api_exception e"
  by (auto simp: try_except_def split: prod.splits sum.splits if_splits)

lemma try_swallowed:
  "try_except m swallow_api_exception w = (Inl e, w') \<Longrightarrow> \<not> is_api_exception e"
  by (auto simp: try_except_def swallow_api_exception_def split: prod.splits sum.splits if_splits)

lemma endpoint_url_colon: "CHR '':'' \<in> set (endpoint_url cfg svc port)"
  by (simp add: endpoint_url_def)

lemma add_destination_url:
  "add_destination K cfg c ip port w = (Inr s, w') \<Longrightarrow> \<exists>svc p. s = endpoint_url cfg svc p"
  by (auto simp: add_destination_def bind_Inr_iff thn_Inr_iff split: option.splits)

lemma get_destination_url:
  assumes "get_destination K cfg c ip port w = (Inr s, w')"
  shows "\<exists>svc p. s = endpoint_url cfg svc p"
proof -
  from assms obtain svcs :: "service list" and w1 where "(case svcs of [] \<Rightarrow> raise RuntimeError
     | svc # _ \<Rightarrow> bind (of_sum (unpack2 (rsplit1 (CHR ''-'') (svc_name svc)))) (\<lambda>(_, stowaway_port).
         ret (endpoint_url cfg (svc_name svc) stowaway_port))) w1 = (Inr s, w')"
    by (auto simp: get_destination_def bind_Inr_iff)
  then show ?thesis by (cases svcs) (auto simp: bind_Inr_iff)
qed

interpretation stowaway: destination_provider "stowaway_provider K cfg" for K cfg
proof
  fix c ip port w s w'
  assume "cp_add_destination (stowaway_provider K cfg) c ip port w = (Inr s, w')"
  then show "CHR '':'' \<in> set s"
    using add_destination_url endpoint_url_colon by (fastforce simp: stowaway_provider_def)
next
  fix c ip port w s w'
  assume "cp_get_destination (stowaway_provider K cfg) c ip port w = (Inr s, w')"
  then show "CHR '':'' \<in> set s"
    using get_destination_url endpoint_url_colon by (fastforce simp: stowaway_provider_def)
next
  fix c ip port w e w'
  assume "cp_destination_exists (stowaway_provider K cfg) c ip port w = (Inl e, w')"
  then show "\<not> is_api_exception e"
    by (simp add: stowaway_provider_def destination_exists_def Let_def try_handled)
qed

interpretation stowaway: peer_provider "stowaway_provider K cfg" for K cfg
proof
  fix c w e w'
  assume "cp_peer_exists (stowaway_provider K cfg) c w = (Inl e, w')"
  then show "\<not> is_api_exception e"
    by (simp add: stowaway_provider_def peer_exists_def Let_def try_handled)
next
  fix c ps w e w'
  assume "cp_add_peer (stowaway_provider K cfg) c ps w = (Inl e, w')"
  then show "\<not> is_api_exception e"
    by (simp add: stowaway_provider_def add_peer_def Let_def try_swallowed)
next
  fix c w e w'
  assume "cp_remove_peer (stowaway_provider K cfg) c w = (Inl e, w')"
  then show "\<not> is_api_exception e"
    by (simp add: stowaway_provider_def remove_peer_def try_handled)
qed

section \<open>Peer names and the PEERS entry\<close>

lemma alnum_000: "is_alnum (CHR ''0'')"
  by (simp add: is_alnum_def is_digit_def)

lemma alnum_not_comma: "is_alnum c \<Longrightarrow> c \<noteq> CHR '',''"
  by (auto simp: is_alnum_def is_digit_def)

lemma translate_alnum: "c \<in> set (translate_peer_name s) \<Longrightarrow> is_alnum c"
  by (auto simp: translate_peer_name_def alnum_000 split: if_splits)

lemma translate_no_comma: "CHR '','' \<notin> set (translate_peer_name s)"
  using translate_alnum alnum_not_comma by blast

lemma translate_id: "list_all is_alnum s \<Longrightarrow> translate_peer_name s = s"
  by (induction s) (auto simp: translate_peer_name_def)

lemma translate_nonempty: "s \<noteq> [] \<Longrightarrow> translate_peer_name s \<noteq> []"
  by (cases s) (auto simp: translate_peer_name_def)

definition peers_of :: "string dict option \<Rightarrow> string list" where
  "peers_of d = (case d of None \<Rightarrow> [] | Some x \<Rightarrow>
     (case dget x ''PEERS'' of None \<Rightarrow> [] | Some e \<Rightarrow> split (CHR '','') e))"

lemma split_join_comma:
  "xs \<noteq> [] \<Longrightarrow> (\<And>x. x \<in> set xs \<Longrightarrow> CHR '','' \<notin> set x) \<Longrightarrow> split (CHR '','') (join '','' xs) = xs"
  by (rule split_join)

abbreviation peer_store :: "'w cluster \<Rightarrow> operator_configuration \<Rightarrow> ('w \<Rightarrow> string dict option) \<Rightarrow> bool" where
  "peer_store K cfg view \<equiv> config_map_store K (STOWAWAY_CONFIGMAPNAME cfg) (NAMESPACE cfg) view"

lemma peers_of_patch:
  assumes "dget d ''PEERS'' = Some e"
  shows "peers_of (Some (dupdate d (peer_patch (split (CHR '','') e) (translate_peer_name a) subnet)))
     = translate_peer_name a # split (CHR '','') e"
proof -
  let ?ps = "split (CHR '','') e" and ?a = "translate_peer_name a"
  have "dget (dupdate d (peer_patch ?ps ?a subnet)) ''PEERS'' = Some (join '','' (?a # ?ps))"
    by (auto simp: peer_patch_def Let_def ALLOWEDIPS_def dget_dset split: option.split)
  moreover have "split (CHR '','') (join '','' (?a # ?ps)) = ?a # ?ps"
    by (rule split_join_comma) (auto simp: translate_no_comma dest: split_parts_notin)
  ultimately show ?thesis by (simp add: peers_of_def)
qed

lemma peers_of_removed:
  assumes "ps = split (CHR '','') e" and "remove1 r ps \<noteq> []"
  shows "peers_of (Some (peer_removed d ps r)) = remove1 r ps"
proof -
  have "split (CHR '','') (join '','' (remove1 r ps)) = remove1 r ps"
    by (rule split_join_comma) (use assms in \<open>auto dest!: notin_set_remove1 [rotated] dest: split_parts_notin in_set_remove1 set_remove1_subset [THEN subsetD]\<close>)
  then show ?thesis by (simp add: peers_of_def peer_removed_def dget_dset)
qed

end
