(* ===== verification/StowawayProperties.thy ===== *)
theory StowawayProperties
  imports StowawayProvider
begin

text \<open>
  The properties of the Stowaway provider: the proxy-route table keeps its invariant, ports are
  fresh and found as long as there are any, peers are added and removed as elements of a set, a
  destination that was added is found again, and the WireGuard configuration round-trips.
\<close>

section \<open>Route table\<close>

text \<open>C12: Whatever the API server answers, an edit of the proxy-route ConfigMap (a route added
  or removed) keeps the table well formed: distinct keys, every value a destination with a port of
  the range 10000..59999, and no two routes with the same port.\<close>

theorem edit_routes_keeps_invariant:
  assumes store: "route_store K cfg view" and inv: "routes_inv (routes_data (view w))"
    and add: "\<And>a. add = Some a \<Longrightarrow> CHR '','' \<notin> set a"
    and run: "edit_proxyroutes_configmap K cfg peer add remove w = (r, w')"
  shows "routes_inv (routes_data (view w'))"
proof -
  have same: ?thesis if "view w' = view w" using inv that by simp
  consider (add) a as where "add = Some (a # as)"
    | (remove) x xs where "add = None \<or> add = Some []" "remove = Some (x # xs)"
    | (none) "add = None \<or> add = Some []" "remove = None \<or> remove = Some []"
    by (metis list.exhaust option.exhaust)
  then show ?thesis
  proof cases
    case (add a as)
    with run obtain r0 where run0: "edit_proxyroutes_add K cfg peer (a # as) w = (r0, w')"
      by (auto simp: edit_proxyroutes_configmap_def bind_def split: prod.splits sum.splits)
    have d: "distinct (keys (routes_data (view w)))" using inv by (simp add: routes_inv_def)
    from edit_add_cases [OF store run0 d] show ?thesis
    proof (elim disjE exE conjE)
      fix p k
      assume p: "free_port_of (view w) = Inr p"
        and v: "view w' = Some (dset (routes_data (view w)) k ((a # as) @ CHR '','' # str_nat p))"
      have c: "CHR '','' \<notin> set (a # as)" using assms(3) [of "a # as"] add by simp
      have p': "free_port_of (Some (routes_data (view w))) = Inr p"
        using p by (cases "view w") (auto simp: free_port_of_def routes_data_def)
      from routes_inv_dset [OF inv p' c, of k] v show ?thesis by (simp add: routes_data_def)
    qed (rule same)
  next
    case (remove x xs)
    with run have run0: "edit_proxyroutes_remove K cfg (x # xs) w = (r, w')"
      by (auto simp: edit_proxyroutes_configmap_def)
    have ne: "x # xs \<noteq> []" by simp
    from edit_remove_cases [OF store inv ne run0] show ?thesis
      using inv routes_inv_ddel [OF inv] by (auto simp: routes_data_def)
  next
    case none
    with run have "\<exists>r0. read_config_map (core K) (STOWAWAY_PROXYROUTE_CONFIGMAPNAME cfg) (NAMESPACE cfg) w = (r0, w')"
      by (auto simp: edit_proxyroutes_configmap_def Let_def create_stowaway_proxyroute_configmap_def
          thn_def bind_def split: prod.splits sum.splits)
    then show ?thesis using store_read_err [OF store] same by blast
  qed
qed

definition sample_routes :: mem where
  "sample_routes = mem_empty\<lparr>mm_config_maps := [(''gefyra-stowaway-proxyroutes'',
     (create_stowaway_proxyroute_configmap default_configuration)\<lparr>cm_data :=
       Some [(''a-xxxxxxxxxx'', ''10.0.0.1:80,10000''), (''b-yyyyyyyyyy'', ''10.0.0.1:80,10001'')]\<rparr>)]\<rparr>"

lemma str_10000: "str_nat 10000 = ''10000''" by (simp add: str_nat_eval)
lemma str_10001: "str_nat 10001 = ''10001''" by (simp add: str_nat_eval)
lemma int_10000: "py_int ''10000'' = Inr 10000" using py_int_str_nat [of 10000] by (simp add: str_10000)
lemma int_10001: "py_int ''10001'' = Inr 10001" using py_int_str_nat [of 10001] by (simp add: str_10001)

lemma sample_find_route: "find_route ''10.0.0.1:80'' (None, ''0'')
    [(''a-xxxxxxxxxx'', ''10.0.0.1:80,10000''), (''b-yyyyyyyyyy'', ''10.0.0.1:80,10001'')]
    = Inr (Some ''b-yyyyyyyyyy'', ''10001'')"
  by code_simp

lemma sample_ports: "route_port ''10.0.0.1:80,10000'' = Inr 10000" "route_port ''10.0.0.1:80,10001'' = Inr 10001"
  by (simp_all add: route_port_def route_port_str_def nth_item_def int_10000 int_10001)

lemma sample_routes_inv:
  "routes_inv [(''a-xxxxxxxxxx'', ''10.0.0.1:80,10000''), (''b-yyyyyyyyyy'', ''10.0.0.1:80,10001'')]"
proof -
  have "route_ok ''10.0.0.1:80,10000''" "route_ok ''10.0.0.1:80,10001''"
    unfolding route_ok_def
    by (rule exI [of _ "''10.0.0.1:80''"], rule exI [of _ 10000], simp add: str_10000)
       (rule exI [of _ "''10.0.0.1:80''"], rule exI [of _ 10001], simp add: str_10001)
  then show ?thesis by (simp add: routes_inv_def sample_ports)
qed

lemma sample_view: "mem_view ''gefyra-stowaway-proxyroutes'' sample_routes =
    Some [(''a-xxxxxxxxxx'', ''10.0.0.1:80,10000''), (''b-yyyyyyyyyy'', ''10.0.0.1:80,10001'')]"
  by (simp add: sample_routes_def mem_view_def mem_empty_def)

theorem edit_routes_keeps_invariant_witness:
  "routes_inv (routes_data (mem_view ''gefyra-stowaway-proxyroutes'' (snd
     (edit_proxyroutes_configmap mem_cluster default_configuration ''c'' (Some ''10.0.0.2:8080'') None sample_routes))))"
proof -
  let ?m = "edit_proxyroutes_configmap mem_cluster default_configuration ''c'' (Some ''10.0.0.2:8080'') None sample_routes"
  have run: "?m = (fst ?m, snd ?m)" by simp
  have st: "config_map_store mem_cluster (STOWAWAY_PROXYROUTE_CONFIGMAPNAME default_configuration)
      (NAMESPACE default_configuration) (mem_view ''gefyra-stowaway-proxyroutes'')"
    using mem_config_map_store [of "''gefyra-stowaway-proxyroutes''"] by simp
  have i: "routes_inv (routes_data (mem_view ''gefyra-stowaway-proxyroutes'' sample_routes))"
    by (simp add: sample_view routes_data_def sample_routes_inv)
  show ?thesis
    by (rule edit_routes_keeps_invariant [OF st i _ run]) auto
qed

text \<open>C13: The port handed out for a new route lies in 10000..59999, no route of the table uses it,
  and afterwards the table is the old one with this one route set.\<close>

theorem added_route_is_fresh:
  assumes store: "route_store K cfg view" and d: "distinct (keys (routes_data (view w)))"
    and run: "edit_proxyroutes_configmap K cfg peer (Some (a # as)) rm w = (Inr port, w')"
  shows "\<exists>p k. port = int p \<and> 10000 \<le> p \<and> p < 60000
    \<and> Inr port \<notin> route_port ` set (dvalues (routes_data (view w)))
    \<and> view w' = Some (dset (routes_data (view w)) k ((a # as) @ CHR '','' # str_nat p))"
proof -
  from run obtain p where run0: "edit_proxyroutes_add K cfg peer (a # as) w = (Inr p, w')" and port: "port = int p"
    by (auto simp: edit_proxyroutes_configmap_def bind_Inr_iff)
  from edit_add_cases [OF store run0 d] obtain k where p: "free_port_of (view w) = Inr p"
    and v: "view w' = Some (dset (routes_data (view w)) k ((a # as) @ CHR '','' # str_nat p))" by auto
  have "free_port_of (Some (routes_data (view w))) = Inr p"
    using p by (cases "view w") (auto simp: free_port_of_def routes_data_def)
  from free_port_fresh [OF this] port v show ?thesis by auto
qed

lemma sample_free_port: "free_port_of (Some [(''a-xxxxxxxxxx'', ''10.0.0.1:80,10000''),
    (''b-yyyyyyyyyy'', ''10.0.0.1:80,10001'')]) = Inr 10002"
proof -
  have "map_sum_list route_port [''10.0.0.1:80,10000'', ''10.0.0.1:80,10001''] = Inr [10000, 10001]"
    by (simp add: sample_ports)
  moreover have "first_free (set [10000, 10001]) 10000 = Some 10002"
    by (simp add: first_free.simps [of _ 10000] first_free.simps [of _ 10001] first_free.simps [of _ 10002])
  ultimately show ?thesis by (simp add: free_port_of_def)
qed

lemma sample_add: "\<exists>w'. edit_proxyroutes_configmap mem_cluster default_configuration ''c''
    (Some ''10.0.0.2:8080'') None sample_routes = (Inr 10002, w')"
  using sample_free_port
  by (simp add: edit_proxyroutes_configmap_def edit_proxyroutes_add_def get_free_proxyroute_port_def
      create_stowaway_proxyroute_configmap_def mem_core_def mem_read_def bind_def thn_def Let_def
      sample_routes_def mem_empty_def mem_host_def mem_patch_config_map_def)

theorem added_route_is_fresh_witness:
  "\<exists>w' p. edit_proxyroutes_configmap mem_cluster default_configuration ''c''
      (Some ''10.0.0.2:8080'') None sample_routes = (Inr (int p), w') \<and> 10000 \<le> p \<and> p < 60000"
proof -
  from sample_add obtain w' where w': "edit_proxyroutes_configmap mem_cluster default_configuration ''c''
      (Some ''10.0.0.2:8080'') None sample_routes = (Inr 10002, w')" by blast
  have st: "config_map_store mem_cluster (STOWAWAY_PROXYROUTE_CONFIGMAPNAME default_configuration)
      (NAMESPACE default_configuration) (mem_view ''gefyra-stowaway-proxyroutes'')"
    using mem_config_map_store [of "''gefyra-stowaway-proxyroutes''"] by simp
  have d: "distinct (keys (routes_data (mem_view ''gefyra-stowaway-proxyroutes'' sample_routes)))"
    by (simp add: sample_view routes_data_def)
  from added_route_is_fresh [OF st d w'] w' show ?thesis by metis
qed

lemma routes_inv_ports:
  assumes inv: "routes_inv d"
  obtains ps where "map_sum_list route_port (dvalues d) = Inr ps" and "distinct ps" and "length ps = length d"
    and "set ps \<subseteq> int ` {10000..<60000}" and "route_port ` set (dvalues d) = Inr ` set ps"
proof -
  from inv obtain ps where ps: "map_sum_list route_port (dvalues d) = Inr ps"
    using route_ports_defined by (auto simp: routes_inv_def)
  then have m: "map route_port (dvalues d) = map Inr ps" by (simp add: map_sum_list_Inr)
  have dist: "distinct ps" using inv m by (simp add: routes_inv_def distinct_map)
  have len: "length ps = length d" using m by (metis dvalues_def length_map)
  have img: "route_port ` set (dvalues d) = Inr ` set ps" using m by (metis list.set_map)
  have sub: "set ps \<subseteq> int ` {10000..<60000}"
  proof
    fix q assume "q \<in> set ps"
    then have "Inr q \<in> route_port ` set (dvalues d)" using img by auto
    then show "q \<in> int ` {10000..<60000}" using inv by (auto simp: routes_inv_def list_all_iff route_ok_def)
  qed
  show ?thesis by (rule that [OF ps dist len sub img])
qed

text \<open>C14: The free port of a proxy-route table that satisfies the invariant.  There are 50000 ports, from
  10000 to 59999.  With fewer routes the code returns the least of them that no route has; with 50000
  routes it raises \<open>RuntimeError\<close>.\<close>

theorem free_port_iff_room:
  assumes inv: "routes_inv d"
  shows "if length d < 50000
    then \<exists>p. free_port_of (Some d) = Inr p \<and> 10000 \<le> p \<and> p < 60000 \<and> Inr (int p) \<notin> route_port ` set (dvalues d)
       \<and> (\<forall>q. 10000 \<le> q \<longrightarrow> q < p \<longrightarrow> Inr (int q) \<in> route_port ` set (dvalues d))
    else free_port_of (Some d) = Inl RuntimeError"
proof -
  obtain ps where ps: "map_sum_list route_port (dvalues d) = Inr ps" and dist: "distinct ps"
    and len: "length ps = length d" and sub: "set ps \<subseteq> int ` {10000..<60000}"
    and img: "route_port ` set (dvalues d) = Inr ` set ps"
    by (rule routes_inv_ports [OF inv])
  have card: "card (int ` {10000..<60000::nat}) = 50000" by (simp add: card_image)
  have run: "free_port_of (Some d) = (case first_free (set ps) 10000 of Some p \<Rightarrow> Inr p | None \<Rightarrow> Inl RuntimeError)"
    using ps by (simp add: free_port_of_def)
  show ?thesis
  proof (cases "first_free (set ps) 10000")
    case None
    then have "int ` {10000..<60000} \<subseteq> set ps" by (auto simp: first_free_None)
    with sub have "set ps = int ` {10000..<60000}" by blast
    then have "length d = 50000" using distinct_card [OF dist] card len by simp
    with None run show ?thesis by simp
  next
    case (Some p)
    note f = first_free_Some [OF Some]
    then have "int p \<in> int ` {10000..<60000}" "int p \<notin> set ps" by auto
    with sub have "set ps \<subset> int ` {10000..<60000}" by blast
    then have "card (set ps) < 50000" using psubset_card_mono [of "int ` {10000..<60000}"] card by simp
    then have "length d < 50000" using distinct_card [OF dist] len by simp
    with f run Some show ?thesis by (auto simp: img)
  qed
qed

theorem free_port_iff_room_witness:
  "\<exists>p. free_port_of (Some [(''a-xxxxxxxxxx'', ''10.0.0.1:80,10000''), (''b-yyyyyyyyyy'', ''10.0.0.1:80,10001'')]) = Inr p
   \<and> 10000 \<le> p \<and> p < 60000"
  using free_port_iff_room [OF sample_routes_inv] by auto

text \<open>Removing a destination deletes one route with exactly this destination and returns its
  port; if the table has none, nothing is written and the port is 0.\<close>

theorem removed_route:
  assumes store: "route_store K cfg view" and inv: "routes_inv (routes_data (view w))"
    and nokey: "[] \<notin> set (keys (routes_data (view w)))"
    and run: "edit_proxyroutes_configmap K cfg peer None (Some (x # xs)) w = (Inr port, w')"
  shows "(\<exists>k p. port = int p \<and> dget (routes_data (view w)) k = Some ((x # xs) @ CHR '','' # str_nat p)
            \<and> view w' = Some (ddel (routes_data (view w)) k))
       \<or> (port = 0 \<and> view w' = view w
            \<and> (\<forall>v \<in> set (dvalues (routes_data (view w))). route_dest v \<noteq> x # xs))"
proof -
  have run0: "edit_proxyroutes_remove K cfg (x # xs) w = (Inr port, w')"
    using run by (simp add: edit_proxyroutes_configmap_def)
  have ne: "x # xs \<noteq> []" by simp
  have "dget (routes_data (view w)) [] = None" using nokey by (rule dget_notin)
  then show ?thesis using edit_remove_cases [OF store inv ne run0] by (metis option.distinct(1) sum.inject(2) Inl_Inr_False)
qed

theorem removed_route_witness:
  "\<exists>w' k p. edit_proxyroutes_configmap mem_cluster default_configuration ''a'' None
      (Some ''10.0.0.1:80'') sample_routes = (Inr (int p), w')
    \<and> mem_view ''gefyra-stowaway-proxyroutes'' w' = Some (ddel [(''a-xxxxxxxxxx'', ''10.0.0.1:80,10000''),
        (''b-yyyyyyyyyy'', ''10.0.0.1:80,10001'')] k)"
proof -
  from sample_find_route obtain w' where w': "edit_proxyroutes_configmap mem_cluster default_configuration ''a'' None
      (Some ''10.0.0.1:80'') sample_routes = (Inr 10001, w')"
    by (simp add: int_10001 edit_proxyroutes_configmap_def edit_proxyroutes_remove_def delete_route_def
      create_stowaway_proxyroute_configmap_def mem_core_def mem_read_def bind_def thn_def Let_def
      sample_routes_def mem_empty_def mem_replace_config_map_def)
  have st: "config_map_store mem_cluster (STOWAWAY_PROXYROUTE_CONFIGMAPNAME default_configuration)
      (NAMESPACE default_configuration) (mem_view ''gefyra-stowaway-proxyroutes'')"
    using mem_config_map_store [of "''gefyra-stowaway-proxyroutes''"] by simp
  have i: "routes_inv (routes_data (mem_view ''gefyra-stowaway-proxyroutes'' sample_routes))"
    by (simp add: sample_view routes_data_def sample_routes_inv)
  have k: "[] \<notin> set (keys (routes_data (mem_view ''gefyra-stowaway-proxyroutes'' sample_routes)))"
    by (simp add: sample_view routes_data_def)
  from removed_route [OF st i k w'] w' show ?thesis
    by (fastforce simp: sample_view routes_data_def)
qed

text \<open>The \<open>remove\<close> branch looks at the destination only: with two clients that expose the same
  \<open>ip:port\<close>, removing the destination of the first deletes the route of the second and returns its
  Stowaway port.\<close>

theorem remove_hits_other_peer:
  "\<exists>w'. edit_proxyroutes_configmap mem_cluster default_configuration ''a'' None
      (Some ''10.0.0.1:80'') sample_routes = (Inr 10001, w')
    \<and> mem_view ''gefyra-stowaway-proxyroutes'' w' = Some [(''a-xxxxxxxxxx'', ''10.0.0.1:80,10000'')]"
  using sample_find_route
  by (simp add: int_10001 edit_proxyroutes_configmap_def edit_proxyroutes_remove_def delete_route_def
      create_stowaway_proxyroute_configmap_def mem_core_def mem_read_def bind_def thn_def Let_def
      sample_routes_def mem_empty_def mem_replace_config_map_def mem_view_def)

end
