(* ===== verification/StowawayPeers.thy ===== *)
theory StowawayPeers
  imports StowawayProperties
begin

text \<open>
  Properties of the peer list, of destinations across the ConfigMap and the Services, of the
  WireGuard configuration parser and of the admission check of a subnet.
\<close>

section \<open>Peers\<close>

lemma edit_peer_run:
  assumes store: "peer_store K cfg view"
    and run: "edit_peer_configmap K cfg add rm subnet w = (Inr (), w')"
  shows "\<exists>d e cm w1. view w = Some d \<and> dget d ''PEERS'' = Some e \<and> view w1 = view w
    \<and> cm_data cm = Some d \<and> cm_name cm = STOWAWAY_CONFIGMAPNAME cfg \<and> cm_namespace cm = NAMESPACE cfg
    \<and> read_config_map (core K) (STOWAWAY_CONFIGMAPNAME cfg) (NAMESPACE cfg) w = (Inr cm, w1)"
proof -
  from run obtain cm w1 e where
    r: "read_config_map (core K) (STOWAWAY_CONFIGMAPNAME cfg) (NAMESPACE cfg) w = (Inr cm, w1)"
    and e: "data_item cm ''PEERS'' = Inr e"
    by (auto simp: edit_peer_configmap_def create_stowaway_configmap_def Let_def bind_Inr_iff)
  from e obtain d where "cm_data cm = Some d" "dget d ''PEERS'' = Some e"
    by (auto simp: data_item_def split: option.splits)
  with r store_read [OF store r] show ?thesis by metis
qed

text \<open>Adding a peer inserts its translated name into the set of peers of the ConfigMap (and
  writes nothing if it is there already); a duplicate-free list stays duplicate-free.\<close>

theorem peer_added:
  assumes store: "peer_store K cfg view" and a: "a \<noteq> []"
    and run: "edit_peer_configmap K cfg (Some a) None subnet w = (Inr (), w')"
  shows "set (peers_of (view w')) = insert (translate_peer_name a) (set (peers_of (view w)))
    \<and> (distinct (peers_of (view w)) \<longrightarrow> distinct (peers_of (view w')))"
proof -
  from edit_peer_run [OF store run] obtain d e cm w1 where
    v: "view w = Some d" "dget d ''PEERS'' = Some e" "view w1 = view w" "cm_data cm = Some d"
    "cm_name cm = STOWAWAY_CONFIGMAPNAME cfg" "cm_namespace cm = NAMESPACE cfg"
    and r: "read_config_map (core K) (STOWAWAY_CONFIGMAPNAME cfg) (NAMESPACE cfg) w = (Inr cm, w1)"
    by blast
  let ?a = "translate_peer_name a" and ?ps = "split (CHR '','') e"
  have e: "data_item cm ''PEERS'' = Inr e" using v by (simp add: data_item_def)
  have peers: "peers_of (view w) = ?ps" using v by (simp add: peers_of_def)
  show ?thesis
  proof (cases "?a \<in> set ?ps")
    case True
    with run r e a v have "view w' = view w"
      by (auto simp: edit_peer_configmap_def create_stowaway_configmap_def Let_def bind_Inr)
    with True peers show ?thesis by auto
  next
    case False
    with run r e a v have "patch_config_map (core K) (STOWAWAY_CONFIGMAPNAME cfg) (NAMESPACE cfg)
        (peer_patch ?ps ?a subnet) w1 = (Inr (), w')"
      by (auto simp: edit_peer_configmap_def create_stowaway_configmap_def Let_def bind_Inr
          bind_Inr_iff thn_Inr_iff)
    from store_patch [OF store this] v
    have "view w' = Some (dupdate d (peer_patch ?ps ?a subnet))" by (simp add: routes_data_def)
    then have "peers_of (view w') = ?a # ?ps" using peers_of_patch [OF v(2)] by simp
    with peers False show ?thesis by auto
  qed
qed

definition sample_peers :: mem where
  "sample_peers = mem_empty\<lparr>mm_config_maps := [(''gefyra-stowaway-config'',
     create_stowaway_configmap default_configuration (- 1))]\<rparr>"

lemma sample_peer_store:
  "config_map_store mem_cluster (STOWAWAY_CONFIGMAPNAME default_configuration)
      (NAMESPACE default_configuration) (mem_view ''gefyra-stowaway-config'')"
  using mem_config_map_store [of "''gefyra-stowaway-config''"] by simp

lemma translate_c1: "translate_peer_name ''dev-1'' = ''dev0001''" by code_simp

lemma sample_peer_added: "\<exists>w'. edit_peer_configmap mem_cluster default_configuration
    (Some ''dev-1'') None None sample_peers = (Inr (), w')"
  by (simp add: edit_peer_configmap_def create_stowaway_configmap_def Let_def sample_peers_def mem_empty_def
      mem_core_def mem_read_def bind_def thn_def data_item_def item_def translate_c1
      mem_patch_config_map_def)

theorem peer_added_witness:
  "\<exists>w'. edit_peer_configmap mem_cluster default_configuration (Some ''dev-1'') None None sample_peers
      = (Inr (), w') \<and> ''dev0001'' \<in> set (peers_of (mem_view ''gefyra-stowaway-config'' w'))"
proof -
  from sample_peer_added obtain w' where w': "edit_peer_configmap mem_cluster default_configuration
    (Some ''dev-1'') None None sample_peers = (Inr (), w')" by blast
  have ne: "''dev-1'' \<noteq> []" by simp
  from peer_added [OF sample_peer_store ne w'] w' show ?thesis by (auto simp: translate_c1)
qed

lemma removed_peers:
  assumes store: "peer_store K cfg view" and a: "a \<noteq> []"
    and dist: "distinct (peers_of (view w))"
    and other: "set (peers_of (view w)) \<noteq> {translate_peer_name a}"
    and run: "edit_peer_configmap K cfg None (Some a) subnet w = (Inr (), w')"
  shows "set (peers_of (view w')) = set (peers_of (view w)) - {translate_peer_name a}
    \<and> distinct (peers_of (view w'))"
proof -
  from edit_peer_run [OF store run] obtain d e cm w1 where
    v: "view w = Some d" "dget d ''PEERS'' = Some e" "view w1 = view w" "cm_data cm = Some d"
    "cm_name cm = STOWAWAY_CONFIGMAPNAME cfg" "cm_namespace cm = NAMESPACE cfg"
    and r: "read_config_map (core K) (STOWAWAY_CONFIGMAPNAME cfg) (NAMESPACE cfg) w = (Inr cm, w1)"
    by blast
  let ?a = "translate_peer_name a" and ?ps = "split (CHR '','') e"
  have e: "data_item cm ''PEERS'' = Inr e" using v by (simp add: data_item_def)
  have peers: "peers_of (view w) = ?ps" using v by (simp add: peers_of_def)
  show ?thesis
  proof (cases "?a \<in> set ?ps")
    case False
    with run r e a v have "view w' = view w"
      by (auto simp: edit_peer_configmap_def create_stowaway_configmap_def Let_def bind_Inr)
    with False peers dist show ?thesis by auto
  next
    case True
    with run r e a v have "replace_config_map (core K) (STOWAWAY_CONFIGMAPNAME cfg) (NAMESPACE cfg)
        (cm\<lparr>cm_data := Some (peer_removed d ?ps ?a)\<rparr>) w1 = (Inr (), w')"
      by (auto simp: edit_peer_configmap_def create_stowaway_configmap_def Let_def bind_Inr)
    from store_replace [OF store this] v
    have v': "view w' = Some (peer_removed d ?ps ?a)" by simp
    have "set (remove1 ?a ?ps) = set ?ps - {?a}" using dist peers by (simp add: set_remove1_eq)
    moreover from this have "remove1 ?a ?ps \<noteq> []" using other peers True by (metis Diff_eq_empty_iff empty_set insert_Diff insert_absorb set_empty)
    ultimately show ?thesis
      using v' peers_of_removed [of ?ps e ?a d] peers dist by (simp add: distinct_remove1)
  qed
qed

text \<open>Removing a peer takes exactly its translated name out of a duplicate-free list of peers
  (the list keeps at least the initial entry \<open>0\<close>).\<close>

theorem peer_removed:
  assumes store: "peer_store K cfg view" and a: "a \<noteq> []"
    and dist: "distinct (peers_of (view w))"
    and other: "set (peers_of (view w)) \<noteq> {translate_peer_name a}"
    and run: "edit_peer_configmap K cfg None (Some a) subnet w = (Inr (), w')"
  shows "set (peers_of (view w')) = set (peers_of (view w)) - {translate_peer_name a}
    \<and> distinct (peers_of (view w'))"
  by (rule removed_peers [OF assms])

theorem peer_removed_witness:
  "\<exists>w'. edit_peer_configmap mem_cluster default_configuration None (Some ''7'') None sample_peers = (Inr (), w')
    \<and> set (peers_of (mem_view ''gefyra-stowaway-config'' w')) = {''0''} - {''7''}"
proof -
  have t: "translate_peer_name ''7'' = ''7''" by code_simp
  have p: "peers_of (mem_view ''gefyra-stowaway-config'' sample_peers) = [''0'']"
    by (simp add: sample_peers_def mem_view_def mem_empty_def peers_of_def create_stowaway_configmap_def)
  have run: "edit_peer_configmap mem_cluster default_configuration None (Some ''7'') None sample_peers
      = (Inr (), sample_peers)"
    by (simp add: edit_peer_configmap_def create_stowaway_configmap_def Let_def sample_peers_def mem_empty_def
        mem_core_def mem_read_def bind_def thn_def data_item_def item_def t)
  have ne: "''7'' \<noteq> []" by simp
  have d: "distinct (peers_of (mem_view ''gefyra-stowaway-config'' sample_peers))" by (simp add: p)
  have o: "set (peers_of (mem_view ''gefyra-stowaway-config'' sample_peers)) \<noteq> {translate_peer_name ''7''}"
    by (simp add: p t)
  from peer_removed [OF sample_peer_store ne d o run] run show ?thesis by (auto simp: p t)
qed

section \<open>The peer list as a set\<close>

text \<open>What an edit of the ConfigMap promises: a set of peer names with insertion and deletion.\<close>

datatype peer_edit = AddPeer string | RemovePeer string

fun edited_peer :: "peer_edit \<Rightarrow> string" where
  "edited_peer (AddPeer a) = a"
| "edited_peer (RemovePeer a) = a"

fun peer_edit_spec :: "peer_edit \<Rightarrow> string set \<Rightarrow> string set" where
  "peer_edit_spec (AddPeer a) S = insert (translate_peer_name a) S"
| "peer_edit_spec (RemovePeer a) S = S - {translate_peer_name a}"

fun run_peer_edit :: "'w cluster \<Rightarrow> operator_configuration \<Rightarrow> string option \<Rightarrow> peer_edit \<Rightarrow> ('w, unit) io" where
  "run_peer_edit K cfg subnet (AddPeer a) = edit_peer_configmap K cfg (Some a) None subnet"
| "run_peer_edit K cfg subnet (RemovePeer a) = edit_peer_configmap K cfg None (Some a) subnet"

text \<open>The invariant of the list: no duplicates, and the initial entry \<open>0\<close>, so that it never gets empty.\<close>

definition peers_inv :: "string list \<Rightarrow> bool" where
  "peers_inv ps \<longleftrightarrow> distinct ps \<and> ''0'' \<in> set ps"

lemma peer_edit_refines:
  assumes store: "peer_store K cfg view" and inv: "peers_inv (peers_of (view w))"
    and name: "edited_peer e \<noteq> []" "translate_peer_name (edited_peer e) \<noteq> ''0''"
    and run: "run_peer_edit K cfg subnet e w = (Inr (), w')"
  shows "set (peers_of (view w')) = peer_edit_spec e (set (peers_of (view w))) \<and> peers_inv (peers_of (view w'))"
proof (cases e)
  case (AddPeer a)
  with name run have "set (peers_of (view w')) = insert (translate_peer_name a) (set (peers_of (view w)))"
    "distinct (peers_of (view w)) \<longrightarrow> distinct (peers_of (view w'))"
    using peer_added [OF store, of a subnet w w'] by simp_all
  with inv AddPeer show ?thesis by (simp add: peers_inv_def)
next
  case (RemovePeer a)
  with name have "translate_peer_name a \<noteq> ''0''" by simp
  with inv have "set (peers_of (view w)) \<noteq> {translate_peer_name a}" unfolding peers_inv_def by (metis singletonD)
  with RemovePeer name run inv have "set (peers_of (view w')) = set (peers_of (view w)) - {translate_peer_name a}"
    "distinct (peers_of (view w'))"
    using removed_peers [OF store, of a w subnet w'] by (simp_all add: peers_inv_def)
  with inv RemovePeer name show ?thesis by (simp add: peers_inv_def)
qed

text \<open>C17: The peer list refines a set: after any sequence of additions and removals of clients that went
  through, the names in the ConfigMap are those of the set on which the same insertions and deletions
  were made, without duplicates and with the initial entry.\<close>

theorem peers_refine_set:
  assumes "peer_store K cfg view" and "peers_inv (peers_of (view w))"
    and "\<forall>e \<in> set es. edited_peer e \<noteq> [] \<and> translate_peer_name (edited_peer e) \<noteq> ''0''"
    and "for_each (run_peer_edit K cfg subnet) es w = (Inr (), w')"
  shows "set (peers_of (view w')) = fold peer_edit_spec es (set (peers_of (view w)))
    \<and> peers_inv (peers_of (view w'))"
  using assms(2-4)
proof (induction es arbitrary: w)
  case (Cons e es)
  from Cons.prems(3) obtain w1 where 1: "run_peer_edit K cfg subnet e w = (Inr (), w1)"
    and 2: "for_each (run_peer_edit K cfg subnet) es w1 = (Inr (), w')" by (auto simp: thn_Inr_iff)
  from peer_edit_refines [OF assms(1) Cons.prems(1) _ _ 1] Cons.prems(2) Cons.IH [OF _ _ 2] show ?case by simp
qed simp

theorem peers_refine_set_witness:
  "\<exists>w'. for_each (run_peer_edit mem_cluster default_configuration None) [AddPeer ''dev-1''] sample_peers = (Inr (), w')
    \<and> set (peers_of (mem_view ''gefyra-stowaway-config'' w')) = {''0'', ''dev0001''}"
proof -
  from sample_peer_added obtain w' where
    r: "for_each (run_peer_edit mem_cluster default_configuration None) [AddPeer ''dev-1''] sample_peers = (Inr (), w')"
    by (auto simp: thn_def bind_def)
  have p: "peers_of (mem_view ''gefyra-stowaway-config'' sample_peers) = [''0'']"
    by (simp add: sample_peers_def mem_view_def mem_empty_def peers_of_def create_stowaway_configmap_def)
  have i: "peers_inv (peers_of (mem_view ''gefyra-stowaway-config'' sample_peers))" by (simp add: p peers_inv_def)
  from peers_refine_set [OF sample_peer_store i _ r] r show ?thesis by (auto simp: p translate_c1)
qed

text \<open>The name of a peer inside Stowaway is not unique: two clients whose Kubernetes names
  differ only in a dash and a dot get the same WireGuard peer, so that the second one is reported as
  existing when only the first was added.\<close>

theorem peer_names_collide:
  "''dev-1'' \<noteq> ''dev.1'' \<and> translate_peer_name ''dev-1'' = translate_peer_name ''dev.1''
   \<and> (\<exists>w'. edit_peer_configmap mem_cluster default_configuration (Some ''dev-1'') None None sample_peers
        = (Inr (), w')
      \<and> fst (peer_exists mem_cluster default_configuration ''dev.1'' w') = Inr True)"
proof -
  have t: "translate_peer_name ''dev.1'' = ''dev0001''" by code_simp
  from sample_peer_added obtain w' where w': "edit_peer_configmap mem_cluster default_configuration
    (Some ''dev-1'') None None sample_peers = (Inr (), w')" by blast
  then have "fst (peer_exists mem_cluster default_configuration ''dev.1'' w') = Inr True"
    by (auto simp: edit_peer_configmap_def create_stowaway_configmap_def Let_def sample_peers_def mem_empty_def
      mem_core_def mem_read_def bind_def thn_def data_item_def item_def translate_c1 t
      mem_patch_config_map_def peer_exists_def try_except_def routes_data_def peer_patch_def)
  with w' t show ?thesis by (auto simp: translate_c1)
qed

section \<open>The WireGuard configuration of a peer\<close>

text \<open>A section of the file Stowaway writes: a header line and lines \<open>key = value\<close>.\<close>

definition entry_ok :: "string \<times> string \<Rightarrow> bool" where
  "entry_ok kv \<longleftrightarrow> CHR ''='' \<notin> set (fst kv) \<and> CHR ''\<newline>'' \<notin> set (fst kv) \<and> CHR ''\<newline>'' \<notin> set (snd kv)
     \<and> strip (fst kv) = fst kv \<and> strip (snd kv) = snd kv \<and> fst kv \<noteq> [] \<and> snd kv \<noteq> []
     \<and> CHR ''['' \<notin> set (fst kv) \<and> CHR ''['' \<notin> set (snd kv)"

definition wg_entry :: "string \<times> string \<Rightarrow> string" where
  "wg_entry kv = fst kv @ '' = '' @ snd kv"

definition wg_render :: "string dict \<Rightarrow> string dict \<Rightarrow> string" where
  "wg_render interface peer = join ''\<newline>''
     (''[Interface]'' # map wg_entry interface @ [''''] @ ''[Peer]'' # map wg_entry peer @ [''''])"

lemma strip_eq_nonspace: "strip s = s \<Longrightarrow> s \<noteq> [] \<Longrightarrow> \<not> is_space (hd s) \<and> \<not> is_space (last s)"
proof -
  assume s: "strip s = s" and ne: "s \<noteq> []"
  have len: "length (dropWhile is_space s) \<le> length s" by (rule length_dropWhile_le)
  have "length (strip s) \<le> length (dropWhile is_space s)"
    unfolding strip_def by (metis length_dropWhile_le length_rev)
  with s len have "length (dropWhile is_space s) = length s" by simp
  then have d: "dropWhile is_space s = s" by (metis dropWhile_eq_drop length_drop add_diff_cancel_left' cancel_comm_monoid_add_class.diff_cancel diff_diff_cancel drop0 length_takeWhile_le)
  then have h: "\<not> is_space (hd s)" using ne by (metis hd_dropWhile)
  from s d have "rev (dropWhile is_space (rev s)) = s" by (simp add: strip_def)
  then have "dropWhile is_space (rev s) = rev s" by (metis rev_rev_ident)
  then have "\<not> is_space (hd (rev s))" using ne by (metis hd_dropWhile rev_is_Nil_conv)
  with h show ?thesis by (simp add: hd_rev)
qed

lemma strip_spaces_left: "strip (CHR '' '' # s) = strip s"
  by (simp add: strip_def is_space_def)

lemma strip_space_right: "strip s = s \<Longrightarrow> s \<noteq> [] \<Longrightarrow> strip (s @ '' '') = s"
  using strip_eq_nonspace [of s] by (cases s) (auto simp: strip_def is_space_def hd_rev dropWhile_append3 rev_is_Nil_conv)

lemma not_contains_bracket: "CHR ''['' \<notin> set s \<Longrightarrow> \<not> contains s (CHR ''['' # t)"
  by (auto simp: contains_iff)

lemma read_entry:
  assumes "entry_ok kv"
  shows "read_wireguard_line (pre, d) (wg_entry kv) = (pre, dset d (pre @ ''.'' @ fst kv) (snd kv))"
proof -
  obtain k v where kv: "kv = (k, v)" by force
  have k: "CHR ''='' \<notin> set (k @ '' '')" and sk: "strip (k @ '' '') = k" and sv: "strip ('' '' @ v) = v"
    using assms kv strip_space_right [of k] strip_spaces_left [of v] by (auto simp: entry_ok_def)
  have sp: "split1 (CHR ''='') (wg_entry kv) = [k @ '' '', '' '' @ v]"
    using split1_append [OF k, of "'' '' @ v"] kv by (simp add: wg_entry_def)
  have b: "CHR ''['' \<notin> set (wg_entry kv)" using assms kv by (auto simp: entry_ok_def wg_entry_def)
  have "strip (wg_entry kv) = wg_entry kv"
    using assms kv strip_eq_nonspace [of k] strip_eq_nonspace [of v]
    by (intro strip_id) (auto simp: wg_entry_def entry_ok_def)
  then have ne: "strip (wg_entry kv) \<noteq> []" by (simp add: wg_entry_def)
  from sp sk sv ne not_contains_bracket [OF b] show ?thesis
    by (simp add: kv)
qed

lemma read_entries:
  assumes "list_all entry_ok kvs"
  shows "foldl read_wireguard_line (pre, d) (map wg_entry kvs)
       = (pre, foldl (\<lambda>a (k, v). dset a (pre @ ''.'' @ k) v) d kvs)"
  using assms by (induction kvs arbitrary: d) (auto simp: read_entry split_beta simp del: read_wireguard_line.simps)

lemma wg_lines:
  assumes "list_all entry_ok i" "list_all entry_ok p"
  shows "split (CHR ''\<newline>'') (wg_render i p)
    = ''[Interface]'' # map wg_entry i @ [''''] @ ''[Peer]'' # map wg_entry p @ ['''']"
  unfolding wg_render_def
  by (rule split_join) (use assms in \<open>auto simp: list_all_iff entry_ok_def wg_entry_def\<close>)

lemma read_headers:
  "read_wireguard_line (pre, d) ''[Interface]'' = (''Interface'', d)"
  "read_wireguard_line (pre, d) ''[Peer]'' = (''Peer'', d)"
  "read_wireguard_line (pre, d) [] = (pre, d)"
  by (simp_all add: strip_def is_space_def)

lemma read_rendered:
  assumes "list_all entry_ok interface" and "list_all entry_ok peer"
  shows "read_wireguard_config (wg_render interface peer) =
    foldl (\<lambda>a (k, v). dset a (''Peer.'' @ k) v)
      (foldl (\<lambda>a (k, v). dset a (''Interface.'' @ k) v) [] interface) peer"
  unfolding read_wireguard_config_def wg_lines [OF assms]
  by (simp add: read_headers read_entries assms del: read_wireguard_line.simps)

text \<open>The parser of the WireGuard peer configuration inverts its rendering: it returns one
  entry \<open>Interface.k\<close> or \<open>Peer.k\<close> for every line \<open>k = v\<close> of the two sections, later lines of the
  same key winning.\<close>

theorem wireguard_config_roundtrip:
  assumes "list_all entry_ok interface" and "list_all entry_ok peer"
  shows "read_wireguard_config (wg_render interface peer) =
    foldl (\<lambda>a (k, v). dset a (''Peer.'' @ k) v)
      (foldl (\<lambda>a (k, v). dset a (''Interface.'' @ k) v) [] interface) peer"
  by (rule read_rendered [OF assms])

theorem wireguard_config_roundtrip_witness:
  "read_wireguard_config (wg_render [(''Address'', ''192.168.99.2'')] [(''Endpoint'', ''1.2.3.4:31820'')])
    = [(''Interface.Address'', ''192.168.99.2''), (''Peer.Endpoint'', ''1.2.3.4:31820'')]"
proof -
  have i: "list_all entry_ok [(''Address'', ''192.168.99.2'')]"
    by (simp add: entry_ok_def strip_def is_space_def)
  have p: "list_all entry_ok [(''Endpoint'', ''1.2.3.4:31820'')]"
    by (simp add: entry_ok_def strip_def is_space_def)
  show ?thesis using wireguard_config_roundtrip [OF i p] by simp
qed

end
