(* ===== verification/WgOutput.thy ===== *)
theory WgOutput
  imports PyStr
begin

text \<open>
  \<open>parse_wg_output\<close> of operator/gefyra/connection/stowaway/utils.py: the output of \<open>wg show\<close> as
  a dictionary.  The regular expressions are matchers that return every way to match in the
  order in which Python's backtracking tries them; the first one is Python's match.
\<close>

section \<open>Values\<close>

text \<open>A number of a transfer line: an \<open>int\<close>, or the digits of a \<open>float\<close>.\<close>

datatype wg_num = WgInt nat | WgFloat string

datatype wg_value =
    WStr string
  | WInt int
  | WList "string list"
  | WTransfer wg_num string wg_num string    \<comment> \<open>received, unit, sent, unit\<close>
  | WKeepalive nat                            \<comment> \<open>in seconds\<close>
  | WEndpoint string int

record wg_data =
  wg_interface :: "wg_value dict"
  wg_peers :: "wg_value dict list"

section \<open>Regular expressions\<close>

text \<open>\<open>[..]+\<close>, longest match first; \<open>.+?\<close>, shortest first; a literal.\<close>

fun greedy1 :: "(char \<Rightarrow> bool) \<Rightarrow> string \<Rightarrow> (string \<times> string) list" where
  "greedy1 p [] = []"
| "greedy1 p (c # s) =
     (if p c then map (\<lambda>x. (c # fst x, snd x)) (greedy1 p s) @ [([c], s)] else [])"

fun lazy1 :: "(char \<Rightarrow> bool) \<Rightarrow> string \<Rightarrow> (string \<times> string) list" where
  "lazy1 p [] = []"
| "lazy1 p (c # s) =
     (if p c then ([c], s) # map (\<lambda>x. (c # fst x, snd x)) (lazy1 p s) else [])"

definition literal :: "string \<Rightarrow> string \<Rightarrow> string list" where
  "literal l s = (if prefix l s then [drop (length l) s] else [])"

definition first_of :: "'a list \<Rightarrow> 'a option" where
  "first_of xs = (case xs of [] \<Rightarrow> None | x # _ \<Rightarrow> Some x)"

definition is_num_char :: "char \<Rightarrow> bool" where
  "is_num_char c \<longleftrightarrow> is_digit c \<or> c = CHR ''.''"

definition not_newline :: "char \<Rightarrow> bool" where
  "not_newline c \<longleftrightarrow> c \<noteq> CHR ''\<newline>''"

text \<open>\<open>([\d.]+)\s+(.+?)\s+<word>\<close>: the groups and what is left.\<close>

definition amount_matches :: "string \<Rightarrow> string \<Rightarrow> ((string \<times> string) \<times> string) list" where
  "amount_matches word s =
     concat (map (\<lambda>(n, s1). concat (map (\<lambda>(_, s2). concat (map (\<lambda>(u, s3).
       concat (map (\<lambda>(_, s4). map (\<lambda>s5. ((n, u), s5)) (literal word s4)) (greedy1 is_space s3)))
       (lazy1 not_newline s2))) (greedy1 is_space s1))) (greedy1 is_num_char s))"

definition transfer_matches :: "string \<Rightarrow> ((string \<times> string) \<times> string \<times> string) list" where
  "transfer_matches s =
     concat (map (\<lambda>(a, s1). concat (map (\<lambda>(_, s2). map (\<lambda>(b, _). (a, b)) (amount_matches ''sent'' s2))
       (greedy1 is_space s1))) (amount_matches ''received,'' s))"

definition keepalive_matches :: "string \<Rightarrow> string list" where
  "keepalive_matches s =
     concat (map (\<lambda>(n, s1). concat (map (\<lambda>(_, s2). map (\<lambda>_. n) (literal ''seconds'' s2))
       (greedy1 is_space s1))) (greedy1 is_digit s))"

text \<open>\<open>re.split(r":\s+", line, maxsplit=1)\<close> unpacked into two parts.\<close>

fun split_key :: "string \<Rightarrow> (string \<times> string) option" where
  "split_key [] = None"
| "split_key (c # s) =
     (if c = CHR '':'' \<and> s \<noteq> [] \<and> is_space (hd s) then Some ([], dropWhile is_space s)
      else map_option (\<lambda>(k, v). (c # k, v)) (split_key s))"

section \<open>One line\<close>

text \<open>\<open>float(n) if "." in n else int(n)\<close> of \<open>[\d.]+\<close>: a float has one dot and a digit.\<close>

definition wg_number :: "string \<Rightarrow> exn + wg_num" where
  "wg_number n = (if CHR ''.'' \<in> set n
     then if length (split (CHR ''.'') n) = 2 \<and> list_ex is_digit n then Inr (WgFloat n) else Inl ValueError
     else Inr (WgInt (digits_val n)))"

definition parse_transfer :: "string \<Rightarrow> exn + wg_value" where
  "parse_transfer v = (case first_of (transfer_matches v) of
       None \<Rightarrow> Inr (WStr v)
     | Some ((n, u), m, u') \<Rightarrow> sbind (wg_number n) (\<lambda>r. sbind (wg_number m) (\<lambda>s.
         Inr (WTransfer r u s u'))))"

definition parse_endpoint :: "string \<Rightarrow> wg_value" where
  "parse_endpoint v = (case sbind (unpack2 (rsplit1 (CHR '':'') v)) (\<lambda>(host, port).
       sbind (py_int port) (\<lambda>p. Inr (WEndpoint host p))) of
     Inr e \<Rightarrow> e | Inl _ \<Rightarrow> WStr v)"

text \<open>The value stored under a key; \<open>ValueError\<close> skips the line.\<close>

definition parse_value :: "string \<Rightarrow> string \<Rightarrow> exn + wg_value" where
  "parse_value key v =
     (if key = ''allowed_ips'' then Inr (WList (map strip (split (CHR '','') v)))
      else if key = ''transfer'' then parse_transfer v
      else if key = ''persistent_keepalive''
      then Inr (case first_of (keepalive_matches v) of Some n \<Rightarrow> WKeepalive (digits_val n) | None \<Rightarrow> WStr v)
      else if key = ''endpoint'' then Inr (parse_endpoint v)
      else if key = ''listening_port''
      then Inr (case py_int v of Inr n \<Rightarrow> WInt n | Inl _ \<Rightarrow> WStr v)
      else Inr (WStr v))"

datatype wg_context = NoContext | InInterface | InPeer

definition set_last :: "('a \<Rightarrow> 'a) \<Rightarrow> 'a list \<Rightarrow> 'a list" where
  "set_last f xs = (if xs = [] then [] else butlast xs @ [f (last xs)])"

text \<open>\<open>current_context[key] = value\<close>: the interface, or the peer that was appended last.\<close>

definition put_value :: "wg_context \<Rightarrow> wg_data \<Rightarrow> string \<Rightarrow> wg_value \<Rightarrow> wg_data" where
  "put_value ctx d key v = (case ctx of
       NoContext \<Rightarrow> d
     | InInterface \<Rightarrow> d\<lparr>wg_interface := dset (wg_interface d) key v\<rparr>
     | InPeer \<Rightarrow> d\<lparr>wg_peers := set_last (\<lambda>p. dset p key v) (wg_peers d)\<rparr>)"

definition parse_property :: "wg_context \<Rightarrow> wg_data \<Rightarrow> string \<Rightarrow> wg_data" where
  "parse_property ctx d line = (case split_key line of
       None \<Rightarrow> d
     | Some (k, v) \<Rightarrow> (let key = replace_char (CHR '' '') (CHR ''_'') (strip k) in
         case parse_value key v of Inl _ \<Rightarrow> d | Inr x \<Rightarrow> put_value ctx d key x))"

definition after_colon :: "string \<Rightarrow> string" where
  "after_colon line = strip (last (split1 (CHR '':'') line))"

definition parse_wg_line :: "wg_context \<times> wg_data \<Rightarrow> string \<Rightarrow> wg_context \<times> wg_data" where
  "parse_wg_line st raw = (case st of (ctx, d) \<Rightarrow>
     (let line = strip raw in
      if line = [] then (ctx, d)
      else if startswith line ''interface:''
      then (InInterface, d\<lparr>wg_interface := dset (wg_interface d) ''name'' (WStr (after_colon line))\<rparr>)
      else if startswith line ''peer:''
      then (InPeer, d\<lparr>wg_peers := wg_peers d @ [[(''public_key'', WStr (after_colon line))]]\<rparr>)
      else (ctx, parse_property ctx d line)))"

definition parse_wg_output :: "string \<Rightarrow> wg_data" where
  "parse_wg_output output_string =
     snd (foldl parse_wg_line (NoContext, \<lparr>wg_interface = [], wg_peers = []\<rparr>)
       (split (CHR ''\<newline>'') (strip output_string)))"

end
