(* ===== verification/WgRoundTrip.thy ===== *)
theory WgRoundTrip
  imports WgOutput
begin

text \<open>
  The parser of \<open>WgOutput\<close> against a printer of the same format: what \<open>show_wg\<close> prints of
  well-formed data is read back as that data.
\<close>

section \<open>Printing\<close>

fun show_num :: "wg_num \<Rightarrow> string" where
  "show_num (WgInt n) = str_nat n"
| "show_num (WgFloat s) = s"

fun show_value :: "wg_value \<Rightarrow> string" where
  "show_value (WStr s) = s"
| "show_value (WInt n) = str_int n"
| "show_value (WList ips) = join '', '' ips"
| "show_value (WTransfer n u m u') =
     show_num n @ CHR '' '' # u @ CHR '' '' # ''received,'' @ CHR '' '' # show_num m @ CHR '' '' # u' @ CHR '' '' # ''sent''"
| "show_value (WKeepalive n) = str_nat n @ CHR '' '' # ''seconds''"
| "show_value (WEndpoint h p) = h @ CHR '':'' # str_int p"

definition show_key :: "string \<Rightarrow> string" where
  "show_key k = replace_char (CHR ''_'') (CHR '' '') k"

definition show_field :: "string \<times> wg_value \<Rightarrow> string" where
  "show_field f = ''  '' @ show_key (fst f) @ '': '' @ show_value (snd f)"

definition show_section :: "string \<Rightarrow> string \<times> wg_value dict \<Rightarrow> string list" where
  "show_section head s = (head @ '': '' @ fst s) # map show_field (snd s)"

text \<open>The interface (its name and fields) and the peers (key and fields).\<close>

definition show_wg :: "string \<times> wg_value dict \<Rightarrow> (string \<times> wg_value dict) list \<Rightarrow> string" where
  "show_wg i ps = join ''\<newline>'' (show_section ''interface'' i @ concat (map (show_section ''peer'') ps))"

definition wg_of :: "string \<times> wg_value dict \<Rightarrow> (string \<times> wg_value dict) list \<Rightarrow> wg_data" where
  "wg_of i ps = \<lparr>wg_interface = (''name'', WStr (fst i)) # snd i,
     wg_peers = map (\<lambda>p. (''public_key'', WStr (fst p)) # snd p) ps\<rparr>"

section \<open>Well-formed data\<close>

text \<open>A trimmed text on one line, and a word without white space.\<close>

definition trimmed :: "string \<Rightarrow> bool" where
  "trimmed s \<longleftrightarrow> s \<noteq> [] \<and> \<not> is_space (hd s) \<and> \<not> is_space (last s) \<and> CHR ''\<newline>'' \<notin> set s"

definition word :: "string \<Rightarrow> bool" where
  "word s \<longleftrightarrow> s \<noteq> [] \<and> list_all (\<lambda>c. \<not> is_space c) s"

fun num_ok :: "wg_num \<Rightarrow> bool" where
  "num_ok (WgInt n) = True"
| "num_ok (WgFloat s) = (list_all is_num_char s \<and> length (split (CHR ''.'') s) = 2 \<and> list_ex is_digit s)"

fun value_ok :: "string \<Rightarrow> wg_value \<Rightarrow> bool" where
  "value_ok k (WStr s) = (k \<notin> {''allowed_ips'', ''transfer'', ''persistent_keepalive'', ''endpoint'', ''listening_port''}
     \<and> trimmed s)"
| "value_ok k (WInt n) = (k = ''listening_port'')"
| "value_ok k (WList ips) = (k = ''allowed_ips'' \<and> ips \<noteq> [] \<and> list_all (\<lambda>ip. word ip \<and> CHR '','' \<notin> set ip) ips)"
| "value_ok k (WTransfer n u m u') = (k = ''transfer'' \<and> num_ok n \<and> word u \<and> num_ok m \<and> word u')"
| "value_ok k (WKeepalive n) = (k = ''persistent_keepalive'')"
| "value_ok k (WEndpoint h p) = (k = ''endpoint'' \<and> word h)"

definition key_ok :: "string \<Rightarrow> bool" where
  "key_ok k \<longleftrightarrow> word k \<and> CHR '':'' \<notin> set k \<and> hd k \<noteq> CHR ''_'' \<and> last k \<noteq> CHR ''_''
     \<and> k \<noteq> ''interface'' \<and> k \<noteq> ''peer''"

definition fields_ok :: "string \<Rightarrow> wg_value dict \<Rightarrow> bool" where
  "fields_ok first d \<longleftrightarrow> distinct (first # keys d) \<and> (\<forall>(k, v) \<in> set d. key_ok k \<and> value_ok k v)"

definition section_ok :: "string \<Rightarrow> string \<times> wg_value dict \<Rightarrow> bool" where
  "section_ok first s \<longleftrightarrow> trimmed (fst s) \<and> fields_ok first (snd s)"

section \<open>Matching\<close>

lemma greedy1_all:
  "m \<noteq> [] \<Longrightarrow> list_all p m \<Longrightarrow> r = [] \<or> \<not> p (hd r) \<Longrightarrow> \<exists>rest. greedy1 p (m @ r) = (m, r) # rest"
proof (induction m)
  case (Cons c m)
  show ?case
  proof (cases "m = []")
    case True
    then show ?thesis using Cons.prems by (cases r) auto
  next
    case False
    then show ?thesis using Cons by fastforce
  qed
qed simp

lemma greedy1_space: "\<not> is_space (hd r) \<Longrightarrow> r \<noteq> [] \<Longrightarrow> \<exists>rest. greedy1 is_space (CHR '' '' # r) = ('' '', r) # rest"
  using greedy1_all [of "'' ''" is_space r] by (auto simp: is_space_def)

lemma greedy1_none: "r = [] \<or> \<not> p (hd r) \<Longrightarrow> greedy1 p r = []"
  by (cases r) auto

lemma concat_hit: "f x = y # ys \<Longrightarrow> \<exists>zs. concat (map f (x # xs)) = y # zs"
  by simp

lemma lazy1_scan:
  assumes "u \<noteq> []" and "list_all (\<lambda>c. \<not> is_space c \<and> p c) u" and "f (u, CHR '' '' # s) = y # ys"
    and "\<And>m c r. \<not> is_space c \<Longrightarrow> f (m, c # r) = []"
  shows "\<exists>zs. concat (map f (lazy1 p (u @ CHR '' '' # s))) = y # zs"
  using assms
proof (induction u arbitrary: f)
  case (Cons c u)
  show ?case
  proof (cases u)
    case Nil
    then show ?thesis using Cons.prems by simp
  next
    case (Cons d u')
    have "\<exists>zs. concat (map (\<lambda>x. f (c # fst x, snd x)) (lazy1 p (u @ CHR '' '' # s))) = y # zs"
      by (rule Cons.IH) (use Cons.prems Cons in auto)
    moreover have "f ([c], u @ CHR '' '' # s) = []" using Cons.prems Cons by simp
    ultimately show ?thesis using Cons.prems by (simp add: comp_def)
  qed
qed simp

lemma literal_append [simp]: "literal l (l @ s) = [s]"
  by (simp add: literal_def)

lemma word_facts: "word u \<Longrightarrow> u \<noteq> [] \<and> \<not> is_space (hd u) \<and> \<not> is_space (last u)"
  by (cases u) (auto simp: word_def list_all_iff)

lemma not_space_newline: "\<not> is_space c \<Longrightarrow> not_newline c"
  by (auto simp: not_newline_def is_space_def)

lemma space_not_num: "is_space c \<Longrightarrow> \<not> is_num_char c"
  by (auto simp: is_num_char_def is_digit_def is_space_def)

lemma amount_first:
  assumes n: "n \<noteq> []" "list_all is_num_char n" and u: "word u" and l: "word l"
  shows "\<exists>zs. amount_matches l (n @ CHR '' '' # u @ CHR '' '' # l @ rest) = ((n, u), rest) # zs"
proof -
  let ?s3 = "l @ rest" and ?s1 = "CHR '' '' # u @ CHR '' '' # l @ rest"
  let ?lit = "\<lambda>u' (x, s4). map (\<lambda>s5. ((n, u'), s5)) (literal l s4)"
  let ?unit = "\<lambda>(u', s3). concat (map (?lit u') (greedy1 is_space s3))"
  let ?gap = "\<lambda>(x, s2). concat (map ?unit (lazy1 not_newline s2))"
  have sp: "is_space (CHR '' '')" by (simp add: is_space_def)
  obtain r3 where r3: "greedy1 is_space (CHR '' '' # ?s3) = ('' '', ?s3) # r3"
    using greedy1_space [of ?s3] word_facts [OF l] by (cases l) auto
  then have hit: "\<exists>ys. ?unit (u, CHR '' '' # ?s3) = ((n, u), rest) # ys" by simp
  have all: "list_all (\<lambda>c. \<not> is_space c \<and> not_newline c) u"
    using u by (auto simp: word_def list_all_iff not_space_newline)
  obtain z1 where z1: "concat (map ?unit (lazy1 not_newline (u @ CHR '' '' # ?s3))) = ((n, u), rest) # z1"
    using hit lazy1_scan [OF _ all, where f = ?unit and s = ?s3] word_facts [OF u] by fastforce
  obtain r1 where r1: "greedy1 is_space ?s1 = ('' '', u @ CHR '' '' # ?s3) # r1"
    using greedy1_space [of "u @ CHR '' '' # ?s3"] word_facts [OF u] by (cases u) auto
  obtain r0 where r0: "greedy1 is_num_char (n @ ?s1) = (n, ?s1) # r0"
    using greedy1_all [of n is_num_char ?s1] n space_not_num [OF sp] by auto
  have g: "concat (map ?gap (greedy1 is_space ?s1)) = ((n, u), rest) # (z1 @ concat (map ?gap r1))"
    unfolding r1 using z1 by simp
  show ?thesis
    unfolding amount_matches_def r0 using g by simp
qed

section \<open>Values\<close>

lemma show_num_chars: "num_ok n \<Longrightarrow> show_num n \<noteq> [] \<and> list_all is_num_char (show_num n)"
  by (cases n) (auto simp: list_all_iff is_num_char_def str_nat_digits)

lemma wg_number_show: "num_ok n \<Longrightarrow> wg_number (show_num n) = Inr n"
proof (cases n)
  case (WgFloat s)
  moreover assume "num_ok n"
  ultimately have "CHR ''.'' \<in> set s" by (cases "CHR ''.'' \<in> set s") auto
  with \<open>num_ok n\<close> WgFloat show ?thesis by (simp add: wg_number_def)
qed (simp add: wg_number_def str_nat_notin)

lemma parse_transfer_show:
  assumes "num_ok n" "word u" "num_ok m" "word u'"
  shows "parse_transfer (show_value (WTransfer n u m u')) = Inr (WTransfer n u m u')"
proof -
  let ?s = "show_num m @ CHR '' '' # u' @ CHR '' '' # ''sent''"
  have words: "word ''received,''" "word ''sent''" by (simp_all add: word_def is_space_def)
  obtain z1 where z1: "amount_matches ''received,'' (show_value (WTransfer n u m u'))
      = ((show_num n, u), CHR '' '' # ?s) # z1"
    using amount_first [OF _ _ assms(2) words(1), of "show_num n" "CHR '' '' # ?s"] show_num_chars [OF assms(1)] by auto
  obtain z2 where z2: "amount_matches ''sent'' ?s = ((show_num m, u'), []) # z2"
    using amount_first [OF _ _ assms(4) words(2), of "show_num m" "[]"] show_num_chars [OF assms(3)] by auto
  have "?s \<noteq> []" "is_num_char (hd ?s)" using show_num_chars [OF assms(3)] by (auto simp: list_all_iff)
  then obtain z3 where z3: "greedy1 is_space (CHR '' '' # ?s) = ('' '', ?s) # z3"
    using greedy1_space [of ?s] space_not_num by blast
  have "first_of (transfer_matches (show_value (WTransfer n u m u')))
      = Some ((show_num n, u), show_num m, u')"
    unfolding transfer_matches_def z1 using z2 z3 by (simp add: first_of_def)
  then show ?thesis using assms by (simp add: parse_transfer_def wg_number_show)
qed

lemma parse_keepalive_show: "first_of (keepalive_matches (show_value (WKeepalive n))) = Some (str_nat n)"
proof -
  have digits: "list_all is_digit (str_nat n)" "\<not> is_digit (CHR '' '')"
    by (auto simp: list_all_iff str_nat_digits) (simp add: is_digit_def)
  obtain z1 where z1: "greedy1 is_digit (str_nat n @ CHR '' '' # ''seconds'') = (str_nat n, CHR '' '' # ''seconds'') # z1"
    using greedy1_all [of "str_nat n" is_digit "CHR '' '' # ''seconds''"] digits by auto
  obtain z2 where z2: "greedy1 is_space (CHR '' '' # ''seconds'') = ('' '', ''seconds'') # z2"
    using greedy1_space [of "''seconds''"] by (auto simp: is_space_def)
  have "literal ''seconds'' ''seconds'' = [[]]" by (simp add: literal_def)
  then show ?thesis
    unfolding keepalive_matches_def show_value.simps z1 using z2 by (simp add: first_of_def)
qed

lemma parse_endpoint_show: "parse_endpoint (show_value (WEndpoint h p)) = WEndpoint h p"
  by (simp add: parse_endpoint_def rsplit1_append str_int_notin)

lemma strip_word: "word w \<Longrightarrow> strip w = w"
  using word_facts [of w] by (simp add: strip_id)

lemma strip_space_word: "word w \<Longrightarrow> strip (CHR '' '' # w) = w"
  using strip_word [of w] by (simp add: strip_def is_space_def)

lemma parse_ips_show:
  assumes "ips \<noteq> []" "list_all (\<lambda>ip. word ip \<and> CHR '','' \<notin> set ip) ips"
  shows "map strip (split (CHR '','') (join '', '' ips)) = ips"
  using assms
proof (induction "'', ''" ips rule: join.induct)
  case (3 x y ys)
  have x: "CHR '','' \<notin> set x" "word x" using 3 by auto
  have "split (CHR '','') (CHR '' '' # join '', '' (y # ys))
      = (CHR '' '' # hd (split (CHR '','') (join '', '' (y # ys)))) # tl (split (CHR '','') (join '', '' (y # ys)))"
    by (cases "split (CHR '','') (join '', '' (y # ys))") auto
  moreover have "map strip (split (CHR '','') (join '', '' (y # ys))) = y # ys" using 3 by simp
  moreover obtain p ps where sp: "split (CHR '','') (join '', '' (y # ys)) = p # ps"
    by (cases "split (CHR '','') (join '', '' (y # ys))") auto
  moreover have "strip (CHR '' '' # p) = strip p" by (simp add: strip_def is_space_def)
  ultimately show ?case using x by (simp add: split_append strip_word)
qed (auto simp: strip_word)

lemma parse_value_show: "value_ok k v \<Longrightarrow> parse_value k (show_value v) = Inr v"
proof (cases v)
  case (WTransfer n u m u')
  moreover assume "value_ok k v"
  ultimately show ?thesis using parse_transfer_show [of n u m u'] by (simp add: parse_value_def)
next
  case (WKeepalive n)
  moreover assume "value_ok k v"
  ultimately show ?thesis using parse_keepalive_show [of n] by (simp add: parse_value_def)
next
  case (WEndpoint h p)
  moreover assume "value_ok k v"
  ultimately show ?thesis using parse_endpoint_show [of h p] by (simp add: parse_value_def)
qed (auto simp: parse_value_def parse_ips_show)

section \<open>Lines\<close>

lemma hd_last_append: "a \<noteq> [] \<Longrightarrow> hd (a @ b) = hd a" "b \<noteq> [] \<Longrightarrow> last (a @ b) = last b"
  by simp_all

lemma word_no_newline: "word w \<Longrightarrow> CHR ''\<newline>'' \<notin> set w"
  by (auto simp: word_def list_all_iff is_space_def)

lemma word_trimmed: "word w \<Longrightarrow> trimmed w"
  using word_facts [of w] by (simp add: trimmed_def word_no_newline)

lemma word_str_nat: "word (str_nat n)"
  by (auto simp: word_def list_all_iff dest!: str_nat_digits digit_not_special)

lemma word_str_int: "word (str_int n)"
  using word_str_nat by (auto simp: str_int_def word_def is_space_def)

lemma num_char_not_space: "is_num_char c \<Longrightarrow> \<not> is_space c"
  using space_not_num by blast

lemma word_num: "num_ok n \<Longrightarrow> word (show_num n)"
  using show_num_chars [of n] by (auto simp: word_def list_all_iff num_char_not_space)

text \<open>A text that begins and ends with a word and has no line break in between is trimmed.\<close>

lemma trimmed_between:
  "word a \<Longrightarrow> word b \<Longrightarrow> CHR ''\<newline>'' \<notin> set m \<Longrightarrow> trimmed (a @ m @ b)"
  using word_facts [of a] word_facts [of b] by (simp add: trimmed_def word_no_newline hd_append)

lemma trimmed_join: "ips \<noteq> [] \<Longrightarrow> list_all word ips \<Longrightarrow> trimmed (join '', '' ips)"
proof (induction "'', ''" ips rule: join.induct)
  case (3 x y ys)
  then have "trimmed (join '', '' (y # ys))" "word x" by auto
  then show ?case using word_facts [of x] by (auto simp: trimmed_def word_no_newline hd_append)
qed (auto simp: word_trimmed)

lemma trimmed_value: "value_ok k v \<Longrightarrow> trimmed (show_value v)"
proof (cases v)
  case (WList ips)
  moreover assume "value_ok k v"
  ultimately show ?thesis using trimmed_join [of ips] by (auto simp: list_all_iff)
next
  case (WTransfer n u m u')
  moreover assume "value_ok k v"
  ultimately have ok: "num_ok n" "word u" "num_ok m" "word u'" by auto
  let ?m = "CHR '' '' # u @ CHR '' '' # ''received,'' @ CHR '' '' # show_num m @ CHR '' '' # u' @ '' ''"
  have "CHR ''\<newline>'' \<notin> set ?m" using ok by (simp add: word_no_newline word_num)
  from trimmed_between [OF word_num [OF ok(1)] _ this, of "''sent''"] show ?thesis
    using WTransfer by (simp add: word_def is_space_def)
next
  case (WKeepalive n)
  then show ?thesis using trimmed_between [OF word_str_nat [of n], of "''seconds''" "'' ''"]
    by (simp add: word_def is_space_def)
next
  case (WEndpoint h p)
  moreover assume "value_ok k v"
  ultimately show ?thesis using trimmed_between [OF _ word_str_int [of p], of h "'':''"] by simp
qed (auto simp: word_trimmed word_str_int)


lemma show_key_inverse: "key_ok k \<Longrightarrow> replace_char (CHR '' '') (CHR ''_'') (show_key k) = k"
proof -
  assume "key_ok k"
  then have "CHR '' '' \<notin> set k" by (auto simp: key_ok_def word_def list_all_iff is_space_def)
  then show ?thesis by (induction k) (auto simp: show_key_def replace_char_def)
qed

lemma show_key_no_colon: "key_ok k \<Longrightarrow> CHR '':'' \<notin> set (show_key k)"
  by (auto simp: key_ok_def show_key_def replace_char_def)

lemma show_key_edges: "key_ok k \<Longrightarrow> show_key k \<noteq> [] \<and> \<not> is_space (hd (show_key k))
    \<and> \<not> is_space (last (show_key k)) \<and> CHR ''\<newline>'' \<notin> set (show_key k)"
  using word_facts [of k] word_no_newline [of k]
  by (auto simp: key_ok_def show_key_def replace_char_def hd_map last_map)

lemma split_key_show:
  "CHR '':'' \<notin> set k \<Longrightarrow> v \<noteq> [] \<Longrightarrow> \<not> is_space (hd v) \<Longrightarrow> split_key (k @ CHR '':'' # CHR '' '' # v) = Some (k, v)"
proof (induction k)
  case Nil
  then have "dropWhile is_space v = v" by (cases v) auto
  then show ?case by (simp add: is_space_def)
qed auto

lemma prefix_colon: "CHR '':'' \<notin> set a \<Longrightarrow> CHR '':'' \<notin> set b \<Longrightarrow> prefix (b @ '':'') (a @ CHR '':'' # s) \<Longrightarrow> a = b"
  by (auto simp: prefix_def) (metis takeWhile_until)

lemma strip_trimmed: "trimmed s \<Longrightarrow> strip s = s"
  by (simp add: trimmed_def strip_id)

lemma strip_spaces: "trimmed s \<Longrightarrow> strip (''  '' @ s) = s" "trimmed s \<Longrightarrow> strip ('' '' @ s) = s"
  using strip_trimmed [of s] by (simp_all add: strip_def is_space_def)

abbreviation field_text :: "string \<times> wg_value \<Rightarrow> string" where
  "field_text f \<equiv> show_key (fst f) @ CHR '':'' # CHR '' '' # show_value (snd f)"

lemma trimmed_field: "key_ok k \<Longrightarrow> value_ok k v \<Longrightarrow> trimmed (field_text (k, v))"
  using show_key_edges [of k] trimmed_value [of k v] by (auto simp: trimmed_def hd_append)

lemma parse_field:
  assumes "key_ok k" and "value_ok k v"
  shows "parse_wg_line (ctx, d) (show_field (k, v)) = (ctx, put_value ctx d k v)"
proof -
  let ?t = "field_text (k, v)"
  have "strip (show_field (k, v)) = ?t"
    using strip_spaces(1) [OF trimmed_field [OF assms]] by (simp add: show_field_def)
  moreover have "?t \<noteq> []" by simp
  moreover have "show_key k \<noteq> ''interface''" "show_key k \<noteq> ''peer''"
    using show_key_inverse [OF assms(1)] assms(1) by (auto simp: key_ok_def replace_char_def)
  then have "\<not> startswith ?t ''interface:''" "\<not> startswith ?t ''peer:''"
    using prefix_colon [OF show_key_no_colon [OF assms(1)], of "''interface''"]
      prefix_colon [OF show_key_no_colon [OF assms(1)], of "''peer''"] by (auto simp: startswith_def)
  moreover have "split_key ?t = Some (show_key k, show_value v)"
    using split_key_show [OF show_key_no_colon [OF assms(1)]] trimmed_value [OF assms(2)]
    by (simp add: trimmed_def)
  moreover have "strip (show_key k) = show_key k" using show_key_edges [OF assms(1)] by (simp add: strip_id)
  ultimately show ?thesis
    by (simp add: parse_wg_line_def parse_property_def show_key_inverse [OF assms(1)]
        parse_value_show [OF assms(2)])
qed

lemma after_colon_show: "CHR '':'' \<notin> set h \<Longrightarrow> trimmed n \<Longrightarrow> after_colon (h @ CHR '':'' # CHR '' '' # n) = n"
  using strip_spaces(2) [of n] by (simp add: after_colon_def split1_append)

lemma parse_interface: "trimmed n \<Longrightarrow> parse_wg_line (ctx, d) (''interface'' @ '': '' @ n)
    = (InInterface, d\<lparr>wg_interface := dset (wg_interface d) ''name'' (WStr n)\<rparr>)"
proof -
  assume n: "trimmed n"
  have "trimmed (''interface'' @ '': '' @ n)" using n by (auto simp: trimmed_def is_space_def)
  from strip_trimmed [OF this] after_colon_show [OF _ n, of "''interface''"] show ?thesis
    by (simp add: parse_wg_line_def startswith_def)
qed

lemma parse_peer: "trimmed n \<Longrightarrow> parse_wg_line (ctx, d) (''peer'' @ '': '' @ n)
    = (InPeer, d\<lparr>wg_peers := wg_peers d @ [[(''public_key'', WStr n)]]\<rparr>)"
proof -
  assume n: "trimmed n"
  have "trimmed (''peer'' @ '': '' @ n)" using n by (auto simp: trimmed_def is_space_def)
  from strip_trimmed [OF this] after_colon_show [OF _ n, of "''peer''"] show ?thesis
    by (simp add: parse_wg_line_def startswith_def)
qed

section \<open>The whole output\<close>

lemma set_last_snoc [simp]: "set_last f (xs @ [x]) = xs @ [f x]"
  by (simp add: set_last_def)

lemma dset_append: "k \<notin> set (keys d) \<Longrightarrow> dset d k v @ e = d @ (k, v) # e"
  by (simp add: set_dset_new)

lemma parse_interface_fields:
  assumes "distinct (keys (acc @ fs))" and "\<forall>(k, v) \<in> set fs. key_ok k \<and> value_ok k v"
  shows "foldl parse_wg_line (InInterface, \<lparr>wg_interface = acc, wg_peers = ps\<rparr>) (map show_field fs)
     = (InInterface, \<lparr>wg_interface = acc @ fs, wg_peers = ps\<rparr>)"
  using assms
proof (induction fs arbitrary: acc)
  case (Cons f fs)
  obtain k v where f: "f = (k, v)" by force
  have new: "k \<notin> set (keys acc)" using Cons.prems f by (auto simp: keys_def)
  have "foldl parse_wg_line (InInterface, \<lparr>wg_interface = acc @ [f], wg_peers = ps\<rparr>) (map show_field fs)
     = (InInterface, \<lparr>wg_interface = (acc @ [f]) @ fs, wg_peers = ps\<rparr>)"
    by (rule Cons.IH) (use Cons.prems in auto)
  then show ?case using Cons.prems f set_dset_new [OF new] by (simp add: parse_field put_value_def)
qed simp

lemma parse_peer_fields:
  assumes "distinct (keys (acc @ fs))" and "\<forall>(k, v) \<in> set fs. key_ok k \<and> value_ok k v"
  shows "foldl parse_wg_line (InPeer, \<lparr>wg_interface = i, wg_peers = ps @ [acc]\<rparr>) (map show_field fs)
     = (InPeer, \<lparr>wg_interface = i, wg_peers = ps @ [acc @ fs]\<rparr>)"
  using assms
proof (induction fs arbitrary: acc)
  case (Cons f fs)
  obtain k v where f: "f = (k, v)" by force
  have new: "k \<notin> set (keys acc)" using Cons.prems f by (auto simp: keys_def)
  have "foldl parse_wg_line (InPeer, \<lparr>wg_interface = i, wg_peers = ps @ [acc @ [f]]\<rparr>) (map show_field fs)
     = (InPeer, \<lparr>wg_interface = i, wg_peers = ps @ [(acc @ [f]) @ fs]\<rparr>)"
    by (rule Cons.IH) (use Cons.prems in auto)
  then show ?case using Cons.prems f set_dset_new [OF new] by (simp add: parse_field put_value_def)
qed simp

lemma parse_peers:
  assumes "\<forall>p \<in> set ps. section_ok ''public_key'' p"
  shows "\<exists>ctx'. foldl parse_wg_line (ctx, \<lparr>wg_interface = i, wg_peers = done\<rparr>)
       (concat (map (show_section ''peer'') ps))
     = (ctx', \<lparr>wg_interface = i, wg_peers = done @ map (\<lambda>p. (''public_key'', WStr (fst p)) # snd p) ps\<rparr>)"
  using assms
proof (induction ps arbitrary: ctx "done")
  case (Cons p ps)
  have p: "trimmed (fst p)" "distinct (keys ([(''public_key'', WStr (fst p))] @ snd p))"
    "\<forall>(k, v) \<in> set (snd p). key_ok k \<and> value_ok k v"
    using Cons.prems by (auto simp: section_ok_def fields_ok_def)
  have "foldl parse_wg_line (ctx, \<lparr>wg_interface = i, wg_peers = done\<rparr>) (show_section ''peer'' p)
     = (InPeer, \<lparr>wg_interface = i, wg_peers = done @ [(''public_key'', WStr (fst p)) # snd p]\<rparr>)"
    using parse_peer_fields [OF p(2,3), of i "done"] parse_peer [OF p(1)] by (simp add: show_section_def)
  then show ?case
    using Cons.IH [of InPeer "done @ [(''public_key'', WStr (fst p)) # snd p]"] Cons.prems by simp
qed simp

lemma no_newline_sections:
  assumes "section_ok f s" and "CHR ''\<newline>'' \<notin> set head" and "l \<in> set (show_section head s)"
  shows "CHR ''\<newline>'' \<notin> set l \<and> l \<noteq> [] \<and> \<not> is_space (last l)"
proof -
  consider "l = head @ '': '' @ fst s" | k v where "(k, v) \<in> set (snd s)" "l = show_field (k, v)"
    using assms(3) by (auto simp: show_section_def)
  then show ?thesis
  proof cases
    case 1
    then show ?thesis using assms by (simp add: section_ok_def trimmed_def)
  next
    case 2
    then have "key_ok k" "value_ok k v" using assms(1) by (auto simp: section_ok_def fields_ok_def)
    with 2 trimmed_field [of k v] show ?thesis by (simp add: show_field_def trimmed_def)
  qed
qed

lemma hd_join: "x \<noteq> [] \<Longrightarrow> join sep (x # xs) \<noteq> [] \<and> hd (join sep (x # xs)) = hd x"
  by (cases xs) auto

lemma last_join: "xs \<noteq> [] \<Longrightarrow> (\<And>x. x \<in> set xs \<Longrightarrow> x \<noteq> []) \<Longrightarrow> last (join sep xs) = last (last xs)"
proof (induction sep xs rule: join.induct)
  case (3 sep x y ys)
  have "join sep (y # ys) \<noteq> []" using 3(3) by (cases ys) auto
  with 3 show ?case by simp
qed auto


text \<open>C18: What is printed of well-formed status data -- an interface and any number of peers, their
  fields with distinct keys and values of the type that belongs to the key -- is parsed back as
  exactly that data: transfer amounts with their units, endpoints, ports, lists of addresses and
  plain texts.\<close>

theorem wg_output_roundtrip:
  assumes i: "section_ok ''name'' i" and ps: "\<forall>p \<in> set ps. section_ok ''public_key'' p"
  shows "parse_wg_output (show_wg i ps) = wg_of i ps"
proof -
  let ?peers = "concat (map (show_section ''peer'') ps)"
  let ?lines = "show_section ''interface'' i @ ?peers"
  have iface: "trimmed (fst i)" "distinct (keys ([(''name'', WStr (fst i))] @ snd i))"
    "\<forall>(k, v) \<in> set (snd i). key_ok k \<and> value_ok k v"
    using i by (auto simp: section_ok_def fields_ok_def)
  have ne: "?lines \<noteq> []" by (simp add: show_section_def)
  have lines: "CHR ''\<newline>'' \<notin> set l \<and> l \<noteq> [] \<and> \<not> is_space (last l)" if "l \<in> set ?lines" for l
  proof (cases "l \<in> set (show_section ''interface'' i)")
    case True
    from no_newline_sections [OF i _ this] show ?thesis by simp
  next
    case False
    with that obtain p where p: "p \<in> set ps" "l \<in> set (show_section ''peer'' p)" by auto
    from ps p(1) have "section_ok ''public_key'' p" by blast
    from no_newline_sections [OF this _ p(2)] show ?thesis by simp
  qed
  have hd: "show_wg i ps \<noteq> []" "hd (show_wg i ps) = CHR ''i''"
    using hd_join [of "''interface'' @ '': '' @ fst i"] by (simp_all add: show_wg_def show_section_def)
  have "last (show_wg i ps) = last (last ?lines)"
    unfolding show_wg_def using lines by (intro last_join [OF ne]) blast
  then have "strip (show_wg i ps) = show_wg i ps"
    using hd lines [OF last_in_set [OF ne]] by (simp add: strip_id is_space_def)
  moreover have "split (CHR ''\<newline>'') (show_wg i ps) = ?lines"
    unfolding show_wg_def using split_join [OF ne, of "CHR ''\<newline>''"] lines by blast
  moreover have "foldl parse_wg_line (NoContext, \<lparr>wg_interface = [], wg_peers = []\<rparr>)
      (show_section ''interface'' i)
     = (InInterface, \<lparr>wg_interface = (''name'', WStr (fst i)) # snd i, wg_peers = []\<rparr>)"
    using parse_interface_fields [OF iface(2,3), of "[]"] parse_interface [OF iface(1)]
    by (simp add: show_section_def)
  ultimately show ?thesis
    using parse_peers [OF ps, of InInterface "(''name'', WStr (fst i)) # snd i" "[]"]
    by (auto simp: parse_wg_output_def wg_of_def)
qed

definition wg_sample :: "(string \<times> wg_value dict) \<times> string \<times> wg_value dict" where
  "wg_sample = ((''wg0'', [(''listening_port'', WInt 51820)]), ''a='',
     [(''endpoint'', WEndpoint ''10.0.0.1'' 33416), (''allowed_ips'', WList [''192.168.99.3/32'', ''172.22.0.0/16'']),
      (''latest_handshake'', WStr ''24 seconds ago''),
      (''transfer'', WTransfer (WgFloat ''1.24'') ''MiB'' (WgInt 118) ''KiB'')])"

lemma wg_sample_ok: "section_ok ''name'' (fst wg_sample)" "section_ok ''public_key'' (snd wg_sample)"
  by (simp_all add: wg_sample_def section_ok_def fields_ok_def trimmed_def key_ok_def word_def is_space_def
      is_num_char_def is_digit_def)

theorem wg_output_roundtrip_witness:
  "parse_wg_output (show_wg (fst wg_sample) [snd wg_sample]) = wg_of (fst wg_sample) [snd wg_sample]"
  by (rule wg_output_roundtrip) (simp_all add: wg_sample_ok)

text \<open>The line that \<open>wg show\<close> prints of a keepalive has the word \<open>every\<close> before the number, which
  \<open>keepalive_re\<close> does not match at the start of the value.\<close>

lemma keepalive_every: "parse_value ''persistent_keepalive'' ''every 25 seconds'' = Inr (WStr ''every 25 seconds'')"
  by (simp add: parse_value_def keepalive_matches_def first_of_def is_digit_def)

end
