(* ===== verification/Machine.thy ===== *)
theory Machine
  imports ConnectionProvider WgOutput
begin

text \<open>
  What the three state machines of the operator share (operator/gefyra/base.py): the custom
  resources they are built from, the write-back of the state, events, patches, and the contract
  of the state-machine library.

  The library (\<open>statemachine.StateChart\<close>) is not part of the repository.  What the code relies on
  is its run-to-completion processing: an event that has no transition from the current state
  raises \<open>TransitionNotAllowed\<close>; an event sent from a callback is queued and processed when the
  running transition has been completed; an exception ends the processing.  \<open>rtc_loop\<close> states
  this of the processing loop, which is a parameter (\<open>run\<close>) of every handler.  One transition
  (\<open>fire\<close>) looks the declared table up, runs the callbacks the class declares, and assigns the
  state of the model object, whose setter writes it to the cluster.  Whether the library assigns
  the state again on a self-transition is left open (\<open>op_rewrites_self\<close>).
\<close>

section \<open>Custom resources\<close>

datatype json =
    JNull | JStr string | JInt int | JFloat string | JList "json list" | JObj "(string \<times> json) list"

record cr =
  cr_name :: string
  cr_namespace :: string
  cr_labels :: "string dict option"
  cr_state :: string
  cr_transitions :: "string dict option"
  cr_sunset :: "string option"

text \<open>A field is an \<open>option\<close> where the custom resource need not have it.\<close>

record header_match =
  hm_name :: string
  hm_value :: string
  hm_type :: string

record path_match =
  pm_path :: string
  pm_type :: string

datatype match = MatchHeader header_match | MatchPath path_match

text \<open>One entry of \<open>providerParameter.rules\<close>: its \<open>match\<close> list, if it has the key.\<close>

type_synonym rule_spec = "match list option"

text \<open>\<open>providerParameter\<close> of a bridge: its \<open>rules\<close>, if it has the key, and whatever else the object
  holds (further keys, also of a rule), in a canonical rendering: the code only compares it.\<close>

record bridge_params =
  bq_rules :: "rule_spec list option"
  bq_other :: string

record bridge = cr +
  br_provider :: "string option"
  br_connectionProvider :: "string option"
  br_client :: "string option"
  br_destinationIP :: "string option"
  br_target :: "string option"
  br_targetNamespace :: "string option"
  br_targetContainer :: "string option"
  br_portMappings :: "string list option"
  br_clusterEndpoint :: "string dict option"
  br_parameter :: "bridge_params option"

record gclient = cr +
  cl_provider :: "string option"
  cl_providerParameter :: "string dict option"
  cl_providerConfig :: "string dict option"
  cl_status :: "wg_value dict option option"   \<comment> \<open>\<open>status\<close>, and \<open>wireguard\<close> in it\<close>

text \<open>\<open>providerParameter\<close> of a mount: TLS settings, whole (\<open>pp_tls\<close>) or per port (\<open>pp_ports\<close>, where
  the entry of a port need not have the key \<open>tls\<close>); a value is given in line or as a reference to a
  Kubernetes secret.\<close>

datatype tls_value = Inline string | Secret string string string   \<comment> \<open>name, key, namespace\<close>

record provider_params =
  pp_tls :: "tls_value dict option"
  pp_ports :: "tls_value dict option dict"

record mount = cr +
  mt_provider :: "string option"
  mt_target :: "string option"
  mt_targetNamespace :: "string option"
  mt_targetContainer :: "string option"
  mt_missingGracePeriod :: "int option"
  mt_parameter :: "provider_params option"

definition req :: "'a option \<Rightarrow> exn + 'a" where
  "req f = (case f of None \<Rightarrow> Inl KeyError | Some v \<Rightarrow> Inr v)"

lemma req_simps [simp]: "req (Some v) = Inr v" "req None = Inl KeyError"
  by (simp_all add: req_def)

section \<open>Calls of the operator\<close>

record event =
  ev_namespace :: string
  ev_name :: string
  ev_reason :: string
  ev_type :: string
  ev_regarding :: string

record 'w custom_api =
  co_patch :: "string \<Rightarrow> string \<Rightarrow> string \<Rightarrow> json \<Rightarrow> ('w, unit) io"
  co_delete :: "string \<Rightarrow> string \<Rightarrow> string \<Rightarrow> ('w, unit) io"
  co_list_bridges :: "string \<Rightarrow> string option \<Rightarrow> ('w, bridge list) io"
  co_list_mounts :: "string \<Rightarrow> ('w, mount list) io"
  co_list_clients :: "string \<Rightarrow> ('w, gclient list) io"
  co_get_mount :: "string \<Rightarrow> string \<Rightarrow> ('w, mount) io"

record 'w operator =
  op_cfg :: operator_configuration
  op_custom :: "'w custom_api"
  op_create_event :: "event \<Rightarrow> ('w, unit) io"
  op_host :: "'w host"
  op_rewrites_self :: bool

definition swallow :: "exn \<Rightarrow> ('w, unit) io" where
  "swallow e = ret ()"

lemma swallow_apply [simp]: "swallow e = ret ()" by (simp add: swallow_def)

lemma try_swallow [simp]: "fst (try_except m swallow w) = Inr ()"
  by (simp add: try_except_def split: prod.split sum.split)

lemma thn_swallow: "thn (try_except m swallow) k w = k (snd (try_except m swallow w))"
  using try_swallow [of m w] by (cases "try_except m swallow w") (auto simp: thn_def bind_def)

text \<open>\<open>post_event\<close>: the text of the message is not modelled.  An exception while the event is
  created is logged.\<close>

definition post_event ::
    "'w operator \<Rightarrow> 'a cr_scheme \<Rightarrow> string \<Rightarrow> string \<Rightarrow> ('w, unit) io" where
  "post_event Op obj reason type =
     bind (get_now (op_host Op)) (\<lambda>now.
     bind (uuid4 (op_host Op)) (\<lambda>uid.
     try_except
       (op_create_event Op \<lparr>ev_namespace = NAMESPACE (op_cfg Op), ev_name = cr_name obj @ ''-'' @ uid,
          ev_reason = reason, ev_type = type, ev_regarding = cr_name obj\<rparr>)
       swallow))"

definition patch_object :: "'w operator \<Rightarrow> string \<Rightarrow> 'a cr_scheme \<Rightarrow> json \<Rightarrow> ('w, unit) io" where
  "patch_object Op plural obj data =
     co_patch (op_custom Op) plural (NAMESPACE (op_cfg Op)) (cr_name obj) data"

definition write_state :: "'w operator \<Rightarrow> string \<Rightarrow> 'a cr_scheme \<Rightarrow> string \<Rightarrow> ('w, unit) io" where
  "write_state Op plural obj state =
     bind (get_now (op_host Op)) (\<lambda>now.
     co_patch (op_custom Op) plural (cr_namespace obj) (cr_name obj)
       (JObj [(''state'', JStr state), (''stateTransitions'', JObj [(state, JStr now)])]))"

text \<open>The setter of \<open>GefyraStateObject.state\<close>: terminating states are not persisted.\<close>

definition set_state :: "'w operator \<Rightarrow> string \<Rightarrow> 'a cr_scheme \<Rightarrow> string \<Rightarrow> ('w, unit) io" where
  "set_state Op plural obj value =
     (if lower value \<in> {''terminating'', ''terminated''} then ret ()
      else write_state Op plural obj value)"

lemma set_state_terminal [simp]:
  "set_state Op plural obj ''TERMINATING'' = ret ()" "set_state Op plural obj ''TERMINATED'' = ret ()"
proof -
  have "lower ''TERMINATING'' = ''terminating''" "lower ''TERMINATED'' = ''terminated''" by code_simp+
  then show "set_state Op plural obj ''TERMINATING'' = ret ()" "set_state Op plural obj ''TERMINATED'' = ret ()"
    by (simp_all add: set_state_def)
qed

text \<open>A quiet operator: events and state writes go through.\<close>

definition quiet :: "'w operator \<Rightarrow> string \<Rightarrow> 'a cr_scheme \<Rightarrow> bool" where
  "quiet Op plural obj \<longleftrightarrow> (\<forall>reason ty w. fst (post_event Op obj reason ty w) = Inr ())
     \<and> (\<forall>v w. fst (set_state Op plural obj v w) = Inr ())"

lemma quiet_event: "quiet Op plural obj \<Longrightarrow> \<exists>w'. post_event Op obj reason ty w = (Inr (), w')"
  by (metis quiet_def prod.collapse)

lemma quiet_write: "quiet Op plural obj \<Longrightarrow> fst (set_state Op plural obj v w) = Inr ()"
  by (simp add: quiet_def)

definition completed_transition :: "'a cr_scheme \<Rightarrow> string \<Rightarrow> string option" where
  "completed_transition obj target =
     (case cr_transitions obj of None \<Rightarrow> None | Some t \<Rightarrow> dget t target)"

text \<open>\<open>a <= b\<close> of two datetimes: a naive and an aware one do not compare.\<close>

fun ts_le :: "timestamp \<Rightarrow> timestamp \<Rightarrow> exn + bool" where
  "ts_le (Naive a) (Naive b) = Inr (a \<le> b)"
| "ts_le (Aware a z) (Aware b z') = Inr (a - z \<le> b - z')"
| "ts_le _ _ = Inl TypeError"

text \<open>The property \<open>sunset\<close> of bridges and clients.\<close>

definition sunset_of :: "'w host \<Rightarrow> 'a cr_scheme \<Rightarrow> exn + timestamp option" where
  "sunset_of H obj = (case cr_sunset obj of
       None \<Rightarrow> Inr None
     | Some s \<Rightarrow> if s = [] then Inr None
         else sbind (fromisoformat H (strip_char (CHR ''Z'') s)) (\<lambda>t. Inr (Some t)))"

text \<open>\<open>ConnectionProviderType(...)\<close> knows one provider.\<close>

definition provider_named :: "string \<Rightarrow> string option \<Rightarrow> 'p \<Rightarrow> exn + 'p" where
  "provider_named name field P = (if field = Some name then Inr P else Inl ValueError)"

section \<open>Transitions and the processing loop\<close>

definition fire ::
    "bool \<Rightarrow> ('s \<Rightarrow> 'e \<Rightarrow> 's option) \<Rightarrow> ('s \<Rightarrow> ('w, unit) io) \<Rightarrow> ('s \<Rightarrow> 'e \<Rightarrow> ('w, 'e list) io)
     \<Rightarrow> 's \<Rightarrow> 'e \<Rightarrow> ('w, 's \<times> 'e list) io" where
  "fire rewrites_self tbl assign callbacks s e =
     (case tbl s e of
        None \<Rightarrow> raise TransitionNotAllowed
      | Some s' \<Rightarrow> bind (callbacks s e) (\<lambda>sent.
          thn (whenever (s' \<noteq> s \<or> rewrites_self) (assign s')) (ret (s', sent))))"

definition rtc_loop ::
    "('s \<Rightarrow> 'e \<Rightarrow> ('w, 's \<times> 'e list) io) \<Rightarrow> ('e list \<Rightarrow> ('s \<times> 'w, unit) io) \<Rightarrow> bool" where
  "rtc_loop step run \<longleftrightarrow>
     (\<forall>s w. run [] (s, w) = (Inr (), (s, w)))
   \<and> (\<forall>e es s w. run (e # es) (s, w) = (case step s e w of
        (Inl x, w') \<Rightarrow> (Inl x, (s, w'))
      | (Inr (s', sent), w') \<Rightarrow> run (es @ sent) (s', w')))"

text \<open>Handlers work on the pair of the machine's state and the world.\<close>

definition current :: "('s \<times> 'w, 's) io" where
  "current = (\<lambda>(s, w). (Inr s, (s, w)))"

definition lift :: "('w, 'a) io \<Rightarrow> ('s \<times> 'w, 'a) io" where
  "lift m = (\<lambda>(s, w). case m w of (r, w') \<Rightarrow> (r, (s, w')))"

text \<open>\<open>if machine.x.is_active: ...\<close>\<close>

definition if_active :: "('s \<Rightarrow> bool) \<Rightarrow> ('s \<times> 'w, unit) io \<Rightarrow> ('s \<times> 'w, unit) io" where
  "if_active p m = bind current (\<lambda>s. if p s then m else ret ())"

lemma current_apply [simp]: "current (s, w) = (Inr s, (s, w))"
  by (simp add: current_def)

lemma lift_apply: "lift m (s, w) = (fst (m w), (s, snd (m w)))"
  by (simp add: lift_def split: prod.split)

lemma lift_Pair: "m w = (r, w') \<Longrightarrow> lift m (s, w) = (r, (s, w'))"
  by (simp add: lift_def)

lemma if_active_apply [simp]: "if_active p m (s, w) = (if p s then m (s, w) else (Inr (), (s, w)))"
  by (simp add: if_active_def bind_def)

lemma rtc_Nil: "rtc_loop step run \<Longrightarrow> run [] (s, w) = (Inr (), (s, w))"
  by (simp add: rtc_loop_def)

lemma rtc_Inl: "rtc_loop step run \<Longrightarrow> step s e w = (Inl x, w') \<Longrightarrow> run (e # es) (s, w) = (Inl x, (s, w'))"
  by (simp add: rtc_loop_def)

lemma rtc_Inr: "rtc_loop step run \<Longrightarrow> step s e w = (Inr (s', sent), w') \<Longrightarrow>
    run (e # es) (s, w) = run (es @ sent) (s', w')"
  by (simp add: rtc_loop_def)

lemmas rtc_simps = rtc_Nil rtc_Inl rtc_Inr

text \<open>Such a loop exists for every transition function: it is given by a recursion that may not
  end, with an arbitrary outcome where it does not.  It instantiates the parameter in witnesses.\<close>

partial_function (option) rtc_opt ::
    "('s \<Rightarrow> 'e \<Rightarrow> ('w, 's \<times> 'e list) io) \<Rightarrow> 'e list \<Rightarrow> 's \<Rightarrow> 'w \<Rightarrow> ((exn + unit) \<times> ('s \<times> 'w)) option" where
  "rtc_opt step q s w = (case q of
       [] \<Rightarrow> Some (Inr (), (s, w))
     | e # es \<Rightarrow> (case step s e w of
         (Inl x, w') \<Rightarrow> Some (Inl x, (s, w'))
       | (Inr (s', sent), w') \<Rightarrow> rtc_opt step (es @ sent) s' w'))"

definition rtc_run ::
    "('s \<Rightarrow> 'e \<Rightarrow> ('w, 's \<times> 'e list) io) \<Rightarrow> 's \<times> 'w \<Rightarrow> 'e list \<Rightarrow> ('s \<times> 'w, unit) io" where
  "rtc_run step c q = (\<lambda>(s, w). case rtc_opt step q s w of Some r \<Rightarrow> r | None \<Rightarrow> (Inl OtherError, c))"

lemma rtc_run_loop: "rtc_loop step (rtc_run step c)"
  unfolding rtc_loop_def
proof (intro conjI allI)
  fix s w show "rtc_run step c [] (s, w) = (Inr (), (s, w))"
    by (simp add: rtc_run_def rtc_opt.simps)
next
  fix e es s w
  show "rtc_run step c (e # es) (s, w) = (case step s e w of
        (Inl x, w') \<Rightarrow> (Inl x, (s, w'))
      | (Inr (s', sent), w') \<Rightarrow> rtc_run step c (es @ sent) (s', w'))"
    by (simp add: rtc_run_def rtc_opt.simps [of step "e # es"] split: prod.split sum.split)
qed

lemma fire_None: "tbl s e = None \<Longrightarrow> fire b tbl assign cb s e = raise TransitionNotAllowed"
  by (simp add: fire_def)

lemma fire_Inl: "tbl s e = Some s' \<Longrightarrow> cb s e w = (Inl x, w') \<Longrightarrow> fire b tbl assign cb s e w = (Inl x, w')"
  by (simp add: fire_def bind_Inl)

text \<open>The event \<open>e\<close> from state \<open>s\<close> completes: the state after it and the events sent.\<close>

lemma fire_Inr:
  "fire b tbl assign cb s e w = (Inr (s', sent), w') \<Longrightarrow>
     tbl s e = Some s' \<and> (\<exists>w1. cb s e w = (Inr sent, w1)
       \<and> whenever (s' \<noteq> s \<or> b) (assign s') w1 = (Inr (), w'))"
  by (auto simp: fire_def bind_Inr_iff thn_Inr_iff split: option.splits)

lemma fire_complete:
  "tbl s e = Some s' \<Longrightarrow> cb s e w = (Inr sent, w1) \<Longrightarrow> (\<And>w. fst (assign s' w) = Inr ()) \<Longrightarrow>
     \<exists>w'. fire b tbl assign cb s e w = (Inr (s', sent), w')"
  by (auto simp: fire_def bind_Inr thn_def bind_def whenever_def split: prod.splits sum.splits)
     (metis fst_conv sum.distinct(1))+

text \<open>One event of the queue, forwards and backwards.  The state component is the last state written
  to the cluster: a write that fails leaves it.\<close>

lemma run_event:
  assumes "rtc_loop (fire b tbl assign cb) run" and "tbl s e = Some s'" and "cb s e w = (Inr sent, w1)"
    and "whenever (s' \<noteq> s \<or> b) (assign s') w1 = (Inr (), w2)"
  shows "run (e # es) (s, w) = run (es @ sent) (s', w2)"
  by (rule rtc_Inr [OF assms(1)]) (use assms in \<open>simp add: fire_def bind_Inr thn_Inr\<close>)

lemma run_event_quiet:
  assumes rtc: "rtc_loop (fire b tbl assign cb) run" and q: "\<And>s w. fst (assign s w) = Inr ()"
    and n: "tbl s e = Some s'" and cb: "cb s e w = (Inr sent, w1)"
  shows "\<exists>w2. run (e # es) (s, w) = run (es @ sent) (s', w2)"
proof -
  obtain w2 where "whenever (s' \<noteq> s \<or> b) (assign s') w1 = (Inr (), w2)"
    using whenever_total [of "assign s'"] q by blast
  from run_event [OF rtc n cb this] show ?thesis by blast
qed

lemma run_event_fails:
  assumes "rtc_loop (fire b tbl assign cb) run" and "tbl s e = Some s'" and "cb s e w = (Inl x, w1)"
  shows "run (e # es) (s, w) = (Inl x, (s, w1))"
  by (rule rtc_Inl [OF assms(1)]) (use assms in \<open>simp add: fire_def bind_Inl\<close>)

lemma run_event_refused:
  assumes "rtc_loop (fire b tbl assign cb) run" and "tbl s e = None"
  shows "run (e # es) (s, w) = (Inl TransitionNotAllowed, (s, w))"
  by (rule rtc_Inl [OF assms(1)]) (use assms in \<open>simp add: fire_def\<close>)

lemma run_event_result:
  assumes rtc: "rtc_loop (fire b tbl assign cb) run" and run: "run (e # es) (s, w) = (r, (t, w'))"
  shows "(\<exists>s' sent w1 w2. tbl s e = Some s' \<and> cb s e w = (Inr sent, w1)
       \<and> whenever (s' \<noteq> s \<or> b) (assign s') w1 = (Inr (), w2) \<and> run (es @ sent) (s', w2) = (r, (t, w')))
    \<or> (\<exists>x. r = Inl x \<and> t = s)"
proof (cases "fire b tbl assign cb s e w")
  case (Pair a w2)
  show ?thesis
  proof (cases a)
    case (Inl x)
    with Pair run rtc_Inl [OF rtc, of s e w x w2 es] show ?thesis by auto
  next
    case (Inr p)
    then obtain s' sent where p: "a = Inr (s', sent)" by (cases p) auto
    with Pair fire_Inr [of b tbl assign cb s e w s' sent w2] rtc_Inr [OF rtc, of s e w s' sent w2 es] run
    show ?thesis by auto
  qed
qed

text \<open>States a machine can be in after any sequence of events, whatever its callbacks did.\<close>

inductive steps_to :: "('s \<Rightarrow> 'e \<Rightarrow> 's option) \<Rightarrow> 's \<Rightarrow> 's \<Rightarrow> bool" for tbl where
  steps_refl: "steps_to tbl s s"
| steps_step: "steps_to tbl s s' \<Longrightarrow> tbl s' e = Some s'' \<Longrightarrow> steps_to tbl s s''"

lemma steps_to_closed:
  assumes "steps_to tbl s t" and "I s" and "\<And>s e s'. I s \<Longrightarrow> tbl s e = Some s' \<Longrightarrow> I s'"
  shows "I t"
  using assms(1,2) by (induction rule: steps_to.induct) (auto intro: assms(3))

end
