(* ===== verification/ClientState.thy ===== *)
theory ClientState
  imports Machine StowawayResources
begin

text \<open>
  The state machine of a GefyraClient, operator/gefyra/clientstate.py, the service accounts it
  creates (operator/gefyra/resources/serviceaccounts.py) and its handlers
  (operator/gefyra/handler/clients.py).
\<close>

section \<open>Service accounts\<close>

definition client_role_rules :: "string \<Rightarrow> policy_rule list" where
  "client_role_rules client_name =
    [\<lparr>pol_api_groups = [''gefyra.dev''], pol_resources = [''gefyraclients''],
      pol_verbs = [''delete''], pol_resource_names = [client_name]\<rparr>,
     \<lparr>pol_api_groups = [''gefyra.dev''], pol_resources = [''gefyraclients''],
      pol_verbs = [''list'', ''patch'', ''get''], pol_resource_names = []\<rparr>,
     \<lparr>pol_api_groups = [''gefyra.dev''], pol_resources = [''gefyrabridges''],
      pol_verbs = [''list'', ''get'', ''create'', ''patch'', ''delete'', ''watch''], pol_resource_names = []\<rparr>,
     \<lparr>pol_api_groups = [''gefyra.dev''], pol_resources = [''gefyrabridgemounts''],
      pol_verbs = [''list'', ''get'', ''create'', ''patch'', ''delete'', ''watch''], pol_resource_names = []\<rparr>,
     \<lparr>pol_api_groups = [''''], pol_resources = [''pods/exec'', ''pods/status''],
      pol_verbs = [''create'', ''get''], pol_resource_names = []\<rparr>,
     \<lparr>pol_api_groups = [''''], pol_resources = [''events''],
      pol_verbs = [''list'', ''get'', ''watch''], pol_resource_names = []\<rparr>,
     \<lparr>pol_api_groups = ['''', ''apps''],
      pol_resources = [''pods'', ''deployments'', ''statefulsets'', ''replicasets'', ''namespaces''],
      pol_verbs = [''list'', ''get''], pol_resource_names = []\<rparr>,
     \<lparr>pol_api_groups = [''''], pol_resources = [''namespaces''],
      pol_verbs = [''delete''], pol_resource_names = [''gefyra'']\<rparr>]"

definition handle_create_gefyraclient_serviceaccount ::
    "'w core_v1 \<Rightarrow> 'w rbac_v1 \<Rightarrow> string \<Rightarrow> string \<Rightarrow> string \<Rightarrow> ('w, unit) io" where
  "handle_create_gefyraclient_serviceaccount C R name namespace client_name =
     bind (try_except (read_cluster_role R ''gefyra-client'')
       (on_status [404] (create_cluster_role R ''gefyra-client'' (client_role_rules client_name)))) (\<lambda>role.
     try_except
       (bind (create_service_account C namespace \<lparr>sa_name = name, sa_namespace = namespace, sa_labels = []\<rparr>) (\<lambda>sa.
        create_cluster_role_binding R (''gefyra-rolebinding-'' @ sa_name sa) (sa_name sa, namespace) role))
       (on_status [409] (ret ())))"

definition handle_delete_gefyraclient_serviceaccount ::
    "'w core_v1 \<Rightarrow> 'w rbac_v1 \<Rightarrow> string \<Rightarrow> string \<Rightarrow> ('w, unit) io" where
  "handle_delete_gefyraclient_serviceaccount C R name namespace =
     try_except
       (bind (read_service_account C name namespace) (\<lambda>sa.
        thn (delete_cluster_role_binding R (''gefyra-rolebinding-'' @ sa_name sa))
        (delete_service_account C name namespace)))
       (on_status [404] (ret ()))"

definition get_serviceaccount_data ::
    "'w core_v1 \<Rightarrow> string \<Rightarrow> string \<Rightarrow> ('w, string dict) io" where
  "get_serviceaccount_data C name namespace =
     (let token_secret_name = name @ ''-token'' in
      bind (try_except (read_secret C token_secret_name namespace)
        (\<lambda>e. if status_of e = Some 404
             then try_except (create_token_secret C token_secret_name namespace name)
               (\<lambda>e'. if is_api_exception e' then raise PermanentError else raise e')
             else if is_api_exception e then raise PermanentError
             else raise e)) (\<lambda>data.
      case data of
        None \<Rightarrow> raise (TemporaryError (Some 1))
      | Some d \<Rightarrow> ret d))"

section \<open>States and transitions\<close>

record 'w client_env =
  ce_op :: "'w operator"
  ce_conn :: "'w connection_provider"
  ce_core :: "'w core_v1"
  ce_rbac :: "'w rbac_v1"

datatype client_state =
  CRequested | CCreating | CWaiting | CEnabling | CActive | CDisabling | CError | CTerminating

datatype client_event =
  CCreate | CWait | CEnable | CActivate | CDisable | CImpair | CTerminate

fun client_value :: "client_state \<Rightarrow> string" where
  "client_value CRequested = ''REQUESTED''"
| "client_value CCreating = ''CREATING''"
| "client_value CWaiting = ''WAITING''"
| "client_value CEnabling = ''ENABLING''"
| "client_value CActive = ''ACTIVE''"
| "client_value CDisabling = ''DISABLING''"
| "client_value CError = ''ERROR''"
| "client_value CTerminating = ''TERMINATING''"

fun client_next :: "client_state \<Rightarrow> client_event \<Rightarrow> client_state option" where
  "client_next s CCreate =
     (if s \<in> {CRequested, CError, CCreating} then Some CCreating else None)"
| "client_next s CWait =
     (if s \<in> {CCreating, CWaiting, CError, CDisabling} then Some CWaiting else None)"
| "client_next s CEnable = (if s \<in> {CWaiting, CError} then Some CEnabling else None)"
| "client_next s CActivate =
     (if s \<in> {CEnabling, CError, CActive} then Some CActive else None)"
| "client_next s CDisable = (if s \<in> {CActive, CError} then Some CDisabling else None)"
| "client_next s CImpair =
     (if s \<in> {CRequested, CCreating, CWaiting, CActive, CError} then Some CError else None)"
| "client_next s CTerminate =
     (if s \<in> {CRequested, CCreating, CWaiting, CActive, CError, CTerminating}
      then Some CTerminating else None)"

definition CLIENTS :: string where
  "CLIENTS = ''gefyraclients''"

section \<open>Callbacks\<close>

text \<open>A use of \<open>connection_provider\<close>: the property raises for an unknown provider.\<close>

definition with_provider ::
    "'w client_env \<Rightarrow> gclient \<Rightarrow> ('w connection_provider \<Rightarrow> ('w, 'a) io) \<Rightarrow> ('w, 'a) io" where
  "with_provider env cl f = bind (of_sum (provider_named ''stowaway'' (cl_provider cl) (ce_conn env))) f"

definition state_change :: "'w client_env \<Rightarrow> gclient \<Rightarrow> ('w, unit) io" where
  "state_change env cl = post_event (ce_op env) cl ''GefyraClient state change'' ''Normal''"

definition sa_name_of :: "gclient \<Rightarrow> string" where
  "sa_name_of cl = ''gefyra-client-'' @ cr_name cl"

definition json_dict :: "string dict \<Rightarrow> json" where
  "json_dict d = JObj (map (\<lambda>(k, v). (k, JStr v)) d)"

definition create_service_account_step :: "'w client_env \<Rightarrow> gclient \<Rightarrow> ('w, client_event list) io" where
  "create_service_account_step env cl =
     (let Op = ce_op env; ns = NAMESPACE (op_cfg Op); sa = sa_name_of cl in
      thn (handle_create_gefyraclient_serviceaccount (ce_core env) (ce_rbac env) sa ns (cr_name cl))
      (bind (try_except (get_serviceaccount_data (ce_core env) sa ns)
         (\<lambda>e. case e of
            TemporaryError d \<Rightarrow> thn (post_event Op cl ''GefyraClient ServiceAccount'' ''Normal'') (raise e)
          | _ \<Rightarrow> raise e)) (\<lambda>token_data.
      thn (patch_object Op CLIENTS cl
            (JObj [(''serviceAccountName'', JStr sa), (''serviceAccountData'', json_dict token_data)]))
      (thn (post_event Op cl ''GefyraClient ServiceAccount'' ''Normal'') (ret [CWait])))))"

definition client_on_create :: "'w client_env \<Rightarrow> gclient \<Rightarrow> ('w, client_event list) io" where
  "client_on_create env cl =
     thn (state_change env cl)
     (if DISABLE_CLIENT_SA_MANAGEMENT (op_cfg (ce_op env))
      then thn (post_event (ce_op env) cl ''GefyraClient ServiceAccount'' ''Normal'') (ret [CWait])
      else create_service_account_step env cl)"

definition client_on_waiting :: "'w client_env \<Rightarrow> gclient \<Rightarrow> ('w, unit) io" where
  "client_on_waiting env cl = post_event (ce_op env) cl ''Ready'' ''Normal''"

text \<open>The label selector of the list call narrows the answer; the loop checks the client again.\<close>

definition cleanup_all_bridges :: "'w client_env \<Rightarrow> gclient \<Rightarrow> ('w, unit) io" where
  "cleanup_all_bridges env cl =
     (let ns = NAMESPACE (op_cfg (ce_op env)); api = op_custom (ce_op env) in
      bind (co_list_bridges api ns (Some (''gefyra.dev/client='' @ cr_name cl))) (\<lambda>bridges.
      for_each (\<lambda>b. if br_client b = Some (cr_name cl)
                    then co_delete api ''gefyrabridges'' ns (cr_name b) else ret ()) bridges))"

definition client_on_disable :: "'w client_env \<Rightarrow> gclient \<Rightarrow> ('w, client_event list) io" where
  "client_on_disable env cl =
     thn (state_change env cl) (thn (cleanup_all_bridges env cl) (ret [CWait]))"

definition client_on_terminate :: "'w client_env \<Rightarrow> gclient \<Rightarrow> ('w, client_event list) io" where
  "client_on_terminate env cl =
     thn (try_except
       (thn (state_change env cl)
       (bind (with_provider env cl (\<lambda>P. cp_peer_exists P (cr_name cl))) (\<lambda>ex.
        thn (if ex then with_provider env cl (\<lambda>P. thn (cp_remove_peer P (cr_name cl)) (ret ())) else ret ())
        (thn (handle_delete_gefyraclient_serviceaccount (ce_core env) (ce_rbac env) (sa_name_of cl) (cr_namespace cl))
        (cleanup_all_bridges env cl)))))
       swallow)
     (ret [])"

definition can_add_client :: "'w client_env \<Rightarrow> gclient \<Rightarrow> ('w, bool) io" where
  "can_add_client env cl =
     bind (with_provider env cl (\<lambda>P. cp_peer_exists P (cr_name cl))) (\<lambda>ex.
     if ex then ret True else
     bind (of_sum (provider_named ''stowaway'' (cl_provider cl) (ce_conn env))) (\<lambda>P.
     bind (of_sum (req (cl_providerParameter cl))) (\<lambda>params.
     thn (cp_add_peer P (cr_name cl) (Some params))
     (thn (post_event (ce_op env) cl ''GefyraClient connection'' ''Normal'') (ret True)))))"

text \<open>The two \<open>try\<close> statements of \<open>enable_connection\<close>.\<close>

definition warn_and_retry :: "'w client_env \<Rightarrow> gclient \<Rightarrow> ('w, 'a) io" where
  "warn_and_retry env cl =
     thn (post_event (ce_op env) cl ''GefyraClient connection'' ''Warning'') (raise (TemporaryError (Some 1)))"

definition read_connection :: "'w client_env \<Rightarrow> gclient \<Rightarrow> ('w, string dict) io" where
  "read_connection env cl =
     try_except (with_provider env cl (\<lambda>P. cp_get_peer_config P (cr_name cl)))
       (\<lambda>e. if e \<in> {TarReadError, KeyError} \<or> is_api_exception e then warn_and_retry env cl else raise e)"

definition publish_connection :: "'w client_env \<Rightarrow> gclient \<Rightarrow> string dict \<Rightarrow> ('w, unit) io" where
  "publish_connection env cl conn_data =
     try_except
       (thn (patch_object (ce_op env) CLIENTS cl (JObj [(''providerConfig'', json_dict conn_data)]))
       (bind (of_sum (item conn_data ''Interface.Address'')) (\<lambda>addr.
        post_event (ce_op env) cl ''GefyraClient connection'' ''Normal'')))
       (\<lambda>e. if status_of e = Some 500 then warn_and_retry env cl
            else if is_api_exception e then ret () else raise e)"

definition enable_connection :: "'w client_env \<Rightarrow> gclient \<Rightarrow> ('w, unit) io" where
  "enable_connection env cl = bind (read_connection env cl) (publish_connection env cl)"

text \<open>\<open>disable_connection\<close>: the early return skips the patch, an API error other than 500 does not.\<close>

definition disable_connection :: "'w client_env \<Rightarrow> gclient \<Rightarrow> ('w, unit) io" where
  "disable_connection env cl =
     bind (try_except
       (bind (with_provider env cl (\<lambda>P. cp_peer_exists P (cr_name cl))) (\<lambda>ex.
        if \<not> ex then ret True
        else thn (with_provider env cl (\<lambda>P. cp_remove_peer P (cr_name cl))) (ret False)))
       (\<lambda>e. if status_of e = Some 500 then raise (TemporaryError (Some 1))
            else if is_api_exception e then ret False else raise e)) (\<lambda>returned.
     if returned then ret ()
     else patch_object (ce_op env) CLIENTS cl (JObj [(''providerConfig'', JNull)]))"

text \<open>The callbacks of a transition in the order of the library: the condition, \<open>before\<close>, the
  inline \<open>on\<close>, \<open>on_<event>\<close>.  \<open>can_add_client\<close> returns \<open>True\<close> or raises; a false condition
  would leave no transition.\<close>

fun client_callbacks ::
    "'w client_env \<Rightarrow> gclient \<Rightarrow> client_state \<Rightarrow> client_event \<Rightarrow> ('w, client_event list) io" where
  "client_callbacks env cl s CCreate = client_on_create env cl"
| "client_callbacks env cl s CWait =
     (if s = CCreating then thn (client_on_waiting env cl) (ret [])
      else if s = CDisabling
      then thn (disable_connection env cl) (thn (client_on_waiting env cl) (ret []))
      else ret [])"
| "client_callbacks env cl s CEnable =
     (if s = CWaiting
      then bind (can_add_client env cl) (\<lambda>ok.
             if ok then thn (state_change env cl) (ret []) else raise TransitionNotAllowed)
      else thn (state_change env cl) (ret []))"
| "client_callbacks env cl s CActivate =
     thn (if s = CEnabling then enable_connection env cl else ret ())
     (thn (state_change env cl) (ret []))"
| "client_callbacks env cl s CDisable = client_on_disable env cl"
| "client_callbacks env cl s CImpair = ret []"
| "client_callbacks env cl s CTerminate = client_on_terminate env cl"

definition client_assign :: "'w client_env \<Rightarrow> gclient \<Rightarrow> client_state \<Rightarrow> ('w, unit) io" where
  "client_assign env cl s = set_state (ce_op env) CLIENTS cl (client_value s)"

definition client_step ::
    "'w client_env \<Rightarrow> gclient \<Rightarrow> client_state \<Rightarrow> client_event \<Rightarrow> ('w, client_state \<times> client_event list) io" where
  "client_step env cl =
     fire (op_rewrites_self (ce_op env)) client_next (client_assign env cl) (client_callbacks env cl)"

section \<open>Ages\<close>

definition max_connection_age :: "operator_configuration \<Rightarrow> int option" where
  "max_connection_age cfg =
     (if STOWAWAY_MAX_CONNECTION_AGE cfg > 0 then Some (STOWAWAY_MAX_CONNECTION_AGE cfg) else None)"

text \<open>\<open>should_disable\<close>: the age of the connection in microseconds against the limit in seconds;
  a naive time stamp cannot be subtracted from the aware current time.\<close>

definition client_should_disable :: "'w client_env \<Rightarrow> gclient \<Rightarrow> client_state \<Rightarrow> ('w, bool) io" where
  "client_should_disable env cl s =
     (if s \<noteq> CActive then ret False else
      case max_connection_age (op_cfg (ce_op env)) of None \<Rightarrow> ret False | Some limit \<Rightarrow>
      (case completed_transition cl (client_value CActive) of None \<Rightarrow> ret False | Some stamp \<Rightarrow>
       bind (of_sum (fromisoformat (op_host (ce_op env)) stamp)) (\<lambda>t.
       bind (utcnow (op_host (ce_op env))) (\<lambda>now.
       case t of
         Naive _ \<Rightarrow> raise TypeError
       | Aware active offset \<Rightarrow> ret (now - (active - offset) > limit * 1000000)))))"

definition client_should_terminate :: "'w client_env \<Rightarrow> gclient \<Rightarrow> ('w, bool) io" where
  "client_should_terminate env cl =
     (let Op = ce_op env in
      bind (of_sum (sunset_of (op_host Op) cl)) (\<lambda>sunset. case sunset of
        None \<Rightarrow> ret False
      | Some t \<Rightarrow> bind (utcnow (op_host Op)) (\<lambda>now.
          bind (of_sum (ts_le t (Naive now))) (\<lambda>reached.
          if reached then thn (post_event Op cl ''Sunset reached'' ''Normal'') (ret True)
          else ret False))))"

text \<open>\<open>get_latest_transition\<close> and \<open>get_latest_state\<close> await the result of \<open>completed_transition\<close>,
  which is no coroutine: awaiting a string or \<open>None\<close> raises \<open>TypeError\<close>.\<close>

definition await_plain :: "string option \<Rightarrow> exn + string option" where
  "await_plain v = Inl TypeError"

definition latest_states :: "client_state list" where
  "latest_states = [CCreating, CWaiting, CEnabling, CActive, CError]"

definition awaited_transitions :: "gclient \<Rightarrow> exn + (string \<times> string option) list" where
  "awaited_transitions cl = map_sum_list (\<lambda>s.
     sbind (await_plain (completed_transition cl (client_value s))) (\<lambda>t. Inr (client_value s, t))) latest_states"

text \<open>The later of two time stamps by the state they belong to; the first one wins a tie.\<close>

fun later :: "'w host \<Rightarrow> string \<times> timestamp \<Rightarrow> (string \<times> string option) list \<Rightarrow> exn + string \<times> timestamp" where
  "later H best [] = Inr best"
| "later H best ((s, None) # xs) = later H best xs"
| "later H best ((s, Some stamp) # xs) =
     sbind (fromisoformat H (strip_char (CHR ''Z'') stamp)) (\<lambda>t.
     sbind (ts_le t (snd best)) (\<lambda>le.
     later H (if le then best else (s, t)) xs))"

definition get_latest_state :: "'w host \<Rightarrow> gclient \<Rightarrow> exn + (string \<times> timestamp) option" where
  "get_latest_state H cl =
     sbind (awaited_transitions cl) (\<lambda>states.
     case filter (\<lambda>(s, t). t \<noteq> None) states of
       [] \<Rightarrow> Inr None
     | (s, t) # xs \<Rightarrow>
         sbind (fromisoformat H (strip_char (CHR ''Z'') (the t))) (\<lambda>first.
         sbind (later H (s, first) xs) (\<lambda>best. Inr (Some best))))"

definition get_latest_transition :: "'w host \<Rightarrow> gclient \<Rightarrow> exn + timestamp option" where
  "get_latest_transition H cl =
     sbind (get_latest_state H cl) (\<lambda>best. Inr (map_option snd best))"

lemma latest_state_raises:
  "get_latest_state H cl = Inl TypeError" "get_latest_transition H cl = Inl TypeError"
  by (simp_all add: get_latest_state_def get_latest_transition_def awaited_transitions_def
      latest_states_def await_plain_def)

section \<open>Handlers\<close>

text \<open>\<open>run\<close> is the processing loop of the machine.\<close>

type_synonym 'w client_run = "client_event list \<Rightarrow> (client_state \<times> 'w, unit) io"

definition handler_client_created :: "'w client_run \<Rightarrow> (client_state \<times> 'w, unit) io" where
  "handler_client_created run = if_active (\<lambda>s. s = CRequested \<or> s = CCreating) (run [CCreate])"

definition client_connect :: "'w client_run \<Rightarrow> (client_state \<times> 'w, unit) io" where
  "client_connect run =
     try_except
       (thn (if_active (\<lambda>s. s = CWaiting) (run [CEnable]))
            (if_active (\<lambda>s. s = CEnabling) (run [CActivate])))
       (\<lambda>e. if e = TransitionNotAllowed then run [CImpair]
            else if status_of e = Some 500 then raise (TemporaryError (Some 1))
            else if is_api_exception e then ret () else raise e)"

definition client_disconnect ::
    "'w client_env \<Rightarrow> 'w client_run \<Rightarrow> gclient \<Rightarrow> (client_state \<times> 'w, unit) io" where
  "client_disconnect env run cl =
     thn (if_active (\<lambda>s. s = CActive \<or> s = CError) (run [CDisable]))
     (thn (if_active (\<lambda>s. s = CDisabling) (run [CWait]))
     (lift (patch_object (ce_op env) CLIENTS cl (JObj [(''status'', JObj [(''wireguard'', JNull)])]))))"

text \<open>\<open>new\<close> is the new value of \<open>providerParameter\<close>; an empty one counts as removed.\<close>

definition handler_client_connection_changed ::
    "'w client_env \<Rightarrow> 'w client_run \<Rightarrow> gclient \<Rightarrow> string dict option \<Rightarrow> (client_state \<times> 'w, unit) io" where
  "handler_client_connection_changed env run cl new =
     (if new \<in> {None, Some []} then client_disconnect env run cl else client_connect run)"

definition handler_client_deleted :: "'w client_run \<Rightarrow> (client_state \<times> 'w, unit) io" where
  "handler_client_deleted run = run [CTerminate]"

definition handler_client_reconcile ::
    "'w client_env \<Rightarrow> 'w client_run \<Rightarrow> gclient \<Rightarrow> (client_state \<times> 'w, unit) io" where
  "handler_client_reconcile env run cl =
     bind (lift (client_should_terminate env cl)) (\<lambda>t.
     thn (if t then thn (run [CTerminate])
            (lift (try_except (co_delete (op_custom (ce_op env)) ''gefyraclients''
                                 (NAMESPACE (op_cfg (ce_op env))) (cr_name cl))
                     swallow_api_exception))
          else ret ())
     (bind current (\<lambda>s.
      bind (lift (client_should_disable env cl s)) (\<lambda>d.
      if d then run [CDisable] else ret ()))))"

end
