(* ===== verification/StowawayWatch.thy ===== *)
theory StowawayWatch
  imports ClientState StowawayRoutes
begin

text \<open>
  The periodic tasks of operator/gefyra/connection/stowaway/handler.py: the removal of proxy
  routes that no bridge uses, and the WireGuard status written into the client resources.  The
  tasks are started by a startup handler and run every 60 and every 300 seconds.
\<close>

section \<open>Periodic tasks\<close>

text \<open>\<open>periodic\<close> for the first \<open>n\<close> rounds of its endless loop: sleep, then run the task.  An
  exception ends the loop.\<close>

primrec periodic :: "'w host \<Rightarrow> nat \<Rightarrow> ('w, unit) io \<Rightarrow> nat \<Rightarrow> ('w, unit) io" where
  "periodic H interval_sec coro 0 = ret ()"
| "periodic H interval_sec coro (Suc n) =
     thn (sleep H (interval_sec * 1000)) (thn coro (periodic H interval_sec coro n))"

definition WIREGUARD_RECONCILIATION :: nat where
  "WIREGUARD_RECONCILIATION = 60"

section \<open>Proxy routes\<close>

text \<open>\<open>str(stowaway_port) in map(lambda x: x.split(":")[1], endpoints)\<close>, evaluated lazily.\<close>

fun endpoint_in :: "string \<Rightarrow> string list \<Rightarrow> exn + bool" where
  "endpoint_in port [] = Inr False"
| "endpoint_in port (x # xs) = sbind (nth_item (split (CHR '':'') x) 1) (\<lambda>q.
     if q = port then Inr True else endpoint_in port xs)"

definition bridge_serves :: "bridge \<Rightarrow> string \<Rightarrow> string \<Rightarrow> string \<Rightarrow> exn + bool" where
  "bridge_serves b peer destination_ip stowaway_port =
     sbind (req (br_client b)) (\<lambda>client. if client \<noteq> peer then Inr False else
     sbind (req (br_destinationIP b)) (\<lambda>ip. if ip \<noteq> destination_ip then Inr False else
     sbind (req (br_clusterEndpoint b)) (\<lambda>e. endpoint_in stowaway_port (dvalues e))))"

fun any_bridge_serves :: "bridge list \<Rightarrow> string \<Rightarrow> string \<Rightarrow> string \<Rightarrow> exn + bool" where
  "any_bridge_serves [] peer ip port = Inr False"
| "any_bridge_serves (b # bs) peer ip port =
     sbind (bridge_serves b peer ip port) (\<lambda>m.
       if m then Inr True else any_bridge_serves bs peer ip port)"

definition debris_service :: "string \<Rightarrow> string" where
  "debris_service stowaway_port = ''gefyra-stowaway-proxy-'' @ stowaway_port"

text \<open>The loop over the routes: the routes that stay and the services of the others.\<close>

fun sort_routes :: "bridge list \<Rightarrow> string dict \<Rightarrow> exn + string dict \<times> string list" where
  "sort_routes bs [] = Inr ([], [])"
| "sort_routes bs ((key, value) # routes) =
     sbind (route_port_str value) (\<lambda>stowaway_port.
     let peer = hd (rsplit1 (CHR ''-'') key); address = split (CHR '':'') (route_dest value) in
     sbind (nth_item address 1) (\<lambda>destination_port.
     sbind (any_bridge_serves bs peer (hd address) stowaway_port) (\<lambda>found.
     sbind (sort_routes bs routes) (\<lambda>(final, debris).
       if found then Inr ((key, value) # final, debris)
       else Inr (final, debris_service stowaway_port # debris)))))"

definition drop_service :: "'w cluster \<Rightarrow> operator_configuration \<Rightarrow> string \<Rightarrow> ('w, unit) io" where
  "drop_service K cfg svc = try_except (delete_service (core K) svc (NAMESPACE cfg)) swallow"

definition replace_routes :: "'w cluster \<Rightarrow> config_map \<Rightarrow> string dict \<Rightarrow> ('w, unit) io" where
  "replace_routes K configmap routes =
     replace_config_map (core K) (cm_name configmap) (cm_namespace configmap)
       (configmap\<lparr>cm_data := Some routes\<rparr>)"

text \<open>No bridge is left: every route is debris.\<close>

definition purge_routes :: "'w cluster \<Rightarrow> operator_configuration \<Rightarrow> config_map \<Rightarrow> ('w, unit) io" where
  "purge_routes K cfg configmap =
     (let routes = routes_data (cm_data configmap) in
      if routes = [] then ret () else
      thn (for_each (\<lambda>value. bind (of_sum (route_port_str value)) (\<lambda>stowaway_port.
             drop_service K cfg (debris_service stowaway_port))) (dvalues routes))
      (replace_routes K configmap []))"

definition prune_routes ::
    "'w cluster \<Rightarrow> operator_configuration \<Rightarrow> config_map \<Rightarrow> bridge list \<Rightarrow> ('w, unit) io" where
  "prune_routes K cfg configmap bridges =
     (let routes = routes_data (cm_data configmap) in
      if routes = [] then ret () else
      bind (of_sum (sort_routes bridges routes)) (\<lambda>(final_routes, to_be_removed_svcs).
      if length final_routes = length routes then ret () else
      thn (replace_routes K configmap final_routes)
      (thn (for_each (drop_service K cfg) to_be_removed_svcs)
      (bind (get_stowaway_pod K cfg) (\<lambda>stowaway_pod. case stowaway_pod of
         None \<Rightarrow> ret ()
       | Some p \<Rightarrow> notify_stowaway_pod K cfg (pod_name p))))))"

definition reconcile_proxyroutes ::
    "'w cluster \<Rightarrow> 'w custom_api \<Rightarrow> operator_configuration \<Rightarrow> ('w, unit) io" where
  "reconcile_proxyroutes K api cfg =
     bind (stowaway_ready K cfg) (\<lambda>ready. if \<not> ready then ret () else
     (let config = create_stowaway_proxyroute_configmap cfg in
      bind (read_config_map (core K) (cm_name config) (cm_namespace config)) (\<lambda>configmap.
      try_except_else (co_list_bridges api (NAMESPACE cfg) None) swallow (\<lambda>bridges.
        if bridges = [] then purge_routes K cfg configmap
        else prune_routes K cfg configmap bridges))))"

section \<open>WireGuard status of the clients\<close>

text \<open>Numbers compare by value: 1.20 and 1.2 are the same float.\<close>

fun num_frac :: "wg_num \<Rightarrow> nat \<times> nat" where
  "num_frac (WgInt n) = (n, 0)"
| "num_frac (WgFloat s) = (digits_val (filter is_digit s), length (last (split (CHR ''.'') s)))"

definition num_eq :: "wg_num \<Rightarrow> wg_num \<Rightarrow> bool" where
  "num_eq a b = (case (num_frac a, num_frac b) of ((n, k), m, l) \<Rightarrow> n * 10 ^ l = m * 10 ^ k)"

fun value_eq :: "wg_value \<Rightarrow> wg_value \<Rightarrow> bool" where
  "value_eq (WTransfer n u m v) (WTransfer n' u' m' v') = (num_eq n n' \<and> u = u' \<and> num_eq m m' \<and> v = v')"
| "value_eq a b = (a = b)"

text \<open>\<open>==\<close> of dictionaries: the same keys with equal values, in any order.\<close>

definition same_dict :: "wg_value dict \<Rightarrow> wg_value dict \<Rightarrow> bool" where
  "same_dict d e \<longleftrightarrow> set (keys d) = set (keys e) \<and>
     list_all (\<lambda>k. case (dget d k, dget e k) of (Some a, Some b) \<Rightarrow> value_eq a b | _ \<Rightarrow> False) (keys d)"

fun num_json :: "wg_num \<Rightarrow> json" where
  "num_json (WgInt n) = JInt (int n)"
| "num_json (WgFloat s) = JFloat s"

fun wg_json :: "wg_value \<Rightarrow> json" where
  "wg_json (WStr s) = JStr s"
| "wg_json (WInt n) = JInt n"
| "wg_json (WList ips) = JList (map JStr ips)"
| "wg_json (WTransfer n u m v) =
     JObj [(''received'', JObj [(''value'', num_json n), (''unit'', JStr u)]),
           (''sent'', JObj [(''value'', num_json m), (''unit'', JStr v)])]"
| "wg_json (WKeepalive n) = JObj [(''value'', JInt (int n)), (''unit'', JStr ''seconds'')]"
| "wg_json (WEndpoint h p) = JObj [(''host'', JStr h), (''port'', JInt p)]"

definition status_patch :: "wg_value dict \<Rightarrow> json" where
  "status_patch peer_status =
     JObj [(''status'', JObj [(''wireguard'', JObj (map (\<lambda>(k, v). (k, wg_json v)) peer_status))])]"

text \<open>\<open>next(filter(...))\<close> over the peers: the first one with the public key of the client.\<close>

fun find_peer :: "string dict option \<Rightarrow> wg_value dict list \<Rightarrow> exn + wg_value dict" where
  "find_peer provider_config [] = Inl StopIteration"
| "find_peer provider_config (p # ps) =
     sbind (item p ''public_key'') (\<lambda>k.
     sbind (req provider_config) (\<lambda>d. sbind (item d ''Interface.PublicKey'') (\<lambda>c.
       if k = WStr c then Inr p else find_peer provider_config ps)))"

definition has_handshake :: "wg_value dict \<Rightarrow> bool" where
  "has_handshake d = (case dget d ''latest_handshake'' of None \<Rightarrow> False | Some v \<Rightarrow> v \<noteq> WStr [])"

text \<open>The \<open>else\<close> branch.  A resource without \<open>status\<close> gets an empty one and then fails with the
  \<open>KeyError\<close> of the old copy; so does a status without \<open>wireguard\<close> while there is no handshake.\<close>

definition publish_status :: "'w operator \<Rightarrow> gclient \<Rightarrow> wg_value dict \<Rightarrow> ('w, unit) io" where
  "publish_status Op cl peer_status = (case cl_status cl of
       None \<Rightarrow> thn (patch_object Op CLIENTS cl (JObj [(''status'', JObj [])])) (raise KeyError)
     | Some None \<Rightarrow> if has_handshake peer_status
         then patch_object Op CLIENTS cl (status_patch peer_status) else raise KeyError
     | Some (Some old) \<Rightarrow> if same_dict peer_status old then ret () else
         thn (whenever (\<not> has_handshake peer_status \<and> has_handshake old)
               (patch_object Op CLIENTS cl (JObj [(''status'', JObj [(''wireguard'', JObj [])])])))
         (patch_object Op CLIENTS cl (status_patch peer_status)))"

text \<open>An active client without a peer: \<open>client.disable()\<close> is not awaited, so the coroutine it
  returns never runs.\<close>

definition check_client :: "'w operator \<Rightarrow> wg_value dict list \<Rightarrow> gclient \<Rightarrow> ('w, unit) io" where
  "check_client Op peer_data cl =
     try_except
       (if cr_state cl \<noteq> client_value CActive then ret () else
        (case find_peer (cl_providerConfig cl) peer_data of
           Inl e \<Rightarrow> if e = StopIteration then ret () else if e = KeyError then ret () else raise e
         | Inr peer_status \<Rightarrow> publish_status Op cl peer_status))
       swallow"

definition watch_wireguard_status :: "'w cluster \<Rightarrow> 'w operator \<Rightarrow> ('w, unit) io" where
  "watch_wireguard_status K Op =
     (let cfg = op_cfg Op in
      try_except_else (co_list_clients (op_custom Op) (NAMESPACE cfg)) swallow (\<lambda>clients.
      if clients = [] then ret () else
      bind (stowaway_ready K cfg) (\<lambda>ready. if \<not> ready then ret () else
      bind (read_wireguard_status K cfg) (\<lambda>wg_status. case wg_status of
        None \<Rightarrow> ret ()
      | Some s \<Rightarrow> if s = [] then ret ()
          else for_each (check_client Op (wg_peers (parse_wg_output s))) clients))))"

definition proxyroutes_task ::
    "'w cluster \<Rightarrow> 'w custom_api \<Rightarrow> operator_configuration \<Rightarrow> nat \<Rightarrow> ('w, unit) io" where
  "proxyroutes_task K api cfg =
     periodic (host K) (WIREGUARD_RECONCILIATION * 5) (reconcile_proxyroutes K api cfg)"

definition wireguard_task :: "'w cluster \<Rightarrow> 'w operator \<Rightarrow> nat \<Rightarrow> ('w, unit) io" where
  "wireguard_task K Op = periodic (host K) WIREGUARD_RECONCILIATION (watch_wireguard_status K Op)"

end
