(* ===== verification/BridgeState.thy ===== *)
theory BridgeState
  imports Machine
begin

text \<open>
  The state machine of a GefyraBridge, operator/gefyra/bridgestate.py: its states, its declared
  transitions, one definition per callback, and the transition function the handlers run.
\<close>

section \<open>The bridge provider interface (operator/gefyra/bridge/abstract.py)\<close>

record 'w abstract_bridge_provider =
  bp_install :: "('w, unit) io"
  bp_installed :: "('w, bool) io"
  bp_ready :: "('w, bool) io"
  bp_uninstall :: "('w, unit) io"
  bp_add_proxy_route :: "string \<Rightarrow> string \<Rightarrow> string \<Rightarrow> ('w, unit) io"
  bp_remove_proxy_route :: "string \<Rightarrow> string \<Rightarrow> string \<Rightarrow> ('w, unit) io"
  bp_proxy_route_exists :: "string \<Rightarrow> string \<Rightarrow> string \<Rightarrow> string option \<Rightarrow> ('w, bool) io"
  bp_validate :: "bridge \<Rightarrow> ('w, unit) io"

record 'w bridge_env =
  be_op :: "'w operator"
  be_conn :: "'w connection_provider"
  be_builder :: "string \<Rightarrow> string \<Rightarrow> string \<Rightarrow> string \<Rightarrow> ('w, 'w abstract_bridge_provider) io"

section \<open>States and transitions\<close>

datatype bridge_state =
  BRequested | BInstalling | BInstalled | BCreating | BActive | BRestoring | BError | BTerminating

datatype bridge_event =
  BInstall | BSetInstalled | BActivate | BEstablish | BRestore | BImpair | BTerminate

fun bridge_value :: "bridge_state \<Rightarrow> string" where
  "bridge_value BRequested = ''REQUESTED''"
| "bridge_value BInstalling = ''INSTALLING''"
| "bridge_value BInstalled = ''INSTALLED''"
| "bridge_value BCreating = ''CREATING''"
| "bridge_value BActive = ''ACTIVE''"
| "bridge_value BRestoring = ''RESTORING''"
| "bridge_value BError = ''ERROR''"
| "bridge_value BTerminating = ''TERMINATING''"

fun bridge_label :: "bridge_state \<Rightarrow> string" where
  "bridge_label BRequested = ''GefyraBridge requested''"
| "bridge_label BInstalling = ''GefyraBridge installing''"
| "bridge_label BInstalled = ''GefyraBridge installed''"
| "bridge_label BCreating = ''GefyraBridge creating''"
| "bridge_label BActive = ''GefyraBridge active''"
| "bridge_label BRestoring = ''GefyraBridge restoring Pod''"
| "bridge_label BError = ''GefyraBridge error''"
| "bridge_label BTerminating = ''GefyraBridge terminating''"

fun bridge_next :: "bridge_state \<Rightarrow> bridge_event \<Rightarrow> bridge_state option" where
  "bridge_next s BInstall =
     (if s \<in> {BRequested, BError, BInstalling} then Some BInstalling else None)"
| "bridge_next s BSetInstalled =
     (if s \<in> {BRequested, BInstalling, BError, BInstalled, BRestoring} then Some BInstalled else None)"
| "bridge_next s BActivate =
     (if s \<in> {BInstalled, BError, BCreating} then Some BCreating else None)"
| "bridge_next s BEstablish = (if s \<in> {BCreating, BError} then Some BActive else None)"
| "bridge_next s BRestore =
     (if s \<in> {BInstalled, BError, BRestoring, BActive} then Some BRestoring else None)"
| "bridge_next s BImpair =
     (if s \<in> {BRequested, BInstalling, BInstalled, BCreating, BActive, BError} then Some BError else None)"
| "bridge_next s BTerminate = Some BTerminating"

definition BRIDGES :: string where
  "BRIDGES = ''gefyrabridges''"

section \<open>Callbacks\<close>

definition bridge_conn :: "'w bridge_env \<Rightarrow> bridge \<Rightarrow> exn + 'w connection_provider" where
  "bridge_conn env br = provider_named ''stowaway'' (br_connectionProvider br) (be_conn env)"

text \<open>The property \<open>bridge_provider\<close>: a new provider object at every use.\<close>

definition bridge_provider :: "'w bridge_env \<Rightarrow> bridge \<Rightarrow> ('w, 'w abstract_bridge_provider) io" where
  "bridge_provider env br =
     bind (of_sum (provider_named ''carrier2'' (br_provider br) (be_builder env))) (\<lambda>build.
     bind (of_sum (req (br_targetNamespace br))) (\<lambda>ns.
     bind (of_sum (req (br_target br))) (\<lambda>target.
     bind (of_sum (req (br_targetContainer br))) (\<lambda>container.
     build (cr_name br) ns target container))))"

definition wait_for_provider :: "'w bridge_env \<Rightarrow> bridge \<Rightarrow> ('w, bridge_event list) io" where
  "wait_for_provider env br =
     bind (bridge_provider env br) (\<lambda>bp.
     bind (bp_ready bp) (\<lambda>r.
     if \<not> r then
       thn (post_event (be_op env) br ''GefyraBridge waiting'' ''Normal'')
       (thn (bridge_provider env br) (raise (TemporaryError (Some 1))))
     else ret [BSetInstalled]))"

definition install_provider :: "'w bridge_env \<Rightarrow> bridge \<Rightarrow> ('w, bridge_event list) io" where
  "install_provider env br =
     try_except
       (bind (bridge_provider env br) (\<lambda>bp.
        thn (bp_install bp) (wait_for_provider env br)))
       (\<lambda>e. if e = BridgeInstallException then ret [BImpair] else raise e)"

text \<open>A port mapping \<open>local:target\<close>, the client and the local port as every call of the
  connection provider needs them.\<close>

definition mapping_args ::
    "'w bridge_env \<Rightarrow> bridge \<Rightarrow> string \<Rightarrow> exn + ('w connection_provider \<times> string \<times> int \<times> string)" where
  "mapping_args env br port_mapping =
     sbind (unpack2 (split (CHR '':'') port_mapping)) (\<lambda>(local_port, target_port).
     sbind (bridge_conn env br) (\<lambda>P.
     sbind (req (br_client br)) (\<lambda>client.
     sbind (py_int local_port) (\<lambda>port. Inr (P, client, port, target_port)))))"

definition unpack_endpoint :: "string \<Rightarrow> exn + string \<times> string" where
  "unpack_endpoint proxy_host = unpack2 (split1 (CHR '':'') proxy_host)"

definition setup_destination :: "'w bridge_env \<Rightarrow> bridge \<Rightarrow> string \<Rightarrow> string \<Rightarrow> ('w, unit) io" where
  "setup_destination env br destination port_mapping =
     bind (of_sum (mapping_args env br port_mapping)) (\<lambda>(P, client, port, target_port).
     bind (cp_destination_exists P client destination port) (\<lambda>ex.
     bind (if \<not> ex then cp_add_destination P client destination port
           else cp_get_destination P client destination port) (\<lambda>proxy.
     bind (of_sum (unpack_endpoint proxy)) (\<lambda>(proxy_host, proxy_port).
     thn (patch_object (be_op env) BRIDGES br
           (JObj [(''clusterEndpoint'', JObj [(target_port, JStr (proxy_host @ '':'' @ proxy_port))])]))
     (post_event (be_op env) br ''GefyraBridge connection'' ''Normal'')))))"

definition setup_route :: "'w bridge_env \<Rightarrow> bridge \<Rightarrow> string \<Rightarrow> string \<Rightarrow> ('w, unit) io" where
  "setup_route env br destination port_mapping =
     bind (of_sum (mapping_args env br port_mapping)) (\<lambda>(P, client, port, target_port).
     bind (cp_get_destination P client destination port) (\<lambda>proxy.
     bind (of_sum (unpack_endpoint proxy)) (\<lambda>(proxy_host, proxy_port).
     bind (bridge_provider env br) (\<lambda>bp.
     bind (bp_proxy_route_exists bp target_port proxy_host proxy_port (Some (cr_name br))) (\<lambda>ex.
     if \<not> ex then bind (bridge_provider env br) (\<lambda>bp'.
        bp_add_proxy_route bp' target_port proxy_host proxy_port)
     else ret ())))))"

definition port_mappings :: "bridge \<Rightarrow> exn + string list" where
  "port_mappings br = (case br_portMappings br of None \<Rightarrow> Inl TypeError | Some ms \<Rightarrow> Inr ms)"

definition handle_proxyroute_setup :: "'w bridge_env \<Rightarrow> bridge \<Rightarrow> string \<Rightarrow> ('w, unit) io" where
  "handle_proxyroute_setup env br destination =
     bind (of_sum (port_mappings br)) (\<lambda>ms.
     thn (for_each (setup_destination env br destination) ms)
     (for_each (setup_route env br destination) ms))"

definition bridge_on_activate :: "'w bridge_env \<Rightarrow> bridge \<Rightarrow> ('w, bridge_event list) io" where
  "bridge_on_activate env br =
     thn (post_event (be_op env) br ''GefyraBridge state changed'' ''Normal'')
     (try_except
       (bind (of_sum (req (br_destinationIP br))) (\<lambda>destination.
        thn (handle_proxyroute_setup env br destination) (ret [BEstablish])))
       (\<lambda>e. ret [BImpair]))"

text \<open>\<open>is_intact\<close>: every mapping has its destination and its route.\<close>

definition mapping_intact :: "'w bridge_env \<Rightarrow> bridge \<Rightarrow> string \<Rightarrow> string \<Rightarrow> ('w, bool) io" where
  "mapping_intact env br destination port_mapping =
     bind (of_sum (mapping_args env br port_mapping)) (\<lambda>(P, client, port, target_port).
     bind (cp_destination_exists P client destination port) (\<lambda>ex.
     if \<not> ex then ret False else
     bind (cp_get_destination P client destination port) (\<lambda>proxy.
     bind (of_sum (unpack_endpoint proxy)) (\<lambda>(proxy_host, proxy_port).
     bind (bridge_provider env br) (\<lambda>bp.
     bp_proxy_route_exists bp target_port proxy_host proxy_port (Some (cr_name br)))))))"

fun all_io :: "('a \<Rightarrow> ('w, bool) io) \<Rightarrow> 'a list \<Rightarrow> ('w, bool) io" where
  "all_io f [] = ret True"
| "all_io f (x # xs) = bind (f x) (\<lambda>b. if b then all_io f xs else ret False)"

definition bridge_is_intact :: "'w bridge_env \<Rightarrow> bridge \<Rightarrow> ('w, bool) io" where
  "bridge_is_intact env br =
     bind (of_sum (req (br_destinationIP br))) (\<lambda>destination.
     bind (of_sum (port_mappings br)) (\<lambda>ms.
     all_io (mapping_intact env br destination) ms))"

text \<open>One mapping of \<open>handle_proxyroute_teardown\<close>; errors of the removals are logged.\<close>

definition teardown_mapping :: "'w bridge_env \<Rightarrow> bridge \<Rightarrow> string \<Rightarrow> string \<Rightarrow> ('w, unit) io" where
  "teardown_mapping env br destination port_mapping =
     bind (of_sum (mapping_args env br port_mapping)) (\<lambda>(P, client, port, target_port).
     bind (cp_destination_exists P client destination port) (\<lambda>ex.
     if \<not> ex then ret () else
     try_except_else
       (cp_get_destination P client destination port)
       (\<lambda>e. if e = RuntimeError
            then try_except (cp_remove_destination P client destination port) swallow
            else raise e)
       (\<lambda>proxy.
          bind (of_sum (unpack_endpoint proxy)) (\<lambda>(proxy_host, proxy_port).
          thn (try_except
                (bind (bridge_provider env br) (\<lambda>bp.
                 bind (bp_proxy_route_exists bp target_port proxy_host proxy_port (Some (cr_name br))) (\<lambda>rx.
                 if rx then bind (bridge_provider env br) (\<lambda>bp'.
                    bp_remove_proxy_route bp' target_port proxy_host proxy_port)
                 else ret ())))
                swallow)
          (try_except (cp_remove_destination P client destination port) swallow)))))"

definition handle_proxyroute_teardown :: "'w bridge_env \<Rightarrow> bridge \<Rightarrow> string \<Rightarrow> ('w, unit) io" where
  "handle_proxyroute_teardown env br destination =
     bind (of_sum (port_mappings br)) (\<lambda>ms.
     for_each (teardown_mapping env br destination) ms)"

definition bridge_on_terminate :: "'w bridge_env \<Rightarrow> bridge \<Rightarrow> ('w, bridge_event list) io" where
  "bridge_on_terminate env br =
     bind (of_sum (req (br_destinationIP br))) (\<lambda>destination.
     thn (handle_proxyroute_teardown env br destination) (ret []))"

definition bridge_on_impair :: "'w bridge_env \<Rightarrow> bridge \<Rightarrow> bridge_state \<Rightarrow> ('w, bridge_event list) io" where
  "bridge_on_impair env br s =
     thn (post_event (be_op env) br (''Failed in state '' @ bridge_label s) ''Warning'') (ret [])"

definition bridge_on_establish :: "'w bridge_env \<Rightarrow> bridge \<Rightarrow> ('w, bridge_event list) io" where
  "bridge_on_establish env br = thn (post_event (be_op env) br ''Ready'' ''Normal'') (ret [])"

definition bridge_on_restore :: "('w, bridge_event list) io" where
  "bridge_on_restore = ret [BSetInstalled]"

text \<open>The callbacks of a transition: those named in the declaration (\<open>on=\<close>) and \<open>on_<event>\<close>.\<close>

fun bridge_callbacks ::
    "'w bridge_env \<Rightarrow> bridge \<Rightarrow> bridge_state \<Rightarrow> bridge_event \<Rightarrow> ('w, bridge_event list) io" where
  "bridge_callbacks env br s BInstall =
     (if s = BRequested then install_provider env br
      else if s = BInstalling then wait_for_provider env br else ret [])"
| "bridge_callbacks env br s BSetInstalled = ret []"
| "bridge_callbacks env br s BActivate = bridge_on_activate env br"
| "bridge_callbacks env br s BEstablish = bridge_on_establish env br"
| "bridge_callbacks env br s BRestore = bridge_on_restore"
| "bridge_callbacks env br s BImpair = bridge_on_impair env br s"
| "bridge_callbacks env br s BTerminate = bridge_on_terminate env br"

definition bridge_assign :: "'w bridge_env \<Rightarrow> bridge \<Rightarrow> bridge_state \<Rightarrow> ('w, unit) io" where
  "bridge_assign env br s = set_state (be_op env) BRIDGES br (bridge_value s)"

definition bridge_step ::
    "'w bridge_env \<Rightarrow> bridge \<Rightarrow> bridge_state \<Rightarrow> bridge_event \<Rightarrow> ('w, bridge_state \<times> bridge_event list) io" where
  "bridge_step env br =
     fire (op_rewrites_self (be_op env)) bridge_next (bridge_assign env br) (bridge_callbacks env br)"

text \<open>\<open>should_terminate\<close> of a bridge.\<close>

definition naive_sunset_reached :: "'w host \<Rightarrow> 'a cr_scheme \<Rightarrow> ('w, bool) io" where
  "naive_sunset_reached H obj =
     bind (of_sum (sunset_of H obj)) (\<lambda>sunset. case sunset of
       None \<Rightarrow> ret False
     | Some t \<Rightarrow> bind (utcnow H) (\<lambda>now. of_sum (ts_le t (Naive now))))"

definition bridge_should_terminate :: "'w bridge_env \<Rightarrow> bridge \<Rightarrow> ('w, bool) io" where
  "bridge_should_terminate env br = naive_sunset_reached (op_host (be_op env)) br"

section \<open>Handlers (operator/gefyra/handler/bridges.py)\<close>

text \<open>\<open>run\<close> is the processing loop of the machine.  The per-target lock of the handlers makes each
  of them one step for the bridges of a target; it is not modelled further.\<close>

definition handler_bridge_create ::
    "(bridge_event list \<Rightarrow> (bridge_state \<times> 'w, unit) io) \<Rightarrow> bridge \<Rightarrow> (bridge_state \<times> 'w, unit) io" where
  "handler_bridge_create run br =
     bind (of_sum (req (br_target br))) (\<lambda>key.
     thn (if_active (\<lambda>s. s = BRequested) (run [BInstall]))
     (thn (if_active (\<lambda>s. s = BInstalling) (run [BInstall]))
     (if_active (\<lambda>s. s = BInstalled) (run [BActivate]))))"

definition handler_update_destination ::
    "'w bridge_env \<Rightarrow> (bridge_event list \<Rightarrow> (bridge_state \<times> 'w, unit) io) \<Rightarrow> bridge \<Rightarrow> string option
     \<Rightarrow> (bridge_state \<times> 'w, unit) io" where
  "handler_update_destination env run br old =
     bind (of_sum (req (br_target br))) (\<lambda>key.
     case old of None \<Rightarrow> ret () | Some o' \<Rightarrow>
     if_active (\<lambda>s. s = BActive \<and> o' \<noteq> [])
       (thn (lift (handle_proxyroute_teardown env br o'))
       (thn (run [BRestore])
       (if_active (\<lambda>s. s = BInstalled) (run [BActivate])))))"

definition reconcile_active ::
    "'w bridge_env \<Rightarrow> (bridge_event list \<Rightarrow> (bridge_state \<times> 'w, unit) io) \<Rightarrow> bridge
     \<Rightarrow> (bridge_state \<times> 'w, unit) io" where
  "reconcile_active env run br =
     bind (try_except (lift (bridge_is_intact env br)) (\<lambda>e. thn (run [BRestore]) (ret True))) (\<lambda>is_intact.
     if \<not> is_intact then run [BRestore] else ret ())"

definition handler_bridge_reconcile ::
    "'w bridge_env \<Rightarrow> (bridge_event list \<Rightarrow> (bridge_state \<times> 'w, unit) io) \<Rightarrow> bridge
     \<Rightarrow> (bridge_state \<times> 'w, unit) io" where
  "handler_bridge_reconcile env run br =
     (if completed_transition br (bridge_value BActive) \<in> {None, Some []} then ret ()
      else bind (of_sum (req (br_target br))) (\<lambda>key.
       try_except
        (thn (if_active (\<lambda>s. s = BError) (run [BRestore]))
        (thn (if_active (\<lambda>s. s = BActive) (reconcile_active env run br))
        (thn (if_active (\<lambda>s. s = BInstalling) (run [BInstall]))
        (if_active (\<lambda>s. s = BInstalled) (run [BActivate])))))
        swallow))"

definition handler_bridge_delete ::
    "(bridge_event list \<Rightarrow> (bridge_state \<times> 'w, unit) io) \<Rightarrow> bridge \<Rightarrow> (bridge_state \<times> 'w, unit) io" where
  "handler_bridge_delete run br =
     bind (of_sum (req (br_target br))) (\<lambda>key. try_except (run [BTerminate]) swallow)"

end
