(* ===== verification/MemOperator.thy ===== *)
theory MemOperator
  imports BridgeState MemCluster
begin

text \<open>
  Concrete functions for the parameters of the state machines, over the in-memory cluster: used
  only to show that the hypotheses of the properties can hold together.
\<close>

definition mem_custom :: "mem custom_api" where
  "mem_custom = \<lparr>
     co_patch = (\<lambda>plural ns name body m. (Inr (), m\<lparr>mm_log := (plural @ '' '' @ name) # mm_log m\<rparr>)),
     co_delete = (\<lambda>plural ns name m. (Inr (), m\<lparr>mm_log := (''delete '' @ name) # mm_log m\<rparr>)),
     co_list_bridges = (\<lambda>ns sel. ret []),
     co_list_mounts = (\<lambda>ns. ret []),
     co_list_clients = (\<lambda>ns. ret []),
     co_get_mount = (\<lambda>ns name. raise (ApiException 404))\<rparr>"

definition mem_operator :: "mem operator" where
  "mem_operator = \<lparr>op_cfg = default_configuration, op_custom = mem_custom,
     op_create_event = (\<lambda>ev. ret ()), op_host = mem_host, op_rewrites_self = False\<rparr>"

definition mem_conn :: "mem connection_provider" where
  "mem_conn = \<lparr>cp_installed = ret True, cp_install = ret (), cp_uninstall = ret (), cp_ready = ret True,
     cp_add_peer = (\<lambda>p ps. ret ()), cp_remove_peer = (\<lambda>p. ret True),
     cp_get_peer_config = (\<lambda>p. ret [(''Interface.Address'', ''192.168.99.2'')]),
     cp_peer_exists = (\<lambda>p. ret True),
     cp_add_destination = (\<lambda>c ip p. ret ''svc:10000''), cp_remove_destination = (\<lambda>c ip p. ret ()),
     cp_destination_exists = (\<lambda>c ip p. ret True), cp_get_destination = (\<lambda>c ip p. ret ''svc:10000''),
     cp_validate = (\<lambda>ps h. ret ())\<rparr>"

definition mem_bridge_provider :: "mem abstract_bridge_provider" where
  "mem_bridge_provider = \<lparr>bp_install = ret (), bp_installed = ret True, bp_ready = ret True,
     bp_uninstall = ret (), bp_add_proxy_route = (\<lambda>t h p. ret ()),
     bp_remove_proxy_route = (\<lambda>t h p. ret ()), bp_proxy_route_exists = (\<lambda>t h p n. ret True),
     bp_validate = (\<lambda>b. ret ())\<rparr>"

definition mem_bridge_env :: "mem bridge_env" where
  "mem_bridge_env = \<lparr>be_op = mem_operator, be_conn = mem_conn,
     be_builder = (\<lambda>n ns t c. ret mem_bridge_provider)\<rparr>"

definition sample_bridge :: bridge where
  "sample_bridge = \<lparr>cr_name = ''b1'', cr_namespace = ''gefyra'', cr_labels = None,
     cr_state = ''REQUESTED'', cr_transitions = None, cr_sunset = None,
     br_provider = Some ''carrier2'', br_connectionProvider = Some ''stowaway'',
     br_client = Some ''c1'', br_destinationIP = Some ''10.0.0.1'', br_target = Some ''m1'',
     br_targetNamespace = Some ''default'', br_targetContainer = Some ''nginx'',
     br_portMappings = Some [''8080:80''], br_clusterEndpoint = None, br_parameter = None\<rparr>"

lemma mem_operator_simps [simp]:
  "op_cfg mem_operator = default_configuration" "op_custom mem_operator = mem_custom"
  "op_create_event mem_operator = (\<lambda>ev. ret ())" "op_host mem_operator = mem_host"
  by (simp_all add: mem_operator_def)

lemma mem_bridge_env_simps [simp]:
  "be_op mem_bridge_env = mem_operator" "be_conn mem_bridge_env = mem_conn"
  "be_builder mem_bridge_env = (\<lambda>n ns t c. ret mem_bridge_provider)"
  by (simp_all add: mem_bridge_env_def)

lemma mem_post_event [simp]: "post_event mem_operator obj reason ty = ret ()"
  by (rule ext) (simp add: post_event_def get_now_def mem_host_def bind_def try_except_def)

lemma mem_set_state: "fst (set_state mem_operator plural obj v w) = Inr ()"
  by (simp add: set_state_def write_state_def get_now_def mem_host_def mem_custom_def bind_def)

lemma mem_quiet: "quiet mem_operator plural obj"
  by (simp add: quiet_def mem_set_state)

end
