(* ===== verification/WatchProperties.thy ===== *)
theory WatchProperties
  imports StowawayWatch MemOperator
begin

text \<open>
  The proxy-route task: what it keeps is exactly what a bridge uses, a route of a bridge that is
  set up survives it, and what ends it.
\<close>

section \<open>Routes in use\<close>

text \<open>A bridge uses a route: same client, same address, and a cluster endpoint on its port.\<close>

definition uses_route :: "string \<Rightarrow> string \<Rightarrow> bridge \<Rightarrow> bool" where
  "uses_route key value b \<longleftrightarrow>
     br_client b = Some (hd (rsplit1 (CHR ''-'') key))
   \<and> br_destinationIP b = Some (hd (split (CHR '':'') (route_dest value)))
   \<and> (\<exists>e \<in> set (dvalues (routes_data (br_clusterEndpoint b))).
        sbind (nth_item (split (CHR '':'') e) 1) (\<lambda>p. Inr p) = route_port_str value)"

definition in_use :: "bridge list \<Rightarrow> string \<times> string \<Rightarrow> bool" where
  "in_use bs r \<longleftrightarrow> list_ex (uses_route (fst r) (snd r)) bs"

lemma sbind_id [simp]: "sbind r (\<lambda>p. Inr p) = r"
  by (cases r) simp_all

lemma endpoint_in_iff:
  "endpoint_in port es = Inr m \<Longrightarrow> m \<longleftrightarrow> (\<exists>e \<in> set es. nth_item (split (CHR '':'') e) 1 = Inr port)"
  by (induction es) (auto split: if_splits)

lemma bridge_serves_iff:
  assumes "bridge_serves b (hd (rsplit1 (CHR ''-'') k)) (hd (split (CHR '':'') (route_dest v))) port = Inr m"
    and "route_port_str v = Inr port"
  shows "m \<longleftrightarrow> uses_route k v b"
  using assms endpoint_in_iff [of port "dvalues (the (br_clusterEndpoint b))" m]
  by (auto simp: bridge_serves_def uses_route_def req_def routes_data_def split: if_splits option.splits)

lemma any_bridge_serves_iff:
  "any_bridge_serves bs (hd (rsplit1 (CHR ''-'') k)) (hd (split (CHR '':'') (route_dest v))) port = Inr m \<Longrightarrow>
     route_port_str v = Inr port \<Longrightarrow> m \<longleftrightarrow> in_use bs (k, v)"
proof (induction bs)
  case (Cons b bs)
  then show ?case using bridge_serves_iff [of b k v port] by (auto simp: in_use_def split: if_splits)
qed (simp add: in_use_def)

lemma sort_routes_filter: "sort_routes bs routes = Inr (final, debris) \<Longrightarrow> final = filter (in_use bs) routes"
proof (induction bs routes arbitrary: final debris rule: sort_routes.induct)
  case (2 bs k v routes)
  then show ?case using any_bridge_serves_iff [of bs k v]
    by (auto simp: Let_def split: if_splits)
qed simp

text \<open>Bridges and routes as the operator writes them: nothing is missing, nothing is malformed.\<close>

definition bridge_complete :: "bridge \<Rightarrow> bool" where
  "bridge_complete b \<longleftrightarrow> br_client b \<noteq> None \<and> br_destinationIP b \<noteq> None \<and> br_clusterEndpoint b \<noteq> None
     \<and> (\<forall>e \<in> set (dvalues (routes_data (br_clusterEndpoint b))). CHR '':'' \<in> set e)"

lemma split_two: "c \<in> set s \<Longrightarrow> 1 < length (split c s)"
  by (induction c s rule: split.induct) (auto split: list.splits)

lemma nth_part: "c \<in> set s \<Longrightarrow> \<exists>p. nth_item (split c s) 1 = Inr p"
  using split_two [of c s] by (simp add: nth_item_def)

lemma endpoint_in_total: "\<forall>e \<in> set es. CHR '':'' \<in> set e \<Longrightarrow> \<exists>m. endpoint_in port es = Inr m"
proof (induction es)
  case (Cons e es)
  then obtain p m where "nth_item (split (CHR '':'') e) 1 = Inr p" "endpoint_in port es = Inr m"
    using nth_part by fastforce
  then have "endpoint_in port (e # es) = Inr (p = port \<or> m)" by simp
  then show ?case by blast
qed (rule exI [of _ False], simp)

lemma bridge_serves_total: "bridge_complete b \<Longrightarrow> \<exists>m. bridge_serves b peer ip port = Inr m"
proof -
  assume "bridge_complete b"
  then obtain c i e where f: "br_client b = Some c" "br_destinationIP b = Some i" "br_clusterEndpoint b = Some e"
    and "\<forall>x \<in> set (dvalues e). CHR '':'' \<in> set x" by (auto simp: bridge_complete_def routes_data_def)
  with endpoint_in_total [of "dvalues e" port] obtain m where "endpoint_in port (dvalues e) = Inr m" by blast
  with f have "bridge_serves b peer ip port = Inr (c = peer \<and> i = ip \<and> m)" by (simp add: bridge_serves_def)
  then show ?thesis by blast
qed

lemma any_bridge_serves_total: "\<forall>b \<in> set bs. bridge_complete b \<Longrightarrow> \<exists>m. any_bridge_serves bs peer ip port = Inr m"
proof (induction bs)
  case (Cons b bs)
  then obtain m m' where "bridge_serves b peer ip port = Inr m" "any_bridge_serves bs peer ip port = Inr m'"
    using bridge_serves_total by fastforce
  then have "any_bridge_serves (b # bs) peer ip port = Inr (m \<or> m')" by simp
  then show ?case by blast
qed (rule exI [of _ False], simp)

lemma sort_routes_total:
  assumes "\<forall>b \<in> set bs. bridge_complete b" and "list_all route_ok (dvalues routes)"
    and "\<forall>v \<in> set (dvalues routes). CHR '':'' \<in> set (route_dest v)"
  shows "\<exists>debris. sort_routes bs routes = Inr (filter (in_use bs) routes, debris)"
proof -
  have "\<exists>r. sort_routes bs routes = Inr r"
    using assms
  proof (induction bs routes rule: sort_routes.induct)
    case (2 bs k v routes)
    from 2 obtain port where port: "route_port_str v = Inr port" by (auto simp: route_ok_def)
    obtain a where a: "nth_item (split (CHR '':'') (route_dest v)) 1 = Inr a"
      using 2(4) nth_part [of "CHR '':''" "route_dest v"] by auto
    obtain m where m: "any_bridge_serves bs (hd (rsplit1 (CHR ''-'') k)) (hd (split (CHR '':'') (route_dest v))) port = Inr m"
      using any_bridge_serves_total [OF 2(2)] by blast
    have "\<exists>r. sort_routes bs routes = Inr r" using 2 port a m by auto
    with port a m show ?case by (cases m) (auto simp: Let_def)
  qed simp
  then show ?thesis using sort_routes_filter by fastforce
qed

section \<open>The task\<close>

text \<open>Calls that do not touch the ConfigMap of the routes.\<close>

definition watch_frame :: "'w cluster \<Rightarrow> 'w custom_api \<Rightarrow> ('w \<Rightarrow> 'v) \<Rightarrow> bool" where
  "watch_frame K api view \<longleftrightarrow>
     (\<forall>ns sel. keeps view (list_pod (core K) ns sel)) \<and> (\<forall>n ns. keeps view (delete_service (core K) n ns))
   \<and> (\<forall>ns sel. keeps view (co_list_bridges api ns sel))
   \<and> (\<forall>n ns a. keeps view (patch_pod_annotations (core K) n ns a))
   \<and> keeps view (isoformat_now (host K)) \<and> (\<forall>n. keeps view (sleep (host K) n))"

lemma frame_pod: "watch_frame K api view \<Longrightarrow> keeps view (get_stowaway_pod K cfg)"
  unfolding get_stowaway_pod_def by (intro keeps_intros) (auto simp: watch_frame_def)

lemma frame_ready: "watch_frame K api view \<Longrightarrow> keeps view (stowaway_ready K cfg)"
  unfolding stowaway_ready_def
  by (intro keeps_intros frame_pod) (auto split: option.split intro!: keeps_intros)

lemma frame_drop: "watch_frame K api view \<Longrightarrow> keeps view (drop_service K cfg svc)"
  unfolding drop_service_def by (intro keeps_intros) (auto simp: watch_frame_def)

lemma frame_notify: "watch_frame K api view \<Longrightarrow> keeps view (notify_stowaway_pod K cfg n)"
  unfolding notify_stowaway_pod_def get_now_def
  by (intro keeps_intros) (auto simp: watch_frame_def swallow_api_exception_def)


lemma frame_for_each: "(\<And>x. keeps v (f x)) \<Longrightarrow> keeps v (for_each f xs)"
  by (rule keeps_for_each)

lemma replace_view:
  assumes store: "config_map_store K name ns view" and cm: "cm_name cm = name" "cm_namespace cm = ns"
    and run: "replace_routes K cm d w = (r, w')"
  shows "view w' = (case r of Inl _ \<Rightarrow> view w | Inr _ \<Rightarrow> Some d)"
  using store_replace [OF store] run cm by (fastforce simp: replace_routes_def split: sum.split)

lemma purge_view:
  assumes store: "route_store K cfg view" and frame: "watch_frame K api view"
    and cm: "cm_name cm = STOWAWAY_PROXYROUTE_CONFIGMAPNAME cfg" "cm_namespace cm = NAMESPACE cfg" "cm_data cm = view w"
    and run: "purge_routes K cfg cm w = (r, w')"
  shows "(case r of Inl _ \<Rightarrow> view w' = view w | Inr _ \<Rightarrow> routes_data (view w') = [])"
proof (cases "routes_data (view w) = []")
  case True
  with run cm show ?thesis by (auto simp: purge_routes_def)
next
  case False
  let ?del = "for_each (\<lambda>value. bind (of_sum (route_port_str value)) (\<lambda>p. drop_service K cfg (debris_service p)))
    (dvalues (routes_data (view w)))"
  have del: "keeps view ?del" by (intro keeps_intros frame_drop [OF frame]) simp
  obtain r1 w1 where r1: "?del w = (r1, w1)" by force
  have w1: "view w1 = view w" using keepsD [OF del r1] .
  show ?thesis
  proof (cases r1)
    case (Inl e)
    with r1 run False cm w1 show ?thesis by (auto simp: purge_routes_def thn_Inl)
  next
    case (Inr u)
    with r1 run False cm have "replace_routes K cm [] w1 = (r, w')" by (simp add: purge_routes_def thn_Inr)
    from replace_view [OF store cm(1,2) this] w1 show ?thesis by (auto simp: routes_data_def split: sum.splits)
  qed
qed

lemma prune_view:
  assumes store: "route_store K cfg view" and frame: "watch_frame K api view"
    and cm: "cm_name cm = STOWAWAY_PROXYROUTE_CONFIGMAPNAME cfg" "cm_namespace cm = NAMESPACE cfg" "cm_data cm = view w"
    and run: "prune_routes K cfg cm bs w = (r, w')"
  shows "(case r of Inl _ \<Rightarrow> view w' = view w \<or> routes_data (view w') = filter (in_use bs) (routes_data (view w))
      | Inr _ \<Rightarrow> routes_data (view w') = filter (in_use bs) (routes_data (view w)))"
proof (cases "routes_data (view w) = [] \<or> (\<exists>e. sort_routes bs (routes_data (view w)) = Inl e)")
  case True
  with run cm show ?thesis by (auto simp: prune_routes_def Let_def split: if_splits)
next
  case False
  then obtain fin deb where s: "sort_routes bs (routes_data (view w)) = Inr (fin, deb)"
    by (metis old.sum.exhaust prod.exhaust)
  note fin = sort_routes_filter [OF s]
  show ?thesis
  proof (cases "length fin = length (routes_data (view w))")
    case True
    then have "filter (in_use bs) (routes_data (view w)) = routes_data (view w)"
      unfolding fin by (metis length_filter_less filter_True less_irrefl)
    with True run False s cm show ?thesis by (auto simp: prune_routes_def Let_def split: if_splits)
  next
    case False': False
    let ?rest = "thn (for_each (drop_service K cfg) deb)
      (bind (get_stowaway_pod K cfg) (\<lambda>p. case p of None \<Rightarrow> ret () | Some p \<Rightarrow> notify_stowaway_pod K cfg (pod_name p)))"
    have rest: "keeps view ?rest"
      by (intro keeps_intros frame_drop [OF frame] frame_pod [OF frame])
        (auto split: option.split intro: frame_notify [OF frame])
    have run': "thn (replace_routes K cm fin) ?rest w = (r, w')"
      using run False False' s cm by (simp add: prune_routes_def)
    obtain r1 w1 where r1: "replace_routes K cm fin w = (r1, w1)" by force
    note v1 = replace_view [OF store cm(1,2) r1]
    show ?thesis
    proof (cases r1)
      case (Inl e)
      with run' r1 v1 show ?thesis by (auto simp: thn_Inl)
    next
      case (Inr u)
      then have "?rest w1 = (r, w')" using run' r1 by (simp add: thn_Inr)
      from keepsD [OF rest this] v1 Inr fin show ?thesis by (auto simp: routes_data_def split: sum.split)
    qed
  qed
qed

lemma reconcile_outcome:
  assumes store: "route_store K cfg view" and frame: "watch_frame K api view"
    and ready: "stowaway_ready K cfg w = (Inr True, w0)"
    and bridges: "\<And>w. fst (co_list_bridges api (NAMESPACE cfg) None w) = Inr bs"
    and run: "reconcile_proxyroutes K api cfg w = (r, w')"
  shows "(r = Inr () \<longrightarrow> routes_data (view w') = filter (in_use bs) (routes_data (view w)))
    \<and> (r \<noteq> Inr () \<longrightarrow> view w' = view w \<or> routes_data (view w') = filter (in_use bs) (routes_data (view w)))"
proof -
  let ?read = "read_config_map (core K) (STOWAWAY_PROXYROUTE_CONFIGMAPNAME cfg) (NAMESPACE cfg)"
  have w0: "view w0 = view w" using keepsD [OF frame_ready [OF frame] ready] .
  obtain r1 w1 where r1: "?read w0 = (r1, w1)" by force
  show ?thesis
  proof (cases r1)
    case (Inl e)
    with run ready r1 store_read_err [OF store r1] w0 show ?thesis
      by (auto simp: reconcile_proxyroutes_def Let_def create_stowaway_proxyroute_configmap_def io_step)
  next
    case (Inr cm)
    note s1 = store_read [OF store r1 [unfolded Inr]]
    obtain w2 where w2: "co_list_bridges api (NAMESPACE cfg) None w1 = (Inr bs, w2)"
      using bridges [of w1] by (metis prod.collapse)
    have v2: "view w2 = view w"
      using w2 frame s1 w0 keepsD [of view "co_list_bridges api (NAMESPACE cfg) None" w1]
      by (auto simp: watch_frame_def)
    have run': "(if bs = [] then purge_routes K cfg cm else prune_routes K cfg cm bs) w2 = (r, w')"
      using run ready r1 w2 unfolding Inr
      by (simp add: reconcile_proxyroutes_def Let_def create_stowaway_proxyroute_configmap_def io_step)
    have cm: "cm_name cm = STOWAWAY_PROXYROUTE_CONFIGMAPNAME cfg" "cm_namespace cm = NAMESPACE cfg"
      "cm_data cm = view w2" using s1 v2 w0 by auto
    show ?thesis
    proof (cases "bs = []")
      case True
      have "filter (in_use []) d = []" for d by (simp add: in_use_def)
      with purge_view [OF store frame cm, of r w'] run' True v2 show ?thesis by (cases r) auto
    next
      case False
      with prune_view [OF store frame cm, of bs r w'] run' v2 show ?thesis by (cases r) auto
    qed
  qed
qed


text \<open>C15: The task that looks for debris keeps exactly the routes in use.  With Stowaway ready
  and the bridges listed, a run that returns leaves in the table the routes that some bridge uses
  (same client, same address, an endpoint on the Stowaway port), in their order, whatever the
  deletions of services answer; a run that is ended by an exception has done that or nothing to
  the table.\<close>

theorem reconcile_keeps_used_routes:
  assumes store: "route_store K cfg view" and frame: "watch_frame K api view"
    and ready: "stowaway_ready K cfg w = (Inr True, w0)"
    and bridges: "\<And>w. fst (co_list_bridges api (NAMESPACE cfg) None w) = Inr bs"
    and run: "reconcile_proxyroutes K api cfg w = (r, w')"
  shows "(r = Inr () \<longrightarrow> routes_data (view w') = filter (in_use bs) (routes_data (view w)))
    \<and> (r \<noteq> Inr () \<longrightarrow> view w' = view w \<or> routes_data (view w') = filter (in_use bs) (routes_data (view w)))"
  by (rule reconcile_outcome [OF store frame ready bridges run])

section \<open>A small cluster\<close>

definition watched_routes :: "string dict" where
  "watched_routes = [(''dev-1-xxxxxxxxxx'', ''10.0.0.1:80,10000''), (''b-yyyyyyyyyy'', ''10.0.0.2:80,10001'')]"

definition watched_pod :: pod where
  "watched_pod = \<lparr>pod_name = ''stowaway-0'', pod_namespace = ''gefyra'', pod_labels = Some STOWAWAY_LABELS,
     pod_owner_references = [], pod_phase = ''Running'', pod_containers = [],
     pod_container_statuses = Some [\<lparr>cs_name = ''stowaway'', cs_ready = True, cs_started = True,
       cs_state = None, cs_restart_count = 0\<rparr>]\<rparr>"

definition watched :: mem where
  "watched = mem_empty\<lparr>mm_pods := [(''stowaway-0'', watched_pod)],
     mm_config_maps := [(''gefyra-stowaway-proxyroutes'',
       (create_stowaway_proxyroute_configmap default_configuration)\<lparr>cm_data := Some watched_routes\<rparr>)]\<rparr>"

definition watched_bridge :: bridge where
  "watched_bridge = sample_bridge\<lparr>br_client := Some ''dev-1'', br_destinationIP := Some ''10.0.0.1'',
     br_clusterEndpoint := Some [(''80'', ''gefyra-stowaway-proxy-10000.gefyra.svc.cluster.local:10000'')]\<rparr>"

definition watched_api :: "bridge list \<Rightarrow> mem custom_api" where
  "watched_api bs = mem_custom\<lparr>co_list_bridges := (\<lambda>ns sel. ret bs)\<rparr>"

lemma watched_list [simp]: "co_list_bridges (watched_api bs) ns sel w = (Inr bs, w)"
  by (simp add: watched_api_def)

lemma watched_frame: "watch_frame mem_cluster (watched_api bs) (mem_view n)"
  by (auto simp: watch_frame_def watched_api_def keeps_def mem_core_def mem_host_def mem_view_def
      mem_delete_service_def split: option.splits)

lemma watched_ready: "stowaway_ready mem_cluster default_configuration watched = (Inr True, watched)"
proof -
  have "selects (get_label_selector STOWAWAY_LABELS) STOWAWAY_LABELS" by code_simp
  then show ?thesis
    by (simp add: stowaway_ready_def get_stowaway_pod_def mem_core_def watched_def mem_empty_def
        watched_pod_def bind_def routes_data_def nth_item_def)
qed

lemma watched_view: "mem_view ''gefyra-stowaway-proxyroutes'' watched = Some watched_routes"
  by (simp add: mem_view_def watched_def)

lemma watched_filter: "filter (in_use [watched_bridge]) watched_routes
    = [(''dev-1-xxxxxxxxxx'', ''10.0.0.1:80,10000'')]"
  by code_simp

theorem reconcile_keeps_used_routes_witness:
  "\<exists>w'. reconcile_proxyroutes mem_cluster (watched_api [watched_bridge]) default_configuration watched = (Inr (), w')
     \<and> routes_data (mem_view ''gefyra-stowaway-proxyroutes'' w') = [(''dev-1-xxxxxxxxxx'', ''10.0.0.1:80,10000'')]"
proof -
  let ?run = "reconcile_proxyroutes mem_cluster (watched_api [watched_bridge]) default_configuration watched"
  obtain r w' where run: "?run = (r, w')" by force
  have "fst ?run = Inr ()" by code_simp
  with run have r: "r = Inr ()" by simp
  have store: "route_store mem_cluster default_configuration (mem_view ''gefyra-stowaway-proxyroutes'')"
    using mem_config_map_store [of "''gefyra-stowaway-proxyroutes''"] by simp
  show ?thesis
    using reconcile_keeps_used_routes [OF store watched_frame watched_ready _ run] r run watched_view watched_filter
    by (simp add: routes_data_def)
qed


section \<open>Routes of live bridges\<close>

lemma endpoint_port: "CHR '':'' \<notin> set svc \<Longrightarrow> CHR '':'' \<notin> set (NAMESPACE cfg) \<Longrightarrow>
    nth_item (split (CHR '':'') (endpoint_url cfg svc (str_nat p))) 1 = Inr (str_nat p)"
  using split_append [of "CHR '':''" "svc @ ''.'' @ NAMESPACE cfg @ ''.svc.cluster.local''" "str_nat p"]
  by (simp add: endpoint_url_def str_nat_notin nth_item_def)

lemma filter_dget: "distinct (keys d) \<Longrightarrow> dget d k = Some v \<Longrightarrow> P (k, v) \<Longrightarrow> dget (filter P d) k = Some v"
proof (induction d)
  case (Cons x d)
  obtain k' v' where x: "x = (k', v')" by force
  with Cons show ?case by (auto split: if_splits)
qed simp

text \<open>C16: The route of a live bridge is never taken for debris.  A route as \<open>add_destination\<close> writes it
  (key: client, dash, random letters; value: address and Stowaway port) is still in the table after a
  run of the task, returned or failed, if a listed bridge has that client, that address, and the URL
  \<open>add_destination\<close> returned among its endpoints -- also when the name of the client contains dashes.\<close>

theorem live_route_kept:
  assumes store: "route_store K cfg view" and frame: "watch_frame K api view"
    and ready: "stowaway_ready K cfg w = (Inr True, w0)"
    and bridges: "\<And>w. fst (co_list_bridges api (NAMESPACE cfg) None w) = Inr bs"
    and run: "reconcile_proxyroutes K api cfg w = (r, w')"
    and table: "distinct (keys (routes_data (view w)))"
    and route: "dget (routes_data (view w)) (client @ ''-'' @ rnd)
        = Some (destination_str ip port @ '','' @ str_nat p)"
    and texts: "CHR ''-'' \<notin> set rnd" "CHR '','' \<notin> set ip" "CHR '':'' \<notin> set ip"
      "CHR '':'' \<notin> set svc" "CHR '':'' \<notin> set (NAMESPACE cfg)"
    and b: "b \<in> set bs" "br_client b = Some client" "br_destinationIP b = Some ip"
      "br_clusterEndpoint b = Some es" "endpoint_url cfg svc (str_nat p) \<in> set (dvalues es)"
  shows "dget (routes_data (view w')) (client @ ''-'' @ rnd) = Some (destination_str ip port @ '','' @ str_nat p)"
proof -
  let ?v = "destination_str ip port @ '','' @ str_nat p"
  have dest: "CHR '','' \<notin> set (destination_str ip port)"
    using texts by (simp add: destination_str_def str_int_notin)
  have addr: "hd (split (CHR '':'') (destination_str ip port)) = ip"
    using texts by (simp add: destination_str_def split_append)
  have "uses_route (client @ ''-'' @ rnd) ?v b"
    using b texts endpoint_port [of svc cfg p] route_of_dest [OF dest, of p] route_port_str_of [OF dest, of p] addr
    by (auto simp: uses_route_def routes_data_def rsplit1_append intro!: bexI [of _ "endpoint_url cfg svc (str_nat p)"])
  then have "in_use bs (client @ ''-'' @ rnd, ?v)" using b(1) by (auto simp: in_use_def list_ex_iff)
  from filter_dget [where P = "in_use bs", OF table route this]
    reconcile_outcome [OF store frame ready bridges run] route show ?thesis by auto
qed

theorem live_route_kept_witness:
  "dget (routes_data (mem_view ''gefyra-stowaway-proxyroutes'' (snd (reconcile_proxyroutes mem_cluster
     (watched_api [watched_bridge]) default_configuration watched)))) (''dev-1'' @ ''-'' @ ''xxxxxxxxxx'')
   = Some (destination_str ''10.0.0.1'' 80 @ '','' @ str_nat 10000)"
proof (rule live_route_kept [OF _ watched_frame watched_ready])
  show "route_store mem_cluster default_configuration (mem_view ''gefyra-stowaway-proxyroutes'')"
    using mem_config_map_store [of "''gefyra-stowaway-proxyroutes''"] by simp
  show "reconcile_proxyroutes mem_cluster (watched_api [watched_bridge]) default_configuration watched
     = (fst (reconcile_proxyroutes mem_cluster (watched_api [watched_bridge]) default_configuration watched),
        snd (reconcile_proxyroutes mem_cluster (watched_api [watched_bridge]) default_configuration watched))" by simp
  show "distinct (keys (routes_data (mem_view ''gefyra-stowaway-proxyroutes'' watched)))"
    by (simp add: watched_view routes_data_def watched_routes_def)
  show "dget (routes_data (mem_view ''gefyra-stowaway-proxyroutes'' watched)) (''dev-1'' @ ''-'' @ ''xxxxxxxxxx'')
     = Some (destination_str ''10.0.0.1'' 80 @ '','' @ str_nat 10000)"
    by (simp add: watched_view routes_data_def watched_routes_def destination_str_def str_int_def str_nat_eval)
  show "br_clusterEndpoint watched_bridge
     = Some [(''80'', ''gefyra-stowaway-proxy-10000.gefyra.svc.cluster.local:10000'')]"
    by (simp add: watched_bridge_def)
  show "endpoint_url default_configuration ''gefyra-stowaway-proxy-10000'' (str_nat 10000)
     \<in> set (dvalues [(''80'', ''gefyra-stowaway-proxy-10000.gefyra.svc.cluster.local:10000'')])"
    by (simp add: endpoint_url_def str_nat_eval)
qed (auto simp: watched_bridge_def)

section \<open>The end of the task\<close>

text \<open>A bridge in the middle of its setup ends the task for good.  Between the creation of its route and
  the patch of its \<open>clusterEndpoint\<close> the comparison raises \<open>KeyError\<close>, which nothing catches: however
  many rounds the loop would run, it stops in this one, with the table as it was.\<close>

theorem setup_ends_task:
  assumes sleep: "sleep (host K) (WIREGUARD_RECONCILIATION * 5 * 1000) w = (Inr (), w1)"
    and ready: "stowaway_ready K cfg w1 = (Inr True, w2)"
    and read: "read_config_map (core K) (STOWAWAY_PROXYROUTE_CONFIGMAPNAME cfg) (NAMESPACE cfg) w2 = (Inr cm, w3)"
    and list: "co_list_bridges api (NAMESPACE cfg) None w3 = (Inr (b # bs), w4)"
    and data: "cm_data cm = Some ((client @ ''-'' @ rnd, destination_str ip port @ '','' @ str_nat p) # rest)"
    and texts: "CHR ''-'' \<notin> set rnd" "CHR '','' \<notin> set ip" "CHR '':'' \<notin> set ip"
    and b: "br_client b = Some client" "br_destinationIP b = Some ip" "br_clusterEndpoint b = None"
  shows "proxyroutes_task K api cfg (Suc n) w = (Inl KeyError, w4)"
proof -
  let ?v = "destination_str ip port @ '','' @ str_nat p"
  have dest: "CHR '','' \<notin> set (destination_str ip port)"
    using texts by (simp add: destination_str_def str_int_notin)
  have addr: "split (CHR '':'') (destination_str ip port) = [ip, str_int port]"
    using texts by (simp add: destination_str_def split_append str_int_notin)
  have "any_bridge_serves (b # bs) client ip (str_nat p) = Inl KeyError"
    using b by (simp add: bridge_serves_def)
  then have "sort_routes (b # bs) ((client @ ''-'' @ rnd, ?v) # rest) = Inl KeyError"
    using texts addr route_of_dest [OF dest, of p] route_port_str_of [OF dest, of p]
    by (simp add: Let_def rsplit1_append nth_item_def del: any_bridge_serves.simps)
  then have "prune_routes K cfg cm (b # bs) w4 = (Inl KeyError, w4)"
    using data by (simp add: prune_routes_def Let_def routes_data_def)
  then have "reconcile_proxyroutes K api cfg w1 = (Inl KeyError, w4)"
    using ready read list
    by (simp add: reconcile_proxyroutes_def Let_def create_stowaway_proxyroute_configmap_def io_step)
  with sleep show ?thesis by (simp add: proxyroutes_task_def io_step)
qed


theorem setup_ends_task_witness:
  "proxyroutes_task mem_cluster (watched_api [watched_bridge\<lparr>br_clusterEndpoint := None\<rparr>])
     default_configuration (Suc 3) watched = (Inl KeyError, watched\<lparr>mm_clock := 300000000\<rparr>)"
proof (rule setup_ends_task [where client = "''dev-1''" and rnd = "''xxxxxxxxxx''" and ip = "''10.0.0.1''"
      and port = 80 and p = 10000 and rest = "[(''b-yyyyyyyyyy'', ''10.0.0.2:80,10001'')]" and bs = "[]"
      and cm = "(create_stowaway_proxyroute_configmap default_configuration)\<lparr>cm_data := Some watched_routes\<rparr>"])
  let ?w = "watched\<lparr>mm_clock := 300000000\<rparr>"
  have "selects (get_label_selector STOWAWAY_LABELS) STOWAWAY_LABELS" by code_simp
  then show "stowaway_ready mem_cluster default_configuration ?w = (Inr True, ?w)"
    by (simp add: stowaway_ready_def get_stowaway_pod_def mem_core_def watched_def mem_empty_def
        watched_pod_def bind_def routes_data_def nth_item_def)
  show "sleep (host mem_cluster) (WIREGUARD_RECONCILIATION * 5 * 1000) watched = (Inr (), ?w)"
    by (simp add: mem_host_def WIREGUARD_RECONCILIATION_def watched_def mem_empty_def)
  show "read_config_map (core mem_cluster) (STOWAWAY_PROXYROUTE_CONFIGMAPNAME default_configuration)
      (NAMESPACE default_configuration) ?w
    = (Inr ((create_stowaway_proxyroute_configmap default_configuration)\<lparr>cm_data := Some watched_routes\<rparr>), ?w)"
    by (simp add: mem_core_def mem_read_def watched_def bind_def create_stowaway_proxyroute_configmap_def)
  show "cm_data ((create_stowaway_proxyroute_configmap default_configuration)\<lparr>cm_data := Some watched_routes\<rparr>)
    = Some ((''dev-1'' @ ''-'' @ ''xxxxxxxxxx'', destination_str ''10.0.0.1'' 80 @ '','' @ str_nat 10000)
        # [(''b-yyyyyyyyyy'', ''10.0.0.2:80,10001'')])"
    by (simp add: watched_routes_def destination_str_def str_int_def str_nat_eval)
qed (auto simp: watched_bridge_def)

end
