(* ===== verification/BridgeProperties.thy ===== *)
theory BridgeProperties
  imports MemOperator StowawayProvider
begin

text \<open>
  Properties of the bridge state machine and its handlers.  The lemmas under \<open>destination_provider\<close>
  rest on the interface of the connection provider only and reach Stowaway through its
  interpretation.
\<close>

section \<open>One event at a time\<close>

text \<open>Posting an event does not raise as long as the clock and the identifier source answer.\<close>

lemma post_event_total:
  assumes "\<And>w. \<exists>s w'. isoformat_now (op_host Op) w = (Inr s, w')" "\<And>w. \<exists>s w'. uuid4 (op_host Op) w = (Inr s, w')"
  shows "fst (post_event Op obj reason ty w) = Inr ()"
proof -
  obtain s w1 where 1: "isoformat_now (op_host Op) w = (Inr s, w1)" using assms(1) by blast
  obtain u w2 where 2: "uuid4 (op_host Op) w1 = (Inr u, w2)" using assms(2) by blast
  show ?thesis
    by (simp add: post_event_def get_now_def bind_def 1 2 try_except_def split: prod.split sum.split)
qed

lemma bridge_step_complete:
  assumes "quiet (be_op env) BRIDGES br" and "bridge_next s e = Some s'"
    and "bridge_callbacks env br s e w = (Inr sent, w1)"
  shows "\<exists>w'. bridge_step env br s e w = (Inr (s', sent), w')"
  unfolding bridge_step_def
  by (rule fire_complete [where tbl = bridge_next and cb = "bridge_callbacks env br", OF assms(2,3)])
     (simp add: bridge_assign_def quiet_write [OF assms(1)])

lemma bridge_step_fails:
  assumes "bridge_next s e = Some s'" and "bridge_callbacks env br s e w = (Inl x, w1)"
  shows "bridge_step env br s e w = (Inl x, w1)"
  unfolding bridge_step_def by (rule fire_Inl [where tbl = bridge_next and cb = "bridge_callbacks env br", OF assms])

lemma bridge_step_not_allowed:
  "bridge_next s e = None \<Longrightarrow> bridge_step env br s e w = (Inl TransitionNotAllowed, w)"
  unfolding bridge_step_def by (simp add: fire_None)

text \<open>The work of \<open>on_activate\<close>.\<close>

definition activation :: "'w bridge_env \<Rightarrow> bridge \<Rightarrow> ('w, unit) io" where
  "activation env br =
     bind (of_sum (req (br_destinationIP br))) (\<lambda>destination. handle_proxyroute_setup env br destination)"

lemma bridge_on_activate_result:
  assumes "quiet (be_op env) BRIDGES br"
  shows "\<exists>w0 w1. post_event (be_op env) br ''GefyraBridge state changed'' ''Normal'' w = (Inr (), w0) \<and>
    bridge_on_activate env br w = (Inr [if fst (activation env br w0) = Inr () then BEstablish else BImpair], w1)"
proof -
  obtain w0 where w0: "post_event (be_op env) br ''GefyraBridge state changed'' ''Normal'' w = (Inr (), w0)"
    using quiet_event [OF assms] by blast
  have "\<exists>w1. try_except (bind (of_sum (req (br_destinationIP br))) (\<lambda>destination.
        thn (handle_proxyroute_setup env br destination) (ret [BEstablish]))) (\<lambda>e. ret [BImpair]) w0
      = (Inr [if fst (activation env br w0) = Inr () then BEstablish else BImpair], w1)"
    by (cases "br_destinationIP br")
       (auto simp: activation_def try_except_def bind_def thn_def split: prod.split sum.split)
  with w0 show ?thesis by (auto simp: bridge_on_activate_def thn_Inr)
qed

lemma run_activate:
  assumes rtc: "rtc_loop (bridge_step env br) run" and q: "quiet (be_op env) BRIDGES br"
    and s: "s \<in> {BInstalled, BError, BCreating}"
  shows "\<exists>w0 w'. post_event (be_op env) br ''GefyraBridge state changed'' ''Normal'' w = (Inr (), w0) \<and>
    run [BActivate] (s, w) =
      (Inr (), (if fst (activation env br w0) = Inr () then BActive else BError, w'))"
proof -
  obtain w0 w1 where w0: "post_event (be_op env) br ''GefyraBridge state changed'' ''Normal'' w = (Inr (), w0)"
    and cb: "bridge_on_activate env br w = (Inr [if fst (activation env br w0) = Inr () then BEstablish else BImpair], w1)"
    using bridge_on_activate_result [OF q] by blast
  let ?e = "if fst (activation env br w0) = Inr () then BEstablish else BImpair"
  let ?t = "if fst (activation env br w0) = Inr () then BActive else BError"
  obtain w2 where 1: "bridge_step env br s BActivate w = (Inr (BCreating, [?e]), w2)"
    using bridge_step_complete [OF q, of s BActivate BCreating w "[?e]" w1] s cb by auto
  obtain w3 where ev: "bridge_callbacks env br BCreating ?e w2 = (Inr [], w3)"
  proof (cases "fst (activation env br w0) = Inr ()")
    case True
    with quiet_event [OF q, of "''Ready''" "''Normal''" w2] that show ?thesis
      by (auto simp: bridge_on_establish_def thn_def bind_def)
  next
    case False
    with quiet_event [OF q, of "''Failed in state '' @ bridge_label BCreating" "''Warning''" w2] that show ?thesis
      by (auto simp: bridge_on_impair_def thn_def bind_def)
  qed
  obtain w4 where 2: "bridge_step env br BCreating ?e w2 = (Inr (?t, []), w4)"
    using bridge_step_complete [OF q, of BCreating ?e ?t w2 "[]" w3] ev
    by (cases "fst (activation env br w0) = Inr ()") auto
  have "run [BActivate] (s, w) = run [?e] (BCreating, w2)"
    using rtc_Inr [OF rtc 1, of "[]"] by simp
  also have "\<dots> = run [] (?t, w4)"
    using rtc_Inr [OF rtc 2, of "[]"] by simp
  also have "\<dots> = (Inr (), (?t, w4))" by (rule rtc_Nil [OF rtc])
  finally show ?thesis using w0 by blast
qed

lemma run_set_installed_after:
  assumes rtc: "rtc_loop (bridge_step env br) run" and q: "quiet (be_op env) BRIDGES br"
    and s: "s \<in> {BInstalling, BRestoring}"
  shows "\<exists>w'. run [BSetInstalled] (s, w) = (Inr (), (BInstalled, w'))"
proof -
  obtain w1 where 1: "bridge_step env br s BSetInstalled w = (Inr (BInstalled, []), w1)"
    using bridge_step_complete [OF q, of s BSetInstalled BInstalled w "[]" w] s by auto
  have "run [BSetInstalled] (s, w) = run [] (BInstalled, w1)" using rtc_Inr [OF rtc 1, of "[]"] by simp
  then show ?thesis using rtc_Nil [OF rtc] by metis
qed

lemma run_restore:
  assumes rtc: "rtc_loop (bridge_step env br) run" and q: "quiet (be_op env) BRIDGES br"
    and s: "s \<in> {BInstalled, BError, BRestoring, BActive}"
  shows "\<exists>w'. run [BRestore] (s, w) = (Inr (), (BInstalled, w'))"
proof -
  obtain w1 where 1: "bridge_step env br s BRestore w = (Inr (BRestoring, [BSetInstalled]), w1)"
    using bridge_step_complete [OF q, of s BRestore BRestoring w "[BSetInstalled]" w] s
    by (auto simp: bridge_on_restore_def)
  have "run [BRestore] (s, w) = run [BSetInstalled] (BRestoring, w1)"
    using rtc_Inr [OF rtc 1, of "[]"] by simp
  then show ?thesis using run_set_installed_after [OF rtc q, of BRestoring w1] by auto
qed

text \<open>A provider that can be built, installs and is ready.\<close>

definition provider_ready :: "'w bridge_env \<Rightarrow> bridge \<Rightarrow> bool" where
  "provider_ready env br \<longleftrightarrow> (\<forall>w. \<exists>bp w'. bridge_provider env br w = (Inr bp, w')
     \<and> (\<forall>w. fst (bp_install bp w) = Inr ()) \<and> (\<forall>w. fst (bp_ready bp w) = Inr True))"

lemma wait_for_ready:
  assumes "provider_ready env br"
  shows "\<exists>w'. wait_for_provider env br w = (Inr [BSetInstalled], w')"
proof -
  obtain bp w1 where 1: "bridge_provider env br w = (Inr bp, w1)" "\<forall>w. fst (bp_ready bp w) = Inr True"
    using assms unfolding provider_ready_def by blast
  then obtain w2 where "bp_ready bp w1 = (Inr True, w2)" by (metis prod.collapse)
  with 1 show ?thesis by (auto simp: wait_for_provider_def bind_Inr)
qed

lemma install_ready:
  assumes "provider_ready env br"
  shows "\<exists>w'. install_provider env br w = (Inr [BSetInstalled], w')"
proof -
  obtain bp w1 where 1: "bridge_provider env br w = (Inr bp, w1)" "\<forall>w. fst (bp_install bp w) = Inr ()"
    using assms unfolding provider_ready_def by blast
  then obtain w2 where 2: "bp_install bp w1 = (Inr (), w2)" by (metis prod.collapse)
  obtain w3 where "wait_for_provider env br w2 = (Inr [BSetInstalled], w3)"
    using wait_for_ready [OF assms] by blast
  with 1 2 show ?thesis
    by (auto simp: install_provider_def try_except_def bind_Inr thn_Inr)
qed

lemma run_install:
  assumes rtc: "rtc_loop (bridge_step env br) run" and q: "quiet (be_op env) BRIDGES br"
    and p: "provider_ready env br" and s: "s \<in> {BRequested, BInstalling}"
  shows "\<exists>w'. run [BInstall] (s, w) = (Inr (), (BInstalled, w'))"
proof -
  obtain w0 where "bridge_callbacks env br s BInstall w = (Inr [BSetInstalled], w0)"
    using s install_ready [OF p, of w] wait_for_ready [OF p, of w] by auto
  then obtain w1 where 1: "bridge_step env br s BInstall w = (Inr (BInstalling, [BSetInstalled]), w1)"
    using bridge_step_complete [OF q, of s BInstall BInstalling w "[BSetInstalled]" w0] s by auto
  have "run [BInstall] (s, w) = run [BSetInstalled] (BInstalling, w1)"
    using rtc_Inr [OF rtc 1, of "[]"] by simp
  then show ?thesis using run_set_installed_after [OF rtc q, of BInstalling w1] by auto
qed

section \<open>Properties\<close>

text \<open>Every state of a bridge accepts \<open>terminate\<close> and \<open>TERMINATING\<close> is final; \<open>REQUESTED\<close> is
  never re-entered; \<open>ACTIVE\<close> is entered by \<open>establish\<close> alone, from \<open>CREATING\<close> or \<open>ERROR\<close>.\<close>

theorem bridge_lifecycle:
  "bridge_next s BTerminate = Some BTerminating
   \<and> (steps_to bridge_next BTerminating t \<longrightarrow> t = BTerminating)
   \<and> bridge_next s e \<noteq> Some BRequested
   \<and> (bridge_next s e = Some BActive \<longrightarrow> e = BEstablish \<and> s \<in> {BCreating, BError})"
proof -
  have "t = BTerminating" if "steps_to bridge_next BTerminating t"
    by (rule steps_to_closed [OF that, where I = "\<lambda>s. s = BTerminating"])
       (auto elim: bridge_next.elims split: if_splits)
  moreover have "bridge_next s e \<noteq> Some BRequested" by (cases e) auto
  moreover have "bridge_next s e = Some BActive \<longrightarrow> e = BEstablish \<and> s \<in> {BCreating, BError}"
    by (cases e) auto
  ultimately show ?thesis by simp
qed

theorem bridge_lifecycle_witness:
  "BTerminating = BTerminating \<and> bridge_next BCreating BEstablish = Some BActive
   \<and> BCreating \<in> {BCreating, BError}"
  using bridge_lifecycle [of BCreating BTerminating BEstablish] steps_refl [of bridge_next BTerminating]
  by simp

text \<open>C19: Creating a requested bridge whose provider is ready always ends in \<open>ACTIVE\<close> or \<open>ERROR\<close>,
  without an exception: in \<open>ACTIVE\<close> exactly if setting up its destinations and routes succeeded.\<close>

theorem bridge_create_outcome:
  assumes rtc: "rtc_loop (bridge_step env br) run" and q: "quiet (be_op env) BRIDGES br"
    and p: "provider_ready env br" and t: "br_target br = Some key"
    and s: "s \<in> {BRequested, BInstalling, BInstalled}"
  shows "\<exists>w1 w0 w'. (if s = BInstalled then w1 = w else run [BInstall] (s, w) = (Inr (), (BInstalled, w1)))
    \<and> post_event (be_op env) br ''GefyraBridge state changed'' ''Normal'' w1 = (Inr (), w0)
    \<and> handler_bridge_create run br (s, w) =
    (Inr (), (if fst (activation env br w0) = Inr () then BActive else BError, w'))"
proof -
  obtain w1 where 1: "if s = BInstalled then w1 = w else run [BInstall] (s, w) = (Inr (), (BInstalled, w1))"
    using run_install [OF rtc q p, of s w] s by (cases "s = BInstalled") auto
  have "handler_bridge_create run br (s, w) = run [BActivate] (BInstalled, w1)"
    using 1 s t by (auto simp: handler_bridge_create_def thn_def bind_def split: if_splits)
  moreover obtain w0 w' where "post_event (be_op env) br ''GefyraBridge state changed'' ''Normal'' w1 = (Inr (), w0)"
    and "run [BActivate] (BInstalled, w1) =
      (Inr (), (if fst (activation env br w0) = Inr () then BActive else BError, w'))"
    using run_activate [OF rtc q, of BInstalled w1] by blast
  ultimately show ?thesis using 1 by metis
qed

lemma mem_provider_ready: "provider_ready mem_bridge_env sample_bridge"
  by (simp add: provider_ready_def bridge_provider_def provider_named_def sample_bridge_def
      mem_bridge_provider_def)

abbreviation mem_bridge_run :: "bridge \<Rightarrow> bridge_event list \<Rightarrow> (bridge_state \<times> mem, unit) io" where
  "mem_bridge_run br \<equiv> rtc_run (bridge_step mem_bridge_env br) (BError, mem_empty)"

theorem bridge_create_outcome_witness:
  "\<exists>w1 w0 w'. mem_bridge_run sample_bridge [BInstall] (BRequested, mem_empty) = (Inr (), (BInstalled, w1))
    \<and> post_event mem_operator sample_bridge ''GefyraBridge state changed'' ''Normal'' w1 = (Inr (), w0)
    \<and> handler_bridge_create (mem_bridge_run sample_bridge) sample_bridge (BRequested, mem_empty) =
    (Inr (), (if fst (activation mem_bridge_env sample_bridge w0) = Inr () then BActive else BError, w'))"
proof -
  have q: "quiet (be_op mem_bridge_env) BRIDGES sample_bridge" by (simp add: mem_quiet)
  have t: "br_target sample_bridge = Some ''m1''" by (simp add: sample_bridge_def)
  show ?thesis
    using bridge_create_outcome [OF rtc_run_loop q mem_provider_ready t, of BRequested] by simp
qed

text \<open>While the provider reports that it is not ready, creating the bridge raises a
  \<open>TemporaryError\<close> with a delay of one second and leaves the state as it was, so that the handler
  is run again.\<close>

theorem bridge_create_waits:
  assumes rtc: "rtc_loop (bridge_step env br) run" and q: "quiet (be_op env) BRIDGES br"
    and p: "\<And>w. \<exists>bp w'. bridge_provider env br w = (Inr bp, w')
      \<and> (\<forall>w. fst (bp_install bp w) = Inr ()) \<and> (\<forall>w. fst (bp_ready bp w) = Inr False)"
    and t: "br_target br = Some key" and s: "s \<in> {BRequested, BInstalling}"
  shows "\<exists>w'. handler_bridge_create run br (s, w) = (Inl (TemporaryError (Some 1)), (s, w'))"
proof -
  have wait: "\<exists>w'. wait_for_provider env br w = (Inl (TemporaryError (Some 1)), w')" for w
  proof -
    obtain bp w1 where 1: "bridge_provider env br w = (Inr bp, w1)" "\<forall>w. fst (bp_ready bp w) = Inr False"
      using p by blast
    then obtain w2 where 2: "bp_ready bp w1 = (Inr False, w2)" by (metis prod.collapse)
    obtain w3 where 3: "post_event (be_op env) br ''GefyraBridge waiting'' ''Normal'' w2 = (Inr (), w3)"
      using quiet_event [OF q] by blast
    obtain bp' w4 where "bridge_provider env br w3 = (Inr bp', w4)" using p by blast
    with 1 2 3 show ?thesis by (auto simp: wait_for_provider_def bind_def thn_def)
  qed
  have inst: "\<exists>w'. install_provider env br w = (Inl (TemporaryError (Some 1)), w')" for w
  proof -
    obtain bp w1 where 1: "bridge_provider env br w = (Inr bp, w1)" "\<forall>w. fst (bp_install bp w) = Inr ()"
      using p by blast
    then obtain w2 where 2: "bp_install bp w1 = (Inr (), w2)" by (metis prod.collapse)
    obtain w3 where "wait_for_provider env br w2 = (Inl (TemporaryError (Some 1)), w3)" using wait by blast
    with 1 2 show ?thesis by (auto simp: install_provider_def try_except_def bind_Inr thn_Inr)
  qed
  obtain w1 where "bridge_callbacks env br s BInstall w = (Inl (TemporaryError (Some 1)), w1)"
    using s wait [of w] inst [of w] by auto
  then have "bridge_step env br s BInstall w = (Inl (TemporaryError (Some 1)), w1)"
    using s by (intro bridge_step_fails [of _ _ BInstalling]) auto
  then have "run [BInstall] (s, w) = (Inl (TemporaryError (Some 1)), (s, w1))" by (rule rtc_Inl [OF rtc])
  with s t show ?thesis by (auto simp: handler_bridge_create_def thn_def bind_def)
qed

definition waiting_env :: "mem bridge_env" where
  "waiting_env = mem_bridge_env\<lparr>be_builder := (\<lambda>n ns t c. ret (mem_bridge_provider\<lparr>bp_ready := ret False\<rparr>))\<rparr>"

theorem bridge_create_waits_witness:
  "\<exists>w'. handler_bridge_create (rtc_run (bridge_step waiting_env sample_bridge) (BError, mem_empty))
     sample_bridge (BRequested, mem_empty) = (Inl (TemporaryError (Some 1)), (BRequested, w'))"
proof -
  have q: "quiet (be_op waiting_env) BRIDGES sample_bridge" by (simp add: waiting_env_def mem_quiet)
  have t: "br_target sample_bridge = Some ''m1''" by (simp add: sample_bridge_def)
  show ?thesis
    by (rule bridge_create_waits [OF rtc_run_loop q _ t])
       (simp_all add: waiting_env_def bridge_provider_def provider_named_def sample_bridge_def
        mem_bridge_provider_def)
qed

text \<open>Reconciling recovers: a bridge that was active once and is in \<open>ERROR\<close> is restored and
  activated again, and ends in \<open>ACTIVE\<close> exactly if its setup succeeds.\<close>

theorem bridge_reconcile_recovers:
  assumes rtc: "rtc_loop (bridge_step env br) run" and q: "quiet (be_op env) BRIDGES br"
    and t: "br_target br = Some key"
    and once: "completed_transition br ''ACTIVE'' = Some stamp" "stamp \<noteq> []"
  shows "\<exists>w1 w0 w'. run [BRestore] (BError, w) = (Inr (), (BInstalled, w1))
    \<and> post_event (be_op env) br ''GefyraBridge state changed'' ''Normal'' w1 = (Inr (), w0)
    \<and> handler_bridge_reconcile env run br (BError, w) =
    (Inr (), (if fst (activation env br w0) = Inr () then BActive else BError, w'))"
proof -
  obtain w1 where 1: "run [BRestore] (BError, w) = (Inr (), (BInstalled, w1))"
    using run_restore [OF rtc q, of BError w] by auto
  obtain w0 w2 where ev: "post_event (be_op env) br ''GefyraBridge state changed'' ''Normal'' w1 = (Inr (), w0)"
    and 2: "run [BActivate] (BInstalled, w1) =
      (Inr (), (if fst (activation env br w0) = Inr () then BActive else BError, w2))"
    using run_activate [OF rtc q, of BInstalled w1] by auto
  have "handler_bridge_reconcile env run br (BError, w) =
      (Inr (), (if fst (activation env br w0) = Inr () then BActive else BError, w2))"
    using 1 2 t once by (auto simp: handler_bridge_reconcile_def thn_def bind_def try_except_def)
  with 1 ev show ?thesis by blast
qed

definition sample_active_bridge :: bridge where
  "sample_active_bridge = sample_bridge\<lparr>cr_transitions := Some [(''ACTIVE'', ''1'')]\<rparr>"

theorem bridge_reconcile_recovers_witness:
  "\<exists>w1 w0 w'. mem_bridge_run sample_active_bridge [BRestore] (BError, mem_empty) = (Inr (), (BInstalled, w1))
    \<and> post_event (be_op mem_bridge_env) sample_active_bridge ''GefyraBridge state changed'' ''Normal'' w1 = (Inr (), w0)
    \<and> handler_bridge_reconcile mem_bridge_env (mem_bridge_run sample_active_bridge)
      sample_active_bridge (BError, mem_empty) =
    (Inr (), (if fst (activation mem_bridge_env sample_active_bridge w0) = Inr () then BActive else BError, w'))"
proof -
  have q: "quiet (be_op mem_bridge_env) BRIDGES sample_active_bridge" by (simp add: mem_quiet)
  have t: "br_target sample_active_bridge = Some ''m1''"
    by (simp add: sample_bridge_def sample_active_bridge_def)
  have o1: "completed_transition sample_active_bridge ''ACTIVE'' = Some ''1''"
    by (simp add: sample_active_bridge_def completed_transition_def)
  have o2: "''1'' \<noteq> []" by simp
  show ?thesis by (rule bridge_reconcile_recovers [OF rtc_run_loop q t o1 o2])
qed

text \<open>Deleting a bridge never raises, whatever its state and whatever the teardown does; if the
  teardown returns, the bridge is \<open>TERMINATING\<close> and nothing is written after it.\<close>

theorem bridge_delete_total:
  assumes rtc: "rtc_loop (bridge_step env br) run" and t: "br_target br = Some key"
  shows "fst (handler_bridge_delete run br (s, w)) = Inr ()
    \<and> (\<forall>w1. bridge_on_terminate env br w = (Inr [], w1) \<longrightarrow>
         snd (handler_bridge_delete run br (s, w)) = (BTerminating, w1))"
proof -
  have h: "handler_bridge_delete run br = try_except (run [BTerminate]) swallow"
    using t by (simp add: handler_bridge_delete_def)
  have as: "whenever b (bridge_assign env br BTerminating) w1 = (Inr (), w1)" for b w1
    by (simp add: bridge_assign_def whenever_def)
  have "run [BTerminate] (s, w) = (Inr (), (BTerminating, w1))" if "bridge_on_terminate env br w = (Inr [], w1)" for w1
    using run_event [OF rtc [unfolded bridge_step_def], of s BTerminate BTerminating w "[]" w1 w1 "[]"]
      that as rtc_Nil [OF rtc] by simp
  then show ?thesis unfolding h by (auto simp: try_Inr)
qed

theorem bridge_delete_total_witness:
  "fst (handler_bridge_delete (mem_bridge_run sample_bridge) sample_bridge (BActive, mem_empty)) = Inr ()
   \<and> snd (handler_bridge_delete (mem_bridge_run sample_bridge) sample_bridge (BActive, mem_empty))
     = (BTerminating, snd (bridge_on_terminate mem_bridge_env sample_bridge mem_empty))"
proof -
  have t: "br_target sample_bridge = Some ''m1''" by (simp add: sample_bridge_def)
  have i: "py_int ''8080'' = Inr 8080" using py_int_str_nat [of 8080] by (simp add: str_nat_eval)
  have "fst (bridge_on_terminate mem_bridge_env sample_bridge mem_empty) = Inr []"
    by (simp add: bridge_on_terminate_def sample_bridge_def handle_proxyroute_teardown_def
        port_mappings_def teardown_mapping_def mapping_args_def bridge_conn_def provider_named_def
        i mem_conn_def try_except_else_def unpack_endpoint_def split1_def bridge_provider_def
        mem_bridge_provider_def thn_def bind_def try_except_def)
  then have "bridge_on_terminate mem_bridge_env sample_bridge mem_empty
      = (Inr [], snd (bridge_on_terminate mem_bridge_env sample_bridge mem_empty))" by (metis prod.collapse)
  with bridge_delete_total [OF rtc_run_loop t, where s = BActive and w = mem_empty] show ?thesis by simp
qed

section \<open>Teardown over the provider interface\<close>

text \<open>A mapping \<open>n:m\<close> of a bridge that names its client and the known connection provider.\<close>

definition mapping_ok :: "bridge \<Rightarrow> string \<Rightarrow> bool" where
  "mapping_ok br pm \<longleftrightarrow> (\<exists>l r n. split (CHR '':'') pm = [l, r] \<and> py_int l = Inr n)
     \<and> br_connectionProvider br = Some ''stowaway'' \<and> br_client br \<noteq> None"

lemma mapping_ok_args:
  "mapping_ok br pm \<Longrightarrow> \<exists>c n r. mapping_args env br pm = Inr (be_conn env, c, n, r)"
  by (auto simp: mapping_ok_def mapping_args_def bridge_conn_def provider_named_def)

context destination_provider
begin

lemma teardown_mapping_total:
  assumes "be_conn env = P" and "mapping_ok br pm"
    and ex: "\<And>c n w. \<exists>b w'. cp_destination_exists P c dest n w = (Inr b, w')"
    and get: "\<And>c n w e w'. cp_get_destination P c dest n w = (Inl e, w') \<Longrightarrow> e = RuntimeError"
  shows "fst (teardown_mapping env br dest pm w) = Inr ()"
proof -
  obtain c n r where args: "mapping_args env br pm = Inr (P, c, n, r)"
    using mapping_ok_args [OF assms(2), of env] assms(1) by auto
  obtain b w1 where b: "cp_destination_exists P c dest n w = (Inr b, w1)" using ex by blast
  show ?thesis
  proof (cases "cp_get_destination P c dest n w1")
    case (Pair r1 w2)
    show ?thesis
    proof (cases r1)
      case (Inl e)
      with get Pair have "e = RuntimeError" by blast
      with Inl Pair args b show ?thesis
        by (simp add: teardown_mapping_def bind_def try_except_else_def)
    next
      case (Inr s)
      with Pair obtain h q where "unpack_endpoint s = Inr (h, q)"
        using get_unpacks unfolding unpack_endpoint_def by blast
      with Inr Pair args b show ?thesis
        by (simp add: teardown_mapping_def try_except_else_def bind_Inr thn_swallow)
    qed
  qed
qed

lemma teardown_total:
  assumes "be_conn env = P" and "br_portMappings br = Some ms" and "\<And>pm. pm \<in> set ms \<Longrightarrow> mapping_ok br pm"
    and "\<And>c n w. \<exists>b w'. cp_destination_exists P c dest n w = (Inr b, w')"
    and "\<And>c n w e w'. cp_get_destination P c dest n w = (Inl e, w') \<Longrightarrow> e = RuntimeError"
  shows "fst (handle_proxyroute_teardown env br dest w) = Inr ()"
proof -
  have "fst (for_each (teardown_mapping env br dest) ms w) = Inr ()"
    if "\<And>pm. pm \<in> set ms \<Longrightarrow> mapping_ok br pm" for ms w
    using that
  proof (induction ms arbitrary: w)
    case (Cons pm ms)
    have "mapping_ok br pm" by (rule Cons.prems) simp
    from teardown_mapping_total [OF assms(1) this assms(4,5), where w = w]
    obtain w1 where "teardown_mapping env br dest pm w = (Inr (), w1)"
      by (cases "teardown_mapping env br dest pm w") auto
    moreover have "fst (for_each (teardown_mapping env br dest) ms w1) = Inr ()"
      by (rule Cons.IH) (simp add: Cons.prems)
    ultimately show ?case by (simp add: thn_Inr)
  qed simp
  with assms(2,3) show ?thesis by (simp add: handle_proxyroute_teardown_def port_mappings_def)
qed

end

text \<open>Tearing down a bridge on Stowaway does not raise as long as the API server answers the
  lookups (the list of services and the route table): a proxy service that disappeared, a failing
  removal of the route or of the destination are all handled, and every mapping is visited.\<close>

theorem stowaway_teardown_total:
  assumes "be_conn env = stowaway_provider K cfg"
    and "br_portMappings br = Some ms" and "\<And>pm. pm \<in> set ms \<Longrightarrow> mapping_ok br pm"
    and svc: "\<And>ns sel w. \<exists>ss w'. list_service (core K) ns sel w = (Inr ss, w')
        \<and> (\<forall>s \<in> set ss. \<exists>a b. svc_name s = a @ CHR ''-'' # b)"
    and cm: "\<And>n ns w. \<exists>c w'. read_config_map (core K) n ns w = (Inr c, w')"
  shows "fst (handle_proxyroute_teardown env br dest w) = Inr ()"
proof (rule stowaway.teardown_total [OF assms(1,2,3)])
  fix c n w
  obtain ss w1 where 1: "list_destination_services K cfg c dest n w = (Inr ss, w1)"
    using svc unfolding list_destination_services_def by blast
  obtain cm w2 where 2: "read_config_map (core K) (STOWAWAY_PROXYROUTE_CONFIGMAPNAME cfg) (NAMESPACE cfg) w1 = (Inr cm, w2)"
    using assms(5) by blast
  show "\<exists>b w'. cp_destination_exists (stowaway_provider K cfg) c dest n w = (Inr b, w')"
    using 1 2 by (cases "ss = []"; cases "cm_data cm")
      (auto simp: stowaway_provider_def destination_exists_def create_stowaway_proxyroute_configmap_def
        try_except_def bind_def Let_def)
next
  fix c n w e w'
  assume g: "cp_get_destination (stowaway_provider K cfg) c dest n w = (Inl e, w')"
  obtain ss w1 where 1: "list_destination_services K cfg c dest n w = (Inr ss, w1)"
    and dash: "\<forall>s \<in> set ss. \<exists>a b. svc_name s = a @ CHR ''-'' # b"
    using svc unfolding list_destination_services_def by blast
  show "e = RuntimeError"
  proof (cases ss)
    case Nil
    with g 1 show ?thesis by (simp add: stowaway_provider_def get_destination_def bind_def)
  next
    case (Cons s ss')
    with dash have "CHR ''-'' \<in> set (svc_name s)" by force
    then have "\<exists>a b. unpack2 (rsplit1 (CHR ''-'') (svc_name s)) = Inr (a, b)" by (simp add: rsplit1_def)
    with g 1 Cons show ?thesis by (auto simp: stowaway_provider_def get_destination_def bind_def)
  qed
qed

definition answering_cluster :: "mem cluster" where
  "answering_cluster = \<lparr>core = mem_core\<lparr>list_service := (\<lambda>ns sel. ret []),
       read_config_map := (\<lambda>n ns. ret (create_stowaway_proxyroute_configmap default_configuration))\<rparr>,
     apps = mem_apps, host = mem_host\<rparr>"

theorem stowaway_teardown_total_witness:
  "fst (handle_proxyroute_teardown
      (mem_bridge_env\<lparr>be_conn := stowaway_provider answering_cluster default_configuration\<rparr>)
      sample_bridge ''10.0.0.1'' mem_empty) = Inr ()"
proof -
  let ?env = "mem_bridge_env\<lparr>be_conn := stowaway_provider answering_cluster default_configuration\<rparr>"
  have i: "py_int ''8080'' = Inr 8080" using py_int_str_nat [of 8080] by (simp add: str_nat_eval)
  have e: "be_conn ?env = stowaway_provider answering_cluster default_configuration" by simp
  have m: "br_portMappings sample_bridge = Some [''8080:80'']" by (simp add: sample_bridge_def)
  have ok: "mapping_ok sample_bridge pm" if "pm \<in> set [''8080:80'']" for pm
    using that i by (auto simp: mapping_ok_def sample_bridge_def)
  have s: "\<exists>ss w'. list_service (core answering_cluster) ns sel w = (Inr ss, w')
      \<and> (\<forall>s \<in> set ss. \<exists>a b. svc_name s = a @ CHR ''-'' # b)" for ns sel w
    by (auto simp: answering_cluster_def)
  have c: "\<exists>c w'. read_config_map (core answering_cluster) n ns w = (Inr c, w')" for n ns w
    by (auto simp: answering_cluster_def)
  show ?thesis by (rule stowaway_teardown_total [OF e m ok s c])
qed

end
