(* ===== verification/ClientProperties.thy ===== *)
theory ClientProperties
  imports ClientState MemOperator StowawayPeers
begin

text \<open>
  Properties of the client state machine and its handlers, over the connection provider interface
  and, for the set of peers, over Stowaway.
\<close>

section \<open>Frames\<close>

text \<open>The calls of the operator that have nothing to do with an observation \<open>v\<close> of the world.\<close>

definition operator_keeps :: "('w \<Rightarrow> 'v) \<Rightarrow> 'w operator \<Rightarrow> bool" where
  "operator_keeps v Op \<longleftrightarrow> keeps v (isoformat_now (op_host Op)) \<and> keeps v (uuid4 (op_host Op))
     \<and> (\<forall>e. keeps v (op_create_event Op e))
     \<and> (\<forall>pl ns n b. keeps v (co_patch (op_custom Op) pl ns n b))
     \<and> (\<forall>pl ns n. keeps v (co_delete (op_custom Op) pl ns n))
     \<and> (\<forall>ns sel. keeps v (co_list_bridges (op_custom Op) ns sel))"

definition pods_keep :: "('w \<Rightarrow> 'v) \<Rightarrow> 'w cluster \<Rightarrow> bool" where
  "pods_keep v K \<longleftrightarrow> (\<forall>ns sel. keeps v (list_pod (core K) ns sel))
     \<and> (\<forall>n ns p. keeps v (copy_from_pod (core K) n ns p))
     \<and> (\<forall>n ns c cmd. keeps v (exec_pod (core K) n ns c cmd))
     \<and> (\<forall>n ns. keeps v (delete_pod (core K) n ns)) \<and> (\<forall>n. keeps v (sleep (host K) n))"

lemma keeps_if: "(b \<Longrightarrow> keeps v m) \<Longrightarrow> (\<not> b \<Longrightarrow> keeps v k) \<Longrightarrow> keeps v (if b then m else k)"
  by simp

lemma keeps_option: "(x = None \<Longrightarrow> keeps v m) \<Longrightarrow> (\<And>y. keeps v (f y)) \<Longrightarrow>
    keeps v (case x of None \<Rightarrow> m | Some y \<Rightarrow> f y)"
  by (cases x) auto

lemma keeps_swallowed [simp]: "keeps v (swallow e)"
  by simp

lemmas keeps_steps = keeps_intros keeps_if keeps_option

lemma operator_keepsD:
  assumes "operator_keeps v Op"
  shows "keeps v (isoformat_now (op_host Op))" "keeps v (uuid4 (op_host Op))"
    "keeps v (op_create_event Op e)" "keeps v (co_patch (op_custom Op) pl ns n b)"
    "keeps v (co_delete (op_custom Op) pl ns n)" "keeps v (co_list_bridges (op_custom Op) ns sel)"
  using assms by (simp_all add: operator_keeps_def)

lemma keeps_get_now: "operator_keeps v Op \<Longrightarrow> keeps v (get_now (op_host Op))"
  unfolding get_now_def by (rule keeps_bind) (simp_all add: operator_keepsD)

lemma keeps_post_event: "operator_keeps v Op \<Longrightarrow> keeps v (post_event Op obj reason ty)"
  unfolding post_event_def
  by (intro keeps_steps) (simp_all add: keeps_get_now operator_keepsD)

lemma keeps_patch_object: "operator_keeps v Op \<Longrightarrow> keeps v (patch_object Op pl obj d)"
  unfolding patch_object_def by (simp add: operator_keepsD)

lemma keeps_set_state: "operator_keeps v Op \<Longrightarrow> keeps v (set_state Op pl obj x)"
  unfolding set_state_def write_state_def
  by (intro keeps_steps) (simp_all add: keeps_get_now operator_keepsD)

lemmas keeps_operator = keeps_get_now keeps_post_event keeps_patch_object keeps_set_state operator_keepsD

lemma keeps_cleanup: "operator_keeps v (ce_op env) \<Longrightarrow> keeps v (cleanup_all_bridges env cl)"
  unfolding cleanup_all_bridges_def Let_def
  by (intro keeps_steps) (simp_all add: keeps_operator)

lemma keeps_stowaway_pod: "pods_keep v K \<Longrightarrow> keeps v (get_stowaway_pod K cfg)"
  unfolding get_stowaway_pod_def by (intro keeps_steps) (simp_all add: pods_keep_def)

lemma keeps_connection_details:
  "pods_keep v K \<Longrightarrow> keeps v (get_wireguard_connection_details K cfg c)"
  unfolding get_wireguard_connection_details_def Let_def
  by (intro keeps_steps) (simp_all add: keeps_stowaway_pod, simp_all add: pods_keep_def)

lemma keeps_stowaway_ready: "pods_keep v K \<Longrightarrow> keeps v (stowaway_ready K cfg)"
  unfolding stowaway_ready_def
  by (intro keeps_steps) (simp_all add: keeps_stowaway_pod)

lemma keeps_wait_ready: "pods_keep v K \<Longrightarrow> keeps v (wait_ready K cfg n)"
proof (induction n)
  case 0
  then show ?case by (auto intro!: keeps_bind keeps_stowaway_ready)
next
  case (Suc n)
  then show ?case by (auto intro!: keeps_bind keeps_thn keeps_stowaway_ready simp: pods_keep_def)
qed

lemma keeps_restart: "pods_keep v K \<Longrightarrow> keeps v (restart_stowaway K cfg)"
  unfolding restart_stowaway_def
  by (intro keeps_steps) (simp_all add: keeps_stowaway_pod keeps_wait_ready, simp_all add: pods_keep_def)

section \<open>A connected client is a peer\<close>

abbreviation is_peer :: "('w \<Rightarrow> string dict option) \<Rightarrow> string \<Rightarrow> 'w \<Rightarrow> bool" where
  "is_peer view c w \<equiv> translate_peer_name c \<in> set (peers_of (view w))"

lemma peer_exists_sound:
  assumes store: "peer_store K cfg view" and run: "peer_exists K cfg c w = (Inr b, w')"
  shows "view w' = view w \<and> (b \<longrightarrow> is_peer view c w)"
proof (cases "read_config_map (core K) (STOWAWAY_CONFIGMAPNAME cfg) (NAMESPACE cfg) w")
  case (Pair r w1)
  with store have v: "view w1 = view w" by (auto dest: store_read_err)
  show ?thesis
  proof (cases r)
    case (Inl e)
    with Pair run v show ?thesis
      by (auto simp: peer_exists_def create_stowaway_configmap_def Let_def try_except_def bind_def
          split: if_splits)
  next
    case (Inr cm)
    with Pair store have "cm_data cm = view w" by (auto dest: store_read)
    with Pair Inr run v show ?thesis
      by (auto simp: peer_exists_def create_stowaway_configmap_def Let_def try_except_def bind_def
          data_item_def item_def peers_of_def split: option.splits if_splits sum.splits prod.splits)
  qed
qed

lemma peer_config_sound:
  assumes store: "peer_store K cfg view" and pods: "pods_keep view K"
    and run: "get_peer_config K cfg c w = (Inr conf, w')"
  shows "view w' = view w \<and> is_peer view c w"
proof -
  from run obtain w1 where 1: "peer_exists K cfg c w = (Inr True, w1)"
    and 2: "get_wireguard_connection_details K cfg c w1 = (Inr conf, w')"
    by (auto simp: get_peer_config_def bind_Inr_iff split: if_splits)
  from peer_exists_sound [OF store 1] keepsD [OF keeps_connection_details [OF pods] 2]
  show ?thesis by simp
qed

lemma keeps_warn_and_retry: "operator_keeps v (ce_op env) \<Longrightarrow> keeps v (warn_and_retry env cl)"
  unfolding warn_and_retry_def by (intro keeps_steps) (simp_all add: keeps_operator)

lemma keeps_publish: "operator_keeps v (ce_op env) \<Longrightarrow> keeps v (publish_connection env cl conf)"
  unfolding publish_connection_def
  by (intro keeps_steps) (simp_all add: keeps_operator keeps_warn_and_retry)

lemma warn_and_retry_raises: "fst (warn_and_retry env cl w) \<noteq> Inr x"
  by (simp add: warn_and_retry_def thn_def bind_def split: prod.split sum.split)

lemma read_connection_Inr:
  assumes "read_connection env cl w = (Inr conf, w')"
  shows "with_provider env cl (\<lambda>P. cp_get_peer_config P (cr_name cl)) w = (Inr conf, w')"
proof (cases "with_provider env cl (\<lambda>P. cp_get_peer_config P (cr_name cl)) w")
  case (Pair r w1)
  with assms warn_and_retry_raises [of env cl w1 conf] show ?thesis
    by (cases r) (auto simp: read_connection_def try_except_def split: if_splits)
qed

lemma enable_connection_peer:
  assumes prov: "ce_conn env = stowaway_provider K cfg" and store: "peer_store K cfg view"
    and pods: "pods_keep view K" and op: "operator_keeps view (ce_op env)"
    and run: "enable_connection env cl w = (Inr (), w')"
  shows "is_peer view (cr_name cl) w'"
proof -
  from run obtain conf w1 where r: "read_connection env cl w = (Inr conf, w1)"
    and p: "publish_connection env cl conf w1 = (Inr (), w')"
    by (auto simp: enable_connection_def bind_Inr_iff)
  from read_connection_Inr [OF r] prov have "get_peer_config K cfg (cr_name cl) w = (Inr conf, w1)"
    by (auto simp: with_provider_def bind_Inr_iff provider_named_def stowaway_provider_def split: if_splits)
  from peer_config_sound [OF store pods this] have "is_peer view (cr_name cl) w1" by simp
  then show ?thesis using keepsD [OF keeps_publish [OF op] p] by simp
qed

text \<open>Events whose callbacks send no further event.\<close>

lemma silent_events:
  assumes "e \<in> {CEnable, CActivate, CImpair, CWait, CTerminate}"
    and "client_callbacks env cl s e w = (Inr sent, w1)"
  shows "sent = []"
  using assms by (auto simp: thn_Inr_iff bind_Inr_iff client_on_terminate_def split: if_splits)

lemma run_silent:
  assumes rtc: "rtc_loop (client_step env cl) run" and e: "e \<in> {CEnable, CActivate, CImpair, CWait, CTerminate}"
    and run: "run [e] (s, w) = (r, (t, w'))"
  shows "(r = Inr () \<and> client_next s e = Some t \<and> (\<exists>w1. client_callbacks env cl s e w = (Inr [], w1)
      \<and> whenever (t \<noteq> s \<or> op_rewrites_self (ce_op env)) (client_assign env cl t) w1 = (Inr (), w')))
    \<or> (\<exists>x. r = Inl x \<and> t = s)"
  using run_event_result [OF rtc [unfolded client_step_def] run]
proof (elim disjE exE conjE)
  fix s' sent w1 w2
  assume n: "client_next s e = Some s'" and cb: "client_callbacks env cl s e w = (Inr sent, w1)"
    and as: "whenever (s' \<noteq> s \<or> op_rewrites_self (ce_op env)) (client_assign env cl s') w1 = (Inr (), w2)"
    and r: "run ([] @ sent) (s', w2) = (r, (t, w'))"
  from silent_events [OF e cb] r rtc_Nil [OF rtc] have "s' = t" "w2 = w'" "r = Inr ()" "sent = []" by auto
  with n cb as show ?thesis by blast
qed simp

lemma run_activate_peer:
  assumes rtc: "rtc_loop (client_step env cl) run"
    and prov: "ce_conn env = stowaway_provider K cfg" and store: "peer_store K cfg view"
    and pods: "pods_keep view K" and op: "operator_keeps view (ce_op env)"
    and run: "run [CActivate] (CEnabling, w) = (Inr (), (t, w'))"
  shows "is_peer view (cr_name cl) w'"
proof -
  from run_silent [OF rtc _ run] obtain w1 where
    cb: "client_callbacks env cl CEnabling CActivate w = (Inr [], w1)" and as: "client_assign env cl CActive w1 = (Inr (), w')"
    by auto
  from cb obtain w0 where e: "enable_connection env cl w = (Inr (), w0)" and s: "state_change env cl w0 = (Inr (), w1)"
    by (auto simp: thn_Inr_iff)
  have "view w1 = view w0"
    using keepsD [OF keeps_post_event [OF op]] s unfolding state_change_def by blast
  moreover have "view w' = view w1"
    using keepsD [OF keeps_set_state [OF op]] as unfolding client_assign_def by blast
  ultimately show ?thesis using enable_connection_peer [OF prov store pods op e] by simp
qed

text \<open>A connection request that ends in \<open>ACTIVE\<close> went through \<open>activate\<close>.\<close>

lemma connect_active:
  assumes rtc: "rtc_loop (client_step env cl) run" and s: "s \<in> {CWaiting, CEnabling}"
    and run: "client_connect run (s, w) = (Inr (), (CActive, w'))"
  shows "\<exists>w1. run [CActivate] (CEnabling, w1) = (Inr (), (CActive, w'))"
proof -
  let ?body = "thn (if_active (\<lambda>s. s = CWaiting) (run [CEnable])) (if_active (\<lambda>s. s = CEnabling) (run [CActivate]))"
  obtain r t w1 where b: "?body (s, w) = (r, (t, w1))" by (metis prod.collapse)
  have enabled: "t' = CEnabling" if "run [CEnable] (CWaiting, w) = (Inr (), (t', w2))" for t' w2
    using run_silent [OF rtc _ that] by auto
  have failed: "t = s \<or> t = CEnabling" if "r = Inl x" for x
  proof (cases "s = CEnabling")
    case True
    with b that run_silent [OF rtc, of CActivate s w r t w1] show ?thesis by (auto simp: thn_def bind_def)
  next
    case False
    with s have w: "s = CWaiting" by simp
    obtain r2 t2 w2 where e: "run [CEnable] (CWaiting, w) = (r2, (t2, w2))" by (metis prod.collapse)
    show ?thesis
    proof (cases r2)
      case (Inl y)
      with e w b run_silent [OF rtc _ e] show ?thesis by (auto simp: thn_def bind_def)
    next
      case (Inr u)
      with e enabled have t2: "t2 = CEnabling" by simp
      with e w b Inr have "run [CActivate] (CEnabling, w2) = (r, (t, w1))" by (simp add: thn_def bind_def)
      from run_silent [OF rtc _ this] that show ?thesis by auto
    qed
  qed
  show ?thesis
  proof (cases r)
    case (Inl x)
    with b run s failed [OF Inl] have "run [CImpair] (t, w1) = (Inr (), (CActive, w'))"
      by (auto simp: client_connect_def try_except_def split: if_splits)
    from run_silent [OF rtc _ this] show ?thesis by (auto split: if_splits)
  next
    case (Inr u)
    with b run have "?body (s, w) = (Inr (), (CActive, w'))" by (simp add: client_connect_def try_except_def)
    with s enabled show ?thesis by (auto simp: thn_Inr_iff split: if_splits)
  qed
qed

text \<open>C20: A client is connected only as a peer: whenever the operator handles a connection request
  of a client on Stowaway and ends in \<open>ACTIVE\<close>, the client's WireGuard peer is in the peer list of
  the ConfigMap, whatever the API server answered in between.\<close>

theorem connected_client_is_peer:
  assumes "rtc_loop (client_step env cl) run"
    and "ce_conn env = stowaway_provider K cfg" and "peer_store K cfg view"
    and "pods_keep view K" and "operator_keeps view (ce_op env)"
    and "s \<in> {CWaiting, CEnabling}" and "new \<notin> {None, Some []}"
    and "handler_client_connection_changed env run cl new (s, w) = (Inr (), (CActive, w'))"
  shows "is_peer view (cr_name cl) w'"
proof -
  from assms(7,8) have "client_connect run (s, w) = (Inr (), (CActive, w'))"
    by (auto simp: handler_client_connection_changed_def)
  from connect_active [OF assms(1,6) this] run_activate_peer [OF assms(1-5)] show ?thesis by blast
qed

text \<open>A sample: a client whose peer \<open>c1\<close> Stowaway knows, a Stowaway pod that hands out its files,
  a ConfigMap store that always answers, and an operator whose writes change nothing else.\<close>

definition sample_client :: gclient where
  "sample_client = \<lparr>cr_name = ''c1'', cr_namespace = ''gefyra'', cr_labels = None, cr_state = ''WAITING'',
     cr_transitions = Some [(''ACTIVE'', ''100'')], cr_sunset = None, cl_provider = Some ''stowaway'',
     cl_providerParameter = Some [(''subnet'', ''192.168.100.0/24'')], cl_providerConfig = None, cl_status = None\<rparr>"

definition stowaway_pod :: pod where
  "stowaway_pod = \<lparr>pod_name = ''gefyra-stowaway-0'', pod_namespace = ''gefyra'', pod_labels = Some STOWAWAY_LABELS,
     pod_owner_references = [], pod_phase = ''Running'', pod_containers = [],
     pod_container_statuses = Some [\<lparr>cs_name = ''stowaway'', cs_ready = True, cs_started = True,
       cs_state = None, cs_restart_count = 0\<rparr>]\<rparr>"

abbreviation peers_view :: "mem \<Rightarrow> string dict option" where
  "peers_view \<equiv> mem_view ''gefyra-stowaway-config''"

definition stored_map :: "string \<Rightarrow> string \<Rightarrow> string dict option \<Rightarrow> config_map" where
  "stored_map n ns d = \<lparr>cm_name = n, cm_namespace = ns, cm_labels = [], cm_data = d\<rparr>"

definition linked_core :: "mem core_v1" where
  "linked_core = mem_core\<lparr>list_pod := (\<lambda>ns sel. ret [stowaway_pod]),
     copy_from_pod := (\<lambda>n ns p. ret (wg_render [(''Address'', ''192.168.99.2'')] [])),
     exec_pod := (\<lambda>n ns c cmd. ret ''''), delete_pod := (\<lambda>n ns. ret ()),
     read_config_map := (\<lambda>n ns m. (Inr (stored_map n ns (mem_view n m)), m)),
     patch_config_map := (\<lambda>n ns d m. (Inr (), m\<lparr>mm_config_maps := dset (mm_config_maps m) n
       (stored_map n ns (Some (dupdate (routes_data (mem_view n m)) d)))\<rparr>)),
     replace_config_map := (\<lambda>n ns cm m. (Inr (), m\<lparr>mm_config_maps := dset (mm_config_maps m) n cm\<rparr>))\<rparr>"

definition linked_cluster :: "mem cluster" where
  "linked_cluster = \<lparr>core = linked_core, apps = mem_apps, host = mem_host\<rparr>"

definition linked_operator :: "mem operator" where
  "linked_operator = mem_operator\<lparr>op_custom := mem_custom\<lparr>co_patch := (\<lambda>p ns n b. ret ())\<rparr>\<rparr>"

definition linked_world :: mem where
  "linked_world = mem_empty\<lparr>mm_config_maps := [(''gefyra-stowaway-config'',
     stored_map ''gefyra-stowaway-config'' ''gefyra'' (Some [(''PEERS'', ''c1,0'')]))]\<rparr>"

definition linked_env :: "mem client_env" where
  "linked_env = \<lparr>ce_op = linked_operator, ce_conn = stowaway_provider linked_cluster default_configuration,
     ce_core = mem_core, ce_rbac = \<lparr>read_cluster_role = ret, create_cluster_role = (\<lambda>n r. ret n),
       create_cluster_role_binding = (\<lambda>n s r. ret ()), delete_cluster_role_binding = (\<lambda>n. ret ())\<rparr>\<rparr>"

abbreviation sample_client_run :: "mem client_env \<Rightarrow> mem client_run" where
  "sample_client_run env \<equiv> rtc_run (client_step env sample_client) (CError, mem_empty)"

lemma linked_simps [simp]:
  "ce_op linked_env = linked_operator" "ce_conn linked_env = stowaway_provider linked_cluster default_configuration"
  "core linked_cluster = linked_core" "host linked_cluster = mem_host"
  "op_cfg linked_operator = default_configuration" "op_host linked_operator = mem_host"
  "op_create_event linked_operator = (\<lambda>e. ret ())" "co_patch (op_custom linked_operator) = (\<lambda>p ns n b. ret ())"
  "co_delete (op_custom linked_operator) = co_delete mem_custom"
  "co_list_bridges (op_custom linked_operator) = (\<lambda>ns sel. ret [])"
  by (simp_all add: linked_env_def linked_cluster_def linked_operator_def mem_custom_def)

lemma linked_calls [simp]:
  "list_pod linked_core = (\<lambda>ns sel. ret [stowaway_pod])"
  "copy_from_pod linked_core = (\<lambda>n ns p. ret (wg_render [(''Address'', ''192.168.99.2'')] []))"
  "exec_pod linked_core = (\<lambda>n ns c cmd. ret '''')" "delete_pod linked_core = (\<lambda>n ns. ret ())"
  "read_config_map linked_core n ns m = (Inr (stored_map n ns (mem_view n m)), m)"
  "patch_config_map linked_core n ns d m = (Inr (), m\<lparr>mm_config_maps := dset (mm_config_maps m) n
       (stored_map n ns (Some (dupdate (routes_data (mem_view n m)) d)))\<rparr>)"
  "replace_config_map linked_core n ns cm m = (Inr (), m\<lparr>mm_config_maps := dset (mm_config_maps m) n cm\<rparr>)"
  by (simp_all add: linked_core_def)

lemma stored_map_fields [simp]:
  "cm_name (stored_map n ns d) = n" "cm_namespace (stored_map n ns d) = ns" "cm_data (stored_map n ns d) = d"
  by (simp_all add: stored_map_def)

lemma linked_store: "peer_store linked_cluster default_configuration peers_view"
  by (auto simp: config_map_store_def keeps_def mem_host_def mem_view_def dget_dset split: option.splits)

lemma linked_pods: "pods_keep peers_view linked_cluster"
  by (simp add: pods_keep_def) (simp add: mem_host_def keeps_def mem_view_def)

lemma linked_operator_keeps: "operator_keeps peers_view linked_operator"
  by (simp add: operator_keeps_def) (simp add: mem_host_def mem_custom_def keeps_def mem_view_def)

lemma linked_quiet_calls [simp]:
  "post_event linked_operator obj reason ty = ret ()" "patch_object linked_operator pl obj d = ret ()"
  "set_state linked_operator pl obj v = ret ()"
  by (rule ext, simp add: post_event_def patch_object_def set_state_def write_state_def get_now_def mem_host_def
      bind_def try_except_def)+

lemma linked_quiet: "quiet linked_operator pl obj"
  by (simp add: quiet_def)

lemma linked_peers: "peers_view linked_world = Some [(''PEERS'', ''c1,0'')]"
  by (simp add: linked_world_def mem_view_def)

lemma linked_peers_of: "peers_of (peers_view linked_world) = [''c1'', ''0'']"
  by (simp add: linked_peers peers_of_def)

lemma translate_sample: "translate_peer_name ''c1'' = ''c1''"
  by code_simp

lemma sample_client_simps [simp]:
  "cr_name sample_client = ''c1''" "cl_provider sample_client = Some ''stowaway''"
  "cl_providerParameter sample_client = Some [(''subnet'', ''192.168.100.0/24'')]"
  "cr_sunset sample_client = None" "cr_transitions sample_client = Some [(''ACTIVE'', ''100'')]"
  by (simp_all add: sample_client_def)

lemma linked_config:
  "\<exists>conf. get_peer_config linked_cluster default_configuration ''c1'' linked_world = (Inr conf, linked_world)
     \<and> dget conf ''Interface.Address'' = Some ''192.168.99.2''"
proof -
  have i: "list_all entry_ok [(''Address'', ''192.168.99.2'')]"
    by (simp add: entry_ok_def strip_def is_space_def)
  have "read_wireguard_config (wg_render [(''Address'', ''192.168.99.2'')] []) = [(''Interface.Address'', ''192.168.99.2'')]"
    using read_rendered [OF i, of "[]"] by simp
  then show ?thesis
    by (simp add: get_peer_config_def peer_exists_def create_stowaway_configmap_def Let_def linked_peers data_item_def
        item_def translate_sample get_wireguard_connection_details_def get_stowaway_pod_def try_except_def bind_def
        dget_dset)
qed

section \<open>Outcomes of the handlers\<close>

lemma run_client:
  assumes rtc: "rtc_loop (client_step env cl) run" and q: "quiet (ce_op env) CLIENTS cl"
    and n: "client_next s e = Some s'" and cb: "client_callbacks env cl s e w = (Inr sent, w1)"
  shows "\<exists>w2. run (e # es) (s, w) = run (es @ sent) (s', w2)"
  by (rule run_event_quiet [OF rtc [unfolded client_step_def] _ n cb])
     (simp add: client_assign_def quiet_write [OF q])

lemma run_client_end:
  assumes "rtc_loop (client_step env cl) run" and "quiet (ce_op env) CLIENTS cl"
    and "client_next s e = Some s'" and "client_callbacks env cl s e w = (Inr [], w1)"
  shows "\<exists>w2. run [e] (s, w) = (Inr (), (s', w2))"
  using run_client [OF assms, of "[]"] rtc_Nil [OF assms(1)] by auto

text \<open>A connection provider that answers for this client.\<close>

definition answers :: "'w client_env \<Rightarrow> gclient \<Rightarrow> bool" where
  "answers env cl \<longleftrightarrow> cl_provider cl = Some ''stowaway'' \<and> cl_providerParameter cl \<noteq> None
     \<and> (\<forall>c w. \<exists>b w'. cp_peer_exists (ce_conn env) c w = (Inr b, w'))
     \<and> (\<forall>c ps w. fst (cp_add_peer (ce_conn env) c ps w) = Inr ())
     \<and> (\<forall>d w. fst (patch_object (ce_op env) CLIENTS cl d w) = Inr ())"

lemma with_provider_answers [simp]: "answers env cl \<Longrightarrow> with_provider env cl f = f (ce_conn env)"
  by (simp add: answers_def with_provider_def provider_named_def)

lemma run_enable:
  assumes rtc: "rtc_loop (client_step env cl) run" and q: "quiet (ce_op env) CLIENTS cl" and a: "answers env cl"
  shows "\<exists>w'. run [CEnable] (CWaiting, w) = (Inr (), (CEnabling, w'))"
proof -
  let ?P = "ce_conn env" and ?c = "cr_name cl"
  obtain ps where ps: "cl_providerParameter cl = Some ps" and prov: "cl_provider cl = Some ''stowaway''"
    using a unfolding answers_def by blast
  obtain b w1 where b: "cp_peer_exists ?P ?c w = (Inr b, w1)" using a unfolding answers_def by blast
  obtain w2 where p: "cp_add_peer ?P ?c (Some ps) w1 = (Inr (), w2)"
    using a unfolding answers_def by (metis prod.collapse)
  obtain w3 where e: "post_event (ce_op env) cl ''GefyraClient connection'' ''Normal'' w2 = (Inr (), w3)"
    using quiet_event [OF q] by blast
  have "\<exists>w4. can_add_client env cl w = (Inr True, w4)"
    using a b p e ps prov by (cases b) (simp_all add: can_add_client_def provider_named_def bind_def thn_def)
  then obtain w4 where w4: "can_add_client env cl w = (Inr True, w4)" by blast
  obtain w5 where "state_change env cl w4 = (Inr (), w5)"
    using quiet_event [OF q] unfolding state_change_def by blast
  with w4 have "client_callbacks env cl CWaiting CEnable w = (Inr [], w5)" by (simp add: bind_Inr thn_Inr)
  from run_client_end [OF rtc q _ this] show ?thesis by simp
qed

lemma run_activate_ok:
  assumes rtc: "rtc_loop (client_step env cl) run" and q: "quiet (ce_op env) CLIENTS cl"
    and a: "cl_provider cl = Some ''stowaway''" "\<And>d w. fst (patch_object (ce_op env) CLIENTS cl d w) = Inr ()"
    and get: "cp_get_peer_config (ce_conn env) (cr_name cl) w = (Inr conf, w1)"
    and addr: "dget conf ''Interface.Address'' = Some addr"
  shows "\<exists>w'. run [CActivate] (CEnabling, w) = (Inr (), (CActive, w'))"
proof -
  have r: "read_connection env cl w = (Inr conf, w1)"
    using a get by (simp add: read_connection_def try_except_def with_provider_def provider_named_def)
  obtain w2 where p: "patch_object (ce_op env) CLIENTS cl (JObj [(''providerConfig'', json_dict conf)]) w1 = (Inr (), w2)"
    using a by (metis prod.collapse)
  obtain w3 where e: "post_event (ce_op env) cl ''GefyraClient connection'' ''Normal'' w2 = (Inr (), w3)"
    using quiet_event [OF q] by blast
  have en: "enable_connection env cl w = (Inr (), w3)"
    using r p e addr by (simp add: enable_connection_def bind_Inr publish_connection_def try_except_def thn_def bind_def item_def)
  obtain w4 where "state_change env cl w3 = (Inr (), w4)"
    using quiet_event [OF q] unfolding state_change_def by blast
  with en have "client_callbacks env cl CEnabling CActivate w = (Inr [], w4)" by (simp add: thn_Inr)
  from run_client_end [OF rtc q _ this] show ?thesis by simp
qed

lemma run_activate_retry:
  assumes rtc: "rtc_loop (client_step env cl) run" and q: "quiet (ce_op env) CLIENTS cl" and a: "answers env cl"
    and get: "cp_get_peer_config (ce_conn env) (cr_name cl) w = (Inl e, w1)"
    and e: "e \<in> {TarReadError, KeyError} \<or> is_api_exception e"
  shows "\<exists>w'. run [CActivate] (CEnabling, w) = (Inl (TemporaryError (Some 1)), (CEnabling, w'))"
proof -
  obtain w2 where "post_event (ce_op env) cl ''GefyraClient connection'' ''Warning'' w1 = (Inr (), w2)"
    using quiet_event [OF q] by blast
  with a get e have "read_connection env cl w = (Inl (TemporaryError (Some 1)), w2)"
    by (auto simp: read_connection_def try_except_def warn_and_retry_def thn_Inr)
  then have "client_callbacks env cl CEnabling CActivate w = (Inl (TemporaryError (Some 1)), w2)"
    by (simp add: enable_connection_def thn_def bind_def)
  from run_event_fails [OF rtc [unfolded client_step_def] _ this] show ?thesis by auto
qed

text \<open>A connection request of a waiting client ends in \<open>ACTIVE\<close> if the provider has the
  client's configuration; while it cannot be read yet, the handler raises a \<open>TemporaryError\<close> with a
  delay of one second and leaves the client in \<open>ENABLING\<close>, from where the next attempt continues.\<close>

theorem client_connect_outcome:
  assumes rtc: "rtc_loop (client_step env cl) run" and q: "quiet (ce_op env) CLIENTS cl" and a: "answers env cl"
    and s: "s \<in> {CWaiting, CEnabling}" and new: "new \<notin> {None, Some []}"
    and get: "\<And>w. fst (cp_get_peer_config (ce_conn env) (cr_name cl) w) = r"
  shows "(\<forall>conf addr. r = Inr conf \<and> dget conf ''Interface.Address'' = Some addr \<longrightarrow>
      (\<exists>w'. handler_client_connection_changed env run cl new (s, w) = (Inr (), (CActive, w'))))
    \<and> (\<forall>e. r = Inl e \<and> (e \<in> {TarReadError, KeyError} \<or> is_api_exception e) \<longrightarrow>
      (\<exists>w'. handler_client_connection_changed env run cl new (s, w)
          = (Inl (TemporaryError (Some 1)), (CEnabling, w'))))"
proof -
  obtain w1 where 1: "if_active (\<lambda>s. s = CWaiting) (run [CEnable]) (s, w) = (Inr (), (CEnabling, w1))"
    using s run_enable [OF rtc q a, of w] by auto
  obtain w2 where g: "cp_get_peer_config (ce_conn env) (cr_name cl) w1 = (r, w2)"
    using get by (metis prod.collapse)
  have h: "handler_client_connection_changed env run cl new (s, w) =
      try_except (run [CActivate])
       (\<lambda>e. if e = TransitionNotAllowed then run [CImpair]
            else if status_of e = Some 500 then raise (TemporaryError (Some 1))
            else if is_api_exception e then ret () else raise e) (CEnabling, w1)"
    using new 1 by (auto simp: handler_client_connection_changed_def client_connect_def try_except_def thn_def bind_def)
  show ?thesis
    using run_activate_ok [OF rtc q, of w1 _ w2] a [unfolded answers_def] run_activate_retry [OF rtc q a, of w1 _ w2] g
    unfolding h by (fastforce simp: try_except_def)
qed

lemma distinct_singleton: "distinct xs \<Longrightarrow> set xs = {a} \<Longrightarrow> xs = [a]"
  by (cases xs; cases "tl xs") auto

lemma remaining_peers:
  assumes store: "peer_store K cfg view" and c: "c \<noteq> []" and dist: "distinct (peers_of (view w))"
    and run: "edit_peer_configmap K cfg None (Some c) None w = (Inr (), w')"
  shows "\<not> is_peer view c w'"
proof -
  let ?a = "translate_peer_name c"
  from edit_peer_run [OF store run] obtain d e cm w1 where
    v: "view w = Some d" "dget d ''PEERS'' = Some e" "view w1 = view w" "cm_data cm = Some d"
    "cm_name cm = STOWAWAY_CONFIGMAPNAME cfg" "cm_namespace cm = NAMESPACE cfg"
    and r: "read_config_map (core K) (STOWAWAY_CONFIGMAPNAME cfg) (NAMESPACE cfg) w = (Inr cm, w1)"
    by blast
  show ?thesis
  proof (cases "set (peers_of (view w)) = {?a}")
    case False
    from removed_peers [OF store c dist this run] show ?thesis by simp
  next
    case True
    have ps: "peers_of (view w) = split (CHR '','') e" using v by (simp add: peers_of_def)
    with True dist have one: "split (CHR '','') e = [?a]"
      by (simp add: distinct_singleton)
    have "replace_config_map (core K) (STOWAWAY_CONFIGMAPNAME cfg) (NAMESPACE cfg)
        (cm\<lparr>cm_data := Some (peer_removed d [?a] ?a)\<rparr>) w1 = (Inr (), w')"
      using run r c v one
      by (auto simp: edit_peer_configmap_def create_stowaway_configmap_def Let_def bind_Inr data_item_def item_def)
    from store_replace [OF store this] have "peers_of (view w') = [[]]"
      by (simp add: peers_of_def peer_removed_def dget_dset)
    with translate_nonempty [OF c] show ?thesis by simp
  qed
qed

text \<open>A failed edit leaves the peers as they are.\<close>

lemma edit_failed:
  assumes store: "peer_store K cfg view"
    and run: "edit_peer_configmap K cfg None (Some c) None w = (Inl x, w')"
  shows "view w' = view w"
proof -
  obtain r w1 where rd: "read_config_map (core K) (STOWAWAY_CONFIGMAPNAME cfg) (NAMESPACE cfg) w = (r, w1)" by force
  have v1: "view w1 = view w" by (rule store_read_err [OF store rd])
  show ?thesis
  proof (cases r)
    case (Inl y)
    with rd run v1 show ?thesis
      by (simp add: edit_peer_configmap_def create_stowaway_configmap_def Let_def bind_Inl)
  next
    case (Inr cm)
    with store_read [OF store] rd have cm: "cm_name cm = STOWAWAY_CONFIGMAPNAME cfg" "cm_namespace cm = NAMESPACE cfg"
      by auto
    have "w' = w1 \<or> (\<exists>cm'. replace_config_map (core K) (STOWAWAY_CONFIGMAPNAME cfg) (NAMESPACE cfg) cm' w1 = (Inl x, w'))"
      using rd run Inr cm
      by (auto simp: edit_peer_configmap_def create_stowaway_configmap_def Let_def bind_Inr bind_Inl_iff
          split: if_splits)
    then show ?thesis using store_replace [OF store, of _ w1 "Inl x" w'] v1 by fastforce
  qed
qed

text \<open>Does the API server refuse what \<open>disable_connection\<close> does with the ConfigMap of the peers, starting
  in \<open>w\<close>: the reading of \<open>peer_exists\<close>, or the editing of \<open>remove_peer\<close> after it?\<close>

definition removal_refused :: "'w cluster \<Rightarrow> operator_configuration \<Rightarrow> string \<Rightarrow> 'w \<Rightarrow> bool" where
  "removal_refused K cfg c w \<longleftrightarrow>
     (case read_config_map (core K) (STOWAWAY_CONFIGMAPNAME cfg) (NAMESPACE cfg) w of
        (Inl e, _) \<Rightarrow> is_api_exception e
      | (Inr _, w1) \<Rightarrow> (case fst (edit_peer_configmap K cfg None (Some c) None w1) of
            Inl e \<Rightarrow> is_api_exception e | Inr _ \<Rightarrow> False))"

lemma peer_exists_cases:
  assumes store: "peer_store K cfg view" and run: "peer_exists K cfg c w = (r, w1)"
    and rd: "read_config_map (core K) (STOWAWAY_CONFIGMAPNAME cfg) (NAMESPACE cfg) w = (q, w2)"
  shows "w1 = w2 \<and> view w1 = view w \<and> (case q of
      Inl e \<Rightarrow> r = (if is_api_exception e then Inr False else Inl e)
    | Inr _ \<Rightarrow> r = Inr (is_peer view c w) \<or> (\<exists>e. r = Inl e \<and> \<not> is_api_exception e))"
proof -
  have v: "view w2 = view w" by (rule store_read_err [OF store rd])
  show ?thesis
  proof (cases q)
    case (Inl e)
    with run rd v show ?thesis
      by (auto simp: peer_exists_def create_stowaway_configmap_def Let_def try_except_def bind_def split: if_splits)
  next
    case (Inr cm)
    with store_read [OF store] rd have "cm_data cm = view w" by auto
    with Inr run rd v show ?thesis
      by (cases "view w"; cases "dget (the (view w)) ''PEERS''")
        (auto simp: peer_exists_def create_stowaway_configmap_def Let_def try_except_def bind_def data_item_def
          item_def peers_of_def)
  qed
qed

lemma remove_peer_outcome:
  assumes store: "peer_store K cfg view" and pods: "pods_keep view K" and c: "c \<noteq> []"
    and dist: "distinct (peers_of (view w))"
    and ed: "edit_peer_configmap K cfg None (Some c) None w = (q, w1)" and run: "remove_peer K cfg c w = (r, w')"
  shows "case q of
      Inl e \<Rightarrow> view w' = view w \<and> r = (if is_api_exception e then Inr False else Inl e)
    | Inr _ \<Rightarrow> \<not> is_peer view c w'"
proof (cases q)
  case (Inl e)
  with ed run edit_failed [OF store, of c w e w1] show ?thesis
    by (auto simp: remove_peer_def try_except_def thn_Inl split: if_splits)
next
  case (Inr u)
  from remaining_peers [OF store c dist, of w1] ed Inr have n: "\<not> is_peer view c w1" by simp
  let ?rest = "try_except (bind (get_stowaway_pod K cfg) (\<lambda>pod. case pod of
       None \<Rightarrow> raise RuntimeError
     | Some p \<Rightarrow> thn (exec_pod (core K) (pod_name p) (pod_namespace p) ''stowaway''
           [''rm'', ''-rf'', ''/config/peer_'' @ translate_peer_name c])
         (thn (restart_stowaway K cfg) (thn (sleep (host K) 1000) (ret True)))))
       (\<lambda>e. if is_api_exception e then ret False else raise e)"
  have "remove_peer K cfg c w = ?rest w1"
    using ed Inr by (simp add: remove_peer_def try_except_def thn_Inr)
  moreover have "keeps view ?rest"
    by (intro keeps_steps) (simp_all add: keeps_stowaway_pod [OF pods] keeps_restart [OF pods],
        use pods in \<open>simp_all add: pods_keep_def\<close>)
  ultimately have "view w' = view w1" using keepsD [of view ?rest w1 r w'] run by simp
  with n Inr show ?thesis by simp
qed

lemma disable_connection_removes:
  assumes prov: "ce_conn env = stowaway_provider K cfg" and store: "peer_store K cfg view"
    and pods: "pods_keep view K" and op: "operator_keeps view (ce_op env)" and c: "cr_name cl \<noteq> []"
    and dist: "distinct (peers_of (view w))"
    and run: "disable_connection env cl w = (Inr (), w')"
  shows "is_peer view (cr_name cl) w' \<longleftrightarrow> is_peer view (cr_name cl) w \<and> removal_refused K cfg (cr_name cl) w"
proof -
  let ?c = "cr_name cl"
  have known: "cl_provider cl = Some ''stowaway''"
    using run by (auto simp: disable_connection_def with_provider_def provider_named_def bind_def try_except_def
        split: if_splits)
  then have wp: "with_provider env cl f = f (stowaway_provider K cfg)" for f
    by (simp add: with_provider_def provider_named_def prov)
  have sp: "cp_peer_exists (stowaway_provider K cfg) = peer_exists K cfg"
    "cp_remove_peer (stowaway_provider K cfg) = remove_peer K cfg" by (simp_all add: stowaway_provider_def)
  have patched: "view wb = view wa" if "patch_object (ce_op env) CLIENTS cl p wa = (r, wb)" for p r wa wb
    by (rule keepsD [OF keeps_patch_object [OF op] that])
  obtain q w2 where rd: "read_config_map (core K) (STOWAWAY_CONFIGMAPNAME cfg) (NAMESPACE cfg) w = (q, w2)" by force
  obtain ex w1 where ex: "peer_exists K cfg ?c w = (ex, w1)" by force
  note pe = peer_exists_cases [OF store ex rd]
  obtain q2 w3 where ed: "edit_peer_configmap K cfg None (Some ?c) None w1 = (q2, w3)" by force
  obtain r w4 where rm: "remove_peer K cfg ?c w1 = (r, w4)" by force
  have "view w1 = view w" using pe by blast
  with dist have "distinct (peers_of (view w1))" by (simp only:)
  note out = remove_peer_outcome [OF store pods c this ed rm]
  show ?thesis
  proof (cases ex)
    case (Inl e)
    with pe have "\<not> is_api_exception e" by (cases q) (auto split: if_splits)
    moreover from this have "status_of e \<noteq> Some 500" by (cases e) auto
    ultimately have False using run ex Inl by (auto simp: disable_connection_def wp sp try_except_def bind_def)
    then show ?thesis ..
  next
    case (Inr b)
    show ?thesis
    proof (cases b)
      case False
      then have "w' = w1" using run ex Inr by (simp add: disable_connection_def wp sp try_except_def bind_def)
      with pe Inr False rd show ?thesis by (cases q) (auto simp: removal_refused_def split: if_splits)
    next
      case True
      with pe Inr obtain cm where q: "q = Inr cm" "is_peer view ?c w" by (cases q) (auto split: if_splits)
      let ?h = "\<lambda>e. if status_of e = Some 500 then raise (TemporaryError (Some 1))
            else if is_api_exception e then ret False else raise e"
      have inner: "bind (peer_exists K cfg ?c) (\<lambda>ex. if \<not> ex then ret True else thn (remove_peer K cfg ?c) (ret False)) w
          = (case r of Inr _ \<Rightarrow> Inr False | Inl e \<Rightarrow> Inl e, w4)"
        using ex Inr True rm by (cases r) (simp_all add: bind_def thn_def)
      let ?k = "\<lambda>returned. if returned then ret ()
          else patch_object (ce_op env) CLIENTS cl (JObj [(''providerConfig'', JNull)])"
      have dis: "disable_connection env cl = bind (try_except (bind (peer_exists K cfg ?c)
          (\<lambda>ex. if \<not> ex then ret True else thn (remove_peer K cfg ?c) (ret False))) ?h) ?k"
        unfolding disable_connection_def wp sp ..
      have r: "view w' = view w4 \<and> (\<forall>e. r = Inl e \<longrightarrow> is_api_exception e)"
      proof (cases r)
        case (Inr u)
        with inner have "disable_connection env cl w = ?k False w4"
          unfolding dis by (intro bind_Inr try_Inr) simp
        with run patched Inr show ?thesis by auto
      next
        case (Inl e)
        with inner have "disable_connection env cl w = bind (?h e) ?k w4"
          unfolding dis bind_def [of "try_except _ _"] bind_def [of "?h e"] by (simp add: try_Inl)
        with run patched Inl show ?thesis by (auto split: if_splits)
      qed
      show ?thesis
      proof (cases q2)
        case (Inl e)
        then have o: "view w4 = view w1 \<and> r = (if is_api_exception e then Inr False else Inl e)" using out by simp
        have api: "is_api_exception e"
        proof (rule ccontr)
          assume "\<not> is_api_exception e"
          with o r show False by simp
        qed
        have "removal_refused K cfg ?c w"
          using rd ed api pe q(1) Inl by (simp only: removal_refused_def) simp
        moreover have "view w' = view w" using o r pe by metis
        ultimately show ?thesis using q(2) by simp
      next
        case (Inr u)
        then have "\<not> is_peer view ?c w4" using out by simp
        moreover have "\<not> removal_refused K cfg ?c w"
          using rd ed pe q(1) Inr by (simp only: removal_refused_def) simp
        moreover have "view w' = view w4" using r by blast
        ultimately show ?thesis by simp
      qed
    qed
  qed
qed

lemma disconnect_waits:
  assumes rtc: "rtc_loop (client_step env cl) run" and op: "operator_keeps view (ce_op env)"
    and s: "s \<in> {CActive, CError, CDisabling}"
    and run: "client_disconnect env run cl (s, w) = (Inr (), (t, w'))"
  shows "t = CWaiting \<and> (\<exists>w1 w2. disable_connection env cl w1 = (Inr (), w2) \<and> view w1 = view w \<and> view w' = view w2)"
proof -
  let ?patch = "patch_object (ce_op env) CLIENTS cl (JObj [(''status'', JObj [(''wireguard'', JNull)])])"
  have waits: "t' = CWaiting \<and> (\<exists>w2. disable_connection env cl w1 = (Inr (), w2) \<and> view w3 = view w2)"
    if "run [CWait] (CDisabling, w1) = (Inr (), (t', w3))" for t' w1 w3
  proof -
    from run_silent [OF rtc _ that] obtain wa where "t' = CWaiting"
      and cb: "client_callbacks env cl CDisabling CWait w1 = (Inr [], wa)" and as: "client_assign env cl CWaiting wa = (Inr (), w3)"
      by auto
    moreover from cb obtain wb where "disable_connection env cl w1 = (Inr (), wb)" "client_on_waiting env cl wb = (Inr (), wa)"
      by (auto simp: thn_Inr_iff)
    moreover from this have "view wa = view wb"
      using keepsD [OF keeps_post_event [OF op]] unfolding client_on_waiting_def by blast
    moreover have "view w3 = view wa"
      using as keepsD [OF keeps_set_state [OF op]] unfolding client_assign_def by blast
    ultimately show ?thesis by auto
  qed
  obtain w1 w3 t3 where w1: "view w1 = view w" and wait: "run [CWait] (CDisabling, w1) = (Inr (), (t3, w3))"
    and patch: "lift ?patch (t3, w3) = (Inr (), (t, w'))"
  proof (cases "s = CDisabling")
    case True
    with run that show ?thesis by (fastforce simp: client_disconnect_def thn_Inr_iff)
  next
    case False
    with s run obtain t3 w3 where d: "run [CDisable] (s, w) = (Inr (), (t3, w3))"
      and rest: "thn (if_active (\<lambda>s. s = CDisabling) (run [CWait])) (lift ?patch) (t3, w3) = (Inr (), (t, w'))"
      by (auto simp: client_disconnect_def thn_Inr_iff split: if_splits)
    from run_event_result [OF rtc [unfolded client_step_def] d] False s obtain sent wa wb where
      cb: "client_on_disable env cl w = (Inr sent, wa)" and as: "client_assign env cl CDisabling wa = (Inr (), wb)"
      and r: "run sent (CDisabling, wb) = (Inr (), (t3, w3))"
      by auto
    from cb obtain wc where "sent = [CWait]" "state_change env cl w = (Inr (), wc)" "cleanup_all_bridges env cl wc = (Inr (), wa)"
      by (auto simp: client_on_disable_def thn_Inr_iff)
    moreover from this have "view wc = view w" "view wa = view wc"
      using keepsD [OF keeps_post_event [OF op]] keepsD [OF keeps_cleanup [OF op]]
      unfolding state_change_def by blast+
    moreover have "view wb = view wa"
      using as keepsD [OF keeps_set_state [OF op]] unfolding client_assign_def by blast
    ultimately have "view wb = view w" "run [CWait] (CDisabling, wb) = (Inr (), (t3, w3))" using r by auto
    moreover from waits [OF this(2)] rest have "lift ?patch (t3, w3) = (Inr (), (t, w'))"
      by (auto simp: thn_def bind_def)
    ultimately show ?thesis using that by blast
  qed
  from waits [OF wait] obtain w2 where "t3 = CWaiting" "disable_connection env cl w1 = (Inr (), w2)" "view w3 = view w2"
    by blast
  moreover from patch have "t = t3" "?patch w3 = (Inr (), w')"
    by (auto simp: lift_def split: prod.splits)
  moreover from this have "view w' = view w3" using keepsD [OF keeps_patch_object [OF op]] by blast
  ultimately show ?thesis using w1 by auto
qed

text \<open>C21: A client that withdraws its connection parameters is disconnected: if the handler returns,
  the client is \<open>WAITING\<close>, from \<open>ACTIVE\<close>, from \<open>ERROR\<close>, and when a failed attempt is repeated from
  \<open>DISABLING\<close>.  Its peer, if it has one, is then out of the peer list, unless the API server refused to read
  or to replace the ConfigMap of the peers; in this case (and in no other) the client is \<open>WAITING\<close> and still
  a peer: \<open>peer_exists\<close> turns the refusal into \<open>False\<close>, and the \<open>False\<close> of \<open>remove_peer\<close> is ignored.  The
  names in the list are distinct.\<close>

theorem disconnected_client_is_no_peer:
  assumes rtc: "rtc_loop (client_step env cl) run"
    and "ce_conn env = stowaway_provider K cfg" and "peer_store K cfg view"
    and "pods_keep view K" and op: "operator_keeps view (ce_op env)" and "cr_name cl \<noteq> []"
    and "distinct (peers_of (view w))"
    and s: "s \<in> {CActive, CError, CDisabling}"
    and run: "handler_client_connection_changed env run cl None (s, w) = (Inr (), (t, w'))"
  shows "t = CWaiting \<and> (\<exists>w1 w2. disable_connection env cl w1 = (Inr (), w2) \<and> view w1 = view w \<and> view w2 = view w'
    \<and> (is_peer view (cr_name cl) w' \<longleftrightarrow> is_peer view (cr_name cl) w \<and> removal_refused K cfg (cr_name cl) w1))"
proof -
  from run have "client_disconnect env run cl (s, w) = (Inr (), (t, w'))"
    by (simp add: handler_client_connection_changed_def)
  from disconnect_waits [OF rtc op s this] obtain w1 w2 where
    "t = CWaiting" "disable_connection env cl w1 = (Inr (), w2)" "view w1 = view w" "view w' = view w2" by blast
  with disable_connection_removes [OF assms(2-6), of w1 w2] assms(7) show ?thesis by auto
qed

lemma run_terminate:
  assumes rtc: "rtc_loop (client_step env cl) run"
  shows "run [CTerminate] (s, w) =
    (if s \<in> {CEnabling, CDisabling} then (Inl TransitionNotAllowed, (s, w))
     else (Inr (), (CTerminating, snd (client_on_terminate env cl w))))"
proof (cases "s \<in> {CEnabling, CDisabling}")
  case True
  with run_event_refused [OF rtc [unfolded client_step_def], of s CTerminate "[]" w] show ?thesis by auto
next
  case False
  have cb: "client_callbacks env cl s CTerminate w = (Inr [], snd (client_on_terminate env cl w))"
    unfolding client_callbacks.simps client_on_terminate_def by (subst (1 2) thn_swallow) simp
  have as: "whenever b (client_assign env cl CTerminating) w1 = (Inr (), w1)" for b w1
    by (simp add: client_assign_def whenever_def)
  have n: "client_next s CTerminate = Some CTerminating" using False by (cases s) auto
  from run_event [OF rtc [unfolded client_step_def] n cb as, of "[]"] rtc_Nil [OF rtc] False
  show ?thesis by simp
qed

text \<open>Deleting a client succeeds whatever its cleanup does and leaves it \<open>TERMINATING\<close>, without
  a write after the cleanup, but in \<open>ENABLING\<close> and \<open>DISABLING\<close> every attempt is refused before any
  cleanup.\<close>

theorem client_delete_outcome:
  assumes rtc: "rtc_loop (client_step env cl) run"
  shows "handler_client_deleted run (s, w) =
    (if s \<in> {CEnabling, CDisabling} then (Inl TransitionNotAllowed, (s, w))
     else (Inr (), (CTerminating, snd (client_on_terminate env cl w))))"
  by (simp add: handler_client_deleted_def run_terminate [OF rtc])

lemma run_disable_waits:
  assumes rtc: "rtc_loop (client_step env cl) run" and s: "s \<in> {CActive, CError}"
    and run: "run [CDisable] (s, w) = (Inr (), (t, w'))"
  shows "t = CWaiting"
proof -
  from run_event_result [OF rtc [unfolded client_step_def] run] s obtain sent wa wb where
    cb: "client_on_disable env cl w = (Inr sent, wa)" and r: "run sent (CDisabling, wb) = (Inr (), (t, w'))"
    by auto
  then have "sent = [CWait]" by (auto simp: client_on_disable_def thn_Inr_iff)
  with r run_silent [OF rtc, of CWait CDisabling wb "Inr ()" t w'] show ?thesis by auto
qed

text \<open>The timer disconnects exactly the connections that are too old: with a limit of \<open>limit\<close>
  seconds, an active client whose activation is not more than \<open>limit\<close> seconds ago is left alone,
  and an older one goes through \<open>disable\<close>, which ends in \<open>WAITING\<close> if it returns.\<close>

theorem client_reconcile_age:
  assumes rtc: "rtc_loop (client_step env cl) run"
    and nosunset: "cr_sunset cl \<in> {None, Some []}"
    and limit: "max_connection_age (op_cfg (ce_op env)) = Some limit"
    and stamp: "completed_transition cl ''ACTIVE'' = Some stamp"
    and active: "fromisoformat (op_host (ce_op env)) stamp = Inr (Aware (active + offset) offset)"
    and clock: "utcnow (op_host (ce_op env)) w = (Inr now, w1)"
  shows "(now - active \<le> limit * 1000000 \<longrightarrow>
      handler_client_reconcile env run cl (CActive, w) = (Inr (), (CActive, w1)))
    \<and> (limit * 1000000 < now - active \<longrightarrow>
      handler_client_reconcile env run cl (CActive, w) = run [CDisable] (CActive, w1)
      \<and> (\<forall>t w'. handler_client_reconcile env run cl (CActive, w) = (Inr (), (t, w')) \<longrightarrow> t = CWaiting))"
proof -
  have "sunset_of (op_host (ce_op env)) cl = Inr None"
    using nosunset by (auto simp: sunset_of_def)
  then have te: "client_should_terminate env cl = ret False"
    by (intro ext) (simp add: client_should_terminate_def Let_def bind_def)
  have dis: "client_should_disable env cl CActive w = (Inr (limit * 1000000 < now - active), w1)"
    using limit stamp active clock by (simp add: client_should_disable_def bind_def)
  have h: "handler_client_reconcile env run cl (CActive, w) =
      (if limit * 1000000 < now - active then run [CDisable] (CActive, w1) else (Inr (), (CActive, w1)))"
    using dis by (simp add: handler_client_reconcile_def te lift_def bind_def thn_def)
  show ?thesis unfolding h using run_disable_waits [OF rtc, of CActive w1] by auto
qed

text \<open>Once the sunset of a client is reached, the timer terminates it (the peer, its service
  account and its bridges are cleaned up) and then asks the API server to delete the resource,
  whatever became of the cleanup and of that request; before, nothing happens.\<close>

theorem client_reconcile_sunset:
  assumes rtc: "rtc_loop (client_step env cl) run" and q: "quiet (ce_op env) CLIENTS cl"
    and sunset: "cr_sunset cl = Some stamp" "stamp \<noteq> []"
      "fromisoformat (op_host (ce_op env)) (strip_char (CHR ''Z'') stamp) = Inr (Naive t)"
    and clock: "utcnow (op_host (ce_op env)) w = (Inr now, w1)"
    and s: "s \<in> {CRequested, CCreating, CWaiting, CError, CTerminating}"
    and api: "\<And>e w w'. co_delete (op_custom (ce_op env)) CLIENTS (NAMESPACE (op_cfg (ce_op env))) (cr_name cl) w
        = (Inl e, w') \<Longrightarrow> is_api_exception e"
  shows "(now < t \<longrightarrow> handler_client_reconcile env run cl (s, w) = (Inr (), (s, w1)))
    \<and> (t \<le> now \<longrightarrow> (\<exists>w2. post_event (ce_op env) cl ''Sunset reached'' ''Normal'' w1 = (Inr (), w2)
         \<and> handler_client_reconcile env run cl (s, w) = (Inr (), (CTerminating,
             snd (co_delete (op_custom (ce_op env)) CLIENTS (NAMESPACE (op_cfg (ce_op env))) (cr_name cl)
               (snd (client_on_terminate env cl w2)))))))"
proof -
  let ?del = "co_delete (op_custom (ce_op env)) CLIENTS (NAMESPACE (op_cfg (ce_op env))) (cr_name cl)"
  have so: "sunset_of (op_host (ce_op env)) cl = Inr (Some (Naive t))"
    using sunset by (simp add: sunset_of_def)
  obtain w2 where ev: "post_event (ce_op env) cl ''Sunset reached'' ''Normal'' w1 = (Inr (), w2)"
    using quiet_event [OF q] by blast
  have del: "try_except ?del swallow_api_exception w3 = (Inr (), snd (?del w3))" for w3
    using api by (cases "?del w3") (auto simp: try_except_def swallow_api_exception_def split: sum.split)
  have dis: "client_should_disable env cl s' = ret False" if "s' \<noteq> CActive" for s'
    using that by (simp add: client_should_disable_def)
  have young: "client_should_terminate env cl w = (Inr False, w1)" if "now < t"
    using so clock that by (simp add: client_should_terminate_def Let_def bind_def)
  have old: "client_should_terminate env cl w = (Inr True, w2)" if "t \<le> now"
    using so clock ev that by (simp add: client_should_terminate_def Let_def bind_def thn_def)
  have te: "run [CTerminate] (s, w2) = (Inr (), (CTerminating, snd (client_on_terminate env cl w2)))"
    using run_terminate [OF rtc, of s w2] s by auto
  show ?thesis
  proof (intro conjI impI)
    assume "now < t"
    then show "handler_client_reconcile env run cl (s, w) = (Inr (), (s, w1))"
      using young dis [of s] s by (auto simp: handler_client_reconcile_def lift_def bind_def thn_def)
  next
    assume "t \<le> now"
    then have "handler_client_reconcile env run cl (s, w) =
        (Inr (), (CTerminating, snd (?del (snd (client_on_terminate env cl w2)))))"
      using old te dis [of CTerminating] del [unfolded CLIENTS_def]
      by (simp add: handler_client_reconcile_def lift_def bind_def thn_def CLIENTS_def)
    with ev show "\<exists>w2. post_event (ce_op env) cl ''Sunset reached'' ''Normal'' w1 = (Inr (), w2)
         \<and> handler_client_reconcile env run cl (s, w) =
           (Inr (), (CTerminating, snd (?del (snd (client_on_terminate env cl w2)))))" by blast
  qed
qed

section \<open>Witnesses\<close>

lemma sample_rtc: "rtc_loop (client_step env sample_client) (sample_client_run env)"
  by (rule rtc_run_loop)

lemma linked_connects:
  "\<exists>w'. handler_client_connection_changed linked_env (sample_client_run linked_env) sample_client
     (Some [(''subnet'', ''x'')]) (CEnabling, linked_world) = (Inr (), (CActive, w'))"
proof -
  obtain conf where "get_peer_config linked_cluster default_configuration ''c1'' linked_world = (Inr conf, linked_world)"
    and a: "dget conf ''Interface.Address'' = Some ''192.168.99.2''"
    using linked_config by blast
  then have g: "cp_get_peer_config (ce_conn linked_env) (cr_name sample_client) linked_world = (Inr conf, linked_world)"
    by (simp add: stowaway_provider_def)
  have q: "quiet (ce_op linked_env) CLIENTS sample_client" by (simp add: linked_quiet)
  from run_activate_ok [OF sample_rtc q _ _ g a]
  obtain w' where "sample_client_run linked_env [CActivate] (CEnabling, linked_world) = (Inr (), (CActive, w'))" by auto
  then show ?thesis
    by (auto simp: handler_client_connection_changed_def client_connect_def try_except_def thn_def bind_def)
qed

theorem connected_client_is_peer_witness:
  "\<exists>w'. handler_client_connection_changed linked_env (sample_client_run linked_env) sample_client
      (Some [(''subnet'', ''x'')]) (CEnabling, linked_world) = (Inr (), (CActive, w')) \<and> is_peer peers_view ''c1'' w'"
proof -
  obtain w' where h: "handler_client_connection_changed linked_env (sample_client_run linked_env) sample_client
      (Some [(''subnet'', ''x'')]) (CEnabling, linked_world) = (Inr (), (CActive, w'))"
    using linked_connects by blast
  have o: "operator_keeps peers_view (ce_op linked_env)" by (simp add: linked_operator_keeps)
  from connected_client_is_peer [OF sample_rtc linked_simps(2) linked_store linked_pods o _ _ h] h
  show ?thesis by auto
qed

definition mem_client_env :: "mem client_env" where
  "mem_client_env = linked_env\<lparr>ce_conn := mem_conn\<rparr>"

theorem client_connect_outcome_witness:
  "\<exists>w'. handler_client_connection_changed mem_client_env (sample_client_run mem_client_env) sample_client
     (Some [(''subnet'', ''x'')]) (CWaiting, mem_empty) = (Inr (), (CActive, w'))"
proof -
  have q: "quiet (ce_op mem_client_env) CLIENTS sample_client" by (simp add: mem_client_env_def linked_quiet)
  have a: "answers mem_client_env sample_client" by (auto simp: answers_def mem_client_env_def mem_conn_def)
  have g: "fst (cp_get_peer_config (ce_conn mem_client_env) (cr_name sample_client) w)
      = Inr [(''Interface.Address'', ''192.168.99.2'')]" for w
    by (simp add: mem_client_env_def mem_conn_def)
  have s: "CWaiting \<in> {CWaiting, CEnabling}" and n: "Some [(''subnet'', ''x'')] \<notin> {None, Some []}" by simp_all
  show ?thesis using client_connect_outcome [OF sample_rtc q a s n g] by simp
qed

lemma linked_disconnects:
  "\<exists>w'. handler_client_connection_changed linked_env (sample_client_run linked_env) sample_client None
     (CDisabling, linked_world) = (Inr (), (CWaiting, w'))"
proof -
  have ps: "split (CHR '','') ''c1,0'' = [''c1'', ''0'']" by simp
  have ready: "stowaway_ready linked_cluster default_configuration w = (Inr True, w)" for w
    by (simp add: stowaway_ready_def get_stowaway_pod_def bind_def stowaway_pod_def nth_item_def)
  then have "wait_ready linked_cluster default_configuration n w = (Inr (), w)" for n w
    by (cases n) (simp_all add: bind_def)
  then have restart: "restart_stowaway linked_cluster default_configuration w = (Inr (), w)" for w
    by (simp add: restart_stowaway_def get_stowaway_pod_def bind_def thn_def)
  obtain w1 where e: "edit_peer_configmap linked_cluster default_configuration None (Some ''c1'') None linked_world = (Inr (), w1)"
    by (simp add: edit_peer_configmap_def create_stowaway_configmap_def Let_def bind_def linked_peers data_item_def
        item_def translate_sample)
  then have "\<exists>w2. remove_peer linked_cluster default_configuration ''c1'' linked_world = (Inr True, w2)"
    by (simp add: remove_peer_def try_except_def thn_def bind_def get_stowaway_pod_def restart mem_host_def)
  then obtain w2 where "remove_peer linked_cluster default_configuration ''c1'' linked_world = (Inr True, w2)" by blast
  moreover have "peer_exists linked_cluster default_configuration ''c1'' linked_world = (Inr True, linked_world)"
    by (simp add: peer_exists_def create_stowaway_configmap_def Let_def linked_peers data_item_def item_def
        translate_sample try_except_def bind_def)
  ultimately have "disable_connection linked_env sample_client linked_world = (Inr (), w2)"
    by (simp add: disable_connection_def with_provider_def provider_named_def stowaway_provider_def
        try_except_def bind_def thn_def)
  then have cb: "client_callbacks linked_env sample_client CDisabling CWait linked_world = (Inr [], w2)"
    by (simp add: client_on_waiting_def thn_def bind_def)
  have q: "quiet (ce_op linked_env) CLIENTS sample_client" by (simp add: linked_quiet)
  from run_client_end [OF sample_rtc q _ cb] obtain w3 where
    "sample_client_run linked_env [CWait] (CDisabling, linked_world) = (Inr (), (CWaiting, w3))" by auto
  then show ?thesis
    by (auto simp: handler_client_connection_changed_def client_disconnect_def thn_def bind_def lift_def)
qed

text \<open>A cluster that refuses to read the ConfigMap.\<close>

definition mute_cluster :: "mem cluster" where
  "mute_cluster = linked_cluster\<lparr>core := linked_core\<lparr>read_config_map := (\<lambda>n ns. raise (ApiException 403))\<rparr>\<rparr>"

definition mute_env :: "mem client_env" where
  "mute_env = linked_env\<lparr>ce_conn := stowaway_provider mute_cluster default_configuration\<rparr>"

lemma mute_simps [simp]:
  "ce_op mute_env = linked_operator" "ce_conn mute_env = stowaway_provider mute_cluster default_configuration"
  "core mute_cluster = linked_core\<lparr>read_config_map := (\<lambda>n ns. raise (ApiException 403))\<rparr>" "host mute_cluster = mem_host"
  by (simp_all add: mute_env_def mute_cluster_def)

lemma mute_store: "peer_store mute_cluster default_configuration peers_view"
  by (auto simp: config_map_store_def keeps_def mem_host_def mem_view_def dget_dset split: option.splits)

lemma mute_pods: "pods_keep peers_view mute_cluster"
  by (simp add: pods_keep_def) (simp add: mem_host_def keeps_def mem_view_def)

lemma mute_disconnects:
  "\<exists>w'. handler_client_connection_changed mute_env (sample_client_run mute_env) sample_client None
     (CDisabling, linked_world) = (Inr (), (CWaiting, w'))"
proof -
  have "peer_exists mute_cluster default_configuration ''c1'' w = (Inr False, w)" for w
    by (simp add: peer_exists_def Let_def try_except_def bind_def)
  then have "disable_connection mute_env sample_client w = (Inr (), w)" for w
    by (simp add: disable_connection_def with_provider_def provider_named_def stowaway_provider_def
        try_except_def bind_def)
  then have cb: "client_callbacks mute_env sample_client CDisabling CWait linked_world = (Inr [], linked_world)"
    by (simp add: client_on_waiting_def thn_def bind_def)
  have q: "quiet (ce_op mute_env) CLIENTS sample_client" by (simp add: linked_quiet)
  from run_client_end [OF sample_rtc q _ cb] obtain w3 where
    "sample_client_run mute_env [CWait] (CDisabling, linked_world) = (Inr (), (CWaiting, w3))" by auto
  then show ?thesis
    by (auto simp: handler_client_connection_changed_def client_disconnect_def thn_def bind_def lift_def)
qed

lemma linked_not_refused: "\<not> removal_refused linked_cluster default_configuration ''c1'' w"
  by (auto simp: removal_refused_def edit_peer_configmap_def create_stowaway_configmap_def Let_def bind_def
      data_item_def item_def split: option.splits prod.splits sum.splits if_splits)

lemma mute_refused: "removal_refused mute_cluster default_configuration ''c1'' w"
  by (simp add: removal_refused_def)

text \<open>The client is removed from the peers of the one cluster, and stays a peer of the other.\<close>

theorem disconnected_client_is_no_peer_witness:
  "is_peer peers_view ''c1'' linked_world
   \<and> (\<exists>w'. handler_client_connection_changed linked_env (sample_client_run linked_env) sample_client None
      (CDisabling, linked_world) = (Inr (), (CWaiting, w')) \<and> \<not> is_peer peers_view ''c1'' w')
   \<and> (\<exists>w'. handler_client_connection_changed mute_env (sample_client_run mute_env) sample_client None
      (CDisabling, linked_world) = (Inr (), (CWaiting, w')) \<and> is_peer peers_view ''c1'' w')"
proof -
  have n: "cr_name sample_client \<noteq> []" by simp
  have s: "CDisabling \<in> {CActive, CError, CDisabling}" by simp
  have di: "distinct (peers_of (peers_view linked_world))" by (simp add: linked_peers_of)
  have o: "operator_keeps peers_view (ce_op linked_env)" "operator_keeps peers_view (ce_op mute_env)"
    by (simp_all add: linked_operator_keeps)
  obtain w' where h: "handler_client_connection_changed linked_env (sample_client_run linked_env) sample_client None
      (CDisabling, linked_world) = (Inr (), (CWaiting, w'))"
    using linked_disconnects by blast
  obtain w'' where m: "handler_client_connection_changed mute_env (sample_client_run mute_env) sample_client None
      (CDisabling, linked_world) = (Inr (), (CWaiting, w''))"
    using mute_disconnects by blast
  note a = disconnected_client_is_no_peer [OF sample_rtc linked_simps(2) linked_store linked_pods o(1) n di s h]
  note b = disconnected_client_is_no_peer [OF sample_rtc mute_simps(2) mute_store mute_pods o(2) n di s m]
  have p: "is_peer peers_view ''c1'' linked_world" by (simp add: linked_peers_of translate_sample)
  from a have "\<not> is_peer peers_view ''c1'' w'" by (auto simp: linked_not_refused)
  moreover from b p have "is_peer peers_view ''c1'' w''" by (auto simp: mute_refused)
  ultimately show ?thesis using h p m by blast
qed

theorem client_delete_outcome_witness:
  "handler_client_deleted (sample_client_run mem_client_env) (CEnabling, mem_empty)
     = (Inl TransitionNotAllowed, (CEnabling, mem_empty))
   \<and> handler_client_deleted (sample_client_run mem_client_env) (CActive, mem_empty)
     = (Inr (), (CTerminating, snd (client_on_terminate mem_client_env sample_client mem_empty)))"
  using client_delete_outcome [OF sample_rtc, of mem_client_env CEnabling mem_empty]
    client_delete_outcome [OF sample_rtc, of mem_client_env CActive mem_empty]
  by simp

definition aging_env :: "mem client_env" where
  "aging_env = mem_client_env\<lparr>ce_op := linked_operator\<lparr>
     op_cfg := default_configuration\<lparr>STOWAWAY_MAX_CONNECTION_AGE := 60\<rparr>,
     op_host := mem_host\<lparr>fromisoformat := (\<lambda>s. Inr (Aware 100 0))\<rparr>\<rparr>\<rparr>"

theorem client_reconcile_age_witness:
  "handler_client_reconcile aging_env (sample_client_run aging_env) sample_client (CActive, mem_empty\<lparr>mm_clock := 60000100\<rparr>)
     = (Inr (), (CActive, mem_empty\<lparr>mm_clock := 60000100\<rparr>))
   \<and> handler_client_reconcile aging_env (sample_client_run aging_env) sample_client (CActive, mem_empty\<lparr>mm_clock := 60000101\<rparr>)
     = sample_client_run aging_env [CDisable] (CActive, mem_empty\<lparr>mm_clock := 60000101\<rparr>)"
proof -
  have n: "cr_sunset sample_client \<in> {None, Some []}" by simp
  have l: "max_connection_age (op_cfg (ce_op aging_env)) = Some 60"
    by (simp add: max_connection_age_def aging_env_def)
  have c: "completed_transition sample_client ''ACTIVE'' = Some ''100''" by (simp add: completed_transition_def)
  have f: "fromisoformat (op_host (ce_op aging_env)) ''100'' = Inr (Aware (100 + 0) 0)" by (simp add: aging_env_def)
  have t: "utcnow (op_host (ce_op aging_env)) m = (Inr (mm_clock m), m)" for m by (simp add: aging_env_def mem_host_def)
  show ?thesis
    using client_reconcile_age [OF sample_rtc n l c f t, of "mem_empty\<lparr>mm_clock := 60000100\<rparr>"]
      client_reconcile_age [OF sample_rtc n l c f t, of "mem_empty\<lparr>mm_clock := 60000101\<rparr>"]
    by simp
qed

definition expiring_client :: gclient where
  "expiring_client = sample_client\<lparr>cr_sunset := Some ''50''\<rparr>"

theorem client_reconcile_sunset_witness:
  "\<exists>w2. handler_client_reconcile mem_client_env (rtc_run (client_step mem_client_env expiring_client) (CError, mem_empty))
      expiring_client (CWaiting, mem_empty\<lparr>mm_clock := 50\<rparr>) = (Inr (), (CTerminating,
      snd (co_delete mem_custom CLIENTS ''gefyra'' ''c1'' (snd (client_on_terminate mem_client_env expiring_client w2)))))"
proof -
  have q: "quiet (ce_op mem_client_env) CLIENTS expiring_client" by (simp add: mem_client_env_def linked_quiet)
  have z: "cr_sunset expiring_client = Some ''50''" "''50'' \<noteq> []" by (simp_all add: expiring_client_def)
  have "py_int ''50'' = Inr 50" using py_int_str_nat [of 50] by (simp add: str_nat_eval)
  then have f: "fromisoformat (op_host (ce_op mem_client_env)) (strip_char (CHR ''Z'') ''50'') = Inr (Naive 50)"
    by (simp add: mem_client_env_def mem_host_def strip_char_def)
  have t: "utcnow (op_host (ce_op mem_client_env)) (mem_empty\<lparr>mm_clock := 50\<rparr>) = (Inr 50, mem_empty\<lparr>mm_clock := 50\<rparr>)"
    by (simp add: mem_client_env_def mem_host_def)
  have s: "CWaiting \<in> {CRequested, CCreating, CWaiting, CError, CTerminating}" by simp
  have d: "co_delete (op_custom (ce_op mem_client_env)) CLIENTS (NAMESPACE (op_cfg (ce_op mem_client_env)))
      (cr_name expiring_client) w = (Inl e, w') \<Longrightarrow> is_api_exception e" for e w w'
    by (simp add: mem_client_env_def mem_custom_def)
  from client_reconcile_sunset [OF rtc_run_loop [of _ "(CError, mem_empty)"] q z f t s d]
  show ?thesis by (auto simp: mem_client_env_def expiring_client_def)
qed

end
