(* ===== verification/CarrierApi.thy ===== *)
theory CarrierApi
  imports Machine
begin

text \<open>
  What the two Carrier providers share: the configuration file of Carrier2 as data
  (operator/gefyra/bridge/carrier2/config.py), the calls that leave the process, and the helpers of
  operator/gefyra/bridge_mount/utils.py, operator/gefyra/bridge/carrier2/utils.py and
  operator/gefyra/utils.py.
\<close>

section \<open>The configuration of Carrier2\<close>

record carrier_tls =
  ct_certificate :: string
  ct_key :: string
  ct_sni :: "string option"

type_synonym carrier_rule = "match list"

record carrier_bridge =
  cb_endpoint :: string
  cb_rules :: "carrier_rule list"

record carrier_probe =
  cpr_httpGet :: "int list"
  cpr_httpsGet :: "int list"

record carrier2_proxy =
  px_port :: "int option"
  px_tls :: "carrier_tls option"
  px_clusterUpstream :: "string list option"
  px_bridges :: "carrier_bridge dict"

record carrier2_config =
  c2_version :: int
  c2_threads :: int
  c2_error_log :: string
  c2_pid_file :: string
  c2_upgrade_sock :: string
  c2_keepalive_pool_size :: int
  c2_probes :: "carrier_probe option"
  c2_proxy :: "carrier2_proxy list"

definition ERROR_LOG_PATH :: string where
  "ERROR_LOG_PATH = ''/tmp/carrier.log''"

text \<open>\<open>Carrier2Config()\<close> and \<open>Carrier2Proxy(port=...)\<close>.\<close>

definition Carrier2Config :: carrier2_config where
  "Carrier2Config = \<lparr>c2_version = 1, c2_threads = 4, c2_error_log = ERROR_LOG_PATH,
     c2_pid_file = ''/tmp/carrier2.pid'', c2_upgrade_sock = ''/tmp/carrier2.sock'',
     c2_keepalive_pool_size = 100, c2_probes = None, c2_proxy = []\<rparr>"

definition Carrier2Proxy :: "int \<Rightarrow> carrier2_proxy" where
  "Carrier2Proxy port = \<lparr>px_port = Some port, px_tls = None, px_clusterUpstream = None, px_bridges = []\<rparr>"

section \<open>Calls that leave the process\<close>

record original_config =
  oc_image :: string
  oc_command :: "string list option"
  oc_args :: "string list option"

record hpa =
  hpa_name :: string
  hpa_resource_version :: "string option"
  hpa_uid :: "string option"
  hpa_target_kind :: string
  hpa_target_name :: string

text \<open>The cached secrets by namespace and name, with the time they were read.\<close>

type_synonym secret_cache = "((string \<times> string) \<times> (string dict \<times> int)) list"

text \<open>\<open>ca_stream_exec\<close> is one websocket session that feeds commands to a shell and returns the last
  output; \<open>ca_stream_cat\<close> is one that prints a file: it cannot be opened (\<open>Inl\<close>), or yields what
  was read and the exception that ended the reading, if any.  YAML, JSON and base64 are library
  functions.  \<open>ca_cache\<close> and \<open>ca_set_cache\<close> are the process memory that holds
  \<open>_K8S_SECRET_CACHE\<close>.\<close>

record 'w carrier_api =
  ca_cluster :: "'w cluster"
  ca_custom :: "'w custom_api"
  ca_stream_exec :: "string \<Rightarrow> string \<Rightarrow> string \<Rightarrow> string list \<Rightarrow> (string \<Rightarrow> bool) option \<Rightarrow> ('w, string option) io"
  ca_stream_cat :: "string \<Rightarrow> string \<Rightarrow> string option \<Rightarrow> string \<Rightarrow> ('w, string list \<times> exn option) io"
  ca_safe_dump :: "carrier2_config \<Rightarrow> string"
  ca_safe_load :: "string \<Rightarrow> exn + carrier2_config"
  ca_json_dumps :: "original_config \<Rightarrow> string"
  ca_json_loads :: "string \<Rightarrow> exn + original_config"
  ca_b64decode :: "string \<Rightarrow> exn + string"
  ca_cache :: "'w \<Rightarrow> secret_cache"
  ca_set_cache :: "secret_cache \<Rightarrow> 'w \<Rightarrow> 'w"
  ca_json_patch_add :: "string \<Rightarrow> string \<Rightarrow> string \<Rightarrow> string \<Rightarrow> ('w, unit) io"
  ca_list_hpa :: "string \<Rightarrow> ('w, hpa list) io"
  ca_create_hpa :: "string \<Rightarrow> hpa \<Rightarrow> ('w, unit) io"
  ca_patch_hpa :: "string \<Rightarrow> string \<Rightarrow> hpa \<Rightarrow> ('w, unit) io"
  ca_delete_hpa :: "string \<Rightarrow> string \<Rightarrow> ('w, unit) io"

abbreviation ca_core :: "'w carrier_api \<Rightarrow> 'w core_v1" where
  "ca_core A \<equiv> core (ca_cluster A)"

abbreviation ca_host :: "'w carrier_api \<Rightarrow> 'w host" where
  "ca_host A \<equiv> host (ca_cluster A)"

section \<open>Waiting\<close>

text \<open>The loop of \<open>wait_until_condition\<close>, which may not end (\<open>None\<close>) if the clock stands still:
  \<open>deadline\<close> in microseconds, \<open>backoff\<close> in milliseconds.\<close>

partial_function (option) wait_loop ::
    "'w host \<Rightarrow> ('w, 'a) io \<Rightarrow> ('a \<Rightarrow> exn + bool) \<Rightarrow> int \<Rightarrow> nat \<Rightarrow> 'w \<Rightarrow> ((exn + 'a) \<times> 'w) option" where
  "wait_loop H read_func cond_func deadline backoff w =
     (case utcnow H w of
        (Inl e, w1) \<Rightarrow> Some (Inl e, w1)
      | (Inr now, w1) \<Rightarrow>
          if deadline \<le> now then Some (Inl RuntimeError, w1) else
          (case (case read_func w1 of
                   (Inl e, w2) \<Rightarrow> (if is_api_exception e then Inr () else Inl (Inl e), w2)
                 | (Inr x, w2) \<Rightarrow> (case cond_func x of
                       Inl e \<Rightarrow> (if is_api_exception e then Inr () else Inl (Inl e), w2)
                     | Inr ok \<Rightarrow> (if ok then Inl (Inr x) else Inr (), w2))) of
             (Inl r, w2) \<Rightarrow> Some (r, w2)
           | (Inr u, w2) \<Rightarrow> (case sleep H backoff w2 of
                (Inl e, w3) \<Rightarrow> Some (Inl e, w3)
              | (Inr v, w3) \<Rightarrow> wait_loop H read_func cond_func deadline backoff w3)))"

text \<open>A call that does not return has no outcome; the model gives it \<open>OtherError\<close>, and the
  termination lemma of \<open>wait_loop\<close> shows that this value is never taken if the clock advances.\<close>

definition wait_until_condition ::
    "'w host \<Rightarrow> ('w, 'a) io \<Rightarrow> ('a \<Rightarrow> exn + bool) \<Rightarrow> int \<Rightarrow> nat \<Rightarrow> ('w, 'a) io" where
  "wait_until_condition H read_func cond_func timeout backoff =
     bind (utcnow H) (\<lambda>start w.
       case wait_loop H read_func cond_func (start + timeout * 1000000) backoff w of
         Some r \<Rightarrow> r | None \<Rightarrow> (Inl OtherError, w))"

section \<open>Exec and read with retries (carrier2/utils.py)\<close>

definition retryable :: "exn \<Rightarrow> bool" where
  "retryable e \<longleftrightarrow> is_api_exception e \<or> e \<in> {SSLEOFError, ConnectionResetError}"

fun stream_exec_retries ::
    "'w carrier_api \<Rightarrow> string \<Rightarrow> string \<Rightarrow> string \<Rightarrow> string list \<Rightarrow> nat \<Rightarrow> (string \<Rightarrow> bool) option
     \<Rightarrow> ('w, string option) io" where
  "stream_exec_retries A name namespace container commands 0 stop_cb = raise (TemporaryError (Some 10))"
| "stream_exec_retries A name namespace container commands (Suc retries) stop_cb =
     try_except (ca_stream_exec A name namespace container commands stop_cb)
       (\<lambda>e. if retryable e
            then thn (sleep (ca_host A) 1000)
                   (stream_exec_retries A name namespace container commands retries stop_cb)
            else if e = WebSocketConnectionClosed then raise PlainException
            else raise e)"

text \<open>The lines read by the attempt before are kept when the next one cannot open its stream.\<close>

fun read_file_retries ::
    "'w carrier_api \<Rightarrow> string \<Rightarrow> string \<Rightarrow> string \<Rightarrow> string option \<Rightarrow> nat \<Rightarrow> string list \<Rightarrow> ('w, string list) io" where
  "read_file_retries A name namespace filename container 0 res =
     (if res = [] then raise (TemporaryError (Some 10)) else ret res)"
| "read_file_retries A name namespace filename container (Suc retries) res =
     try_except_else (ca_stream_cat A name namespace container filename)
       (\<lambda>e. if retryable e
            then thn (sleep (ca_host A) 1000)
                   (read_file_retries A name namespace filename container retries res)
            else raise e)
       (\<lambda>(lines, failed). case failed of
            None \<Rightarrow> if lines = [] then raise (TemporaryError (Some 10)) else ret lines
          | Some e \<Rightarrow> if retryable e
              then thn (sleep (ca_host A) 1000)
                     (read_file_retries A name namespace filename container retries lines)
              else raise e)"

definition read_carrier2_file ::
    "'w carrier_api \<Rightarrow> string \<Rightarrow> string \<Rightarrow> string \<Rightarrow> string option \<Rightarrow> ('w, string list) io" where
  "read_carrier2_file A name namespace filename container =
     read_file_retries A name namespace filename container 30 []"

definition read_carrier2_config ::
    "'w carrier_api \<Rightarrow> string \<Rightarrow> string \<Rightarrow> string option \<Rightarrow> ('w, string list) io" where
  "read_carrier2_config A name namespace container =
     read_carrier2_file A name namespace ''/tmp/config.yaml'' container"

section \<open>Names, ports and upstreams (bridge_mount/utils.py)\<close>

definition get_upstreams_for_svc :: "service \<Rightarrow> int option \<Rightarrow> string list" where
  "get_upstreams_for_svc svc rport =
     map (\<lambda>p. svc_name svc @ ''.'' @ (case svc_namespace svc of None \<Rightarrow> ''None'' | Some n \<Rightarrow> n)
            @ ''.svc.cluster.local:'' @ str_int (sp_port p))
       (filter (\<lambda>p. rport \<in> {None, Some 0} \<or> rport = Some (sp_port p)) (svc_ports svc))"

definition generate_k8s_conform_name :: "string \<Rightarrow> string \<Rightarrow> nat \<Rightarrow> string" where
  "generate_k8s_conform_name name sfx max_length =
     (if length name + length sfx \<le> max_length then name @ sfx
      else take (max_length - length sfx) name @ sfx)"

definition generate_duplicate_svc_name :: "string \<Rightarrow> string \<Rightarrow> string" where
  "generate_duplicate_svc_name workload_name container_name =
     generate_k8s_conform_name (workload_name @ ''-'' @ container_name) ''-gefyra-svc'' 63"

definition generate_duplicate_workload_name :: "string \<Rightarrow> string" where
  "generate_duplicate_workload_name workload_name = generate_k8s_conform_name workload_name ''-gefyra'' 63"

definition get_duplicate_svc_fqdn :: "string \<Rightarrow> string \<Rightarrow> string \<Rightarrow> string" where
  "get_duplicate_svc_fqdn workload_name container_name namespace =
     generate_duplicate_svc_name workload_name container_name @ ''.'' @ namespace @ ''.svc.cluster.local''"

text \<open>The ports of a container, indexed from 0; iterating over no list raises.\<close>

definition container_ports :: "container \<Rightarrow> exn + int list" where
  "container_ports c = (case c_ports c of None \<Rightarrow> Inl TypeError | Some ps \<Rightarrow> Inr (map cp_container_port ps))"

definition service_ports_of :: "int list \<Rightarrow> service_port list" where
  "service_ports_of ports = map (\<lambda>(idx, port).
     \<lparr>sp_name = str_int port @ ''-'' @ str_nat idx, sp_port = port, sp_target_port = port,
      sp_protocol = None, sp_node_port = None\<rparr>) (zip [0..<length ports] ports)"

fun ports_of_containers :: "string \<Rightarrow> container list \<Rightarrow> exn + service_port list" where
  "ports_of_containers n [] = Inr []"
| "ports_of_containers n (c # cs) =
     (if c_name c = n
      then sbind (container_ports c) (\<lambda>ps. sbind (ports_of_containers n cs) (\<lambda>rest. Inr (service_ports_of ps @ rest)))
      else ports_of_containers n cs)"

definition get_ports_for_workload :: "workload \<Rightarrow> string \<Rightarrow> exn + service_port list" where
  "get_ports_for_workload workload container_name = ports_of_containers container_name (wl_containers workload)"

definition get_all_probes :: "container \<Rightarrow> probe list" where
  "get_all_probes c =
     (case c_startup_probe c of None \<Rightarrow> [] | Some p \<Rightarrow> [p])
     @ (case c_readiness_probe c of None \<Rightarrow> [] | Some p \<Rightarrow> [p])
     @ (case c_liveness_probe c of None \<Rightarrow> [] | Some p \<Rightarrow> [p])"

section \<open>TLS\<close>

definition INJECTED_TLS_KEY :: "string \<Rightarrow> string" where
  "INJECTED_TLS_KEY port = ''/tmp/from_k8s_secret_key_'' @ port @ ''.pem''"

definition INJECTED_TLS_CERT :: "string \<Rightarrow> string" where
  "INJECTED_TLS_CERT port = ''/tmp/from_k8s_secret_cert_'' @ port @ ''.pem''"

text \<open>The \<open>tls\<close> settings of one port, if the parameters have them.\<close>

definition port_tls :: "provider_params \<Rightarrow> int \<Rightarrow> tls_value dict option" where
  "port_tls params rport =
     (if rport = 0 then None else
      case dget (pp_ports params) (str_int rport) of None \<Rightarrow> None | Some entry \<Rightarrow> entry)"

text \<open>The setting \<open>which\<close> that holds for a port, and the name it is filed under: the port's own or
  that for all ports.\<close>

definition tls_param :: "string \<Rightarrow> provider_params \<Rightarrow> int \<Rightarrow> (string \<times> tls_value) option" where
  "tls_param which params rport =
     (case map_option (\<lambda>d. dget d which) (port_tls params rport) of
        Some (Some v) \<Rightarrow> Some (str_int rport, v)
      | _ \<Rightarrow> (case map_option (\<lambda>d. dget d which) (pp_tls params) of
          Some (Some v) \<Rightarrow> Some (''all'', v)
        | _ \<Rightarrow> None))"

fun is_secret :: "tls_value \<Rightarrow> bool" where
  "is_secret (Secret _ _ _) = True"
| "is_secret (Inline _) = False"

definition tls_param_from_key_secret :: "string \<Rightarrow> provider_params \<Rightarrow> int \<Rightarrow> bool" where
  "tls_param_from_key_secret which params rport =
     (case tls_param which params rport of None \<Rightarrow> False | Some (_, v) \<Rightarrow> is_secret v)"

definition tls_cert_from_k8s_secret :: "provider_params \<Rightarrow> int \<Rightarrow> bool" where
  "tls_cert_from_k8s_secret params rport = tls_param_from_key_secret ''certificate'' params rport"

definition tls_key_from_k8s_secret :: "provider_params \<Rightarrow> int \<Rightarrow> bool" where
  "tls_key_from_k8s_secret params rport = tls_param_from_key_secret ''key'' params rport"

text \<open>\<open>_read_k8s_secret_tls_value\<close> with its cache of one minute.\<close>

definition decode_value :: "'w carrier_api \<Rightarrow> string \<Rightarrow> ('w, string) io" where
  "decode_value A v = (case ca_b64decode A v of Inr s \<Rightarrow> ret s | Inl _ \<Rightarrow> raise PlainException)"

definition cached_secret :: "'w carrier_api \<Rightarrow> string \<Rightarrow> string \<Rightarrow> int \<Rightarrow> 'w \<Rightarrow> string dict option" where
  "cached_secret A namespace name now w =
     (case map_of (ca_cache A w) (namespace, name) of
        None \<Rightarrow> None
      | Some (data, timestamp) \<Rightarrow> if now - timestamp < 60000000 then Some data else None)"

definition read_k8s_secret_tls_value ::
    "'w carrier_api \<Rightarrow> string \<Rightarrow> string \<Rightarrow> string \<Rightarrow> ('w, string) io" where
  "read_k8s_secret_tls_value A name key namespace =
     bind (utcnow (ca_host A)) (\<lambda>now w.
       case (case cached_secret A namespace name now w of None \<Rightarrow> None | Some data \<Rightarrow> dget data key) of
         Some v \<Rightarrow> decode_value A v w
       | None \<Rightarrow>
         try_except
           (bind (read_secret (ca_core A) name namespace) (\<lambda>secret.
            case secret of
              None \<Rightarrow> raise PlainException
            | Some data \<Rightarrow> if data = [] then raise PlainException else
               (\<lambda>w1. (case dget data key of
                    None \<Rightarrow> raise PlainException
                  | Some v \<Rightarrow> decode_value A v)
                 (ca_set_cache A (((namespace, name), (data, now)) # ca_cache A w1) w1))))
           (\<lambda>e. if is_api_exception e then raise PlainException else raise e) w)"

text \<open>\<open>tls_param["secret"]\<close> of an inline value raises.\<close>

fun secret_content :: "'w carrier_api \<Rightarrow> tls_value \<Rightarrow> ('w, string) io" where
  "secret_content A (Secret name key namespace) = read_k8s_secret_tls_value A name key namespace"
| "secret_content A (Inline _) = raise TypeError"

definition tls_file_name :: "string \<Rightarrow> string \<Rightarrow> string" where
  "tls_file_name which port = (if which = ''certificate'' then INJECTED_TLS_CERT port else INJECTED_TLS_KEY port)"

text \<open>All containers of a pod are running (the condition of the busy waits).\<close>

definition status_running :: "container_status \<Rightarrow> bool" where
  "status_running s = (case cs_state s of None \<Rightarrow> False | Some st \<Rightarrow>
     (case running st of None \<Rightarrow> False | Some r \<Rightarrow> started_at r \<notin> {None, Some []}))"

definition all_containers_running :: "pod \<Rightarrow> exn + bool" where
  "all_containers_running p = (case pod_container_statuses p of
     None \<Rightarrow> Inl TypeError | Some sts \<Rightarrow> Inr (list_all status_running sts))"

definition wait_containers :: "'w carrier_api \<Rightarrow> string \<Rightarrow> string \<Rightarrow> ('w, unit) io" where
  "wait_containers A pname namespace =
     thn (wait_until_condition (ca_host A) (read_pod_status (ca_core A) pname namespace)
            all_containers_running 120 2000)
     (ret ())"

definition inject_tls_file ::
    "'w carrier_api \<Rightarrow> string \<Rightarrow> string \<Rightarrow> string \<Rightarrow> string \<Rightarrow> provider_params \<Rightarrow> int \<Rightarrow> ('w, unit) io" where
  "inject_tls_file A pname container namespace which params rport =
     (case tls_param which params rport of
        None \<Rightarrow> raise ValueError
      | Some (port, param) \<Rightarrow>
          bind (secret_content A param) (\<lambda>content.
          thn (wait_containers A pname namespace)
          (thn (stream_exec_retries A pname namespace container
             [''cat <<'' @ [CHR 0x27] @ ''EOF'' @ [CHR 0x27] @ '' > '' @ tls_file_name which port @ [CHR 0x0A] @ content, ''EOF'']
             30 None)
          (ret ()))))"

definition update_tls_file ::
    "'w carrier_api \<Rightarrow> string \<Rightarrow> string \<Rightarrow> string \<Rightarrow> string \<Rightarrow> provider_params \<Rightarrow> int \<Rightarrow> ('w, bool) io" where
  "update_tls_file A pname container namespace which params rport =
     (case tls_param which params rport of
        None \<Rightarrow> raise ValueError
      | Some (port, param) \<Rightarrow>
          bind (secret_content A param) (\<lambda>from_secret.
          bind (read_carrier2_file A pname namespace (tls_file_name which port) (Some container)) (\<lambda>lines.
          bind (of_sum (nth_item lines 0)) (\<lambda>from_container.
          if strip from_secret \<noteq> strip from_container
          then thn (inject_tls_file A pname container namespace which params rport) (ret True)
          else ret False))))"

text \<open>A certificate and a key from one place: the port's settings or those for all ports.\<close>

definition complete_tls :: "provider_params \<Rightarrow> int \<Rightarrow> (string \<times> tls_value \<times> tls_value \<times> tls_value option) option" where
  "complete_tls params rport =
     (let pick = (\<lambda>port d. case (dget d ''certificate'', dget d ''key'') of
            (Some c, Some k) \<Rightarrow> Some (port, c, k, dget d ''sni'')
          | _ \<Rightarrow> None) in
      case (case port_tls params rport of None \<Rightarrow> None | Some d \<Rightarrow> pick (str_int rport) d) of
        Some r \<Rightarrow> Some r
      | None \<Rightarrow> (case pp_tls params of None \<Rightarrow> None | Some d \<Rightarrow> pick ''all'' d))"

fun tls_source :: "(string \<Rightarrow> string) \<Rightarrow> string \<Rightarrow> tls_value \<Rightarrow> string" where
  "tls_source injected port (Inline s) = s"
| "tls_source injected port (Secret _ _ _) = injected port"

definition get_tls_from_provider_parameters ::
    "'w carrier_api \<Rightarrow> provider_params option \<Rightarrow> int \<Rightarrow> ('w, carrier_tls option) io" where
  "get_tls_from_provider_parameters A params rport =
     (case params of
        None \<Rightarrow> raise TypeError
      | Some ps \<Rightarrow> (case complete_tls ps rport of
          None \<Rightarrow> ret None
        | Some (port, cert, key, sni) \<Rightarrow>
            bind (case sni of
                None \<Rightarrow> ret None
              | Some (Inline s) \<Rightarrow> ret (Some s)
              | Some v \<Rightarrow> bind (secret_content A v) (\<lambda>s. ret (Some s))) (\<lambda>sni_value.
            ret (Some \<lparr>ct_certificate = tls_source INJECTED_TLS_CERT port cert,
              ct_key = tls_source INJECTED_TLS_KEY port key, ct_sni = sni_value\<rparr>))))"

end
