(* ===== verification/CarrierConfig.thy ===== *)
theory CarrierConfig
  imports CarrierApi
begin

text \<open>
  Building and committing the configuration of Carrier2, operator/gefyra/bridge/carrier2/config.py:
  the rules of the bridges of a mount, and the commands that write the file and reload the proxy.
\<close>

section \<open>Bridges as rules\<close>

definition get_rules_for_bridge :: "bridge \<Rightarrow> exn + carrier_rule list" where
  "get_rules_for_bridge br =
     sbind (req (br_parameter br)) (\<lambda>parameter.
     sbind (req (bq_rules parameter)) (\<lambda>rules.
     Inr (concat (map (\<lambda>r. case r of None \<Rightarrow> [] | Some m \<Rightarrow> [m]) rules))))"

definition convert_bridge_to_rule :: "bridge \<Rightarrow> int \<Rightarrow> exn + carrier_bridge" where
  "convert_bridge_to_rule br target_port =
     (case br_clusterEndpoint br of
        None \<Rightarrow> Inl KeyError
      | Some eps \<Rightarrow>
          sbind (item eps (str_int target_port)) (\<lambda>endpoint.
          sbind (get_rules_for_bridge br) (\<lambda>rules.
          Inr \<lparr>cb_endpoint = endpoint, cb_rules = rules\<rparr>)))"

text \<open>The first proxy that serves the port.\<close>

definition proxy_index :: "carrier2_proxy list \<Rightarrow> int \<Rightarrow> nat option" where
  "proxy_index ps rport = index_where (\<lambda>p. px_port p = Some rport) ps"

definition mapping_port :: "string \<Rightarrow> exn + int" where
  "mapping_port m = sbind (nth_item (split (CHR '':'') m) 1) py_int"

definition put_bridge :: "string \<Rightarrow> carrier_bridge \<Rightarrow> carrier2_proxy \<Rightarrow> carrier2_proxy" where
  "put_bridge n cb p = p\<lparr>px_bridges := dset (px_bridges p) n cb\<rparr>"

text \<open>The ports of one bridge, up to the first that fails; what was added before stays.\<close>

fun add_ports :: "bridge \<Rightarrow> carrier2_proxy list \<Rightarrow> string list \<Rightarrow> carrier2_proxy list \<times> exn option" where
  "add_ports br ps [] = (ps, None)"
| "add_ports br ps (m # ms) =
     (case mapping_port m of
        Inl e \<Rightarrow> (ps, Some e)
      | Inr rport \<Rightarrow>
         (case proxy_index ps rport of
            None \<Rightarrow> (ps, Some BridgeInstallException)
          | Some i \<Rightarrow>
             (case convert_bridge_to_rule br rport of
                Inl e \<Rightarrow> (ps, Some e)
              | Inr cb \<Rightarrow> add_ports br (ps[i := put_bridge (cr_name br) cb (ps ! i)]) ms)))"

fun add_bridges ::
    "string option \<Rightarrow> string option \<Rightarrow> carrier2_proxy list \<Rightarrow> bridge list \<Rightarrow> exn + carrier2_proxy list" where
  "add_bridges add rm ps [] = Inr ps"
| "add_bridges add rm ps (br # brs) =
     (if rm = Some (cr_name br) then add_bridges add rm ps brs else
      case br_portMappings br of
        None \<Rightarrow> Inl KeyError
      | Some ms \<Rightarrow>
         (case add_ports br ps ms of
            (ps', None) \<Rightarrow> add_bridges add rm ps' brs
          | (ps', Some e) \<Rightarrow>
              if add \<notin> {None, Some []} \<and> add = Some (cr_name br) then Inl BridgeInstallException
              else add_bridges add rm ps' brs))"

definition add_bridge_rules_for_mount ::
    "'w carrier_api \<Rightarrow> carrier2_config \<Rightarrow> string \<Rightarrow> string \<Rightarrow> string option \<Rightarrow> string option
     \<Rightarrow> ('w, carrier2_config) io" where
  "add_bridge_rules_for_mount A config bridge_mount_name namespace add rm =
     bind (co_list_bridges (ca_custom A) namespace (Some (''gefyra.dev/bridge-mount='' @ bridge_mount_name))) (\<lambda>bridges.
     bind (of_sum (add_bridges add rm (c2_proxy config) bridges)) (\<lambda>ps.
     ret (config\<lparr>c2_proxy := ps\<rparr>)))"

section \<open>Commit\<close>

text \<open>\<open>RELOAD_CARRIER2_DEBUG\<close> and \<open>RELOAD_CARRIER2_INFO\<close> (carrier2/const.py).\<close>

definition reload_carrier2 :: "string \<Rightarrow> string" where
  "reload_carrier2 level =
     ''RUST_LOG='' @ level @ ''; kill -SIGQUIT $(cat /tmp/carrier2.pid); if [ $? -eq 0 ]; then RUST_LOG='' @ level
     @ '' carrier2 -c /tmp/config.yaml -u -d &> /tmp/carrier.log; else RUST_LOG='' @ level
     @ '' carrier2 -c /tmp/config.yaml -d &> /tmp/carrier.log; fi''"

definition config_commands :: "string \<Rightarrow> bool \<Rightarrow> string list" where
  "config_commands dumped debug =
     [''cat <<'' @ [CHR 0x27] @ ''EOF'' @ [CHR 0x27] @ '' > /tmp/config.yaml'' @ [CHR 0x0A] @ dumped,
      ''EOF'',
      reload_carrier2 (if debug then ''debug'' else ''info''),
      ''cat '' @ ERROR_LOG_PATH]"

definition check_carrier2_output :: "string \<Rightarrow> bool" where
  "check_carrier2_output s \<longleftrightarrow> contains s ''Bootstrap starting''
     \<and> \<not> contains s (''thread '' @ [CHR 0x27] @ ''main'' @ [CHR 0x27] @ '' panicked'')"

definition commit ::
    "'w carrier_api \<Rightarrow> carrier2_config \<Rightarrow> string \<Rightarrow> string \<Rightarrow> string \<Rightarrow> bool \<Rightarrow> ('w, unit) io" where
  "commit A config pname container_name namespace debug =
     thn (wait_containers A pname namespace)
     (thn (wait_until_condition (ca_host A)
             (stream_exec_retries A pname namespace container_name
                (config_commands (ca_safe_dump A config) debug) 10 (Some check_carrier2_output))
             (\<lambda>s. Inr (case s of None \<Rightarrow> False | Some out \<Rightarrow> check_carrier2_output out)) 30 2000)
     (ret ()))"

end
