(* ===== verification/MountState.thy ===== *)
theory MountState
  imports Machine
begin

text \<open>
  The state machine of a GefyraBridgeMount, operator/gefyra/bridge_mount_state.py, the interface
  of its provider (operator/gefyra/bridge_mount/abstract.py) and its handlers
  (operator/gefyra/handler/bridge_mounts.py).
\<close>

section \<open>The mount provider interface\<close>

text \<open>The abstract methods, and the property \<open>_duplicated_pods_ready\<close> that the condition of
  \<open>install\<close> reads.\<close>

record 'w mount_provider =
  mp_install :: "('w, unit) io"
  mp_prepare :: "('w, unit) io"
  mp_ready :: "('w, bool) io"
  mp_prepared :: "('w, bool) io"
  mp_uninstall :: "('w, unit) io"
  mp_target_exists :: "('w, bool) io"
  mp_duplicated_pods_ready :: "('w, bool) io"
  mp_validate :: "mount \<Rightarrow> ('w, unit) io"

text \<open>\<open>mo_builder\<close> gets the name, the target namespace, the target, the container and the resource
  (for its parameters).  \<open>mo_configuration_namespace\<close> is what \<open>bridge_mount.configuration.NAMESPACE\<close>
  evaluates to: \<open>configuration\<close> is no attribute of the classes of this repository but of the
  state-machine library.\<close>

record 'w mount_env =
  mo_op :: "'w operator"
  mo_builder :: "string \<Rightarrow> string \<Rightarrow> string \<Rightarrow> string \<Rightarrow> mount \<Rightarrow> 'w mount_provider"
  mo_configuration_namespace :: "exn + string"

section \<open>States and transitions\<close>

datatype mount_state =
  MRequested | MPreparing | MInstalling | MActive | MRestoring | MError | MMissing | MTerminated

datatype mount_event =
  MArrange | MInstall | MActivate | MRestore | MImpair | MMarkMissing | MRecover | MTerminate

fun mount_value :: "mount_state \<Rightarrow> string" where
  "mount_value MRequested = ''REQUESTED''"
| "mount_value MPreparing = ''PREPARING''"
| "mount_value MInstalling = ''INSTALLING''"
| "mount_value MActive = ''ACTIVE''"
| "mount_value MRestoring = ''RESTORING''"
| "mount_value MError = ''ERROR''"
| "mount_value MMissing = ''MISSING''"
| "mount_value MTerminated = ''TERMINATED''"

fun mount_next :: "mount_state \<Rightarrow> mount_event \<Rightarrow> mount_state option" where
  "mount_next s MArrange =
     (if s \<in> {MRestoring, MRequested, MError, MPreparing} then Some MPreparing else None)"
| "mount_next s MInstall =
     (if s = MRestoring then Some MPreparing
      else if s \<in> {MPreparing, MInstalling} then Some MInstalling else None)"
| "mount_next s MActivate = (if s \<in> {MInstalling, MActive} then Some MActive else None)"
| "mount_next s MRestore =
     (if s \<in> {MActive, MError, MInstalling, MPreparing, MRestoring} then Some MRestoring else None)"
| "mount_next s MImpair =
     (if s \<in> {MPreparing, MRequested, MInstalling, MActive, MError} then Some MError else None)"
| "mount_next s MMarkMissing =
     (if s \<in> {MActive, MError, MRestoring, MPreparing, MInstalling, MRequested} then Some MMissing else None)"
| "mount_next s MRecover = (if s = MMissing then Some MPreparing else None)"
| "mount_next s MTerminate = Some MTerminated"

definition MOUNTS :: string where
  "MOUNTS = ''gefyrabridgemounts''"

section \<open>Callbacks\<close>

text \<open>The cached property \<open>bridge_mount_provider\<close>.\<close>

definition bridge_mount_provider :: "'w mount_env \<Rightarrow> mount \<Rightarrow> exn + 'w mount_provider" where
  "bridge_mount_provider env mt =
     sbind (req (mt_provider mt)) (\<lambda>prov.
     sbind (provider_named ''carrier2mount'' (Some prov) ()) (\<lambda>_.
     sbind (req (mt_targetNamespace mt)) (\<lambda>ns.
     sbind (req (mt_target mt)) (\<lambda>target.
     sbind (req (mt_targetContainer mt)) (\<lambda>container.
     Inr (mo_builder env (cr_name mt) ns target container mt))))))"

definition with_mount ::
    "'w mount_env \<Rightarrow> mount \<Rightarrow> ('w mount_provider \<Rightarrow> ('w, 'a) io) \<Rightarrow> ('w, 'a) io" where
  "with_mount env mt f = bind (of_sum (bridge_mount_provider env mt)) f"

text \<open>\<open>sunset\<close>: the wall-clock time read as UTC.\<close>

fun as_utc :: "timestamp \<Rightarrow> int" where
  "as_utc (Naive t) = t"
| "as_utc (Aware t z) = t"

definition mount_sunset :: "'w host \<Rightarrow> mount \<Rightarrow> exn + int option" where
  "mount_sunset H mt = sbind (sunset_of H mt) (\<lambda>t. Inr (map_option as_utc t))"

definition mount_should_terminate :: "'w mount_env \<Rightarrow> mount \<Rightarrow> ('w, bool) io" where
  "mount_should_terminate env mt =
     (let Op = mo_op env in
      bind (of_sum (mount_sunset (op_host Op) mt)) (\<lambda>sunset. case sunset of
        None \<Rightarrow> ret False
      | Some t \<Rightarrow> bind (utcnow (op_host Op)) (\<lambda>now.
          if t \<le> now
          then thn (post_event Op mt ''GefyraBridgeMount state change'' ''Normal'') (ret True)
          else ret False)))"

definition mount_target_exists :: "'w mount_env \<Rightarrow> mount \<Rightarrow> ('w, bool) io" where
  "mount_target_exists env mt =
     try_except (with_mount env mt mp_target_exists) (\<lambda>e. ret False)"

definition missing_grace_period :: "operator_configuration \<Rightarrow> mount \<Rightarrow> int" where
  "missing_grace_period cfg mt =
     (case mt_missingGracePeriod mt of Some n \<Rightarrow> n | None \<Rightarrow> BRIDGE_MOUNT_MISSING_GRACE_PERIOD cfg)"

definition missing_grace_period_expired :: "'w mount_env \<Rightarrow> mount \<Rightarrow> ('w, bool) io" where
  "missing_grace_period_expired env mt =
     (case completed_transition mt (mount_value MMissing) of
        None \<Rightarrow> ret False
      | Some since \<Rightarrow> if since = [] then ret False else
          bind (of_sum (fromisoformat (op_host (mo_op env)) (strip_char (CHR ''Z'') since))) (\<lambda>t.
          bind (utcnow (op_host (mo_op env))) (\<lambda>now.
          ret (as_utc t + missing_grace_period (op_cfg (mo_op env)) mt * 1000000 \<le> now))))"

definition mount_is_intact :: "'w mount_env \<Rightarrow> mount \<Rightarrow> ('w, bool) io" where
  "mount_is_intact env mt =
     try_except
       (with_mount env mt (\<lambda>bmp. bind (mp_prepared bmp) (\<lambda>p. if p then mp_ready bmp else ret False)))
       (\<lambda>e. if e = BridgeMountTargetException then ret False
            else thn (post_event (mo_op env) mt ''Not intact'' ''Warning'') (ret False))"

definition mount_on_mark_missing :: "'w mount_env \<Rightarrow> mount \<Rightarrow> ('w, mount_event list) io" where
  "mount_on_mark_missing env mt =
     thn (post_event (mo_op env) mt ''Target missing'' ''Warning'')
     (thn (try_except (with_mount env mt mp_uninstall) swallow) (ret []))"

definition mount_on_recover :: "'w mount_env \<Rightarrow> mount \<Rightarrow> ('w, mount_event list) io" where
  "mount_on_recover env mt =
     thn (post_event (mo_op env) mt ''Target recovered'' ''Normal'') (ret [])"

definition mount_on_restore :: "'w mount_env \<Rightarrow> mount \<Rightarrow> ('w, mount_event list) io" where
  "mount_on_restore env mt =
     thn (post_event (mo_op env) mt ''Change detected'' ''Warning'') (ret [MArrange])"

definition mount_on_arrange :: "'w mount_env \<Rightarrow> mount \<Rightarrow> ('w, mount_event list) io" where
  "mount_on_arrange env mt =
     try_except
       (thn (with_mount env mt mp_prepare) (ret []))
       (\<lambda>e. if e \<in> {BridgeMountInstallException, ValueError}
            then thn (post_event (mo_op env) mt ''Failed to install GefyraBridgeMount'' ''Warning'') (ret [MImpair])
            else raise e)"

definition bridge_mount_prepared :: "'w mount_env \<Rightarrow> mount \<Rightarrow> mount_state \<Rightarrow> ('w, unit) io" where
  "bridge_mount_prepared env mt s =
     with_mount env mt (\<lambda>bmp.
       bind (if s = MPreparing then mp_duplicated_pods_ready bmp else mp_prepared bmp) (\<lambda>ok.
       if ok then ret () else raise (TemporaryError (Some 5))))"

definition mount_on_install :: "'w mount_env \<Rightarrow> mount \<Rightarrow> ('w, mount_event list) io" where
  "mount_on_install env mt =
     thn (post_event (mo_op env) mt ''GefyraBridgeMount state change'' ''Normal'')
     (try_except_else (with_mount env mt mp_install)
        (\<lambda>e. thn (post_event (mo_op env) mt ''Failed to install GefyraBridgeMount'' ''Warning'') (ret [MImpair]))
        (\<lambda>_. ret [MActivate]))"

definition bridge_mount_finished :: "'w mount_env \<Rightarrow> mount \<Rightarrow> ('w, bool) io" where
  "bridge_mount_finished env mt =
     with_mount env mt (\<lambda>bmp.
       bind (mp_ready bmp) (\<lambda>ready.
       thn (whenever ready (post_event (mo_op env) mt ''Ready'' ''Normal'')) (ret ready)))"

text \<open>Every bridge the list call answers is deleted.\<close>

definition mount_cleanup_bridges :: "'w mount_env \<Rightarrow> mount \<Rightarrow> ('w, unit) io" where
  "mount_cleanup_bridges env mt =
     (let ns = NAMESPACE (op_cfg (mo_op env)); api = op_custom (mo_op env) in
      bind (co_list_bridges api ns (Some (''gefyra.dev/bridge-mount='' @ cr_name mt))) (\<lambda>bridges.
      for_each (\<lambda>b. co_delete api ''gefyrabridges'' ns (cr_name b)) bridges))"

definition mount_on_terminate :: "'w mount_env \<Rightarrow> mount \<Rightarrow> ('w, mount_event list) io" where
  "mount_on_terminate env mt =
     thn (try_except (with_mount env mt mp_uninstall) swallow)
     (thn (try_except (mount_cleanup_bridges env mt) swallow) (ret []))"

text \<open>A condition that is false leaves the event without a transition.\<close>

fun mount_callbacks ::
    "'w mount_env \<Rightarrow> mount \<Rightarrow> mount_state \<Rightarrow> mount_event \<Rightarrow> ('w, mount_event list) io" where
  "mount_callbacks env mt s MArrange = mount_on_arrange env mt"
| "mount_callbacks env mt s MInstall = thn (bridge_mount_prepared env mt s) (mount_on_install env mt)"
| "mount_callbacks env mt s MActivate =
     bind (bridge_mount_finished env mt) (\<lambda>ok. if ok then ret [] else raise TransitionNotAllowed)"
| "mount_callbacks env mt s MRestore = mount_on_restore env mt"
| "mount_callbacks env mt s MImpair = ret []"
| "mount_callbacks env mt s MMarkMissing = mount_on_mark_missing env mt"
| "mount_callbacks env mt s MRecover = mount_on_recover env mt"
| "mount_callbacks env mt s MTerminate = mount_on_terminate env mt"

definition mount_assign :: "'w mount_env \<Rightarrow> mount \<Rightarrow> mount_state \<Rightarrow> ('w, unit) io" where
  "mount_assign env mt s = set_state (mo_op env) MOUNTS mt (mount_value s)"

definition mount_step ::
    "'w mount_env \<Rightarrow> mount \<Rightarrow> mount_state \<Rightarrow> mount_event \<Rightarrow> ('w, mount_state \<times> mount_event list) io" where
  "mount_step env mt =
     fire (op_rewrites_self (mo_op env)) mount_next (mount_assign env mt) (mount_callbacks env mt)"

section \<open>Handlers\<close>

type_synonym 'w mount_run = "mount_event list \<Rightarrow> (mount_state \<times> 'w, unit) io"

definition retry_not_allowed :: "exn \<Rightarrow> ('w, unit) io" where
  "retry_not_allowed e = (if e = TransitionNotAllowed then raise (TemporaryError (Some 15)) else raise e)"

definition was_active :: "mount \<Rightarrow> bool" where
  "was_active mt \<longleftrightarrow> completed_transition mt (mount_value MActive) \<notin> {None, Some []}"

definition continue_installing ::
    "'w mount_env \<Rightarrow> 'w mount_run \<Rightarrow> mount \<Rightarrow> (mount_state \<times> 'w, unit) io" where
  "continue_installing env run mt =
     bind (lift (with_mount env mt mp_prepared)) (\<lambda>p.
     if \<not> p then raise (TemporaryError (Some 10)) else
     bind (lift (with_mount env mt mp_ready)) (\<lambda>r.
     if r then run [MActivate] else run [MInstall]))"

definition handler_mount_created ::
    "'w mount_env \<Rightarrow> 'w mount_run \<Rightarrow> mount \<Rightarrow> (mount_state \<times> 'w, unit) io" where
  "handler_mount_created env run mt =
     (if was_active mt then ret () else
      try_except
        (thn (if_active (\<lambda>s. s = MRequested) (run [MArrange]))
        (thn (if_active (\<lambda>s. s = MPreparing) (run [MInstall]))
        (thn (if_active (\<lambda>s. s = MInstalling) (continue_installing env run mt))
        (thn (if_active (\<lambda>s. s = MError) (run [MRestore]))
        (thn (if_active (\<lambda>s. s = MRestoring) (run [MRestore]))
        (if_active (\<lambda>s. s \<noteq> MActive) (raise (TemporaryError (Some 10)))))))))
        retry_not_allowed)"

definition handler_mount_deleted :: "'w mount_run \<Rightarrow> (mount_state \<times> 'w, unit) io" where
  "handler_mount_deleted run = if_active (\<lambda>s. s \<noteq> MTerminated) (run [MTerminate])"

text \<open>\<open>_try_delete_cr\<close>; its result is not used.\<close>

definition try_delete_cr :: "'w mount_env \<Rightarrow> mount \<Rightarrow> ('w, bool) io" where
  "try_delete_cr env mt =
     try_except
       (bind (of_sum (mo_configuration_namespace env)) (\<lambda>ns.
        thn (co_delete (op_custom (mo_op env)) ''gefyrabridgemounts'' ns (cr_name mt)) (ret True)))
       (\<lambda>e. if is_api_exception e then ret (status_of e = Some 404) else raise e)"

definition terminate_and_delete ::
    "'w mount_env \<Rightarrow> 'w mount_run \<Rightarrow> mount \<Rightarrow> (mount_state \<times> 'w, unit) io" where
  "terminate_and_delete env run mt =
     thn (run [MTerminate]) (thn (lift (try_delete_cr env mt)) (ret ()))"

definition reconcile_missing ::
    "'w mount_env \<Rightarrow> 'w mount_run \<Rightarrow> mount \<Rightarrow> (mount_state \<times> 'w, unit) io" where
  "reconcile_missing env run mt =
     bind (lift (mount_target_exists env mt)) (\<lambda>ex.
     if ex then run [MRecover] else
     bind (lift (missing_grace_period_expired env mt)) (\<lambda>expired.
     if expired then terminate_and_delete env run mt else ret ()))"

definition reconcile_operational ::
    "'w mount_env \<Rightarrow> 'w mount_run \<Rightarrow> mount \<Rightarrow> (mount_state \<times> 'w, unit) io" where
  "reconcile_operational env run mt =
     bind (lift (mount_target_exists env mt)) (\<lambda>ex.
     if \<not> ex then run [MMarkMissing] else
     thn (if_active (\<lambda>s. s = MRequested) (run [MArrange]))
     (thn (if_active (\<lambda>s. s = MError) (run [MRestore]))
     (thn (if_active (\<lambda>s. s = MRestoring) (run [MRestore]))
     (thn (if_active (\<lambda>s. s = MPreparing \<or> s = MInstalling)
        (bind (lift (with_mount env mt mp_prepared)) (\<lambda>p. if \<not> p then ret () else run [MInstall])))
     (if_active (\<lambda>s. s = MActive)
        (bind (lift (mount_is_intact env mt)) (\<lambda>intact. if \<not> intact then run [MRestore] else ret ())))))))"

definition handler_mount_reconcile ::
    "'w mount_env \<Rightarrow> 'w mount_run \<Rightarrow> mount \<Rightarrow> (mount_state \<times> 'w, unit) io" where
  "handler_mount_reconcile env run mt =
     (if \<not> was_active mt then ret () else
      bind current (\<lambda>s.
      if s = MTerminated then thn (lift (try_delete_cr env mt)) (ret ()) else
      bind (lift (mount_should_terminate env mt)) (\<lambda>t.
      if t then terminate_and_delete env run mt else
      try_except
        (if s = MMissing then reconcile_missing env run mt else reconcile_operational env run mt)
        retry_not_allowed)))"

end
