(* ===== verification/Carrier2Mount.thy ===== *)
theory Carrier2Mount
  imports CarrierConfig MountState
begin

text \<open>
  The mount provider carrier2mount, operator/gefyra/bridge_mount/carrier2mount/__init__.py: it
  duplicates the target workload under a shadow name, turns the pods of the target into Carrier2
  proxies in front of the shadow, and undoes both.
\<close>

section \<open>State of the provider\<close>

text \<open>\<open>c2m_post\<close> is the \<open>post_event\<close> of the state machine that holds the provider: reason and type.\<close>

record 'w c2_mount =
  c2m_api :: "'w carrier_api"
  c2m_configuration :: operator_configuration
  c2m_name :: string
  c2m_namespace :: string
  c2m_target :: string
  c2m_container :: string
  c2m_params :: "provider_params option"
  c2m_post :: "string \<Rightarrow> string \<Rightarrow> ('w, unit) io"

abbreviation c2m_core :: "'w c2_mount \<Rightarrow> 'w core_v1" where
  "c2m_core M \<equiv> ca_core (c2m_api M)"

abbreviation c2m_apps :: "'w c2_mount \<Rightarrow> 'w apps_v1" where
  "c2m_apps M \<equiv> apps (ca_cluster (c2m_api M))"

definition CARRIER2_ORIGINAL_CONFIGMAP :: string where
  "CARRIER2_ORIGINAL_CONFIGMAP = ''gefyra-carrier2-restore-configmap''"

section \<open>Names and copies\<close>

text \<open>\<open>_split_target_type_name\<close>.\<close>

definition split_target_type_name :: "string \<Rightarrow> exn + (string \<times> workload_kind)" where
  "split_target_type_name target =
     (case split1 (CHR ''/'') target of
        [k, name] \<Rightarrow>
          (let kind = lower k in
           if kind \<in> {''deployment'', ''deploy'', ''deployments''} then Inr (name, Deployment)
           else if kind \<in> {''statefulset'', ''sts'', ''statefulsets''} then Inr (name, StatefulSet)
           else if kind \<in> {''pod'', ''po'', ''pods''} then Inr (name, PodKind)
           else Inl BridgeMountException)
      | _ \<Rightarrow> Inl BridgeMountTargetException)"

definition get_duplication_labels :: "string dict \<Rightarrow> string dict" where
  "get_duplication_labels labels = map (\<lambda>(k, v). (k, generate_k8s_conform_name v ''-gefyra'' 63)) labels"

definition clean_annotations :: "string dict \<Rightarrow> string dict" where
  "clean_annotations annotations =
     filter (\<lambda>(k, v). k \<notin> {''kubectl.kubernetes.io/last-applied-configuration'', ''deployment.kubernetes.io/revision''})
       annotations"

definition carrier_image :: "operator_configuration \<Rightarrow> string" where
  "carrier_image cfg = CARRIER2_IMAGE cfg @ '':'' @ CARRIER2_IMAGE_TAG cfg"

definition gefyra_workload_name :: "string \<Rightarrow> exn + string" where
  "gefyra_workload_name target = sbind (split_target_type_name target) (\<lambda>(name, _). Inr (name @ ''-gefyra''))"

fun kind_name :: "workload_kind \<Rightarrow> string" where
  "kind_name Deployment = ''deployment''"
| "kind_name StatefulSet = ''statefulset''"
| "kind_name PodKind = ''pod''"

definition gefyra_workload_type :: "string \<Rightarrow> exn + string" where
  "gefyra_workload_type target = sbind (split_target_type_name target) (\<lambda>(_, k). Inr (kind_name k))"

definition labels_of :: "string dict option \<Rightarrow> string dict" where
  "labels_of d = (case d of None \<Rightarrow> [] | Some l \<Rightarrow> l)"

definition DUPLICATION_ID :: string where
  "DUPLICATION_ID = ''bridge.gefyra.dev/duplication-id''"

text \<open>\<open>_clone_workload_structure\<close>; \<open>uid\<close> is the fresh identifier.\<close>

definition clone_workload_structure :: "workload \<Rightarrow> string \<Rightarrow> workload" where
  "clone_workload_structure wl uid =
     (let labels = get_duplication_labels (labels_of (wl_labels wl));
          base = wl\<lparr>wl_labels := Some labels, wl_resource_version := None, wl_uid := None,
            wl_name := generate_duplicate_workload_name (wl_name wl),
            wl_annotations := Some (clean_annotations (labels_of (wl_annotations wl)))\<rparr> in
      if wl_kind wl \<in> {Deployment, StatefulSet}
      then base\<lparr>wl_template_labels :=
                  Some (dset (get_duplication_labels (labels_of (wl_template_labels wl))) DUPLICATION_ID uid),
                wl_match_labels := Some (get_duplication_labels (labels_of (wl_match_labels wl)))\<rparr>
      else base\<lparr>wl_labels := Some (dset labels DUPLICATION_ID uid)\<rparr>)"

definition get_svc_for_workload :: "'w c2_mount \<Rightarrow> workload \<Rightarrow> exn + service" where
  "get_svc_for_workload M wl =
     sbind (split_target_type_name (c2m_target M)) (\<lambda>(name, _).
     sbind (item (labels_of (if wl_kind wl \<in> {Deployment, StatefulSet} then wl_template_labels wl else wl_labels wl))
              DUPLICATION_ID) (\<lambda>uid.
     sbind (get_ports_for_workload wl (c2m_container M)) (\<lambda>ports.
     Inr \<lparr>svc_name = generate_duplicate_svc_name name (c2m_container M), svc_namespace = None,
       svc_labels = wl_labels wl, svc_type = None, svc_selector = [(DUPLICATION_ID, uid)], svc_ports = ports\<rparr>)))"

section \<open>Autoscalers\<close>

definition find_hpa_for_deployment :: "'w c2_mount \<Rightarrow> string \<Rightarrow> ('w, hpa option) io" where
  "find_hpa_for_deployment M deployment_name =
     try_except
       (bind (ca_list_hpa (c2m_api M) (c2m_namespace M)) (\<lambda>hpas.
        ret (find (\<lambda>h. hpa_target_kind h = ''Deployment'' \<and> hpa_target_name h = deployment_name) hpas)))
       (\<lambda>e. if is_api_exception e then ret None else raise e)"

definition handle_hpa_for_deployment :: "'w c2_mount \<Rightarrow> workload \<Rightarrow> workload \<Rightarrow> ('w, unit) io" where
  "handle_hpa_for_deployment M deployment new_deployment =
     bind (find_hpa_for_deployment M (wl_name deployment)) (\<lambda>found. case found of
       None \<Rightarrow> ret ()
     | Some h \<Rightarrow>
        (let new_hpa = h\<lparr>hpa_name := generate_k8s_conform_name (wl_name deployment) ''-gefyra'' 63,
              hpa_resource_version := None, hpa_uid := None, hpa_target_name := wl_name new_deployment\<rparr> in
         try_except (ca_create_hpa (c2m_api M) (c2m_namespace M) new_hpa)
           (\<lambda>e. if status_of e = Some 409
                then ca_patch_hpa (c2m_api M) (hpa_name new_hpa) (c2m_namespace M) new_hpa
                else if is_api_exception e then raise BridgeMountInstallException else raise e)))"

section \<open>Preparation\<close>

definition get_workload :: "'w c2_mount \<Rightarrow> string \<Rightarrow> ('w, workload) io" where
  "get_workload M target =
     bind (of_sum (split_target_type_name target)) (\<lambda>(name, kind).
     try_except (read_workload (c2m_apps M) kind name (c2m_namespace M))
       (\<lambda>e. if status_of e = Some 404 then raise BridgeMountTargetException
            else if is_api_exception e then raise RuntimeError else raise e))"

text \<open>Create an object and post an event, or patch it if it is there already.\<close>

definition create_or_patch :: "('w, unit) io \<Rightarrow> ('w, unit) io \<Rightarrow> ('w, unit) io \<Rightarrow> ('w, unit) io" where
  "create_or_patch create post patch =
     try_except (thn create post)
       (\<lambda>e. if status_of e = Some 409 then patch
            else if is_api_exception e then raise BridgeInstallException else raise e)"

definition duplicate_workload :: "'w c2_mount \<Rightarrow> ('w, unit) io" where
  "duplicate_workload M =
     bind (get_workload M (c2m_target M)) (\<lambda>workload.
     bind (uuid4 (ca_host (c2m_api M))) (\<lambda>uid.
     let new_workload = clone_workload_structure workload uid; ns = c2m_namespace M in
     bind (of_sum (get_svc_for_workload M new_workload)) (\<lambda>new_svc.
     thn (if wl_kind workload = Deployment then handle_hpa_for_deployment M workload new_workload else ret ())
     (thn (create_or_patch
            (create_workload (c2m_apps M) (wl_kind workload) ns new_workload)
            (c2m_post M ''Cluster upstream'' ''Normal'')
            (patch_workload (c2m_apps M) (wl_kind workload) (wl_name new_workload) ns new_workload))
     (create_or_patch
        (create_service (c2m_core M) ns new_svc)
        (c2m_post M ''Cluster upstream service'' ''Normal'')
        (patch_service (c2m_core M) (svc_name new_svc) ns new_svc))))))"

definition mount_prepare :: "'w c2_mount \<Rightarrow> ('w, unit) io" where
  "mount_prepare M = try_except (duplicate_workload M) (\<lambda>e. raise BridgeMountInstallException)"

section \<open>Pods\<close>

definition get_pods_workload :: "'w c2_mount \<Rightarrow> string \<Rightarrow> ('w, pod list) io" where
  "get_pods_workload M name =
     bind (get_workload M name) (\<lambda>workload.
     bind (of_sum (case (if wl_kind workload \<in> {Deployment, StatefulSet} then wl_match_labels workload
                         else wl_labels workload) of
             None \<Rightarrow> Inl AttributeError | Some l \<Rightarrow> Inr l)) (\<lambda>labels.
     let label_selector = get_label_selector labels in
     if label_selector = [] then raise PlainException
     else list_pod (c2m_core M) (c2m_namespace M) label_selector))"

definition gefyra_pods :: "'w c2_mount \<Rightarrow> ('w, pod list) io" where
  "gefyra_pods M =
     bind (of_sum (gefyra_workload_type (c2m_target M))) (\<lambda>type.
     bind (of_sum (gefyra_workload_name (c2m_target M))) (\<lambda>name.
     get_pods_workload M (type @ ''/'' @ name)))"

definition original_pods :: "'w c2_mount \<Rightarrow> ('w, pod list) io" where
  "original_pods M = get_pods_workload M (c2m_target M)"

text \<open>\<open>pod_ready_and_healthy\<close>: \<open>next\<close> raises \<open>StopIteration\<close> if no status has the container's name,
  which leaves the coroutine as a \<open>RuntimeError\<close>; a status without a state raises where its attribute
  is read.\<close>

definition pod_ready_and_healthy :: "pod \<Rightarrow> string \<Rightarrow> exn + bool" where
  "pod_ready_and_healthy p container_name =
     (case pod_container_statuses p of
        None \<Rightarrow> Inr False
      | Some sts \<Rightarrow> if sts = [] then Inr False else
         (case find (\<lambda>s. cs_name s = container_name) sts of
            None \<Rightarrow> Inl RuntimeError
          | Some s \<Rightarrow>
              if \<not> (pod_phase p = ''Running'' \<and> cs_ready s \<and> cs_started s) then Inr False
              else (case cs_state s of
                 None \<Rightarrow> Inl AttributeError
               | Some st \<Rightarrow> Inr (status_running s))))"

fun async_any :: "('a \<Rightarrow> exn + bool) \<Rightarrow> 'a list \<Rightarrow> exn + bool" where
  "async_any f [] = Inr False"
| "async_any f (x # xs) = sbind (f x) (\<lambda>b. if b then Inr True else async_any f xs)"

fun async_all :: "('a \<Rightarrow> exn + bool) \<Rightarrow> 'a list \<Rightarrow> exn + bool" where
  "async_all f [] = Inr True"
| "async_all f (x # xs) = sbind (f x) (\<lambda>b. if \<not> b then Inr False else async_all f xs)"

definition original_pods_ready :: "'w c2_mount \<Rightarrow> ('w, bool) io" where
  "original_pods_ready M =
     bind (original_pods M) (\<lambda>pods. of_sum (async_all (\<lambda>p. pod_ready_and_healthy p (c2m_container M)) pods))"

definition duplicated_pods_ready :: "'w c2_mount \<Rightarrow> ('w, bool) io" where
  "duplicated_pods_ready M =
     bind (gefyra_pods M) (\<lambda>pods. of_sum (async_any (\<lambda>p. pod_ready_and_healthy p (c2m_container M)) pods))"

definition carrier_installed :: "'w c2_mount \<Rightarrow> ('w, bool) io" where
  "carrier_installed M =
     bind (original_pods M) (\<lambda>pods.
     ret (list_all (\<lambda>p. list_all (\<lambda>c. c_name c = c2m_container M \<longrightarrow>
            c_image c = carrier_image (c2m_configuration M)) (pod_containers p)) pods))"

section \<open>Installation\<close>

definition default_upstream :: "'w c2_mount \<Rightarrow> int \<Rightarrow> ('w, string list) io" where
  "default_upstream M rport =
     bind (of_sum (split_target_type_name (c2m_target M))) (\<lambda>(name, _).
     bind (read_service (c2m_core M) (generate_duplicate_svc_name name (c2m_container M)) (c2m_namespace M)) (\<lambda>svc.
     ret (get_upstreams_for_svc svc (Some rport))))"

text \<open>The probe ports of one scheme that no proxy serves; the order of the list is that of a set.\<close>

definition http_get_of :: "probe \<Rightarrow> exn + http_get_action" where
  "http_get_of p = (case pr_http_get p of None \<Rightarrow> Inl AttributeError | Some h \<Rightarrow> Inr h)"

definition is_http :: "http_get_action \<Rightarrow> bool" where
  "is_http h \<longleftrightarrow> (case hg_scheme h of None \<Rightarrow> True | Some s \<Rightarrow> s = [] \<or> lower s = ''http'')"

definition is_https :: "http_get_action \<Rightarrow> bool" where
  "is_https h \<longleftrightarrow> (case hg_scheme h of None \<Rightarrow> False | Some s \<Rightarrow> lower s = ''https'')"

definition carrier_probes :: "int list \<Rightarrow> probe list \<Rightarrow> exn + carrier_probe" where
  "carrier_probes upstream_ports probes =
     sbind (map_sum_list http_get_of probes) (\<lambda>gets.
     let free = filter (\<lambda>h. hg_port h \<notin> set upstream_ports) gets in
     Inr \<lparr>cpr_httpGet = remdups (map hg_port (filter is_http free)),
          cpr_httpsGet = remdups (map hg_port (filter is_https free))\<rparr>)"

definition set_carrier_upstream :: "'w c2_mount \<Rightarrow> int list \<Rightarrow> probe list \<Rightarrow> ('w, carrier2_config) io" where
  "set_carrier_upstream M upstream_ports probes =
     bind (map_io (\<lambda>port.
        bind (default_upstream M port) (\<lambda>up.
        bind (get_tls_from_provider_parameters (c2m_api M) (c2m_params M) port) (\<lambda>tls.
        ret ((Carrier2Proxy port)\<lparr>px_clusterUpstream := Some up, px_tls := tls\<rparr>)))) upstream_ports) (\<lambda>proxies.
     let config = Carrier2Config\<lparr>c2_proxy := proxies\<rparr> in
     if probes = [] then ret config
     else bind (of_sum (carrier_probes upstream_ports probes)) (\<lambda>cp. ret (config\<lparr>c2_probes := Some cp\<rparr>)))"

definition check_probe_compatibility :: "probe \<Rightarrow> bool" where
  "check_probe_compatibility p \<longleftrightarrow> \<not> pr_exec p \<and> \<not> pr_tcp_socket p"

definition store_pod_original_config :: "'w c2_mount \<Rightarrow> container \<Rightarrow> string \<Rightarrow> ('w, unit) io" where
  "store_pod_original_config M c pname =
     (let data = ca_json_dumps (c2m_api M) \<lparr>oc_image = c_image c, oc_command = c_command c, oc_args = c_args c\<rparr>;
          key = c2m_namespace M @ ''-'' @ pname; ns = NAMESPACE (c2m_configuration M) in
      try_except (ca_json_patch_add (c2m_api M) CARRIER2_ORIGINAL_CONFIGMAP ns key data)
        (\<lambda>e. if status_of e = Some 404
             then create_config_map (c2m_core M) ns
               \<lparr>cm_name = CARRIER2_ORIGINAL_CONFIGMAP, cm_namespace = ns, cm_labels = [], cm_data = Some [(key, data)]\<rparr>
             else raise e))"

text \<open>The container loop of \<open>install\<close>: the container before the change, the pod with the image
  replaced, the ports, the probes, and whether the pod must be patched.\<close>

definition replace_image :: "string \<Rightarrow> string \<Rightarrow> pod \<Rightarrow> pod" where
  "replace_image container_name img p =
     p\<lparr>pod_containers := (case index_where (\<lambda>c. c_name c = container_name) (pod_containers p) of
          None \<Rightarrow> pod_containers p
        | Some i \<Rightarrow> (pod_containers p)[i := (pod_containers p ! i)\<lparr>c_image := img\<rparr>])\<rparr>"

definition install_container ::
    "'w c2_mount \<Rightarrow> pod \<Rightarrow> ('w, pod \<times> int list \<times> probe list \<times> bool) io" where
  "install_container M p =
     (case find (\<lambda>c. c_name c = c2m_container M) (pod_containers p) of
        None \<Rightarrow> raise BridgeInstallException
      | Some c \<Rightarrow>
          bind (of_sum (container_ports c)) (\<lambda>upstream_ports.
          let probes = get_all_probes c; img = carrier_image (c2m_configuration M) in
          if \<not> list_all check_probe_compatibility probes then raise BridgeInstallException
          else thn (store_pod_original_config M c (pod_name p))
            (ret (replace_image (c2m_container M) img p, upstream_ports, probes, c_image c \<noteq> img))))"

text \<open>\<open>StopIteration\<close> leaves the worker thread as a \<open>RuntimeError\<close> too.\<close>

definition restarted :: "string \<Rightarrow> pod \<Rightarrow> exn + bool" where
  "restarted container_name p =
     (case pod_container_statuses p of
        None \<Rightarrow> Inl TypeError
      | Some sts \<Rightarrow> (case find (\<lambda>s. cs_name s = container_name) sts of
          None \<Rightarrow> Inl RuntimeError | Some s \<Rightarrow> Inr (0 < cs_restart_count s)))"

definition timeout_as_install_error :: "('w, unit) io \<Rightarrow> ('w, unit) io" where
  "timeout_as_install_error m = try_except m (\<lambda>e. if e = RuntimeError then raise BridgeInstallException else raise e)"

text \<open>\<open>self.params and ...\<close>: no parameters and empty parameters count as false.\<close>

definition given_params :: "provider_params option \<Rightarrow> provider_params option" where
  "given_params params = (case params of
     None \<Rightarrow> None
   | Some ps \<Rightarrow> if pp_tls ps = None \<and> pp_ports ps = [] then None else Some ps)"

definition inject_port_tls :: "'w c2_mount \<Rightarrow> string \<Rightarrow> int \<Rightarrow> ('w, unit) io" where
  "inject_port_tls M pname port =
     (case given_params (c2m_params M) of None \<Rightarrow> ret () | Some ps \<Rightarrow>
        thn (whenever (tls_cert_from_k8s_secret ps port)
              (inject_tls_file (c2m_api M) pname (c2m_container M) (c2m_namespace M) ''certificate'' ps port))
        (whenever (tls_key_from_k8s_secret ps port)
              (inject_tls_file (c2m_api M) pname (c2m_container M) (c2m_namespace M) ''key'' ps port)))"

definition commit_config :: "'w c2_mount \<Rightarrow> carrier2_config \<Rightarrow> string \<Rightarrow> ('w, unit) io" where
  "commit_config M config pname =
     timeout_as_install_error
       (commit (c2m_api M) config pname (c2m_container M) (c2m_namespace M) (CARRIER2_DEBUG (c2m_configuration M)))"

definition install_pod :: "'w c2_mount \<Rightarrow> pod \<Rightarrow> ('w, unit) io" where
  "install_pod M p =
     (if pod_phase p = ''Terminating'' then ret () else
      bind (install_container M p) (\<lambda>(p', upstream_ports, probes, patch_required).
      thn (whenever patch_required
            (thn (c2m_post M ''Patching target pod'' ''Normal'')
             (try_except (patch_pod (c2m_core M) (pod_name p) (c2m_namespace M) p')
               (\<lambda>e. if is_api_exception e then raise (TemporaryError (Some 10)) else raise e))))
      (thn (timeout_as_install_error
             (thn (wait_until_condition (ca_host (c2m_api M))
                     (read_pod_status (c2m_core M) (pod_name p) (c2m_namespace M))
                     (restarted (c2m_container M)) 120 200) (ret ())))
      (bind (set_carrier_upstream M upstream_ports probes) (\<lambda>config.
       bind (add_bridge_rules_for_mount (c2m_api M) config (c2m_name M) (NAMESPACE (c2m_configuration M)) None None) (\<lambda>config.
       thn (c2m_post M ''Update Carrier2'' ''Normal'')
       (thn (for_each (inject_port_tls M (pod_name p)) upstream_ports)
       (commit_config M config (pod_name p)))))))))"

text \<open>The controllers of the pods: the name of the first owner of those that have one.\<close>

definition owners_of :: "pod list \<Rightarrow> string set" where
  "owners_of pods = (\<lambda>p. hd (pod_owner_references p)) ` {p \<in> set pods. pod_owner_references p \<noteq> []}"

definition mount_install :: "'w c2_mount \<Rightarrow> ('w, unit) io" where
  "mount_install M =
     bind (original_pods M) (\<lambda>pods.
     if card (owners_of pods) > 1 then raise (TemporaryError (Some 10))
     else for_each (install_pod M) pods)"

section \<open>Checks\<close>

text \<open>The TLS part of \<open>_upstream_set\<close> for the ports of one container; \<open>updated\<close> is the variable the
  loop overwrites.\<close>

fun update_ports_tls ::
    "'w c2_mount \<Rightarrow> string \<Rightarrow> provider_params \<Rightarrow> bool \<Rightarrow> int list \<Rightarrow> ('w, bool) io" where
  "update_ports_tls M pname ps updated [] = ret updated"
| "update_ports_tls M pname ps updated (port # ports) =
     bind (if tls_cert_from_k8s_secret ps port
           then update_tls_file (c2m_api M) pname (c2m_container M) (c2m_namespace M) ''certificate'' ps port
           else ret updated) (\<lambda>updated.
     bind (if tls_key_from_k8s_secret ps port
           then if updated then ret True
             else update_tls_file (c2m_api M) pname (c2m_container M) (c2m_namespace M) ''key'' ps port
           else ret updated) (\<lambda>updated.
     update_ports_tls M pname ps updated ports))"

definition upstream_set_container :: "'w c2_mount \<Rightarrow> pod \<Rightarrow> container \<Rightarrow> ('w, bool) io" where
  "upstream_set_container M p c =
     (if c_name c \<noteq> c2m_container M then ret True else
      bind (of_sum (container_ports c)) (\<lambda>upstream_ports.
      bind (read_carrier2_config (c2m_api M) (pod_name p) (c2m_namespace M) (Some (c_name c))) (\<lambda>lines.
      bind (of_sum (ca_safe_load (c2m_api M) (join [CHR 0x0A] lines))) (\<lambda>pod_config.
      if \<not> list_ex (\<lambda>px. px_clusterUpstream px \<notin> {None, Some []}) (c2_proxy pod_config) then ret False
      else bind (case given_params (c2m_params M) of None \<Rightarrow> ret False
                 | Some ps \<Rightarrow> update_ports_tls M (pod_name p) ps False upstream_ports) (\<lambda>updated.
           thn (whenever updated (commit_config M pod_config (pod_name p))) (ret True))))))"

fun all_in_order :: "('a \<Rightarrow> ('w, bool) io) \<Rightarrow> 'a list \<Rightarrow> ('w, bool) io" where
  "all_in_order f [] = ret True"
| "all_in_order f (x # xs) = bind (f x) (\<lambda>b. if b then all_in_order f xs else ret False)"

definition upstream_set :: "'w c2_mount \<Rightarrow> ('w, bool) io" where
  "upstream_set M =
     bind (original_pods M) (\<lambda>pods.
     if pods = [] then ret False
     else all_in_order (\<lambda>p. all_in_order (upstream_set_container M p) (pod_containers p)) pods)"

definition mount_prepared :: "'w c2_mount \<Rightarrow> ('w, bool) io" where
  "mount_prepared M =
     thn (gefyra_pods M) (thn (original_pods M) (duplicated_pods_ready M))"

definition and_then :: "('w, bool) io \<Rightarrow> ('w, bool) io \<Rightarrow> ('w, bool) io" where
  "and_then m k = bind m (\<lambda>b. if b then k else ret False)"

text \<open>The log line of a mount that is not ready evaluates every check again.\<close>

definition mount_ready :: "'w c2_mount \<Rightarrow> ('w, bool) io" where
  "mount_ready M =
     bind (and_then (duplicated_pods_ready M) (and_then (carrier_installed M)
             (and_then (original_pods_ready M) (upstream_set M)))) (\<lambda>ready.
     thn (gefyra_pods M) (thn (original_pods M)
     (thn (if ready then ret ()
           else thn (duplicated_pods_ready M) (thn (carrier_installed M)
             (thn (original_pods_ready M) (thn (upstream_set M) (ret ())))))
     (ret ready))))"

definition mount_provider_target_exists :: "'w c2_mount \<Rightarrow> ('w, bool) io" where
  "mount_provider_target_exists M =
     bind (try_except (thn (read_namespace (c2m_core M) (c2m_namespace M)) (ret True))
       (\<lambda>e. if status_of e = Some 404 then ret False else raise e)) (\<lambda>ns.
     if \<not> ns then ret False else
     try_except (thn (get_workload M (c2m_target M)) (ret True))
       (\<lambda>e. if e = BridgeMountTargetException then ret False else raise e))"

section \<open>Removal\<close>

definition patch_pod_with_original_config :: "'w c2_mount \<Rightarrow> string \<Rightarrow> ('w, unit) io" where
  "patch_pod_with_original_config M pname =
     bind (read_pod (c2m_core M) pname (c2m_namespace M)) (\<lambda>p.
     bind (read_config_map (c2m_core M) CARRIER2_ORIGINAL_CONFIGMAP (NAMESPACE (c2m_configuration M))) (\<lambda>cm.
     bind (of_sum (case cm_data cm of
             None \<Rightarrow> Inl AttributeError
           | Some d \<Rightarrow> (case dget d (c2m_namespace M @ ''-'' @ pname) of
               None \<Rightarrow> Inl TypeError | Some s \<Rightarrow> ca_json_loads (c2m_api M) s))) (\<lambda>original.
     case index_where (\<lambda>c. c_name c = c2m_container M) (pod_containers p) of
       None \<Rightarrow> raise RuntimeError
     | Some i \<Rightarrow>
         patch_pod (c2m_core M) pname (c2m_namespace M)
           (p\<lparr>pod_containers := (pod_containers p)[i := (pod_containers p ! i)\<lparr>c_image := oc_image original,
              c_command := oc_command original, c_args := oc_args original\<rparr>]\<rparr>))))"

definition restore_original_workload :: "'w c2_mount \<Rightarrow> ('w, unit) io" where
  "restore_original_workload M =
     bind (of_sum (split_target_type_name (c2m_target M))) (\<lambda>(_, kind).
     bind (get_workload M (c2m_target M)) (\<lambda>workload.
     if wl_kind workload \<in> {Deployment, StatefulSet}
     then bind (isoformat_now (ca_host (c2m_api M))) (\<lambda>now.
       patch_workload (c2m_apps M) kind (wl_name workload) (c2m_namespace M)
         (workload\<lparr>wl_template_annotations := Some [(''kubectl.kubernetes.io/restartedAt'', now)]\<rparr>))
     else patch_pod_with_original_config M (wl_name workload)))"

definition gefyra_svc_name :: "'w c2_mount \<Rightarrow> exn + string" where
  "gefyra_svc_name M =
     sbind (split_target_type_name (c2m_target M)) (\<lambda>(name, _).
     Inr (generate_duplicate_svc_name name (c2m_container M)))"

definition uninstall_service :: "'w c2_mount \<Rightarrow> ('w, unit) io" where
  "uninstall_service M =
     bind (of_sum (gefyra_svc_name M)) (\<lambda>name.
     try_except (delete_service (c2m_core M) name (c2m_namespace M))
       (\<lambda>e. if status_of e = Some 404 then ret () else raise e))"

definition uninstall_duplicated_workload :: "'w c2_mount \<Rightarrow> ('w, unit) io" where
  "uninstall_duplicated_workload M =
     bind (of_sum (split_target_type_name (c2m_target M))) (\<lambda>(_, kind).
     bind (of_sum (gefyra_workload_name (c2m_target M))) (\<lambda>name.
     try_except
       (thn (delete_workload (c2m_apps M) kind name (c2m_namespace M))
        (bind (find_hpa_for_deployment M name) (\<lambda>found. case found of
           None \<Rightarrow> ret ()
         | Some h \<Rightarrow> ca_delete_hpa (c2m_api M) (hpa_name h) (c2m_namespace M))))
       (\<lambda>e. if status_of e = Some 404 then ret () else raise e)))"

definition mount_uninstall :: "'w c2_mount \<Rightarrow> ('w, unit) io" where
  "mount_uninstall M =
     thn (uninstall_duplicated_workload M)
     (thn (uninstall_service M)
     (try_except (restore_original_workload M) swallow))"

section \<open>Admission\<close>

text \<open>A request is a resource.\<close>

definition required_field :: "string option \<Rightarrow> bool" where
  "required_field f \<longleftrightarrow> f \<notin> {None, Some []}"

fun any_same_target :: "mount list \<Rightarrow> string \<Rightarrow> string option \<Rightarrow> exn + bool" where
  "any_same_target [] target ns = Inr False"
| "any_same_target (m # ms) target ns =
     sbind (req (mt_target m)) (\<lambda>t.
     if t \<noteq> target then any_same_target ms target ns else
     sbind (req (mt_targetNamespace m)) (\<lambda>n.
     if Some n = ns then Inr True else any_same_target ms target ns))"

definition mount_validate :: "'w c2_mount \<Rightarrow> mount \<Rightarrow> ('w, unit) io" where
  "mount_validate M request =
     (if \<not> (required_field (mt_target request) \<and> required_field (mt_targetNamespace request)
             \<and> required_field (mt_targetContainer request))
      then raise (AdmissionError ''must not be empty'') else
      bind (try_except
         (bind (of_sum (req (mt_target request))) (\<lambda>target.
          bind (of_sum (split_target_type_name target)) (\<lambda>_.
          bind (co_list_mounts (ca_custom (c2m_api M)) (NAMESPACE (c2m_configuration M))) (\<lambda>mounts.
          ret (target, mounts)))))
         (\<lambda>e. raise (AdmissionError ''Cannot read GefyraBridgeMounts''))) (\<lambda>(target, mounts).
      bind (of_sum (any_same_target mounts target (mt_targetNamespace request))) (\<lambda>dup.
      if dup then raise (AdmissionError ''A GefyraBridgeMount already exists'') else ret ())))"

section \<open>The provider\<close>

definition carrier2mount :: "'w c2_mount \<Rightarrow> 'w mount_provider" where
  "carrier2mount M = \<lparr>mp_install = mount_install M, mp_prepare = mount_prepare M,
     mp_ready = mount_ready M, mp_prepared = mount_prepared M, mp_uninstall = mount_uninstall M,
     mp_target_exists = mount_provider_target_exists M,
     mp_duplicated_pods_ready = duplicated_pods_ready M, mp_validate = mount_validate M\<rparr>"

definition Carrier2BridgeMountBuilder ::
    "'w carrier_api \<Rightarrow> operator_configuration \<Rightarrow> (string \<Rightarrow> string \<Rightarrow> ('w, unit) io)
     \<Rightarrow> string \<Rightarrow> string \<Rightarrow> string \<Rightarrow> string \<Rightarrow> provider_params option \<Rightarrow> 'w c2_mount" where
  "Carrier2BridgeMountBuilder A cfg post name namespace target container params =
     \<lparr>c2m_api = A, c2m_configuration = cfg, c2m_name = name, c2m_namespace = namespace, c2m_target = target,
      c2m_container = container, c2m_params = params, c2m_post = post\<rparr>"

text \<open>The parameters the state machine passes (\<open>self.data.get("providerParameter", {})\<close>), and the
  environment of the machine with this provider.\<close>

definition provider_parameter :: "mount \<Rightarrow> provider_params" where
  "provider_parameter mt =
     (case mt_parameter mt of None \<Rightarrow> \<lparr>pp_tls = None, pp_ports = []\<rparr> | Some ps \<Rightarrow> ps)"

definition carrier2_mount_env :: "'w operator \<Rightarrow> 'w carrier_api \<Rightarrow> exn + string \<Rightarrow> 'w mount_env" where
  "carrier2_mount_env Op A cns = \<lparr>mo_op = Op,
     mo_builder = (\<lambda>name namespace target container mt. carrier2mount
       (Carrier2BridgeMountBuilder A (op_cfg Op) (post_event Op mt) name namespace target container
         (Some (provider_parameter mt)))),
     mo_configuration_namespace = cns\<rparr>"

end
