(* ===== verification/Carrier2.thy ===== *)
theory Carrier2
  imports Carrier2Mount BridgeState
begin

text \<open>
  The bridge provider carrier2, operator/gefyra/bridge/carrier2/__init__.py: it writes the routing
  rules of all bridges of a mount into the Carrier2 proxies of the mount's pods.
\<close>

text \<open>A provider after \<open>_async_init_\<close>: \<open>c2b_resource\<close> is the cached mount resource, \<open>c2b_updated\<close>
  whether \<open>add_proxy_route\<close> has run on this object.\<close>

record 'w carrier2 =
  c2b_api :: "'w carrier_api"
  c2b_configuration :: operator_configuration
  c2b_bridge_name :: string
  c2b_bridge_mount_name :: string
  c2b_namespace :: string
  c2b_container :: string
  c2b_target :: string
  c2b_resource :: mount
  c2b_mount :: "'w c2_mount"
  c2b_updated :: bool

definition Carrier2_init ::
    "'w carrier_api \<Rightarrow> operator_configuration \<Rightarrow> (string \<Rightarrow> string \<Rightarrow> ('w, unit) io) \<Rightarrow> string \<Rightarrow> string
     \<Rightarrow> ('w, 'w carrier2) io" where
  "Carrier2_init A cfg post name target =
     bind (co_get_mount (ca_custom A) (NAMESPACE cfg) target) (\<lambda>resource.
     bind (of_sum (req (mt_targetNamespace resource))) (\<lambda>ns.
     bind (of_sum (req (mt_targetContainer resource))) (\<lambda>container.
     bind (of_sum (req (mt_target resource))) (\<lambda>mount_target.
     ret \<lparr>c2b_api = A, c2b_configuration = cfg, c2b_bridge_name = name, c2b_bridge_mount_name = target,
       c2b_namespace = ns, c2b_container = container, c2b_target = mount_target, c2b_resource = resource,
       c2b_mount = Carrier2BridgeMountBuilder A cfg post target ns mount_target container (mt_parameter resource),
       c2b_updated = False\<rparr>))))"

section \<open>Readiness\<close>

definition carrier2_pods :: "'w carrier2 \<Rightarrow> ('w, pod list) io" where
  "carrier2_pods C = original_pods (c2b_mount C)"

definition carrier2_ready :: "'w carrier2 \<Rightarrow> ('w, bool) io" where
  "carrier2_ready C =
     bind (mount_ready (c2b_mount C)) (\<lambda>r.
     if \<not> r then raise (TemporaryError None) else
     bind (carrier2_pods C) (\<lambda>pods.
     bind (of_sum (map_sum_list (\<lambda>p. pod_ready_and_healthy p (c2b_container C)) pods)) (\<lambda>bs.
     if \<not> list_all id bs then raise (TemporaryError None) else ret True)))"

section \<open>The configuration of a pod\<close>

definition cluster_upstream :: "'w carrier2 \<Rightarrow> carrier2_proxy \<Rightarrow> int \<Rightarrow> ('w, carrier2_proxy) io" where
  "cluster_upstream C proxy rport =
     bind (of_sum (gefyra_svc_name (c2b_mount C))) (\<lambda>name.
     bind (read_service (ca_core (c2b_api C)) name (c2b_namespace C)) (\<lambda>svc.
     ret (proxy\<lparr>px_clusterUpstream := Some (get_upstreams_for_svc svc (Some rport))\<rparr>)))"

definition carrier2_tls :: "'w carrier2 \<Rightarrow> carrier2_proxy \<Rightarrow> int \<Rightarrow> ('w, carrier2_proxy) io" where
  "carrier2_tls C proxy rport =
     (case given_params (mt_parameter (c2b_resource C)) of
        None \<Rightarrow> ret proxy
      | Some ps \<Rightarrow> bind (get_tls_from_provider_parameters (c2b_api C) (Some ps) rport) (\<lambda>tls.
          ret (proxy\<lparr>px_tls := tls\<rparr>)))"

definition container_proxies :: "'w carrier2 \<Rightarrow> container \<Rightarrow> ('w, carrier2_proxy list) io" where
  "container_proxies C c =
     bind (of_sum (container_ports c)) (\<lambda>ports.
     map_io (\<lambda>port. bind (cluster_upstream C (Carrier2Proxy port) port) (\<lambda>proxy. carrier2_tls C proxy port)) ports)"

definition set_proxies :: "'w carrier2 \<Rightarrow> carrier2_config \<Rightarrow> pod \<Rightarrow> ('w, carrier2_config) io" where
  "set_proxies C config p =
     bind (map_io (\<lambda>c. if c_name c = c2b_container C then container_proxies C c else ret []) (pod_containers p)) (\<lambda>pss.
     ret (config\<lparr>c2_proxy := concat pss\<rparr>))"

definition served_ports :: "carrier2_config \<Rightarrow> int list" where
  "served_ports config = concat (map (\<lambda>p. case px_port p of None \<Rightarrow> [] | Some n \<Rightarrow> if n = 0 then [] else [n])
     (c2_proxy config))"

fun set_probes_from :: "string \<Rightarrow> carrier2_config \<Rightarrow> container list \<Rightarrow> exn + carrier2_config" where
  "set_probes_from n config [] = Inr config"
| "set_probes_from n config (c # cs) =
     (if c_name c = n \<and> get_all_probes c \<noteq> []
      then sbind (carrier_probes (served_ports config) (get_all_probes c)) (\<lambda>cp.
           set_probes_from n (config\<lparr>c2_probes := Some cp\<rparr>) cs)
      else set_probes_from n config cs)"

definition base_carrier_config :: "'w carrier2 \<Rightarrow> pod \<Rightarrow> ('w, carrier2_config) io" where
  "base_carrier_config C p =
     bind (set_proxies C Carrier2Config p) (\<lambda>config.
     of_sum (set_probes_from (c2b_container C) config (pod_containers p)))"

definition update_carrier_config ::
    "'w carrier2 \<Rightarrow> string option \<Rightarrow> string option \<Rightarrow> pod \<Rightarrow> ('w, unit) io" where
  "update_carrier_config C add rm p =
     bind (base_carrier_config C p) (\<lambda>base.
     bind (add_bridge_rules_for_mount (c2b_api C) base (c2b_bridge_mount_name C)
             (NAMESPACE (c2b_configuration C)) add rm) (\<lambda>config.
     commit (c2b_api C) config (pod_name p) (c2b_container C) (c2b_namespace C)
       (CARRIER2_DEBUG (c2b_configuration C))))"

definition update_carrier_config_add :: "'w carrier2 \<Rightarrow> pod \<Rightarrow> ('w, unit) io" where
  "update_carrier_config_add C p = update_carrier_config C (Some (c2b_bridge_name C)) None p"

definition update_carrier_config_remove :: "'w carrier2 \<Rightarrow> pod \<Rightarrow> ('w, unit) io" where
  "update_carrier_config_remove C p = update_carrier_config C None (Some (c2b_bridge_name C)) p"

section \<open>Routes\<close>

text \<open>\<open>asyncio.gather\<close> of the updates of all pods: every one runs, a failure of one does not stop the
  others; the order in which they interleave is that of the list.\<close>

fun gather :: "('w, unit) io list \<Rightarrow> ('w, unit) io" where
  "gather [] = ret ()"
| "gather (m # ms) = (\<lambda>w. case m w of (r, w1) \<Rightarrow> (case gather ms w1 of (rs, w2) \<Rightarrow>
     (case r of Inl e \<Rightarrow> Inl e | Inr _ \<Rightarrow> rs, w2)))"

definition add_proxy_route :: "'w carrier2 \<Rightarrow> ('w, 'w carrier2) io" where
  "add_proxy_route C =
     (if c2b_updated C then ret C else
      bind (carrier2_ready C) (\<lambda>r.
      if \<not> r then raise RuntimeError else
      bind (carrier2_pods C) (\<lambda>pods.
      thn (gather (map (update_carrier_config_add C) pods)) (ret (C\<lparr>c2b_updated := True\<rparr>)))))"

definition remove_proxy_route :: "'w carrier2 \<Rightarrow> ('w, unit) io" where
  "remove_proxy_route C =
     bind (carrier2_ready C) (\<lambda>r.
     if \<not> r then raise RuntimeError else
     bind (carrier2_pods C) (\<lambda>pods. gather (map (update_carrier_config_remove C) pods)))"

text \<open>Is there a rule for this port with this endpoint, and does it belong to \<open>name\<close>?\<close>

definition route_in_config ::
    "carrier2_config \<Rightarrow> string \<Rightarrow> string \<Rightarrow> string \<Rightarrow> string option \<Rightarrow> exn + bool" where
  "route_in_config config container_port dest_host dest_port name =
     (if \<not> list_ex (\<lambda>px. px_bridges px \<noteq> []) (c2_proxy config) then Inr False else
      sbind (py_int container_port) (\<lambda>cport.
      case find (\<lambda>px. px_port px = Some cport) (c2_proxy config) of
        None \<Rightarrow> Inr False
      | Some px \<Rightarrow>
          if (case name of None \<Rightarrow> False | Some n \<Rightarrow> n \<noteq> [] \<and> n \<notin> set (keys (px_bridges px))) then Inr False
          else Inr (list_ex (\<lambda>b. cb_endpoint b = dest_host @ '':'' @ dest_port) (dvalues (px_bridges px)))))"

definition proxy_route_exists ::
    "'w carrier2 \<Rightarrow> string \<Rightarrow> string \<Rightarrow> string \<Rightarrow> string option \<Rightarrow> ('w, bool) io" where
  "proxy_route_exists C container_port dest_host dest_port name =
     try_except_else
       (bind (carrier2_pods C) (\<lambda>pods. of_sum (nth_item pods 0)))
       (\<lambda>e. ret False)
       (\<lambda>p. bind (read_carrier2_config (c2b_api C) (pod_name p) (pod_namespace p) None) (\<lambda>lines.
            bind (of_sum (ca_safe_load (c2b_api C) (join [CHR 0x0A] lines))) (\<lambda>config.
            of_sum (route_in_config config container_port dest_host dest_port name))))"

section \<open>Admission\<close>

text \<open>Two dictionaries with the same entries, in whatever order.\<close>

definition same_labels :: "string dict \<Rightarrow> string dict \<Rightarrow> bool" where
  "same_labels a b \<longleftrightarrow> list_all (\<lambda>k. dget a k = dget b k) (keys a @ keys b)"

text \<open>The four comparisons of \<open>and\<close>, in order: a missing key raises, a difference ends them.\<close>

definition same_bridge :: "bridge \<Rightarrow> bridge \<Rightarrow> exn + bool" where
  "same_bridge ex request =
     sbind (req (br_target ex)) (\<lambda>a. sbind (req (br_target request)) (\<lambda>b. if a \<noteq> b then Inr False else
     sbind (req (cr_labels ex)) (\<lambda>a. sbind (req (cr_labels request)) (\<lambda>b. if \<not> same_labels a b then Inr False else
     sbind (req (br_destinationIP ex)) (\<lambda>a. sbind (req (br_destinationIP request)) (\<lambda>b. if a \<noteq> b then Inr False else
     sbind (req (br_parameter ex)) (\<lambda>a. sbind (req (br_parameter request)) (\<lambda>b. Inr (a = b)))))))))"

fun any_same :: "bridge list \<Rightarrow> bridge \<Rightarrow> exn + bool" where
  "any_same [] request = Inr False"
| "any_same (b # bs) request = sbind (same_bridge b request) (\<lambda>s. if s then Inr True else any_same bs request)"

definition carrier2_validate :: "'w carrier2 \<Rightarrow> bridge \<Rightarrow> ('w, unit) io" where
  "carrier2_validate C request =
     (let api = ca_custom (c2b_api C); ns = NAMESPACE (c2b_configuration C) in
      if \<not> (case cr_labels request of None \<Rightarrow> False | Some l \<Rightarrow>
              dget l ''gefyra.dev/bridge-mount'' \<noteq> None \<and> dget l ''gefyra.dev/client'' \<noteq> None)
      then raise (AdmissionError ''labels'') else
      bind (try_except
         (bind (of_sum (req (br_target request))) (\<lambda>target. co_get_mount api ns target))
         (\<lambda>e. raise (AdmissionError ''The target GefyraBridgeMounts does not exist or cannot be read''))) (\<lambda>mt.
      if cr_state mt \<noteq> ''ACTIVE'' then raise (AdmissionError ''The target GefyraBridgeMounts is not in ACTIVE state'')
      else
      bind (try_except (co_list_bridges api ns None) (\<lambda>e. raise (AdmissionError ''Cannot read GefyraBridges''))) (\<lambda>bridges.
      bind (of_sum (any_same bridges request)) (\<lambda>dup.
      if dup then raise (AdmissionError ''A GefyraBridge with these target parameters already exists'') else ret ()))))"

section \<open>The provider\<close>

definition carrier2_provider :: "'w carrier2 \<Rightarrow> 'w abstract_bridge_provider" where
  "carrier2_provider C = \<lparr>bp_install = ret (), bp_installed = carrier2_ready C, bp_ready = carrier2_ready C,
     bp_uninstall = ret (),
     bp_add_proxy_route = (\<lambda>container_port dest_host dest_port. thn (add_proxy_route C) (ret ())),
     bp_remove_proxy_route = (\<lambda>container_port dest_host dest_port. remove_proxy_route C),
     bp_proxy_route_exists = proxy_route_exists C,
     bp_validate = carrier2_validate C\<rparr>"

definition Carrier2Builder ::
    "'w carrier_api \<Rightarrow> operator_configuration \<Rightarrow> (string \<Rightarrow> string \<Rightarrow> ('w, unit) io)
     \<Rightarrow> string \<Rightarrow> string \<Rightarrow> string \<Rightarrow> string \<Rightarrow> ('w, 'w abstract_bridge_provider) io" where
  "Carrier2Builder A cfg post name target_namespace target target_container =
     bind (Carrier2_init A cfg post name target) (\<lambda>C. ret (carrier2_provider C))"

end
