(* ===== verification/MemCarrier.thy ===== *)
theory MemCarrier
  imports Carrier2 MemOperator
begin

text \<open>
  Concrete functions for the parameters of the Carrier providers, over the in-memory cluster: used only
  to show that the hypotheses of the properties can hold together.  The shell of every pod answers as a
  Carrier2 that started with the configuration \<open>config\<close>.
\<close>

definition mem_carrier :: "carrier2_config \<Rightarrow> mem carrier_api" where
  "mem_carrier config = \<lparr>ca_cluster = mem_cluster, ca_custom = mem_custom,
     ca_stream_exec = (\<lambda>n ns c cmds stop. ret (Some ''Bootstrap starting'')),
     ca_stream_cat = (\<lambda>n ns c file. ret ([''cfg''], None)),
     ca_safe_dump = (\<lambda>c. ''cfg''), ca_safe_load = (\<lambda>s. Inr config),
     ca_json_dumps = oc_image, ca_json_loads = (\<lambda>s. Inr \<lparr>oc_image = s, oc_command = None, oc_args = None\<rparr>),
     ca_b64decode = Inr, ca_cache = mm_cache, ca_set_cache = (\<lambda>c m. m\<lparr>mm_cache := c\<rparr>),
     ca_json_patch_add = (\<lambda>n ns key v. mem_patch_config_map n [(key, v)]),
     ca_list_hpa = (\<lambda>ns. ret []), ca_create_hpa = (\<lambda>ns h. ret ()), ca_patch_hpa = (\<lambda>n ns h. ret ()),
     ca_delete_hpa = (\<lambda>n ns. ret ())\<rparr>"

lemma mem_carrier_simps [simp]:
  "ca_cluster (mem_carrier config) = mem_cluster" "ca_custom (mem_carrier config) = mem_custom"
  "ca_stream_exec (mem_carrier config) = (\<lambda>n ns c cmds stop. ret (Some ''Bootstrap starting''))"
  "ca_stream_cat (mem_carrier config) = (\<lambda>n ns c file. ret ([''cfg''], None))"
  "ca_safe_load (mem_carrier config) = (\<lambda>s. Inr config)" "ca_b64decode (mem_carrier config) = Inr"
  "ca_cache (mem_carrier config) = mm_cache" "ca_set_cache (mem_carrier config) = (\<lambda>c m. m\<lparr>mm_cache := c\<rparr>)"
  "ca_json_dumps (mem_carrier config) = oc_image"
  "ca_json_loads (mem_carrier config) = (\<lambda>s. Inr \<lparr>oc_image = s, oc_command = None, oc_args = None\<rparr>)"
  "ca_json_patch_add (mem_carrier config) = (\<lambda>n ns key v. mem_patch_config_map n [(key, v)])"
  by (simp_all add: mem_carrier_def)

text \<open>A deployment \<open>web\<close> with one container and one pod.\<close>

definition sample_container :: container where
  "sample_container = \<lparr>c_name = ''nginx'', c_image = ''nginx:1'', c_command = None, c_args = None,
     c_ports = Some [\<lparr>cp_container_port = 80, cp_protocol = None\<rparr>], c_startup_probe = None,
     c_readiness_probe = None, c_liveness_probe = None, c_image_pull_policy = None, c_requests = [],
     c_limits = [], c_env_from = [], c_privileged = False, c_capabilities = [], c_volume_mounts = []\<rparr>"

definition sample_pod :: pod where
  "sample_pod = \<lparr>pod_name = ''web-1'', pod_namespace = ''default'', pod_labels = Some [(''app'', ''web'')],
     pod_owner_references = [''web''], pod_phase = ''Running'', pod_containers = [sample_container],
     pod_container_statuses = Some [\<lparr>cs_name = ''nginx'', cs_ready = True, cs_started = True,
       cs_state = Some \<lparr>running = Some \<lparr>started_at = Some ''now''\<rparr>\<rparr>, cs_restart_count = 1\<rparr>]\<rparr>"

definition sample_workload :: workload where
  "sample_workload = \<lparr>wl_kind = Deployment, wl_name = ''web'', wl_namespace = Some ''default'',
     wl_labels = Some [(''app'', ''web'')], wl_annotations = None, wl_resource_version = Some ''1'',
     wl_uid = Some ''u'', wl_match_labels = Some [(''app'', ''web'')],
     wl_template_labels = Some [(''app'', ''web'')], wl_template_annotations = None,
     wl_containers = [sample_container], wl_replicas = Some 1, wl_service_name = None,
     wl_service_account_name = None, wl_config_map_volumes = [], wl_host_path_volumes = [],
     wl_volume_claims = []\<rparr>"

definition mem_web :: mem where
  "mem_web = mem_empty\<lparr>mm_workloads := [(''web'', sample_workload)], mm_pods := [(''web-1'', sample_pod)]\<rparr>"

definition mem_c2_mount :: "carrier2_config \<Rightarrow> mem c2_mount" where
  "mem_c2_mount config = Carrier2BridgeMountBuilder (mem_carrier config) default_configuration (\<lambda>r t. ret ())
     ''m1'' ''default'' ''deploy/web'' ''nginx'' (Some \<lparr>pp_tls = None, pp_ports = []\<rparr>)"

lemma mem_c2_mount_simps [simp]:
  "c2m_api (mem_c2_mount config) = mem_carrier config" "c2m_configuration (mem_c2_mount config) = default_configuration"
  "c2m_name (mem_c2_mount config) = ''m1''" "c2m_namespace (mem_c2_mount config) = ''default''"
  "c2m_target (mem_c2_mount config) = ''deploy/web''" "c2m_container (mem_c2_mount config) = ''nginx''"
  "c2m_params (mem_c2_mount config) = Some \<lparr>pp_tls = None, pp_ports = []\<rparr>"
  "c2m_post (mem_c2_mount config) = (\<lambda>r t. ret ())"
  by (simp_all add: mem_c2_mount_def Carrier2BridgeMountBuilder_def)

lemma split_deploy_web: "split_target_type_name ''deploy/web'' = Inr (''web'', Deployment)"
  by code_simp

definition carrier_mount :: mount where
  "carrier_mount = \<lparr>cr_name = ''m1'', cr_namespace = ''gefyra'', cr_labels = None, cr_state = ''ACTIVE'',
     cr_transitions = None, cr_sunset = None, mt_provider = Some ''carrier2mount'', mt_target = Some ''deploy/web'',
     mt_targetNamespace = Some ''default'', mt_targetContainer = Some ''nginx'', mt_missingGracePeriod = None,
     mt_parameter = None\<rparr>"

definition mem_carrier2 :: "carrier2_config \<Rightarrow> mem carrier2" where
  "mem_carrier2 config = \<lparr>c2b_api = mem_carrier config, c2b_configuration = default_configuration,
     c2b_bridge_name = ''b1'', c2b_bridge_mount_name = ''m1'', c2b_namespace = ''default'',
     c2b_container = ''nginx'', c2b_target = ''deploy/web'', c2b_resource = carrier_mount,
     c2b_mount = mem_c2_mount config, c2b_updated = False\<rparr>"

lemma mem_original_pods: "original_pods (mem_c2_mount config) mem_web = (Inr [sample_pod], mem_web)"
proof -
  have "selects ''app=web'' [(''app'', ''web'')]" by code_simp
  moreover have "get_label_selector [(''app'', ''web'')] = ''app=web''" by code_simp
  ultimately show ?thesis
    by (simp add: original_pods_def get_pods_workload_def get_workload_def split_deploy_web mem_apps_def
        mem_read_def mem_web_def mem_empty_def try_except_def sample_workload_def bind_def mem_core_def
        sample_pod_def dvalues_def routes_data_def)
qed

end
