(* ===== verification/CarrierRules.thy ===== *)
theory CarrierRules
  imports MemCarrier
begin

text \<open>
  The routing rules of Carrier2: which bridges end up on which proxy, what a broken bridge does to the
  others, and that a route that was committed is found again.
\<close>

section \<open>Proxies by port\<close>

definition proxy_ports :: "carrier2_proxy list \<Rightarrow> int option list" where
  "proxy_ports ps = map px_port ps"

lemma index_where_map: "index_where p (map f xs) = index_where (p \<circ> f) xs"
  by (induction xs) simp_all

lemma proxy_index_ports: "proxy_index ps rport = index_where (\<lambda>p. p = Some rport) (proxy_ports ps)"
  by (simp add: proxy_index_def proxy_ports_def index_where_map comp_def)

lemma proxy_index_Some:
  "proxy_index ps rport = Some i \<Longrightarrow> i < length ps \<and> px_port (ps ! i) = Some rport"
  unfolding proxy_index_def using index_where_Some by blast

lemma find_index: "find p xs = map_option (\<lambda>i. xs ! i) (index_where p xs)"
  by (induction xs) (auto simp: option.map_comp comp_def)

lemma proxy_ports_put [simp]:
  "proxy_ports (ps[i := put_bridge n cb (ps ! i)]) = proxy_ports ps"
proof (rule nth_equalityI)
  fix k assume "k < length (proxy_ports (ps[i := put_bridge n cb (ps ! i)]))"
  then show "proxy_ports (ps[i := put_bridge n cb (ps ! i)]) ! k = proxy_ports ps ! k"
    by (cases "k = i") (simp_all add: proxy_ports_def put_bridge_def)
qed (simp add: proxy_ports_def)

lemma proxy_index_put [simp]:
  "proxy_index (ps[i := put_bridge n cb (ps ! i)]) rport = proxy_index ps rport"
  by (simp add: proxy_index_ports)

section \<open>The ports of one bridge\<close>

text \<open>A mapping the proxies can serve, a bridge all of whose mappings are, and the proxies a bridge
  has a mapping for.\<close>

definition servable :: "carrier2_proxy list \<Rightarrow> bridge \<Rightarrow> string \<Rightarrow> bool" where
  "servable ps br m \<longleftrightarrow> (\<exists>rport i cb. mapping_port m = Inr rport \<and> proxy_index ps rport = Some i
     \<and> convert_bridge_to_rule br rport = Inr cb)"

definition installable :: "carrier2_proxy list \<Rightarrow> bridge \<Rightarrow> bool" where
  "installable ps br \<longleftrightarrow> (\<exists>ms. br_portMappings br = Some ms \<and> (\<forall>m \<in> set ms. servable ps br m))"

definition mapped_to :: "carrier2_proxy list \<Rightarrow> string list \<Rightarrow> nat \<Rightarrow> bool" where
  "mapped_to ps ms i \<longleftrightarrow> (\<exists>m \<in> set ms. \<exists>rport. mapping_port m = Inr rport \<and> proxy_index ps rport = Some i)"

definition routed :: "carrier2_proxy list \<Rightarrow> bridge \<Rightarrow> nat \<Rightarrow> bool" where
  "routed ps br i \<longleftrightarrow> (\<exists>ms. br_portMappings br = Some ms \<and> mapped_to ps ms i)"

lemma servable_ports: "proxy_ports ps = proxy_ports ps' \<Longrightarrow> servable ps br m = servable ps' br m"
  by (simp add: servable_def proxy_index_ports)

lemma installable_ports: "proxy_ports ps = proxy_ports ps' \<Longrightarrow> installable ps br = installable ps' br"
  using servable_ports [of ps ps' br] by (simp add: installable_def)

lemma routed_ports: "proxy_ports ps = proxy_ports ps' \<Longrightarrow> routed ps br i = routed ps' br i"
  by (simp add: routed_def mapped_to_def proxy_index_ports)

lemma mapped_to_ports: "proxy_ports ps = proxy_ports ps' \<Longrightarrow> mapped_to ps ms i = mapped_to ps' ms i"
  by (simp add: mapped_to_def proxy_index_ports)

lemma add_ports_ports: "proxy_ports (fst (add_ports br ps ms)) = proxy_ports ps"
proof (induction br ps ms rule: add_ports.induct)
  case (2 br ps m ms)
  then show ?case by (simp split: sum.split option.split)
qed simp

lemma add_ports_success: "snd (add_ports br ps ms) = None \<longleftrightarrow> (\<forall>m \<in> set ms. servable ps br m)"
proof (induction br ps ms rule: add_ports.induct)
  case (2 br ps m ms)
  show ?case
  proof (cases "servable ps br m")
    case True
    then obtain rport i cb where r: "mapping_port m = Inr rport" "proxy_index ps rport = Some i"
        "convert_bridge_to_rule br rport = Inr cb" by (auto simp: servable_def)
    have "servable (ps[i := put_bridge (cr_name br) cb (ps ! i)]) br m' = servable ps br m'" for m'
      by (rule servable_ports) simp
    with r True 2 [OF r] show ?thesis by simp
  next
    case False
    then show ?thesis by (auto simp: servable_def split: sum.split option.split)
  qed
qed simp

text \<open>What the proxies hold afterwards: the rule of this bridge where it is mapped, and else what they
  held before.\<close>

lemma add_ports_bridges:
  assumes "\<forall>m \<in> set ms. servable ps br m" and "i < length ps"
  shows "dget (px_bridges (fst (add_ports br ps ms) ! i)) n =
    (if n = cr_name br \<and> mapped_to ps ms i
     then Some (projr (convert_bridge_to_rule br (the (px_port (ps ! i)))))
     else dget (px_bridges (ps ! i)) n)"
  using assms
proof (induction br ps ms rule: add_ports.induct)
  case (2 br ps m ms)
  from "2.prems" obtain rport k cb where r: "mapping_port m = Inr rport" "proxy_index ps rport = Some k"
      "convert_bridge_to_rule br rport = Inr cb" by (auto simp: servable_def)
  define qs where "qs = ps[k := put_bridge (cr_name br) cb (ps ! k)]"
  have ports: "proxy_ports qs = proxy_ports ps" by (simp add: qs_def)
  then have port: "px_port (qs ! i) = px_port (ps ! i)"
    using "2.prems"(2) by (metis (no_types, lifting) length_map nth_map proxy_ports_def)
  have len: "length qs = length ps" by (simp add: qs_def)
  have prem: "\<forall>m \<in> set ms. servable qs br m"
    using "2.prems"(1) by (simp add: servable_ports [OF ports])
  have IH: "dget (px_bridges (fst (add_ports br qs ms) ! i)) n =
    (if n = cr_name br \<and> mapped_to qs ms i
     then Some (projr (convert_bridge_to_rule br (the (px_port (qs ! i)))))
     else dget (px_bridges (qs ! i)) n)"
    using "2.IH" [OF r, of ] prem "2.prems"(2) len by (simp add: qs_def)
  have k: "px_port (ps ! k) = Some rport" "k < length ps" using proxy_index_Some [OF r(2)] by simp_all
  have here: "mapped_to ps (m # ms) i \<longleftrightarrow> k = i \<or> mapped_to ps ms i"
    using r by (auto simp: mapped_to_def)
  have now: "dget (px_bridges (qs ! i)) x =
      (if i = k \<and> x = cr_name br then Some cb else dget (px_bridges (ps ! i)) x)" for x
    using k by (simp add: qs_def put_bridge_def dget_dset nth_list_update)
  show ?case
    using IH r k by (auto simp: qs_def [symmetric] here now mapped_to_ports [OF ports] port split: if_splits)
qed (simp add: mapped_to_def)

section \<open>The bridges of a mount\<close>

text \<open>The bridges that are to be written: all but the one that is removed.\<close>

definition kept :: "string option \<Rightarrow> bridge list \<Rightarrow> bridge list" where
  "kept rm brs = filter (\<lambda>b. rm \<noteq> Some (cr_name b)) brs"

lemma kept_simps [simp]:
  "kept rm [] = []"
  "rm = Some (cr_name b) \<Longrightarrow> kept rm (b # brs) = kept rm brs"
  "rm \<noteq> Some (cr_name b) \<Longrightarrow> kept rm (b # brs) = b # kept rm brs"
  by (simp_all add: kept_def)

lemma add_bridges_step:
  assumes "rm \<noteq> Some (cr_name br)" and "installable ps br"
  obtains ps1 where "add_bridges add rm ps (br # brs) = add_bridges add rm ps1 brs"
    and "proxy_ports ps1 = proxy_ports ps"
    and "\<And>i n. i < length ps \<Longrightarrow> dget (px_bridges (ps1 ! i)) n =
      (if n = cr_name br \<and> routed ps br i
       then Some (projr (convert_bridge_to_rule br (the (px_port (ps ! i)))))
       else dget (px_bridges (ps ! i)) n)"
proof -
  from assms(2) obtain ms where ms: "br_portMappings br = Some ms" "\<forall>m \<in> set ms. servable ps br m"
    by (auto simp: installable_def)
  let ?r = "add_ports br ps ms"
  have none: "snd ?r = None" by (simp add: add_ports_success ms)
  show ?thesis
  proof (rule that [of "fst ?r"])
    show "add_bridges add rm ps (br # brs) = add_bridges add rm (fst ?r) brs"
      using none assms(1) ms by (cases ?r) simp
    show "proxy_ports (fst ?r) = proxy_ports ps" by (rule add_ports_ports)
    show "dget (px_bridges (fst ?r ! i)) n =
      (if n = cr_name br \<and> routed ps br i
       then Some (projr (convert_bridge_to_rule br (the (px_port (ps ! i)))))
       else dget (px_bridges (ps ! i)) n)" if "i < length ps" for i n
      using add_ports_bridges [OF ms(2) that, of n] ms(1) by (simp add: routed_def)
  qed
qed

lemma ports_length: "proxy_ports ps = proxy_ports qs \<Longrightarrow> length ps = length qs"
  by (metis length_map proxy_ports_def)

lemma ports_nth: "proxy_ports ps = proxy_ports qs \<Longrightarrow> i < length ps \<Longrightarrow> px_port (ps ! i) = px_port (qs ! i)"
  by (metis (no_types, lifting) length_map nth_map proxy_ports_def)

lemma add_bridges_complete:
  assumes "\<forall>br \<in> set (kept rm brs). installable ps br" and "distinct (map cr_name (kept rm brs))"
  shows "\<exists>ps'. add_bridges add rm ps brs = Inr ps' \<and> proxy_ports ps' = proxy_ports ps
    \<and> (\<forall>i < length ps. \<forall>n. dget (px_bridges (ps' ! i)) n =
        (case find (\<lambda>b. cr_name b = n \<and> routed ps b i) (kept rm brs) of
           Some b \<Rightarrow> Some (projr (convert_bridge_to_rule b (the (px_port (ps ! i)))))
         | None \<Rightarrow> dget (px_bridges (ps ! i)) n))"
  using assms
proof (induction brs arbitrary: ps)
  case (Cons br brs)
  show ?case
  proof (cases "rm = Some (cr_name br)")
    case True
    then have "kept rm (br # brs) = kept rm brs"
      "add_bridges add rm ps (br # brs) = add_bridges add rm ps brs" by simp_all
    with Cons.IH [of ps] Cons.prems show ?thesis by (simp only:)
  next
    case False
    with Cons.prems(1) have "installable ps br" by simp
    from add_bridges_step [OF False this] obtain ps1 where ps1:
        "add_bridges add rm ps (br # brs) = add_bridges add rm ps1 brs"
        "proxy_ports ps1 = proxy_ports ps"
        "\<And>i n. i < length ps \<Longrightarrow> dget (px_bridges (ps1 ! i)) n =
          (if n = cr_name br \<and> routed ps br i
           then Some (projr (convert_bridge_to_rule br (the (px_port (ps ! i)))))
           else dget (px_bridges (ps ! i)) n)" by metis
    have "\<forall>b \<in> set (kept rm brs). installable ps1 b"
      using Cons.prems(1) False by (simp add: installable_ports [OF ps1(2)])
    with Cons.IH [of ps1] Cons.prems(2) False obtain ps' where ps':
        "add_bridges add rm ps1 brs = Inr ps'" "proxy_ports ps' = proxy_ports ps1"
        "\<forall>i < length ps1. \<forall>n. dget (px_bridges (ps' ! i)) n =
          (case find (\<lambda>b. cr_name b = n \<and> routed ps1 b i) (kept rm brs) of
             Some b \<Rightarrow> Some (projr (convert_bridge_to_rule b (the (px_port (ps1 ! i)))))
           | None \<Rightarrow> dget (px_bridges (ps1 ! i)) n)" by auto
    have other: "find (\<lambda>b. cr_name b = cr_name br \<and> routed ps b i) (kept rm brs) = None" for i
      using Cons.prems(2) False by (auto simp: find_None_iff rev_image_eqI)
    have "dget (px_bridges (ps' ! i)) n =
        (case find (\<lambda>b. cr_name b = n \<and> routed ps b i) (kept rm (br # brs)) of
           Some b \<Rightarrow> Some (projr (convert_bridge_to_rule b (the (px_port (ps ! i)))))
         | None \<Rightarrow> dget (px_bridges (ps ! i)) n)" if i: "i < length ps" for i n
      using ps'(3) ps1(3) [OF i, of n] i other [of i] False ports_nth [OF ps1(2), of i]
        ports_length [OF ps1(2)]
      by (auto simp: routed_ports [OF ps1(2)] split: option.split)
    with ps1 ps' show ?thesis by auto
  qed
qed simp

text \<open>C25: The configuration written for a mount routes exactly its bridges: on every proxy, a bridge
  that has a mapping for the proxy's port and is not the one that is removed has its rule there, and
  nothing else changes.\<close>

theorem mount_rules_complete:
  assumes "\<forall>br \<in> set (kept rm brs). installable ps br" and "distinct (map cr_name (kept rm brs))"
  shows "\<exists>ps'. add_bridges add rm ps brs = Inr ps' \<and> proxy_ports ps' = proxy_ports ps
    \<and> (\<forall>i < length ps. \<forall>n. dget (px_bridges (ps' ! i)) n =
        (case find (\<lambda>b. cr_name b = n \<and> routed ps b i) (kept rm brs) of
           Some b \<Rightarrow> Some (projr (convert_bridge_to_rule b (the (px_port (ps ! i)))))
         | None \<Rightarrow> dget (px_bridges (ps ! i)) n))"
  by (rule add_bridges_complete [OF assms])

section \<open>Broken bridges\<close>

lemma add_bridges_outcome:
  assumes "\<forall>br \<in> set (kept rm brs). br_portMappings br \<noteq> None"
  shows "(case add_bridges add rm ps brs of
     Inl e \<Rightarrow> e = BridgeInstallException
       \<and> (\<exists>br \<in> set (kept rm brs). add = Some (cr_name br) \<and> cr_name br \<noteq> [] \<and> \<not> installable ps br)
   | Inr ps' \<Rightarrow> proxy_ports ps' = proxy_ports ps
       \<and> (\<forall>br \<in> set (kept rm brs). add = Some (cr_name br) \<and> cr_name br \<noteq> [] \<longrightarrow> installable ps br))"
  using assms
proof (induction brs arbitrary: ps)
  case (Cons br brs)
  show ?case
  proof (cases "rm = Some (cr_name br)")
    case True
    then have "kept rm (br # brs) = kept rm brs"
      "add_bridges add rm ps (br # brs) = add_bridges add rm ps brs" by simp_all
    with Cons.IH [of ps] Cons.prems show ?thesis by (simp only:)
  next
    case False
    with Cons.prems obtain ms where ms: "br_portMappings br = Some ms" by auto
    obtain ps1 r where r: "add_ports br ps ms = (ps1, r)" by (cases "add_ports br ps ms") simp
    have ports: "proxy_ports ps1 = proxy_ports ps" using add_ports_ports [of br ps ms] r by simp
    have inst: "installable ps br \<longleftrightarrow> r = None"
      using add_ports_success [of br ps ms] r ms by (auto simp: installable_def)
    have IH: "case add_bridges add rm ps1 brs of
        Inl e \<Rightarrow> e = BridgeInstallException
          \<and> (\<exists>b \<in> set (kept rm brs). add = Some (cr_name b) \<and> cr_name b \<noteq> [] \<and> \<not> installable ps b)
      | Inr ps' \<Rightarrow> proxy_ports ps' = proxy_ports ps
          \<and> (\<forall>b \<in> set (kept rm brs). add = Some (cr_name b) \<and> cr_name b \<noteq> [] \<longrightarrow> installable ps b)"
      using Cons.IH [of ps1] Cons.prems False ports installable_ports [OF ports] by (auto split: sum.splits)
    show ?thesis
    proof (cases r)
      case None
      then have "add_bridges add rm ps (br # brs) = add_bridges add rm ps1 brs" using False ms r by simp
      with IH inst None False show ?thesis by (auto split: sum.splits)
    next
      case (Some e)
      show ?thesis
      proof (cases "add = Some (cr_name br) \<and> cr_name br \<noteq> []")
        case True
        then show ?thesis using False ms r Some inst by auto
      next
        case no: False
        then have "add_bridges add rm ps (br # brs) = add_bridges add rm ps1 brs"
          using False ms r Some by auto
        with IH no False show ?thesis by (auto split: sum.splits)
      qed
    qed
  qed
qed simp

text \<open>Only the bridge that is being added can make the update of a mount's rules fail, and it does
  exactly if one of its mappings cannot be served; every other broken bridge is passed over.\<close>

theorem only_added_bridge_fails:
  assumes "\<forall>br \<in> set (kept rm brs). br_portMappings br \<noteq> None"
  shows "(add_bridges add rm ps brs = Inl BridgeInstallException \<longleftrightarrow>
      (\<exists>br \<in> set (kept rm brs). add = Some (cr_name br) \<and> cr_name br \<noteq> [] \<and> \<not> installable ps br))
    \<and> (\<forall>e. add_bridges add rm ps brs = Inl e \<longrightarrow> e = BridgeInstallException)"
  using add_bridges_outcome [OF assms, of add ps] by (auto split: sum.splits)

section \<open>Routes that are found again\<close>

definition no_bridges :: "carrier2_proxy list \<Rightarrow> bool" where
  "no_bridges ps \<longleftrightarrow> (\<forall>px \<in> set ps. px_bridges px = [])"

text \<open>Reading the proxy configuration of the first pod gives back \<open>config\<close>.\<close>

definition reads_back :: "'w carrier2 \<Rightarrow> carrier2_config \<Rightarrow> 'w \<Rightarrow> bool" where
  "reads_back C config w \<longleftrightarrow> (\<exists>p pods w1 lines w2. carrier2_pods C w = (Inr (p # pods), w1)
     \<and> read_carrier2_config (c2b_api C) (pod_name p) (pod_namespace p) None w1 = (Inr lines, w2)
     \<and> ca_safe_load (c2b_api C) (join [CHR 0x0A] lines) = Inr config)"

lemma proxy_route_exists_read:
  "reads_back C config w \<Longrightarrow>
    fst (proxy_route_exists C cport dest_host dest_port name w) = route_in_config config cport dest_host dest_port name"
  by (auto simp: reads_back_def proxy_route_exists_def try_except_else_def nth_item_def bind_def)

lemma dvalues_dget: "dget d k = Some v \<Longrightarrow> v \<in> set (dvalues d)"
  by (force dest: dget_Some_in simp: dvalues_def)

lemma dget_key: "dget d k = Some v \<Longrightarrow> k \<in> set (keys d)"
  by (force dest: dget_Some_in simp: keys_def)

lemma key_dget: "k \<in> set (keys d) \<Longrightarrow> dget d k \<noteq> None"
  by (induction d) auto

lemma rule_endpoint:
  "convert_bridge_to_rule br rport = Inr cb \<Longrightarrow> br_clusterEndpoint br = Some eps \<Longrightarrow>
    dget eps (str_int rport) = Some (cb_endpoint cb)"
  by (auto simp: convert_bridge_to_rule_def)

lemma route_found:
  assumes i: "proxy_index ps rport = Some i" and cport: "py_int cport = Inr rport"
    and b: "dget (px_bridges (ps ! i)) n = Some cb" and e: "cb_endpoint cb = dest_host @ '':'' @ dest_port"
  shows "route_in_config (config\<lparr>c2_proxy := ps\<rparr>) cport dest_host dest_port (Some n) = Inr True"
proof -
  have l: "i < length ps" using proxy_index_Some [OF i] by simp
  have "px_bridges (ps ! i) \<noteq> []" using b by auto
  with l have any: "list_ex (\<lambda>px. px_bridges px \<noteq> []) ps" by (auto simp: list_ex_iff)
  have f: "find (\<lambda>px. px_port px = Some rport) ps = Some (ps ! i)"
    using i by (simp add: find_index proxy_index_def)
  show ?thesis
    using any cport f dget_key [OF b] dvalues_dget [OF b] e
    by (auto simp: route_in_config_def list_ex_iff)
qed

lemma route_missing:
  assumes cport: "py_int cport = Inr rport" and n: "n \<noteq> []"
    and none: "\<And>i. i < length ps \<Longrightarrow> dget (px_bridges (ps ! i)) n = None"
  shows "route_in_config (config\<lparr>c2_proxy := ps\<rparr>) cport dest_host dest_port (Some n) = Inr False"
proof (cases "find (\<lambda>px. px_port px = Some rport) ps")
  case (Some px)
  then obtain i where "i < length ps" "px = ps ! i" by (auto simp: find_Some_iff)
  with none key_dget [of n "px_bridges px"] have "n \<notin> set (keys (px_bridges px))" by auto
  with Some cport n show ?thesis by (simp add: route_in_config_def)
qed (use cport in \<open>simp add: route_in_config_def\<close>)

lemma route_after_update:
  assumes ok: "\<forall>b \<in> set (kept rm brs). installable ps b" and d: "distinct (map cr_name (kept rm brs))"
    and r: "add_bridges add rm ps brs = Inr ps'"
    and br: "br \<in> set (kept rm brs)" "br_portMappings br = Some ms" "m \<in> set ms"
    and port: "mapping_port m = Inr rport" and cport: "py_int cport = Inr rport"
    and ep: "br_clusterEndpoint br = Some eps" "dget eps (str_int rport) = Some (dest_host @ '':'' @ dest_port)"
  shows "route_in_config (config\<lparr>c2_proxy := ps'\<rparr>) cport dest_host dest_port (Some (cr_name br)) = Inr True"
proof -
  from ok br have "servable ps br m" by (auto simp: installable_def)
  with port obtain i cb where i: "proxy_index ps rport = Some i" and cb: "convert_bridge_to_rule br rport = Inr cb"
    by (auto simp: servable_def)
  have routed: "routed ps br i" using br port i by (auto simp: routed_def mapped_to_def)
  have l: "i < length ps" "px_port (ps ! i) = Some rport" using proxy_index_Some [OF i] by auto
  have f: "find (\<lambda>b. cr_name b = cr_name br \<and> routed ps b i) (kept rm brs) = Some br"
  proof (cases "find (\<lambda>b. cr_name b = cr_name br \<and> routed ps b i) (kept rm brs)")
    case None
    with br routed show ?thesis by (auto simp: find_None_iff)
  next
    case (Some b)
    then have "b \<in> set (kept rm brs)" "cr_name b = cr_name br" by (auto simp: find_Some_iff)
    with d br(1) have "b = br" by (metis distinct_map inj_onD)
    with Some show ?thesis by simp
  qed
  from add_bridges_complete [OF ok d, of add] r have spec: "proxy_ports ps' = proxy_ports ps"
    "dget (px_bridges (ps' ! i)) (cr_name br) = Some cb"
    using l cb f by auto
  show ?thesis
  proof (rule route_found [OF _ cport spec(2)])
    show "proxy_index ps' rport = Some i" using i spec(1) by (simp add: proxy_index_ports)
    show "cb_endpoint cb = dest_host @ '':'' @ dest_port" using rule_endpoint [OF cb ep(1)] ep(2) by simp
  qed
qed

text \<open>A route that was written for a bridge is found again: once the configuration with the rules of
  the mount's bridges is what the proxy reads back, \<open>proxy_route_exists\<close> reports every mapping of every
  bridge with its endpoint.\<close>

theorem added_route_exists:
  assumes "\<forall>b \<in> set (kept rm brs). installable ps b" and "distinct (map cr_name (kept rm brs))"
    and "add_bridges add rm ps brs = Inr ps'"
    and "br \<in> set (kept rm brs)" and "br_portMappings br = Some ms" and "m \<in> set ms"
    and "mapping_port m = Inr rport" and "py_int cport = Inr rport"
    and "br_clusterEndpoint br = Some eps" and "dget eps (str_int rport) = Some (dest_host @ '':'' @ dest_port)"
    and "reads_back C (config\<lparr>c2_proxy := ps'\<rparr>) w"
  shows "fst (proxy_route_exists C cport dest_host dest_port (Some (cr_name br)) w) = Inr True"
  using route_after_update [OF assms(1-10)] proxy_route_exists_read [OF assms(11)] by simp

text \<open>A bridge that was removed has no route left: the configuration is rebuilt without it, so
  \<open>proxy_route_exists\<close> reports none of its ports.\<close>

theorem removed_route_gone:
  assumes ok: "\<forall>b \<in> set (kept (Some n) brs). installable ps b"
    and d: "distinct (map cr_name (kept (Some n) brs))" and base: "no_bridges ps" and n: "n \<noteq> []"
    and r: "add_bridges add (Some n) ps brs = Inr ps'" and cport: "py_int cport = Inr rport"
    and w: "reads_back C (config\<lparr>c2_proxy := ps'\<rparr>) w"
  shows "fst (proxy_route_exists C cport dest_host dest_port (Some n) w) = Inr False"
proof -
  have none: "find (\<lambda>b. cr_name b = n \<and> routed ps b i) (kept (Some n) brs) = None" for i
    by (auto simp: find_None_iff kept_def)
  from add_bridges_complete [OF ok d, of add] r have spec: "proxy_ports ps' = proxy_ports ps"
    "\<forall>i < length ps. dget (px_bridges (ps' ! i)) n = dget (px_bridges (ps ! i)) n"
    using none by auto
  have "dget (px_bridges (ps' ! i)) n = None" if "i < length ps'" for i
    using spec(2) ports_length [OF spec(1)] that base by (simp add: no_bridges_def)
  then show ?thesis
    using route_missing [OF cport n, of ps' config dest_host dest_port] proxy_route_exists_read [OF w] by simp
qed

section \<open>Witnesses\<close>

definition routed_bridge :: "string \<Rightarrow> string \<Rightarrow> bridge" where
  "routed_bridge name mapping = sample_bridge\<lparr>cr_name := name, br_portMappings := Some [mapping],
     br_clusterEndpoint := Some [(''80'', ''svc:10000'')], br_parameter := Some \<lparr>bq_rules = Some [None], bq_other = []\<rparr>\<rparr>"

abbreviation good_bridge :: bridge where "good_bridge \<equiv> routed_bridge ''b1'' ''8080:80''"
abbreviation broken_bridge :: bridge where "broken_bridge \<equiv> routed_bridge ''b2'' ''8080:81''"

definition one_proxy :: "carrier2_proxy list" where
  "one_proxy = [Carrier2Proxy 80]"

definition good_rule :: carrier_bridge where
  "good_rule = \<lparr>cb_endpoint = ''svc:10000'', cb_rules = []\<rparr>"

lemma routed_bridge_simps [simp]:
  "cr_name (routed_bridge n m) = n" "br_portMappings (routed_bridge n m) = Some [m]"
  "br_clusterEndpoint (routed_bridge n m) = Some [(''80'', ''svc:10000'')]"
  by (simp_all add: routed_bridge_def)

lemma mapping_sample_ports: "mapping_port ''8080:80'' = Inr 80" "mapping_port ''8080:81'' = Inr 81" "str_int 80 = ''80''"
  by code_simp+

lemma sample_proxy:
  "proxy_index one_proxy 80 = Some 0" "proxy_index one_proxy 81 = None" "no_bridges one_proxy"
  by (simp_all add: one_proxy_def proxy_index_def Carrier2Proxy_def no_bridges_def)

lemma good_rule_eq: "convert_bridge_to_rule (routed_bridge n m) 80 = Inr good_rule"
  by (simp add: convert_bridge_to_rule_def mapping_sample_ports item_def get_rules_for_bridge_def good_rule_def)
     (simp add: routed_bridge_def)

lemma good_installable: "installable one_proxy (routed_bridge n ''8080:80'')"
  by (simp add: installable_def servable_def mapping_sample_ports sample_proxy good_rule_eq)

lemma broken_not_installable: "\<not> installable one_proxy broken_bridge"
  by (simp add: installable_def servable_def mapping_sample_ports sample_proxy)

definition one_proxy_routed :: "carrier2_proxy list" where
  "one_proxy_routed = [put_bridge ''b1'' good_rule (Carrier2Proxy 80)]"

lemma sample_update:
  "add_bridges add (Some ''b2'') one_proxy [good_bridge, broken_bridge] = Inr one_proxy_routed"
  "add_bridges add (Some ''b1'') one_proxy [good_bridge] = Inr one_proxy"
  by (simp_all add: mapping_sample_ports sample_proxy good_rule_eq)
     (simp add: one_proxy_def one_proxy_routed_def)

lemma sample_reads_back:
  "reads_back (mem_carrier2 config) config mem_web"
  by (simp add: reads_back_def carrier2_pods_def mem_carrier2_def mem_original_pods read_carrier2_config_def
      read_carrier2_file_def eval_nat_numeral try_except_else_def)

theorem mount_rules_complete_witness:
  "\<exists>ps'. add_bridges None (Some ''b2'') one_proxy [good_bridge, broken_bridge] = Inr ps'
     \<and> dget (px_bridges (ps' ! 0)) ''b1'' = Some good_rule"
proof -
  have r: "routed one_proxy good_bridge 0"
    by (simp add: routed_def mapped_to_def mapping_sample_ports sample_proxy)
  have l: "length one_proxy = 1" "px_port (one_proxy ! 0) = Some 80"
    by (simp_all add: one_proxy_def Carrier2Proxy_def)
  from mount_rules_complete [of "Some ''b2''" "[good_bridge, broken_bridge]" one_proxy None]
  show ?thesis using good_installable r l by (auto simp: good_rule_eq)
qed

theorem only_added_bridge_fails_witness:
  "add_bridges (Some ''b2'') None one_proxy [good_bridge, broken_bridge] = Inl BridgeInstallException"
  using only_added_bridge_fails [of None "[good_bridge, broken_bridge]" "Some ''b2''" one_proxy]
    broken_not_installable by simp

theorem added_route_exists_witness:
  "fst (proxy_route_exists (mem_carrier2 (Carrier2Config\<lparr>c2_proxy := one_proxy_routed\<rparr>)) ''80'' ''svc'' ''10000''
     (Some ''b1'') mem_web) = Inr True"
proof -
  have "py_int ''80'' = Inr 80" using py_int_str_int [of 80] by (simp add: mapping_sample_ports)
  then show ?thesis
    using added_route_exists [where ps = one_proxy and brs = "[good_bridge, broken_bridge]" and br = good_bridge
        and m = "''8080:80''" and cport = "''80''" and dest_host = "''svc''" and dest_port = "''10000''",
        OF _ _ sample_update(1) _ _ _ _ _ _ _ sample_reads_back]
    by (simp add: good_installable mapping_sample_ports)
qed

theorem removed_route_gone_witness:
  "fst (proxy_route_exists (mem_carrier2 (Carrier2Config\<lparr>c2_proxy := one_proxy\<rparr>)) ''80'' ''svc'' ''10000''
     (Some ''b1'') mem_web) = Inr False"
proof -
  have "py_int ''80'' = Inr 80" using py_int_str_int [of 80] by (simp add: mapping_sample_ports)
  then show ?thesis
    using removed_route_gone [where dest_host = "''svc''" and dest_port = "''10000''",
        OF _ _ sample_proxy(3) _ sample_update(2) _ sample_reads_back] by simp
qed

end
