(* ===== verification/CarrierCalls.thy ===== *)
theory CarrierCalls
  imports MemCarrier
begin

text \<open>
  The calls of the Carrier providers that retry, wait and cache: they end, the exceptions they let
  through, and what a result of theirs says.
\<close>

section \<open>Waiting\<close>

text \<open>\<open>clk\<close> is the time of a world: a reading lies between the time before and after, and a sleep takes
  at least as long as it is told to.\<close>

definition clock_runs :: "'w host \<Rightarrow> ('w \<Rightarrow> int) \<Rightarrow> bool" where
  "clock_runs H clk \<longleftrightarrow>
     (\<forall>w. \<exists>t w'. utcnow H w = (Inr t, w') \<and> clk w \<le> t \<and> t \<le> clk w')
   \<and> (\<forall>n w. \<exists>w'. sleep H n w = (Inr (), w') \<and> clk w + int n * 1000 \<le> clk w')"

definition takes_time :: "('w \<Rightarrow> int) \<Rightarrow> ('w, 'a) io \<Rightarrow> bool" where
  "takes_time clk m \<longleftrightarrow> (\<forall>w. clk w \<le> clk (snd (m w)))"

text \<open>One round of the loop before it sleeps: the answer that ends it, or that it goes on.\<close>

definition poll :: "('w, 'a) io \<Rightarrow> ('a \<Rightarrow> exn + bool) \<Rightarrow> 'w \<Rightarrow> ((exn + 'a) + unit) \<times> 'w" where
  "poll read_func cond_func w1 =
     (case read_func w1 of
        (Inl e, w2) \<Rightarrow> (if is_api_exception e then Inr () else Inl (Inl e), w2)
      | (Inr x, w2) \<Rightarrow> (case cond_func x of
            Inl e \<Rightarrow> (if is_api_exception e then Inr () else Inl (Inl e), w2)
          | Inr ok \<Rightarrow> (if ok then Inl (Inr x) else Inr (), w2)))"

lemma wait_loop_unfold:
  "wait_loop H read_func cond_func deadline backoff w =
     (case utcnow H w of
        (Inl e, w1) \<Rightarrow> Some (Inl e, w1)
      | (Inr now, w1) \<Rightarrow>
          if deadline \<le> now then Some (Inl RuntimeError, w1) else
          (case poll read_func cond_func w1 of
             (Inl r, w2) \<Rightarrow> Some (r, w2)
           | (Inr u, w2) \<Rightarrow> (case sleep H backoff w2 of
                (Inl e, w3) \<Rightarrow> Some (Inl e, w3)
              | (Inr v, w3) \<Rightarrow> wait_loop H read_func cond_func deadline backoff w3)))"
  unfolding poll_def by (subst wait_loop.simps) (rule refl)

lemma poll_time: "takes_time clk read_func \<Longrightarrow> clk w \<le> clk (snd (poll read_func cond_func w))"
  by (auto simp: takes_time_def poll_def split: prod.split sum.split)
     (metis snd_conv)+

lemma poll_result:
  assumes "poll read_func cond_func w = (Inl r, w')"
  shows "case r of Inr x \<Rightarrow> read_func w = (Inr x, w') \<and> cond_func x = Inr True | Inl e \<Rightarrow> \<not> is_api_exception e"
  using assms by (auto simp: poll_def split: prod.splits sum.splits if_splits)

lemma wait_loop_returns:
  assumes clock: "clock_runs H clk" and read: "takes_time clk read_func" and backoff: "0 < backoff"
  shows "\<exists>r w'. wait_loop H read_func cond_func deadline backoff w = Some (r, w')
    \<and> (case r of Inr x \<Rightarrow> cond_func x = Inr True | Inl e \<Rightarrow> \<not> is_api_exception e)"
proof (induction "nat (deadline - clk w)" arbitrary: w rule: less_induct)
  case less
  from clock obtain now w1 where now: "utcnow H w = (Inr now, w1)" "clk w \<le> now" "now \<le> clk w1"
    unfolding clock_runs_def by blast
  show ?case
  proof (cases "deadline \<le> now")
    case True
    then show ?thesis by (simp add: wait_loop_unfold [where w = w] now(1))
  next
    case False
    obtain p w2 where p: "poll read_func cond_func w1 = (p, w2)" by (cases "poll read_func cond_func w1") simp
    show ?thesis
    proof (cases p)
      case (Inl r)
      from poll_result [OF p [unfolded Inl]]
      have "case r of Inr x \<Rightarrow> cond_func x = Inr True | Inl e \<Rightarrow> \<not> is_api_exception e" by (auto split: sum.splits)
      with p Inl False now(1) show ?thesis by (simp add: wait_loop_unfold [where w = w])
    next
      case (Inr u)
      from clock obtain w3 where w3: "sleep H backoff w2 = (Inr (), w3)" "clk w2 + int backoff * 1000 \<le> clk w3"
        unfolding clock_runs_def by blast
      have "clk w1 \<le> clk w2" using poll_time [OF read, of w1 cond_func] p by simp
      then have "nat (deadline - clk w3) < nat (deadline - clk w)" using now w3 backoff False by simp
      from less [OF this] show ?thesis
        using p Inr False now(1) w3(1) by (simp add: wait_loop_unfold [where w = w])
    qed
  qed
qed

text \<open>C29: The busy waits end: if the clock runs, \<open>wait_until_condition\<close> returns, with a value that
  satisfies the condition, or with an exception that is no \<open>ApiException\<close>.\<close>

theorem wait_terminates:
  assumes "clock_runs H clk" and "takes_time clk read_func" and "0 < backoff"
  shows "(\<exists>r. wait_loop H read_func cond_func deadline backoff w = Some r)
    \<and> (case fst (wait_until_condition H read_func cond_func timeout backoff w) of
         Inr x \<Rightarrow> cond_func x = Inr True | Inl e \<Rightarrow> \<not> is_api_exception e)"
proof -
  from assms(1) obtain start w1 where start: "utcnow H w = (Inr start, w1)" unfolding clock_runs_def by blast
  obtain r w' where "wait_loop H read_func cond_func (start + timeout * 1000000) backoff w1 = Some (r, w')"
      "case r of Inr x \<Rightarrow> cond_func x = Inr True | Inl e \<Rightarrow> \<not> is_api_exception e"
    using wait_loop_returns [OF assms, of cond_func _ w1] by blast
  then have "case fst (wait_until_condition H read_func cond_func timeout backoff w) of
      Inr x \<Rightarrow> cond_func x = Inr True | Inl e \<Rightarrow> \<not> is_api_exception e"
    using start by (simp add: wait_until_condition_def bind_def)
  with wait_loop_returns [OF assms, of cond_func deadline w] show ?thesis by blast
qed

text \<open>Without any assumption on the clock: a value that is returned was read and satisfies the condition.\<close>

lemma wait_loop_result:
  fixes H :: "'w host" and read_func :: "('w, 'a) io"
  assumes "wait_loop H read_func cond_func deadline backoff w = Some (Inr x, w')"
  shows "\<exists>w1. read_func w1 = (Inr x, w') \<and> cond_func x = Inr True"
proof -
  let ?P = "\<lambda>(H :: 'w host) (rf :: ('w, 'a) io) (cf :: 'a \<Rightarrow> exn + bool) (d :: int) (b :: nat) (w :: 'w)
    (out :: (exn + 'a) \<times> 'w). \<forall>x w'. out = (Inr x, w') \<longrightarrow> (\<exists>w1. rf w1 = (Inr x, w') \<and> cf x = Inr True)"
  have "?P H read_func cond_func deadline backoff w (Inr x, w')"
  proof (rule wait_loop.raw_induct [where P = ?P, OF _ assms], goal_cases)
    case (1 wl H rf cf d b w out)
    show ?case using 1(2) 1(1) by (fastforce split: prod.splits sum.splits if_splits)
  qed
  then show ?thesis by simp
qed

lemma wait_until_result:
  assumes "wait_until_condition H read_func cond_func timeout backoff w = (Inr x, w')"
  shows "\<exists>w1. read_func w1 = (Inr x, w') \<and> cond_func x = Inr True"
  using assms wait_loop_result
  by (fastforce simp: wait_until_condition_def bind_def split: prod.splits sum.splits option.splits)

section \<open>Retries\<close>

lemma exec_retries_result:
  "stream_exec_retries A n ns c cmds k stop w = (Inr x, w') \<Longrightarrow>
    \<exists>w1. ca_stream_exec A n ns c cmds stop w1 = (Inr x, w')"
proof (induction k arbitrary: w)
  case (Suc k)
  then show ?case
    by (auto simp: try_except_def thn_def bind_def split: prod.splits sum.splits if_splits)
qed simp

text \<open>Sessions opened so far are counted by \<open>v\<close>.\<close>

definition counts_sessions :: "'w carrier_api \<Rightarrow> ('w \<Rightarrow> nat) \<Rightarrow> bool" where
  "counts_sessions A v \<longleftrightarrow>
     (\<forall>n ns c cmds stop w. v (snd (ca_stream_exec A n ns c cmds stop w)) = Suc (v w))
   \<and> (\<forall>ms w. fst (sleep (ca_host A) ms w) = Inr () \<and> v (snd (sleep (ca_host A) ms w)) = v w)"

lemma exec_retries_bound:
  assumes "counts_sessions A v"
  shows "(case fst (stream_exec_retries A n ns c cmds k stop w) of Inl e \<Rightarrow> \<not> retryable e | Inr _ \<Rightarrow> True)
    \<and> v (snd (stream_exec_retries A n ns c cmds k stop w)) \<le> v w + k
    \<and> ((\<forall>w. \<exists>e. fst (ca_stream_exec A n ns c cmds stop w) = Inl e \<and> retryable e) \<longrightarrow>
        fst (stream_exec_retries A n ns c cmds k stop w) = Inl (TemporaryError (Some 10))
        \<and> v (snd (stream_exec_retries A n ns c cmds k stop w)) = v w + k)"
proof (induction k arbitrary: w)
  case 0
  then show ?case by (simp add: retryable_def)
next
  case (Suc k)
  obtain r w1 where r: "ca_stream_exec A n ns c cmds stop w = (r, w1)" by (cases "ca_stream_exec A n ns c cmds stop w") simp
  with assms have v1: "v w1 = Suc (v w)" unfolding counts_sessions_def by (metis snd_conv)
  obtain w2 where w2: "sleep (ca_host A) 1000 w1 = (Inr (), w2)" "v w2 = v w1"
    using assms unfolding counts_sessions_def by (metis prod.collapse)
  show ?case
  proof (cases "\<exists>e. r = Inl e \<and> retryable e")
    case True
    then have "stream_exec_retries A n ns c cmds (Suc k) stop w = stream_exec_retries A n ns c cmds k stop w2"
      using r w2 by (auto simp: try_except_def thn_def bind_def)
    then show ?thesis using Suc [of w2] w2 v1 by simp
  next
    case False
    then have no: "\<not> (\<forall>w. \<exists>e. fst (ca_stream_exec A n ns c cmds stop w) = Inl e \<and> retryable e)"
      using r by (metis fst_conv)
    have "stream_exec_retries A n ns c cmds (Suc k) stop w =
        (case r of Inr x \<Rightarrow> Inr x | Inl e \<Rightarrow> Inl (if e = WebSocketConnectionClosed then PlainException else e), w1)"
      using False r by (auto simp: try_except_def split: sum.split)
    moreover have "\<not> retryable PlainException" by (simp add: retryable_def)
    ultimately show ?thesis using no v1 False by (auto split: sum.split)
  qed
qed

text \<open>Commands are sent to a pod in at most \<open>k\<close> sessions, and the exceptions that are retried never
  reach the caller: if every session fails with one of them, \<open>k\<close> sessions end in a \<open>TemporaryError\<close>.\<close>

theorem exec_retries_bounded:
  assumes "counts_sessions A v"
  shows "(case fst (stream_exec_retries A n ns c cmds k stop w) of Inl e \<Rightarrow> \<not> retryable e | Inr _ \<Rightarrow> True)
    \<and> v (snd (stream_exec_retries A n ns c cmds k stop w)) \<le> v w + k
    \<and> ((\<forall>w. \<exists>e. fst (ca_stream_exec A n ns c cmds stop w) = Inl e \<and> retryable e) \<longrightarrow>
        fst (stream_exec_retries A n ns c cmds k stop w) = Inl (TemporaryError (Some 10))
        \<and> v (snd (stream_exec_retries A n ns c cmds k stop w)) = v w + k)"
  by (rule exec_retries_bound [OF assms])

section \<open>Commit\<close>

lemma commit_result:
  assumes "commit A config pname container_name namespace debug w = (Inr (), w')"
  shows "\<exists>w1 out. ca_stream_exec A pname namespace container_name (config_commands (ca_safe_dump A config) debug)
      (Some check_carrier2_output) w1 = (Inr (Some out), w') \<and> check_carrier2_output out"
proof -
  let ?exec = "stream_exec_retries A pname namespace container_name
    (config_commands (ca_safe_dump A config) debug) 10 (Some check_carrier2_output)"
  from assms obtain w0 x where "wait_until_condition (ca_host A) ?exec
      (\<lambda>s. Inr (case s of None \<Rightarrow> False | Some out \<Rightarrow> check_carrier2_output out)) 30 2000 w0 = (Inr x, w')"
    by (auto simp: commit_def thn_Inr_iff)
  from wait_until_result [OF this] obtain w1 out where "?exec w1 = (Inr (Some out), w')" "check_carrier2_output out"
    by (auto split: option.splits)
  with exec_retries_result [of A] show ?thesis by blast
qed

text \<open>A commit that returns was confirmed by the proxy: the last session sent the dumped configuration
  and the reload, and its last output reports the start of Carrier2 without a panic.\<close>

theorem commit_confirmed:
  assumes "commit A config pname container_name namespace debug w = (Inr (), w')"
  shows "\<exists>w1 out. ca_stream_exec A pname namespace container_name (config_commands (ca_safe_dump A config) debug)
      (Some check_carrier2_output) w1 = (Inr (Some out), w')
    \<and> contains out ''Bootstrap starting''"
  using commit_result [OF assms] by (auto simp: check_carrier2_output_def)

section \<open>Secrets\<close>

definition cache_memory :: "'w carrier_api \<Rightarrow> bool" where
  "cache_memory A \<longleftrightarrow> (\<forall>c w. ca_cache A (ca_set_cache A c w) = c)"

lemma secret_is_cached:
  assumes "cache_memory A" and now: "utcnow (ca_host A) w = (Inr t, w0)"
    and "cached_secret A ns name t w0 = None"
    and "read_k8s_secret_tls_value A name key ns w = (Inr v, w1)"
  shows "\<exists>data x. map_of (ca_cache A w1) (ns, name) = Some (data, t) \<and> dget data key = Some x \<and> ca_b64decode A x = Inr v"
  using assms
  by (auto simp: read_k8s_secret_tls_value_def bind_def try_except_def decode_value_def cache_memory_def
      split: prod.splits sum.splits option.splits if_splits)

lemma cached_secret_hit:
  assumes "utcnow (ca_host A) w = (Inr t', w0)"
    and "map_of (ca_cache A w0) (ns, name) = Some (data, t)" and "t' < t + 60000000"
    and "dget data key = Some x" and "ca_b64decode A x = Inr v"
  shows "read_k8s_secret_tls_value A name key ns w = (Inr v, w0)"
  using assms by (simp add: read_k8s_secret_tls_value_def bind_def cached_secret_def decode_value_def)

text \<open>A secret that was read is not asked for again within a minute: until then the same value is
  returned, whatever happened to the secret, and the world is only asked for the time.\<close>

theorem secret_read_once:
  assumes "cache_memory A" and "utcnow (ca_host A) w = (Inr t, w0)"
    and "cached_secret A ns name t w0 = None"
    and "read_k8s_secret_tls_value A name key ns w = (Inr v, w1)"
    and "utcnow (ca_host A) w2 = (Inr t', w3)" and "ca_cache A w3 = ca_cache A w1" and "t' < t + 60000000"
  shows "read_k8s_secret_tls_value A name key ns w2 = (Inr v, w3)"
  using secret_is_cached [OF assms(1-4)] cached_secret_hit [OF assms(5) _ assms(7)] assms(6) by fastforce

section \<open>Updates of all pods\<close>

lemma gather_world: "snd (gather ms w) = fold (\<lambda>m w. snd (m w)) ms w"
  by (induction ms arbitrary: w) (simp_all split: prod.split sum.split, metis snd_conv)

lemma gather_ok: "fst (gather ms w) = Inr () \<longleftrightarrow>
    (\<forall>i < length ms. fst ((ms ! i) (fold (\<lambda>m w. snd (m w)) (take i ms) w)) = Inr ())"
proof (induction ms arbitrary: w)
  case (Cons m ms)
  obtain r w1 where m: "m w = (r, w1)" by (cases "m w") simp
  have "fst (gather (m # ms) w) = Inr () \<longleftrightarrow> r = Inr () \<and> fst (gather ms w1) = Inr ()"
    using m by (auto split: prod.split sum.split)
  with Cons [of w1] m show ?case by (force simp: All_less_Suc2)
qed simp

section \<open>Witnesses\<close>

lemma mem_clock_runs: "clock_runs mem_host mm_clock"
  by (simp add: clock_runs_def mem_host_def)

lemma mem_read_time: "takes_time mm_clock (read_pod_status mem_core n ns)"
  by (simp add: takes_time_def mem_core_def mem_read_def split: option.split)

theorem wait_terminates_witness:
  "\<exists>r. wait_loop mem_host (read_pod_status mem_core ''web-1'' ''default'') all_containers_running 120000000 2000 mem_web
     = Some r"
  using wait_terminates [OF mem_clock_runs mem_read_time [of "''web-1''" "''default''"], where backoff = 2000
      and cond_func = all_containers_running and w = mem_web and deadline = 120000000] by simp

definition failing_carrier :: "mem carrier_api" where
  "failing_carrier = (mem_carrier Carrier2Config)\<lparr>ca_stream_exec := (\<lambda>n ns c cmds stop m.
     (Inl SSLEOFError, m\<lparr>mm_log := ''exec'' # mm_log m\<rparr>))\<rparr>"

lemma failing_counts: "counts_sessions failing_carrier (\<lambda>m. length (mm_log m))"
  by (simp add: counts_sessions_def failing_carrier_def mem_carrier_def mem_host_def)

theorem exec_retries_bounded_witness:
  "fst (stream_exec_retries failing_carrier ''web-1'' ''default'' ''nginx'' [''ls''] 30 None mem_web) =
     Inl (TemporaryError (Some 10))
   \<and> length (mm_log (snd (stream_exec_retries failing_carrier ''web-1'' ''default'' ''nginx'' [''ls''] 30 None mem_web))) = 30"
proof -
  have "\<forall>w. \<exists>e. fst (ca_stream_exec failing_carrier ''web-1'' ''default'' ''nginx'' [''ls''] None w) = Inl e \<and> retryable e"
    by (simp add: failing_carrier_def retryable_def)
  moreover have "length (mm_log mem_web) = 0" by (simp add: mem_web_def mem_empty_def)
  ultimately show ?thesis
    using exec_retries_bounded [OF failing_counts, of "''web-1''" "''default''" "''nginx''" "[''ls'']" 30 None mem_web]
    by simp
qed

lemma sample_pod_running: "all_containers_running sample_pod = Inr True"
  by (simp add: all_containers_running_def sample_pod_def status_running_def)

lemma mem_wait_read:
  assumes "read_func m = (Inr x, m)" and "cond_func x = Inr True" and "0 < timeout"
  shows "wait_until_condition mem_host read_func cond_func timeout backoff m = (Inr x, m)"
  using assms by (simp add: wait_until_condition_def wait_loop_unfold poll_def mem_host_def bind_def)

lemma sample_commit:
  "commit (mem_carrier config) config ''web-1'' ''nginx'' ''default'' False mem_web = (Inr (), mem_web)"
proof -
  have r: "read_pod_status mem_core ''web-1'' ''default'' mem_web = (Inr sample_pod, mem_web)"
    by (simp add: mem_core_def mem_read_def mem_web_def)
  have "wait_containers (mem_carrier config) ''web-1'' ''default'' mem_web = (Inr (), mem_web)"
    using mem_wait_read [where read_func = "read_pod_status mem_core ''web-1'' ''default''" and x = sample_pod and m = mem_web]
    by (simp add: wait_containers_def r sample_pod_running thn_def bind_def)
  moreover have "check_carrier2_output ''Bootstrap starting''" by code_simp
  ultimately show ?thesis
    by (simp add: commit_def thn_def bind_def mem_wait_read eval_nat_numeral del: bind_ret)
qed

theorem commit_confirmed_witness:
  "\<exists>w1 out. ca_stream_exec (mem_carrier Carrier2Config) ''web-1'' ''default'' ''nginx'' (config_commands ''cfg'' False)
      (Some check_carrier2_output) w1 = (Inr (Some out), mem_web) \<and> contains out ''Bootstrap starting''"
  using commit_confirmed [OF sample_commit] by (simp add: mem_carrier_def)

theorem secret_read_once_witness:
  "read_k8s_secret_tls_value (mem_carrier Carrier2Config) ''tls'' ''token'' ''default''
      (mem_web\<lparr>mm_clock := 59999999, mm_cache := [((''default'', ''tls''), ([(''token'', ''t'')], 0))]\<rparr>)
     = (Inr ''t'', mem_web\<lparr>mm_clock := 59999999, mm_cache := [((''default'', ''tls''), ([(''token'', ''t'')], 0))]\<rparr>)"
proof -
  let ?A = "mem_carrier Carrier2Config"
  have m: "cache_memory ?A" by (simp add: cache_memory_def)
  have u: "utcnow (ca_host ?A) w = (Inr (mm_clock w), w)" for w by (simp add: mem_host_def)
  have c: "cached_secret ?A ''default'' ''tls'' (mm_clock mem_web) mem_web = None"
    by (simp add: cached_secret_def mem_web_def mem_empty_def)
  have r: "read_k8s_secret_tls_value ?A ''tls'' ''token'' ''default'' mem_web =
      (Inr ''t'', mem_web\<lparr>mm_cache := [((''default'', ''tls''), ([(''token'', ''t'')], 0))]\<rparr>)"
    by (simp add: read_k8s_secret_tls_value_def bind_def mem_host_def cached_secret_def mem_core_def
        try_except_def decode_value_def mem_web_def mem_empty_def)
  show ?thesis
    using secret_read_once [OF m u c r u, of "mem_web\<lparr>mm_clock := 59999999,
        mm_cache := [((''default'', ''tls''), ([(''token'', ''t'')], 0))]\<rparr>"] by (simp add: mem_web_def mem_empty_def)
qed

end
