(* ===== verification/CarrierShadow.thy ===== *)
theory CarrierShadow
  imports MemCarrier
begin

text \<open>
  The shadow of a mount's target: its labels and selectors, its name, the configuration its proxies
  get, and the original configuration of a pod that is stored for the removal.
\<close>

section \<open>Generated names\<close>

lemma conform_length: "length sfx \<le> n \<Longrightarrow> length (generate_k8s_conform_name name sfx n) \<le> n"
  by (simp add: generate_k8s_conform_name_def)

lemma conform_prefix:
  "length sfx \<le> n \<Longrightarrow> generate_k8s_conform_name name sfx n = name @ sfx \<longleftrightarrow> length name + length sfx \<le> n"
  using conform_length [of sfx n name] by (auto simp: generate_k8s_conform_name_def)

text \<open>A label value that a duplication leaves as it is.\<close>

definition unchanged :: "string \<Rightarrow> bool" where
  "unchanged v \<longleftrightarrow> length v = 63 \<and> drop 56 v = ''-gefyra''"

lemma conform_unchanged: "generate_k8s_conform_name v ''-gefyra'' 63 = v \<longleftrightarrow> unchanged v"
proof (cases "length v + 7 \<le> 63")
  case True
  then show ?thesis by (simp add: generate_k8s_conform_name_def unchanged_def)
next
  case False
  then have "generate_k8s_conform_name v ''-gefyra'' 63 = take 56 v @ ''-gefyra''"
    by (simp add: generate_k8s_conform_name_def)
  moreover have "take 56 v @ ''-gefyra'' = v \<longleftrightarrow> drop 56 v = ''-gefyra''"
    by (metis append_take_drop_id same_append_eq)
  moreover have "drop 56 v = ''-gefyra'' \<Longrightarrow> length v = 63"
    using False length_drop [of 56 v] by simp
  ultimately show ?thesis by (auto simp: unchanged_def)
qed

section \<open>Labels and selectors\<close>

text \<open>Does a selector match the labels of a pod?\<close>

definition label_match :: "string dict \<Rightarrow> string dict \<Rightarrow> bool" where
  "label_match sel labels \<longleftrightarrow> (\<forall>(k, v) \<in> set sel. dget labels k = Some v)"

lemma dget_duplication:
  "dget (get_duplication_labels d) k = map_option (\<lambda>v. generate_k8s_conform_name v ''-gefyra'' 63) (dget d k)"
  unfolding get_duplication_labels_def by (induction d k rule: dget.induct) auto

text \<open>The labels of the pods that a workload runs; a bare pod is its own.\<close>

definition labels_of_pods :: "workload \<Rightarrow> string dict" where
  "labels_of_pods wl =
     labels_of (if wl_kind wl \<in> {Deployment, StatefulSet} then wl_template_labels wl else wl_labels wl)"

lemma labels_of_Some [simp]: "labels_of (Some d) = d"
  by (simp add: labels_of_def)

lemma clone_fields:
  shows "labels_of_pods (clone_workload_structure wl uid) =
      dset (get_duplication_labels (labels_of_pods wl)) DUPLICATION_ID uid"
    and "wl_kind wl \<in> {Deployment, StatefulSet} \<Longrightarrow> labels_of (wl_match_labels (clone_workload_structure wl uid)) =
      get_duplication_labels (labels_of (wl_match_labels wl))"
  by (auto simp: clone_workload_structure_def Let_def labels_of_pods_def)

lemma clone_name: "wl_name (clone_workload_structure wl uid) = generate_duplicate_workload_name (wl_name wl)"
  by (simp add: clone_workload_structure_def Let_def)

lemma selects_shadow:
  fixes uid :: string
  assumes own: "label_match sel labels" and id: "DUPLICATION_ID \<notin> set (keys labels)"
  defines "pod \<equiv> dset (get_duplication_labels labels) DUPLICATION_ID uid"
  shows "label_match sel pod \<longleftrightarrow> (\<forall>(k, v) \<in> set sel. unchanged v)"
    and "label_match (get_duplication_labels sel) pod"
    and "label_match (get_duplication_labels sel) labels \<longleftrightarrow> (\<forall>(k, v) \<in> set sel. unchanged v)"
proof -
  have l: "dget labels k = Some v" if "(k, v) \<in> set sel" for k v
    using own that by (auto simp: label_match_def)
  have pod: "dget pod k = Some (generate_k8s_conform_name v ''-gefyra'' 63)" if "(k, v) \<in> set sel" for k v
  proof -
    have "k \<noteq> DUPLICATION_ID" using l [OF that] dget_notin [OF id] by auto
    with l [OF that] show ?thesis by (simp add: pod_def dget_dset dget_duplication)
  qed
  show "label_match sel pod \<longleftrightarrow> (\<forall>(k, v) \<in> set sel. unchanged v)"
    using pod conform_unchanged by (fastforce simp: label_match_def)
  show "label_match (get_duplication_labels sel) pod"
    using pod by (auto simp: label_match_def get_duplication_labels_def)
  have "label_match (get_duplication_labels sel) labels \<longleftrightarrow>
      (\<forall>(k, v) \<in> set sel. dget labels k = Some (generate_k8s_conform_name v ''-gefyra'' 63))"
    by (auto simp: label_match_def get_duplication_labels_def)
  also have "\<dots> \<longleftrightarrow> (\<forall>(k, v) \<in> set sel. v = generate_k8s_conform_name v ''-gefyra'' 63)"
    using l by fastforce
  also have "\<dots> \<longleftrightarrow> (\<forall>(k, v) \<in> set sel. unchanged v)"
    unfolding conform_unchanged [symmetric] by (simp only: eq_commute)
  finally show "label_match (get_duplication_labels sel) labels \<longleftrightarrow> (\<forall>(k, v) \<in> set sel. unchanged v)" .
qed

text \<open>C30: The shadow of a workload (a deployment, a stateful set or a bare pod without a duplication id) runs
  apart from its original, in both directions.  A selector of the original's pods -- of the workload itself or
  of any service -- does not match the pods of the shadow.  The selector of the shadow of a deployment or
  stateful set matches its own pods and not those of the original.  In both directions there is one exception,
  and no other: a selector all of whose values are 63 characters long and end in \<open>-gefyra\<close>
  already.  The service made for the shadow matches its pods and never those of the original.\<close>

theorem shadow_runs_apart:
  assumes own: "label_match sel (labels_of_pods wl)" and id: "DUPLICATION_ID \<notin> set (keys (labels_of_pods wl))"
    and shadow: "shadow = clone_workload_structure wl uid"
  shows "(label_match sel (labels_of_pods shadow) \<longleftrightarrow> (\<forall>(k, v) \<in> set sel. unchanged v))
    \<and> (wl_kind wl \<in> {Deployment, StatefulSet} \<and> wl_match_labels wl = Some sel \<longrightarrow>
        label_match (labels_of (wl_match_labels shadow)) (labels_of_pods shadow)
      \<and> (label_match (labels_of (wl_match_labels shadow)) (labels_of_pods wl) \<longleftrightarrow> (\<forall>(k, v) \<in> set sel. unchanged v)))
    \<and> (get_svc_for_workload M shadow = Inr svc \<longrightarrow>
        label_match (svc_selector svc) (labels_of_pods shadow) \<and> \<not> label_match (svc_selector svc) (labels_of_pods wl))"
proof -
  note sel = selects_shadow(1,2) [OF own id, of uid, folded clone_fields(1), folded shadow]
    selects_shadow(3) [OF own id]
  have 2: "wl_kind wl \<in> {Deployment, StatefulSet} \<Longrightarrow> wl_match_labels wl = Some sel \<Longrightarrow>
      labels_of (wl_match_labels shadow) = get_duplication_labels sel"
    using clone_fields(2) [of wl uid] by (simp add: shadow)
  have "svc_selector svc = [(DUPLICATION_ID, uid)]" if "get_svc_for_workload M shadow = Inr svc"
  proof -
    have "item (labels_of (if wl_kind shadow \<in> {Deployment, StatefulSet} then wl_template_labels shadow else wl_labels shadow))
        DUPLICATION_ID = Inr uid"
      using clone_fields(1) [of wl uid, folded shadow] by (simp add: labels_of_pods_def item_def dget_dset)
    with that show ?thesis by (auto simp: get_svc_for_workload_def split: prod.splits)
  qed
  then have 3: "get_svc_for_workload M shadow = Inr svc \<Longrightarrow>
      label_match (svc_selector svc) (labels_of_pods shadow) \<and> \<not> label_match (svc_selector svc) (labels_of_pods wl)"
    using dget_notin [OF id] by (simp add: label_match_def shadow clone_fields(1) dget_dset)
  show ?thesis
    using sel 2 3 by auto
qed

section \<open>The name of the shadow\<close>

text \<open>The name under which the shadow of a workload is created is at most 63 characters long, and it
  is the name under which the provider looks its pods up and deletes it exactly if the name of the
  workload has at most 56.\<close>

theorem shadow_name_found:
  assumes "split_target_type_name target = Inr (wl_name wl, kind)"
  shows "length (wl_name (clone_workload_structure wl uid)) \<le> 63
    \<and> (gefyra_workload_name target = Inr (wl_name (clone_workload_structure wl uid)) \<longleftrightarrow> length (wl_name wl) \<le> 56)"
  using assms conform_length [of "''-gefyra''" 63 "wl_name wl"] conform_prefix [of "''-gefyra''" 63 "wl_name wl"]
  by (auto simp: clone_name generate_duplicate_workload_name_def gefyra_workload_name_def)

section \<open>The configuration of the proxies\<close>

text \<open>Provider and mount of one bridge, for one container.\<close>

definition same_mount :: "'w carrier2 \<Rightarrow> 'w c2_mount \<Rightarrow> bool" where
  "same_mount C M \<longleftrightarrow> c2b_mount C = M \<and> c2b_api C = c2m_api M \<and> c2b_container C = c2m_container M
     \<and> c2b_namespace C = c2m_namespace M \<and> c2m_params M = Some (provider_parameter (c2b_resource C))"

lemma given_none_tls: "given_params (Some ps) = None \<Longrightarrow> get_tls_from_provider_parameters A (Some ps) n = ret None"
  by (simp add: given_params_def get_tls_from_provider_parameters_def complete_tls_def port_tls_def
      split: if_splits)


lemma carrier2_tls_eq:
  assumes "same_mount C M" and "px_tls px = None"
  shows "carrier2_tls C px n =
    bind (get_tls_from_provider_parameters (c2m_api M) (c2m_params M) n) (\<lambda>tls. ret (px\<lparr>px_tls := tls\<rparr>))"
proof (cases "given_params (mt_parameter (c2b_resource C))")
  case None
  then have "given_params (c2m_params M) = None"
    using assms(1) by (auto simp: same_mount_def provider_parameter_def given_params_def split: option.splits if_splits)
  then have "get_tls_from_provider_parameters (c2m_api M) (c2m_params M) n = ret None"
    using assms(1) given_none_tls by (auto simp: same_mount_def)
  moreover have "px\<lparr>px_tls := None\<rparr> = px" using assms(2) by (cases px) simp
  ultimately show ?thesis using None by (intro ext) (simp add: carrier2_tls_def bind_def)
next
  case (Some ps)
  then have "c2m_params M = Some ps"
    using assms(1) by (auto simp: same_mount_def provider_parameter_def given_params_def split: option.splits if_splits)
  then show ?thesis using Some assms(1) by (simp add: carrier2_tls_def same_mount_def)
qed

lemma cluster_upstream_eq:
  assumes "same_mount C M"
  shows "cluster_upstream C px n = bind (default_upstream M n) (\<lambda>up. ret (px\<lparr>px_clusterUpstream := Some up\<rparr>))"
proof
  fix w
  show "cluster_upstream C px n w = bind (default_upstream M n) (\<lambda>up. ret (px\<lparr>px_clusterUpstream := Some up\<rparr>)) w"
    using assms
    by (cases "split_target_type_name (c2m_target M)")
       (auto simp: cluster_upstream_def default_upstream_def gefyra_svc_name_def same_mount_def bind_def
         split: prod.split sum.split)
qed

lemma container_proxies_eq:
  assumes "same_mount C M" and "container_ports c = Inr ports"
  shows "container_proxies C c = map_io (\<lambda>port.
      bind (default_upstream M port) (\<lambda>up.
      bind (get_tls_from_provider_parameters (c2m_api M) (c2m_params M) port) (\<lambda>tls.
      ret ((Carrier2Proxy port)\<lparr>px_clusterUpstream := Some up, px_tls := tls\<rparr>)))) ports"
proof -
  have "bind (cluster_upstream C (Carrier2Proxy port) port) (\<lambda>proxy. carrier2_tls C proxy port) =
      bind (default_upstream M port) (\<lambda>up.
      bind (get_tls_from_provider_parameters (c2m_api M) (c2m_params M) port) (\<lambda>tls.
      ret ((Carrier2Proxy port)\<lparr>px_clusterUpstream := Some up, px_tls := tls\<rparr>)))" for port
    by (simp add: cluster_upstream_eq [OF assms(1)] bind_assoc carrier2_tls_eq [OF assms(1)] Carrier2Proxy_def)
  then show ?thesis using assms(2) by (simp add: container_proxies_def)
qed

lemma bind_map_io_none:
  "filter P xs = [] \<Longrightarrow> bind (map_io (\<lambda>x. if P x then g x else ret []) xs) (\<lambda>yss. k (concat yss)) = k []"
  by (induction xs arbitrary: k) (auto simp: bind_assoc split: if_splits)

lemma bind_map_io_single:
  "filter P xs = [c] \<Longrightarrow> bind (map_io (\<lambda>x. if P x then g x else ret []) xs) (\<lambda>yss. k (concat yss)) = bind (g c) k"
proof (induction xs arbitrary: k)
  case (Cons x xs)
  show ?case
  proof (cases "P x")
    case True
    with Cons.prems have "filter P xs = []" "x = c" by auto
    with True bind_map_io_none [of P xs g "\<lambda>zs. k (_ @ zs)"] show ?thesis by (simp add: bind_assoc)
  next
    case False
    with Cons.prems Cons.IH [of k] show ?thesis by (simp add: bind_assoc)
  qed
qed simp

lemma bind_cong_result:
  "(\<And>w x w'. m w = (Inr x, w') \<Longrightarrow> f x = g x) \<Longrightarrow> bind m f = bind m g"
  by (rule ext) (simp add: bind_def split: prod.split sum.split)

lemma map_io_results:
  assumes "map_io f xs w = (Inr ys, w')" and "\<And>x y w w'. f x w = (Inr y, w') \<Longrightarrow> r y = s x"
  shows "map r ys = map s xs"
  using assms(1) by (induction xs arbitrary: ys w) (auto simp: bind_Inr_iff dest: assms(2))

lemma set_probes_none: "filter (\<lambda>c. c_name c = n) cs = [] \<Longrightarrow> set_probes_from n config cs = Inr config"
  by (induction cs) (auto split: if_splits)

lemma set_probes_single:
  "filter (\<lambda>c. c_name c = n) cs = [c] \<Longrightarrow> set_probes_from n config cs =
    (if get_all_probes c = [] then Inr config
     else sbind (carrier_probes (served_ports config) (get_all_probes c)) (\<lambda>cp. Inr (config\<lparr>c2_probes := Some cp\<rparr>)))"
  by (induction cs) (auto simp: set_probes_none split: if_splits)

lemma served_ports_eq:
  assumes "map px_port ps = map Some ports" and "0 \<notin> set ports"
  shows "served_ports (Carrier2Config\<lparr>c2_proxy := ps\<rparr>) = ports"
proof -
  let ?port = "\<lambda>p. case p of None \<Rightarrow> [] | Some n \<Rightarrow> if n = (0::int) then [] else [n]"
  have "served_ports (Carrier2Config\<lparr>c2_proxy := ps\<rparr>) = concat (map ?port (map px_port ps))"
    by (simp add: served_ports_def comp_def)
  also have "\<dots> = concat (map ?port (map Some ports))" by (simp only: assms(1))
  also have "\<dots> = ports" using assms(2) by (induction ports) auto
  finally show ?thesis .
qed

lemma base_config_eq:
  assumes m: "same_mount C M" and one: "filter (\<lambda>c. c_name c = c2m_container M) (pod_containers p) = [c]"
    and ports: "container_ports c = Inr ports" "0 \<notin> set ports"
  shows "base_carrier_config C p = set_carrier_upstream M ports (get_all_probes c)"
proof -
  let ?px = "map_io (\<lambda>port.
      bind (default_upstream M port) (\<lambda>up.
      bind (get_tls_from_provider_parameters (c2m_api M) (c2m_params M) port) (\<lambda>tls.
      ret ((Carrier2Proxy port)\<lparr>px_clusterUpstream := Some up, px_tls := tls\<rparr>)))) ports"
  have n: "c2b_container C = c2m_container M" using m by (simp add: same_mount_def)
  have "base_carrier_config C p = bind ?px (\<lambda>ps. of_sum (set_probes_from (c2m_container M)
      (Carrier2Config\<lparr>c2_proxy := ps\<rparr>) (pod_containers p)))"
    unfolding base_carrier_config_def set_proxies_def n bind_assoc
    using bind_map_io_single [OF one, where g = "container_proxies C"
        and k = "\<lambda>ps. of_sum (set_probes_from (c2m_container M) (Carrier2Config\<lparr>c2_proxy := ps\<rparr>) (pod_containers p))"]
    by (simp add: container_proxies_eq [OF m ports(1)] of_sum_def)
  also have "\<dots> = set_carrier_upstream M ports (get_all_probes c)"
    unfolding set_carrier_upstream_def Let_def
  proof (rule bind_cong_result)
    fix w ps w' assume "?px w = (Inr ps, w')"
    then have "map px_port ps = map Some ports"
      by (rule map_io_results) (auto simp: bind_Inr_iff Carrier2Proxy_def)
    then have s: "served_ports (Carrier2Config\<lparr>c2_proxy := ps\<rparr>) = ports" using ports(2) by (rule served_ports_eq)
    show "of_sum (set_probes_from (c2m_container M) (Carrier2Config\<lparr>c2_proxy := ps\<rparr>) (pod_containers p)) =
        (if get_all_probes c = [] then ret (Carrier2Config\<lparr>c2_proxy := ps\<rparr>)
         else bind (of_sum (carrier_probes ports (get_all_probes c)))
           (\<lambda>cp. ret (Carrier2Config\<lparr>c2_proxy := ps, c2_probes := Some cp\<rparr>)))"
      by (rule ext) (cases "carrier_probes ports (get_all_probes c)", simp_all add: set_probes_single [OF one] s)
  qed
  finally show ?thesis .
qed

text \<open>C31: The mount provider and the bridge provider write the same configuration: for a pod with one
  container of the mount's name and no port 0, the file that is rebuilt for a bridge starts from exactly
  what the installation of the mount wrote, call by call.\<close>

theorem providers_agree:
  assumes "same_mount C M" and "filter (\<lambda>c. c_name c = c2m_container M) (pod_containers p) = [c]"
    and "container_ports c = Inr ports" and "0 \<notin> set ports"
  shows "base_carrier_config C p = set_carrier_upstream M ports (get_all_probes c)"
  by (rule base_config_eq [OF assms])

section \<open>The original configuration of a pod\<close>

text \<open>The ConfigMap \<open>gefyra-carrier2-restore-configmap\<close> keeps what is patched into it or created with it.\<close>

definition config_kept :: "'w carrier_api \<Rightarrow> string \<Rightarrow> bool" where
  "config_kept A ns \<longleftrightarrow>
     (\<forall>key v w w'. ca_json_patch_add A CARRIER2_ORIGINAL_CONFIGMAP ns key v w = (Inr (), w') \<longrightarrow>
        (\<exists>cm d. read_config_map (ca_core A) CARRIER2_ORIGINAL_CONFIGMAP ns w' = (Inr cm, w')
           \<and> cm_data cm = Some d \<and> dget d key = Some v))
   \<and> (\<forall>key v w w'. create_config_map (ca_core A) ns \<lparr>cm_name = CARRIER2_ORIGINAL_CONFIGMAP, cm_namespace = ns,
            cm_labels = [], cm_data = Some [(key, v)]\<rparr> w = (Inr (), w') \<longrightarrow>
        (\<exists>cm d. read_config_map (ca_core A) CARRIER2_ORIGINAL_CONFIGMAP ns w' = (Inr cm, w')
           \<and> cm_data cm = Some d \<and> dget d key = Some v))"

lemma stored_config:
  assumes "config_kept (c2m_api M) (NAMESPACE (c2m_configuration M))"
    and "store_pod_original_config M c pname w = (Inr (), w')"
  shows "\<exists>cm d. read_config_map (c2m_core M) CARRIER2_ORIGINAL_CONFIGMAP (NAMESPACE (c2m_configuration M)) w' = (Inr cm, w')
    \<and> cm_data cm = Some d \<and> dget d (c2m_namespace M @ ''-'' @ pname) =
        Some (ca_json_dumps (c2m_api M) \<lparr>oc_image = c_image c, oc_command = c_command c, oc_args = c_args c\<rparr>)"
  using assms unfolding config_kept_def
  by (auto simp: store_pod_original_config_def Let_def try_except_def split: prod.splits sum.splits if_splits)

lemma install_container_stores:
  assumes "install_container M p w = (Inr out, w')"
  shows "\<exists>c. find (\<lambda>c. c_name c = c2m_container M) (pod_containers p) = Some c
    \<and> store_pod_original_config M c (pod_name p) w = (Inr (), w')"
  using assms
  by (auto simp: install_container_def Let_def bind_Inr_iff thn_Inr_iff split: option.splits if_splits)

definition with_config :: "container \<Rightarrow> container \<Rightarrow> container" where
  "with_config c original = c\<lparr>c_image := c_image original, c_command := c_command original, c_args := c_args original\<rparr>"

definition original_of :: "container \<Rightarrow> original_config" where
  "original_of c = \<lparr>oc_image = c_image c, oc_command = c_command c, oc_args = c_args c\<rparr>"

text \<open>The removal of a mount gives a pod's container the image, command and arguments it had when the
  provider installed itself the last time: if that container already ran Carrier2, this is the image of
  Carrier2, and what the pod ran before is lost.\<close>

theorem restores_last_install:
  assumes kept: "config_kept (c2m_api M) (NAMESPACE (c2m_configuration M))"
    and json: "ca_json_loads (c2m_api M) (ca_json_dumps (c2m_api M) (original_of c)) = Inr (original_of c)"
    and installed: "install_container M p w = (Inr out, w1)"
    and c: "find (\<lambda>c. c_name c = c2m_container M) (pod_containers p) = Some c"
    and pod: "read_pod (c2m_core M) (pod_name p) (c2m_namespace M) w1 = (Inr p', w1)"
    and i: "index_where (\<lambda>c. c_name c = c2m_container M) (pod_containers p') = Some i"
  shows "patch_pod_with_original_config M (pod_name p) w1 =
      patch_pod (c2m_core M) (pod_name p) (c2m_namespace M)
        (p'\<lparr>pod_containers := (pod_containers p')[i := with_config (pod_containers p' ! i) c]\<rparr>) w1
    \<and> (c_image c = carrier_image (c2m_configuration M) \<longrightarrow>
        c_image (with_config (pod_containers p' ! i) c) = carrier_image (c2m_configuration M))"
proof -
  from install_container_stores [OF installed] c
  have "store_pod_original_config M c (pod_name p) w = (Inr (), w1)" by simp
  from stored_config [OF kept this] obtain cm d where
    "read_config_map (c2m_core M) CARRIER2_ORIGINAL_CONFIGMAP (NAMESPACE (c2m_configuration M)) w1 = (Inr cm, w1)"
    "cm_data cm = Some d" "dget d (c2m_namespace M @ ''-'' @ pod_name p) =
        Some (ca_json_dumps (c2m_api M) \<lparr>oc_image = c_image c, oc_command = c_command c, oc_args = c_args c\<rparr>)" by blast
  then show ?thesis using pod i json
    by (simp add: patch_pod_with_original_config_def bind_def with_config_def original_of_def)
qed

section \<open>Witnesses\<close>

lemma sample_own_labels: "label_match [(''app'', ''web'')] (labels_of_pods sample_workload)"
  by (simp add: label_match_def labels_of_pods_def sample_workload_def)

theorem shadow_runs_apart_witness:
  "\<not> label_match [(''app'', ''web'')] (labels_of_pods (clone_workload_structure sample_workload ''u1''))
   \<and> \<not> label_match (labels_of (wl_match_labels (clone_workload_structure sample_workload ''u1''))) (labels_of_pods sample_workload)"
proof -
  have k: "wl_kind sample_workload \<in> {Deployment, StatefulSet}" "wl_match_labels sample_workload = Some [(''app'', ''web'')]"
    by (simp_all add: sample_workload_def)
  have d: "DUPLICATION_ID \<notin> set (keys (labels_of_pods sample_workload))"
    by (simp add: DUPLICATION_ID_def labels_of_pods_def sample_workload_def)
  show ?thesis using shadow_runs_apart [OF sample_own_labels d refl, of "''u1''" undefined undefined] k
    by (auto simp: unchanged_def)
qed

theorem shadow_name_found_witness:
  "gefyra_workload_name ''deploy/web'' = Inr (wl_name (clone_workload_structure sample_workload ''u1''))"
  using shadow_name_found [of "''deploy/web''" sample_workload Deployment "''u1''"]
  by (simp add: split_deploy_web sample_workload_def)

theorem providers_agree_witness:
  "base_carrier_config (mem_carrier2 Carrier2Config) sample_pod =
     set_carrier_upstream (mem_c2_mount Carrier2Config) [80] []"
proof -
  have m: "same_mount (mem_carrier2 Carrier2Config) (mem_c2_mount Carrier2Config)"
    by (simp add: same_mount_def mem_carrier2_def provider_parameter_def carrier_mount_def)
  have one: "filter (\<lambda>c. c_name c = c2m_container (mem_c2_mount Carrier2Config)) (pod_containers sample_pod) = [sample_container]"
    by (simp add: sample_pod_def) (simp add: sample_container_def)
  have ports: "container_ports sample_container = Inr [80]" by (simp add: container_ports_def sample_container_def)
  have probes: "get_all_probes sample_container = []" by (simp add: get_all_probes_def sample_container_def)
  show ?thesis using providers_agree [OF m one ports] probes by simp
qed

text \<open>A carrier API whose JSON text is the image name, which is all that differs here.\<close>

lemma mem_config_kept: "config_kept (mem_carrier config) ns"
  unfolding config_kept_def
proof (intro conjI allI impI)
  fix key v w w'
  assume "ca_json_patch_add (mem_carrier config) CARRIER2_ORIGINAL_CONFIGMAP ns key v w = (Inr (), w')"
  then show "\<exists>cm d. read_config_map (ca_core (mem_carrier config)) CARRIER2_ORIGINAL_CONFIGMAP ns w' = (Inr cm, w')
      \<and> cm_data cm = Some d \<and> dget d key = Some v"
    by (auto simp: mem_patch_config_map_def mem_core_def mem_read_def bind_def dget_dset dget_dupdate
        split: option.splits)
next
  fix key v w w'
  assume "create_config_map (ca_core (mem_carrier config)) ns \<lparr>cm_name = CARRIER2_ORIGINAL_CONFIGMAP,
      cm_namespace = ns, cm_labels = [], cm_data = Some [(key, v)]\<rparr> w = (Inr (), w')"
  then show "\<exists>cm d. read_config_map (ca_core (mem_carrier config)) CARRIER2_ORIGINAL_CONFIGMAP ns w' = (Inr cm, w')
      \<and> cm_data cm = Some d \<and> dget d key = Some v"
    by (auto simp: mem_core_def mem_read_def bind_def dget_dset split: option.splits)
qed

definition carrier_container :: container where
  "carrier_container = sample_container\<lparr>c_image := ''quay.io/gefyra/carrier2:latest''\<rparr>"

definition carrier_pod :: pod where
  "carrier_pod = sample_pod\<lparr>pod_containers := [carrier_container]\<rparr>"

definition mem_carried :: mem where
  "mem_carried = mem_web\<lparr>mm_pods := [(''web-1'', carrier_pod)]\<rparr>"

lemma carrier_pod_simps [simp]:
  "pod_containers carrier_pod = [carrier_container]" "pod_name carrier_pod = ''web-1''"
  "c_name carrier_container = ''nginx''" "c_image carrier_container = ''quay.io/gefyra/carrier2:latest''"
  "c_command carrier_container = None" "c_args carrier_container = None"
  "container_ports carrier_container = Inr [80]" "get_all_probes carrier_container = []"
  by (simp_all add: carrier_pod_def carrier_container_def sample_pod_def)
     (simp_all add: sample_container_def container_ports_def get_all_probes_def)

lemma sample_carrier_image: "carrier_image default_configuration = ''quay.io/gefyra/carrier2:latest''"
  by (simp add: carrier_image_def)

theorem restores_last_install_witness:
  "\<exists>w1. fst (install_container (mem_c2_mount Carrier2Config) carrier_pod mem_carried) \<noteq> Inl BridgeInstallException
     \<and> patch_pod_with_original_config (mem_c2_mount Carrier2Config) ''web-1'' w1 =
        patch_pod mem_core ''web-1'' ''default''
          (carrier_pod\<lparr>pod_containers := [with_config carrier_container carrier_container]\<rparr>) w1
     \<and> c_image (with_config carrier_container carrier_container) = ''quay.io/gefyra/carrier2:latest''"
proof -
  let ?M = "mem_c2_mount Carrier2Config"
  obtain out w1 where inst: "install_container ?M carrier_pod mem_carried = (Inr out, w1)"
    and pods: "mm_pods w1 = [(''web-1'', carrier_pod)]"
    by (simp add: install_container_def store_pod_original_config_def thn_def bind_def try_except_def Let_def
        mem_patch_config_map_def mem_core_def mem_carried_def mem_web_def mem_empty_def)
  have f: "find (\<lambda>c. c_name c = c2m_container ?M) (pod_containers carrier_pod) = Some carrier_container" by simp
  have j: "ca_json_loads (c2m_api ?M) (ca_json_dumps (c2m_api ?M) (original_of carrier_container)) =
      Inr (original_of carrier_container)" by (simp add: original_of_def)
  have r: "read_pod (c2m_core ?M) (pod_name carrier_pod) (c2m_namespace ?M) w1 = (Inr carrier_pod, w1)"
    by (simp add: mem_core_def mem_read_def pods)
  have k: "config_kept (c2m_api ?M) (NAMESPACE (c2m_configuration ?M))" by (simp add: mem_config_kept)
  from restores_last_install [OF k j inst f r, of 0] inst sample_carrier_image show ?thesis by auto
qed

end
