(* ===== verification/MountProperties.thy ===== *)
theory MountProperties
  imports MountState MemOperator
begin

text \<open>
  Properties of the bridge-mount state machine and its handlers: the outcome of the creation
  handler as a function of the state and of the answers of the provider, the missing-target protocol of
  the timer and what it never deletes, deletion.
\<close>

section \<open>Events of the machine\<close>

lemma run_mount:
  assumes rtc: "rtc_loop (mount_step env mt) run" and q: "quiet (mo_op env) MOUNTS mt"
    and n: "mount_next s e = Some s'" and cb: "mount_callbacks env mt s e w = (Inr sent, w1)"
  shows "\<exists>w2. run (e # es) (s, w) = run (es @ sent) (s', w2)"
  by (rule run_event_quiet [OF rtc [unfolded mount_step_def] _ n cb])
     (simp add: mount_assign_def quiet_write [OF q])

lemma run_mount_end:
  assumes "rtc_loop (mount_step env mt) run" and "quiet (mo_op env) MOUNTS mt"
    and "mount_next s e = Some s'" and "mount_callbacks env mt s e w = (Inr [], w1)"
  shows "\<exists>w2. run [e] (s, w) = (Inr (), (s', w2))"
  using run_mount [OF assms, of "[]"] rtc_Nil [OF assms(1)] by auto

text \<open>A provider whose calls have the same outcome during a run: of \<open>prepare\<close>, of \<open>prepared\<close>, of the
  readiness of the duplicated pods, of \<open>install\<close> and of \<open>ready\<close>, each a result or an exception.\<close>

definition steady :: "'w mount_provider \<Rightarrow> exn + unit \<Rightarrow> exn + bool \<Rightarrow> exn + bool \<Rightarrow> exn + unit \<Rightarrow> exn + bool \<Rightarrow> bool" where
  "steady P prep prepared pods inst ready \<longleftrightarrow>
     (\<forall>w. fst (mp_prepare P w) = prep) \<and> (\<forall>w. fst (mp_prepared P w) = prepared)
   \<and> (\<forall>w. fst (mp_duplicated_pods_ready P w) = pods)
   \<and> (\<forall>w. fst (mp_install P w) = inst) \<and> (\<forall>w. fst (mp_ready P w) = ready)"

lemma steadyD:
  assumes "steady P prep prepared pods inst ready"
  shows "\<exists>w'. mp_prepare P w = (prep, w')" "\<exists>w'. mp_prepared P w = (prepared, w')"
    "\<exists>w'. mp_duplicated_pods_ready P w = (pods, w')"
    "\<exists>w'. mp_install P w = (inst, w')" "\<exists>w'. mp_ready P w = (ready, w')"
  using assms unfolding steady_def by (metis prod.collapse)+

lemma with_mount_eq: "bridge_mount_provider env mt = Inr P \<Longrightarrow> with_mount env mt f = f P"
  by (simp add: with_mount_def)

text \<open>The exceptions of \<open>prepare\<close> that put the mount into \<open>ERROR\<close>; the others leave the handler.\<close>

definition impairs :: "exn \<Rightarrow> bool" where
  "impairs e \<longleftrightarrow> e \<in> {BridgeMountInstallException, ValueError}"

lemma run_arrange:
  assumes rtc: "rtc_loop (mount_step env mt) run" and q: "quiet (mo_op env) MOUNTS mt"
    and p: "bridge_mount_provider env mt = Inr P" and st: "steady P prep prepared pods inst ready"
    and s: "s \<in> {MRestoring, MRequested, MError, MPreparing}"
  shows "\<exists>w'. run [MArrange] (s, w) = (case prep of
      Inr _ \<Rightarrow> (Inr (), (MPreparing, w'))
    | Inl e \<Rightarrow> if impairs e then (Inr (), (MError, w')) else (Inl e, (s, w')))"
proof -
  obtain w1 where 1: "mp_prepare P w = (prep, w1)" using steadyD [OF st] by blast
  have n: "mount_next s MArrange = Some MPreparing" using s by auto
  show ?thesis
  proof (cases prep)
    case (Inr u)
    with 1 have "mount_callbacks env mt s MArrange w = (Inr [], w1)"
      by (simp add: mount_on_arrange_def with_mount_eq [OF p] try_except_def thn_Inr)
    from run_mount_end [OF rtc q n this] Inr show ?thesis by auto
  next
    case (Inl e)
    show ?thesis
    proof (cases "impairs e")
      case True
      obtain w2 where "post_event (mo_op env) mt ''Failed to install GefyraBridgeMount'' ''Warning'' w1 = (Inr (), w2)"
        using quiet_event [OF q] by blast
      with 1 Inl True have "mount_callbacks env mt s MArrange w = (Inr [MImpair], w2)"
        by (auto simp: mount_on_arrange_def with_mount_eq [OF p] try_except_def thn_Inr thn_Inl impairs_def)
      from run_mount [OF rtc q n this, of "[]"] obtain w3 where
        "run [MArrange] (s, w) = run [MImpair] (MPreparing, w3)" by auto
      moreover have "\<exists>w4. run [MImpair] (MPreparing, w3) = (Inr (), (MError, w4))"
        by (rule run_mount_end [OF rtc q]) simp_all
      ultimately show ?thesis using Inl True by auto
    next
      case False
      with 1 Inl have "mount_callbacks env mt s MArrange w = (Inl e, w1)"
        by (simp add: mount_on_arrange_def with_mount_eq [OF p] try_except_def thn_Inl impairs_def)
      from run_event_fails [OF rtc [unfolded mount_step_def] n this] Inl False show ?thesis by auto
    qed
  qed
qed

lemma run_restore_mount:
  assumes rtc: "rtc_loop (mount_step env mt) run" and q: "quiet (mo_op env) MOUNTS mt"
    and p: "bridge_mount_provider env mt = Inr P" and st: "steady P prep prepared pods inst ready"
    and s: "s \<in> {MActive, MError, MInstalling, MPreparing, MRestoring}"
  shows "\<exists>w'. run [MRestore] (s, w) = (case prep of
      Inr _ \<Rightarrow> (Inr (), (MPreparing, w'))
    | Inl e \<Rightarrow> if impairs e then (Inr (), (MError, w')) else (Inl e, (MRestoring, w')))"
proof -
  obtain w1 where "post_event (mo_op env) mt ''Change detected'' ''Warning'' w = (Inr (), w1)"
    using quiet_event [OF q] by blast
  then have cb: "mount_callbacks env mt s MRestore w = (Inr [MArrange], w1)"
    by (simp add: mount_on_restore_def thn_Inr)
  have "mount_next s MRestore = Some MRestoring" using s by auto
  from run_mount [OF rtc q this cb, of "[]"] obtain w2 where
    "run [MRestore] (s, w) = run [MArrange] (MRestoring, w2)" by auto
  with run_arrange [OF rtc q p st, of MRestoring w2] show ?thesis by simp
qed

lemma run_activate_mount:
  assumes rtc: "rtc_loop (mount_step env mt) run" and q: "quiet (mo_op env) MOUNTS mt"
    and p: "bridge_mount_provider env mt = Inr P" and st: "steady P prep prepared pods inst ready"
  shows "\<exists>w'. run [MActivate] (MInstalling, w) = (case ready of
      Inl e \<Rightarrow> (Inl e, (MInstalling, w'))
    | Inr True \<Rightarrow> (Inr (), (MActive, w')) | Inr False \<Rightarrow> (Inl TransitionNotAllowed, (MInstalling, w')))"
proof -
  obtain w1 where 1: "mp_ready P w = (ready, w1)" using steadyD [OF st] by blast
  obtain w2 where 2: "post_event (mo_op env) mt ''Ready'' ''Normal'' w1 = (Inr (), w2)"
    using quiet_event [OF q] by blast
  have n: "mount_next MInstalling MActivate = Some MActive" by simp
  show ?thesis
  proof (cases "ready = Inr True")
    case True
    with 1 2 have "mount_callbacks env mt MInstalling MActivate w = (Inr [], w2)"
      by (simp add: bridge_mount_finished_def with_mount_eq [OF p] bind_def thn_def)
    from run_mount_end [OF rtc q n this] True show ?thesis by auto
  next
    case False
    with 1 have "mount_callbacks env mt MInstalling MActivate w =
        (Inl (case ready of Inl e \<Rightarrow> e | Inr _ \<Rightarrow> TransitionNotAllowed), w1)"
      by (cases ready) (simp_all add: bridge_mount_finished_def with_mount_eq [OF p] bind_def thn_def whenever_def)
    from run_event_fails [OF rtc [unfolded mount_step_def] n this, of "[]"] False show ?thesis
      by (auto split: sum.splits bool.splits)
  qed
qed

lemma run_install_mount:
  assumes rtc: "rtc_loop (mount_step env mt) run" and q: "quiet (mo_op env) MOUNTS mt"
    and p: "bridge_mount_provider env mt = Inr P" and st: "steady P prep prepared pods inst ready"
    and s: "s \<in> {MPreparing, MInstalling}"
  shows "\<exists>w'. run [MInstall] (s, w) = (case if s = MPreparing then pods else prepared of
      Inl e \<Rightarrow> (Inl e, (s, w'))
    | Inr False \<Rightarrow> (Inl (TemporaryError (Some 5)), (s, w'))
    | Inr True \<Rightarrow> (case inst of
        Inl _ \<Rightarrow> (Inr (), (MError, w'))
      | Inr _ \<Rightarrow> (case ready of
          Inl e \<Rightarrow> (Inl e, (MInstalling, w'))
        | Inr True \<Rightarrow> (Inr (), (MActive, w')) | Inr False \<Rightarrow> (Inl TransitionNotAllowed, (MInstalling, w')))))"
proof -
  let ?ok = "if s = MPreparing then pods else prepared"
  have n: "mount_next s MInstall = Some MInstalling" using s by auto
  obtain w1 where 1: "(if s = MPreparing then mp_duplicated_pods_ready P else mp_prepared P) w = (?ok, w1)"
    using steadyD(2,3) [OF st, of w] by (cases "s = MPreparing") auto
  show ?thesis
  proof (cases "?ok = Inr True")
    case False
    with 1 have "mount_callbacks env mt s MInstall w =
        (Inl (case ?ok of Inl e \<Rightarrow> e | Inr _ \<Rightarrow> TemporaryError (Some 5)), w1)"
      by (cases ?ok) (auto simp: bridge_mount_prepared_def with_mount_eq [OF p] thn_def bind_def)
    from run_event_fails [OF rtc [unfolded mount_step_def] n this, of "[]"] False show ?thesis
      by (cases ?ok) (auto split: bool.splits)
  next
    case ok: True
    obtain w2 where 2: "post_event (mo_op env) mt ''GefyraBridgeMount state change'' ''Normal'' w1 = (Inr (), w2)"
      using quiet_event [OF q] by blast
    obtain w3 where 3: "mp_install P w2 = (inst, w3)" using steadyD [OF st] by blast
    have pre: "mount_callbacks env mt s MInstall w =
        try_except_else (mp_install P)
          (\<lambda>e. thn (post_event (mo_op env) mt ''Failed to install GefyraBridgeMount'' ''Warning'') (ret [MImpair]))
          (\<lambda>_. ret [MActivate]) w2"
      using 1 2 ok by (simp add: bridge_mount_prepared_def mount_on_install_def with_mount_eq [OF p] thn_def bind_def)
    show ?thesis
    proof (cases inst)
      case (Inl e)
      obtain w4 where "post_event (mo_op env) mt ''Failed to install GefyraBridgeMount'' ''Warning'' w3 = (Inr (), w4)"
        using quiet_event [OF q] by blast
      with 3 Inl pre have "mount_callbacks env mt s MInstall w = (Inr [MImpair], w4)"
        by (simp add: try_except_else_def thn_Inr)
      from run_mount [OF rtc q n this, of "[]"] obtain w5 where
        "run [MInstall] (s, w) = run [MImpair] (MInstalling, w5)" by auto
      moreover have "\<exists>w6. run [MImpair] (MInstalling, w5) = (Inr (), (MError, w6))"
        by (rule run_mount_end [OF rtc q]) simp_all
      ultimately show ?thesis using Inl ok by auto
    next
      case (Inr u)
      with 3 pre have "mount_callbacks env mt s MInstall w = (Inr [MActivate], w3)"
        by (simp add: try_except_else_def)
      from run_mount [OF rtc q n this, of "[]"] obtain w5 where
        "run [MInstall] (s, w) = run [MActivate] (MInstalling, w5)" by auto
      with run_activate_mount [OF rtc q p st, of w5] Inr ok show ?thesis by simp
    qed
  qed
qed

section \<open>Creation\<close>

text \<open>What one run of the creation handler amounts to, as a function of the state and of what the
  provider answers: the result of the handler and the state after it.\<close>

definition retried :: "exn \<Rightarrow> exn" where
  "retried e = (if e = TransitionNotAllowed then TemporaryError (Some 15) else e)"

definition restored_outcome :: "exn + unit \<Rightarrow> (exn + unit) \<times> mount_state" where
  "restored_outcome prep = (case prep of
     Inr _ \<Rightarrow> (Inl (TemporaryError (Some 10)), MPreparing)
   | Inl e \<Rightarrow> if impairs e then (Inl (TemporaryError (Some 10)), MError) else (Inl (retried e), MRestoring))"

definition installed_outcome :: "exn + unit \<Rightarrow> exn + unit \<Rightarrow> exn + bool \<Rightarrow> (exn + unit) \<times> mount_state" where
  "installed_outcome prep inst ready = (case inst of
     Inl _ \<Rightarrow> restored_outcome prep
   | Inr _ \<Rightarrow> (case ready of
       Inl e \<Rightarrow> (Inl (retried e), MInstalling)
     | Inr True \<Rightarrow> (Inr (), MActive) | Inr False \<Rightarrow> (Inl (TemporaryError (Some 15)), MInstalling)))"

definition prepared_outcome ::
    "exn + unit \<Rightarrow> exn + bool \<Rightarrow> exn + unit \<Rightarrow> exn + bool \<Rightarrow> (exn + unit) \<times> mount_state" where
  "prepared_outcome prep pods inst ready = (case pods of
     Inl e \<Rightarrow> (Inl (retried e), MPreparing)
   | Inr False \<Rightarrow> (Inl (TemporaryError (Some 5)), MPreparing)
   | Inr True \<Rightarrow> installed_outcome prep inst ready)"

fun created_outcome ::
    "mount_state \<Rightarrow> exn + unit \<Rightarrow> exn + bool \<Rightarrow> exn + bool \<Rightarrow> exn + unit \<Rightarrow> exn + bool \<Rightarrow> (exn + unit) \<times> mount_state"
    where
  "created_outcome MRequested prep prepared pods inst ready = (case prep of
     Inr _ \<Rightarrow> prepared_outcome prep pods inst ready
   | Inl e \<Rightarrow> if impairs e then (Inl (TemporaryError (Some 10)), MError) else (Inl (retried e), MRequested))"
| "created_outcome MPreparing prep prepared pods inst ready = prepared_outcome prep pods inst ready"
| "created_outcome MInstalling prep prepared pods inst ready = (case prepared of
     Inl e \<Rightarrow> (Inl (retried e), MInstalling)
   | Inr False \<Rightarrow> (Inl (TemporaryError (Some 10)), MInstalling)
   | Inr True \<Rightarrow> (case ready of
       Inl e \<Rightarrow> (Inl (retried e), MInstalling)
     | Inr True \<Rightarrow> (Inr (), MActive) | Inr False \<Rightarrow> installed_outcome prep inst ready))"
| "created_outcome MError prep prepared pods inst ready = restored_outcome prep"
| "created_outcome MRestoring prep prepared pods inst ready = restored_outcome prep"
| "created_outcome MActive prep prepared pods inst ready = (Inr (), MActive)"
| "created_outcome s prep prepared pods inst ready = (Inl (TemporaryError (Some 10)), s)"

text \<open>The end of the handler, after the installation.\<close>

definition created_end :: "'w mount_run \<Rightarrow> (mount_state \<times> 'w, unit) io" where
  "created_end run = thn (if_active (\<lambda>s. s = MError) (run [MRestore]))
     (thn (if_active (\<lambda>s. s = MRestoring) (run [MRestore]))
     (if_active (\<lambda>s. s \<noteq> MActive) (raise (TemporaryError (Some 10)))))"

definition ends_as :: "(exn + unit) \<times> (mount_state \<times> 'w) \<Rightarrow> (exn + unit) \<times> mount_state \<Rightarrow> bool" where
  "ends_as r o' \<longleftrightarrow> fst (snd r) = snd o' \<and> fst o' = (case fst r of Inr _ \<Rightarrow> Inr () | Inl e \<Rightarrow> Inl (retried e))"

lemma created_end_outcome:
  assumes rtc: "rtc_loop (mount_step env mt) run" and q: "quiet (mo_op env) MOUNTS mt"
    and p: "bridge_mount_provider env mt = Inr P" and st: "steady P prep prepared pods inst ready"
  shows "ends_as (created_end run (s, w))
    (if s = MActive then (Inr (), MActive) else if s \<in> {MError, MRestoring} then restored_outcome prep
     else (Inl (TemporaryError (Some 10)), s))"
proof -
  obtain w1 where 1: "run [MRestore] (MError, w) = (case prep of
      Inr _ \<Rightarrow> (Inr (), (MPreparing, w1))
    | Inl e \<Rightarrow> if impairs e then (Inr (), (MError, w1)) else (Inl e, (MRestoring, w1)))"
    using run_restore_mount [OF rtc q p st, of MError w] by auto
  obtain w2 where 2: "run [MRestore] (MRestoring, w) = (case prep of
      Inr _ \<Rightarrow> (Inr (), (MPreparing, w2))
    | Inl e \<Rightarrow> if impairs e then (Inr (), (MError, w2)) else (Inl e, (MRestoring, w2)))"
    using run_restore_mount [OF rtc q p st, of MRestoring w] by auto
  show ?thesis
    using 1 2 by (cases prep)
      (auto simp: created_end_def thn_def bind_def ends_as_def restored_outcome_def retried_def)
qed

lemma ends_Inl: "ends_as (Inl e, (t, w')) (Inl (retried e), t)"
  by (simp add: ends_as_def)

lemma thn_Inl_ends: "m (s, w) = (Inl e, (t, w')) \<Longrightarrow> ends_as (thn m k (s, w)) (Inl (retried e), t)"
  by (simp add: thn_Inl ends_Inl)

lemma retried_simps [simp]: "retried (TemporaryError d) = TemporaryError d"
  "retried TransitionNotAllowed = TemporaryError (Some 15)"
  by (simp_all add: retried_def)

lemma created_rest_outcome:
  assumes rtc: "rtc_loop (mount_step env mt) run" and q: "quiet (mo_op env) MOUNTS mt"
    and p: "bridge_mount_provider env mt = Inr P" and st: "steady P prep prepared pods inst ready"
    and s: "s \<notin> {MRequested, MPreparing}"
  shows "ends_as (thn (if_active (\<lambda>s. s = MInstalling) (continue_installing env run mt)) (created_end run) (s, w))
    (created_outcome s prep prepared pods inst ready)"
proof (cases "s = MInstalling")
  case False
  then have r: "thn (if_active (\<lambda>s. s = MInstalling) (continue_installing env run mt)) (created_end run) (s, w)
      = created_end run (s, w)" by (simp add: thn_def bind_def)
  show ?thesis unfolding r using created_end_outcome [OF rtc q p st, of s w] False s by (cases s) simp_all
next
  case True
  note fin = created_end_outcome [OF rtc q p st]
  obtain w1 where 1: "mp_prepared P w = (prepared, w1)" using steadyD [OF st] by blast
  obtain w2 where 2: "mp_ready P w1 = (ready, w2)" using steadyD [OF st] by blast
  let ?c = "thn (if_active (\<lambda>s. s = MInstalling) (continue_installing env run mt)) (created_end run) (MInstalling, w)"
  have c: "?c = thn (continue_installing env run mt) (created_end run) (MInstalling, w)"
    by (simp add: thn_def bind_def)
  show ?thesis
  proof (cases "prepared = Inr True")
    case False
    with 1 have "continue_installing env run mt (MInstalling, w) =
        (Inl (case prepared of Inl e \<Rightarrow> e | Inr _ \<Rightarrow> TemporaryError (Some 10)), (MInstalling, w1))"
      by (cases prepared) (simp_all add: continue_installing_def with_mount_eq [OF p] lift_def bind_def)
    from thn_Inl_ends [where m = "continue_installing env run mt", OF this, of "created_end run"] False True c show ?thesis
      by (auto split: sum.splits bool.splits)
  next
    case prepared: True
    have go: "continue_installing env run mt (MInstalling, w) = (case ready of
        Inl e \<Rightarrow> (Inl e, (MInstalling, w2))
      | Inr r \<Rightarrow> (if r then run [MActivate] else run [MInstall]) (MInstalling, w2))"
      using 1 2 prepared
      by (cases ready) (simp_all add: continue_installing_def with_mount_eq [OF p] lift_def bind_def)
    obtain w3 where act: "run [MActivate] (MInstalling, w2) = (case ready of
        Inl e \<Rightarrow> (Inl e, (MInstalling, w3))
      | Inr True \<Rightarrow> (Inr (), (MActive, w3)) | Inr False \<Rightarrow> (Inl TransitionNotAllowed, (MInstalling, w3)))"
      using run_activate_mount [OF rtc q p st] by blast
    obtain w4 where ins: "run [MInstall] (MInstalling, w2) = (case inst of
        Inl _ \<Rightarrow> (Inr (), (MError, w4))
      | Inr _ \<Rightarrow> (case ready of
          Inl e \<Rightarrow> (Inl e, (MInstalling, w4))
        | Inr True \<Rightarrow> (Inr (), (MActive, w4)) | Inr False \<Rightarrow> (Inl TransitionNotAllowed, (MInstalling, w4))))"
      using run_install_mount [OF rtc q p st, of MInstalling w2] prepared by auto
    show ?thesis
    proof (cases ready)
      case (Inl e)
      with go thn_Inl_ends [of "continue_installing env run mt" MInstalling w e MInstalling w2 "created_end run"]
      show ?thesis using True prepared c by simp
    next
      case (Inr r)
      show ?thesis
      proof (cases r)
        case r: True
        with go act Inr have "continue_installing env run mt (MInstalling, w) = (Inr (), (MActive, w3))" by simp
        with fin [of MActive w3] True prepared Inr r c show ?thesis by (simp add: thn_Inr)
      next
        case r: False
        show ?thesis
        proof (cases inst)
          case (Inl x)
          with go ins Inr r have "continue_installing env run mt (MInstalling, w) = (Inr (), (MError, w4))" by simp
          with fin [of MError w4] True prepared Inr Inl r c show ?thesis
            by (simp add: thn_Inr installed_outcome_def)
        next
          case inst: (Inr u)
          with go ins Inr r have "continue_installing env run mt (MInstalling, w) = (Inl TransitionNotAllowed, (MInstalling, w4))"
            by simp
          from thn_Inl_ends [where m = "continue_installing env run mt", OF this, of "created_end run"] True prepared Inr inst r c show ?thesis
            by (simp add: installed_outcome_def)
        qed
      qed
    qed
  qed
qed

lemma created_install_outcome:
  assumes rtc: "rtc_loop (mount_step env mt) run" and q: "quiet (mo_op env) MOUNTS mt"
    and p: "bridge_mount_provider env mt = Inr P" and st: "steady P prep prepared pods inst ready"
    and s: "s \<noteq> MRequested"
  defines "rest \<equiv> thn (if_active (\<lambda>s. s = MInstalling) (continue_installing env run mt)) (created_end run)"
  shows "ends_as (thn (if_active (\<lambda>s. s = MPreparing) (run [MInstall])) rest (s, w))
    (created_outcome s prep prepared pods inst ready)"
proof (cases "s = MPreparing")
  case False
  then have "thn (if_active (\<lambda>s. s = MPreparing) (run [MInstall])) rest (s, w) = rest (s, w)"
    by (simp add: thn_def bind_def)
  with created_rest_outcome [OF rtc q p st, of s w] s False show ?thesis by (simp add: rest_def)
next
  case True
  note later = created_rest_outcome [OF rtc q p st, folded rest_def]
  have c: "thn (if_active (\<lambda>s. s = MPreparing) (run [MInstall])) rest (MPreparing, w) = thn (run [MInstall]) rest (MPreparing, w)"
    by (simp add: thn_def bind_def)
  obtain w1 where ins: "run [MInstall] (MPreparing, w) = (case pods of
      Inl e \<Rightarrow> (Inl e, (MPreparing, w1))
    | Inr False \<Rightarrow> (Inl (TemporaryError (Some 5)), (MPreparing, w1))
    | Inr True \<Rightarrow> (case inst of
        Inl _ \<Rightarrow> (Inr (), (MError, w1))
      | Inr _ \<Rightarrow> (case ready of
          Inl e \<Rightarrow> (Inl e, (MInstalling, w1))
        | Inr True \<Rightarrow> (Inr (), (MActive, w1)) | Inr False \<Rightarrow> (Inl TransitionNotAllowed, (MInstalling, w1)))))"
    using run_install_mount [OF rtc q p st, of MPreparing w] by auto
  have fails: "ends_as (thn (run [MInstall]) rest (MPreparing, w)) (Inl (retried e), t)"
    if "run [MInstall] (MPreparing, w) = (Inl e, (t, w1))" for e t
    by (rule thn_Inl_ends [where m = "run [MInstall]", OF that])
  have goes: "ends_as (thn (run [MInstall]) rest (MPreparing, w)) (created_outcome t prep prepared pods inst ready)"
    if "run [MInstall] (MPreparing, w) = (Inr (), (t, w1))" "t \<notin> {MRequested, MPreparing}" for t
    using later [of t w1] that by (simp add: thn_Inr)
  show ?thesis
  proof (cases "pods = Inr True")
    case False
    with ins have "run [MInstall] (MPreparing, w) =
        (Inl (case pods of Inl e \<Rightarrow> e | Inr _ \<Rightarrow> TemporaryError (Some 5)), (MPreparing, w1))"
      by (auto split: sum.splits bool.splits)
    from fails [OF this] False True c show ?thesis
      by (auto simp: prepared_outcome_def split: sum.splits bool.splits)
  next
    case pods: True
    show ?thesis
    proof (cases inst)
      case (Inl x)
      with goes [of MError] ins pods True c show ?thesis
        by (simp add: prepared_outcome_def installed_outcome_def)
    next
      case (Inr u)
      show ?thesis
      proof (cases "ready = Inr True")
        case ready: True
        with goes [of MActive] ins pods Inr True c show ?thesis
          by (simp add: prepared_outcome_def installed_outcome_def)
      next
        case False
        with ins pods Inr have "run [MInstall] (MPreparing, w) =
            (Inl (case ready of Inl e \<Rightarrow> e | Inr _ \<Rightarrow> TransitionNotAllowed), (MInstalling, w1))"
          by (auto split: sum.splits bool.splits)
        from fails [OF this] False pods Inr True c show ?thesis
          by (auto simp: prepared_outcome_def installed_outcome_def split: sum.splits bool.splits)
      qed
    qed
  qed
qed

lemma created_run_outcome:
  assumes rtc: "rtc_loop (mount_step env mt) run" and q: "quiet (mo_op env) MOUNTS mt"
    and p: "bridge_mount_provider env mt = Inr P" and st: "steady P prep prepared pods inst ready"
  defines "rest \<equiv> thn (if_active (\<lambda>s. s = MPreparing) (run [MInstall]))
      (thn (if_active (\<lambda>s. s = MInstalling) (continue_installing env run mt)) (created_end run))"
  shows "ends_as (thn (if_active (\<lambda>s. s = MRequested) (run [MArrange])) rest (s, w))
    (created_outcome s prep prepared pods inst ready)"
proof (cases "s = MRequested")
  case False
  then have "thn (if_active (\<lambda>s. s = MRequested) (run [MArrange])) rest (s, w) = rest (s, w)"
    by (simp add: thn_def bind_def)
  with created_install_outcome [OF rtc q p st, of s w] False show ?thesis by (simp add: rest_def)
next
  case True
  note later = created_install_outcome [OF rtc q p st, folded rest_def]
  obtain w1 where a: "run [MArrange] (MRequested, w) = (case prep of
      Inr _ \<Rightarrow> (Inr (), (MPreparing, w1))
    | Inl e \<Rightarrow> if impairs e then (Inr (), (MError, w1)) else (Inl e, (MRequested, w1)))"
    using run_arrange [OF rtc q p st, of MRequested w] by auto
  have c: "thn (if_active (\<lambda>s. s = MRequested) (run [MArrange])) rest (MRequested, w) = thn (run [MArrange]) rest (MRequested, w)"
    by (simp add: thn_def bind_def)
  show ?thesis
  proof (cases prep)
    case (Inr u)
    with a later [of MPreparing w1] True c show ?thesis by (simp add: thn_Inr)
  next
    case (Inl e)
    show ?thesis
    proof (cases "impairs e")
      case i: True
      with Inl a later [of MError w1] True c show ?thesis by (simp add: thn_Inr restored_outcome_def)
    next
      case False
      with Inl a True c show ?thesis by (simp add: thn_Inl ends_Inl)
    qed
  qed
qed

text \<open>C22: The outcome of the creation handler on a mount that was never active, from every state, for
  every provider whose calls have the same outcome throughout the run -- each of the five calls may return
  either answer or raise any exception -- if events and state changes go through.  The handler returns in
  \<open>ACTIVE\<close> only; else it raises, with the exception (or the delay) and from the state of the table above.\<close>

theorem mount_create_outcome:
  assumes rtc: "rtc_loop (mount_step env mt) run" and q: "quiet (mo_op env) MOUNTS mt"
    and p: "bridge_mount_provider env mt = Inr P" and st: "steady P prep prepared pods inst ready"
    and new: "\<not> was_active mt"
  shows "\<exists>w'. handler_mount_created env run mt (s, w) =
    (fst (created_outcome s prep prepared pods inst ready), (snd (created_outcome s prep prepared pods inst ready), w'))"
proof -
  let ?run = "thn (if_active (\<lambda>s. s = MRequested) (run [MArrange]))
      (thn (if_active (\<lambda>s. s = MPreparing) (run [MInstall]))
      (thn (if_active (\<lambda>s. s = MInstalling) (continue_installing env run mt)) (created_end run)))"
  obtain r t w' where r: "?run (s, w) = (r, (t, w'))" by (metis prod.collapse)
  have h: "handler_mount_created env run mt (s, w) = try_except ?run retry_not_allowed (s, w)"
    using new by (simp add: handler_mount_created_def created_end_def)
  have "handler_mount_created env run mt (s, w) = (case r of Inr _ \<Rightarrow> Inr () | Inl e \<Rightarrow> Inl (retried e), (t, w'))"
    unfolding h using r by (cases r) (simp_all add: try_except_def retry_not_allowed_def retried_def raise_def)
  with created_run_outcome [OF rtc q p st, of s w] r show ?thesis by (simp add: ends_as_def)
qed

text \<open>Whatever happens, the creation handler of a mount that was never active returns in
  \<open>ACTIVE\<close> only: from every state and with every provider the other outcomes are exceptions, so
  that the handler is run again.\<close>

theorem mount_create_returns_active:
  assumes "\<not> was_active mt" and "handler_mount_created env run mt (s, w) = (Inr (), (t, w'))"
  shows "t = MActive"
proof -
  have retry: "retry_not_allowed e w1 \<noteq> (Inr (), w2)" for e and w1 w2 :: "mount_state \<times> 'a"
    by (simp add: retry_not_allowed_def)
  have last: "(if a \<noteq> MActive then raise x (a, b) else (Inr (), (a, b))) = (Inr (), (t, w')) \<Longrightarrow> t = MActive"
    for a x and b :: 'a
    by (simp split: if_splits)
  from assms show ?thesis
    by (auto simp: handler_mount_created_def try_except_def thn_Inr_iff retry dest: last
        split: prod.splits sum.splits)
qed

section \<open>The timer\<close>

lemma run_terminate_mount:
  assumes rtc: "rtc_loop (mount_step env mt) run"
  shows "run [MTerminate] (s, w) = (Inr (), (MTerminated, snd (mount_on_terminate env mt w)))"
proof -
  have cb: "mount_callbacks env mt s MTerminate w = (Inr [], snd (mount_on_terminate env mt w))"
    by (simp add: mount_on_terminate_def thn_swallow)
  have as: "whenever b (mount_assign env mt MTerminated) w1 = (Inr (), w1)" for b w1
    by (simp add: mount_assign_def whenever_def)
  have n: "mount_next s MTerminate = Some MTerminated" by simp
  from run_event [OF rtc [unfolded mount_step_def] n cb as, of "[]"] rtc_Nil [OF rtc] show ?thesis by simp
qed

lemma not_at_sunset: "cr_sunset mt \<in> {None, Some []} \<Longrightarrow> mount_should_terminate env mt w = (Inr False, w)"
  by (auto simp: mount_should_terminate_def mount_sunset_def sunset_of_def Let_def bind_def)


lemma reconcile_missing_start:
  assumes "was_active mt" and "cr_sunset mt \<in> {None, Some []}"
  shows "handler_mount_reconcile env run mt (MMissing, w) =
    try_except (reconcile_missing env run mt) retry_not_allowed (MMissing, w)"
  using assms not_at_sunset [OF assms(2), of env w]
  by (simp add: handler_mount_reconcile_def bind_def lift_def)

lemma reconcile_operational_start:
  assumes "was_active mt" and "cr_sunset mt \<in> {None, Some []}" and "s \<notin> {MMissing, MTerminated}"
  shows "handler_mount_reconcile env run mt (s, w) =
    try_except (reconcile_operational env run mt) retry_not_allowed (s, w)"
  using assms not_at_sunset [OF assms(2), of env w]
  by (simp add: handler_mount_reconcile_def bind_def lift_def)

text \<open>C23: The protocol for a missing target: as soon as the target is back the mount is prepared
  again; before the grace period is over it is left alone; from the first moment at which the period
  is over it is terminated, and then the API server is asked to delete the resource.\<close>

theorem mount_missing_protocol:
  assumes rtc: "rtc_loop (mount_step env mt) run" and q: "quiet (mo_op env) MOUNTS mt"
    and start: "was_active mt" "cr_sunset mt \<in> {None, Some []}"
    and ex: "mount_target_exists env mt w = (Inr ex, w1)"
    and since: "completed_transition mt ''MISSING'' = Some since" "since \<noteq> []"
      "fromisoformat (op_host (mo_op env)) (strip_char (CHR ''Z'') since) = Inr t"
    and clock: "utcnow (op_host (mo_op env)) w1 = (Inr now, w2)"
    and expiry: "expiry = as_utc t + missing_grace_period (op_cfg (mo_op env)) mt * 1000000"
  shows "(ex \<longrightarrow> (\<exists>w'. handler_mount_reconcile env run mt (MMissing, w) = (Inr (), (MPreparing, w'))))
    \<and> (\<not> ex \<and> now < expiry \<longrightarrow> handler_mount_reconcile env run mt (MMissing, w) = (Inr (), (MMissing, w2)))
    \<and> (\<not> ex \<and> expiry \<le> now \<longrightarrow> handler_mount_reconcile env run mt (MMissing, w) =
        try_except (thn (lift (try_delete_cr env mt)) (ret ())) retry_not_allowed
          (MTerminated, snd (mount_on_terminate env mt w2)))"
proof -
  have grace: "missing_grace_period_expired env mt w1 = (Inr (expiry \<le> now), w2)"
    using since clock expiry by (simp add: missing_grace_period_expired_def bind_def)
  obtain w3 where "post_event (mo_op env) mt ''Target recovered'' ''Normal'' w1 = (Inr (), w3)"
    using quiet_event [OF q] by blast
  then have "mount_callbacks env mt MMissing MRecover w1 = (Inr [], w3)"
    by (simp add: mount_on_recover_def thn_Inr)
  from run_mount_end [OF rtc q _ this] obtain w4 where
    rec: "run [MRecover] (MMissing, w1) = (Inr (), (MPreparing, w4))" by auto
  have term_: "terminate_and_delete env run mt (MMissing, w2) =
      thn (lift (try_delete_cr env mt)) (ret ()) (MTerminated, snd (mount_on_terminate env mt w2))"
    using run_terminate_mount [OF rtc, of MMissing w2] by (simp add: terminate_and_delete_def thn_def bind_def)
  have "reconcile_missing env run mt (MMissing, w) =
      (if ex then (Inr (), (MPreparing, w4))
       else if expiry \<le> now
       then thn (lift (try_delete_cr env mt)) (ret ()) (MTerminated, snd (mount_on_terminate env mt w2))
       else (Inr (), (MMissing, w2)))"
    using ex grace rec term_ by (simp add: reconcile_missing_def lift_def bind_def)
  with reconcile_missing_start [OF start, of env run w] show ?thesis
    by (simp add: try_except_def)
qed



lemma keeps_drop [simp]: "keeps v (swallow e)"
  by (simp add: keeps_def)


























lemma reconcile_marks_missing:
  assumes rtc: "rtc_loop (mount_step env mt) run" and q: "quiet (mo_op env) MOUNTS mt"
    and start: "was_active mt" "cr_sunset mt \<in> {None, Some []}"
    and s: "s \<notin> {MMissing, MTerminated}" and gone: "fst (mount_target_exists env mt w) = Inr False"
  shows "\<exists>w'. handler_mount_reconcile env run mt (s, w) = (Inr (), (MMissing, w'))"
proof -
  obtain w1 where ex: "mount_target_exists env mt w = (Inr False, w1)" using gone by (metis prod.collapse)
  obtain w2 where e: "post_event (mo_op env) mt ''Target missing'' ''Warning'' w1 = (Inr (), w2)"
    using quiet_event [OF q] by blast
  then have cb: "mount_callbacks env mt s MMarkMissing w1 =
      (Inr [], snd (try_except (with_mount env mt mp_uninstall) swallow w2))"
    by (simp add: mount_on_mark_missing_def thn_Inr thn_swallow)
  have "mount_next s MMarkMissing = Some MMissing" using s by (cases s) auto
  from run_mount_end [OF rtc q this cb] obtain w3 where
    "run [MMarkMissing] (s, w1) = (Inr (), (MMissing, w3))" by auto
  then have "reconcile_operational env run mt (s, w) = (Inr (), (MMissing, w3))"
    using ex by (simp add: reconcile_operational_def lift_def bind_def)
  with reconcile_operational_start [OF start s, of env run w] show ?thesis by (simp add: try_except_def)
qed

text \<open>In every operational state, a mount whose target (or its namespace) has disappeared becomes
  \<open>MISSING\<close>: the handler returns, whatever the removal of the leftovers does.\<close>

theorem mount_marks_missing:
  assumes rtc: "rtc_loop (mount_step env mt) run" and q: "quiet (mo_op env) MOUNTS mt"
    and start: "was_active mt" "cr_sunset mt \<in> {None, Some []}"
    and s: "s \<notin> {MMissing, MTerminated}" and gone: "fst (mount_target_exists env mt w) = Inr False"
  shows "\<exists>w'. handler_mount_reconcile env run mt (s, w) = (Inr (), (MMissing, w'))"
  by (rule reconcile_marks_missing [OF assms])

text \<open>A mount whose target comes back within the grace period is active again after two ticks of
  the timer, if the provider is prepared, installs and is ready.\<close>

theorem mount_recovers:
  assumes rtc: "rtc_loop (mount_step env mt) run" and q: "quiet (mo_op env) MOUNTS mt"
    and start: "was_active mt" "cr_sunset mt \<in> {None, Some []}"
    and p: "bridge_mount_provider env mt = Inr P" and st: "steady P (Inr ()) (Inr True) (Inr True) (Inr ()) (Inr True)"
    and prepared: "\<And>w. fst (mp_prepared P w) = Inr True"
    and here: "\<And>w. fst (mp_target_exists P w) = Inr True"
  shows "\<exists>w'. thn (handler_mount_reconcile env run mt) (handler_mount_reconcile env run mt) (MMissing, w)
    = (Inr (), (MActive, w'))"
proof -
  have ex: "\<exists>w'. mount_target_exists env mt w = (Inr True, w')" for w
    using here [of w] by (cases "mp_target_exists P w")
      (simp add: mount_target_exists_def with_mount_eq [OF p] try_except_def)
  have prep: "\<exists>w'. with_mount env mt mp_prepared w = (Inr True, w')" for w
    using prepared [of w] by (cases "mp_prepared P w") (simp add: with_mount_eq [OF p])
  have intact: "\<exists>w'. mount_is_intact env mt w = (Inr True, w')" for w
  proof -
    obtain w1 where 1: "mp_prepared P w = (Inr True, w1)" using prepared by (metis prod.collapse)
    obtain w2 where "mp_ready P w1 = (Inr True, w2)" using steadyD [OF st] by blast
    with 1 show ?thesis by (simp add: mount_is_intact_def with_mount_eq [OF p] try_except_def bind_def)
  qed
  obtain w1 where 1: "mount_target_exists env mt w = (Inr True, w1)" using ex by blast
  obtain w2 where "post_event (mo_op env) mt ''Target recovered'' ''Normal'' w1 = (Inr (), w2)"
    using quiet_event [OF q] by blast
  then have "mount_callbacks env mt MMissing MRecover w1 = (Inr [], w2)"
    by (simp add: mount_on_recover_def thn_Inr)
  from run_mount_end [OF rtc q _ this] obtain w3 where
    "run [MRecover] (MMissing, w1) = (Inr (), (MPreparing, w3))" by auto
  with 1 reconcile_missing_start [OF start, of env run w] have tick1:
    "handler_mount_reconcile env run mt (MMissing, w) = (Inr (), (MPreparing, w3))"
    by (simp add: try_except_def reconcile_missing_def lift_def bind_def)
  obtain w4 where 4: "mount_target_exists env mt w3 = (Inr True, w4)" using ex by blast
  obtain w5 where 5: "with_mount env mt mp_prepared w4 = (Inr True, w5)" using prep by blast
  obtain w6 where 6: "run [MInstall] (MPreparing, w5) = (Inr (), (MActive, w6))"
    using run_install_mount [OF rtc q p st, of MPreparing w5] by auto
  obtain w7 where 7: "mount_is_intact env mt w6 = (Inr True, w7)" using intact by blast
  from 4 5 6 7 have "reconcile_operational env run mt (MPreparing, w3) = (Inr (), (MActive, w7))"
    by (simp add: reconcile_operational_def lift_def bind_def thn_def)
  with reconcile_operational_start [OF start, of MPreparing env run w3] have
    "handler_mount_reconcile env run mt (MPreparing, w3) = (Inr (), (MActive, w7))"
    by (simp add: try_except_def)
  with tick1 show ?thesis by (simp add: thn_Inr)
qed

text \<open>Deleting a mount always returns, in \<open>TERMINATED\<close>, whatever the removal of the shadow
  workload and of the bridges does; nothing is written after the cleanup.\<close>

theorem mount_delete_total:
  assumes rtc: "rtc_loop (mount_step env mt) run"
  shows "handler_mount_deleted run (s, w) =
    (Inr (), (MTerminated, if s = MTerminated then w else snd (mount_on_terminate env mt w)))"
  using run_terminate_mount [OF rtc, of s w] by (simp add: handler_mount_deleted_def)

section \<open>Witnesses\<close>

definition sample_mount :: mount where
  "sample_mount = \<lparr>cr_name = ''m1'', cr_namespace = ''gefyra'', cr_labels = None, cr_state = ''MISSING'',
     cr_transitions = Some [(''ACTIVE'', ''10''), (''MISSING'', ''20'')], cr_sunset = None,
     mt_provider = Some ''carrier2mount'', mt_target = Some ''deploy/web'', mt_targetNamespace = Some ''default'',
     mt_targetContainer = Some ''nginx'', mt_missingGracePeriod = Some 1, mt_parameter = None\<rparr>"

definition fresh_mount :: mount where
  "fresh_mount = sample_mount\<lparr>cr_transitions := None\<rparr>"

definition mem_mount_provider :: "bool \<Rightarrow> mem mount_provider" where
  "mem_mount_provider there = \<lparr>mp_install = ret (), mp_prepare = ret (), mp_ready = ret True,
     mp_prepared = ret True, mp_uninstall = ret (), mp_target_exists = ret there,
     mp_duplicated_pods_ready = ret True, mp_validate = (\<lambda>m. ret ())\<rparr>"

definition mem_mount_env :: "bool \<Rightarrow> exn + string \<Rightarrow> mem mount_env" where
  "mem_mount_env there attr = \<lparr>mo_op = mem_operator, mo_builder = (\<lambda>n ns t c m. mem_mount_provider there),
     mo_configuration_namespace = attr\<rparr>"

abbreviation mem_mount_run :: "bool \<Rightarrow> exn + string \<Rightarrow> mount \<Rightarrow> mem mount_run" where
  "mem_mount_run there attr mt \<equiv> rtc_run (mount_step (mem_mount_env there attr) mt) (MError, mem_empty)"

lemma mem_mount_simps [simp]:
  "mo_op (mem_mount_env b attr) = mem_operator" "mo_configuration_namespace (mem_mount_env b attr) = attr"
  by (simp_all add: mem_mount_env_def)

lemma mem_mount_built:
  "bridge_mount_provider (mem_mount_env b attr) sample_mount = Inr (mem_mount_provider b)"
  "bridge_mount_provider (mem_mount_env b attr) fresh_mount = Inr (mem_mount_provider b)"
  by (simp_all add: bridge_mount_provider_def fresh_mount_def sample_mount_def provider_named_def mem_mount_env_def)

lemma mem_mount_steady: "steady (mem_mount_provider b) (Inr ()) (Inr True) (Inr True) (Inr ()) (Inr True)"
  by (simp add: steady_def mem_mount_provider_def)

lemma mem_mount_quiet: "quiet (mo_op (mem_mount_env b attr)) MOUNTS mt"
  by (simp add: mem_quiet)

lemma sample_mount_start: "was_active sample_mount" "cr_sunset sample_mount \<in> {None, Some []}"
  by (simp_all add: was_active_def completed_transition_def sample_mount_def)

lemma sample_mount_target:
  "mount_target_exists (mem_mount_env b attr) sample_mount w = (Inr b, w)"
  by (simp add: mount_target_exists_def with_mount_eq [OF mem_mount_built(1)] mem_mount_provider_def try_except_def)

theorem mount_create_outcome_witness:
  "\<exists>w'. handler_mount_created (mem_mount_env True (Inr ''gefyra'')) (mem_mount_run True (Inr ''gefyra'') fresh_mount)
     fresh_mount (MRequested, mem_empty) = (Inr (), (MActive, w'))"
proof -
  have n: "\<not> was_active fresh_mount"
    by (simp add: was_active_def completed_transition_def fresh_mount_def)
  show ?thesis
    using mount_create_outcome [OF rtc_run_loop mem_mount_quiet mem_mount_built(2) mem_mount_steady n,
        where s = MRequested and w = mem_empty]
    by (simp add: prepared_outcome_def installed_outcome_def)
qed

theorem mount_create_returns_active_witness:
  "handler_mount_created (mem_mount_env True (Inr ''gefyra'')) (mem_mount_run True (Inr ''gefyra'') fresh_mount)
     fresh_mount (MActive, mem_empty) = (Inr (), (MActive, mem_empty)) \<and> MActive = MActive"
proof -
  have n: "\<not> was_active fresh_mount"
    by (simp add: was_active_def completed_transition_def fresh_mount_def)
  then have h: "handler_mount_created (mem_mount_env True (Inr ''gefyra'')) (mem_mount_run True (Inr ''gefyra'') fresh_mount)
     fresh_mount (MActive, mem_empty) = (Inr (), (MActive, mem_empty))"
    by (simp add: handler_mount_created_def try_except_def thn_def bind_def)
  from mount_create_returns_active [OF n h] h show ?thesis by simp
qed

lemma sample_mount_since:
  "completed_transition sample_mount ''MISSING'' = Some ''20''" "''20'' \<noteq> []"
  "fromisoformat (op_host (mo_op (mem_mount_env b attr))) (strip_char (CHR ''Z'') ''20'') = Inr (Naive 20)"
proof -
  have "py_int ''20'' = Inr 20" using py_int_str_nat [of 20] by (simp add: str_nat_eval)
  then show "fromisoformat (op_host (mo_op (mem_mount_env b attr))) (strip_char (CHR ''Z'') ''20'') = Inr (Naive 20)"
    by (simp add: mem_host_def strip_char_def)
qed (simp_all add: completed_transition_def sample_mount_def)

lemma sample_mount_clock:
  "utcnow (op_host (mo_op (mem_mount_env b attr))) w = (Inr (mm_clock w), w)"
  by (simp add: mem_host_def)

theorem mount_missing_protocol_witness:
  "handler_mount_reconcile (mem_mount_env False (Inr ''gefyra'')) (mem_mount_run False (Inr ''gefyra'') sample_mount)
      sample_mount (MMissing, mem_empty\<lparr>mm_clock := 1000019\<rparr>) = (Inr (), (MMissing, mem_empty\<lparr>mm_clock := 1000019\<rparr>))
   \<and> fst (snd (handler_mount_reconcile (mem_mount_env False (Inr ''gefyra'')) (mem_mount_run False (Inr ''gefyra'') sample_mount)
      sample_mount (MMissing, mem_empty\<lparr>mm_clock := 1000020\<rparr>))) = MTerminated"
proof -
  have g: "1000020 = as_utc (Naive 20) + missing_grace_period
      (op_cfg (mo_op (mem_mount_env False (Inr ''gefyra'')))) sample_mount * 1000000"
    by (simp add: missing_grace_period_def sample_mount_def)
  note P = mount_missing_protocol [OF rtc_run_loop mem_mount_quiet sample_mount_start sample_mount_target
      sample_mount_since sample_mount_clock g]
  show ?thesis
    using P [of "(MError, mem_empty)" "mem_empty\<lparr>mm_clock := 1000019\<rparr>"]
      P [of "(MError, mem_empty)" "mem_empty\<lparr>mm_clock := 1000020\<rparr>"]
    by (simp add: try_delete_cr_def try_except_def lift_def bind_def thn_def mem_custom_def)
qed

text \<open>A cluster that logs the deletion of mounts, and nothing else.\<close>

definition logging_env :: "mem mount_env" where
  "logging_env = (mem_mount_env False (Inl AttributeError))\<lparr>mo_op := mem_operator\<lparr>op_custom := mem_custom\<lparr>
     co_patch := (\<lambda>pl ns n b. ret ()),
     co_delete := (\<lambda>pl ns n m. (Inr (), if pl = MOUNTS then m\<lparr>mm_log := n # mm_log m\<rparr> else m))\<rparr>\<rparr>\<rparr>"

lemma logging_simps [simp]:
  "op_host (mo_op logging_env) = mem_host" "op_cfg (mo_op logging_env) = default_configuration"
  "op_create_event (mo_op logging_env) = (\<lambda>ev. ret ())" "mo_configuration_namespace logging_env = Inl AttributeError"
  "co_patch (op_custom (mo_op logging_env)) = (\<lambda>pl ns n b. ret ())"
  "co_list_bridges (op_custom (mo_op logging_env)) = (\<lambda>ns sel. ret [])"
  "co_delete (op_custom (mo_op logging_env)) =
     (\<lambda>pl ns n m. (Inr (), if pl = MOUNTS then m\<lparr>mm_log := n # mm_log m\<rparr> else m))"
  by (simp_all add: logging_env_def mem_custom_def)





theorem mount_marks_missing_witness:
  "\<exists>w'. handler_mount_reconcile (mem_mount_env False (Inr ''gefyra'')) (mem_mount_run False (Inr ''gefyra'') sample_mount)
      sample_mount (MActive, mem_empty) = (Inr (), (MMissing, w'))"
proof -
  have s: "MActive \<notin> {MMissing, MTerminated}" by simp
  have g: "fst (mount_target_exists (mem_mount_env False (Inr ''gefyra'')) sample_mount mem_empty) = Inr False"
    by (simp add: sample_mount_target)
  show ?thesis by (rule mount_marks_missing [OF rtc_run_loop mem_mount_quiet sample_mount_start s g])
qed

theorem mount_recovers_witness:
  "\<exists>w'. thn (handler_mount_reconcile (mem_mount_env True (Inr ''gefyra'')) (mem_mount_run True (Inr ''gefyra'') sample_mount) sample_mount)
     (handler_mount_reconcile (mem_mount_env True (Inr ''gefyra'')) (mem_mount_run True (Inr ''gefyra'') sample_mount) sample_mount)
     (MMissing, mem_empty) = (Inr (), (MActive, w'))"
proof -
  have p: "fst (mp_prepared (mem_mount_provider True) w) = Inr True" for w by (simp add: mem_mount_provider_def)
  have b: "fst (mp_target_exists (mem_mount_provider True) w) = Inr True" for w by (simp add: mem_mount_provider_def)
  show ?thesis
    by (rule mount_recovers [OF rtc_run_loop mem_mount_quiet sample_mount_start mem_mount_built(1) mem_mount_steady p b])
qed

theorem mount_delete_total_witness:
  "handler_mount_deleted (mem_mount_run True (Inr ''gefyra'') sample_mount) (MMissing, mem_empty) =
     (Inr (), (MTerminated, snd (mount_on_terminate (mem_mount_env True (Inr ''gefyra'')) sample_mount mem_empty)))"
  using mount_delete_total [OF rtc_run_loop, where s = MMissing and w = mem_empty] by simp

end
