(* ===== verification/CarrierContracts.thy ===== *)
theory CarrierContracts
  imports CarrierShadow MountProperties BridgeProperties
begin

text \<open>
  The Carrier providers behind the interfaces of the state machines: what the machines may rely on, as
  locales, their interpretation on the two providers, and the properties of the machines together with
  these providers.
\<close>

section \<open>The contract of a mount provider\<close>

text \<open>\<open>prepare\<close> lets one exception through, the one the state machine handles.\<close>

locale mount_contract =
  fixes P :: "'w mount_provider"
  assumes prepare_raises: "mp_prepare P w = (Inl e, w') \<Longrightarrow> e = BridgeMountInstallException"
begin

lemma arrange_total:
  assumes "quiet (mo_op env) MOUNTS mt" and "bridge_mount_provider env mt = Inr P"
  shows "\<exists>w'. mount_on_arrange env mt w =
    (Inr (if fst (mp_prepare P w) = Inr () then [] else [MImpair]), w')"
proof (cases "mp_prepare P w")
  case (Pair r w1)
  show ?thesis
  proof (cases r)
    case (Inl e)
    with Pair prepare_raises have e: "e = BridgeMountInstallException" by blast
    obtain w2 where "post_event (mo_op env) mt ''Failed to install GefyraBridgeMount'' ''Warning'' w1 = (Inr (), w2)"
      using quiet_event [OF assms(1)] by blast
    with Pair Inl e show ?thesis
      by (simp add: mount_on_arrange_def with_mount_eq [OF assms(2)] try_except_def thn_def bind_def)
  next
    case (Inr u)
    with Pair show ?thesis
      by (simp add: mount_on_arrange_def with_mount_eq [OF assms(2)] try_except_def thn_def bind_def)
  qed
qed

end

lemma carrier2mount_prepare:
  "mp_prepare (carrier2mount M) w = (Inl e, w') \<Longrightarrow> e = BridgeMountInstallException"
  by (auto simp: carrier2mount_def mount_prepare_def try_except_def split: prod.splits sum.splits)

interpretation c2m: mount_contract "carrier2mount M" for M :: "'w c2_mount"
  by unfold_locales (rule carrier2mount_prepare)

section \<open>The contract of a bridge provider\<close>

text \<open>\<open>ready\<close> answers \<open>True\<close> or raises, and \<open>install\<close> does nothing.\<close>

locale bridge_contract =
  fixes P :: "'w abstract_bridge_provider"
  assumes ready_true: "bp_ready P w = (Inr b, w') \<Longrightarrow> b"
    and install_nothing: "bp_install P = ret ()"
begin

lemma wait_is_ready:
  assumes "bridge_provider env br w = (Inr P, w1)"
  shows "wait_for_provider env br w =
    (case bp_ready P w1 of (Inr b, w2) \<Rightarrow> (Inr [BSetInstalled], w2) | (Inl e, w2) \<Rightarrow> (Inl e, w2))"
  using assms ready_true [of w1]
  by (auto simp: wait_for_provider_def bind_def split: prod.split sum.split)

lemma install_raises:
  assumes "bridge_provider env br w = (Inr P, w1)" and "bridge_provider env br w1 = (Inr P, w2)"
    and "bp_ready P w2 = (Inl e, w3)" and "e \<noteq> BridgeInstallException"
  shows "install_provider env br w = (Inl e, w3)"
  using wait_is_ready [OF assms(2)] assms
  by (simp add: install_provider_def install_nothing try_except_def bind_def)

end

lemma carrier2_ready_true: "carrier2_ready C w = (Inr b, w') \<Longrightarrow> b"
  by (auto simp: carrier2_ready_def bind_Inr_iff split: if_splits)

interpretation c2b: bridge_contract "carrier2_provider C" for C :: "'w carrier2"
  by unfold_locales (auto simp: carrier2_provider_def dest: carrier2_ready_true)

section \<open>Mounts with carrier2mount\<close>

text \<open>A resource the provider can be built for.\<close>

definition buildable :: "mount \<Rightarrow> bool" where
  "buildable mt \<longleftrightarrow> mt_provider mt = Some ''carrier2mount'' \<and> mt_targetNamespace mt \<noteq> None
     \<and> mt_target mt \<noteq> None \<and> mt_targetContainer mt \<noteq> None"

definition built_mount :: "'w operator \<Rightarrow> 'w carrier_api \<Rightarrow> mount \<Rightarrow> 'w c2_mount" where
  "built_mount Op A mt = Carrier2BridgeMountBuilder A (op_cfg Op) (post_event Op mt) (cr_name mt)
     (the (mt_targetNamespace mt)) (the (mt_target mt)) (the (mt_targetContainer mt)) (Some (provider_parameter mt))"

lemma carrier2_mount_built:
  "buildable mt \<Longrightarrow> bridge_mount_provider (carrier2_mount_env Op A cns) mt = Inr (carrier2mount (built_mount Op A mt))"
  by (auto simp: buildable_def bridge_mount_provider_def provider_named_def carrier2_mount_env_def built_mount_def)

lemma carrier2_mount_env_op [simp]: "mo_op (carrier2_mount_env Op A cns) = Op"
  by (simp add: carrier2_mount_env_def)

text \<open>The preparation of a mount on Carrier2 never raises out of the state machine: whatever the API
  server does while the workload is duplicated, \<open>arrange\<close> ends in \<open>PREPARING\<close> or, through
  \<open>impair\<close>, in \<open>ERROR\<close>.\<close>

theorem arrange_never_raises:
  assumes rtc: "rtc_loop (mount_step (carrier2_mount_env Op A cns) mt) run" and q: "quiet Op MOUNTS mt"
    and b: "buildable mt" and s: "s \<in> {MRestoring, MRequested, MError, MPreparing}"
  shows "\<exists>w'. run [MArrange] (s, w) =
    (Inr (), (if fst (mount_prepare (built_mount Op A mt) w) = Inr () then MPreparing else MError, w'))"
proof -
  have q': "quiet (mo_op (carrier2_mount_env Op A cns)) MOUNTS mt" using q by simp
  obtain w1 where cb: "mount_callbacks (carrier2_mount_env Op A cns) mt s MArrange w =
      (Inr (if fst (mount_prepare (built_mount Op A mt) w) = Inr () then [] else [MImpair]), w1)"
    using c2m.arrange_total [OF q' carrier2_mount_built [OF b], of w] by (auto simp: carrier2mount_def)
  have n: "mount_next s MArrange = Some MPreparing" using s by auto
  obtain w2 where r: "run [MArrange] (s, w) =
      run (if fst (mount_prepare (built_mount Op A mt) w) = Inr () then [] else [MImpair]) (MPreparing, w2)"
    using run_mount [OF rtc q' n cb, of "[]"] by auto
  have "\<exists>w3. run [MImpair] (MPreparing, w2) = (Inr (), (MError, w3))"
    by (rule run_mount_end [OF rtc q']) simp_all
  with r rtc_Nil [OF rtc] show ?thesis by auto
qed

lemma outage_is_gone:
  assumes b: "buildable mt"
    and out: "fst (read_namespace (ca_core A) (the (mt_targetNamespace mt)) w) = Inl (ApiException n)"
  shows "fst (mount_target_exists (carrier2_mount_env Op A cns) mt w) = Inr False"
proof -
  have "mp_target_exists (carrier2mount (built_mount Op A mt)) w = mount_provider_target_exists (built_mount Op A mt) w"
    by (simp add: carrier2mount_def)
  with out show ?thesis
    by (cases "read_namespace (ca_core A) (the (mt_targetNamespace mt)) w")
       (simp add: mount_target_exists_def with_mount_eq [OF carrier2_mount_built [OF b]] try_except_def
         mount_provider_target_exists_def built_mount_def Carrier2BridgeMountBuilder_def bind_def thn_def)
qed

text \<open>An API server that cannot answer counts as a target that is gone: if the timer of an active mount
  gets any error when it reads the target's namespace, also a passing one such as 500, the mount becomes
  \<open>MISSING\<close>, and what the provider installed is removed.\<close>

theorem outage_marks_missing:
  assumes rtc: "rtc_loop (mount_step (carrier2_mount_env Op A cns) mt) run" and q: "quiet Op MOUNTS mt"
    and start: "was_active mt" "cr_sunset mt \<in> {None, Some []}" and b: "buildable mt"
    and out: "fst (read_namespace (ca_core A) (the (mt_targetNamespace mt)) w) = Inl (ApiException n)"
  shows "\<exists>w'. handler_mount_reconcile (carrier2_mount_env Op A cns) run mt (MActive, w) = (Inr (), (MMissing, w'))"
proof -
  have q': "quiet (mo_op (carrier2_mount_env Op A cns)) MOUNTS mt" using q by simp
  have s: "MActive \<notin> {MMissing, MTerminated}" by simp
  show ?thesis by (rule reconcile_marks_missing [OF rtc q' start s outage_is_gone [OF b out]])
qed

section \<open>Bridges with carrier2\<close>

text \<open>A bridge whose mount is not ready is retried without the delay of one second the state machine
  asks for: Carrier2 never reports \<open>False\<close>, it raises a \<open>TemporaryError\<close> of its own that has no
  delay, and the bridge stays \<open>REQUESTED\<close>.\<close>

theorem unready_bridge_retries:
  assumes rtc: "rtc_loop (bridge_step env br) run"
    and p: "\<And>w. bridge_provider env br w = (Inr (carrier2_provider C), w)"
    and unready: "mount_ready (c2b_mount C) w = (Inr False, w')" and t: "br_target br = Some key"
  shows "handler_bridge_create run br (BRequested, w) = (Inl (TemporaryError None), (BRequested, w'))"
proof -
  have r: "bp_ready (carrier2_provider C) w = (Inl (TemporaryError None), w')"
    using unready by (simp add: carrier2_provider_def carrier2_ready_def bind_def)
  have "bridge_callbacks env br BRequested BInstall w = (Inl (TemporaryError None), w')"
    using c2b.install_raises [OF p p r] by simp
  then have "bridge_step env br BRequested BInstall w = (Inl (TemporaryError None), w')"
    by (intro bridge_step_fails [of _ _ BInstalling]) auto
  then have "run [BInstall] (BRequested, w) = (Inl (TemporaryError None), (BRequested, w'))"
    by (rule rtc_Inl [OF rtc])
  with t show ?thesis by (simp add: handler_bridge_create_def thn_def bind_def)
qed

section \<open>Admission of mounts\<close>

lemma any_same_target_complete:
  assumes "\<forall>m \<in> set ms. mt_target m \<noteq> None \<and> mt_targetNamespace m \<noteq> None"
  shows "any_same_target ms target (Some ns) =
    Inr (\<exists>m \<in> set ms. mt_target m = Some target \<and> mt_targetNamespace m = Some ns)"
  using assms by (induction ms) (auto simp del: sbind_Inr_iff)

text \<open>A mount is admitted exactly if its three fields are given, its target is well formed, and no mount
  has the same target, written the same way, in the same namespace: another spelling of the kind, such as
  \<open>deployment/web\<close> for \<open>deploy/web\<close>, is not recognised as the same workload.\<close>

theorem mount_validate_exact:
  assumes "co_list_mounts (ca_custom (c2m_api M)) (NAMESPACE (c2m_configuration M)) w = (Inr ms, w')"
    and "\<forall>m \<in> set ms. mt_target m \<noteq> None \<and> mt_targetNamespace m \<noteq> None"
    and "mt_target request = Some target" and "mt_targetNamespace request = Some ns"
  shows "fst (mount_validate M request w) = Inr () \<longleftrightarrow>
      target \<noteq> [] \<and> ns \<noteq> [] \<and> required_field (mt_targetContainer request)
    \<and> (\<exists>r. split_target_type_name target = Inr r)
    \<and> \<not> (\<exists>m \<in> set ms. mt_target m = Some target \<and> mt_targetNamespace m = Some ns)"
  using assms any_same_target_complete [OF assms(2), of target ns]
  by (cases "split_target_type_name target")
     (auto simp: mount_validate_def required_field_def bind_def try_except_def)

section \<open>Witnesses\<close>

text \<open>The in-memory operator and Carrier API, for a resource that was active before.\<close>

definition mem_c2_env :: "mem carrier_api \<Rightarrow> mem mount_env" where
  "mem_c2_env A = carrier2_mount_env mem_operator A (Inr ''gefyra'')"

abbreviation c2_run :: "mem carrier_api \<Rightarrow> mem mount_run" where
  "c2_run A \<equiv> rtc_run (mount_step (mem_c2_env A) sample_mount) (MError, mem_empty)"

lemma sample_buildable: "buildable sample_mount"
  by (simp add: buildable_def sample_mount_def)

theorem arrange_never_raises_witness:
  "\<exists>w'. c2_run (mem_carrier Carrier2Config) [MArrange] (MRequested, mem_empty) = (Inr (), (MError, w'))"
proof -
  have fail: "fst (mount_prepare (built_mount mem_operator (mem_carrier Carrier2Config) sample_mount) mem_empty) \<noteq> Inr ()"
    by (simp add: mount_prepare_def duplicate_workload_def get_workload_def built_mount_def
        Carrier2BridgeMountBuilder_def sample_mount_def split_deploy_web bind_def try_except_def mem_apps_def
        mem_read_def mem_empty_def)
  show ?thesis
    using arrange_never_raises [OF rtc_run_loop mem_quiet sample_buildable, of MRequested
        "mem_carrier Carrier2Config" "Inr ''gefyra''" "(MError, mem_empty)" mem_empty] fail
    by (simp add: mem_c2_env_def)
qed

definition outage_carrier :: "mem carrier_api" where
  "outage_carrier = (mem_carrier Carrier2Config)\<lparr>ca_cluster := mem_cluster\<lparr>core :=
     mem_core\<lparr>read_namespace := (\<lambda>n. raise (ApiException 500))\<rparr>\<rparr>\<rparr>"

theorem outage_marks_missing_witness:
  "\<exists>w'. handler_mount_reconcile (mem_c2_env outage_carrier) (c2_run outage_carrier) sample_mount (MActive, mem_web) =
     (Inr (), (MMissing, w'))"
  unfolding mem_c2_env_def
  by (rule outage_marks_missing [OF rtc_run_loop mem_quiet sample_mount_start sample_buildable])
     (simp add: outage_carrier_def)

definition mem_shadowed :: mem where
  "mem_shadowed = mem_web\<lparr>mm_workloads := [(''web'', sample_workload), (''web-gefyra'', sample_workload)]\<rparr>"

lemma shadowed_pods:
  "original_pods (mem_c2_mount config) mem_shadowed = (Inr [sample_pod], mem_shadowed)"
  "gefyra_pods (mem_c2_mount config) mem_shadowed = (Inr [sample_pod], mem_shadowed)"
proof -
  have sel: "selects ''app=web'' [(''app'', ''web'')]" "get_label_selector [(''app'', ''web'')] = ''app=web''" by code_simp+
  have pods: "get_pods_workload (mem_c2_mount config) target mem_shadowed = (Inr [sample_pod], mem_shadowed)"
    if "split_target_type_name target = Inr (name, Deployment)" "name \<in> {''web'', ''web-gefyra''}" for target name
    using that sel
    by (auto simp: get_pods_workload_def get_workload_def mem_apps_def mem_read_def mem_shadowed_def mem_web_def
        mem_empty_def try_except_def sample_workload_def bind_def mem_core_def sample_pod_def dvalues_def routes_data_def)
  show "original_pods (mem_c2_mount config) mem_shadowed = (Inr [sample_pod], mem_shadowed)"
    using pods [OF split_deploy_web] by (simp add: original_pods_def)
  have "split_target_type_name ''deployment/web-gefyra'' = Inr (''web-gefyra'', Deployment)" by code_simp
  from pods [OF this] show "gefyra_pods (mem_c2_mount config) mem_shadowed = (Inr [sample_pod], mem_shadowed)"
    by (simp add: gefyra_pods_def gefyra_workload_type_def gefyra_workload_name_def split_deploy_web)
qed

lemma sample_pod_healthy: "pod_ready_and_healthy sample_pod ''nginx'' = Inr True"
  by (simp add: pod_ready_and_healthy_def sample_pod_def status_running_def)

lemma sample_container_simps:
  "pod_containers sample_pod = [sample_container]" "c_name sample_container = ''nginx''"
  "c_image sample_container = ''nginx:1''" "container_ports sample_container = Inr [80]"
  by (simp_all add: sample_pod_def) (simp_all add: sample_container_def container_ports_def)

lemma shadowed_unready: "mount_ready (mem_c2_mount Carrier2Config) mem_shadowed = (Inr False, mem_shadowed)"
proof -
  let ?M = "mem_c2_mount Carrier2Config"
  have d: "duplicated_pods_ready ?M mem_shadowed = (Inr True, mem_shadowed)"
    by (simp add: duplicated_pods_ready_def shadowed_pods sample_pod_healthy bind_def)
  have c: "carrier_installed ?M mem_shadowed = (Inr False, mem_shadowed)"
    by (simp add: carrier_installed_def shadowed_pods sample_container_simps sample_carrier_image bind_def)
  have o: "original_pods_ready ?M mem_shadowed = (Inr True, mem_shadowed)"
    by (simp add: original_pods_ready_def shadowed_pods sample_pod_healthy bind_def)
  have u: "upstream_set ?M mem_shadowed = (Inr False, mem_shadowed)"
    by (simp add: upstream_set_def shadowed_pods sample_container_simps upstream_set_container_def
        read_carrier2_config_def read_carrier2_file_def eval_nat_numeral try_except_else_def bind_def Carrier2Config_def)
  from d c o u shadowed_pods [of Carrier2Config] show ?thesis by (simp add: mount_ready_def and_then_def thn_def bind_def)
qed

definition c2_bridge_env :: "mem bridge_env" where
  "c2_bridge_env = mem_bridge_env\<lparr>be_builder := (\<lambda>n ns t c. ret (carrier2_provider (mem_carrier2 Carrier2Config)))\<rparr>"

theorem unready_bridge_retries_witness:
  "handler_bridge_create (rtc_run (bridge_step c2_bridge_env sample_bridge) (BError, mem_empty)) sample_bridge
     (BRequested, mem_shadowed) = (Inl (TemporaryError None), (BRequested, mem_shadowed))"
proof -
  have p: "bridge_provider c2_bridge_env sample_bridge w = (Inr (carrier2_provider (mem_carrier2 Carrier2Config)), w)" for w
    by (simp add: bridge_provider_def c2_bridge_env_def provider_named_def sample_bridge_def)
  have u: "mount_ready (c2b_mount (mem_carrier2 Carrier2Config)) mem_shadowed = (Inr False, mem_shadowed)"
    using shadowed_unready by (simp add: mem_carrier2_def)
  have t: "br_target sample_bridge = Some ''m1''" by (simp add: sample_bridge_def)
  show ?thesis by (rule unready_bridge_retries [OF rtc_run_loop p u t])
qed

definition listing_mount :: "mem c2_mount" where
  "listing_mount = (mem_c2_mount Carrier2Config)\<lparr>c2m_api := (mem_carrier Carrier2Config)\<lparr>ca_custom :=
     mem_custom\<lparr>co_list_mounts := (\<lambda>ns. ret [sample_mount])\<rparr>\<rparr>\<rparr>"

theorem mount_validate_exact_witness:
  "fst (mount_validate listing_mount (sample_mount\<lparr>mt_target := Some ''deployment/web''\<rparr>) mem_web) = Inr ()
   \<and> fst (mount_validate listing_mount sample_mount mem_web) \<noteq> Inr ()"
proof -
  have l: "co_list_mounts (ca_custom (c2m_api listing_mount)) (NAMESPACE (c2m_configuration listing_mount)) mem_web =
      (Inr [sample_mount], mem_web)" by (simp add: listing_mount_def)
  have m: "\<forall>m \<in> set [sample_mount]. mt_target m \<noteq> None \<and> mt_targetNamespace m \<noteq> None"
    by (simp add: sample_mount_def)
  have s: "split_target_type_name ''deployment/web'' = Inr (''web'', Deployment)" by code_simp
  have f: "mt_target sample_mount = Some ''deploy/web''" "mt_targetNamespace sample_mount = Some ''default''"
    "mt_targetContainer sample_mount = Some ''nginx''" by (simp_all add: sample_mount_def)
  show ?thesis
    using mount_validate_exact [OF l m, of "sample_mount\<lparr>mt_target := Some ''deployment/web''\<rparr>" "''deployment/web''" "''default''"]
      mount_validate_exact [OF l m f(1,2)] s f by (auto simp: required_field_def)
qed

end
