(* ===== verification/Startup.thy ===== *)
theory Startup
  imports StowawayProvider Machine
begin

text \<open>
  The start of the operator: the custom resource definitions (operator/gefyra/resources/crds.py),
  the events that report readiness (operator/gefyra/resources/events.py) and the startup handlers
  (operator/gefyra/handler/startup.py).
\<close>

section \<open>Custom resource definitions\<close>

datatype json_type = TObject | TString | TInteger | TArray

text \<open>\<open>V1JSONSchemaProps\<close>: a type and the attributes that are set.\<close>

datatype schema = Schema json_type "schema_attr list"
and schema_attr =
    Enum "string list"
  | DefaultString string
  | DefaultEmptyList
  | PreserveUnknownFields
  | Minimum int
  | Items schema
  | Required "string list"
  | Properties "(string \<times> schema) list"

record crd =
  crd_group :: string
  crd_kind :: string
  crd_plural :: string
  crd_short_names :: "string list"
  crd_scope :: string
  crd_version :: string
  crd_schema :: schema
  crd_name :: string
  crd_namespace :: string

definition CONNECTION_PROVIDERS :: "string list" where
  "CONNECTION_PROVIDERS = [''stowaway'']"

definition BRIDGE_PROVIDERS :: "string list" where
  "BRIDGE_PROVIDERS = [''carrier'', ''carrier2'']"

definition any_object :: schema where
  "any_object = Schema TObject [PreserveUnknownFields]"

definition a_string :: schema where
  "a_string = Schema TString []"

definition create_gefyrabridge_definition :: "operator_configuration \<Rightarrow> crd" where
  "create_gefyrabridge_definition cfg = \<lparr>
     crd_group = ''gefyra.dev'', crd_kind = ''gefyrabridge'', crd_plural = ''gefyrabridges'',
     crd_short_names = [''gbridge'', ''gbridges''], crd_scope = ''Namespaced'', crd_version = ''v1'',
     crd_schema = Schema TObject [Properties
       [(''provider'', Schema TString [Enum BRIDGE_PROVIDERS]),
        (''providerParameter'', any_object),
        (''connectionProvider'', Schema TString [Enum CONNECTION_PROVIDERS]),
        (''targetNamespace'', a_string),
        (''target'', a_string),
        (''targetContainer'', a_string),
        (''client'', a_string),
        (''destinationIP'', a_string),
        (''portMappings'', Schema TArray [DefaultEmptyList, Items a_string]),
        (''clusterEndpoint'', any_object),
        (''sunset'', a_string),
        (''state'', Schema TString [DefaultString ''REQUESTED'']),
        (''stateTransitions'', any_object),
        (''status'', any_object)]],
     crd_name = ''gefyrabridges.gefyra.dev'', crd_namespace = NAMESPACE cfg\<rparr>"

definition create_gefyraclient_definition :: "operator_configuration \<Rightarrow> crd" where
  "create_gefyraclient_definition cfg = \<lparr>
     crd_group = ''gefyra.dev'', crd_kind = ''gefyraclient'', crd_plural = ''gefyraclients'',
     crd_short_names = [''gclients'', ''gclient''], crd_scope = ''Namespaced'', crd_version = ''v1'',
     crd_schema = Schema TObject [Required [''provider''], Properties
       [(''provider'', Schema TString [Enum CONNECTION_PROVIDERS]),
        (''providerParameter'', any_object),
        (''providerConfig'', any_object),
        (''serviceAccountName'', a_string),
        (''serviceAccountData'', Schema TObject [Properties
           [(''token'', a_string), (''ca.crt'', a_string), (''namespace'', a_string)]]),
        (''sunset'', a_string),
        (''maxConnectionAge'', Schema TInteger []),
        (''lastClientContact'', a_string),
        (''state'', Schema TString [DefaultString ''REQUESTED'']),
        (''stateTransitions'', any_object),
        (''status'', any_object)]],
     crd_name = ''gefyraclients.gefyra.dev'', crd_namespace = NAMESPACE cfg\<rparr>"

definition create_bridge_mount_definition :: "operator_configuration \<Rightarrow> crd" where
  "create_bridge_mount_definition cfg = \<lparr>
     crd_group = ''gefyra.dev'', crd_kind = ''gefyrabridgemount'', crd_plural = ''gefyrabridgemounts'',
     crd_short_names = [''gbridgemount'', ''gbridgemounts''], crd_scope = ''Namespaced'', crd_version = ''v1'',
     crd_schema = Schema TObject [Properties
       [(''targetNamespace'', a_string),
        (''target'', a_string),
        (''targetContainer'', a_string),
        (''provider'', a_string),
        (''providerParameter'', any_object),
        (''sunset'', a_string),
        (''missingGracePeriod'', Schema TInteger [Minimum 0]),
        (''state'', Schema TString [DefaultString ''REQUESTED'']),
        (''stateTransitions'', any_object),
        (''status'', any_object)]],
     crd_name = ''gefyrabridgemounts.gefyra.dev'', crd_namespace = NAMESPACE cfg\<rparr>"

section \<open>Events\<close>

text \<open>\<open>show_timestamp\<close> prints the \<open>float\<close> of \<open>datetime.timestamp()\<close>.\<close>

definition create_operator_ready_event ::
    "'w host \<Rightarrow> (int \<Rightarrow> string) \<Rightarrow> string \<Rightarrow> ('w, event) io" where
  "create_operator_ready_event H show_timestamp namespace =
     bind (get_now H) (\<lambda>now. bind (utcnow H) (\<lambda>t.
     ret \<lparr>ev_namespace = namespace, ev_name = ''gefyra-operator-startup-'' @ show_timestamp t,
       ev_reason = ''Gefyra-Ready'', ev_type = ''Normal'', ev_regarding = ''gefyra-operator''\<rparr>))"

definition create_operator_webhook_ready_event :: "'w host \<Rightarrow> string \<Rightarrow> ('w, event) io" where
  "create_operator_webhook_ready_event H namespace =
     bind (get_now H) (\<lambda>now.
     ret \<lparr>ev_namespace = namespace, ev_name = ''gefyra-operator-webhook-startup'',
       ev_reason = ''Gefyra-Webhook-Ready'', ev_type = ''Normal'', ev_regarding = ''gefyra-operator-webhook''\<rparr>)"

section \<open>Startup handlers\<close>

text \<open>\<open>create_crd\<close> is the call of the API extensions client.\<close>

definition install_crd :: "(crd \<Rightarrow> ('w, unit) io) \<Rightarrow> crd \<Rightarrow> ('w, unit) io" where
  "install_crd create_crd d = try_except (create_crd d) (on_status [409] (ret ()))"

definition handle_crds :: "(crd \<Rightarrow> ('w, unit) io) \<Rightarrow> operator_configuration \<Rightarrow> ('w, unit) io" where
  "handle_crds create_crd cfg =
     thn (install_crd create_crd (create_gefyrabridge_definition cfg))
     (thn (install_crd create_crd (create_gefyraclient_definition cfg))
     (install_crd create_crd (create_bridge_mount_definition cfg)))"

definition check_gefyra_components ::
    "(crd \<Rightarrow> ('w, unit) io) \<Rightarrow> operator_configuration \<Rightarrow> ('w, unit) io" where
  "check_gefyra_components create_crd cfg = handle_crds create_crd cfg"

text \<open>One round of the loop over \<open>ConnectionProviderType\<close>: is the provider installed and not ready?\<close>

definition provider_not_ready :: "'w connection_provider \<Rightarrow> ('w, bool) io" where
  "provider_not_ready P =
     bind (cp_installed P) (\<lambda>installed.
     thn (if installed then ret () else cp_install P)
     (bind (cp_installed P) (\<lambda>installed'.
      if installed' then bind (cp_ready P) (\<lambda>ready. ret (\<not> ready)) else ret False)))"

definition start_connection_providers ::
    "'w cluster \<Rightarrow> operator_configuration \<Rightarrow> (event \<Rightarrow> ('w, unit) io) \<Rightarrow> (int \<Rightarrow> string) \<Rightarrow> int
     \<Rightarrow> ('w, unit) io" where
  "start_connection_providers K cfg create_event show_timestamp retry =
     bind (provider_not_ready (stowaway_provider K cfg)) (\<lambda>not_ready.
     if not_ready then
       (if retry > CONNECTION_PROVIDER_STARTUP_TIMEOUT cfg
        then bind (get_stowaway_pod K cfg) (\<lambda>pod. raise PermanentError)
        else raise (TemporaryError (Some 1)))
     else
       try_except
         (bind (create_operator_ready_event (host K) show_timestamp (NAMESPACE cfg)) create_event)
         swallow_api_exception)"

end
