(* ===== verification/Admission.thy ===== *)
theory Admission
  imports Startup ClientState MountState BridgeState Carrier2 Carrier2Mount
begin

text \<open>
  The admission webhook, operator/gefyra/handler/configure_webhook.py: the validation of clients,
  bridge mounts and bridges before they are stored.  A request has an operation, the diff of an
  update (path and new value of every changed field) and the object.
\<close>

datatype operation = CREATE | UPDATE | OtherOperation

type_synonym diff = "(string list \<times> json) list"

text \<open>\<open>{field[0]: new for op, field, old, new in diff}\<close>: the last change below a field wins.\<close>

fun changeset :: "diff \<Rightarrow> json dict \<Rightarrow> exn + json dict" where
  "changeset [] acc = Inr acc"
| "changeset ((field, new) # d) acc =
     (case field of [] \<Rightarrow> Inl IndexError | f # _ \<Rightarrow> changeset d (dset acc f new))"

fun truthy :: "json \<Rightarrow> bool" where
  "truthy JNull = False"
| "truthy (JStr s) = (s \<noteq> [])"
| "truthy (JInt n) = (n \<noteq> 0)"
| "truthy (JFloat s) = list_ex (\<lambda>c. is_digit c \<and> c \<noteq> CHR ''0'') s"
| "truthy (JList xs) = (xs \<noteq> [])"
| "truthy (JObj d) = (d \<noteq> [])"

section \<open>Clients\<close>

text \<open>The health check posts an object \<open>{"check": true}\<close>: an event, and admission.\<close>

definition webhook_check ::
    "'w host \<Rightarrow> operator_configuration \<Rightarrow> (event \<Rightarrow> ('w, unit) io) \<Rightarrow> ('w, bool) io" where
  "webhook_check H cfg create_event =
     thn (try_except (bind (create_operator_webhook_ready_event H (NAMESPACE cfg)) create_event)
            swallow_api_exception)
     (ret True)"

text \<open>The checks of an update, with the hints they leave for the provider.\<close>

definition client_update_hints :: "diff \<Rightarrow> gclient \<Rightarrow> exn + string dict" where
  "client_update_hints diff body =
     sbind (changeset diff []) (\<lambda>changes.
       case dget changes ''providerParameter'' of
         None \<Rightarrow> Inr []
       | Some new \<Rightarrow> if truthy new \<and> cr_state body \<noteq> client_value CWaiting
           then Inl (AdmissionError ''Cannot set providerParameter in this state'')
           else Inr [(''added'', ''providerParameter'')])"

definition has_parameter :: "gclient \<Rightarrow> bool" where
  "has_parameter body = (cl_providerParameter body \<notin> {None, Some []})"

definition check_validate_provider_parameters ::
    "'w host \<Rightarrow> 'w connection_provider \<Rightarrow> operation \<Rightarrow> diff \<Rightarrow> gclient \<Rightarrow> ('w, bool) io" where
  "check_validate_provider_parameters H P operation diff body =
     bind (of_sum (req (cl_provider body))) (\<lambda>provider_parameter.
     bind (of_sum (provider_named ''stowaway'' (Some provider_parameter) P)) (\<lambda>provider.
     bind (of_sum (if operation = UPDATE then client_update_hints diff body else Inr [])) (\<lambda>hints.
     thn (if operation = CREATE \<and> has_parameter body
          then raise (AdmissionError ''Cannot set providerParameter when creating a Gefyra client'') else ret ())
     (thn (try_except (bind (of_sum (sunset_of H body)) (\<lambda>_. ret ()))
             (\<lambda>e. if e = ValueError then raise (AdmissionError ''Cannot parse sunset'') else raise e))
     (thn (cp_validate provider (cl_providerParameter body) hints)
     (ret True))))))"

section \<open>Bridge mounts\<close>

definition changes_any :: "diff \<Rightarrow> string list \<Rightarrow> exn + bool" where
  "changes_any diff names =
     sbind (changeset diff []) (\<lambda>changes. Inr (list_ex (\<lambda>f. dget changes f \<noteq> None) names))"

text \<open>A missing field is passed on as \<open>None\<close>; the provider stores these arguments and its
  validation does not read them (\<open>mount_validate_args\<close>), nor does it post events, for which the
  factory gets \<open>None\<close> as well.\<close>

definition arg :: "string option \<Rightarrow> string" where
  "arg f = (case f of None \<Rightarrow> [] | Some s \<Rightarrow> s)"

text \<open>The factory is called with positional arguments in the order namespace, target, container,
  name, where it expects name, namespace, target, container.\<close>

definition check_validate_bridgemount_parameters ::
    "'w carrier_api \<Rightarrow> operator_configuration \<Rightarrow> operation \<Rightarrow> diff \<Rightarrow> mount \<Rightarrow> ('w, bool) io" where
  "check_validate_bridgemount_parameters A cfg operation diff body =
     bind (of_sum (if operation = UPDATE
         then changes_any diff [''target'', ''targetNamespace'', ''targetContainer''] else Inr False)) (\<lambda>changed.
     if changed then raise (AdmissionError ''Cannot update fields'') else
     thn (if operation = CREATE then
            bind (of_sum (req (mt_provider body))) (\<lambda>provider_parameter.
            bind (of_sum (provider_named ''carrier2mount'' (Some provider_parameter)
              (carrier2mount (Carrier2BridgeMountBuilder A cfg (\<lambda>_ _. ret ())
                 (arg (mt_targetNamespace body)) (arg (mt_target body)) (arg (mt_targetContainer body))
                 (cr_name body) (mt_parameter body))))) (\<lambda>provider.
            mp_validate provider body))
          else ret ())
     (ret True))"

section \<open>Bridges\<close>

definition admission :: "string \<Rightarrow> ('w, 'a) io \<Rightarrow> ('w, 'a) io" where
  "admission text m = try_except m (\<lambda>_. raise (AdmissionError text))"

definition check_validate_bridge_parameters ::
    "'w carrier_api \<Rightarrow> operator_configuration \<Rightarrow> operation \<Rightarrow> diff \<Rightarrow> bridge \<Rightarrow> ('w, bool) io" where
  "check_validate_bridge_parameters A cfg operation diff body =
     bind (of_sum (if operation = UPDATE
         then changes_any diff [''target'', ''connectionProvider'', ''portMappings''] else Inr False)) (\<lambda>changed.
     if changed then raise (AdmissionError ''Cannot update fields'') else
     thn (if operation = CREATE then
            bind (admission ''Missing field'' (bind (of_sum (req (br_provider body))) (\<lambda>provider_parameter.
                bind (of_sum (req (br_target body))) (\<lambda>target. ret (provider_parameter, target)))))
              (\<lambda>(provider_parameter, target).
            if br_destinationIP body \<in> {None, Some []} then raise (AdmissionError ''Missing field destinationIP'') else
            bind (admission ''Cannot create GefyraBridge provider''
                (bind (of_sum (provider_named ''carrier2'' (Some provider_parameter) ())) (\<lambda>_.
                 Carrier2Builder A cfg (\<lambda>_ _. ret ()) (cr_name body) (arg (br_targetNamespace body)) target
                   (arg (br_targetContainer body))))) (\<lambda>provider.
            bp_validate provider body))
          else ret ())
     (ret True))"

end
