(* ===== verification/AdmissionProperties.thy ===== *)
theory AdmissionProperties
  imports Admission MemCarrier MemOperator
begin

text \<open>
  What the admission webhook lets through: bridges exactly on active mounts, connection
  parameters exactly for waiting clients with a free network, and the start of the operator.
\<close>

section \<open>Bridges\<close>

lemma bind_Pair [simp]: "bind (Pair (Inr x)) f = f x" "bind (Pair (Inl e)) f = raise e"
  "try_except (Pair (Inr x)) h = ret x" "try_except (Pair (Inl e)) h = h e"
  by (rule ext; simp add: bind_def try_except_def)+

lemma fst_thn_True: "fst (thn m (ret True) w) = Inr True \<longleftrightarrow> fst (m w) = Inr ()"
  by (cases "m w"; cases "fst (m w)") (auto simp: thn_def bind_def)

definition labelled :: "bridge \<Rightarrow> bool" where
  "labelled br \<longleftrightarrow> (\<exists>l. cr_labels br = Some l \<and> dget l ''gefyra.dev/bridge-mount'' \<noteq> None
     \<and> dget l ''gefyra.dev/client'' \<noteq> None)"

definition targets_set :: "mount \<Rightarrow> bool" where
  "targets_set mt \<longleftrightarrow> mt_targetNamespace mt \<noteq> None \<and> mt_targetContainer mt \<noteq> None \<and> mt_target mt \<noteq> None"

text \<open>Calls whose answer does not depend on the world: nothing else writes meanwhile.\<close>

definition answers :: "('w, 'a) io \<Rightarrow> exn + 'a \<Rightarrow> bool" where
  "answers m r \<longleftrightarrow> (\<forall>w. fst (m w) = r)"

lemma answers_Inr: "answers m (Inr x) \<Longrightarrow> \<exists>w'. m w = (Inr x, w')"
  by (metis answers_def prod.collapse)

lemma answers_Inl: "answers m (Inl e) \<Longrightarrow> \<exists>w'. m w = (Inl e, w')"
  by (metis answers_def prod.collapse)

lemma builder_outcome:
  assumes "answers (co_get_mount (ca_custom A) (NAMESPACE cfg) target) (mounts target)"
  shows "case mounts target of
      Inl e \<Rightarrow> fst (Carrier2Builder A cfg post name ns target c w) = Inl e
    | Inr mt \<Rightarrow> if targets_set mt
        then \<exists>C w'. Carrier2Builder A cfg post name ns target c w = (Inr (carrier2_provider C), w')
           \<and> c2b_api C = A \<and> c2b_configuration C = cfg
        else fst (Carrier2Builder A cfg post name ns target c w) = Inl KeyError"
proof (cases "mounts target")
  case (Inl e)
  with assms answers_Inl [of _ e w] obtain w' where
    "co_get_mount (ca_custom A) (NAMESPACE cfg) target w = (Inl e, w')" by metis
  with Inl show ?thesis by (simp add: Carrier2Builder_def Carrier2_init_def bind_Inl)
next
  case (Inr mt)
  with assms answers_Inr [of _ mt w] obtain w' where
    "co_get_mount (ca_custom A) (NAMESPACE cfg) target w = (Inr mt, w')" by metis
  then have "Carrier2Builder A cfg post name ns target c w = bind (bind (of_sum (req (mt_targetNamespace mt))) (\<lambda>ns.
     bind (of_sum (req (mt_targetContainer mt))) (\<lambda>container.
     bind (of_sum (req (mt_target mt))) (\<lambda>mount_target.
     ret \<lparr>c2b_api = A, c2b_configuration = cfg, c2b_bridge_name = name, c2b_bridge_mount_name = target,
       c2b_namespace = ns, c2b_container = container, c2b_target = mount_target, c2b_resource = mt,
       c2b_mount = Carrier2BridgeMountBuilder A cfg post target ns mount_target container (mt_parameter mt),
       c2b_updated = False\<rparr>)))) (\<lambda>C. ret (carrier2_provider C)) w'"
    by (simp add: Carrier2Builder_def Carrier2_init_def bind_assoc bind_Inr)
  with Inr show ?thesis
    by (cases "mt_targetNamespace mt"; cases "mt_targetContainer mt"; cases "mt_target mt")
      (auto simp: targets_set_def)
qed

lemma carrier2_validate_iff:
  assumes get: "br_target br = Some target"
      "answers (co_get_mount (ca_custom (c2b_api C)) (NAMESPACE (c2b_configuration C)) target) (Inr mt)"
    and list: "answers (co_list_bridges (ca_custom (c2b_api C)) (NAMESPACE (c2b_configuration C)) None) (Inr bs)"
  shows "fst (carrier2_validate C br w) = Inr () \<longleftrightarrow>
    labelled br \<and> cr_state mt = ''ACTIVE'' \<and> any_same bs br = Inr False"
proof (cases "labelled br \<and> cr_state mt = ''ACTIVE''")
  case False
  obtain w1 where w1: "co_get_mount (ca_custom (c2b_api C)) (NAMESPACE (c2b_configuration C)) target w = (Inr mt, w1)"
    using get(2) answers_Inr by metis
  from False w1 get(1) show ?thesis
    by (auto simp: carrier2_validate_def Let_def labelled_def io_step split: option.split)
next
  case True
  obtain w1 where w1: "co_get_mount (ca_custom (c2b_api C)) (NAMESPACE (c2b_configuration C)) target w = (Inr mt, w1)"
    using get(2) answers_Inr by metis
  obtain w2 where w2: "co_list_bridges (ca_custom (c2b_api C)) (NAMESPACE (c2b_configuration C)) None w1 = (Inr bs, w2)"
    using list answers_Inr by metis
  have l: "(case cr_labels br of None \<Rightarrow> False | Some l \<Rightarrow>
      dget l ''gefyra.dev/bridge-mount'' \<noteq> None \<and> dget l ''gefyra.dev/client'' \<noteq> None)"
    using True by (auto simp: labelled_def)
  have "carrier2_validate C br w = bind (of_sum (any_same bs br)) (\<lambda>dup.
      if dup then raise (AdmissionError ''A GefyraBridge with these target parameters already exists'') else ret ()) w2"
    using True w1 w2 get(1) l by (simp add: carrier2_validate_def Let_def io_step)
  then show ?thesis using True by (cases "any_same bs br") auto
qed

lemma bridge_admission_iff:
  assumes get: "\<And>t. answers (co_get_mount (ca_custom A) (NAMESPACE cfg) t) (mounts t)"
    and list: "answers (co_list_bridges (ca_custom A) (NAMESPACE cfg) None) (Inr bs)"
  shows "fst (check_validate_bridge_parameters A cfg CREATE diff br w) = Inr True \<longleftrightarrow>
     br_provider br = Some ''carrier2'' \<and> br_destinationIP br \<notin> {None, Some []} \<and> labelled br
   \<and> (\<exists>target mt. br_target br = Some target \<and> mounts target = Inr mt \<and> targets_set mt
        \<and> cr_state mt = ''ACTIVE'') \<and> any_same bs br = Inr False"
proof (cases "br_provider br = Some ''carrier2'' \<and> (\<exists>t. br_target br = Some t)
    \<and> br_destinationIP br \<notin> {None, Some []}")
  case False
  then show ?thesis
    by (cases "br_provider br"; cases "br_target br")
      (auto simp: check_validate_bridge_parameters_def admission_def provider_named_def thn_def
          split: if_splits)
next
  case True
  then obtain t where t: "br_target br = Some t" by blast
  let ?build = "\<lambda>name. Carrier2Builder A cfg (\<lambda>_ _. ret ()) name (arg (br_targetNamespace br)) t (arg (br_targetContainer br))"
  have run: "check_validate_bridge_parameters A cfg CREATE diff br w
    = thn (bind (admission ''Cannot create GefyraBridge provider'' (?build (cr_name br)))
        (\<lambda>provider. bp_validate provider br)) (ret True) w"
    using True t by (auto simp: check_validate_bridge_parameters_def admission_def provider_named_def)
  note b = builder_outcome [where mounts = mounts, OF get, of "\<lambda>_ _. ret ()" "cr_name br"
      "arg (br_targetNamespace br)" t "arg (br_targetContainer br)" w]
  show ?thesis
  proof (cases "\<exists>mt. mounts t = Inr mt \<and> targets_set mt")
    case False
    then obtain e where "fst (?build (cr_name br) w) = Inl e"
      using b by (cases "mounts t") auto
    then have "fst (admission ''Cannot create GefyraBridge provider'' (?build (cr_name br)) w)
        = Inl (AdmissionError ''Cannot create GefyraBridge provider'')"
      by (cases "?build (cr_name br) w") (auto simp: admission_def try_except_def)
    with run False t show ?thesis
      by (cases "admission ''Cannot create GefyraBridge provider'' (?build (cr_name br)) w")
        (auto simp: thn_def bind_def)
  next
    case True': True
    then obtain mt where mt: "mounts t = Inr mt" "targets_set mt" by blast
    with b obtain C w1 where C: "?build (cr_name br) w = (Inr (carrier2_provider C), w1)"
      "c2b_api C = A" "c2b_configuration C = cfg" by auto
    then have "fst (check_validate_bridge_parameters A cfg CREATE diff br w) = Inr True
        \<longleftrightarrow> fst (carrier2_validate C br w1) = Inr ()"
      by (simp add: run admission_def fst_thn_True bind_Inr try_Inr carrier2_provider_def)
    moreover have "fst (carrier2_validate C br w1) = Inr ()
        \<longleftrightarrow> labelled br \<and> cr_state mt = ''ACTIVE'' \<and> any_same bs br = Inr False"
      by (rule carrier2_validate_iff [OF t]) (use C mt get list in \<open>metis (no_types)\<close>)+
    ultimately show ?thesis using True t mt by auto
  qed
qed

text \<open>When a listed bridge does not stand in the way of a request: the two have different values in the
  first of target, labels, destination and provider parameter in which they are not equal, and both
  have every field up to there.  A bridge that lacks a compared field makes the request fail.\<close>

definition both :: "('a \<Rightarrow> 'a \<Rightarrow> bool) \<Rightarrow> 'a option \<Rightarrow> 'a option \<Rightarrow> bool" where
  "both P a b \<longleftrightarrow> (\<exists>x y. a = Some x \<and> b = Some y \<and> P x y)"

definition other_bridge :: "bridge \<Rightarrow> bridge \<Rightarrow> bool" where
  "other_bridge ex request \<longleftrightarrow>
     both (\<noteq>) (br_target ex) (br_target request) \<or> both (=) (br_target ex) (br_target request) \<and>
    (both (\<noteq>) (map_option dget (cr_labels ex)) (map_option dget (cr_labels request))
       \<or> both (=) (map_option dget (cr_labels ex)) (map_option dget (cr_labels request)) \<and>
    (both (\<noteq>) (br_destinationIP ex) (br_destinationIP request)
       \<or> both (=) (br_destinationIP ex) (br_destinationIP request) \<and>
     both (\<noteq>) (br_parameter ex) (br_parameter request)))"

definition comparable :: "bridge \<Rightarrow> bool" where
  "comparable br \<longleftrightarrow> br_target br \<noteq> None \<and> cr_labels br \<noteq> None \<and> br_destinationIP br \<noteq> None
     \<and> br_parameter br \<noteq> None"

definition compared :: "bridge \<Rightarrow> string option \<times> (string \<Rightarrow> string option) option \<times> string option \<times> bridge_params option" where
  "compared br = (br_target br, map_option dget (cr_labels br), br_destinationIP br, br_parameter br)"

lemma both_simps [simp]:
  "both P None b = False" "both P a None = False" "both P (Some x) (Some y) = P x y"
  by (simp_all add: both_def)

lemma same_labels_iff: "same_labels a b \<longleftrightarrow> dget a = dget b"
proof
  assume s: "same_labels a b"
  have "dget a k = dget b k" for k
  proof (cases "k \<in> set (keys a @ keys b)")
    case True
    with s show ?thesis by (simp add: same_labels_def list_all_iff)
  next
    case False
    then show ?thesis by (simp add: dget_notin)
  qed
  then show "dget a = dget b" by (rule ext)
qed (simp add: same_labels_def list_all_iff)

lemma same_bridge_False: "same_bridge ex request = Inr False \<longleftrightarrow> other_bridge ex request"
  unfolding same_bridge_def other_bridge_def
  by (cases "br_target ex"; cases "br_target request"; cases "cr_labels ex"; cases "cr_labels request";
      cases "br_destinationIP ex"; cases "br_destinationIP request"; cases "br_parameter ex";
      cases "br_parameter request"; simp add: same_labels_iff)

lemma any_same_False: "any_same bs request = Inr False \<longleftrightarrow> (\<forall>ex \<in> set bs. other_bridge ex request)"
proof (induction bs)
  case (Cons b bs)
  then show ?case
    by (cases "same_bridge b request") (auto simp: same_bridge_False [symmetric] split: if_splits)
qed simp

lemma other_bridge_compared:
  "comparable ex \<Longrightarrow> comparable request \<Longrightarrow> other_bridge ex request \<longleftrightarrow> compared ex \<noteq> compared request"
  by (auto simp: comparable_def compared_def other_bridge_def)

lemma none_equal:
  assumes "\<forall>ex \<in> set (request # bs). comparable ex"
  shows "(\<forall>ex \<in> set bs. other_bridge ex request) \<longleftrightarrow> compared request \<notin> compared ` set bs"
  using assms other_bridge_compared [of _ request] by (auto simp: image_iff)

text \<open>C39: The webhook admits the creation of a bridge exactly if its provider is \<open>carrier2\<close>, it names a
  destination IP, carries the labels of its mount and client, targets a bridge mount that exists, is
  completely specified and ACTIVE, and every listed bridge is another one: they differ in target, labels,
  destination or provider parameter, and no field is missing that is compared before.  In all other cases
  the request is refused.  Where all bridges have the four fields, this says that none of the listed
  bridges is equal to the request in all four.\<close>

theorem bridge_admission_exact:
  assumes get: "\<And>t. answers (co_get_mount (ca_custom A) (NAMESPACE cfg) t) (mounts t)"
    and list: "answers (co_list_bridges (ca_custom A) (NAMESPACE cfg) None) (Inr bs)"
  shows "(fst (check_validate_bridge_parameters A cfg CREATE diff br w) = Inr True \<longleftrightarrow>
     br_provider br = Some ''carrier2'' \<and> br_destinationIP br \<notin> {None, Some []} \<and> labelled br
   \<and> (\<exists>target mt. br_target br = Some target \<and> mounts target = Inr mt \<and> targets_set mt
        \<and> cr_state mt = ''ACTIVE'') \<and> (\<forall>ex \<in> set bs. other_bridge ex br))
   \<and> ((\<forall>ex \<in> set (br # bs). comparable ex) \<longrightarrow>
      (\<forall>ex \<in> set bs. other_bridge ex br) = (compared br \<notin> compared ` set bs))"
  using bridge_admission_iff [OF get list] by (simp add: any_same_False none_equal)

section \<open>Mounts\<close>

text \<open>The arguments of the factory do not matter to the validation, so their order in the webhook
  has no effect.\<close>

lemma mount_validate_args:
  "mount_validate (Carrier2BridgeMountBuilder A cfg post n ns t c ps)
   = mount_validate (Carrier2BridgeMountBuilder A cfg post' n' ns' t' c' ps')"
  by (rule ext) (simp add: mount_validate_def Carrier2BridgeMountBuilder_def)


section \<open>Clients\<close>

lemma validate_subnet:
  assumes store: "peer_store K cfg view" and d: "view w = Some d"
    and run: "stowaway_validate K cfg (Some ps) [(''added'', ''providerParameter'')] w = (Inr (), w')"
    and subnet: "dget ps ''subnet'' = Some s" "s \<noteq> []"
  shows "cidr_match s \<and> (\<forall>(k, v) \<in> set d. startswith k ALLOWEDIPS \<longrightarrow>
     hd (split1 (CHR ''/'') v) \<noteq> hd (split1 (CHR ''/'') s))"
proof -
  have cidr: "cidr_match s" using run subnet by (auto simp: stowaway_validate_def split: if_splits)
  with run subnet obtain w1 where taken: "subnet_taken K cfg s w = (Inr False, w1)"
    by (auto simp: stowaway_validate_def bind_Inr_iff split: if_splits)
  then obtain cm w2 where cm: "read_config_map (core K) (STOWAWAY_CONFIGMAPNAME cfg) (NAMESPACE cfg) w = (Inr cm, w2)"
    and t: "(case cm_data cm of None \<Rightarrow> raise AttributeError
      | Some d \<Rightarrow> ret (\<exists>(k, v) \<in> set d. startswith k ALLOWEDIPS
          \<and> hd (split1 (CHR ''/'') v) = hd (split1 (CHR ''/'') s))) w2 = (Inr False, w1)"
    by (auto simp: subnet_taken_def Let_def create_stowaway_configmap_def bind_Inr_iff)
  have "cm_data cm = Some d" using store_read [OF store cm] d by simp
  with t cidr show ?thesis by auto
qed

text \<open>C40: Connection parameters get through only for a waiting client and a free network.  If the webhook
  admits an update that sets \<open>providerParameter\<close>, the client is WAITING, and the requested subnet is
  written as a network and differs from the network of every peer in the ConfigMap of Stowaway.\<close>

theorem client_admission_safe:
  assumes store: "peer_store K cfg view" and d: "view w = Some d"
    and run: "check_validate_provider_parameters H (stowaway_provider K cfg) UPDATE diff cl w = (Inr b, w')"
    and changed: "changeset diff [] = Inr ch" "dget ch ''providerParameter'' = Some new" "truthy new"
    and subnet: "cl_providerParameter cl = Some ps" "dget ps ''subnet'' = Some s" "s \<noteq> []"
  shows "b \<and> cr_state cl = ''WAITING'' \<and> cidr_match s
    \<and> (\<forall>(k, v) \<in> set d. startswith k ALLOWEDIPS \<longrightarrow> hd (split1 (CHR ''/'') v) \<noteq> hd (split1 (CHR ''/'') s))"
proof -
  have st: "cr_state cl = ''WAITING''"
    using run changed by (auto simp: check_validate_provider_parameters_def client_update_hints_def
        bind_Inr_iff provider_named_def split: if_splits)
  then have hints: "client_update_hints diff cl = Inr [(''added'', ''providerParameter'')]"
    using changed by (simp add: client_update_hints_def)
  let ?sun = "try_except (bind (of_sum (sunset_of H cl)) (\<lambda>_. ret ()))
      (\<lambda>e. if e = ValueError then raise (AdmissionError ''Cannot parse sunset'') else raise e)"
  have same: "?sun w = (Inr (), w1) \<Longrightarrow> w1 = w" for w1
    by (cases "sunset_of H cl") (auto split: if_splits)
  from run hints obtain w1 w2 where "b" "?sun w = (Inr (), w1)"
    and v: "stowaway_validate K cfg (Some ps) [(''added'', ''providerParameter'')] w1 = (Inr (), w2)"
    using subnet by (auto simp: check_validate_provider_parameters_def bind_Inr_iff thn_Inr_iff
        stowaway_provider_def provider_named_def split: if_splits)
  with same have "b" "stowaway_validate K cfg (Some ps) [(''added'', ''providerParameter'')] w = (Inr (), w2)"
    by auto
  with validate_subnet [OF store d] subnet st show ?thesis by blast
qed

section \<open>Startup\<close>

text \<open>The handler returns only when the provider is ready, or when an installation that raised no
  exception is still not complete -- a provider that is not installed does not count as not ready.\<close>

lemma start_returns:
  assumes "start_connection_providers K cfg create_event show_timestamp retry w = (Inr (), w')"
  shows "\<exists>w1 w2. stowaway_ready K cfg w1 = (Inr True, w2) \<or> stowaway_installed K cfg w1 = (Inr False, w2)"
  using assms
  by (auto simp: start_connection_providers_def provider_not_ready_def stowaway_provider_def bind_Inr_iff thn_Inr_iff
      split: if_splits) blast+

text \<open>A bridge provider that the schema allows and the factory does not know.\<close>

lemma carrier_is_no_provider:
  "''carrier'' \<in> set BRIDGE_PROVIDERS" "provider_named ''carrier2'' (Some ''carrier'') P = Inl ValueError"
  by (simp_all add: BRIDGE_PROVIDERS_def provider_named_def)


section \<open>Witnesses\<close>

definition admission_api :: "mem carrier_api" where
  "admission_api = (mem_carrier Carrier2Config)\<lparr>ca_custom := mem_custom\<lparr>
     co_get_mount := (\<lambda>ns t. if t = ''m1'' then ret (carrier_mount\<lparr>cr_state := ''ACTIVE''\<rparr>) else raise (ApiException 404)),
     co_list_bridges := (\<lambda>ns sel. ret [])\<rparr>\<rparr>"

definition labelled_bridge :: bridge where
  "labelled_bridge = sample_bridge\<lparr>cr_labels := Some [(''gefyra.dev/bridge-mount'', ''m1''), (''gefyra.dev/client'', ''c1'')]\<rparr>"

text \<open>A bridge without parameters is listed: it does not stand in the way of one with rules, but of one
  that has no parameters either.\<close>

definition plain_bridge :: bridge where
  "plain_bridge = labelled_bridge\<lparr>br_parameter := Some \<lparr>bq_rules = None, bq_other = []\<rparr>\<rparr>"

definition one_bridge_api :: "mem carrier_api" where
  "one_bridge_api = admission_api\<lparr>ca_custom := (ca_custom admission_api)\<lparr>
     co_list_bridges := (\<lambda>ns sel. ret [plain_bridge])\<rparr>\<rparr>"

theorem bridge_admission_exact_witness:
  "fst (check_validate_bridge_parameters one_bridge_api default_configuration CREATE []
      (plain_bridge\<lparr>br_parameter := Some \<lparr>bq_rules = Some [None], bq_other = []\<rparr>\<rparr>) mem_empty) = Inr True
   \<and> fst (check_validate_bridge_parameters one_bridge_api default_configuration CREATE [] plain_bridge mem_empty) \<noteq> Inr True
   \<and> fst (check_validate_bridge_parameters one_bridge_api default_configuration CREATE []
        (plain_bridge\<lparr>br_target := Some ''m2''\<rparr>) mem_empty) \<noteq> Inr True"
proof -
  let ?mounts = "\<lambda>t. if t = ''m1'' then Inr (carrier_mount\<lparr>cr_state := ''ACTIVE''\<rparr>) else Inl (ApiException 404)"
  have get: "answers (co_get_mount (ca_custom one_bridge_api) (NAMESPACE default_configuration) t) (?mounts t)" for t
    by (simp add: answers_def one_bridge_api_def admission_api_def)
  have list: "answers (co_list_bridges (ca_custom one_bridge_api) (NAMESPACE default_configuration) None) (Inr [plain_bridge])"
    by (simp add: answers_def one_bridge_api_def)
  show ?thesis
    by (subst (1 2 3) bridge_admission_exact [OF get list, THEN conjunct1])
      (auto simp: plain_bridge_def labelled_bridge_def sample_bridge_def labelled_def targets_set_def
        carrier_mount_def other_bridge_def)
qed

definition waiting_client :: gclient where
  "waiting_client = \<lparr>cr_name = ''c1'', cr_namespace = ''gefyra'', cr_labels = None, cr_state = ''WAITING'',
     cr_transitions = None, cr_sunset = None, cl_provider = Some ''stowaway'',
     cl_providerParameter = Some [(''subnet'', ''172.20.0.0/16'')], cl_providerConfig = None, cl_status = None\<rparr>"

definition one_peer :: mem where
  "one_peer = mem_empty\<lparr>mm_config_maps := [(''gefyra-stowaway-config'', (create_stowaway_configmap default_configuration (- 1))
     \<lparr>cm_data := Some [(''PEERS'', ''0,a''), (''SERVER_ALLOWEDIPS_PEER_a'', ''172.21.0.0/16'')]\<rparr>)]\<rparr>"

lemma subnet_172: "cidr_match ''172.20.0.0/16''"
  by (simp add: cidr_match_def digits_1_3_def drop_final_newline_def is_digit_def)

lemma one_peer_free: "subnet_taken mem_cluster default_configuration ''172.20.0.0/16'' one_peer = (Inr False, one_peer)"
  by (simp add: subnet_taken_def Let_def create_stowaway_configmap_def mem_core_def mem_read_def one_peer_def
      bind_def startswith_def ALLOWEDIPS_def split1_def)

theorem client_admission_safe_witness:
  "\<exists>w'. check_validate_provider_parameters mem_host (stowaway_provider mem_cluster default_configuration) UPDATE
      [([''providerParameter''], JObj [(''subnet'', JStr ''172.20.0.0/16'')])] waiting_client one_peer = (Inr True, w')
   \<and> hd (split1 (CHR ''/'') ''172.21.0.0/16'') \<noteq> hd (split1 (CHR ''/'') ''172.20.0.0/16'')"
proof -
  let ?diff = "[([''providerParameter''], JObj [(''subnet'', JStr ''172.20.0.0/16'')])]"
  obtain r w' where run: "check_validate_provider_parameters mem_host
      (stowaway_provider mem_cluster default_configuration) UPDATE ?diff waiting_client one_peer = (r, w')" by force
  have "fst (check_validate_provider_parameters mem_host
      (stowaway_provider mem_cluster default_configuration) UPDATE ?diff waiting_client one_peer) = Inr True"
    using one_peer_free
    by (simp add: check_validate_provider_parameters_def provider_named_def waiting_client_def
        client_update_hints_def sunset_of_def stowaway_provider_def stowaway_validate_def bind_def thn_def
        try_except_def subnet_172)
  with run have r: "r = Inr True" by simp
  have store: "peer_store mem_cluster default_configuration (mem_view ''gefyra-stowaway-config'')"
    using mem_config_map_store [of "''gefyra-stowaway-config''"] by simp
  have "\<forall>(k, v) \<in> set [(''PEERS'', ''0,a''), (''SERVER_ALLOWEDIPS_PEER_a'', ''172.21.0.0/16'')].
      startswith k ALLOWEDIPS \<longrightarrow> hd (split1 (CHR ''/'') v) \<noteq> hd (split1 (CHR ''/'') ''172.20.0.0/16'')"
    using client_admission_safe [OF store _ run [unfolded r],
        of "[(''PEERS'', ''0,a''), (''SERVER_ALLOWEDIPS_PEER_a'', ''172.21.0.0/16'')]"
           "[(''providerParameter'', JObj [(''subnet'', JStr ''172.20.0.0/16'')])]"
           "JObj [(''subnet'', JStr ''172.20.0.0/16'')]" "[(''subnet'', ''172.20.0.0/16'')]" "''172.20.0.0/16''"]
    by (simp add: mem_view_def one_peer_def waiting_client_def)
  then show ?thesis using run r by (simp add: startswith_def ALLOWEDIPS_def)
qed

end
