(* ===== verification/CliArguments.thy ===== *)
theory CliArguments
  imports Machine
begin

text \<open>
  How the Python client reads its arguments: the callbacks of the command line
  (client/gefyra/cli/utils.py) and the notations for workloads and environment variables
  (client/gefyra/api/utils.py).
\<close>

section \<open>Workloads\<close>

definition POD :: "string list" where
  "POD = [''pod'', ''po'', ''pods'']"

definition DEPLOYMENT :: "string list" where
  "DEPLOYMENT = [''deploy'', ''deployment'', ''deployments'']"

definition STATEFULSET :: "string list" where
  "STATEFULSET = [''statefulset'', ''sts'', ''statefulsets'']"

definition get_workload_type :: "string \<Rightarrow> exn + string" where
  "get_workload_type workload_type_str =
     (if workload_type_str \<in> set POD then Inr ''pod''
      else if workload_type_str \<in> set DEPLOYMENT then Inr ''deployment''
      else if workload_type_str \<in> set STATEFULSET then Inr ''statefulset''
      else Inl RuntimeError)"

text \<open>\<open>type/name/container\<close>.  With fewer than two parts the unpacking raises \<open>ValueError\<close>, which
  the handler of \<open>IndexError\<close> does not catch.\<close>

definition get_workload_information :: "string \<Rightarrow> exn + string \<times> string \<times> string" where
  "get_workload_information target =
     (case filter (\<lambda>b. b \<noteq> []) (split (CHR ''/'') target) of
        workload_type # workload_name # rest \<Rightarrow>
          (case rest of [] \<Rightarrow> Inl GefyraBridgeError
           | container_name # _ \<Rightarrow> Inr (workload_type, workload_name, container_name))
      | _ \<Rightarrow> Inl ValueError)"

definition parse_workload :: "string option \<Rightarrow> exn + string option" where
  "parse_workload workload = (case workload of
       None \<Rightarrow> Inr None
     | Some w \<Rightarrow> if w = [] then Inr (Some w)
         else if CHR ''/'' \<notin> set w then Inl ValueError else Inr (Some w))"

section \<open>Environment variables\<close>

definition parse_env :: "string list \<Rightarrow> exn + string list" where
  "parse_env envs = map_sum_list (\<lambda>env. if CHR ''='' \<notin> set env then Inl ValueError else Inr env) envs"

definition generate_env_dict_from_strings :: "string list \<Rightarrow> string dict" where
  "generate_env_dict_from_strings env_vars =
     foldl (\<lambda>d arg. case split1 (CHR ''='') arg of [k, v] \<Rightarrow> dset d k v | _ \<Rightarrow> d) [] env_vars"

section \<open>Ports\<close>

text \<open>\<open>str.isnumeric\<close>: below code point 256 the digits, the superscripts and the fractions.\<close>

definition is_numeric :: "string \<Rightarrow> bool" where
  "is_numeric s \<longleftrightarrow> s \<noteq> [] \<and>
     list_all (\<lambda>c. is_digit c \<or> (of_char c :: nat) \<in> {178, 179, 185, 188, 189, 190}) s"

definition numeric_port :: "string \<Rightarrow> exn + string" where
  "numeric_port p = (if is_numeric p then Inr p else Inl RuntimeError)"

datatype port_target = Port string | AddressPort string string

definition parse_port :: "string \<Rightarrow> exn + string \<times> port_target" where
  "parse_port v = (case split (CHR '':'') v of
       [a, b] \<Rightarrow> sbind (numeric_port a) (\<lambda>p. sbind (numeric_port b) (\<lambda>q. Inr (q, Port p)))
     | [a, b, c] \<Rightarrow> sbind (numeric_port b) (\<lambda>p. sbind (numeric_port c) (\<lambda>q. Inr (q, AddressPort a p)))
     | _ \<Rightarrow> Inl ValueError)"

text \<open>\<open>remote:local\<close> becomes the entry \<open>local: remote\<close>; a second mapping of a local port replaces
  the first.\<close>

fun parse_ports :: "string list \<Rightarrow> port_target dict \<Rightarrow> exn + port_target dict" where
  "parse_ports [] res = Inr res"
| "parse_ports (v # vs) res = sbind (parse_port v) (\<lambda>(k, t). parse_ports vs (dset res k t))"

definition parse_ip_port_map :: "string list \<Rightarrow> exn + port_target dict" where
  "parse_ip_port_map ports = parse_ports ports []"

section \<open>Matching rules\<close>

datatype match_kind = Exact | Prefix | Regex

fun kind_text :: "match_kind \<Rightarrow> string" where
  "kind_text Exact = ''exact''"
| "kind_text Prefix = ''prefix''"
| "kind_text Regex = ''regex''"

text \<open>The option \<open>--match-header-exact\<close> and its siblings: \<open>name:value\<close>, one colon.\<close>

definition parse_match_header :: "match_kind \<Rightarrow> string list \<Rightarrow> exn + match list" where
  "parse_match_header kind raw = map_sum_list (\<lambda>match_header.
     case split (CHR '':'') match_header of
       [name, value] \<Rightarrow> Inr (MatchHeader \<lparr>hm_name = name, hm_value = value, hm_type = kind_text kind\<rparr>)
     | _ \<Rightarrow> Inl UsageError) raw"

definition parse_match_path :: "match_kind \<Rightarrow> string list \<Rightarrow> match list" where
  "parse_match_path kind raw = map (\<lambda>p. MatchPath \<lparr>pm_path = p, pm_type = kind_text kind\<rparr>) raw"

section \<open>Extra container arguments\<close>

text \<open>A float is kept as it is written.\<close>

datatype extra_value = VBool bool | VInt int | VFloat string | VStr string

text \<open>The grammar of \<open>float(...)\<close>: an optional sign, then \<open>inf\<close>, \<open>infinity\<close>, \<open>nan\<close> or decimal
  digits with a point and an exponent; single underscores between digits.\<close>

definition digit_part :: "string \<Rightarrow> bool" where
  "digit_part s \<longleftrightarrow> list_all (\<lambda>p. p \<noteq> [] \<and> list_all is_digit p) (split (CHR ''_'') s)"

definition unsigned :: "string \<Rightarrow> string" where
  "unsigned s = (case s of c # cs \<Rightarrow> if c = CHR ''-'' \<or> c = CHR ''+'' then cs else s | [] \<Rightarrow> [])"

definition mantissa :: "string \<Rightarrow> bool" where
  "mantissa s = (case split (CHR ''.'') s of
       [a] \<Rightarrow> digit_part a
     | [a, b] \<Rightarrow> (a = [] \<or> digit_part a) \<and> (b = [] \<or> digit_part b) \<and> (a \<noteq> [] \<or> b \<noteq> [])
     | _ \<Rightarrow> False)"

definition is_float :: "string \<Rightarrow> bool" where
  "is_float v = (let s = lower (unsigned (strip v)) in
     s \<in> {''inf'', ''infinity'', ''nan''} \<or>
     (case split (CHR ''e'') s of
        [m] \<Rightarrow> mantissa m
      | [m, e] \<Rightarrow> mantissa m \<and> digit_part (unsigned e)
      | _ \<Rightarrow> False))"

definition coerce_value :: "string \<Rightarrow> extra_value" where
  "coerce_value value =
     (if lower value = ''true'' then VBool True
      else if lower value = ''false'' then VBool False
      else case py_int value of Inr n \<Rightarrow> VInt n
        | Inl _ \<Rightarrow> if is_float value then VFloat value else VStr value)"

definition lstrip_dash :: "string \<Rightarrow> string" where
  "lstrip_dash s = dropWhile (\<lambda>c. c = CHR ''-'') s"

definition arg_key :: "string \<Rightarrow> string" where
  "arg_key s = replace_char (CHR ''-'') (CHR ''_'') (lstrip_dash s)"

fun extra_args :: "string list \<Rightarrow> extra_value dict \<Rightarrow> exn + extra_value dict" where
  "extra_args [] result = Inr result"
| "extra_args (arg # rest) result =
     (if \<not> startswith arg ''--'' then Inl UsageError else
      case split1 (CHR ''='') arg of
        [key, value] \<Rightarrow> extra_args rest (dset result (arg_key key) (coerce_value value))
      | _ \<Rightarrow> (case rest of
          v # rest' \<Rightarrow> if \<not> startswith v ''--''
            then extra_args rest' (dset result (arg_key arg) (coerce_value v))
            else extra_args rest (dset result (arg_key arg) (VBool True))
        | [] \<Rightarrow> Inr (dset result (arg_key arg) (VBool True))))"

definition parse_extra_container_args :: "string list \<Rightarrow> exn + extra_value dict" where
  "parse_extra_container_args args = extra_args args []"

end
