(* ===== verification/LocalMount.thy ===== *)
theory LocalMount
  imports CliArguments "HOL-Library.AList"
begin

text \<open>
  Bridge mounts in the Python client: the TLS notation and the calls of
  client/gefyra/local/mount.py, the object of client/gefyra/types/bridge_mount.py, and the
  commands of client/gefyra/api/mount.py.
\<close>

section \<open>TLS arguments\<close>

text \<open>\<open>secret:{namespace}/{name}:{key}\<close> or \<open>secret:{name}:{key}\<close>; everything else is a plain value.\<close>

definition parse_secret_notation :: "string \<Rightarrow> exn + tls_value" where
  "parse_secret_notation value =
     (if \<not> startswith (lower value) ''secret:'' then Inr (Inline value) else
      (let content = drop 7 value in
       case rsplit1 (CHR '':'') content of
         [name_ns, key] \<Rightarrow>
           (let (namespace, name) = (case split1 (CHR ''/'') name_ns of
                  [ns, n] \<Rightarrow> (if ns = [] then ''default'' else ns, n)
                | _ \<Rightarrow> (''default'', name_ns)) in
            if name = [] then Inl ValueError
            else if key = [] then Inl ValueError
            else Inr (Secret name key namespace))
       | _ \<Rightarrow> Inl ValueError))"

definition parse_arg :: "string \<Rightarrow> exn + tls_value \<times> int option" where
  "parse_arg a = (case rsplit1 (CHR ''@'') a of
       [value, port_str] \<Rightarrow> sbind (py_int port_str) (\<lambda>port.
         sbind (parse_secret_notation value) (\<lambda>v. Inr (v, Some port)))
     | _ \<Rightarrow> sbind (parse_secret_notation a) (\<lambda>v. Inr (v, None)))"

type_synonym port_configs = "(int \<times> tls_value dict) list"

definition put_tls :: "port_configs \<Rightarrow> int \<Rightarrow> string \<Rightarrow> tls_value \<Rightarrow> port_configs" where
  "put_tls ports port field value =
     AList.update port (dset (case map_of ports port of None \<Rightarrow> [] | Some d \<Rightarrow> d) field value) ports"

text \<open>One of the three loops: the values with a port are filed under it, the others are dropped.\<close>

fun file_args :: "string \<Rightarrow> string list \<Rightarrow> port_configs \<Rightarrow> exn + port_configs" where
  "file_args field [] ports = Inr ports"
| "file_args field (a # as) ports =
     sbind (parse_arg a) (\<lambda>(value, port). case port of
       None \<Rightarrow> file_args field as ports
     | Some p \<Rightarrow> file_args field as (put_tls ports p field value))"

definition port_complete :: "tls_value dict \<Rightarrow> bool" where
  "port_complete d \<longleftrightarrow> dget d ''certificate'' \<noteq> None \<and> dget d ''key'' \<noteq> None"

definition get_ports_from_tls_args ::
    "string list \<Rightarrow> string list \<Rightarrow> string list \<Rightarrow> exn + port_configs" where
  "get_ports_from_tls_args tls_certificate tls_key tls_sni =
     sbind (file_args ''certificate'' tls_certificate []) (\<lambda>p1.
     sbind (file_args ''key'' tls_key p1) (\<lambda>p2.
     sbind (file_args ''sni'' tls_sni p2) (\<lambda>ports.
     if list_all (\<lambda>(_, d). port_complete d) ports then Inr ports else Inl RuntimeError)))"

datatype tls_config = NoTls | GlobalTls "tls_value dict" | PortTls port_configs

definition get_tls_config :: "string list \<Rightarrow> string list \<Rightarrow> string list \<Rightarrow> exn + tls_config" where
  "get_tls_config tls_certificate tls_key tls_sni =
     sbind (get_ports_from_tls_args tls_certificate tls_key tls_sni) (\<lambda>ports.
     if ports \<noteq> [] then Inr (PortTls ports)
     else if tls_certificate = [] \<and> tls_key = [] then Inr NoTls
     else if tls_certificate = [] \<or> tls_key = [] then Inl RuntimeError
     else if length tls_certificate \<noteq> 1 \<or> length tls_key \<noteq> 1 then Inl RuntimeError
     else
       sbind (parse_secret_notation (hd tls_certificate)) (\<lambda>cert.
       sbind (parse_secret_notation (hd tls_key)) (\<lambda>key.
       let res = [(''certificate'', cert), (''key'', key)] in
       case tls_sni of
         [] \<Rightarrow> Inr (GlobalTls res)
       | [sni] \<Rightarrow> sbind (parse_secret_notation sni) (\<lambda>s. Inr (GlobalTls (dset res ''sni'' s)))
       | _ \<Rightarrow> Inl RuntimeError)))"

section \<open>The resource\<close>

record mount_body =
  mb_name :: string
  mb_namespace :: string
  mb_targetNamespace :: string
  mb_target :: string
  mb_targetContainer :: string
  mb_provider :: string
  mb_providerParameter :: tls_config

definition get_gbridgemount_body ::
    "string \<Rightarrow> string \<Rightarrow> string \<Rightarrow> string \<Rightarrow> string \<Rightarrow> string \<Rightarrow> string list \<Rightarrow> string list \<Rightarrow> string list
     \<Rightarrow> exn + mount_body" where
  "get_gbridgemount_body namespace name target provider target_namespace target_container
     tls_certificate tls_key tls_sni =
     sbind (get_tls_config tls_certificate tls_key tls_sni) (\<lambda>tls. Inr \<lparr>mb_name = name,
       mb_namespace = namespace, mb_targetNamespace = target_namespace, mb_target = target,
       mb_targetContainer = target_container, mb_provider = provider, mb_providerParameter = tls\<rparr>)"

text \<open>The object the API server returns: the fields of the resource and its metadata.\<close>

record raw_mount = mount +
  rm_uid :: string
  rm_created :: "string option"

record gefyra_mount =
  gm_mount_id :: string
  gm_uid :: string
  gm_provider :: string
  gm_state :: string
  gm_state_transitions :: "string dict"
  gm_created :: "string option"
  gm_target :: string
  gm_target_container :: string
  gm_target_namespace :: string
  gm_namespace :: string
  gm_labels :: "string dict"

definition or_empty :: "'a list option \<Rightarrow> 'a list" where
  "or_empty f = (case f of None \<Rightarrow> [] | Some v \<Rightarrow> v)"

definition GefyraBridgeMount :: "raw_mount \<Rightarrow> gefyra_mount" where
  "GefyraBridgeMount obj = \<lparr>gm_mount_id = cr_name obj, gm_uid = rm_uid obj,
     gm_provider = or_empty (mt_provider obj), gm_state = cr_state obj,
     gm_state_transitions = or_empty (cr_transitions obj), gm_created = rm_created obj,
     gm_target = or_empty (mt_target obj), gm_target_container = or_empty (mt_targetContainer obj),
     gm_target_namespace = or_empty (mt_targetNamespace obj), gm_namespace = cr_namespace obj,
     gm_labels = or_empty (cr_labels obj)\<rparr>"

section \<open>Calls\<close>

record 'w mount_api =
  ma_create :: "mount_body \<Rightarrow> ('w, raw_mount) io"
  ma_get :: "string \<Rightarrow> ('w, raw_mount) io"
  ma_list :: "('w, raw_mount list) io"
  ma_delete :: "string \<Rightarrow> ('w, unit) io"
  ma_drop_finalizers :: "string \<Rightarrow> ('w, unit) io"
  ma_random_string :: "nat \<Rightarrow> ('w, string) io"
  ma_sleep :: "nat \<Rightarrow> ('w, unit) io"

definition handle_create_gefyrabridgemount :: "'w mount_api \<Rightarrow> mount_body \<Rightarrow> ('w, raw_mount) io" where
  "handle_create_gefyrabridgemount K body =
     try_except (ma_create K body)
       (\<lambda>e. if status_of e \<in> {Some 409, Some 500} then raise RuntimeError else raise e)"

definition get_gefyrabridgemount :: "'w mount_api \<Rightarrow> string \<Rightarrow> ('w, raw_mount) io" where
  "get_gefyrabridgemount K name =
     try_except (ma_get K name)
       (\<lambda>e. if status_of e = Some 404 then raise GefyraObjectNotFound else raise e)"

text \<open>At most \<open>n\<close> looks at the object, one per second, until it is gone.\<close>

primrec await_gone :: "'w mount_api \<Rightarrow> string \<Rightarrow> nat \<Rightarrow> ('w, bool) io" where
  "await_gone K name 0 = raise TimeoutError"
| "await_gone K name (Suc n) =
     bind (try_except (bind (get_gefyrabridgemount K name) (\<lambda>_. ret False))
             (\<lambda>e. if is_api_exception e \<or> e = GefyraObjectNotFound then ret True else raise e)) (\<lambda>gone.
     if gone then ret True else thn (ma_sleep K 1000) (await_gone K name n))"

definition timeout_or :: "nat \<Rightarrow> nat option \<Rightarrow> nat" where
  "timeout_or d timeout = (case timeout of None \<Rightarrow> d | Some t \<Rightarrow> if t = 0 then d else t)"

definition handle_delete_gefyramount ::
    "'w mount_api \<Rightarrow> string \<Rightarrow> bool \<Rightarrow> bool \<Rightarrow> nat option \<Rightarrow> ('w, bool) io" where
  "handle_delete_gefyramount K name force wait timeout =
     try_except
       (thn (whenever force (ma_drop_finalizers K name))
       (thn (ma_delete K name)
       (if wait then await_gone K name (timeout_or 60 timeout) else ret True)))
       (\<lambda>e. if status_of e = Some 403 then raise RuntimeError
            else if status_of e = Some 404 then raise GefyraObjectNotFound else raise e)"

section \<open>Commands\<close>

text \<open>The wait of \<open>create_mount\<close>.  With \<open>timeout = 0\<close> it goes on until the mount is ACTIVE, so it may
  not end (\<open>None\<close>).\<close>

partial_function (option) wait_mount ::
    "'w mount_api \<Rightarrow> string \<Rightarrow> string \<Rightarrow> int \<Rightarrow> int \<Rightarrow> 'w \<Rightarrow> ((exn + unit) \<times> 'w) option" where
  "wait_mount K name uid timeout waiting_time w =
     (case get_gefyrabridgemount K name w of
        (Inl e, w1) \<Rightarrow> Some (Inl e, w1)
      | (Inr m, w1) \<Rightarrow>
          if contains uid (rm_uid m) \<and> cr_state m = ''ACTIVE'' then Some (Inr (), w1) else
          (case ma_sleep K 1000 w1 of
             (Inl e, w2) \<Rightarrow> Some (Inl e, w2)
           | (Inr _, w2) \<Rightarrow>
               if timeout \<noteq> 0 \<and> waiting_time - 1 \<le> 0 then Some (Inl CommandTimeoutError, w2)
               else wait_mount K name uid timeout (waiting_time - 1) w2))"

definition mount_name_of :: "'w mount_api \<Rightarrow> string option \<Rightarrow> string \<Rightarrow> string \<Rightarrow> ('w, string) io" where
  "mount_name_of K mount_name workload_name namespace =
     (if mount_name \<in> {None, Some []}
      then bind (ma_random_string K 5) (\<lambda>r.
        ret (take 25 workload_name @ ''-'' @ take 20 namespace @ ''-'' @ r))
      else ret (or_empty mount_name))"

definition request_mount ::
    "'w mount_api \<Rightarrow> string \<Rightarrow> string \<Rightarrow> string option \<Rightarrow> string \<Rightarrow> string list \<Rightarrow> string list \<Rightarrow> string list
     \<Rightarrow> ('w, string \<times> raw_mount) io" where
  "request_mount K namespace target mount_name provider tls_certificate tls_key tls_sni =
     bind (of_sum (get_workload_information target)) (\<lambda>(workload_type, workload_name, container_name).
     bind (mount_name_of K mount_name workload_name namespace) (\<lambda>name.
     if length name > 63 then raise RuntimeError else
     bind (of_sum (get_gbridgemount_body ''gefyra'' name (workload_type @ ''/'' @ workload_name) provider
             namespace container_name tls_certificate tls_key tls_sni)) (\<lambda>body.
     bind (handle_create_gefyrabridgemount K body) (\<lambda>m. ret (name, m)))))"

definition create_mount ::
    "'w mount_api \<Rightarrow> string \<Rightarrow> string \<Rightarrow> bool \<Rightarrow> int \<Rightarrow> string option \<Rightarrow> string \<Rightarrow> string list \<Rightarrow> string list \<Rightarrow> string list
     \<Rightarrow> 'w \<Rightarrow> ((exn + gefyra_mount) \<times> 'w) option" where
  "create_mount K namespace target wait timeout mount_name provider tls_certificate tls_key tls_sni w =
     (case request_mount K namespace target mount_name provider tls_certificate tls_key tls_sni w of
        (Inl e, w1) \<Rightarrow> Some (Inl e, w1)
      | (Inr (name, m), w1) \<Rightarrow>
          if wait then
            (case wait_mount K name (rm_uid m) timeout timeout w1 of
               None \<Rightarrow> None
             | Some (Inl e, w2) \<Rightarrow> Some (Inl e, w2)
             | Some (Inr _, w2) \<Rightarrow> Some (Inr (GefyraBridgeMount m), w2))
          else Some (Inr (GefyraBridgeMount m), w1))"

definition get_mount :: "'w mount_api \<Rightarrow> string \<Rightarrow> ('w, gefyra_mount) io" where
  "get_mount K mount_name = bind (get_gefyrabridgemount K mount_name) (\<lambda>m. ret (GefyraBridgeMount m))"

definition delete_mount :: "'w mount_api \<Rightarrow> string \<Rightarrow> bool \<Rightarrow> bool \<Rightarrow> nat option \<Rightarrow> ('w, bool) io" where
  "delete_mount K mount_name force wait timeout = handle_delete_gefyramount K mount_name force wait timeout"

definition list_mounts :: "'w mount_api \<Rightarrow> ('w, gefyra_mount list) io" where
  "list_mounts K = bind (try_except (ma_list K) (\<lambda>e. if is_api_exception e then raise RuntimeError else raise e))
     (\<lambda>ms. ret (map GefyraBridgeMount ms))"

end
