(* ===== verification/LocalConfig.thy ===== *)
theory LocalConfig
  imports CliArguments
begin

text \<open>
  What the Python client is configured with (client/gefyra/configuration.py, class
  \<open>ClientConfiguration\<close>) and the interfaces it works on: the Docker engine, the API server seen by
  the client, and the local machine (files, clock, name resolution).  All of these are parameters.

  A getter that fills a cache (\<open>KUBE_CONFIG_FILE\<close>, \<open>KUBE_CONTEXT\<close>) returns the configuration with
  the cache filled.  The constructors of the API clients (\<open>_init_docker\<close>, \<open>_init_kubeapi\<close>) belong to
  the libraries.
\<close>

section \<open>Docker\<close>

text \<open>What the code reads of a container: its networks with the IP address, the option
  \<open>DnsSearch\<close>, its labels and its creation time.\<close>

record docker_container =
  dc_id :: string
  dc_short_id :: string
  dc_name :: string
  dc_status :: string
  dc_networks :: "string dict"
  dc_dns_search :: "string list option"
  dc_labels :: "string option dict"
  dc_created :: "string option"

text \<open>A network: the first subnet of its \<open>IPAM\<close> configuration, its labels, and the identifiers of
  the containers in it.\<close>

record docker_network =
  dn_id :: string
  dn_name :: string
  dn_subnet :: string
  dn_labels :: "string dict"
  dn_containers :: "string list"

text \<open>The arguments of \<open>networks.create\<close>; without a pool Docker selects the subnet.\<close>

record network_request =
  nr_name :: string
  nr_subnet :: "string option"
  nr_labels :: "string dict"
  nr_options :: "string dict"

text \<open>A keyword argument of \<open>containers.create\<close> and \<open>containers.run\<close>.\<close>

datatype kwarg =
    KStr string
  | KBool bool
  | KInt int
  | KFloat string
  | KList "string list"
  | KEnv "string dict"
  | KPorts "port_target dict"

record container_request =
  cq_image :: string
  cq_labels :: "string option dict"
  cq_kwargs :: "kwarg dict"

record 'w docker_api =
  dk_containers :: "string \<Rightarrow> ('w, docker_container list) io"     \<comment> \<open>\<open>list(all=True)\<close> with a label filter\<close>
  dk_container :: "string \<Rightarrow> ('w, docker_container) io"
  dk_create_container :: "container_request \<Rightarrow> ('w, docker_container) io"
  dk_run :: "container_request \<Rightarrow> ('w, docker_container) io"
  dk_start :: "string \<Rightarrow> ('w, unit) io"
  dk_stop :: "string \<Rightarrow> ('w, unit) io"
  dk_kill :: "string \<Rightarrow> ('w, unit) io"
  dk_remove :: "string \<Rightarrow> bool \<Rightarrow> ('w, unit) io"
  dk_exec :: "string \<Rightarrow> string \<Rightarrow> ('w, int \<times> string) io"
  dk_image :: "string \<Rightarrow> ('w, unit) io"
  dk_pull :: "string \<Rightarrow> string \<Rightarrow> string option \<Rightarrow> ('w, unit) io"
  dk_network :: "string \<Rightarrow> ('w, docker_network) io"
  dk_create_network :: "network_request \<Rightarrow> ('w, docker_network) io"
  dk_remove_network :: "string \<Rightarrow> ('w, unit) io"
  dk_connect :: "string \<Rightarrow> string \<Rightarrow> string option \<Rightarrow> ('w, unit) io"

section \<open>The client resources\<close>

text \<open>A \<open>GefyraClient\<close> resource as the API server returns it.\<close>

record raw_client = gclient +
  rc_uid :: string
  rc_created :: "string option"
  rc_serviceAccountName :: "string option"
  rc_serviceAccountData :: "string dict option"

record client_body =
  ck_name :: string
  ck_namespace :: string
  ck_provider :: string

text \<open>\<open>ca_patch\<close>: the new \<open>providerParameter\<close>.\<close>

record 'w client_api =
  ca_create :: "client_body \<Rightarrow> ('w, raw_client) io"
  ca_get :: "string \<Rightarrow> ('w, raw_client) io"
  ca_list :: "('w, raw_client list) io"
  ca_patch :: "string \<Rightarrow> string dict option \<Rightarrow> ('w, unit) io"
  ca_delete :: "string \<Rightarrow> ('w, unit) io"
  ca_drop_finalizers :: "string \<Rightarrow> ('w, unit) io"

section \<open>The machine\<close>

text \<open>Addresses of a node and the service of Stowaway, as \<open>get_stowaway_host\<close> reads them.\<close>

record wireguard_service =
  ws_type :: string
  ws_ingress :: "(string option \<times> string option) list option"   \<comment> \<open>host name and IP address\<close>

record minikube_node =
  mk_worker :: bool
  mk_ip :: string

record minikube_profile =
  mk_driver :: string
  mk_network :: "string option"
  mk_name :: "string option"
  mk_nodes :: "minikube_node list"

record 'w machine =
  mc_docker :: "'w docker_api"
  mc_clients :: "'w client_api"
  mc_win32 :: bool
  mc_release :: string                       \<comment> \<open>\<open>platform.release()\<close>\<close>
  mc_system :: string                        \<comment> \<open>\<open>platform.system()\<close>\<close>
  mc_home :: string
  mc_docker0 :: "('w, string) io"            \<comment> \<open>address of the interface \<open>docker0\<close>\<close>
  mc_host_internal :: "('w, string) io"      \<comment> \<open>output of \<open>getent ahostsv4 host.docker.internal\<close>\<close>
  mc_isfile :: "string \<Rightarrow> ('w, bool) io"
  mc_mkdir :: "string \<Rightarrow> ('w, unit) io"
  mc_write :: "string \<Rightarrow> string \<Rightarrow> ('w, unit) io"
  mc_unlink :: "string \<Rightarrow> ('w, unit) io"
  mc_kube_default :: string
  mc_active_context :: "string \<Rightarrow> ('w, string option) io"
  mc_api_url :: string                       \<comment> \<open>host of the configured API server\<close>
  mc_resolve :: "string \<Rightarrow> ('w, bool) io"     \<comment> \<open>\<open>gethostbyname_ex\<close> does not fail\<close>
  mc_time :: "('w, int) io"                  \<comment> \<open>microseconds\<close>
  mc_sleep :: "nat \<Rightarrow> ('w, unit) io"          \<comment> \<open>milliseconds\<close>
  mc_uuid4 :: "('w, string) io"
  mc_b64decode :: "string \<Rightarrow> exn + string"
  mc_service :: "string \<Rightarrow> ('w, wireguard_service) io"
  mc_nodes :: "('w, (string \<times> string) list list) io"   \<comment> \<open>type and address of the addresses of a node\<close>
  mc_minikube :: "string option \<Rightarrow> ('w, minikube_profile) io"

section \<open>Configuration\<close>

definition VERSION :: string where
  "VERSION = ''2.5.4''"

definition CREATED_BY_LABEL :: "string \<times> string" where
  "CREATED_BY_LABEL = (''created_by.gefyra.dev'', ''true'')"

definition CARGO_LABEL :: "string \<times> string" where
  "CARGO_LABEL = (''gefyra.dev/role'', ''cargo'')"

abbreviation CARGO_ENDPOINT_LABEL :: string where
  "CARGO_ENDPOINT_LABEL \<equiv> ''cargo_endpoint.gefyra.dev''"

abbreviation ACTIVE_KUBECONFIG_LABEL :: string where
  "ACTIVE_KUBECONFIG_LABEL \<equiv> ''active_kubeconfig.gefyra.dev''"

abbreviation CONNECTION_NAME_LABEL :: string where
  "CONNECTION_NAME_LABEL \<equiv> ''connection_name.gefyra.dev''"

abbreviation CLIENT_ID_LABEL :: string where
  "CLIENT_ID_LABEL \<equiv> ''gefyraclient.gefyra.dev''"

record client_config =
  cf_OPERATOR_IMAGE :: string
  cf_STOWAWAY_IMAGE :: string
  cf_CARRIER_IMAGE :: string
  cf_CARGO_IMAGE :: string
  cf_REGISTRY :: string
  cf_cargo_endpoint :: "string option"
  cf_cargo_endpoint_port :: string
  cf_CARGO_CONTAINER_NAME :: string
  cf_NETWORK_NAME :: string
  cf_CONNECTION_NAME :: string
  cf_CLIENT_ID :: "string option"
  cf_kube_config_path :: "string option"
  cf_kube_context :: "string option"
  cf_WIREGUARD_MTU :: "string option"
  cf_GEFYRA_LOCATION :: string
  cf_CARGO_PROBE_TIMEOUT :: nat

abbreviation (input) STOWAWAY_IP :: string where
  "STOWAWAY_IP \<equiv> ''192.168.99.1''"

abbreviation (input) CONNECTION_TIMEOUT :: nat where
  "CONNECTION_TIMEOUT \<equiv> 60"

abbreviation (input) CONTAINER_RUN_TIMEOUT :: nat where
  "CONTAINER_RUN_TIMEOUT \<equiv> 10"

text \<open>The keyword arguments of the constructor.\<close>

record config_args =
  ar_network_name :: string
  ar_connection_name :: "string option"
  ar_cargo_endpoint_host :: string
  ar_cargo_endpoint_port :: string
  ar_cargo_container_name :: string
  ar_registry :: "string option"
  ar_operator_image_url :: string
  ar_stowaway_image_url :: string
  ar_carrier_image_url :: string
  ar_cargo_image_url :: string
  ar_kube_config_file :: "string option"
  ar_kube_context :: "string option"
  ar_wireguard_mtu :: "string option"
  ar_client_id :: string
  ar_gefyra_config_root :: "string option"
  ar_ignore_connection :: bool
  ar_ignore_docker :: bool

definition default_args :: config_args where
  "default_args = \<lparr>ar_network_name = [], ar_connection_name = None, ar_cargo_endpoint_host = [],
     ar_cargo_endpoint_port = ''31820'', ar_cargo_container_name = [], ar_registry = Some [],
     ar_operator_image_url = [], ar_stowaway_image_url = [], ar_carrier_image_url = [],
     ar_cargo_image_url = [], ar_kube_config_file = None, ar_kube_context = None,
     ar_wireguard_mtu = None, ar_client_id = [], ar_gefyra_config_root = None,
     ar_ignore_connection = False, ar_ignore_docker = False\<rparr>"

text \<open>\<open>a or b\<close> on strings.\<close>

definition either :: "string \<Rightarrow> string \<Rightarrow> string" where
  "either a b = (if a = [] then b else a)"

definition given :: "string option \<Rightarrow> bool" where
  "given f \<longleftrightarrow> f \<notin> {None, Some []}"

definition or_else :: "string option \<Rightarrow> string \<Rightarrow> string" where
  "or_else f d = (case f of None \<Rightarrow> d | Some s \<Rightarrow> either s d)"

definition rstrip_slash :: "string \<Rightarrow> string" where
  "rstrip_slash s = rev (dropWhile (\<lambda>c. c = CHR ''/'') (rev s))"

definition image_or :: "string \<Rightarrow> string \<Rightarrow> string \<Rightarrow> string" where
  "image_or url registry name = either url (registry @ ''/'' @ name @ '':'' @ VERSION)"

text \<open>The setter of \<open>KUBE_CONFIG_FILE\<close>: the path has to be a file; \<open>expanduser(None)\<close> is a
  \<open>TypeError\<close>.\<close>

definition set_kube_config_file ::
    "'w machine \<Rightarrow> client_config \<Rightarrow> string option \<Rightarrow> ('w, client_config) io" where
  "set_kube_config_file M cfg file = (case file of
       None \<Rightarrow> raise TypeError
     | Some f \<Rightarrow> bind (mc_isfile M f) (\<lambda>there.
         if there then ret (cfg\<lparr>cf_kube_config_path := Some f\<rparr>) else raise RuntimeError))"

text \<open>The settings the constructor takes from the Cargo container of an existing connection.\<close>

definition from_cargo ::
    "'w machine \<Rightarrow> client_config \<Rightarrow> docker_container \<Rightarrow> ('w, client_config) io" where
  "from_cargo M cfg cargo =
     (let label = (\<lambda>l. case dget (dc_labels cargo) l of None \<Rightarrow> None | Some v \<Rightarrow> v) in
      bind (set_kube_config_file M (cfg\<lparr>cf_cargo_endpoint := label CARGO_ENDPOINT_LABEL\<rparr>)
              (label ACTIVE_KUBECONFIG_LABEL)) (\<lambda>cfg.
      ret (cfg\<lparr>cf_CLIENT_ID := label CLIENT_ID_LABEL, cf_CARGO_CONTAINER_NAME := dc_name cargo\<rparr>)))"

definition initial_config :: "'w machine \<Rightarrow> config_args \<Rightarrow> client_config" where
  "initial_config M a =
     (let registry = (if given (ar_registry a) then rstrip_slash (or_else (ar_registry a) [])
                      else ''quay.io/gefyra'');
          windows = mc_win32 M \<or> contains ''microsoft'' (lower (mc_release M)) in
      \<lparr>cf_OPERATOR_IMAGE = image_or (ar_operator_image_url a) registry ''operator'',
       cf_STOWAWAY_IMAGE = image_or (ar_stowaway_image_url a) registry ''stowaway'',
       cf_CARRIER_IMAGE = image_or (ar_carrier_image_url a) registry ''carrier'',
       cf_CARGO_IMAGE = image_or (ar_cargo_image_url a) registry (if windows then ''cargo-win'' else ''cargo''),
       cf_REGISTRY = registry, cf_cargo_endpoint = None,
       cf_cargo_endpoint_port = ar_cargo_endpoint_port a,
       cf_CARGO_CONTAINER_NAME = either (ar_cargo_container_name a) ''gefyra-cargo-default'',
       cf_NETWORK_NAME = either (ar_network_name a) ''gefyra-network'',
       cf_CONNECTION_NAME = or_else (ar_connection_name a) ''default'',
       cf_CLIENT_ID = Some (ar_client_id a), cf_kube_config_path = None, cf_kube_context = None,
       cf_WIREGUARD_MTU = None, cf_GEFYRA_LOCATION = [], cf_CARGO_PROBE_TIMEOUT = 20\<rparr>)"

definition ClientConfiguration :: "'w machine \<Rightarrow> config_args \<Rightarrow> ('w, client_config) io" where
  "ClientConfiguration M a =
     (let cfg = initial_config M a in
      bind (if ar_ignore_docker a then ret cfg else
            bind (dk_containers (mc_docker M) (CONNECTION_NAME_LABEL @ ''='' @ cf_CONNECTION_NAME cfg)) (\<lambda>cs.
            case cs of [] \<Rightarrow> ret cfg
            | c # _ \<Rightarrow> if ar_ignore_connection a then ret cfg else from_cargo M cfg c)) (\<lambda>cfg.
      let cfg = cfg\<lparr>cf_NETWORK_NAME := cf_NETWORK_NAME cfg @ ''-'' @ cf_CONNECTION_NAME cfg\<rparr>;
          cfg = (if ar_cargo_endpoint_host a = [] then cfg
                 else cfg\<lparr>cf_cargo_endpoint :=
                   Some (ar_cargo_endpoint_host a @ '':'' @ cf_cargo_endpoint_port cfg)\<rparr>) in
      bind (if given (ar_kube_config_file a) then set_kube_config_file M cfg (ar_kube_config_file a)
            else ret cfg) (\<lambda>cfg.
      ret (cfg\<lparr>cf_kube_context := (if given (ar_kube_context a) then ar_kube_context a else None),
               cf_WIREGUARD_MTU := ar_wireguard_mtu a,
               cf_GEFYRA_LOCATION := (if given (ar_gefyra_config_root a) then or_else (ar_gefyra_config_root a) []
                                      else mc_home M @ ''/.gefyra'')\<rparr>))))"

text \<open>The endpoint Cargo is reached at: the one that is set, else the address of \<open>docker0\<close> on Linux,
  else the address of \<open>host.docker.internal\<close>; \<open>None\<close> if that cannot be found.\<close>

definition CARGO_ENDPOINT :: "'w machine \<Rightarrow> client_config \<Rightarrow> ('w, string option) io" where
  "CARGO_ENDPOINT M cfg =
     (if given (cf_cargo_endpoint cfg) then ret (cf_cargo_endpoint cfg)
      else if lower (mc_system M) = ''linux'' \<and> \<not> contains ''microsoft'' (lower (mc_release M))
      then bind (mc_docker0 M) (\<lambda>ip. ret (Some (ip @ '':'' @ cf_cargo_endpoint_port cfg)))
      else try_except
        (bind (mc_host_internal M) (\<lambda>out.
           ret (Some (hd (split (CHR '' '') out) @ '':'' @ cf_cargo_endpoint_port cfg))))
        (\<lambda>e. case e of DockerError _ \<Rightarrow> ret None | ValueError \<Rightarrow> ret None | _ \<Rightarrow> raise e))"

definition KUBE_CONFIG_FILE :: "'w machine \<Rightarrow> client_config \<Rightarrow> ('w, string \<times> client_config) io" where
  "KUBE_CONFIG_FILE M cfg =
     (if given (cf_kube_config_path cfg) then ret (or_else (cf_kube_config_path cfg) [], cfg)
      else bind (set_kube_config_file M cfg (Some (mc_kube_default M))) (\<lambda>cfg. ret (mc_kube_default M, cfg)))"

text \<open>\<open>mc_active_context\<close>: \<open>None\<close> for a \<open>ConfigException\<close> and for a context without name.\<close>

definition KUBE_CONTEXT :: "'w machine \<Rightarrow> client_config \<Rightarrow> ('w, string option \<times> client_config) io" where
  "KUBE_CONTEXT M cfg =
     (if given (cf_kube_context cfg) then ret (cf_kube_context cfg, cfg)
      else bind (KUBE_CONFIG_FILE M cfg) (\<lambda>(file, cfg).
           bind (mc_active_context M file) (\<lambda>c. ret (c, cfg\<lparr>cf_kube_context := c\<rparr>))))"

text \<open>The directory for files of the client; it is that of a fresh configuration.\<close>

definition get_gefyra_config_location :: "'w machine \<Rightarrow> ('w, string) io" where
  "get_gefyra_config_location M =
     bind (ClientConfiguration M default_args) (\<lambda>cfg.
     thn (mc_mkdir M (cf_GEFYRA_LOCATION cfg)) (ret (cf_GEFYRA_LOCATION cfg)))"

text \<open>The endpoint of Stowaway seen from outside the cluster.  Without a port the code indexes the
  list of ports with a name, a \<open>TypeError\<close>.\<close>

definition str_opt :: "string option \<Rightarrow> string" where
  "str_opt f = (case f of None \<Rightarrow> ''None'' | Some s \<Rightarrow> s)"

definition stowaway_address ::
    "'w machine \<Rightarrow> wireguard_service \<Rightarrow> string option \<Rightarrow> ('w, string) io" where
  "stowaway_address M service port =
     (if ws_type service = ''LoadBalancer''
      then if \<not> given port then raise TypeError else
        (case ws_ingress service of
           None \<Rightarrow> raise TypeError
         | Some [] \<Rightarrow> raise IndexError
         | Some ((hostname, ip) # _) \<Rightarrow>
             ret (str_opt (if given hostname then hostname else ip) @ '':'' @ or_else port []))
      else bind (mc_nodes M) (\<lambda>nodes. case nodes of
             [] \<Rightarrow> raise IndexError
           | addresses # _ \<Rightarrow>
               (case filter (\<lambda>(ty, a). ty = ''ExternalIP'') addresses of
                  [] \<Rightarrow> raise ClientConfigurationError
                | (_, address) # _ \<Rightarrow>
                    if \<not> given port then raise TypeError else ret (address @ '':'' @ or_else port []))))"

definition get_stowaway_host :: "'w machine \<Rightarrow> client_config \<Rightarrow> string option \<Rightarrow> ('w, string) io" where
  "get_stowaway_host M cfg port =
     (if given (cf_cargo_endpoint cfg) then ret (or_else (cf_cargo_endpoint cfg) [])
      else try_except
        (bind (mc_service M ''gefyra-stowaway-wireguard'') (\<lambda>service. stowaway_address M service port))
        (\<lambda>e. if status_of e = Some 404 then raise ClientConfigurationError else raise e))"

end
