(* ===== verification/LocalBridge.thy ===== *)
theory LocalBridge
  imports LocalMount LocalConfig
begin

text \<open>
  Bridges in the Python client: the object of client/gefyra/types/bridge.py, the calls of
  client/gefyra/local/bridge.py, and the commands of client/gefyra/api/bridge.py.  \<open>Docker\<close> and the
  API server are parameters.
\<close>

section \<open>Containers\<close>

record local_container =
  lc_id :: string
  lc_short_id :: string
  lc_name :: string
  lc_address :: string
  lc_namespace :: string

definition GefyraLocalContainer :: "string \<Rightarrow> docker_container \<Rightarrow> local_container" where
  "GefyraLocalContainer network c = \<lparr>lc_id = dc_id c, lc_short_id = dc_short_id c, lc_name = dc_name c,
     lc_address = (case dget (dc_networks c) network of
        None \<Rightarrow> ''unknown'' | Some ip \<Rightarrow> hd (split (CHR ''/'') ip)),
     lc_namespace = (case dc_dns_search c of
        Some (d # _) \<Rightarrow> hd (split (CHR ''.'') d) | _ \<Rightarrow> ''unknown'')\<rparr>"

text \<open>The containers of the network of the connection, Cargo excepted.\<close>

definition local_containers :: "string \<Rightarrow> docker_container list \<Rightarrow> local_container list" where
  "local_containers network cs =
     map (GefyraLocalContainer network) (filter (\<lambda>c. \<not> startswith (dc_name c) ''gefyra-cargo'') cs)"

section \<open>The bridge object\<close>

text \<open>The rules of a bridge: sets of matches as they are requested, or the rules of a resource.\<close>

datatype bridge_rules = RuleSets "match list list" | RawRules "rule_spec list"

record gefyra_bridge =
  gb_name :: string
  gb_client :: string
  gb_local_container_ip :: string
  gb_local_container_name :: "string option"
  gb_port_mappings :: "string list"
  gb_target :: string
  gb_handle_probes :: bool
  gb_state :: "string option"
  gb_state_transitions :: "string dict option"
  gb_created :: "string option"
  gb_provider :: string
  gb_connection_provider :: string
  gb_rules :: "bridge_rules option"
  gb_container :: "local_container option"
  gb_target_namespace :: string
  gb_target_container :: string

definition new_bridge ::
    "string \<Rightarrow> string \<Rightarrow> string \<Rightarrow> string list \<Rightarrow> string \<Rightarrow> match list list \<Rightarrow> string \<Rightarrow> gefyra_bridge" where
  "new_bridge name local_container_ip local_container_name port_mappings target rules client =
     \<lparr>gb_name = name, gb_client = client, gb_local_container_ip = local_container_ip,
      gb_local_container_name = Some local_container_name, gb_port_mappings = port_mappings,
      gb_target = target, gb_handle_probes = True, gb_state = None, gb_state_transitions = None,
      gb_created = None, gb_provider = ''carrier2'', gb_connection_provider = ''stowaway'',
      gb_rules = Some (RuleSets rules), gb_container = None, gb_target_namespace = [],
      gb_target_container = []\<rparr>"

definition get_match_rules :: "match list list \<Rightarrow> match list" where
  "get_match_rules rule_set = concat rule_set"

definition get_bridge_rules :: "match list list \<Rightarrow> rule_spec list" where
  "get_bridge_rules rules = [Some (get_match_rules rules)]"

record bridge_body =
  bb_name :: string
  bb_namespace :: string
  bb_labels :: "string option dict"
  bb_provider :: string
  bb_connectionProvider :: string
  bb_rules :: "rule_spec list option"       \<comment> \<open>\<open>providerParameter\<close>, with or without rules\<close>
  bb_client :: string
  bb_destinationIP :: string
  bb_target :: string
  bb_targetNamespace :: string
  bb_targetContainer :: string
  bb_portMappings :: "string list"
  bb_handleProbes :: bool

text \<open>Raw rules have no method \<open>to_dict\<close>; requesting a bridge that was read fails.\<close>

definition rules_param :: "bridge_rules option \<Rightarrow> exn + rule_spec list option" where
  "rules_param rules = (case rules of
       None \<Rightarrow> Inr None
     | Some (RuleSets rs) \<Rightarrow> Inr (if rs = [] then None else Some (get_bridge_rules rs))
     | Some (RawRules rs) \<Rightarrow> if rs = [] then Inr None else Inl AttributeError)"

definition get_k8s_bridge_body :: "string \<Rightarrow> gefyra_bridge \<Rightarrow> exn + bridge_body" where
  "get_k8s_bridge_body namespace b =
     sbind (rules_param (gb_rules b)) (\<lambda>rules. Inr \<lparr>bb_name = gb_name b, bb_namespace = namespace,
       bb_labels = [(''gefyra.dev/bridge-mount'', Some (gb_target b)),
         (''gefyra.dev/client'', Some (gb_client b)),
         (''gefyra.dev/client-container'', gb_local_container_name b)],
       bb_provider = gb_provider b, bb_connectionProvider = gb_connection_provider b, bb_rules = rules,
       bb_client = gb_client b, bb_destinationIP = gb_local_container_ip b, bb_target = gb_target b,
       bb_targetNamespace = gb_target_namespace b, bb_targetContainer = gb_target_container b,
       bb_portMappings = gb_port_mappings b, bb_handleProbes = gb_handle_probes b\<rparr>)"

record raw_bridge = bridge +
  rb_uid :: "string option"
  rb_created :: "string option"

definition from_raw :: "raw_bridge \<Rightarrow> exn + gefyra_bridge" where
  "from_raw raw =
     sbind (req (br_provider raw)) (\<lambda>provider.
     sbind (req (br_client raw)) (\<lambda>client.
     sbind (req (br_destinationIP raw)) (\<lambda>ip.
     sbind (req (br_portMappings raw)) (\<lambda>ports.
     sbind (req (br_targetContainer raw)) (\<lambda>container.
     sbind (req (br_targetNamespace raw)) (\<lambda>namespace.
     sbind (req (br_target raw)) (\<lambda>target.
     sbind (req (cr_labels raw)) (\<lambda>labels.
     Inr \<lparr>gb_name = cr_name raw, gb_client = client, gb_local_container_ip = ip,
       gb_local_container_name = dget labels ''gefyra.dev/client-container'', gb_port_mappings = ports,
       gb_target = target, gb_handle_probes = True, gb_state = Some (cr_state raw),
       gb_state_transitions = cr_transitions raw, gb_created = rb_created raw, gb_provider = provider,
       gb_connection_provider = ''stowaway'', gb_rules = map_option RawRules (Option.bind (br_parameter raw) bq_rules),
       gb_container = None, gb_target_namespace = namespace, gb_target_container = container\<rparr>))))))))"

definition resolve_local_container :: "local_container list \<Rightarrow> gefyra_bridge \<Rightarrow> gefyra_bridge" where
  "resolve_local_container all_containers b =
     (case filter (\<lambda>c. lc_address c = gb_local_container_ip b) all_containers of
        [] \<Rightarrow> b | c # _ \<Rightarrow> b\<lparr>gb_container := Some c\<rparr>)"

section \<open>Calls\<close>

text \<open>\<open>ba_watch\<close>: type and uid of the events until the stream ends.  \<open>ba_delete\<close>: the uid of the
  answer, if it has one.\<close>

record 'w bridge_api =
  ba_mounts :: "'w mount_api"
  ba_create :: "bridge_body \<Rightarrow> ('w, raw_bridge) io"
  ba_delete :: "string \<Rightarrow> ('w, string option) io"
  ba_get :: "string \<Rightarrow> ('w, raw_bridge) io"
  ba_list :: "string option \<Rightarrow> ('w, raw_bridge list) io"
  ba_watch :: "nat \<Rightarrow> ('w, (string \<times> string) list) io"
  ba_container :: "string \<Rightarrow> ('w, docker_container) io"
  ba_network_containers :: "string \<Rightarrow> ('w, docker_container list) io"
  ba_client_id :: string
  ba_network_name :: string

definition handle_create_gefyrabridge :: "'w bridge_api \<Rightarrow> bridge_body \<Rightarrow> ('w, raw_bridge) io" where
  "handle_create_gefyrabridge K body =
     try_except (ba_create K body)
       (\<lambda>e. if status_of e \<in> {Some 409, Some 500} then raise RuntimeError else raise e)"

text \<open>\<open>None\<close> is \<open>False\<close>: any API error.\<close>

definition handle_delete_gefyrabridge :: "'w bridge_api \<Rightarrow> string \<Rightarrow> ('w, string option option) io" where
  "handle_delete_gefyrabridge K name =
     try_except (bind (ba_delete K name) (\<lambda>uid. ret (Some uid)))
       (\<lambda>e. if is_api_exception e then ret None else raise e)"

definition client_selector :: "string \<Rightarrow> string" where
  "client_selector client_id = ''gefyra.dev/client='' @ client_id"

definition get_all_gefyrabridges :: "'w bridge_api \<Rightarrow> ('w, raw_bridge list) io" where
  "get_all_gefyrabridges K =
     try_except (ba_list K (Some (client_selector (ba_client_id K))))
       (\<lambda>e. if status_of e = Some 404 then ret [] else raise e)"

definition get_gefyrabridge :: "'w bridge_api \<Rightarrow> string \<Rightarrow> ('w, raw_bridge) io" where
  "get_gefyrabridge K name =
     try_except (ba_get K name)
       (\<lambda>e. if status_of e = Some 404 then raise GefyraObjectNotFound else raise e)"

definition get_all_containers :: "'w bridge_api \<Rightarrow> ('w, local_container list) io" where
  "get_all_containers K =
     bind (ba_network_containers K (ba_network_name K)) (\<lambda>cs. ret (local_containers (ba_network_name K) cs))"

section \<open>Commands\<close>

text \<open>\<open>f"{key}:{value}"\<close>; a pair prints as Python prints a tuple of two plain strings.\<close>

fun port_text :: "port_target \<Rightarrow> string" where
  "port_text (Port p) = p"
| "port_text (AddressPort a p) = [CHR ''('', CHR 0x27] @ a @ [CHR 0x27, CHR '','', CHR '' '', CHR 0x27] @ p
     @ [CHR 0x27, CHR '')'']"

definition port_mappings_of :: "port_target dict \<Rightarrow> string list" where
  "port_mappings_of ports = map (\<lambda>(k, v). k @ '':'' @ port_text v) ports"

text \<open>The rule sets of the command \<open>bridge create\<close>, in the order of its list: exact, regular expression
  and prefix for headers, then exact, prefix and regular expression for paths.\<close>

definition cli_rules ::
    "string list \<Rightarrow> string list \<Rightarrow> string list \<Rightarrow> string list \<Rightarrow> string list \<Rightarrow> string list \<Rightarrow> exn + match list list" where
  "cli_rules header_exact header_prefix header_regex path_exact path_prefix path_regex =
     sbind (parse_match_header Exact header_exact) (\<lambda>he.
     sbind (parse_match_header Prefix header_prefix) (\<lambda>hp.
     sbind (parse_match_header Regex header_regex) (\<lambda>hr.
     let rules = [he, hr, hp, parse_match_path Exact path_exact, parse_match_path Prefix path_prefix,
                  parse_match_path Regex path_regex] in
     if list_all (\<lambda>r. r = []) rules then Inl UsageError else Inr rules)))"

definition bridge_name_of :: "'w bridge_api \<Rightarrow> string \<Rightarrow> gefyra_mount \<Rightarrow> ('w, string) io" where
  "bridge_name_of K name mnt =
     (if name = []
      then bind (ma_random_string (ba_mounts K) 5) (\<lambda>r.
        ret (take 25 (ba_client_id K) @ ''-'' @ replace_char (CHR ''/'') (CHR ''-'') (take 20 (gm_target mnt))
          @ ''-'' @ take 20 (gm_target_container mnt) @ ''-'' @ r))
      else ret name)"

definition create_bridge ::
    "'w bridge_api \<Rightarrow> string \<Rightarrow> string \<Rightarrow> port_target dict \<Rightarrow> string \<Rightarrow> match list list \<Rightarrow> ('w, gefyra_bridge) io" where
  "create_bridge K name local ports bridge_mount_name rules =
     bind (try_except (ba_container K local)
             (\<lambda>e. if e = DockerError 404 then raise GefyraBridgeError else raise e)) (\<lambda>container.
     bind (of_sum (case dget (dc_networks container) (ba_network_name K) of
             None \<Rightarrow> Inl GefyraBridgeError | Some ip \<Rightarrow> Inr ip)) (\<lambda>local_container_ip.
     bind (try_except (bind (get_gefyrabridgemount (ba_mounts K) bridge_mount_name) (\<lambda>m. ret (GefyraBridgeMount m)))
             (\<lambda>e. if e \<in> {GefyraObjectNotFound, KeyError, TypeError} then raise GefyraBridgeError else raise e))
       (\<lambda>bridge_mount.
     if local_container_ip = [] then raise GefyraBridgeError else
     bind (bridge_name_of K name bridge_mount) (\<lambda>bridge_name.
     if length bridge_name > 63 then raise RuntimeError else
     bind (of_sum (get_k8s_bridge_body ''gefyra''
             (new_bridge bridge_name local_container_ip local (port_mappings_of ports) bridge_mount_name rules
                (ba_client_id K)))) (\<lambda>bridge_body.
     bind (handle_create_gefyrabridge K bridge_body) (\<lambda>bridge.
     of_sum (from_raw bridge)))))))"

text \<open>The loop over the watch: \<open>True\<close> when every uid has been reported deleted, \<open>None\<close> (false) when the
  stream ends before.\<close>

fun watch_deletions :: "string set \<Rightarrow> string set \<Rightarrow> (string \<times> string) list \<Rightarrow> bool" where
  "watch_deletions uids deleted [] = False"
| "watch_deletions uids deleted ((ty, uid) # events) =
     (if ty = ''DELETED'' \<and> uid \<in> uids
      then (if insert uid deleted = uids then True else watch_deletions uids (insert uid deleted) events)
      else watch_deletions uids deleted events)"

definition wait_for_deletion :: "'w bridge_api \<Rightarrow> string option list \<Rightarrow> nat \<Rightarrow> ('w, bool) io" where
  "wait_for_deletion K bridge_uids timeout =
     bind (of_sum (map_sum_list req bridge_uids)) (\<lambda>uids.
     bind (ba_watch K timeout) (\<lambda>events. ret (watch_deletions (set uids) {} events)))"

definition wait_or_fail :: "'w bridge_api \<Rightarrow> string option list \<Rightarrow> nat \<Rightarrow> ('w, unit) io" where
  "wait_or_fail K bridge_uids timeout =
     bind (wait_for_deletion K bridge_uids timeout) (\<lambda>success. if success then ret () else raise TimeoutError)"

text \<open>Deleting one bridge: false if the API refused.\<close>

definition delete_one :: "'w bridge_api \<Rightarrow> bool \<Rightarrow> nat \<Rightarrow> string \<Rightarrow> ('w, bool) io" where
  "delete_one K wait timeout name =
     bind (handle_delete_gefyrabridge K name) (\<lambda>gefyra_bridge. case gefyra_bridge of
       None \<Rightarrow> ret False
     | Some uid \<Rightarrow> thn (whenever wait (wait_or_fail K [uid] timeout)) (ret True))"

definition delete_bridge ::
    "'w bridge_api \<Rightarrow> string option \<Rightarrow> string option \<Rightarrow> bool \<Rightarrow> nat \<Rightarrow> ('w, bool) io" where
  "delete_bridge K name mount_name wait timeout =
     (if name \<notin> {None, Some []} then delete_one K wait timeout (or_empty name)
      else if mount_name \<notin> {None, Some []} then
        bind (ba_list K (Some (''gefyra.dev/bridge-mount='' @ or_empty mount_name))) (\<lambda>bridges.
        if bridges = [] then raise RuntimeError else
        thn (for_each (\<lambda>b. thn (delete_one K wait 60 (cr_name b)) (ret ())) bridges) (ret True))
      else ret True)"

definition unbridge_all :: "'w bridge_api \<Rightarrow> bool \<Rightarrow> ('w, bool) io" where
  "unbridge_all K wait =
     bind (get_all_gefyrabridges K) (\<lambda>gefyra_bridges.
     thn (for_each (\<lambda>b. thn (handle_delete_gefyrabridge K (cr_name b)) (ret ())) gefyra_bridges)
     (thn (whenever wait (wait_or_fail K (map rb_uid gefyra_bridges) 60)) (ret True)))"

definition find_container :: "local_container list \<Rightarrow> gefyra_bridge \<Rightarrow> local_container option" where
  "find_container all_containers b =
     (case filter (\<lambda>c. lc_address c = gb_local_container_ip b) all_containers of [] \<Rightarrow> None | c # _ \<Rightarrow> Some c)"

definition list_bridges ::
    "'w bridge_api \<Rightarrow> bool \<Rightarrow> bool \<Rightarrow> ('w, (local_container option \<times> gefyra_bridge) list) io" where
  "list_bridges K filter_client get_containers =
     bind (try_except (ba_list K (if filter_client then Some (client_selector (ba_client_id K)) else None))
             (\<lambda>e. if is_api_exception e then raise RuntimeError else raise e)) (\<lambda>bridges.
     if get_containers then
       bind (get_all_containers K) (\<lambda>all_containers.
       bind (of_sum (map_sum_list from_raw bridges)) (\<lambda>all_bridges.
       ret (map (\<lambda>b. (find_container all_containers b, b)) all_bridges)))
     else
       bind (of_sum (map_sum_list from_raw bridges)) (\<lambda>all_bridges. ret (map (\<lambda>b. (None, b)) all_bridges)))"

definition get_bridge :: "'w bridge_api \<Rightarrow> string \<Rightarrow> bool \<Rightarrow> ('w, gefyra_bridge) io" where
  "get_bridge K bridge_name resolve_container =
     bind (get_gefyrabridge K bridge_name) (\<lambda>bridge.
     bind (of_sum (from_raw bridge)) (\<lambda>gefyra_bridge.
     if resolve_container \<and> ba_client_id K \<noteq> []
     then bind (get_all_containers K) (\<lambda>cs. ret (resolve_local_container cs gefyra_bridge))
     else ret gefyra_bridge))"

end
