(* ===== verification/LocalNetwork.thy ===== *)
theory LocalNetwork
  imports LocalConfig
begin

text \<open>
  The Docker side of a connection: the network of the client with the selection of a free subnet
  (client/gefyra/local/networking.py), the containers (client/gefyra/local/utils.py), Cargo
  (client/gefyra/local/cargo.py) and Minikube (client/gefyra/local/minikube.py).
\<close>

section \<open>Exceptions\<close>

fun is_docker_error :: "exn \<Rightarrow> bool" where
  "is_docker_error (DockerError _) = True"
| "is_docker_error _ = False"

definition is_runtime_error :: "exn \<Rightarrow> bool" where
  "is_runtime_error e \<longleftrightarrow> e \<in> {RuntimeError, GefyraObjectNotFound, GefyraClientAlreadyExists,
     GefyraBridgeError, GefyraConnectionError, ClientConfigurationError, MinikubeError,
     PodNotFoundError, WorkloadNotFoundError, ClusterError}"

text \<open>\<open>except OSError\<close>: an \<open>APIError\<close> of Docker is one, as an error of \<open>requests\<close>.\<close>

definition is_os_error :: "exn \<Rightarrow> bool" where
  "is_os_error e \<longleftrightarrow> is_docker_error e \<or>
     e \<in> {OSError, TimeoutError, CommandTimeoutError, ConnectionResetError, SSLEOFError}"

text \<open>\<open>except NotFound: pass\<close>.\<close>

definition if_found :: "('w, unit) io \<Rightarrow> ('w, unit) io" where
  "if_found m = try_except m (\<lambda>e. if e = DockerError 404 then ret () else raise e)"

section \<open>The subnet\<close>

text \<open>The subnets of the active clients with a parameter.\<close>

definition get_client_networks :: "'w machine \<Rightarrow> ('w, string list) io" where
  "get_client_networks M =
     bind (ca_list (mc_clients M)) (\<lambda>clients.
     of_sum (map_sum_list (\<lambda>c. case cl_providerParameter c of
         None \<Rightarrow> Inl KeyError | Some p \<Rightarrow> req (dget p ''subnet''))
       (filter (\<lambda>c. cr_state c = ''ACTIVE'' \<and> cl_providerParameter c \<noteq> None) clients)))"

text \<open>One temporary network per round until its subnet is free; \<open>i\<close> counts up and \<open>n\<close> rounds are
  left.  After an error other than a conflict the code goes on with the network of the round
  before, if there is one.\<close>

fun probe_subnets ::
    "'w machine \<Rightarrow> string \<Rightarrow> string list \<Rightarrow> nat \<Rightarrow> nat \<Rightarrow> docker_network option \<Rightarrow> docker_network list \<Rightarrow> string
     \<Rightarrow> ('w, docker_network list \<times> string) io" where
  "probe_subnets M name occupied 0 i temp networks subnet = ret (networks, subnet)"
| "probe_subnets M name occupied (Suc n) i temp networks subnet =
     bind (try_except
             (bind (dk_create_network (mc_docker M) \<lparr>nr_name = name @ ''-'' @ str_nat i, nr_subnet = None,
                      nr_labels = [], nr_options = []\<rparr>) (\<lambda>t. ret (Some t, False)))
             (\<lambda>e. if is_docker_error e then ret (temp, e = DockerError 409) else raise e))
       (\<lambda>(temp, conflict).
     if conflict then probe_subnets M name occupied n (Suc i) temp networks subnet else
     case temp of
       None \<Rightarrow> raise RuntimeError
     | Some t \<Rightarrow>
         if dn_subnet t \<notin> set occupied then ret (networks @ [t], dn_subnet t)
         else probe_subnets M name occupied n (Suc i) temp (networks @ [t]) (dn_subnet t))"

definition get_subnet :: "'w machine \<Rightarrow> string \<Rightarrow> string list \<Rightarrow> ('w, string) io" where
  "get_subnet M network_name occupied =
     bind (probe_subnets M network_name occupied 255 0 None [] []) (\<lambda>(networks, subnet).
     thn (for_each (\<lambda>n. dk_remove_network (mc_docker M) (dn_id n)) networks)
     (if subnet = [] then raise RuntimeError else ret subnet))"

section \<open>The network\<close>

abbreviation DOCKER_MTU_OPTION :: string where
  "DOCKER_MTU_OPTION \<equiv> ''com.docker.network.driver.mtu''"

definition network_request_for :: "client_config \<Rightarrow> string \<Rightarrow> network_request" where
  "network_request_for cfg subnet = \<lparr>nr_name = cf_NETWORK_NAME cfg, nr_subnet = Some subnet,
     nr_labels = [CREATED_BY_LABEL],
     nr_options = (if given (cf_WIREGUARD_MTU cfg)
       then [(DOCKER_MTU_OPTION, or_else (cf_WIREGUARD_MTU cfg) [])] else [])\<rparr>"

text \<open>At most \<open>n\<close> attempts; API errors, runtime, key and type errors lead to the next.\<close>

primrec new_network :: "'w machine \<Rightarrow> client_config \<Rightarrow> string list \<Rightarrow> nat \<Rightarrow> ('w, docker_network) io" where
  "new_network M cfg banned 0 = raise RuntimeError"
| "new_network M cfg banned (Suc n) =
     try_except
       (bind (get_client_networks M) (\<lambda>occupied.
        bind (get_subnet M (cf_NETWORK_NAME cfg) (occupied @ banned)) (\<lambda>subnet.
        dk_create_network (mc_docker M) (network_request_for cfg subnet))))
       (\<lambda>e. if is_docker_error e \<or> is_api_exception e \<or> is_runtime_error e \<or> e \<in> {KeyError, TypeError}
            then new_network M cfg banned n else raise e)"

text \<open>An existing network is used as it is; a deviating MTU is only reported.\<close>

definition handle_create_network :: "'w machine \<Rightarrow> client_config \<Rightarrow> string list \<Rightarrow> ('w, docker_network) io" where
  "handle_create_network M cfg banned_subnets =
     try_except (dk_network (mc_docker M) (cf_NETWORK_NAME cfg))
       (\<lambda>e. if e = DockerError 404 then new_network M cfg banned_subnets 10 else raise e)"

definition get_or_create_gefyra_network ::
    "'w machine \<Rightarrow> client_config \<Rightarrow> string list \<Rightarrow> ('w, docker_network) io" where
  "get_or_create_gefyra_network M cfg banned_subnets = handle_create_network M cfg banned_subnets"

definition created_by_gefyra :: "string option dict \<Rightarrow> bool" where
  "created_by_gefyra labels \<longleftrightarrow> dget labels (fst CREATED_BY_LABEL) = Some (Some ''true'')"

text \<open>\<open>CREATED_BY_LABEL\<close> on a network; its labels have no empty values.\<close>

definition managed_network :: "docker_network \<Rightarrow> bool" where
  "managed_network net \<longleftrightarrow> dget (dn_labels net) (fst CREATED_BY_LABEL) = Some ''true''"

definition kill_remainder_container_in_network :: "'w machine \<Rightarrow> client_config \<Rightarrow> ('w, unit) io" where
  "kill_remainder_container_in_network M cfg =
     if_found
       (bind (dk_network (mc_docker M) (cf_NETWORK_NAME cfg)) (\<lambda>network.
        for_each (\<lambda>container.
          bind (dk_container (mc_docker M) container) (\<lambda>c.
          whenever (created_by_gefyra (dc_labels c)) (dk_kill (mc_docker M) (dc_id c)))) (dn_containers network)))"

definition handle_remove_network :: "'w machine \<Rightarrow> client_config \<Rightarrow> ('w, unit) io" where
  "handle_remove_network M cfg =
     thn (kill_remainder_container_in_network M cfg)
     (try_except
       (bind (dk_network (mc_docker M) (cf_NETWORK_NAME cfg)) (\<lambda>net.
        whenever (managed_network net) (dk_remove_network (mc_docker M) (dn_id net))))
       (\<lambda>e. if is_docker_error e then ret () else raise e))"

section \<open>Containers\<close>

text \<open>\<open>source:target\<close>, a relative source resolved against the base; \<open>realpath\<close> is a parameter.\<close>

definition get_processed_path :: "(string \<Rightarrow> string) \<Rightarrow> string \<Rightarrow> string \<Rightarrow> exn + string" where
  "get_processed_path realpath base_path volume =
     sbind (unpack2 (rsplit1 (CHR '':'') volume)) (\<lambda>(source, target).
     Inr ((if startswith source ''/'' then source else realpath (base_path @ ''/'' @ source)) @ '':'' @ target))"

definition get_processed_paths ::
    "(string \<Rightarrow> string) \<Rightarrow> string \<Rightarrow> string list option \<Rightarrow> exn + string list option" where
  "get_processed_paths realpath base_path volumes = (case volumes of
       None \<Rightarrow> Inr None
     | Some vs \<Rightarrow> sbind (map_sum_list (get_processed_path realpath base_path) vs) (\<lambda>r. Inr (Some r)))"

text \<open>\<open>repo, tag = image.split(":")\<close>: exactly one colon.\<close>

definition pull_missing_image :: "'w machine \<Rightarrow> string \<Rightarrow> ('w, unit) io" where
  "pull_missing_image M img =
     try_except (dk_image (mc_docker M) img)
       (\<lambda>e. if e = DockerError 404
            then bind (of_sum (unpack2 (split (CHR '':'') img))) (\<lambda>(repo, tag). dk_pull (mc_docker M) repo tag None)
            else raise e)"

definition handle_docker_create_container ::
    "'w machine \<Rightarrow> client_config \<Rightarrow> string \<Rightarrow> kwarg dict \<Rightarrow> ('w, docker_container) io" where
  "handle_docker_create_container M cfg img kwargs =
     thn (pull_missing_image M img)
     (bind (KUBE_CONFIG_FILE M cfg) (\<lambda>(kubeconfig, cfg).
      bind (KUBE_CONTEXT M cfg) (\<lambda>(context, cfg).
      bind (CARGO_ENDPOINT M cfg) (\<lambda>endpoint.
      dk_create_container (mc_docker M) \<lparr>cq_image = img,
        cq_labels =
          [(fst CREATED_BY_LABEL, Some (snd CREATED_BY_LABEL)), (fst CARGO_LABEL, Some (snd CARGO_LABEL)),
           (ACTIVE_KUBECONFIG_LABEL, Some kubeconfig), (''active_context.gefyra.dev'', context),
           (CARGO_ENDPOINT_LABEL, endpoint), (CONNECTION_NAME_LABEL, Some (cf_CONNECTION_NAME cfg)),
           (CLIENT_ID_LABEL, cf_CLIENT_ID cfg), (''version.gefyra.dev'', Some VERSION)],
        cq_kwargs = kwargs\<rparr>))))"

definition handle_docker_get_or_create_container ::
    "'w machine \<Rightarrow> client_config \<Rightarrow> string \<Rightarrow> string \<Rightarrow> kwarg dict \<Rightarrow> ('w, docker_container) io" where
  "handle_docker_get_or_create_container M cfg name img kwargs =
     try_except (dk_container (mc_docker M) name)
       (\<lambda>e. if e = DockerError 404
            then handle_docker_create_container M cfg img (dset kwargs ''name'' (KStr name)) else raise e)"

definition handle_docker_run_container ::
    "'w machine \<Rightarrow> string \<Rightarrow> kwarg dict \<Rightarrow> ('w, docker_container) io" where
  "handle_docker_run_container M img kwargs =
     bind (mc_uuid4 M) (\<lambda>uuid.
     dk_run (mc_docker M) \<lparr>cq_image = img,
       cq_labels = [(fst CREATED_BY_LABEL, Some (snd CREATED_BY_LABEL)),
                    (''bridge_id.gefyra.dev'', Some (filter (\<lambda>c. c \<noteq> CHR ''-'') uuid))],
       cq_kwargs = kwargs\<rparr>)"

definition compose_kubeconfig_for_serviceaccount :: "string \<Rightarrow> string \<Rightarrow> string \<Rightarrow> string \<Rightarrow> string" where
  "compose_kubeconfig_for_serviceaccount server ca namespace token = join [CHR 0x0A]
     [''apiVersion: v1'', ''kind: Config'', ''clusters:'', ''  - name: default-cluster'', ''    cluster:'',
      ''      certificate-authority-data: '' @ ca, ''      server: '' @ server, ''contexts:'',
      ''  - name: default-context'', ''    context:'', ''      cluster: default-cluster'',
      ''      namespace: '' @ namespace, ''      user: default-user'',
      ''current-context: default-context'', ''users:'', ''  - name: default-user'', ''    user:'',
      ''      token: '' @ token, ''    '']"

section \<open>Cargo\<close>

definition get_cargo_ip_from_netaddress :: "string \<Rightarrow> string" where
  "get_cargo_ip_from_netaddress network_address =
     join ''.'' (take 3 (split (CHR ''.'') network_address)) @ ''.149''"

primrec ping_stowaway :: "'w machine \<Rightarrow> string \<Rightarrow> nat \<Rightarrow> ('w, unit) io" where
  "ping_stowaway M cargo 0 = raise GefyraConnectionError"
| "ping_stowaway M cargo (Suc n) =
     bind (dk_exec (mc_docker M) cargo (''timeout 1 ping -c 1 '' @ STOWAWAY_IP)) (\<lambda>(exit_code, _).
     if exit_code \<noteq> 0 then ping_stowaway M cargo n else ret ())"

definition probe_wireguard_connection :: "'w machine \<Rightarrow> client_config \<Rightarrow> ('w, unit) io" where
  "probe_wireguard_connection M cfg =
     bind (dk_container (mc_docker M) (cf_CARGO_CONTAINER_NAME cfg)) (\<lambda>cargo.
     ping_stowaway M (dc_id cargo) (cf_CARGO_PROBE_TIMEOUT cfg * 2))"

definition determine_wireguard_mtu :: "'w machine \<Rightarrow> client_config \<Rightarrow> ('w, int option) io" where
  "determine_wireguard_mtu M cfg =
     bind (dk_container (mc_docker M) (cf_CARGO_CONTAINER_NAME cfg)) (\<lambda>cargo.
     bind (dk_exec (mc_docker M) (dc_id cargo) ''cat /sys/class/net/wg0/mtu'') (\<lambda>(exit_code, out).
     ret (if exit_code = 0 then (case py_int (strip out) of Inl _ \<Rightarrow> None | Inr mtu \<Rightarrow> Some mtu) else None)))"

record stowaway_config =
  sc_iaddress :: "string option"
  sc_idns :: "string option"
  sc_iport :: "string option"
  sc_iprivatekey :: "string option"
  sc_pallowedips :: "string option"
  sc_pendpoint :: "string option"
  sc_ppublickey :: "string option"
  sc_presharedkey :: "string option"

definition masquerade :: "string \<Rightarrow> string" where
  "masquerade flag = ''iptables -'' @ flag @ '' FORWARD -i %i -j ACCEPT; iptables -'' @ flag @
     '' FORWARD -o %i -j ACCEPT; iptables -t nat -'' @ flag @
     '' POSTROUTING -o $(ip -4 -o addr show | grep '' @ [CHR 0x22] @ [CHR 0x5C] @ ''.149/'' @ [CHR 0x22] @
     '' | awk '' @ [CHR 0x27] @ ''{print $2}'' @ [CHR 0x27] @ '' | cut -d'' @ [CHR 0x27] @ ''@'' @ [CHR 0x27] @
     '' -f1) -j MASQUERADE''"

definition create_wireguard_config :: "stowaway_config \<Rightarrow> string option \<Rightarrow> string option \<Rightarrow> string" where
  "create_wireguard_config params cargo_endpoint mtu =
     concat (map (\<lambda>l. l @ [CHR 0x0A])
       ([''[Interface]'', ''Address = '' @ str_opt (sc_iaddress params)]
        @ (if given mtu then [''MTU = '' @ or_else mtu []] else [])
        @ [''PrivateKey = '' @ str_opt (sc_iprivatekey params), ''DNS = '' @ str_opt (sc_idns params),
           ''PreUp = sysctl -w net.ipv4.ip_forward=1'', ''PostUp = '' @ masquerade ''A'',
           ''PostDown = '' @ masquerade ''D'', ''[Peer]'',
           ''PublicKey = '' @ str_opt (sc_ppublickey params), ''Endpoint = '' @ str_opt cargo_endpoint,
           ''PresharedKey = '' @ str_opt (sc_presharedkey params), ''PersistentKeepalive = 21'',
           ''AllowedIPs = 0.0.0.0/0'']))"

section \<open>Minikube\<close>

fun get_a_worker_ip :: "minikube_node list \<Rightarrow> exn + string" where
  "get_a_worker_ip [] = Inl RuntimeError"
| "get_a_worker_ip (node # nodes) = (if mk_worker node then Inr (mk_ip node) else get_a_worker_ip nodes)"

record minikube_config =
  mn_network_name :: "string option"
  mn_cargo_endpoint_host :: string
  mn_cargo_endpoint_port :: string
  mn_kube_context :: string

definition minikube_network :: "minikube_profile \<Rightarrow> exn + string option" where
  "minikube_network config =
     (if mk_driver config = ''docker''
      then Inr (case mk_network config of
          None \<Rightarrow> Some ''minikube''
        | Some [] \<Rightarrow> (case mk_name config of None \<Rightarrow> Some ''minikube'' | Some n \<Rightarrow> Some n)
        | Some n \<Rightarrow> Some n)
      else if mk_driver config \<in> {''kvm'', ''kvm2'', ''virtualbox''} then Inr None
      else Inl MinikubeError)"

text \<open>\<open>mc_minikube\<close> reads and parses the profile; its failures are \<open>OSError\<close> and \<open>ValueError\<close>.\<close>

definition detect_minikube_config :: "'w machine \<Rightarrow> string option \<Rightarrow> ('w, minikube_config) io" where
  "detect_minikube_config M profile =
     bind (try_except (mc_minikube M profile)
             (\<lambda>e. if e \<in> {OSError, ValueError} then raise MinikubeError else raise e)) (\<lambda>config.
     of_sum (sbind (minikube_network config) (\<lambda>network_name.
       sbind (get_a_worker_ip (mk_nodes config)) (\<lambda>endpoint.
       sbind (req (mk_name config)) (\<lambda>name.
       Inr \<lparr>mn_network_name = network_name, mn_cargo_endpoint_host = endpoint,
         mn_cargo_endpoint_port = ''31820'', mn_kube_context = name\<rparr>)))))"

end
