(* ===== verification/LocalClient.thy ===== *)
theory LocalClient
  imports LocalNetwork LocalMount Stowaway ClientState
begin

text \<open>
  The client of a connection: the calls on the resource (client/gefyra/local/clients.py) and the
  object with its life cycle (client/gefyra/types/client.py).  The methods of the object work on the
  pair of the object and the world, so that its attributes keep what was assigned before an
  exception.  Progress callbacks, and reads made only to fill a message, are left out.
\<close>

section \<open>The resource\<close>

text \<open>\<open>n\<close> more attempts after the first.\<close>

primrec create_attempts :: "'w machine \<Rightarrow> client_body \<Rightarrow> nat \<Rightarrow> ('w, raw_client) io" where
  "create_attempts M body 0 =
     try_except (ca_create (mc_clients M) body)
       (\<lambda>e. if status_of e = Some 409 then raise GefyraClientAlreadyExists else raise e)"
| "create_attempts M body (Suc n) =
     try_except (ca_create (mc_clients M) body)
       (\<lambda>e. if status_of e = Some 409 then raise GefyraClientAlreadyExists
            else if is_api_exception e then thn (mc_sleep M 4000) (create_attempts M body n)
            else raise e)"

definition handle_create_gefyraclient :: "'w machine \<Rightarrow> client_body \<Rightarrow> ('w, raw_client) io" where
  "handle_create_gefyraclient M body = create_attempts M body 15"

definition handle_get_gefyraclient :: "'w machine \<Rightarrow> string \<Rightarrow> ('w, raw_client) io" where
  "handle_get_gefyraclient M client_id =
     try_except (ca_get (mc_clients M) client_id)
       (\<lambda>e. if status_of e \<in> {Some 401, Some 404, Some 403} then raise GefyraObjectNotFound
            else if e = MaxRetryError then raise GefyraConnectionError else raise e)"

primrec await_client_gone :: "'w machine \<Rightarrow> string \<Rightarrow> nat \<Rightarrow> ('w, bool) io" where
  "await_client_gone M client_id 0 = raise TimeoutError"
| "await_client_gone M client_id (Suc n) =
     bind (try_except (bind (handle_get_gefyraclient M client_id) (\<lambda>_. ret False))
             (\<lambda>e. if e = GefyraObjectNotFound then ret True else raise e)) (\<lambda>gone.
     if gone then ret True else thn (mc_sleep M 1000) (await_client_gone M client_id n))"

definition handle_delete_gefyraclient ::
    "'w machine \<Rightarrow> string \<Rightarrow> bool \<Rightarrow> bool \<Rightarrow> nat option \<Rightarrow> ('w, bool) io" where
  "handle_delete_gefyraclient M client_id force wait timeout =
     try_except
       (thn (whenever force (ca_drop_finalizers (mc_clients M) client_id))
       (thn (ca_delete (mc_clients M) client_id)
       (if wait then await_client_gone M client_id (timeout_or 60 timeout) else ret True)))
       (\<lambda>e. if status_of e \<in> {Some 404, Some 403} then ret False else raise e)"

definition get_gefyraclient_body :: "string \<Rightarrow> string \<Rightarrow> client_body" where
  "get_gefyraclient_body client_id provider =
     \<lparr>ck_name = client_id, ck_namespace = ''gefyra'', ck_provider = provider\<rparr>"

section \<open>The object\<close>

datatype gefyra_client_state =
  REQUESTED | CREATING | WAITING | ENABLING | ACTIVE | DISABLING | TERMINATING | ERROR

fun state_value :: "gefyra_client_state \<Rightarrow> string" where
  "state_value REQUESTED = ''REQUESTED''"
| "state_value CREATING = ''CREATING''"
| "state_value WAITING = ''WAITING''"
| "state_value ENABLING = ''ENABLING''"
| "state_value ACTIVE = ''ACTIVE''"
| "state_value DISABLING = ''DISABLING''"
| "state_value TERMINATING = ''TERMINATING''"
| "state_value ERROR = ''ERROR''"

text \<open>\<open>GefyraClientState(value)\<close>.\<close>

definition GefyraClientState :: "string \<Rightarrow> exn + gefyra_client_state" where
  "GefyraClientState value =
     (case filter (\<lambda>s. state_value s = value)
             [REQUESTED, CREATING, WAITING, ENABLING, ACTIVE, DISABLING, TERMINATING, ERROR] of
        [] \<Rightarrow> Inl ValueError | s # _ \<Rightarrow> Inr s)"

text \<open>\<open>go_subnet\<close> is \<open>provider_parameter.subnet\<close>; \<open>go_wg_handshake\<close> is \<open>None\<close> until a status with
  WireGuard data has been seen, then the handshake or \<open>None\<close> for \<open>"No handshake"\<close>.\<close>

record gefyra_client =
  go_client_id :: string
  go_uid :: string
  go_namespace :: string
  go_provider :: string
  go_state :: string
  go_state_transitions :: "string dict"
  go_wg_status :: "wg_value dict option"
  go_wg_handshake :: "wg_value option option"
  go_created :: "string option"
  go_provider_parameter :: "string option option"
  go_provider_config :: "stowaway_config option"
  go_service_account_name :: "string option"
  go_service_account :: "string dict"
  go_config :: client_config

definition StowawayConfig :: "string dict \<Rightarrow> stowaway_config" where
  "StowawayConfig d = \<lparr>sc_iaddress = dget d ''Interface.Address'', sc_idns = dget d ''Interface.DNS'',
     sc_iport = dget d ''Interface.ListenPort'', sc_iprivatekey = dget d ''Interface.PrivateKey'',
     sc_pallowedips = dget d ''Peer.AllowedIPs'', sc_pendpoint = dget d ''Peer.Endpoint'',
     sc_ppublickey = dget d ''Peer.PublicKey'', sc_presharedkey = dget d ''Peer.PresharedKey''\<rparr>"

text \<open>A handshake, a parameter or a configuration that has been read stays until another one is read.\<close>

definition init_data :: "gefyra_client \<Rightarrow> raw_client \<Rightarrow> gefyra_client" where
  "init_data c obj =
     (let provider = or_empty (cl_provider obj);
          wg = (case cl_status obj of Some (Some d) \<Rightarrow> Some d | _ \<Rightarrow> None) in
      c\<lparr>go_client_id := cr_name obj, go_uid := rc_uid obj, go_namespace := cr_namespace obj,
        go_provider := provider, go_state := cr_state obj,
        go_wg_status := wg,
        go_wg_handshake := (case wg of None \<Rightarrow> go_wg_handshake c
                            | Some d \<Rightarrow> Some (dget d ''latest_handshake'')),
        go_created := rc_created obj, go_state_transitions := or_empty (cr_transitions obj),
        go_service_account_name := rc_serviceAccountName obj,
        go_service_account := or_empty (rc_serviceAccountData obj),
        go_provider_parameter :=
          (case cl_providerParameter obj of
             Some p \<Rightarrow> if p \<noteq> [] \<and> provider = ''stowaway'' then Some (dget p ''subnet'')
                       else go_provider_parameter c
           | None \<Rightarrow> go_provider_parameter c),
        go_provider_config :=
          (case cl_providerConfig obj of
             Some p \<Rightarrow> if p \<noteq> [] \<and> provider = ''stowaway'' then Some (StowawayConfig p)
                       else go_provider_config c
           | None \<Rightarrow> go_provider_config c)\<rparr>)"

definition GefyraClient :: "raw_client \<Rightarrow> client_config \<Rightarrow> gefyra_client" where
  "GefyraClient obj cfg = init_data
     \<lparr>go_client_id = [], go_uid = [], go_namespace = [], go_provider = [], go_state = [],
      go_state_transitions = [], go_wg_status = None, go_wg_handshake = None, go_created = None,
      go_provider_parameter = None, go_provider_config = None, go_service_account_name = None,
      go_service_account = [], go_config = cfg\<rparr> obj"

type_synonym ('w, 'a) member = "(gefyra_client \<times> 'w, 'a) io"

definition modify :: "(gefyra_client \<Rightarrow> gefyra_client) \<Rightarrow> ('w, unit) member" where
  "modify f = (\<lambda>(c, w). (Inr (), (f c, w)))"

definition client_update :: "'w machine \<Rightarrow> ('w, unit) member" where
  "client_update M =
     bind current (\<lambda>c.
     bind (lift (handle_get_gefyraclient M (go_client_id c))) (\<lambda>obj. modify (\<lambda>c. init_data c obj)))"

text \<open>The property \<open>state\<close> asks the API server every time.\<close>

definition client_state_now :: "'w machine \<Rightarrow> ('w, gefyra_client_state) member" where
  "client_state_now M = thn (client_update M) (bind current (\<lambda>c. of_sum (GefyraClientState (go_state c))))"

text \<open>The loop of \<open>wait_for_state\<close>, which ends only by the state or the clock: \<open>None\<close> if it does not.\<close>

partial_function (option) await_state ::
    "'w machine \<Rightarrow> gefyra_client_state \<Rightarrow> int \<Rightarrow> int \<Rightarrow> gefyra_client \<times> 'w
     \<Rightarrow> ((exn + unit) \<times> (gefyra_client \<times> 'w)) option" where
  "await_state M desired_state timeout start_time s =
     (case client_state_now M s of
        (Inl e, s1) \<Rightarrow> Some (Inl e, s1)
      | (Inr st, s1) \<Rightarrow>
          if st = desired_state then Some (Inr (), s1) else
          (case lift (mc_time M) s1 of
             (Inl e, s2) \<Rightarrow> Some (Inl e, s2)
           | (Inr now, s2) \<Rightarrow>
               if now - start_time > timeout * 1000000 then Some (Inl CommandTimeoutError, s2) else
               (case lift (mc_sleep M 2000) s2 of
                  (Inl e, s3) \<Rightarrow> Some (Inl e, s3)
                | (Inr _, s3) \<Rightarrow> await_state M desired_state timeout start_time s3)))"

definition wait_for_state ::
    "'w machine \<Rightarrow> gefyra_client_state \<Rightarrow> int \<Rightarrow> gefyra_client \<times> 'w
     \<Rightarrow> ((exn + unit) \<times> (gefyra_client \<times> 'w)) option" where
  "wait_for_state M desired_state timeout s =
     (case lift (mc_time M) s of
        (Inl e, s1) \<Rightarrow> Some (Inl e, s1)
      | (Inr start_time, s1) \<Rightarrow> await_state M desired_state timeout start_time s1)"

section \<open>The file of a client\<close>

abbreviation LOCAL_SERVER :: string where
  "LOCAL_SERVER \<equiv> ''#local#''"

record gefyra_client_config =
  gc_client_id :: string
  gc_kubernetes_server :: string
  gc_provider :: string
  gc_namespace :: string
  gc_gefyra_server :: string
  gc_token :: "string option"
  gc_ca_crt :: "string option"
  gc_registry :: "string option"
  gc_wireguard_mtu :: "string option"

text \<open>The attribute \<open>gefyra_server\<close>: a local server is the Cargo endpoint of a fresh configuration.\<close>

definition gefyra_server_of :: "'w machine \<Rightarrow> gefyra_client_config \<Rightarrow> ('w, string option) io" where
  "gefyra_server_of M conf =
     (if gc_gefyra_server conf = LOCAL_SERVER
      then bind (ClientConfiguration M default_args) (\<lambda>cfg. CARGO_ENDPOINT M cfg)
      else ret (Some (gc_gefyra_server conf)))"

definition get_client_config ::
    "'w machine \<Rightarrow> string \<Rightarrow> string option \<Rightarrow> string option \<Rightarrow> nat option \<Rightarrow> ('w, gefyra_client_config) member" where
  "get_client_config M gefyra_server k8s_server registry wireguard_mtu =
     thn (bind current (\<lambda>c. if go_service_account c = [] then client_update M else ret ()))
     (bind current (\<lambda>c. ret
       \<lparr>gc_client_id = go_client_id c, gc_kubernetes_server = or_else k8s_server (mc_api_url M),
        gc_provider = go_provider c, gc_namespace = go_namespace c, gc_gefyra_server = gefyra_server,
        gc_token = dget (go_service_account c) ''token'', gc_ca_crt = dget (go_service_account c) ''ca.crt'',
        gc_registry = registry,
        gc_wireguard_mtu = (case wireguard_mtu of None \<Rightarrow> None
                            | Some m \<Rightarrow> if m = 0 then None else Some (str_nat m))\<rparr>))"

section \<open>Connections\<close>

definition activate_connection :: "'w machine \<Rightarrow> string \<Rightarrow> ('w, unit) member" where
  "activate_connection M subnet =
     bind (client_state_now M) (\<lambda>st.
     if st = ACTIVE then ret ()
     else if st = WAITING then
       bind current (\<lambda>c. lift (ca_patch (mc_clients M) (go_client_id c) (Some [(''subnet'', subnet)])))
     else bind (client_state_now M) (\<lambda>_. raise RuntimeError))"

definition deactivate_connection :: "'w machine \<Rightarrow> ('w, unit) member" where
  "deactivate_connection M =
     bind (client_state_now M) (\<lambda>st.
     if st = WAITING then ret ()
     else if st = ACTIVE then
       bind current (\<lambda>c. lift (ca_patch (mc_clients M) (go_client_id c) None))
     else bind (client_state_now M) (\<lambda>_. raise RuntimeError))"

definition stop_and_deactivate :: "'w machine \<Rightarrow> ('w, unit) member" where
  "stop_and_deactivate M =
     bind current (\<lambda>c.
     thn (lift (bind (get_or_create_gefyra_network M (go_config c) []) (\<lambda>_.
            if_found (bind (dk_container (mc_docker M) (cf_CARGO_CONTAINER_NAME (go_config c)))
              (\<lambda>cargo. dk_stop (mc_docker M) (dc_id cargo))))))
     (deactivate_connection M))"

definition client_disconnect_now ::
    "'w machine \<Rightarrow> bool \<Rightarrow> int \<Rightarrow> gefyra_client \<times> 'w \<Rightarrow> ((exn + bool) \<times> (gefyra_client \<times> 'w)) option" where
  "client_disconnect_now M nowait timeout s =
     (case stop_and_deactivate M s of
        (Inl e, s1) \<Rightarrow> Some (Inl e, s1)
      | (Inr _, s1) \<Rightarrow>
          if nowait then Some (Inr True, s1) else
          (case wait_for_state M WAITING timeout s1 of
             None \<Rightarrow> None
           | Some (Inl e, s2) \<Rightarrow> Some (Inl e, s2)
           | Some (Inr _, s2) \<Rightarrow> Some (Inr True, s2)))"

text \<open>The negotiation of the subnet: \<open>n\<close> attempts are left.  The cluster answers 500 if it does not
  take the subnet; then the network is removed and the subnet banned.\<close>

primrec negotiate :: "'w machine \<Rightarrow> string list \<Rightarrow> nat \<Rightarrow> ('w, docker_network) member" where
  "negotiate M rejected 0 = raise GefyraConnectionError"
| "negotiate M rejected (Suc n) =
     bind current (\<lambda>c.
     bind (lift (get_or_create_gefyra_network M (go_config c) rejected)) (\<lambda>net.
     bind (try_except (bind (activate_connection M (dn_subnet net)) (\<lambda>_. ret None))
             (\<lambda>e. if is_api_exception e then ret (status_of e) else raise e)) (\<lambda>refused.
     case refused of
       None \<Rightarrow> ret net
     | Some status \<Rightarrow>
         if status = 500
         then thn (lift (dk_remove_network (mc_docker M) (dn_id net))) (negotiate M (rejected @ [dn_subnet net]) n)
         else negotiate M rejected n)))"

primrec await_active :: "'w machine \<Rightarrow> nat \<Rightarrow> ('w, unit) member" where
  "await_active M 0 = raise GefyraConnectionError"
| "await_active M (Suc n) =
     bind (client_state_now M) (\<lambda>st.
     if st = ACTIVE then ret () else thn (lift (mc_sleep M 1000)) (await_active M n))"

definition endpoint_host :: "string option \<Rightarrow> exn + string" where
  "endpoint_host e = (case e of None \<Rightarrow> Inl AttributeError | Some s \<Rightarrow> Inr (hd (split (CHR '':'') s)))"

primrec await_endpoint :: "'w machine \<Rightarrow> client_config \<Rightarrow> nat \<Rightarrow> ('w, unit) io" where
  "await_endpoint M cfg 0 = raise GefyraConnectionError"
| "await_endpoint M cfg (Suc n) =
     bind (CARGO_ENDPOINT M cfg) (\<lambda>e.
     bind (of_sum (endpoint_host e)) (\<lambda>h.
     bind (mc_resolve M h) (\<lambda>resolved.
     if resolved then ret () else thn (mc_sleep M 1000) (await_endpoint M cfg n))))"

text \<open>The address of Stowaway is taken from the provider unless Cargo's endpoint is known.\<close>

definition known_endpoint :: "'w machine \<Rightarrow> stowaway_config \<Rightarrow> ('w, unit) member" where
  "known_endpoint M params =
     bind current (\<lambda>c.
     bind (lift (CARGO_ENDPOINT M (go_config c))) (\<lambda>e.
     if e \<noteq> None then ret ()
     else modify (\<lambda>c. c\<lparr>go_config := (go_config c)\<lparr>cf_cargo_endpoint := sc_pendpoint params\<rparr>\<rparr>)))"

definition join_networks ::
    "'w machine \<Rightarrow> string option \<Rightarrow> docker_network \<Rightarrow> docker_container \<Rightarrow> ('w, unit) io" where
  "join_networks M minikube_profile net cargo =
     thn (if given minikube_profile
          then bind (detect_minikube_config M minikube_profile) (\<lambda>mini_conf.
               if given (mn_network_name mini_conf)
               then bind (dk_network (mc_docker M) (or_else (mn_network_name mini_conf) [])) (\<lambda>minikube_net.
                    dk_connect (mc_docker M) (dn_id minikube_net) (dc_id cargo) None)
               else ret ())
          else ret ())
     (dk_connect (mc_docker M) (dn_id net) (dc_id cargo)
       (Some (get_cargo_ip_from_netaddress (dn_subnet net))))"

definition cargo_kwargs :: "string \<Rightarrow> kwarg dict" where
  "cargo_kwargs wg_conf = [(''detach'', KBool True), (''cap_add'', KList [''NET_ADMIN'']),
     (''privileged'', KBool True),
     (''volumes'', KList [''/var/run/docker.sock:/var/run/docker.sock'', wg_conf @ '':/config/wg0.conf'']),
     (''pid_mode'', KStr ''host'')]"

text \<open>Starting Cargo.  A container that cannot be joined or started is removed, also one that
  existed before.\<close>

definition start_cargo ::
    "'w machine \<Rightarrow> client_config \<Rightarrow> docker_container option \<Rightarrow> string option \<Rightarrow> string \<Rightarrow> docker_network
     \<Rightarrow> ('w, unit) io" where
  "start_cargo M cfg cargo_container minikube_profile wg_conf net =
     bind (case cargo_container of
             Some c \<Rightarrow> ret c
           | None \<Rightarrow> try_except
               (handle_docker_get_or_create_container M cfg (cf_CARGO_CONTAINER_NAME cfg) (cf_CARGO_IMAGE cfg)
                  (cargo_kwargs wg_conf))
               (\<lambda>e. if is_docker_error e then raise GefyraConnectionError else raise e)) (\<lambda>cargo.
     try_except
       (thn (whenever (cargo_container = None) (join_networks M minikube_profile net cargo))
       (thn (dk_start (mc_docker M) (dc_id cargo)) (mc_sleep M 1000)))
       (\<lambda>e. if is_docker_error e
            then thn (try_except (dk_remove (mc_docker M) (dc_id cargo) False)
                        (\<lambda>e'. if is_docker_error e' then ret () else raise e')) (raise GefyraConnectionError)
            else raise e))"

definition write_wireguard_config ::
    "'w machine \<Rightarrow> string \<Rightarrow> stowaway_config \<Rightarrow> client_config \<Rightarrow> ('w, unit) io" where
  "write_wireguard_config M wg_conf params cfg =
     bind (CARGO_ENDPOINT M cfg) (\<lambda>endpoint.
     mc_write M wg_conf (create_wireguard_config params endpoint (cf_WIREGUARD_MTU cfg)))"

definition establish ::
    "'w machine \<Rightarrow> docker_container option \<Rightarrow> string option \<Rightarrow> docker_network \<Rightarrow> ('w, bool) member" where
  "establish M cargo_container minikube_profile net =
     bind (lift (get_gefyra_config_location M)) (\<lambda>location.
     bind current (\<lambda>c.
     case go_provider_config c of
       None \<Rightarrow> raise GefyraConnectionError
     | Some params \<Rightarrow>
         let wg_conf = path_join2 location (cf_CONNECTION_NAME (go_config c) @ ''.conf'') in
         thn (known_endpoint M params)
         (bind current (\<lambda>c. let cfg = go_config c in
          lift (thn (await_endpoint M cfg CONNECTION_TIMEOUT)
                (thn (write_wireguard_config M wg_conf params cfg)
                (thn (start_cargo M cfg cargo_container minikube_profile wg_conf net)
                (thn (probe_wireguard_connection M cfg) (ret True)))))))))"

definition client_connect_now ::
    "'w machine \<Rightarrow> docker_container option \<Rightarrow> string option \<Rightarrow> nat option \<Rightarrow> ('w, bool) member" where
  "client_connect_now M cargo_container minikube_profile timeout =
     bind (negotiate M [] 10) (\<lambda>net.
     thn (await_active M (timeout_or CONNECTION_TIMEOUT timeout))
     (thn (client_update M)
     (establish M cargo_container minikube_profile net)))"

end
