(* ===== verification/LocalConnect.thy ===== *)
theory LocalConnect
  imports LocalClient
begin

text \<open>
  The commands for clients (client/gefyra/api/clients.py) and connections
  (client/gefyra/api/connect.py).
\<close>

section \<open>Clients\<close>

text \<open>Exceptions end the loop, so no list of clients is returned then.  Only the first client can have
  the given name.\<close>

primrec add_each :: "'w machine \<Rightarrow> client_config \<Rightarrow> string \<Rightarrow> nat \<Rightarrow> ('w, gefyra_client list) io" where
  "add_each M cfg client_id 0 = ret []"
| "add_each M cfg client_id (Suc n) =
     bind (if client_id = [] then bind (mc_uuid4 M) (\<lambda>u. ret (filter (\<lambda>c. c \<noteq> CHR ''-'') u)) else ret client_id)
       (\<lambda>client_id.
     bind (handle_create_gefyraclient M (get_gefyraclient_body client_id ''stowaway'')) (\<lambda>gclient.
     bind (add_each M cfg [] n) (\<lambda>rest. ret (GefyraClient gclient cfg # rest))))"

definition add_clients ::
    "'w machine \<Rightarrow> string \<Rightarrow> nat \<Rightarrow> string option \<Rightarrow> string option \<Rightarrow> string option \<Rightarrow> ('w, gefyra_client list) io" where
  "add_clients M client_id quantity registry kubeconfig kubecontext =
     bind (ClientConfiguration M (default_args\<lparr>ar_kube_config_file := kubeconfig,
             ar_kube_context := kubecontext, ar_ignore_connection := True, ar_registry := registry\<rparr>)) (\<lambda>cfg.
     if quantity > 1 \<and> client_id \<noteq> [] then raise RuntimeError
     else add_each M cfg client_id quantity)"

text \<open>\<open>client_id\<close> may be \<open>None\<close>, for a connection without the label; the API client refuses that name
  with a \<open>ValueError\<close>.\<close>

definition get_client ::
    "'w machine \<Rightarrow> string option \<Rightarrow> string \<Rightarrow> string option \<Rightarrow> string option \<Rightarrow> ('w, gefyra_client) io" where
  "get_client M client_id connection_name kubeconfig kubecontext =
     bind (ClientConfiguration M (default_args\<lparr>ar_connection_name := Some connection_name,
             ar_kube_config_file := kubeconfig, ar_kube_context := kubecontext\<rparr>)) (\<lambda>cfg.
     bind (case client_id of None \<Rightarrow> raise ValueError | Some name \<Rightarrow> handle_get_gefyraclient M name) (\<lambda>gclient.
     ret (GefyraClient gclient cfg)))"

definition delete_client ::
    "'w machine \<Rightarrow> string \<Rightarrow> bool \<Rightarrow> string option \<Rightarrow> string option \<Rightarrow> string option \<Rightarrow> bool \<Rightarrow> nat option
     \<Rightarrow> ('w, bool) io" where
  "delete_client M client_id force kubeconfig kubecontext connection_name wait timeout =
     bind (ClientConfiguration M (default_args\<lparr>ar_kube_config_file := kubeconfig, ar_kube_context := kubecontext,
             ar_connection_name := Some (or_else connection_name ''no-connection-name'')\<rparr>)) (\<lambda>_.
     try_except (handle_delete_gefyraclient M client_id force wait timeout)
       (\<lambda>e. if e \<in> {TimeoutError, CommandTimeoutError} then raise CommandTimeoutError else raise e))"

definition write_client_file ::
    "'w machine \<Rightarrow> string \<Rightarrow> string option \<Rightarrow> string option \<Rightarrow> string option \<Rightarrow> string option \<Rightarrow> string option
     \<Rightarrow> string option \<Rightarrow> nat option \<Rightarrow> bool \<Rightarrow> ('w, gefyra_client_config) io" where
  "write_client_file M client_id host_name port_nr kube_api kubeconfig kubecontext registry wireguard_mtu locally =
     bind (ClientConfiguration M (default_args\<lparr>ar_kube_config_file := kubeconfig, ar_kube_context := kubecontext,
             ar_registry := registry, ar_wireguard_mtu := (case wireguard_mtu of None \<Rightarrow> None
               | Some m \<Rightarrow> if m = 0 then None else Some (str_nat m))\<rparr>)) (\<lambda>cfg.
     bind (KUBE_CONFIG_FILE M cfg) (\<lambda>(file, cfg).
     bind (KUBE_CONTEXT M cfg) (\<lambda>(context, cfg).
     bind (get_client M (Some client_id) [] (Some file) context) (\<lambda>client.
     let p = or_else port_nr ''31820'' in
     bind (if given host_name then ret (or_else host_name [] @ '':'' @ p)
           else if locally then ret LOCAL_SERVER
           else get_stowaway_host M cfg (Some p)) (\<lambda>gefyra_server w.
     case get_client_config M gefyra_server kube_api registry wireguard_mtu (client, w) of
       (r, (_, w')) \<Rightarrow> (r, w'))))))"

definition list_client ::
    "'w machine \<Rightarrow> string option \<Rightarrow> string option \<Rightarrow> ('w, gefyra_client list) io" where
  "list_client M kubeconfig kubecontext =
     bind (ClientConfiguration M (default_args\<lparr>ar_kube_config_file := kubeconfig, ar_kube_context := kubecontext\<rparr>))
       (\<lambda>cfg. bind (ca_list (mc_clients M)) (\<lambda>clients. ret (map (\<lambda>c. GefyraClient c cfg) clients)))"

section \<open>The list of connections\<close>

record connection_item =
  ci_name :: string
  ci_version :: "string option"
  ci_created :: "string option"
  ci_status :: string
  ci_client_status :: "string option"
  ci_wireguard_probe :: bool
  ci_mtu :: "int option"

definition label_or :: "docker_container \<Rightarrow> string \<Rightarrow> string \<Rightarrow> string" where
  "label_or c label d = (case dget (dc_labels c) label of Some (Some v) \<Rightarrow> v | _ \<Rightarrow> d)"

text \<open>A running Cargo is probed twice.\<close>

definition connection_state :: "'w machine \<Rightarrow> docker_container \<Rightarrow> ('w, string \<times> int option) io" where
  "connection_state M c =
     (if dc_status c \<noteq> ''running'' then ret (''stopped'', None) else
      try_except
        (bind (ClientConfiguration M (default_args\<lparr>ar_cargo_container_name := dc_name c\<rparr>)) (\<lambda>cfg.
         let cfg = cfg\<lparr>cf_CARGO_PROBE_TIMEOUT := 1\<rparr> in
         thn (probe_wireguard_connection M cfg)
         (bind (determine_wireguard_mtu M cfg) (\<lambda>mtu. ret (''running'', mtu)))))
        (\<lambda>e. if e = GefyraConnectionError then ret (''error'', None) else raise e))"

definition list_connections :: "'w machine \<Rightarrow> ('w, connection_item list) io" where
  "list_connections M =
     bind (ClientConfiguration M default_args) (\<lambda>_.
     bind (dk_containers (mc_docker M) (fst CARGO_LABEL @ ''='' @ snd CARGO_LABEL)) (\<lambda>containers.
     map_io (\<lambda>c. bind (connection_state M c) (\<lambda>(state, mtu). ret
       \<lparr>ci_name = label_or c CONNECTION_NAME_LABEL ''unknown'',
        ci_version = Some (label_or c ''version.gefyra.dev'' ''unknown''),
        ci_created = Some (or_else (dc_created c) ''unknown''), ci_status = state,
        ci_client_status = None, ci_wireguard_probe = False, ci_mtu = mtu\<rparr>)) containers))"

definition probe_result :: "'w machine \<Rightarrow> client_config \<Rightarrow> ('w, bool \<times> int option) io" where
  "probe_result M cfg =
     bind (try_except (thn (probe_wireguard_connection M cfg) (ret True))
             (\<lambda>e. if e = GefyraConnectionError then ret False else raise e)) (\<lambda>successful.
     bind (try_except (determine_wireguard_mtu M cfg)
             (\<lambda>e. if e = GefyraConnectionError then ret None else raise e)) (\<lambda>mtu.
     ret (successful, mtu)))"

definition inspect_connection :: "'w machine \<Rightarrow> string \<Rightarrow> ('w, connection_item) io" where
  "inspect_connection M connection_name =
     bind (list_connections M) (\<lambda>connections.
     let result = (case filter (\<lambda>c. ci_name c = connection_name) connections of [] \<Rightarrow> None | c # _ \<Rightarrow> Some c) in
     bind (ClientConfiguration M (default_args\<lparr>ar_connection_name := Some connection_name\<rparr>)) (\<lambda>cfg.
     bind (try_except (bind (dk_container (mc_docker M) (cf_CARGO_CONTAINER_NAME cfg)) (\<lambda>c. ret (dc_status c)))
             (\<lambda>e. if e = DockerError 404 then ret ''not found'' else raise e)) (\<lambda>cargo_status.
     bind (try_except (bind (get_client M (cf_CLIENT_ID cfg) (cf_CONNECTION_NAME cfg) None None)
                         (\<lambda>client. ret (lower (go_state client))))
             (\<lambda>e. if e \<in> {GefyraObjectNotFound, KeyError} then ret ''not found'' else raise e)) (\<lambda>client_state.
     bind (if client_state = ''active'' \<and> cargo_status = ''running''
           then probe_result M (cfg\<lparr>cf_CARGO_PROBE_TIMEOUT := 1\<rparr>) else ret (False, None)) (\<lambda>(probe, mtu).
     ret \<lparr>ci_name = connection_name, ci_version = (case result of None \<Rightarrow> None | Some c \<Rightarrow> ci_version c),
       ci_created = (case result of None \<Rightarrow> None | Some c \<Rightarrow> ci_created c), ci_status = cargo_status,
       ci_client_status = Some client_state, ci_wireguard_probe = probe, ci_mtu = mtu\<rparr>)))))"

section \<open>Connecting\<close>

text \<open>The kubeconfig for the service account in the file of the client, written beside the other
  files.\<close>

definition client_kubeconfig ::
    "'w machine \<Rightarrow> string \<Rightarrow> gefyra_client_config \<Rightarrow> string option \<Rightarrow> string option
     \<Rightarrow> ('w, string option \<times> string option) io" where
  "client_kubeconfig M connection_name conf kubeconfig kubecontext =
     (if \<not> given kubeconfig \<and> given (gc_ca_crt conf) \<and> given (gc_token conf)
      then bind (of_sum (mc_b64decode M (or_else (gc_token conf) []))) (\<lambda>token.
           bind (get_gefyra_config_location M) (\<lambda>dir.
           let loc = path_join2 dir (connection_name @ ''.yaml'') in
           thn (mc_write M loc (compose_kubeconfig_for_serviceaccount (gc_kubernetes_server conf)
                  (or_else (gc_ca_crt conf) []) ''gefyra'' token))
           (ret (Some loc, None))))
      else ret (kubeconfig, kubecontext))"

text \<open>\<open>gefyra_server.split(":")\<close>, item by item; the attribute is looked up each time.\<close>

definition server_part :: "'w machine \<Rightarrow> gefyra_client_config \<Rightarrow> nat \<Rightarrow> ('w, string) io" where
  "server_part M conf i =
     bind (gefyra_server_of M conf) (\<lambda>server. case server of
       None \<Rightarrow> raise AttributeError
     | Some s \<Rightarrow> of_sum (nth_item (split (CHR '':'') s) i))"

definition new_connection ::
    "'w machine \<Rightarrow> string \<Rightarrow> gefyra_client_config \<Rightarrow> string option \<Rightarrow> string option \<Rightarrow> string option \<Rightarrow> nat option
     \<Rightarrow> nat \<Rightarrow> nat \<Rightarrow> string option \<Rightarrow> ('w, gefyra_client) io" where
  "new_connection M connection_name conf kubeconfig kubecontext minikube_profile mtu probe_timeout timeout cargo_image =
     bind (client_kubeconfig M connection_name conf kubeconfig kubecontext) (\<lambda>(kubeconfig, kubecontext).
     bind (if given minikube_profile
           then bind (detect_minikube_config M minikube_profile) (\<lambda>m.
                ret (conf\<lparr>gc_gefyra_server := mn_cargo_endpoint_host m @ '':'' @ mn_cargo_endpoint_port m\<rparr>))
           else ret conf) (\<lambda>conf.
     bind (server_part M conf 0) (\<lambda>endpoint_host.
     bind (server_part M conf 1) (\<lambda>endpoint_port.
     bind (ClientConfiguration M (default_args\<lparr>ar_connection_name := Some connection_name,
             ar_kube_config_file := kubeconfig, ar_kube_context := kubecontext,
             ar_client_id := gc_client_id conf, ar_cargo_endpoint_host := endpoint_host,
             ar_cargo_endpoint_port := endpoint_port,
             ar_cargo_container_name := ''gefyra-cargo-'' @ connection_name,
             ar_wireguard_mtu := (case mtu of Some m \<Rightarrow> if m = 0 then gc_wireguard_mtu conf else Some (str_nat m)
                                  | None \<Rightarrow> gc_wireguard_mtu conf),
             ar_cargo_image_url := or_empty cargo_image\<rparr>)) (\<lambda>cfg.
     bind (handle_get_gefyraclient M (gc_client_id conf)) (\<lambda>gclient.
     ret (GefyraClient gclient (cfg\<lparr>cf_CARGO_PROBE_TIMEOUT := (if timeout = 0 then probe_timeout else timeout)\<rparr>))))))))"

definition known_connection ::
    "'w machine \<Rightarrow> string \<Rightarrow> ('w, gefyra_client \<times> docker_container option) io" where
  "known_connection M connection_name =
     bind (ClientConfiguration M (default_args\<lparr>ar_connection_name := Some connection_name\<rparr>)) (\<lambda>cfg.
     bind (dk_container (mc_docker M) (cf_CARGO_CONTAINER_NAME cfg)) (\<lambda>cargo.
     bind (get_client M (cf_CLIENT_ID cfg) (cf_CONNECTION_NAME cfg) None None) (\<lambda>client. ret (client, Some cargo))))"

text \<open>\<open>client_config\<close>: the outcome of reading the file, if one is given.  \<open>callback\<close>: whether
  there is one; forcing a reconnection calls it without a check.\<close>

definition prepare_connection ::
    "'w machine \<Rightarrow> string \<Rightarrow> (exn + gefyra_client_config) option \<Rightarrow> string option \<Rightarrow> string option \<Rightarrow> string option
     \<Rightarrow> nat option \<Rightarrow> nat \<Rightarrow> nat \<Rightarrow> string option \<Rightarrow> bool
     \<Rightarrow> ('w, gefyra_client \<times> docker_container option) io" where
  "prepare_connection M connection_name client_config kubeconfig kubecontext minikube_profile mtu probe_timeout timeout
     cargo_image force =
     bind (list_connections M) (\<lambda>conns.
     if connection_name \<in> set (map ci_name conns) then known_connection M connection_name else
     case client_config of
       None \<Rightarrow> raise GefyraConnectionError
     | Some r \<Rightarrow>
         bind (of_sum r) (\<lambda>conf.
         bind (new_connection M connection_name conf kubeconfig kubecontext minikube_profile mtu probe_timeout timeout
                 cargo_image) (\<lambda>client.
         if go_state client = ''ACTIVE'' \<and> \<not> force then raise GefyraConnectionError else ret (client, None))))"

definition api_connect ::
    "'w machine \<Rightarrow> string \<Rightarrow> (exn + gefyra_client_config) option \<Rightarrow> string option \<Rightarrow> string option \<Rightarrow> string option
     \<Rightarrow> nat option \<Rightarrow> nat \<Rightarrow> bool \<Rightarrow> string option \<Rightarrow> bool \<Rightarrow> nat \<Rightarrow> 'w \<Rightarrow> ((exn + bool) \<times> 'w) option" where
  "api_connect M connection_name client_config kubeconfig kubecontext minikube_profile mtu probe_timeout callback
     cargo_image force timeout w =
     (case prepare_connection M connection_name client_config kubeconfig kubecontext minikube_profile mtu probe_timeout
             timeout cargo_image force w of
        (Inl e, w1) \<Rightarrow> Some (Inl e, w1)
      | (Inr (client, cargo), w1) \<Rightarrow>
          (let go = (\<lambda>s. case client_connect_now M cargo minikube_profile (Some timeout) s of (r, (_, w')) \<Rightarrow> (r, w')) in
           if go_state client = ''ACTIVE'' \<and> force then
             if \<not> callback then Some (Inl TypeError, w1) else
             (case client_disconnect_now M False 60 (client, w1) of
                None \<Rightarrow> None
              | Some (Inl e, (_, w2)) \<Rightarrow> Some (Inl e, w2)
              | Some (Inr _, s2) \<Rightarrow> Some (go s2))
           else Some (go (client, w1))))"

definition api_disconnect ::
    "'w machine \<Rightarrow> string \<Rightarrow> bool \<Rightarrow> int \<Rightarrow> 'w \<Rightarrow> ((exn + bool) \<times> 'w) option" where
  "api_disconnect M connection_name nowait timeout w =
     (case bind (ClientConfiguration M (default_args\<lparr>ar_connection_name := Some connection_name\<rparr>)) (\<lambda>cfg.
           if \<not> given (cf_CLIENT_ID cfg) then raise ClientConfigurationError
           else get_client M (cf_CLIENT_ID cfg) connection_name None None) w of
        (Inl e, w1) \<Rightarrow> Some (Inl e, w1)
      | (Inr client, w1) \<Rightarrow>
          (case client_disconnect_now M nowait timeout (client, w1) of
             None \<Rightarrow> None
           | Some (r, (_, w2)) \<Rightarrow> Some (r, w2)))"

text \<open>\<open>except OSError: pass\<close>; \<open>os.remove\<close> of a file of the client.\<close>

definition remove_file :: "'w machine \<Rightarrow> string \<Rightarrow> ('w, unit) io" where
  "remove_file M name =
     try_except (bind (get_gefyra_config_location M) (\<lambda>dir. mc_unlink M (path_join2 dir name)))
       (\<lambda>e. if is_os_error e then ret () else raise e)"

definition remove_local :: "'w machine \<Rightarrow> client_config \<Rightarrow> string \<Rightarrow> ('w, unit) io" where
  "remove_local M cfg connection_name =
     thn (if_found (bind (dk_container (mc_docker M) (cf_CARGO_CONTAINER_NAME cfg))
            (\<lambda>c. dk_remove (mc_docker M) (dc_id c) True)))
     (thn (if_found (handle_remove_network M cfg))
     (thn (remove_file M (connection_name @ ''.yaml''))
     (remove_file M (cf_CONNECTION_NAME cfg @ ''.conf''))))"

text \<open>Whatever happens to the client in the cluster is ignored; the wait may not end.\<close>

definition release_client ::
    "'w machine \<Rightarrow> client_config \<Rightarrow> string \<Rightarrow> 'w \<Rightarrow> 'w option" where
  "release_client M cfg connection_name w =
     (case get_client M (cf_CLIENT_ID cfg) connection_name None None w of
        (Inl e, w1) \<Rightarrow> Some w1
      | (Inr client, w1) \<Rightarrow>
          (case deactivate_connection M (client, w1) of
             (Inl e, (_, w2)) \<Rightarrow> Some w2
           | (Inr _, s2) \<Rightarrow> map_option (snd \<circ> snd) (wait_for_state M WAITING 60 s2)))"

definition remove_connection :: "'w machine \<Rightarrow> string \<Rightarrow> 'w \<Rightarrow> ((exn + unit) \<times> 'w) option" where
  "remove_connection M connection_name w =
     (case ClientConfiguration M (default_args\<lparr>ar_connection_name := Some connection_name\<rparr>) w of
        (Inl e, w1) \<Rightarrow> Some (Inl e, w1)
      | (Inr cfg, w1) \<Rightarrow> map_option (remove_local M cfg connection_name) (release_client M cfg connection_name w1))"

end
