(* ===== verification/EndToEnd.thy ===== *)
theory EndToEnd
  imports LocalBridge LocalConnect AdmissionProperties StowawayPeers
begin

text \<open>
  What the client asks for is what the operator works with.  The client builds the body of a
  resource, the API server stores it, and the handlers of the operator read it: \<open>stored_mount\<close> and
  \<open>stored_bridge\<close> are the objects the API server makes of the bodies, with the defaults of the
  custom resource definitions.
\<close>

section \<open>TLS\<close>

text \<open>\<open>providerParameter\<close> as JSON: the keys of an object are strings.\<close>

fun stored_tls :: "tls_config \<Rightarrow> provider_params" where
  "stored_tls NoTls = \<lparr>pp_tls = None, pp_ports = []\<rparr>"
| "stored_tls (GlobalTls d) = \<lparr>pp_tls = Some d, pp_ports = []\<rparr>"
| "stored_tls (PortTls ps) = \<lparr>pp_tls = None, pp_ports = map (\<lambda>(p, d). (str_int p, Some d)) ps\<rparr>"

definition stored_mount :: "mount_body \<Rightarrow> mount" where
  "stored_mount b = \<lparr>cr_name = mb_name b, cr_namespace = mb_namespace b, cr_labels = None,
     cr_state = ''REQUESTED'', cr_transitions = None, cr_sunset = None,
     mt_provider = Some (mb_provider b), mt_target = Some (mb_target b),
     mt_targetNamespace = Some (mb_targetNamespace b), mt_targetContainer = Some (mb_targetContainer b),
     mt_missingGracePeriod = None, mt_parameter = Some (stored_tls (mb_providerParameter b))\<rparr>"

text \<open>The values that the arguments give for a port, in their order.\<close>

definition args_for :: "string list \<Rightarrow> int \<Rightarrow> tls_value list" where
  "args_for as p = concat (map (\<lambda>a. case parse_arg a of
     Inr (v, Some q) \<Rightarrow> if q = p then [v] else [] | _ \<Rightarrow> []) as)"

definition port_value :: "port_configs \<Rightarrow> int \<Rightarrow> string \<Rightarrow> tls_value option" where
  "port_value ps p field = (case map_of ps p of None \<Rightarrow> None | Some d \<Rightarrow> dget d field)"

lemma port_value_put: "port_value (put_tls ps q f v) p g =
    (if p = q \<and> g = f then Some v else port_value ps p g)"
  by (auto simp: port_value_def put_tls_def update_conv dget_dset split: option.splits)

lemma distinct_put: "distinct (map fst ps) \<Longrightarrow> distinct (map fst (put_tls ps q f v))"
  by (simp add: put_tls_def distinct_update)

lemma args_for_Cons: "args_for (a # as) p = (case parse_arg a of
     Inr (v, Some q) \<Rightarrow> if q = p then [v] else [] | _ \<Rightarrow> []) @ args_for as p"
  by (simp add: args_for_def)

lemma file_args_value:
  assumes "file_args f as ps = Inr qs"
  shows "port_value qs p g =
    (if g = f \<and> args_for as p \<noteq> [] then Some (last (args_for as p)) else port_value ps p g)"
  using assms
proof (induction as arbitrary: ps)
  case Nil
  then show ?case by (simp add: args_for_def)
next
  case (Cons a as)
  then obtain v port_nr where a: "parse_arg a = Inr (v, port_nr)" by auto
  show ?case
  proof (cases port_nr)
    case None
    with Cons.prems a Cons.IH [of ps] show ?thesis by (simp add: args_for_Cons)
  next
    case (Some q)
    with Cons.prems a have "file_args f as (put_tls ps q f v) = Inr qs" by simp
    from Cons.IH [OF this] a Some show ?thesis by (auto simp: args_for_Cons port_value_put)
  qed
qed

lemma file_args_distinct:
  assumes "file_args f as ps = Inr qs" and "distinct (map fst ps)"
  shows "distinct (map fst qs)"
  using assms
proof (induction as arbitrary: ps)
  case (Cons a as)
  then obtain v port_nr where a: "parse_arg a = Inr (v, port_nr)" by auto
  with Cons show ?case by (cases port_nr) (simp_all add: distinct_put)
qed simp

lemma port_args:
  assumes "get_ports_from_tls_args certs tkeys snis = Inr ps"
  shows "distinct (map fst ps)" and "list_all (\<lambda>(_, d). port_complete d) ps"
    and "port_value ps p f = (
      if f = ''sni'' \<and> args_for snis p \<noteq> [] then Some (last (args_for snis p))
      else if f = ''key'' \<and> args_for tkeys p \<noteq> [] then Some (last (args_for tkeys p))
      else if f = ''certificate'' \<and> args_for certs p \<noteq> [] then Some (last (args_for certs p)) else None)"
    and "\<exists>p1 p2. file_args ''certificate'' certs [] = Inr p1 \<and> file_args ''key'' tkeys p1 = Inr p2
      \<and> file_args ''sni'' snis p2 = Inr ps"
proof -
  from assms obtain p1 p2 where 1: "file_args ''certificate'' certs [] = Inr p1"
    and 2: "file_args ''key'' tkeys p1 = Inr p2" and 3: "file_args ''sni'' snis p2 = Inr ps"
    and c: "list_all (\<lambda>(_, d). port_complete d) ps"
    by (auto simp: get_ports_from_tls_args_def split: if_splits)
  show "list_all (\<lambda>(_, d). port_complete d) ps" by (rule c)
  show "distinct (map fst ps)"
    using file_args_distinct [OF 3] file_args_distinct [OF 2] file_args_distinct [OF 1] by simp
  show "port_value ps p f = (
      if f = ''sni'' \<and> args_for snis p \<noteq> [] then Some (last (args_for snis p))
      else if f = ''key'' \<and> args_for tkeys p \<noteq> [] then Some (last (args_for tkeys p))
      else if f = ''certificate'' \<and> args_for certs p \<noteq> [] then Some (last (args_for certs p)) else None)"
    by (simp add: file_args_value [OF 3] file_args_value [OF 2] file_args_value [OF 1])
       (simp add: port_value_def)
  show "\<exists>p1 p2. file_args ''certificate'' certs [] = Inr p1 \<and> file_args ''key'' tkeys p1 = Inr p2
      \<and> file_args ''sni'' snis p2 = Inr ps" using 1 2 3 by blast
qed

text \<open>A port either has arguments of its own, then a certificate and a key are among them, or none.\<close>

definition own_args :: "string list \<Rightarrow> string list \<Rightarrow> string list \<Rightarrow> int \<Rightarrow> bool" where
  "own_args certs tkeys snis p \<longleftrightarrow> args_for certs p \<noteq> [] \<or> args_for tkeys p \<noteq> [] \<or> args_for snis p \<noteq> []"

lemma port_args_own:
  assumes "get_ports_from_tls_args certs tkeys snis = Inr ps"
  shows "map_of ps p = None \<longleftrightarrow> \<not> own_args certs tkeys snis p"
    and "own_args certs tkeys snis p \<Longrightarrow> args_for certs p \<noteq> [] \<and> args_for tkeys p \<noteq> []"
    and "ps = [] \<longleftrightarrow> (\<forall>q. \<not> own_args certs tkeys snis q)"
proof -
  note acc = port_args [OF assms]
  have comp: "args_for certs q \<noteq> [] \<and> args_for tkeys q \<noteq> []" if "map_of ps q = Some d" for q d
  proof -
    have "port_complete d" using acc(2) that by (auto simp: list_all_iff dest: map_of_SomeD)
    then have "port_value ps q ''certificate'' \<noteq> None" "port_value ps q ''key'' \<noteq> None"
      by (simp_all add: port_complete_def port_value_def that)
    then show ?thesis by (auto simp: acc(3) split: if_splits)
  qed
  have own: "map_of ps q = None \<longleftrightarrow> \<not> own_args certs tkeys snis q" for q
  proof
    assume "map_of ps q = None"
    then have "port_value ps q f = None" for f by (simp add: port_value_def)
    from this [of "''certificate''"] this [of "''key''"] this [of "''sni''"]
    show "\<not> own_args certs tkeys snis q" by (auto simp: acc(3) own_args_def split: if_splits)
  next
    assume "\<not> own_args certs tkeys snis q"
    then show "map_of ps q = None" using comp [of q] by (cases "map_of ps q") (auto simp: own_args_def)
  qed
  show "map_of ps p = None \<longleftrightarrow> \<not> own_args certs tkeys snis p" by (rule own)
  show "own_args certs tkeys snis p \<Longrightarrow> args_for certs p \<noteq> [] \<and> args_for tkeys p \<noteq> []"
    using own [of p] comp [of p] by auto
  show "ps = [] \<longleftrightarrow> (\<forall>q. \<not> own_args certs tkeys snis q)"
  proof (cases ps)
    case (Cons x xs)
    then have "map_of ps (fst x) \<noteq> None" by (cases x) simp
    with own [of "fst x"] Cons show ?thesis by auto
  qed (use own in simp)
qed

text \<open>The value of an argument, whatever port it names.\<close>

definition arg_value :: "string \<Rightarrow> tls_value" where
  "arg_value a = (case parse_arg a of Inr (v, _) \<Rightarrow> v | Inl e \<Rightarrow> Inline a)"

lemma arg_value_global:
  assumes "file_args f as ps = Inr qs" and "a \<in> set as" and "\<And>q. args_for as q = []"
    and "parse_secret_notation a = Inr v"
  shows "arg_value a = v"
  using assms
proof (induction as arbitrary: ps)
  case (Cons b as)
  then obtain u port_nr where b: "parse_arg b = Inr (u, port_nr)" by auto
  have none: "port_nr = None" using Cons.prems(3) [of "the port_nr"] b by (cases port_nr) (simp_all add: args_for_Cons)
  have rest: "args_for as q = []" for q using Cons.prems(3) [of q] by (simp add: args_for_Cons)
  show ?case
  proof (cases "a = b")
    case True
    from b none have "parse_secret_notation b = Inr u"
      by (auto simp: parse_arg_def split: list.splits)
    with True b Cons.prems(4) show ?thesis by (simp add: arg_value_def)
  next
    case False
    then show ?thesis using Cons.IH [of ps] Cons.prems b none rest by simp
  qed
qed simp

lemma stored_port:
  "dget (map (\<lambda>(p, d). (str_int p, Some d)) ps) (str_int p) = map_option Some (map_of ps p)"
  by (induction ps) (auto simp: str_int_inj)

lemma complete_tls_ports:
  assumes ports: "get_ports_from_tls_args certs tkeys snis = Inr ps" and p: "p \<noteq> 0"
  shows "complete_tls (stored_tls (PortTls ps)) p =
    (if own_args certs tkeys snis p
     then Some (str_int p, last (args_for certs p), last (args_for tkeys p),
       if args_for snis p = [] then None else Some (last (args_for snis p)))
     else None)"
proof (cases "map_of ps p")
  case None
  then show ?thesis
    using port_args_own(1) [OF ports, of p] p stored_port [of ps p]
    by (simp add: complete_tls_def port_tls_def)
next
  case (Some d)
  then have own: "own_args certs tkeys snis p" using port_args_own(1) [OF ports, of p] by auto
  have v: "dget d f = port_value ps p f" for f using Some by (simp add: port_value_def)
  show ?thesis
    using own port_args_own(2) [OF ports own] Some p stored_port [of ps p]
    by (simp add: complete_tls_def port_tls_def v port_args(3) [OF ports])
qed

lemma global_tls:
  assumes ports: "get_ports_from_tls_args certs tkeys snis = Inr []"
    and cfg: "get_tls_config certs tkeys snis = Inr tls"
  shows "complete_tls (stored_tls tls) p =
    (if certs = [] then None
     else Some (''all'', arg_value (hd certs), arg_value (hd tkeys),
       if snis = [] then None else Some (arg_value (hd snis))))"
proof (cases "certs = [] \<and> tkeys = []")
  case True
  with ports cfg show ?thesis by (auto simp: get_tls_config_def complete_tls_def port_tls_def)
next
  case False
  obtain p1 p2 where f: "file_args ''certificate'' certs [] = Inr p1" "file_args ''key'' tkeys p1 = Inr p2"
    "file_args ''sni'' snis p2 = Inr []" using port_args(4) [OF ports] by blast
  have none: "args_for certs q = []" "args_for tkeys q = []" "args_for snis q = []" for q
    using port_args_own(3) [OF ports] by (auto simp: own_args_def)
  note av = arg_value_global [OF f(1) _ none(1)] arg_value_global [OF f(2) _ none(2)]
    arg_value_global [OF f(3) _ none(3)]
  from False cfg ports obtain c k cv kv where ck: "certs = [c]" "tkeys = [k]"
    and vals: "parse_secret_notation c = Inr cv" "parse_secret_notation k = Inr kv"
    by (cases certs; cases tkeys) (auto simp: get_tls_config_def split: if_splits)
  have a: "arg_value c = cv" "arg_value k = kv" using av(1,2) ck vals by auto
  show ?thesis
  proof (cases snis)
    case Nil
    with ck vals a ports cfg show ?thesis
      by (auto simp: get_tls_config_def complete_tls_def port_tls_def Let_def)
  next
    case (Cons s ss)
    with ck vals ports cfg obtain sv where s: "snis = [s]" "parse_secret_notation s = Inr sv"
      by (cases ss) (auto simp: get_tls_config_def Let_def)
    have "arg_value s = sv" using av(3) s by auto
    with s ck vals a ports cfg show ?thesis
      by (auto simp: get_tls_config_def complete_tls_def port_tls_def Let_def)
  qed
qed

text \<open>C3: Accepted TLS arguments give a port either a certificate and a key of its own or nothing.  In the
  first case the operator configures the port with the last certificate and the last key that name exactly
  this port, and with the last server name if there is one.  In the second case it configures the
  arguments without a port, which hold for all ports -- but only if no argument names a port; else they
  are dropped, and the port gets no TLS.\<close>

theorem tls_arguments_reach_carrier:
  assumes "get_gbridgemount_body namespace name target provider tns container certs tkeys snis = Inr body"
    and "p \<noteq> 0"
  shows "(own_args certs tkeys snis p \<longrightarrow> args_for certs p \<noteq> [] \<and> args_for tkeys p \<noteq> [])
   \<and> complete_tls (provider_parameter (stored_mount body)) p =
    (if own_args certs tkeys snis p then Some (str_int p, last (args_for certs p), last (args_for tkeys p),
       if args_for snis p = [] then None else Some (last (args_for snis p)))
     else if (\<exists>q. own_args certs tkeys snis q) \<or> certs = [] then None
     else Some (''all'', arg_value (hd certs), arg_value (hd tkeys),
       if snis = [] then None else Some (arg_value (hd snis))))"
proof -
  obtain tls where cfg: "get_tls_config certs tkeys snis = Inr tls" and mb: "mb_providerParameter body = tls"
    using assms(1) by (auto simp: get_gbridgemount_body_def)
  then obtain ps where ports: "get_ports_from_tls_args certs tkeys snis = Inr ps"
    by (auto simp: get_tls_config_def)
  have pp: "provider_parameter (stored_mount body) = stored_tls tls"
    by (simp add: provider_parameter_def stored_mount_def mb)
  note own = port_args_own [OF ports]
  show ?thesis
  proof (cases "ps = []")
    case True
    then have "\<not> own_args certs tkeys snis q" for q using own(3) by blast
    with True global_tls [OF _ cfg, of p] ports show ?thesis by (simp add: pp)
  next
    case False
    with cfg ports have "tls = PortTls ps" by (simp add: get_tls_config_def)
    with False own(2) [of p] own(3) complete_tls_ports [OF ports assms(2)] show ?thesis by (simp add: pp)
  qed
qed

text \<open>A certificate and a key for port 443 beside ones for all ports: those are lost.\<close>

theorem tls_arguments_reach_carrier_witness:
  "\<exists>body. get_gbridgemount_body ''gefyra'' ''m'' ''deploy/web'' ''carrier2mount'' ''default'' ''web''
      [''all.crt'', ''secret:tls:crt@443''] [''all.key'', ''k@443''] [] = Inr body
   \<and> complete_tls (provider_parameter (stored_mount body)) 443
       = Some (''443'', Secret ''tls'' ''crt'' ''default'', Inline ''k'', None)
   \<and> complete_tls (provider_parameter (stored_mount body)) 80 = None
   \<and> (\<exists>body. get_gbridgemount_body ''gefyra'' ''m'' ''deploy/web'' ''carrier2mount'' ''default'' ''web''
      [''all.crt''] [''all.key''] [''host''] = Inr body
     \<and> complete_tls (provider_parameter (stored_mount body)) 80
       = Some (''all'', Inline ''all.crt'', Inline ''all.key'', Some (Inline ''host'')))"
proof -
  let ?certs = "[''all.crt'', ''secret:tls:crt@443'']" and ?keys = "[''all.key'', ''k@443'']"
  let ?ps = "[(443, [(''certificate'', Secret ''tls'' ''crt'' ''default''), (''key'', Inline ''k'')])]"
  have cfg: "get_tls_config ?certs ?keys [] = Inr (PortTls ?ps)" by code_simp
  have cfg': "get_tls_config [''all.crt''] [''all.key''] [''host''] = Inr (GlobalTls
      [(''certificate'', Inline ''all.crt''), (''key'', Inline ''all.key''), (''sni'', Inline ''host'')])" by code_simp
  have a: "args_for ?certs 443 = [Secret ''tls'' ''crt'' ''default'']" "args_for ?keys 443 = [Inline ''k'']"
    "args_for ?certs 80 = []" "args_for ?keys 80 = []" "args_for [] p = []" for p by code_simp+
  have g: "parse_arg ''all.crt'' = Inr (Inline ''all.crt'', None)" "parse_arg ''all.key'' = Inr (Inline ''all.key'', None)"
    "parse_arg ''host'' = Inr (Inline ''host'', None)" by code_simp+
  obtain body where b: "get_gbridgemount_body ''gefyra'' ''m'' ''deploy/web'' ''carrier2mount'' ''default'' ''web''
      ?certs ?keys [] = Inr body"
    using cfg by (auto simp: get_gbridgemount_body_def)
  obtain body' where b': "get_gbridgemount_body ''gefyra'' ''m'' ''deploy/web'' ''carrier2mount'' ''default'' ''web''
      [''all.crt''] [''all.key''] [''host''] = Inr body'"
    using cfg' by (auto simp: get_gbridgemount_body_def)
  have own: "own_args ?certs ?keys [] 443" "\<not> own_args ?certs ?keys [] 80" by (simp_all add: own_args_def a)
  have none: "\<not> own_args [''all.crt''] [''all.key''] [''host''] q" for q
    by (simp add: own_args_def args_for_def g)
  have "str_int 443 = ''443''" by (simp add: str_nat_eval)
  moreover have "\<exists>q. own_args ?certs ?keys [] q" using own(1) by blast
  ultimately show ?thesis
    using tls_arguments_reach_carrier [OF b, of 443] tls_arguments_reach_carrier [OF b, of 80]
      tls_arguments_reach_carrier [OF b', of 80] own a b b'
    by (simp add: none arg_value_def g)
qed

section \<open>Bridges\<close>

text \<open>The object stored for a bridge; a label without a value is not stored.  The operator does not
  look at the metadata that the client reads.\<close>

definition stored_bridge :: "string \<Rightarrow> string option \<Rightarrow> bridge_body \<Rightarrow> raw_bridge" where
  "stored_bridge uid created b = \<lparr>cr_name = bb_name b, cr_namespace = bb_namespace b,
     cr_labels = Some (concat (map (\<lambda>(k, v). case v of None \<Rightarrow> [] | Some s \<Rightarrow> [(k, s)]) (bb_labels b))),
     cr_state = ''REQUESTED'', cr_transitions = None, cr_sunset = None, br_provider = Some (bb_provider b),
     br_connectionProvider = Some (bb_connectionProvider b), br_client = Some (bb_client b),
     br_destinationIP = Some (bb_destinationIP b), br_target = Some (bb_target b),
     br_targetNamespace = Some (bb_targetNamespace b), br_targetContainer = Some (bb_targetContainer b),
     br_portMappings = Some (bb_portMappings b), br_clusterEndpoint = None, br_parameter = Some \<lparr>bq_rules = bb_rules b, bq_other = []\<rparr>,
     rb_uid = Some uid, rb_created = created\<rparr>"

text \<open>\<open>stored w\<close>: the bridge objects of the cluster.  A successful creation adds one, with what it was
  given; the calls that the client makes before do not touch them.\<close>

definition stores_bridges :: "'w bridge_api \<Rightarrow> ('w \<Rightarrow> raw_bridge list) \<Rightarrow> bool" where
  "stores_bridges K stored \<longleftrightarrow>
     (\<forall>body w raw w'. ba_create K body w = (Inr raw, w') \<longrightarrow>
        (\<exists>uid created. raw = stored_bridge uid created body) \<and> stored w' = stored w @ [raw])
   \<and> (\<forall>n. keeps stored (ba_container K n)) \<and> (\<forall>n. keeps stored (ma_get (ba_mounts K) n))
   \<and> (\<forall>n. keeps stored (ma_random_string (ba_mounts K) n))"

lemma stores_bridgesD:
  assumes "stores_bridges K stored"
  shows "ba_create K body w = (Inr raw, w') \<Longrightarrow>
      (\<exists>uid created. raw = stored_bridge uid created body) \<and> stored w' = stored w @ [raw]"
    and "ba_container K n w = (r, w1) \<Longrightarrow> stored w1 = stored w"
    and "ma_get (ba_mounts K) n w = (r', w1) \<Longrightarrow> stored w1 = stored w"
    and "ma_random_string (ba_mounts K) k w = (r'', w1) \<Longrightarrow> stored w1 = stored w"
proof -
  note st = assms [unfolded stores_bridges_def]
  show "ba_create K body w = (Inr raw, w') \<Longrightarrow>
      (\<exists>uid created. raw = stored_bridge uid created body) \<and> stored w' = stored w @ [raw]"
    using st [THEN conjunct1] by blast
  show "ba_container K n w = (r, w1) \<Longrightarrow> stored w1 = stored w"
    by (rule keepsD [OF st [THEN conjunct2, THEN conjunct1, rule_format]])
  show "ma_get (ba_mounts K) n w = (r', w1) \<Longrightarrow> stored w1 = stored w"
    by (rule keepsD [OF st [THEN conjunct2, THEN conjunct2, THEN conjunct1, rule_format]])
  show "ma_random_string (ba_mounts K) k w = (r'', w1) \<Longrightarrow> stored w1 = stored w"
    by (rule keepsD [OF st [THEN conjunct2, THEN conjunct2, THEN conjunct2, rule_format]])
qed

lemma bridge_name_kept:
  assumes "stores_bridges K stored" and "bridge_name_of K name mnt w = (r, w')"
  shows "stored w' = stored w"
  using assms(2) stores_bridgesD(4) [OF assms(1)]
  by (auto simp: bridge_name_of_def bind_def split: if_splits prod.splits sum.splits)

lemma bridge_mount_kept:
  assumes "stores_bridges K stored" and "get_gefyrabridgemount (ba_mounts K) n w = (r, w')"
  shows "stored w' = stored w"
  using assms(2) stores_bridgesD(3) [OF assms(1)]
  by (auto simp: get_gefyrabridgemount_def try_except_def split: if_splits prod.splits sum.splits)

lemma create_bridge_stored:
  assumes st: "stores_bridges K stored"
    and run: "create_bridge K name loc ports mount rules w = (Inr gb, w')"
  obtains uid created body c ip bname where
    "get_k8s_bridge_body ''gefyra'' (new_bridge bname ip loc (port_mappings_of ports) mount rules (ba_client_id K)) = Inr body"
    and "stored w' = stored w @ [stored_bridge uid created body]"
    and "from_raw (stored_bridge uid created body) = Inr gb"
    and "fst (ba_container K loc w) = Inr c" and "dget (dc_networks c) (ba_network_name K) = Some ip"
    and "ip \<noteq> []" and "name \<noteq> [] \<Longrightarrow> bname = name"
proof -
  obtain c w1 ip m w2 bname w3 body raw where
    c: "ba_container K loc w = (Inr c, w1)" and addr: "dget (dc_networks c) (ba_network_name K) = Some ip"
    and mnt: "get_gefyrabridgemount (ba_mounts K) mount w1 = (Inr m, w2)" and ip: "ip \<noteq> []"
    and bn: "bridge_name_of K name (GefyraBridgeMount m) w2 = (Inr bname, w3)"
    and b: "get_k8s_bridge_body ''gefyra'' (new_bridge bname ip loc (port_mappings_of ports) mount rules (ba_client_id K)) = Inr body"
    and h: "handle_create_gefyrabridge K body w3 = (Inr raw, w')" and g: "from_raw raw = Inr gb"
    using run unfolding create_bridge_def
    by (auto simp: bind_Inr_iff try_except_def split: if_splits option.splits prod.splits sum.splits)
  from h have cr: "ba_create K body w3 = (Inr raw, w')"
    by (auto simp: handle_create_gefyrabridge_def try_except_def split: prod.splits sum.splits if_splits)
  obtain uid created where raw: "raw = stored_bridge uid created body" and s: "stored w' = stored w3 @ [raw]"
    using stores_bridgesD(1) [OF st cr] by blast
  have "stored w3 = stored w"
    using stores_bridgesD(2) [OF st c] bridge_mount_kept [OF st mnt] bridge_name_kept [OF st bn] by simp
  moreover have "name \<noteq> [] \<Longrightarrow> bname = name" using bn by (simp add: bridge_name_of_def)
  ultimately show ?thesis using that b g ip addr c raw s by simp
qed

text \<open>Port numbers as they are written.\<close>

definition number :: "string \<Rightarrow> bool" where
  "number s \<longleftrightarrow> s \<noteq> [] \<and> list_all is_digit s"

lemma number_notin:
  assumes "number s"
  shows "CHR '':'' \<notin> set s" "CHR ''_'' \<notin> set s"
  using assms digit_not_special by (auto simp: number_def list_all_iff)

lemma number_py_int:
  assumes "number s"
  shows "py_int s = Inr (int (digits_val s))"
proof -
  obtain c cs where s: "s = c # cs" using assms by (cases s) (auto simp: number_def)
  have d: "x \<in> set s \<Longrightarrow> is_digit x" for x using assms by (simp add: number_def list_all_iff)
  have st: "strip s = s" using d digit_not_special by (blast intro: strip_no_space)
  have c: "c \<noteq> CHR ''-''" "c \<noteq> CHR ''+''" using d [of c] digit_not_special s by auto
  have "py_digits s = Inr (digits_val s)"
    using assms number_notin(2) [OF assms] by (simp add: py_digits_def number_def)
  then show ?thesis using st c s by (simp add: py_int_def)
qed

lemma number_numeric: "number s \<Longrightarrow> numeric_port s = Inr s"
  by (auto simp: numeric_port_def is_numeric_def number_def list_all_iff)

lemma parse_port_number: "number r \<Longrightarrow> number l \<Longrightarrow> parse_port (r @ '':'' @ l) = Inr (l, Port r)"
  using split_append [OF number_notin(1) [of r], of l] number_notin(1) [of l]
  by (simp add: parse_port_def number_numeric)

lemma parse_ports_numbers:
  assumes "\<forall>(r, l) \<in> set ms. number r \<and> number l" and "distinct (keys d @ map snd ms)"
  shows "parse_ports (map (\<lambda>(r, l). r @ '':'' @ l) ms) d = Inr (d @ map (\<lambda>(r, l). (l, Port r)) ms)"
  using assms
proof (induction ms arbitrary: d)
  case (Cons m ms)
  obtain r l where m: "m = (r, l)" by force
  from Cons.prems m have p: "parse_port (r @ '':'' @ l) = Inr (l, Port r)"
    by (intro parse_port_number) auto
  have "l \<notin> set (keys d)" using Cons.prems m by auto
  then have s: "dset d l (Port r) = d @ [(l, Port r)]" by (rule set_dset_new)
  have "parse_ports (map (\<lambda>(r, l). r @ '':'' @ l) ms) (d @ [(l, Port r)])
      = Inr ((d @ [(l, Port r)]) @ map (\<lambda>(r, l). (l, Port r)) ms)"
    by (rule Cons.IH) (use Cons.prems m in \<open>auto simp: keys_def\<close>)
  with p s m show ?case by simp
qed simp

text \<open>A bridge that was requested.\<close>

definition requested ::
    "string \<Rightarrow> string \<Rightarrow> string \<Rightarrow> string list \<Rightarrow> match list list \<Rightarrow> string \<Rightarrow> bridge \<Rightarrow> bool" where
  "requested client loc ip mappings rules mount br \<longleftrightarrow>
     cr_state br = ''REQUESTED'' \<and> br_client br = Some client \<and> br_destinationIP br = Some ip
   \<and> br_provider br = Some ''carrier2'' \<and> br_connectionProvider br = Some ''stowaway''
   \<and> br_target br = Some mount \<and> br_portMappings br = Some mappings
   \<and> br_parameter br = Some \<lparr>bq_rules = if rules = [] then None else Some [Some (concat rules)], bq_other = []\<rparr>
   \<and> cr_labels br = Some [(''gefyra.dev/bridge-mount'', mount), (''gefyra.dev/client'', client),
        (''gefyra.dev/client-container'', loc)]"

lemma stored_requested:
  assumes "get_k8s_bridge_body ''gefyra'' (new_bridge bname ip loc mappings mount rules client) = Inr body"
  shows "requested client loc ip mappings rules mount (bridge.truncate (stored_bridge uid created body))"
    and "cr_name (stored_bridge uid created body) = bname"
  using assms
  by (auto simp: get_k8s_bridge_body_def new_bridge_def rules_param_def requested_def stored_bridge_def
      bridge.truncate_def get_bridge_rules_def get_match_rules_def)

lemma requested_mappings:
  assumes "\<forall>(r, l) \<in> set ms. number r \<and> number l" and "br_client br = Some client"
    and "br_connectionProvider br = Some ''stowaway''"
  shows "map (mapping_args env br) (map (\<lambda>(r, l). l @ '':'' @ r) ms)
      = map (\<lambda>(r, l). Inr (be_conn env, client, int (digits_val l), r)) ms"
    and "map mapping_port (map (\<lambda>(r, l). l @ '':'' @ r) ms) = map (\<lambda>(r, l). Inr (int (digits_val r))) ms"
proof -
  have *: "mapping_args env br (l @ '':'' @ r) = Inr (be_conn env, client, int (digits_val l), r)"
    "mapping_port (l @ '':'' @ r) = Inr (int (digits_val r))" if "(r, l) \<in> set ms" for r l
  proof -
    have n: "number r" "number l" using assms(1) that by auto
    have "split (CHR '':'') (l @ '':'' @ r) = [l, r]"
      using split_append [OF number_notin(1) [OF n(2)], of r] number_notin(1) [OF n(1)] by simp
    then show "mapping_args env br (l @ '':'' @ r) = Inr (be_conn env, client, int (digits_val l), r)"
      "mapping_port (l @ '':'' @ r) = Inr (int (digits_val r))"
      using assms(2,3) number_py_int [OF n(1)] number_py_int [OF n(2)]
      by (simp_all add: mapping_args_def bridge_conn_def provider_named_def mapping_port_def nth_item_def)
  qed
  then show "map (mapping_args env br) (map (\<lambda>(r, l). l @ '':'' @ r) ms)
      = map (\<lambda>(r, l). Inr (be_conn env, client, int (digits_val l), r)) ms"
    and "map mapping_port (map (\<lambda>(r, l). l @ '':'' @ r) ms) = map (\<lambda>(r, l). Inr (int (digits_val r))) ms"
    by auto
qed

section \<open>A cluster in memory\<close>

definition web_mount :: raw_mount where
  "web_mount = \<lparr>cr_name = ''web'', cr_namespace = ''gefyra'', cr_labels = None, cr_state = ''ACTIVE'',
     cr_transitions = None, cr_sunset = None, mt_provider = Some ''carrier2mount'',
     mt_target = Some ''deploy/web'', mt_targetNamespace = Some ''default'', mt_targetContainer = Some ''web'',
     mt_missingGracePeriod = None, mt_parameter = None, rm_uid = ''u1'', rm_created = None\<rparr>"

definition mem_mounts :: "raw_bridge list mount_api" where
  "mem_mounts = \<lparr>ma_create = (\<lambda>b. raise (ApiException 500)),
     ma_get = (\<lambda>n. if n = ''web'' then ret web_mount else raise (ApiException 404)),
     ma_list = ret [web_mount], ma_delete = (\<lambda>n. ret ()), ma_drop_finalizers = (\<lambda>n. ret ()),
     ma_random_string = (\<lambda>n. ret (replicate n (CHR ''x''))), ma_sleep = (\<lambda>n. ret ())\<rparr>"

definition app_container :: docker_container where
  "app_container = \<lparr>dc_id = ''1'', dc_short_id = ''1'', dc_name = ''app'', dc_status = ''running'',
     dc_networks = [(''gefyra'', ''172.20.0.5'')], dc_dns_search = None, dc_labels = [], dc_created = None\<rparr>"

definition mem_bridges :: "raw_bridge list bridge_api" where
  "mem_bridges = \<lparr>ba_mounts = mem_mounts,
     ba_create = (\<lambda>b w. if bb_name b \<in> cr_name ` set w then (Inl (ApiException 409), w)
        else let raw = stored_bridge (str_nat (length w)) None b in (Inr raw, w @ [raw])),
     ba_delete = (\<lambda>n w. (Inr (Some n), filter (\<lambda>b. cr_name b \<noteq> n) w)),
     ba_get = (\<lambda>n w. case filter (\<lambda>b. cr_name b = n) w of [] \<Rightarrow> (Inl (ApiException 404), w) | b # _ \<Rightarrow> (Inr b, w)),
     ba_list = (\<lambda>sel w. (Inr w, w)), ba_watch = (\<lambda>t. ret []),
     ba_container = (\<lambda>n. if n = ''app'' then ret app_container else raise (DockerError 404)),
     ba_network_containers = (\<lambda>n. ret [app_container]), ba_client_id = ''c1'', ba_network_name = ''gefyra''\<rparr>"

lemma mem_bridges_stores: "stores_bridges mem_bridges (\<lambda>w. w)"
  by (auto simp: stores_bridges_def mem_bridges_def mem_mounts_def keeps_def Let_def split: if_splits)

text \<open>C1: A bridge that the client creates with port mappings \<open>remote:local\<close> of two port numbers each, no
  local port twice, adds exactly one object to the cluster: under the given name, in REQUESTED, for the
  client, the mount and the address of the local container in the network of the client, with the
  provider names and the three labels that the operator and the client look at, and with all rule sets as
  one conjunction.  The client's answer is read from this object, and for each mapping the operator routes
  to the local port (connection provider) what arrives at the remote port (bridge provider).\<close>

theorem bridge_request_reaches_operator:
  assumes "stores_bridges K stored"
    and "\<forall>(r, l) \<in> set ms. number r \<and> number l" and "distinct (map snd ms)"
    and "parse_ip_port_map (map (\<lambda>(r, l). r @ '':'' @ l) ms) = Inr ports"
    and "create_bridge K name loc ports mount rules w = (Inr gb, w')"
  shows "\<exists>raw c ip mappings. stored w' = stored w @ [raw] \<and> from_raw raw = Inr gb
    \<and> (name \<noteq> [] \<longrightarrow> cr_name raw = name)
    \<and> fst (ba_container K loc w) = Inr c \<and> dget (dc_networks c) (ba_network_name K) = Some ip \<and> ip \<noteq> []
    \<and> requested (ba_client_id K) loc ip mappings rules mount (bridge.truncate raw)
    \<and> map (mapping_args env (bridge.truncate raw)) mappings
        = map (\<lambda>(r, l). Inr (be_conn env, ba_client_id K, int (digits_val l), r)) ms
    \<and> map mapping_port mappings = map (\<lambda>(r, l). Inr (int (digits_val r))) ms"
proof -
  have "parse_ip_port_map (map (\<lambda>(r, l). r @ '':'' @ l) ms) = Inr (map (\<lambda>(r, l). (l, Port r)) ms)"
    using parse_ports_numbers [of ms "[]"] assms(2,3) by (simp add: parse_ip_port_map_def keys_def)
  then have ports: "port_mappings_of ports = map (\<lambda>(r, l). l @ '':'' @ r) ms"
    using assms(4) by (auto simp: port_mappings_of_def)
  obtain uid created body c ip bname where
    b: "get_k8s_bridge_body ''gefyra'' (new_bridge bname ip loc (port_mappings_of ports) mount rules (ba_client_id K)) = Inr body"
    and st: "stored w' = stored w @ [stored_bridge uid created body]"
    and g: "from_raw (stored_bridge uid created body) = Inr gb"
    and c: "fst (ba_container K loc w) = Inr c" "dget (dc_networks c) (ba_network_name K) = Some ip" "ip \<noteq> []"
    and n: "name \<noteq> [] \<Longrightarrow> bname = name"
    by (rule create_bridge_stored [OF assms(1,5)]) blast
  let ?raw = "stored_bridge uid created body"
  have r: "requested (ba_client_id K) loc ip (map (\<lambda>(r, l). l @ '':'' @ r) ms) rules mount (bridge.truncate ?raw)"
    using stored_requested(1) [OF b] by (simp add: ports)
  then have "br_client (bridge.truncate ?raw) = Some (ba_client_id K)"
    "br_connectionProvider (bridge.truncate ?raw) = Some ''stowaway''" by (simp_all add: requested_def)
  note m = requested_mappings [OF assms(2) this]
  have "name \<noteq> [] \<longrightarrow> cr_name ?raw = name" using n stored_requested(2) [OF b] by simp
  with st g c r m show ?thesis by blast
qed

theorem bridge_request_reaches_operator_witness:
  "\<exists>gb raw mappings. create_bridge mem_bridges ''b1'' ''app'' [(''8080'', Port ''80'')] ''web'' [[]] [] = (Inr gb, [raw])
   \<and> from_raw raw = Inr gb \<and> cr_name raw = ''b1''
   \<and> requested ''c1'' ''app'' ''172.20.0.5'' mappings [[]] ''web'' (bridge.truncate raw)
   \<and> map (mapping_args mem_bridge_env (bridge.truncate raw)) mappings = [Inr (be_conn mem_bridge_env, ''c1'', 8080, ''80'')]
   \<and> map mapping_port mappings = [Inr 80]"
proof -
  have run: "\<exists>gb w'. create_bridge mem_bridges ''b1'' ''app'' [(''8080'', Port ''80'')] ''web'' [[]] [] = (Inr gb, w')"
    by (simp add: create_bridge_def mem_bridges_def mem_mounts_def app_container_def get_gefyrabridgemount_def
        bind_def try_except_def bridge_name_of_def handle_create_gefyrabridge_def get_k8s_bridge_body_def
        new_bridge_def rules_param_def from_raw_def stored_bridge_def Let_def)
  then obtain gb w' where r: "create_bridge mem_bridges ''b1'' ''app'' [(''8080'', Port ''80'')] ''web'' [[]] [] = (Inr gb, w')"
    by blast
  have n: "\<forall>(r, l) \<in> set [(''80'', ''8080'')]. number r \<and> number l" by (simp add: number_def is_digit_def)
  have p: "parse_ip_port_map (map (\<lambda>(r, l). r @ '':'' @ l) [(''80'', ''8080'')]) = Inr [(''8080'', Port ''80'')]"
    by code_simp
  have d: "distinct (map snd [(''80'', ''8080'')])" by simp
  have v: "digits_val ''8080'' = 8080" "digits_val ''80'' = 80" by code_simp+
  have c: "ba_client_id mem_bridges = ''c1''" "ba_network_name mem_bridges = ''gefyra''"
    "fst (ba_container mem_bridges ''app'' []) = Inr app_container"
    "dget (dc_networks app_container) ''gefyra'' = Some ''172.20.0.5''"
    by (simp_all add: mem_bridges_def app_container_def)
  show ?thesis
    using bridge_request_reaches_operator [OF mem_bridges_stores n d p r, of mem_bridge_env] r
    by (auto simp: v c)
qed

text \<open>C5: The admission of a bridge that a client requested depends on its mount and on the other
  bridges only: it is admitted exactly if the mount exists, is complete and ACTIVE, and each listed bridge
  is another one.  The request has all four fields that are compared, so among bridges that have them too
  (such as the ones other clients requested) this says that none equals it in all four.\<close>

theorem requested_bridge_admitted:
  assumes get: "\<And>t. answers (co_get_mount (ca_custom A) (NAMESPACE cfg) t) (mounts t)"
    and list: "answers (co_list_bridges (ca_custom A) (NAMESPACE cfg) None) (Inr bs)"
    and req: "get_k8s_bridge_body ''gefyra'' (new_bridge bname ip loc mappings mount rules client) = Inr body"
    and ip: "ip \<noteq> []" and br: "br = bridge.truncate (stored_bridge uid created body)"
  shows "(fst (check_validate_bridge_parameters A cfg CREATE diff br w) = Inr True
    \<longleftrightarrow> (\<exists>mt. mounts mount = Inr mt \<and> targets_set mt \<and> cr_state mt = ''ACTIVE'')
      \<and> (\<forall>ex \<in> set bs. other_bridge ex br))
    \<and> ((\<forall>ex \<in> set bs. comparable ex) \<longrightarrow>
      (\<forall>ex \<in> set bs. other_bridge ex br) = (compared br \<notin> compared ` set bs))"
proof -
  have r: "requested client loc ip mappings rules mount br"
    unfolding br by (rule stored_requested(1) [OF req])
  then have "comparable br" "labelled br" by (auto simp: requested_def comparable_def labelled_def)
  with r ip show ?thesis
    using bridge_admission_iff [OF get list] none_equal [of br bs]
    by (auto simp: requested_def any_same_False)
qed

theorem requested_bridge_admitted_witness:
  "\<exists>body. get_k8s_bridge_body ''gefyra'' (new_bridge ''b1'' ''172.20.0.5'' ''app'' [''8080:80''] ''m1'' [[]] ''c1'') = Inr body
   \<and> fst (check_validate_bridge_parameters one_bridge_api default_configuration CREATE []
        (bridge.truncate (stored_bridge ''u'' None body)) mem_empty) = Inr True"
proof -
  let ?mounts = "\<lambda>t. if t = ''m1'' then Inr (carrier_mount\<lparr>cr_state := ''ACTIVE''\<rparr>) else Inl (ApiException 404)"
  have get: "answers (co_get_mount (ca_custom one_bridge_api) (NAMESPACE default_configuration) t) (?mounts t)" for t
    by (simp add: answers_def one_bridge_api_def admission_api_def)
  have list: "answers (co_list_bridges (ca_custom one_bridge_api) (NAMESPACE default_configuration) None) (Inr [plain_bridge])"
    by (simp add: answers_def one_bridge_api_def)
  obtain body where b: "get_k8s_bridge_body ''gefyra''
      (new_bridge ''b1'' ''172.20.0.5'' ''app'' [''8080:80''] ''m1'' [[]] ''c1'') = Inr body"
    by (simp add: get_k8s_bridge_body_def new_bridge_def rules_param_def)
  let ?br = "bridge.truncate (stored_bridge ''u'' None body)"
  have r: "requested ''c1'' ''app'' ''172.20.0.5'' [''8080:80''] [[]] ''m1'' ?br"
    by (rule stored_requested(1) [OF b])
  have p: "br_parameter plain_bridge \<noteq> br_parameter ?br"
    using r by (simp add: plain_bridge_def requested_def)
  have c: "comparable plain_bridge"
    by (simp add: comparable_def plain_bridge_def labelled_bridge_def sample_bridge_def)
  have "targets_set carrier_mount" by (simp add: targets_set_def carrier_mount_def)
  with requested_bridge_admitted [OF get list b _ refl, where uid = "''u''" and created = None and diff = "[]" and w = mem_empty] b p c show ?thesis
    by (simp add: targets_set_def compared_def)
qed

section \<open>WireGuard\<close>

text \<open>The configuration file of Cargo as entries.\<close>

definition cargo_interface :: "stowaway_config \<Rightarrow> string option \<Rightarrow> string dict" where
  "cargo_interface params mtu =
     [(''Address'', str_opt (sc_iaddress params))] @ (if given mtu then [(''MTU'', or_else mtu [])] else [])
     @ [(''PrivateKey'', str_opt (sc_iprivatekey params)), (''DNS'', str_opt (sc_idns params)),
        (''PreUp'', ''sysctl -w net.ipv4.ip_forward=1''), (''PostUp'', masquerade ''A''),
        (''PostDown'', masquerade ''D'')]"

definition cargo_peer :: "stowaway_config \<Rightarrow> string option \<Rightarrow> string dict" where
  "cargo_peer params endpoint =
     [(''PublicKey'', str_opt (sc_ppublickey params)), (''Endpoint'', str_opt endpoint),
      (''PresharedKey'', str_opt (sc_presharedkey params)), (''PersistentKeepalive'', ''21''),
      (''AllowedIPs'', ''0.0.0.0/0'')]"

lemma config_lines:
  "create_wireguard_config params endpoint mtu = concat (map (\<lambda>l. l @ [CHR 0x0A])
     (''[Interface]'' # map wg_entry (cargo_interface params mtu) @ ''[Peer]'' # map wg_entry (cargo_peer params endpoint)))"
  by (simp add: create_wireguard_config_def cargo_interface_def cargo_peer_def wg_entry_def)

lemma concat_lines: "concat (map (\<lambda>l. l @ [c]) ls) = join [c] (ls @ [[]])"
proof (induction ls)
  case (Cons l ls)
  then show ?case by (cases ls) simp_all
qed simp

lemma split_lines:
  assumes "\<And>l. l \<in> set ls \<Longrightarrow> c \<notin> set l"
  shows "split c (concat (map (\<lambda>l. l @ [c]) ls)) = ls @ [[]]"
  unfolding concat_lines by (rule split_join) (use assms in auto)

lemma cargo_file_read:
  assumes "list_all entry_ok (cargo_interface params mtu)" and "list_all entry_ok (cargo_peer params endpoint)"
  shows "read_wireguard_config (create_wireguard_config params endpoint mtu) =
    foldl (\<lambda>a (k, v). dset a (''Peer.'' @ k) v)
      (foldl (\<lambda>a (k, v). dset a (''Interface.'' @ k) v) [] (cargo_interface params mtu)) (cargo_peer params endpoint)"
proof -
  let ?ls = "''[Interface]'' # map wg_entry (cargo_interface params mtu) @ ''[Peer]'' # map wg_entry (cargo_peer params endpoint)"
  have nl: "CHR 0x0A \<notin> set l" if "l \<in> set ?ls" for l
    using assms that by (auto simp: list_all_iff entry_ok_def wg_entry_def)
  have s: "split (CHR 0x0A) (create_wireguard_config params endpoint mtu) = ?ls @ [[]]"
    unfolding config_lines by (rule split_lines) (rule nl)
  show ?thesis
    unfolding read_wireguard_config_def s
    by (simp add: read_headers read_entries [OF assms(1)] read_entries [OF assms(2)] del: read_wireguard_line.simps)
qed

lemma masquerade_ok: "entry_ok (''PostUp'', masquerade ''A'')" "entry_ok (''PostDown'', masquerade ''D'')"
  by code_simp+

lemma dget_section:
  assumes "distinct (keys kvs)"
  shows "dget (foldl (\<lambda>a (k, v). dset a (pre @ k) v) acc kvs) (pre @ k) =
    (case dget kvs k of Some v \<Rightarrow> Some v | None \<Rightarrow> dget acc (pre @ k))"
  using assms
proof (induction kvs arbitrary: acc)
  case (Cons kv kvs)
  obtain k' v' where kv: "kv = (k', v')" by force
  with Cons.prems have "dget kvs k' = None" by (auto simp: keys_def intro: dget_notin)
  with Cons kv show ?case by (auto simp: dget_dset keys_def split: option.split)
qed simp

lemma dget_other_section:
  assumes "\<And>k. x \<noteq> pre @ k"
  shows "dget (foldl (\<lambda>a (k, v). dset a (pre @ k) v) acc kvs) x = dget acc x"
  using assms by (induction kvs arbitrary: acc) (auto simp: dget_dset)

lemma read_sections:
  assumes "distinct (keys i)" and "distinct (keys p)"
  defines "d \<equiv> foldl (\<lambda>a (k, v). dset a (''Peer.'' @ k) v)
      (foldl (\<lambda>a (k, v). dset a (''Interface.'' @ k) v) [] i) p"
  shows "dget d (''Interface.'' @ k) = dget i k" and "dget d (''Peer.'' @ k) = dget p k"
proof -
  have "dget d (''Interface.'' @ k) = dget (foldl (\<lambda>a (k, v). dset a (''Interface.'' @ k) v) [] i) (''Interface.'' @ k)"
    unfolding d_def by (rule dget_other_section) simp
  also have "\<dots> = dget i k"
    unfolding dget_section [OF assms(1)] by (simp split: option.split)
  finally show "dget d (''Interface.'' @ k) = dget i k" .
  have "dget (foldl (\<lambda>a (k, v). dset a (''Interface.'' @ k) v) [] i) (''Peer.'' @ k) = dget [] (''Peer.'' @ k)"
    by (rule dget_other_section) simp
  then show "dget d (''Peer.'' @ k) = dget p k"
    unfolding d_def dget_section [OF assms(2)] by (simp split: option.split)
qed

lemma cargo_keys: "distinct (keys (cargo_interface params mtu))" "distinct (keys (cargo_peer params endpoint))"
  by (simp_all add: cargo_interface_def cargo_peer_def keys_def)

text \<open>C4: What Stowaway's file for a peer says about the interface and the keys arrives in the file
  that the client writes for Cargo: read as a WireGuard configuration, it has the same address, name
  server, private key, public key and preshared key, and the endpoint that the client resolved.\<close>

theorem peer_file_reaches_cargo:
  assumes "list_all entry_ok i" and "list_all entry_ok p" and "distinct (keys i)" and "distinct (keys p)"
    and "dget i ''Address'' = Some address" and "dget i ''PrivateKey'' = Some private" and "dget i ''DNS'' = Some dns"
    and "dget p ''PublicKey'' = Some public" and "dget p ''PresharedKey'' = Some preshared"
    and "cl_provider obj = Some ''stowaway''"
    and "cl_providerConfig obj = Some (dset (read_wireguard_config (wg_render i p)) ''Interface.PublicKey'' pub)"
    and "entry_ok (''Endpoint'', endpoint)"
  shows "\<exists>params file. go_provider_config (GefyraClient obj cfg) = Some params
    \<and> file = read_wireguard_config (create_wireguard_config params (Some endpoint) None)
    \<and> dget file ''Interface.Address'' = Some address \<and> dget file ''Interface.PrivateKey'' = Some private
    \<and> dget file ''Interface.DNS'' = Some dns \<and> dget file ''Peer.PublicKey'' = Some public
    \<and> dget file ''Peer.PresharedKey'' = Some preshared \<and> dget file ''Peer.Endpoint'' = Some endpoint"
proof -
  let ?d = "dset (read_wireguard_config (wg_render i p)) ''Interface.PublicKey'' pub"
  have ne: "dset d k v \<noteq> []" for d :: "string dict" and k v
    by (cases d) (auto split: if_splits)
  have params: "go_provider_config (GefyraClient obj cfg) = Some (StowawayConfig ?d)"
    using assms(10,11) ne by (simp add: GefyraClient_def init_data_def or_empty_def Let_def)
  note rd = read_sections [OF assms(3,4), folded read_rendered [OF assms(1,2)]]
  have iface: "dget ?d (''Interface.'' @ k) = dget i k" if "k \<noteq> ''PublicKey''" for k
    using rd(1) [of k] that by (simp add: dget_dset)
  have peer: "dget ?d (''Peer.'' @ k) = dget p k" for k
    using rd(2) [of k] by (simp add: dget_dset)
  have sc: "sc_iaddress (StowawayConfig ?d) = Some address" "sc_iprivatekey (StowawayConfig ?d) = Some private"
    "sc_idns (StowawayConfig ?d) = Some dns" "sc_ppublickey (StowawayConfig ?d) = Some public"
    "sc_presharedkey (StowawayConfig ?d) = Some preshared"
    using iface [of "''Address''"] iface [of "''PrivateKey''"] iface [of "''DNS''"]
      peer [of "''PublicKey''"] peer [of "''PresharedKey''"] assms(5-9)
    by (simp_all add: StowawayConfig_def)
  have "(''Address'', address) \<in> set i" "(''PrivateKey'', private) \<in> set i" "(''DNS'', dns) \<in> set i"
    "(''PublicKey'', public) \<in> set p" "(''PresharedKey'', preshared) \<in> set p"
    using assms(5-9) by (simp_all add: dget_Some_in)
  then have ok: "entry_ok (''Address'', address)" "entry_ok (''PrivateKey'', private)" "entry_ok (''DNS'', dns)"
    "entry_ok (''PublicKey'', public)" "entry_ok (''PresharedKey'', preshared)"
    using assms(1,2) by (auto simp: list_all_iff)
  have fixed_ok: "entry_ok (''PreUp'', ''sysctl -w net.ipv4.ip_forward=1'')" "entry_ok (''PersistentKeepalive'', ''21'')"
    "entry_ok (''AllowedIPs'', ''0.0.0.0/0'')" by code_simp+
  have i_ok: "list_all entry_ok (cargo_interface (StowawayConfig ?d) None)"
    using ok fixed_ok masquerade_ok by (simp add: cargo_interface_def sc str_opt_def given_def)
  have p_ok: "list_all entry_ok (cargo_peer (StowawayConfig ?d) (Some endpoint))"
    using ok fixed_ok assms(12) by (simp add: cargo_peer_def sc str_opt_def)
  note written = read_sections [OF cargo_keys(1) [of "StowawayConfig ?d" None] cargo_keys(2) [of "StowawayConfig ?d" "Some endpoint"],
      folded cargo_file_read [OF i_ok p_ok]]
  show ?thesis
    using params written(1) [of "''Address''"] written(1) [of "''PrivateKey''"] written(1) [of "''DNS''"]
      written(2) [of "''PublicKey''"] written(2) [of "''PresharedKey''"] written(2) [of "''Endpoint''"]
    by (simp add: cargo_interface_def cargo_peer_def sc str_opt_def given_def)
qed

definition connected_raw :: raw_client where
  "connected_raw = \<lparr>cr_name = ''c1'', cr_namespace = ''gefyra'', cr_labels = None, cr_state = ''ACTIVE'',
     cr_transitions = None, cr_sunset = None, cl_provider = Some ''stowaway'',
     cl_providerParameter = Some [(''subnet'', ''172.20.0.0/16'')],
     cl_providerConfig = Some (dset (read_wireguard_config (wg_render
         [(''Address'', ''192.168.99.2''), (''PrivateKey'', ''priv=''), (''DNS'', ''192.168.99.1'')]
         [(''PublicKey'', ''pub=''), (''PresharedKey'', ''psk='')])) ''Interface.PublicKey'' ''own=''),
     cl_status = None, rc_uid = ''u'', rc_created = None, rc_serviceAccountName = None,
     rc_serviceAccountData = None\<rparr>"

theorem peer_file_reaches_cargo_witness:
  "\<exists>cfg params file. go_provider_config (GefyraClient connected_raw cfg) = Some params
    \<and> file = read_wireguard_config (create_wireguard_config params (Some ''1.2.3.4:31820'') None)
    \<and> dget file ''Interface.Address'' = Some ''192.168.99.2'' \<and> dget file ''Interface.PrivateKey'' = Some ''priv=''
    \<and> dget file ''Interface.DNS'' = Some ''192.168.99.1'' \<and> dget file ''Peer.PublicKey'' = Some ''pub=''
    \<and> dget file ''Peer.PresharedKey'' = Some ''psk='' \<and> dget file ''Peer.Endpoint'' = Some ''1.2.3.4:31820''"
proof -
  let ?i = "[(''Address'', ''192.168.99.2''), (''PrivateKey'', ''priv=''), (''DNS'', ''192.168.99.1'')]"
  let ?p = "[(''PublicKey'', ''pub=''), (''PresharedKey'', ''psk='')]"
  have i: "list_all entry_ok ?i" and p: "list_all entry_ok ?p" and e: "entry_ok (''Endpoint'', ''1.2.3.4:31820'')"
    by code_simp+
  show ?thesis
    by (rule exI, rule peer_file_reaches_cargo [OF i p _ _ _ _ _ _ _ _ _ e, where obj = connected_raw and pub = "''own=''"])
      (simp_all add: connected_raw_def keys_def)
qed

end
