(* ===== verification/Negotiation.thy ===== *)
theory Negotiation
  imports LocalClient
begin

text \<open>
  The negotiation of the subnet of a connection ends with a subnet that nobody uses.  Docker is
  described by the networks it has (\<open>nets\<close>) and the subnets it gives out by itself (\<open>pool\<close>); the
  cluster by the subnets of its active clients (\<open>occ\<close>) and those it refuses (\<open>taken\<close>).  \<open>live\<close> is
  what holds of the world until the cluster has accepted a subnet.
\<close>

definition used :: "('w \<Rightarrow> docker_network list) \<Rightarrow> 'w \<Rightarrow> string set" where
  "used nets w = dn_subnet ` set (nets w)"

definition names :: "('w \<Rightarrow> docker_network list) \<Rightarrow> 'w \<Rightarrow> string set" where
  "names nets w = dn_name ` set (nets w)"

text \<open>Networks are created under a new name with the given or a new subnet, removed by identifier and
  found by name.\<close>

definition docker_creates ::
    "'w machine \<Rightarrow> ('w \<Rightarrow> bool) \<Rightarrow> ('w \<Rightarrow> docker_network list) \<Rightarrow> string list \<Rightarrow> bool" where
  "docker_creates M live nets pool \<longleftrightarrow> [] \<notin> set pool \<and> (\<forall>rq w. live w \<and> nr_name rq \<notin> names nets w
     \<and> (case nr_subnet rq of None \<Rightarrow> \<exists>s \<in> set pool. s \<notin> used nets w | Some s \<Rightarrow> s \<notin> used nets w) \<longrightarrow>
     (\<exists>t w'. dk_create_network (mc_docker M) rq w = (Inr t, w') \<and> live w' \<and> nets w' = t # nets w
        \<and> dn_name t = nr_name rq \<and> dn_id t \<notin> dn_id ` set (nets w)
        \<and> (case nr_subnet rq of None \<Rightarrow> dn_subnet t \<in> set pool - used nets w | Some s \<Rightarrow> dn_subnet t = s)))"

definition docker_removes ::
    "'w machine \<Rightarrow> ('w \<Rightarrow> bool) \<Rightarrow> ('w \<Rightarrow> docker_network list) \<Rightarrow> bool" where
  "docker_removes M live nets \<longleftrightarrow> (\<forall>i w. live w \<longrightarrow>
     (\<exists>w'. dk_remove_network (mc_docker M) i w = (Inr (), w') \<and> live w'
        \<and> nets w' = filter (\<lambda>n. dn_id n \<noteq> i) (nets w)))"

definition docker_misses ::
    "'w machine \<Rightarrow> ('w \<Rightarrow> bool) \<Rightarrow> ('w \<Rightarrow> docker_network list) \<Rightarrow> bool" where
  "docker_misses M live nets \<longleftrightarrow> (\<forall>n w. live w \<and> n \<notin> names nets w \<longrightarrow>
     (\<exists>w'. dk_network (mc_docker M) n w = (Inl (DockerError 404), w') \<and> live w' \<and> nets w' = nets w))"

section \<open>A free subnet\<close>

text \<open>The names of the temporary networks from number \<open>i\<close> on are not in use.\<close>

definition fresh_names :: "('w \<Rightarrow> docker_network list) \<Rightarrow> string \<Rightarrow> nat \<Rightarrow> 'w \<Rightarrow> bool" where
  "fresh_names nets name i w \<longleftrightarrow> (\<forall>j \<ge> i. name @ ''-'' @ str_nat j \<notin> names nets w)"

lemma probe_finds:
  assumes "docker_creates M live nets pool" and "live w" and "fresh_names nets name i w"
    and "card (set pool - used nets w) \<le> n" and "s \<in> set pool" "s \<notin> used nets w" "s \<notin> set occupied"
  shows "\<exists>ts sub w'. probe_subnets M name occupied n i temp networks subnet w = (Inr (networks @ ts, sub), w')
    \<and> live w' \<and> nets w' = rev ts @ nets w \<and> sub \<in> set pool \<and> sub \<notin> used nets w \<and> sub \<notin> set occupied
    \<and> dn_id ` set ts \<inter> dn_id ` set (nets w) = {}"
  using assms(2-)
proof (induction n arbitrary: i w temp networks subnet)
  case 0
  then have "set pool - used nets w = {}" by simp
  with 0 show ?case by blast
next
  case (Suc n)
  let ?rq = "\<lparr>nr_name = name @ ''-'' @ str_nat i, nr_subnet = None, nr_labels = [], nr_options = []\<rparr>"
  have "nr_name ?rq \<notin> names nets w" using Suc.prems(2) by (simp add: fresh_names_def)
  then obtain t w1 where c: "dk_create_network (mc_docker M) ?rq w = (Inr t, w1)" and i1: "live w1"
    and n1: "nets w1 = t # nets w" and tn: "dn_name t = name @ ''-'' @ str_nat i"
    and ti: "dn_id t \<notin> dn_id ` set (nets w)" and ts: "dn_subnet t \<in> set pool" "dn_subnet t \<notin> used nets w"
    using assms(1) Suc.prems(1,4,5) unfolding docker_creates_def by (fastforce split: option.splits)
  show ?case
  proof (cases "dn_subnet t \<in> set occupied")
    case False
    have "probe_subnets M name occupied (Suc n) i temp networks subnet w = (Inr (networks @ [t], dn_subnet t), w1)"
      using c False by (simp add: bind_def try_except_def)
    moreover have "nets w1 = rev [t] @ nets w" using n1 by simp
    moreover have "dn_id ` set [t] \<inter> dn_id ` set (nets w) = {}" using ti by simp
    ultimately show ?thesis using i1 ts False by blast
  next
    case True
    have u1: "used nets w1 = insert (dn_subnet t) (used nets w)" using n1 by (simp add: used_def)
    have f1: "fresh_names nets name (Suc i) w1"
      using Suc.prems(2) n1 tn by (auto simp: fresh_names_def names_def str_nat_inj)
    have "set pool - used nets w1 \<subset> set pool - used nets w" using u1 ts by blast
    then have "card (set pool - used nets w1) < card (set pool - used nets w)" by (simp add: psubset_card_mono)
    with Suc.prems(3) have k: "card (set pool - used nets w1) \<le> n" by simp
    have s: "s \<notin> used nets w1" using u1 Suc.prems(5,6) True by auto
    obtain ts' sub w' where r: "probe_subnets M name occupied n (Suc i) (Some t) (networks @ [t]) (dn_subnet t) w1
        = (Inr ((networks @ [t]) @ ts', sub), w')" and "live w'" and n': "nets w' = rev ts' @ nets w1"
      and "sub \<in> set pool" "sub \<notin> used nets w1" "sub \<notin> set occupied"
      and ids: "dn_id ` set ts' \<inter> dn_id ` set (nets w1) = {}"
      using Suc.IH [OF i1 f1 k Suc.prems(4) s Suc.prems(6)] by blast
    moreover have "probe_subnets M name occupied (Suc n) i temp networks subnet w
        = (Inr (networks @ (t # ts'), sub), w')"
      using c True r by (simp add: bind_def try_except_def)
    moreover have "nets w' = rev (t # ts') @ nets w" using n' n1 by simp
    moreover have "dn_id ` set (t # ts') \<inter> dn_id ` set (nets w) = {}" using ids ti n1 by auto
    moreover have "sub \<notin> used nets w" using u1 calculation by blast
    ultimately show ?thesis by blast
  qed
qed

lemma removes_all:
  assumes "docker_removes M live nets" and "live w"
  shows "\<exists>w'. for_each (\<lambda>n. dk_remove_network (mc_docker M) (dn_id n)) ts w = (Inr (), w') \<and> live w'
    \<and> nets w' = filter (\<lambda>n. dn_id n \<notin> dn_id ` set ts) (nets w)"
  using assms(2)
proof (induction ts arbitrary: w)
  case (Cons t ts)
  obtain w1 where 1: "dk_remove_network (mc_docker M) (dn_id t) w = (Inr (), w1)" "live w1"
    "nets w1 = filter (\<lambda>n. dn_id n \<noteq> dn_id t) (nets w)"
    using assms(1) Cons.prems unfolding docker_removes_def by blast
  obtain w2 where 2: "for_each (\<lambda>n. dk_remove_network (mc_docker M) (dn_id n)) ts w1 = (Inr (), w2)" "live w2"
    "nets w2 = filter (\<lambda>n. dn_id n \<notin> dn_id ` set ts) (nets w1)"
    using Cons.IH [OF 1(2)] by blast
  have "nets w2 = filter (\<lambda>n. dn_id n \<notin> dn_id ` set (t # ts)) (nets w)"
    unfolding 2(3) 1(3) by (simp add: conj_commute)
  with 1 2 show ?case by (simp add: thn_def bind_def)
qed simp

lemma get_subnet_free:
  assumes "docker_creates M live nets pool" and "docker_removes M live nets"
    and "live w" and "fresh_names nets name 0 w" and "length pool \<le> 255"
    and "s \<in> set pool" "s \<notin> used nets w" "s \<notin> set occupied"
  shows "\<exists>sub w'. get_subnet M name occupied w = (Inr sub, w') \<and> live w' \<and> nets w' = nets w
    \<and> sub \<in> set pool \<and> sub \<notin> used nets w \<and> sub \<notin> set occupied"
proof -
  have "card (set pool - used nets w) \<le> card (set pool)" by (simp add: card_mono)
  also have "\<dots> \<le> 255" using assms(5) card_length le_trans by blast
  finally obtain ts sub w1 where p: "probe_subnets M name occupied 255 0 None [] [] w = (Inr (ts, sub), w1)"
    and "live w1" and n: "nets w1 = rev ts @ nets w" and sub: "sub \<in> set pool" "sub \<notin> used nets w" "sub \<notin> set occupied"
    and ids: "dn_id ` set ts \<inter> dn_id ` set (nets w) = {}"
    using probe_finds [OF assms(1,3,4) _ assms(6-8), where networks = "[]" and temp = None and subnet = "[]" and n = 255]
    by auto
  obtain w2 where r: "for_each (\<lambda>n. dk_remove_network (mc_docker M) (dn_id n)) ts w1 = (Inr (), w2)" "live w2"
    "nets w2 = filter (\<lambda>n. dn_id n \<notin> dn_id ` set ts) (nets w1)"
    using removes_all [OF assms(2) \<open>live w1\<close>] by blast
  have "filter (\<lambda>n. dn_id n \<notin> dn_id ` set ts) (rev ts) = []" by (simp add: filter_empty_conv)
  moreover have "filter (\<lambda>n. dn_id n \<notin> dn_id ` set ts) (nets w) = nets w"
    using ids by (intro filter_True) auto
  ultimately have "nets w2 = nets w" unfolding r(3) n by simp
  moreover have "sub \<noteq> []" using assms(1) sub(1) by (auto simp: docker_creates_def)
  then have "get_subnet M name occupied w = (Inr sub, w2)"
    using p r(1) by (simp add: get_subnet_def bind_def thn_def)
  ultimately show ?thesis using r(2) sub by blast
qed

section \<open>The network\<close>

text \<open>The clients of the cluster with their subnets.\<close>

definition lists_subnets ::
    "'w machine \<Rightarrow> ('w \<Rightarrow> bool) \<Rightarrow> ('w \<Rightarrow> docker_network list) \<Rightarrow> string list \<Rightarrow> bool" where
  "lists_subnets M live nets occ \<longleftrightarrow> (\<forall>w. live w \<longrightarrow>
     (\<exists>w'. get_client_networks M w = (Inr occ, w') \<and> live w' \<and> nets w' = nets w))"

text \<open>No network has the name of the connection's network or of a temporary one.\<close>

definition no_network :: "('w \<Rightarrow> docker_network list) \<Rightarrow> string \<Rightarrow> 'w \<Rightarrow> bool" where
  "no_network nets name w \<longleftrightarrow> name \<notin> names nets w \<and> fresh_names nets name 0 w"

lemma new_network_free:
  assumes "docker_creates M live nets pool" and "docker_removes M live nets" and "docker_misses M live nets"
    and "lists_subnets M live nets occ" and "live w" and "no_network nets (cf_NETWORK_NAME cfg) w"
    and "length pool \<le> 255" and "s \<in> set pool" "s \<notin> used nets w" "s \<notin> set occ \<union> set banned"
  shows "\<exists>net w'. get_or_create_gefyra_network M cfg banned w = (Inr net, w') \<and> live w'
    \<and> nets w' = net # nets w \<and> dn_id net \<notin> dn_id ` set (nets w) \<and> dn_subnet net \<in> set pool
    \<and> dn_subnet net \<notin> set occ \<union> set banned"
proof -
  let ?name = "cf_NETWORK_NAME cfg"
  obtain w1 where 1: "dk_network (mc_docker M) ?name w = (Inl (DockerError 404), w1)" "live w1" "nets w1 = nets w"
    using assms(3,5,6) unfolding docker_misses_def no_network_def by blast
  obtain w2 where 2: "get_client_networks M w1 = (Inr occ, w2)" "live w2" "nets w2 = nets w"
    using assms(4) 1(2,3) unfolding lists_subnets_def by force
  have n2: "no_network nets ?name w2" using assms(6) 2(3) by (simp add: no_network_def fresh_names_def names_def)
  have "s \<notin> used nets w2" "s \<notin> set (occ @ banned)" using assms(9,10) 2(3) by (auto simp: used_def)
  then obtain sub w3 where 3: "get_subnet M ?name (occ @ banned) w2 = (Inr sub, w3)" "live w3" "nets w3 = nets w2"
    and sub: "sub \<in> set pool" "sub \<notin> used nets w2" "sub \<notin> set (occ @ banned)"
    using get_subnet_free [OF assms(1,2) 2(2) _ assms(7,8), of ?name "occ @ banned"] n2
    by (auto simp: no_network_def)
  have "nr_name (network_request_for cfg sub) \<notin> names nets w3" "sub \<notin> used nets w3"
    using n2 3(3) sub(2) by (simp_all add: network_request_for_def no_network_def names_def used_def)
  then obtain net w4 where 4: "dk_create_network (mc_docker M) (network_request_for cfg sub) w3 = (Inr net, w4)"
    "live w4" "nets w4 = net # nets w3" "dn_id net \<notin> dn_id ` set (nets w3)" "dn_subnet net = sub"
    using assms(1) 3(2) unfolding docker_creates_def by (fastforce simp: network_request_for_def split: option.splits)
  have "new_network M cfg banned 10 w1 = (Inr net, w4)"
    using 2(1) 3(1) 4(1) by (simp add: eval_nat_numeral try_except_def bind_def)
  then have "get_or_create_gefyra_network M cfg banned w = (Inr net, w4)"
    using 1(1) by (simp add: get_or_create_gefyra_network_def handle_create_network_def try_except_def)
  with 4 3(3) 2(3) sub show ?thesis by auto
qed

section \<open>The cluster\<close>

definition client_waits ::
    "'w machine \<Rightarrow> ('w \<Rightarrow> bool) \<Rightarrow> ('w \<Rightarrow> docker_network list) \<Rightarrow> string \<Rightarrow> bool" where
  "client_waits M live nets name \<longleftrightarrow> (\<forall>w. live w \<longrightarrow>
     (\<exists>raw w'. ca_get (mc_clients M) name w = (Inr raw, w') \<and> live w' \<and> nets w' = nets w
        \<and> cr_state raw = ''WAITING'' \<and> cr_name raw = name))"

text \<open>The webhook refuses the taken subnets (status 500) and the API server stores the others.\<close>

definition admits_untaken ::
    "'w machine \<Rightarrow> ('w \<Rightarrow> bool) \<Rightarrow> ('w \<Rightarrow> docker_network list) \<Rightarrow> string \<Rightarrow> string set \<Rightarrow> bool" where
  "admits_untaken M live nets name taken \<longleftrightarrow> (\<forall>w s. live w \<longrightarrow>
     (if s \<in> taken
      then \<exists>w'. ca_patch (mc_clients M) name (Some [(''subnet'', s)]) w = (Inl (ApiException 500), w')
             \<and> live w' \<and> nets w' = nets w
      else \<exists>w'. ca_patch (mc_clients M) name (Some [(''subnet'', s)]) w = (Inr (), w') \<and> nets w' = nets w))"

lemma init_data_config [simp]: "go_config (init_data c raw) = go_config c"
  by (simp add: init_data_def Let_def)

lemma init_data_name [simp]: "go_client_id (init_data c raw) = cr_name raw"
  by (simp add: init_data_def Let_def)

lemma init_data_state [simp]: "go_state (init_data c raw) = cr_state raw"
  by (simp add: init_data_def Let_def)

lemma waiting_state:
  assumes "client_waits M live nets (go_client_id c)" and "live w"
  shows "\<exists>c' w'. client_state_now M (c, w) = (Inr WAITING, (c', w')) \<and> live w' \<and> nets w' = nets w
    \<and> go_client_id c' = go_client_id c \<and> go_config c' = go_config c"
proof -
  obtain raw w1 where g: "ca_get (mc_clients M) (go_client_id c) w = (Inr raw, w1)" "live w1" "nets w1 = nets w"
    and s: "cr_state raw = ''WAITING''" "cr_name raw = go_client_id c"
    using assms unfolding client_waits_def by blast
  have "client_state_now M (c, w) = (Inr WAITING, (init_data c raw, w1))"
    using g(1) s(1) by (simp add: client_state_now_def client_update_def thn_def bind_def modify_def lift_def
        handle_get_gefyraclient_def try_except_def GefyraClientState_def)
  with g s show ?thesis by auto
qed

lemma activation:
  assumes "client_waits M live nets (go_client_id c)" and "admits_untaken M live nets (go_client_id c) taken"
    and "live w"
  shows "\<exists>c' w'. activate_connection M s (c, w) = (if s \<in> taken then Inl (ApiException 500) else Inr (), (c', w'))
    \<and> (s \<in> taken \<longrightarrow> live w') \<and> nets w' = nets w
    \<and> go_client_id c' = go_client_id c \<and> go_config c' = go_config c"
proof -
  obtain c1 w1 where 1: "client_state_now M (c, w) = (Inr WAITING, (c1, w1))" "live w1" "nets w1 = nets w"
    "go_client_id c1 = go_client_id c" "go_config c1 = go_config c"
    using waiting_state [OF assms(1,3)] by blast
  have run: "activate_connection M s (c, w) = lift (ca_patch (mc_clients M) (go_client_id c) (Some [(''subnet'', s)])) (c1, w1)"
    using 1(1,4) by (simp add: activate_connection_def bind_def)
  show ?thesis
  proof (cases "s \<in> taken")
    case True
    then obtain w2 where "ca_patch (mc_clients M) (go_client_id c) (Some [(''subnet'', s)]) w1
        = (Inl (ApiException 500), w2)" "live w2" "nets w2 = nets w1"
      using assms(2) 1(2) unfolding admits_untaken_def by meson
    with True run 1 show ?thesis by (auto simp: lift_Pair)
  next
    case False
    then obtain w2 where "ca_patch (mc_clients M) (go_client_id c) (Some [(''subnet'', s)]) w1
        = (Inr (), w2)" "nets w2 = nets w1"
      using assms(2) 1(2) unfolding admits_untaken_def by meson
    with False run 1 show ?thesis by (auto simp: lift_Pair)
  qed
qed

lemma negotiation:
  assumes docker: "docker_creates M live nets pool" "docker_removes M live nets" "docker_misses M live nets"
    and cluster: "lists_subnets M live nets occ" "client_waits M live nets name" "admits_untaken M live nets name taken"
    and pool: "length pool \<le> 255" "s \<in> set pool" "s \<notin> set occ \<union> taken"
    and "live w" and "no_network nets (cf_NETWORK_NAME (go_config c)) w" and "s \<notin> used nets w"
    and "go_client_id c = name" and "set rejected \<subseteq> taken" and "card (set pool \<inter> taken - set rejected) < n"
  shows "\<exists>net c' w'. negotiate M rejected n (c, w) = (Inr net, (c', w')) \<and> nets w' = net # nets w
    \<and> dn_subnet net \<in> set pool - (set occ \<union> taken)"
  using assms(10-)
proof (induction n arbitrary: rejected c w)
  case (Suc n)
  have "s \<notin> set occ \<union> set rejected" using pool(3) Suc.prems(5) by blast
  then obtain net w1 where 1: "get_or_create_gefyra_network M (go_config c) rejected w = (Inr net, w1)" "live w1"
    "nets w1 = net # nets w" "dn_id net \<notin> dn_id ` set (nets w)" "dn_subnet net \<in> set pool"
    "dn_subnet net \<notin> set occ \<union> set rejected"
    using new_network_free [OF docker cluster(1) Suc.prems(1,2) pool(1,2) Suc.prems(3)] by blast
  obtain c2 w2 where 2: "activate_connection M (dn_subnet net) (c, w1)
      = (if dn_subnet net \<in> taken then Inl (ApiException 500) else Inr (), (c2, w2))"
    "dn_subnet net \<in> taken \<longrightarrow> live w2" "nets w2 = nets w1" "go_client_id c2 = go_client_id c" "go_config c2 = go_config c"
    using activation [of M live nets c taken w1 "dn_subnet net"] cluster(2,3) Suc.prems(4) 1(2) by blast
  show ?case
  proof (cases "dn_subnet net \<in> taken")
    case False
    then have "negotiate M rejected (Suc n) (c, w) = (Inr net, (c2, w2))"
      using 1(1) 2(1) by (simp add: bind_def lift_Pair try_except_def)
    moreover have "nets w2 = net # nets w" using 1(3) 2(3) by simp
    moreover have "dn_subnet net \<in> set pool - (set occ \<union> taken)" using 1(5,6) False by blast
    ultimately show ?thesis by blast
  next
    case True
    then have live2: "live w2" using 2(2) by blast
    then obtain w3 where 3: "dk_remove_network (mc_docker M) (dn_id net) w2 = (Inr (), w3)" "live w3"
      "nets w3 = filter (\<lambda>n. dn_id n \<noteq> dn_id net) (nets w2)"
      using docker(2) unfolding docker_removes_def by blast
    have "filter (\<lambda>n. dn_id n \<noteq> dn_id net) (nets w) = nets w"
      using 1(4) by (intro filter_True) (metis imageI)
    then have n3: "nets w3 = nets w" using 3(3) 2(3) 1(3) by simp
    have run: "negotiate M rejected (Suc n) (c, w) = negotiate M (rejected @ [dn_subnet net]) n (c2, w3)"
      using 1(1) 2(1) 3(1) True by (simp add: bind_def thn_def lift_Pair try_except_def)
    have nn: "no_network nets (cf_NETWORK_NAME (go_config c2)) w3"
      using Suc.prems(2) n3 2(5) by (simp add: no_network_def fresh_names_def names_def)
    have su: "s \<notin> used nets w3" using Suc.prems(3) n3 by (simp add: used_def)
    have nm: "go_client_id c2 = name" using 2(4) Suc.prems(4) by simp
    have rej: "set (rejected @ [dn_subnet net]) \<subseteq> taken" using Suc.prems(5) True by simp
    have "set pool \<inter> taken - set (rejected @ [dn_subnet net]) \<subset> set pool \<inter> taken - set rejected"
      using 1(5,6) True by auto
    then have "card (set pool \<inter> taken - set (rejected @ [dn_subnet net])) < card (set pool \<inter> taken - set rejected)"
      by (simp add: psubset_card_mono)
    with Suc.prems(6) have card: "card (set pool \<inter> taken - set (rejected @ [dn_subnet net])) < n" by simp
    from Suc.IH [OF 3(2) nn su nm rej card] run n3 show ?thesis by simp
  qed
qed simp

section \<open>Docker and the cluster in memory\<close>

text \<open>The world is the list of networks; an identifier is longer than all others.\<close>

definition next_id :: "docker_network list \<Rightarrow> string" where
  "next_id w = replicate (Suc (sum_list (map (length \<circ> dn_id) w))) (CHR ''n'')"

lemma next_id_fresh: "next_id w \<notin> dn_id ` set w"
proof
  assume "next_id w \<in> dn_id ` set w"
  then obtain n where n: "n \<in> set w" "dn_id n = next_id w" by auto
  then have "length (dn_id n) \<le> sum_list (map (length \<circ> dn_id) w)"
    by (intro member_le_sum_list) (auto intro: rev_image_eqI)
  then show False using n(2) by (simp add: next_id_def)
qed

definition mem_create :: "string list \<Rightarrow> network_request \<Rightarrow> (docker_network list, docker_network) io" where
  "mem_create pool rq w =
     (let net = (\<lambda>s. \<lparr>dn_id = next_id w, dn_name = nr_name rq, dn_subnet = s, dn_labels = nr_labels rq,
                     dn_containers = []\<rparr>) in
      if nr_name rq \<in> dn_name ` set w then (Inl (DockerError 409), w) else
      case nr_subnet rq of
        Some s \<Rightarrow> if s \<in> dn_subnet ` set w then (Inl (DockerError 403), w) else (Inr (net s), net s # w)
      | None \<Rightarrow> (case filter (\<lambda>s. s \<notin> dn_subnet ` set w) pool of
          [] \<Rightarrow> (Inl (DockerError 500), w) | s # _ \<Rightarrow> (Inr (net s), net s # w)))"

definition mem_docker :: "string list \<Rightarrow> docker_network list docker_api" where
  "mem_docker pool = \<lparr>dk_containers = (\<lambda>l. ret []), dk_container = (\<lambda>n. raise (DockerError 404)),
     dk_create_container = (\<lambda>r. raise (DockerError 500)), dk_run = (\<lambda>r. raise (DockerError 500)),
     dk_start = (\<lambda>n. ret ()), dk_stop = (\<lambda>n. ret ()), dk_kill = (\<lambda>n. ret ()), dk_remove = (\<lambda>n f. ret ()),
     dk_exec = (\<lambda>n c. ret (0, [])), dk_image = (\<lambda>n. ret ()), dk_pull = (\<lambda>r t p. ret ()),
     dk_network = (\<lambda>n w. case filter (\<lambda>net. dn_name net = n) w of
        [] \<Rightarrow> (Inl (DockerError 404), w) | net # _ \<Rightarrow> (Inr net, w)),
     dk_create_network = mem_create pool,
     dk_remove_network = (\<lambda>i w. (Inr (), filter (\<lambda>n. dn_id n \<noteq> i) w)),
     dk_connect = (\<lambda>n c ip. ret ())\<rparr>"

definition waiting_raw :: raw_client where
  "waiting_raw = \<lparr>cr_name = ''c1'', cr_namespace = ''gefyra'', cr_labels = None, cr_state = ''WAITING'',
     cr_transitions = None, cr_sunset = None, cl_provider = Some ''stowaway'', cl_providerParameter = None,
     cl_providerConfig = None, cl_status = None, rc_uid = ''u'', rc_created = None,
     rc_serviceAccountName = None, rc_serviceAccountData = None\<rparr>"

definition mem_clients :: "string set \<Rightarrow> 'w client_api" where
  "mem_clients taken = \<lparr>ca_create = (\<lambda>b. ret waiting_raw),
     ca_get = (\<lambda>n. if n = ''c1'' then ret waiting_raw else raise (ApiException 404)),
     ca_list = ret [waiting_raw,
       waiting_raw\<lparr>cr_state := ''ACTIVE'', cl_providerParameter := Some [(''subnet'', ''s1'')]\<rparr>],
     ca_patch = (\<lambda>n p. case p of Some [(k, s)] \<Rightarrow> if s \<in> taken then raise (ApiException 500) else ret ()
                       | _ \<Rightarrow> ret ()),
     ca_delete = (\<lambda>n. ret ()), ca_drop_finalizers = (\<lambda>n. ret ())\<rparr>"

definition mem_machine :: "string list \<Rightarrow> string set \<Rightarrow> docker_network list machine" where
  "mem_machine pool taken = \<lparr>mc_docker = mem_docker pool, mc_clients = mem_clients taken, mc_win32 = False,
     mc_release = ''6.1'', mc_system = ''Linux'', mc_home = ''/root'', mc_docker0 = ret ''172.17.0.1'',
     mc_host_internal = ret [], mc_isfile = (\<lambda>f. ret True), mc_mkdir = (\<lambda>f. ret ()), mc_write = (\<lambda>f s. ret ()),
     mc_unlink = (\<lambda>f. ret ()), mc_kube_default = ''~/.kube/config'', mc_active_context = (\<lambda>f. ret None),
     mc_api_url = ''https://1.2.3.4'', mc_resolve = (\<lambda>h. ret True), mc_time = ret 0, mc_sleep = (\<lambda>n. ret ()),
     mc_uuid4 = ret ''a-b'', mc_b64decode = Inr, mc_service = (\<lambda>n. raise (ApiException 404)),
     mc_nodes = ret [], mc_minikube = (\<lambda>p. raise OSError)\<rparr>"

lemma mem_machine_simps [simp]: "mc_docker (mem_machine pool taken) = mem_docker pool"
  "mc_clients (mem_machine pool taken) = mem_clients taken"
  by (simp_all add: mem_machine_def)

lemma mem_create_own:
  assumes "nr_name rq \<notin> dn_name ` set w" and "nr_subnet rq = None" and "s \<in> set pool" "s \<notin> dn_subnet ` set w"
  shows "\<exists>t. mem_create pool rq w = (Inr t, t # w) \<and> dn_name t = nr_name rq \<and> dn_id t = next_id w
    \<and> dn_subnet t \<in> set pool - dn_subnet ` set w"
proof -
  have "s \<in> set (filter (\<lambda>s. s \<notin> dn_subnet ` set w) pool)" using assms(3,4) by simp
  then obtain u r where f: "filter (\<lambda>s. s \<notin> dn_subnet ` set w) pool = u # r"
    by (cases "filter (\<lambda>s. s \<notin> dn_subnet ` set w) pool") auto
  then have "u \<in> set pool - dn_subnet ` set w" by (auto simp: filter_eq_Cons_iff)
  with f assms(1,2) show ?thesis by (simp add: mem_create_def)
qed

lemma mem_create_given:
  assumes "nr_name rq \<notin> dn_name ` set w" and "nr_subnet rq = Some s" and "s \<notin> dn_subnet ` set w"
  shows "\<exists>t. mem_create pool rq w = (Inr t, t # w) \<and> dn_name t = nr_name rq \<and> dn_id t = next_id w \<and> dn_subnet t = s"
  using assms by (simp add: mem_create_def)

lemma mem_creates:
  assumes "[] \<notin> set pool"
  shows "docker_creates (mem_machine pool taken) (\<lambda>_. True) id pool"
  unfolding docker_creates_def
proof (intro conjI allI impI, rule assms, elim conjE)
  fix rq :: network_request and w :: "docker_network list"
  assume n: "nr_name rq \<notin> names id w"
    and s: "case nr_subnet rq of None \<Rightarrow> \<exists>s \<in> set pool. s \<notin> used id w | Some s \<Rightarrow> s \<notin> used id w"
  have n': "nr_name rq \<notin> dn_name ` set w" using n by (simp add: names_def)
  have c: "dk_create_network (mc_docker (mem_machine pool taken)) = mem_create pool" by (simp add: mem_docker_def)
  show "\<exists>t w'. dk_create_network (mc_docker (mem_machine pool taken)) rq w = (Inr t, w') \<and> True \<and> id w' = t # id w
     \<and> dn_name t = nr_name rq \<and> dn_id t \<notin> dn_id ` set (id w)
     \<and> (case nr_subnet rq of None \<Rightarrow> dn_subnet t \<in> set pool - used id w | Some s \<Rightarrow> dn_subnet t = s)"
  proof (cases "nr_subnet rq")
    case None
    with s obtain u where "u \<in> set pool" "u \<notin> dn_subnet ` set w" by (auto simp: used_def)
    from mem_create_own [OF n' None this] None next_id_fresh [of w] c show ?thesis
      by (auto simp: used_def)
  next
    case (Some u)
    with s have "u \<notin> dn_subnet ` set w" by (simp add: used_def)
    from mem_create_given [OF n' Some this, of pool] Some next_id_fresh [of w] c show ?thesis by auto
  qed
qed

lemma mem_docker_laws:
  "docker_removes (mem_machine pool taken) (\<lambda>_. True) id"
  "docker_misses (mem_machine pool taken) (\<lambda>_. True) id"
  "lists_subnets (mem_machine pool taken) (\<lambda>_. True) id [''s1'']"
  "client_waits (mem_machine pool taken) (\<lambda>_. True) id ''c1''"
  "admits_untaken (mem_machine pool taken) (\<lambda>_. True) id ''c1'' taken"
proof -
  show "docker_removes (mem_machine pool taken) (\<lambda>_. True) id"
    by (simp add: docker_removes_def mem_docker_def)
  show "docker_misses (mem_machine pool taken) (\<lambda>_. True) id"
    by (auto simp: docker_misses_def mem_docker_def names_def filter_eq_Cons_iff split: list.split)
  show "lists_subnets (mem_machine pool taken) (\<lambda>_. True) id [''s1'']"
    by (simp add: lists_subnets_def get_client_networks_def mem_clients_def waiting_raw_def)
  show "client_waits (mem_machine pool taken) (\<lambda>_. True) id ''c1''"
    by (simp add: client_waits_def mem_clients_def waiting_raw_def)
  show "admits_untaken (mem_machine pool taken) (\<lambda>_. True) id ''c1'' taken"
    by (simp add: admits_untaken_def mem_clients_def)
qed

section \<open>Properties\<close>

text \<open>C2: The negotiation ends with a subnet: if fewer than ten subnets of Docker's pool are taken in the
  cluster and the pool has one that is free everywhere, then \<open>connect\<close> gets, within its ten attempts, a
  network with a subnet that no active client has and that the cluster has accepted; the networks of the
  refused attempts are gone.\<close>

theorem negotiation_succeeds:
  assumes "docker_creates M live nets pool" "docker_removes M live nets" "docker_misses M live nets"
    and "lists_subnets M live nets occ" "client_waits M live nets (go_client_id c)"
    and "admits_untaken M live nets (go_client_id c) taken"
    and "length pool \<le> 255" "s \<in> set pool" "s \<notin> set occ \<union> taken" "s \<notin> used nets w"
    and "live w" and "no_network nets (cf_NETWORK_NAME (go_config c)) w" and "card (set pool \<inter> taken) < 10"
  shows "\<exists>net c' w'. negotiate M [] 10 (c, w) = (Inr net, (c', w')) \<and> nets w' = net # nets w
    \<and> dn_subnet net \<in> set pool - (set occ \<union> taken)"
  using negotiation [OF assms(1-9,11,12,10) refl, of "[]" 10] assms(13) by simp

theorem negotiation_succeeds_witness:
  "\<exists>cfg net c' w'. negotiate (mem_machine [''s1'', ''s2'', ''s3''] {''s2''}) [] 10 (GefyraClient waiting_raw cfg, [])
      = (Inr net, (c', w')) \<and> id w' = net # id []
    \<and> dn_subnet net \<in> set [''s1'', ''s2'', ''s3''] - (set [''s1''] \<union> {''s2''})"
proof -
  have n: "go_client_id (GefyraClient waiting_raw cfg) = ''c1''" for cfg
    by (simp add: GefyraClient_def waiting_raw_def)
  have c: "card (set [''s1'', ''s2'', ''s3''] \<inter> {''s2''}) < 10" by simp
  show ?thesis
    by (rule exI, rule negotiation_succeeds [where live = "\<lambda>_. True" and nets = id and s = "''s3''"])
       (simp_all add: n c mem_creates mem_docker_laws no_network_def fresh_names_def names_def used_def)
qed

end
