(* ===== verification/LocalInstall.thy ===== *)
theory LocalInstall
  imports LocalConnect
begin

text \<open>
  The installation of Gefyra in a cluster: the options (client/gefyra/types/install.py), the
  Kubernetes objects generated from them (client/gefyra/misc/comps, client/gefyra/misc/install.py),
  the commands \<open>install\<close>, \<open>uninstall\<close> (client/gefyra/api/install.py, client/gefyra/misc/uninstall.py)
  and \<open>operator update\<close> (client/gefyra/api/operator.py).

  The API server, \<open>yaml.dump\<close> and the clock are parameters.
\<close>

section \<open>Options\<close>

text \<open>An option of the command line is a string, one of the Python interface an integer.\<close>

datatype number_arg = Num int | Text string

text \<open>The option \<open>--service-labels\<close> is a list of lists, one per use of the option.\<close>

datatype pairs_arg = Pairs "string dict" | Groups "string list list"

record install_options =
  io_namespace :: string
  io_version :: string
  io_service_type :: string
  io_service_port :: number_arg
  io_service_labels :: pairs_arg
  io_service_annotations :: pairs_arg
  io_registry :: string
  io_mtu :: "number_arg option"
  io_stowaway_storage :: number_arg
  io_max_client_connection_age :: "number_arg option"
  io_disable_client_sa_management :: bool
  io_bridge_debug :: bool

definition GefyraInstallOptions :: install_options where
  "GefyraInstallOptions = \<lparr>io_namespace = ''gefyra'', io_version = VERSION, io_service_type = ''NodePort'',
     io_service_port = Num 31820, io_service_labels = Pairs [], io_service_annotations = Pairs [],
     io_registry = ''quay.io/gefyra'', io_mtu = None, io_stowaway_storage = Num 64,
     io_max_client_connection_age = None, io_disable_client_sa_management = False,
     io_bridge_debug = False\<rparr>"

fun number_text :: "number_arg \<Rightarrow> string" where
  "number_text (Num i) = str_int i"
| "number_text (Text s) = s"

fun number_json :: "number_arg \<Rightarrow> json" where
  "number_json (Num i) = JInt i"
| "number_json (Text s) = JStr s"

definition bool_text :: "bool \<Rightarrow> string" where
  "bool_text b = (if b then ''True'' else ''False'')"

text \<open>\<open>str(params.max_client_connection_age or -1)\<close>.\<close>

definition age_text :: "number_arg option \<Rightarrow> string" where
  "age_text age = (if age \<in> {None, Some (Num 0), Some (Text [])} then ''-1''
     else case age of Some a \<Rightarrow> number_text a | None \<Rightarrow> [])"

section \<open>Objects\<close>

definition jstrs :: "string list \<Rightarrow> json" where
  "jstrs xs = JList (map JStr xs)"

subsection \<open>Namespace and roles\<close>

definition namespace_data :: "install_options \<Rightarrow> json list" where
  "namespace_data params =
     [JObj [(''apiVersion'', JStr ''v1''), (''kind'', JStr ''Namespace''),
        (''metadata'', json_dict [(''name'', io_namespace params)])]]"

definition rbac_rule :: "string list \<Rightarrow> string list \<Rightarrow> string list \<Rightarrow> json" where
  "rbac_rule groups resources verbs =
     JObj [(''apiGroups'', jstrs groups), (''resources'', jstrs resources), (''verbs'', jstrs verbs)]"

definition rbac_data :: "install_options \<Rightarrow> json list" where
  "rbac_data params =
     [JObj [(''apiVersion'', JStr ''v1''), (''kind'', JStr ''ServiceAccount''),
        (''metadata'', json_dict [(''namespace'', io_namespace params), (''name'', ''gefyra-operator'')])],
      JObj [(''apiVersion'', JStr ''rbac.authorization.k8s.io/v1''), (''kind'', JStr ''ClusterRole''),
        (''metadata'', json_dict [(''name'', ''gefyra:operator'')]),
        (''rules'', JList
          [rbac_rule [''kopf.dev''] [''clusterkopfpeerings''] [''list'', ''watch'', ''patch'', ''get''],
           rbac_rule [''apiextensions.k8s.io''] [''customresourcedefinitions'']
             [''create'', ''patch'', ''delete'', ''list'', ''watch''],
           rbac_rule [''admissionregistration.k8s.io'']
             [''validatingwebhookconfigurations'', ''mutatingwebhookconfigurations''] [''create'', ''patch''],
           rbac_rule
             [[], ''apps'', ''batch'', ''extensions'', ''events.k8s.io'', ''rbac.authorization.k8s.io'',
              ''rbac.authorization.k8s.io/v1'', ''autoscaling'']
             [''namespaces'', ''clusterroles'', ''serviceaccounts'', ''clusterrolebindings'', ''nodes'',
              ''configmaps'', ''secrets'', ''deployments'', ''statefulsets'', ''persistentvolumeclaims'',
              ''services'', ''pods'', ''pods/exec'', ''pods/status'', ''events'', ''horizontalpodautoscalers'']
             [''*''],
           rbac_rule [''gefyra.dev''] [''gefyraclients'', ''gefyrabridges'', ''gefyrabridgemounts''] [''*'']])],
      JObj [(''apiVersion'', JStr ''rbac.authorization.k8s.io/v1''), (''kind'', JStr ''ClusterRoleBinding''),
        (''metadata'', json_dict [(''name'', ''gefyra-operator''), (''namespace'', io_namespace params)]),
        (''roleRef'', json_dict [(''apiGroup'', ''rbac.authorization.k8s.io''), (''kind'', ''ClusterRole''),
           (''name'', ''gefyra:operator'')]),
        (''subjects'', JList [json_dict [(''kind'', ''ServiceAccount''), (''name'', ''gefyra-operator''),
           (''namespace'', io_namespace params)]])]]"

subsection \<open>Webhook\<close>

text \<open>The certificate the three webhooks are verified with.\<close>

definition caBundle :: string where
  "caBundle = join [CHR 0x0A]
     [''LS0tLS1CRUdJTiBDRVJUSUZJQ0FURS0tLS0tCk1JSUZJekNDQXd1Z0F3SUJBZ0lVVUpxcE1PSkdH'',
      ''alU1Y21TZkN4NFlpcW1RLzk0d0RRWUpLb1pJaHZjTkFRRUwKQlFBd0pqRWtNQ0lHQTFVRUF3d2Ja'',
      ''MlZtZVhKaExXRmtiV2x6YzJsdmJpNW5aV1o1Y21FdWMzWmpNQjRYRFRJegpNRFV6TVRBNE1qTXdO'',
      ''bG9YRFRNek1EVXlPREE0TWpNd05sb3dKakVrTUNJR0ExVUVBd3diWjJWbWVYSmhMV0ZrCmJXbHpj'',
      ''Mmx2Ymk1blpXWjVjbUV1YzNaak1JSUNJakFOQmdrcWhraUc5dzBCQVFFRkFBT0NBZzhBTUlJQ0Nn'',
      ''S0MKQWdFQWcwcFpoN2ZjaG42cStWay8ySnFwb0hQQlBJMGpxVTVSSjl5bUJ1Mm52T0pUVmVGekEz'',
      ''ZGkzK1QxcVJvQQpGSnBUM2drd3B4aDFFNGtvZ256a1ZVejRoc3lPWnhJMnEwb0VYTEtpbktxdGQz'',
      ''bzd4ZXkvek5FK3FjQllLeEkvCjdIcWppVXh4cUMyNkdmZnY5amRzVUtXOU93OEl4NDJJc2VHZUVo'',
      ''MTlLeUZRaVREYmZoRFRPNVh4NHM2WFFnZVUKSCt2bFdwNFNldHczelhmbzlDd2hWTVVJZklKQWRs'',
      ''M3lBejhlY1VZZDN5WGtPSWFxWWpHVHNhS3Eyd2FOemZibwovMGlDalRjbElhenlIemNkcEFQNVlU'',
      ''OVBRVis0SUlpNGs4ZXB3dVVIUEtyZ2FlRDc5WmZGLzBvbjNDR1NqV21rCnV3VS9vTGp0S0lCOWlV'',
      ''NVBERXRYTkc5YzluRWhwbkFaNUM3L01DU2hJN1lCbXh1dHFQSk9OU0FJdURROVFRS2IKaThWWUhL'',
      ''Mi80bjczSmJ2UmVNM01jdzdnanBlelhlOGRWSXZDWFdONXp3bDlZS0RFb3lFQXpuSU1WMWNXOWdO'',
      ''RgpYVUxtbFNJdy9icGtWd2l2T2U5OXljSld0QWhMNWZ3U0VVeHA2N1IxU3ZTQmNnUlRIVG5MOWtn'',
      ''RSthU2l1dWc1CkpidGwxTHdvOTZ6OUpOVC9leUtVTGhQSTZwTEN5ZzM4aXJKSkszYnRjZjA3Umdm'',
      ''VzlBSnRWOU5qblJQNlFjNWMKUHB4Um5xMlBxaVNpcGwwRG9xOFhOUnovc282bFQxRlZvZkZWcURm'',
      ''VXQ1dkZ2bFJOdEpZc3MrcFFWZEZUWW9SSApCbUV1N09tSy8xSUkxS3dVYnV3TDZSTHhGT1p6NkFT'',
      ''V3FxdWJOTURiejRSUWFXVUNBd0VBQWFOSk1FY3dKZ1lEClZSMFJCQjh3SFlJYloyVm1lWEpoTFdG'',
      ''a2JXbHpjMmx2Ymk1blpXWjVjbUV1YzNaak1CMEdBMVVkRGdRV0JCVDUKeVFMU0Jkbkc4SGJtN3lE'',
      ''T2hKajQySk1oNlRBTkJna3Foa2lHOXcwQkFRc0ZBQU9DQWdFQWFzTi9hRXFrenBYSQpqVzAwQStv'',
      ''aGtSMUh6eXQ0K29NaUxRaDJUYlkwNWh3eTlNWUtCdjVGTHpaMVcwb3A4Rm5jMGszVi9PVUJKNGdy'',
      ''CmhVODVRdHRYN3A4Skx5b0tFM21hdWx5c3dRZTNKVk81WHFxY04xRUx0N1c5TTZTNTQ2L2lINFIx'',
      ''QTR6SG1ybXoKVjIySGcxa3J5VHA4TmlETFJmV1lhcWdZNDZ3My9RSUtNbFBxU1BTTEl2MTNuL0dC'',
      ''aGtOd1BTK2lTNVA4ejNJawpXVTFiVFJhbmJmN1M4TmlnRUV4NFVtMDkya1hQMC8yb3JKYUVRamNV'',
      ''eGMweW14bVNpZnA2T2Y0YndKNUhsbkpOCm9WV1ZKV0YwckJZeGxTYm0xUnpmRFk2Uzg5d294ZTI2'',
      ''Z25rdWFsc3F2d2YycVZKRU1hZnBNdVkwMzRkZEdsaTUKQ0Y4a3hUcXNBa1V6Q0ZXaWhSNm9NTllR'',
      ''dGVadEhFdmdLREJtYVZtS0VsTEUxSEovVFZmK0o2MkhBZkhiSkJwRgpIVXRLL2FtZTZRTEtEcngy'',
      ''Z05JNDhCM3VZNGhleWwzbVJyK0wvanVZamJxdks1Unl0bXY0OFlMTjVJVUpkTXhzCmFTMnlLeDI3'',
      ''WjU0T2V2bWpVUzhKK0JEYXhQcGF2djdLblpYYlNlTWFXZklFMWgxOFQyQ1RjWEk3UzdrSGlKeUUK'',
      ''aHBrVUdraWdJQkd4UnhkSFgvUWxtV0ZVU0RZR3hWTDZab3NjbW1MeHl5YTJ2L21MbGlWb2N1UVBr'',
      ''dWMrQXFnVApqeU0vY1ovUk1vMHFZNDZOem1oTlJobTM3YW4vbjNYNEIzVzlkRjJWbWFpNWIzSHZx'',
      ''bGdlQ1g4K1gzSzlnYXQrCmQ0bzZnZlA0SW10ZStlMGVEOXNKdHRjTjcrQVg5b2s9Ci0tLS0tRU5E'',
      ''IENFUlRJRklDQVRFLS0tLS0K'',
      '''']"

definition webhook_entry :: "install_options \<Rightarrow> string \<Rightarrow> string \<Rightarrow> string \<Rightarrow> json" where
  "webhook_entry params path name resource =
     JObj [(''admissionReviewVersions'', jstrs [''v1'', ''v1beta1'']),
       (''clientConfig'', JObj [(''caBundle'', JStr caBundle),
          (''service'', json_dict [(''name'', ''gefyra-admission''), (''namespace'', io_namespace params),
             (''path'', path)])]),
       (''failurePolicy'', JStr ''Fail''), (''matchPolicy'', JStr ''Equivalent''), (''name'', JStr name),
       (''namespaceSelector'', JObj []), (''objectSelector'', JObj []),
       (''rules'', JList [JObj [(''apiGroups'', jstrs [''gefyra.dev'']), (''apiVersions'', jstrs [''v1'']),
          (''operations'', jstrs [''CREATE'', ''UPDATE'']), (''resources'', jstrs [resource]),
          (''scope'', JStr ''*'')]]),
       (''sideEffects'', JStr ''None''), (''timeoutSeconds'', JInt 30)]"

definition webhook_data :: "install_options \<Rightarrow> json list" where
  "webhook_data params =
     [JObj [(''apiVersion'', JStr ''v1''), (''kind'', JStr ''Service''),
        (''metadata'', json_dict [(''name'', ''gefyra-admission''), (''namespace'', io_namespace params)]),
        (''spec'', JObj [(''selector'', json_dict [(''gefyra.dev/app'', ''gefyra-operator''),
             (''gefyra.dev/role'', ''webhook'')]),
           (''ports'', JList [JObj [(''protocol'', JStr ''TCP''), (''port'', JInt 443),
             (''targetPort'', JInt 9443)]])])],
      JObj [(''apiVersion'', JStr ''admissionregistration.k8s.io/v1''),
        (''kind'', JStr ''ValidatingWebhookConfiguration''),
        (''metadata'', json_dict [(''name'', ''gefyra.dev'')]),
        (''webhooks'', JList
          [webhook_entry params ''/client-parameters'' ''client-parameters.gefyra.dev'' ''gefyraclients'',
           webhook_entry params ''/mount-parameters'' ''mount-parameters.gefyra.dev'' ''gefyrabridgemounts'',
           webhook_entry params ''/bridge-parameters'' ''bridge-parameters.gefyra.dev'' ''gefyrabridges''])]]"

subsection \<open>Operator\<close>

definition env_entry :: "string \<times> string \<Rightarrow> json" where
  "env_entry e = json_dict [(''name'', fst e), (''value'', snd e)]"

definition operator_labels :: "string \<Rightarrow> json" where
  "operator_labels role = json_dict [(''gefyra.dev/app'', ''gefyra-operator''), (''gefyra.dev/role'', role)]"

definition operator_env :: "install_options \<Rightarrow> string dict" where
  "operator_env params =
     [(''GEFYRA_STOWAWAY_IMAGE'', io_registry params @ ''/stowaway''),
      (''GEFYRA_STOWAWAY_TAG'', io_version params),
      (''GEFYRA_CARRIER_IMAGE'', io_registry params @ ''/carrier''),
      (''GEFYRA_CARRIER_IMAGE_TAG'', io_version params),
      (''GEFYRA_STOWAWAY_STORAGE'', number_text (io_stowaway_storage params)),
      (''GEFYRA_STOWAWAY_MAX_CONNECTION_AGE'', age_text (io_max_client_connection_age params)),
      (''GEFYRA_CARRIER2_IMAGE'', io_registry params @ ''/carrier2''),
      (''GEFYRA_CARRIER2_IMAGE_TAG'', io_version params),
      (''GEFYRA_CARRIER2_DEBUG'', bool_text (io_bridge_debug params)),
      (''GEFYRA_DISABLE_CLIENT_SA_MANAGEMENT'', bool_text (io_disable_client_sa_management params))]"

definition webhook_env :: "install_options \<Rightarrow> string dict" where
  "webhook_env params =
     [(''OP_MODE'', ''webhook''),
      (''GEFYRA_STOWAWAY_IMAGE'', io_registry params @ ''/stowaway''),
      (''GEFYRA_STOWAWAY_TAG'', io_version params),
      (''GEFYRA_CARRIER_IMAGE'', io_registry params @ ''/carrier''),
      (''GEFYRA_CARRIER_IMAGE_TAG'', io_version params),
      (''GEFYRA_STOWAWAY_STORAGE'', number_text (io_stowaway_storage params)),
      (''GEFYRA_STOWAWAY_MAX_CONNECTION_AGE'', age_text (io_max_client_connection_age params)),
      (''GEFYRA_DISABLE_CLIENT_SA_MANAGEMENT'', bool_text (io_disable_client_sa_management params))]"

text \<open>The two deployments have the same shape; the webhook has a liveness probe besides.\<close>

definition operator_deployment ::
    "install_options \<Rightarrow> string \<Rightarrow> string \<Rightarrow> string dict \<Rightarrow> (string \<times> json) list \<Rightarrow> json" where
  "operator_deployment params name role env probe =
     JObj [(''apiVersion'', JStr ''apps/v1''), (''kind'', JStr ''Deployment''),
       (''metadata'', JObj [(''name'', JStr name), (''namespace'', JStr (io_namespace params)),
          (''labels'', operator_labels role)]),
       (''spec'', JObj [(''replicas'', JInt 1),
          (''selector'', JObj [(''matchLabels'', operator_labels role)]),
          (''template'', JObj [(''metadata'', JObj [(''labels'', operator_labels role)]),
             (''spec'', JObj [(''serviceAccountName'', JStr ''gefyra-operator''),
                (''containers'', JList [JObj ([(''name'', JStr ''gefyra''),
                   (''image'', JStr (io_registry params @ ''/operator:'' @ io_version params)),
                   (''imagePullPolicy'', JStr ''IfNotPresent''),
                   (''ports'', JList [JObj [(''containerPort'', JInt 9443)]]),
                   (''env'', JList (map env_entry env))] @ probe)])])])])]"

definition webhook_probe :: "(string \<times> json) list" where
  "webhook_probe = [(''livenessProbe'', JObj
     [(''exec'', JObj [(''command'', jstrs [''python'', ''gefyra/healthcheck.py''])]),
      (''initialDelaySeconds'', JInt 5), (''periodSeconds'', JInt 5), (''timeoutSeconds'', JInt 3)])]"

definition deployment_data :: "install_options \<Rightarrow> json list" where
  "deployment_data params =
     [operator_deployment params ''gefyra-operator'' ''operator'' (operator_env params) [],
      operator_deployment params ''gefyra-operator-webhook'' ''webhook'' (webhook_env params) webhook_probe]"

subsection \<open>The service of Stowaway\<close>

definition STOWAWAY_SERVICE_LABELS :: "string dict" where
  "STOWAWAY_SERVICE_LABELS = [(''gefyra.dev/app'', ''stowaway''), (''gefyra.dev/role'', ''connection''),
     (''gefyra.dev/provider'', ''stowaway'')]"

text \<open>\<open>d.update(...)\<close> with a dictionary, or with a sequence whose elements must be pairs.\<close>

definition update_with :: "string dict \<Rightarrow> pairs_arg \<Rightarrow> exn + string dict" where
  "update_with d pairs = (case pairs of
       Pairs e \<Rightarrow> Inr (dupdate d e)
     | Groups gs \<Rightarrow> sbind (map_sum_list unpack2 gs) (\<lambda>e. Inr (dupdate d e)))"

definition no_pairs :: "pairs_arg \<Rightarrow> bool" where
  "no_pairs pairs \<longleftrightarrow> pairs \<in> {Pairs [], Groups []}"

text \<open>\<open>annotation[0]\<close> of what the loop over the argument yields: the first character of a key of a
  dictionary, the first value of a group.  \<open>None\<close> is the \<open>IndexError\<close>.\<close>

definition annotation_heads :: "pairs_arg \<Rightarrow> string option list" where
  "annotation_heads pairs = (case pairs of
       Pairs d \<Rightarrow> map (\<lambda>k. case k of [] \<Rightarrow> None | c # _ \<Rightarrow> Some [c]) (keys d)
     | Groups gs \<Rightarrow> map (\<lambda>g. case g of [] \<Rightarrow> None | s # _ \<Rightarrow> Some s) gs)"

fun annotate :: "pairs_arg \<Rightarrow> string option list \<Rightarrow> string dict \<Rightarrow> exn + string dict" where
  "annotate pairs [] d = Inr d"
| "annotate pairs (None # heads) d = Inl ValueError"
| "annotate pairs (Some a # heads) d =
     (case split (CHR ''='') a of
        [k, v] \<Rightarrow> annotate pairs heads (dset d k v)
      | _ \<Rightarrow> sbind (update_with d pairs) (\<lambda>d. annotate pairs heads d))"

definition service_ports :: "install_options \<Rightarrow> exn + string \<times> json" where
  "service_ports params =
     (if lower (io_service_type params) = ''nodeport'' then
        Inr (''NodePort'', JObj [(''name'', JStr ''gefyra-wireguard''), (''port'', JInt 51820),
          (''targetPort'', JInt 51820), (''nodePort'', number_json (io_service_port params)),
          (''protocol'', JStr ''UDP'')])
      else if lower (io_service_type params) = ''loadbalancer'' then
        Inr (''LoadBalancer'', JObj [(''name'', JStr ''gefyra-wireguard''),
          (''port'', number_json (io_service_port params)), (''targetPort'', JInt 51820),
          (''protocol'', JStr ''UDP'')])
      else Inl ValueError)"

definition service_data :: "install_options \<Rightarrow> exn + json list" where
  "service_data params =
     sbind (if no_pairs (io_service_labels params) then Inr STOWAWAY_SERVICE_LABELS
            else update_with STOWAWAY_SERVICE_LABELS (io_service_labels params)) (\<lambda>stowaway_labels.
     sbind (annotate (io_service_annotations params) (annotation_heads (io_service_annotations params)) [])
       (\<lambda>stowaway_annotations.
     sbind (service_ports params) (\<lambda>(type, port).
     Inr [JObj [(''apiVersion'', JStr ''v1''), (''kind'', JStr ''Service''),
       (''metadata'', JObj [(''name'', JStr ''gefyra-stowaway-wireguard''),
          (''namespace'', JStr (io_namespace params)), (''labels'', json_dict stowaway_labels),
          (''annotations'', json_dict stowaway_annotations)]),
       (''spec'', JObj [(''type'', JStr type), (''ports'', JList [port]),
          (''selector'', json_dict STOWAWAY_SERVICE_LABELS)])]])))"

section \<open>Generating the configuration\<close>

datatype component = NamespaceComp | RbacComp | WebhookComp | DeploymentComp | ServiceComp

definition COMPONENTS :: "component list" where
  "COMPONENTS = [NamespaceComp, RbacComp, WebhookComp, DeploymentComp, ServiceComp]"

fun component_name :: "component \<Rightarrow> string" where
  "component_name NamespaceComp = ''namespace''"
| "component_name RbacComp = ''rbac''"
| "component_name WebhookComp = ''webhook''"
| "component_name DeploymentComp = ''deployment''"
| "component_name ServiceComp = ''service''"

fun component_data :: "component \<Rightarrow> install_options \<Rightarrow> exn + json list" where
  "component_data NamespaceComp params = Inr (namespace_data params)"
| "component_data RbacComp params = Inr (rbac_data params)"
| "component_data WebhookComp params = Inr (webhook_data params)"
| "component_data DeploymentComp params = Inr (deployment_data params)"
| "component_data ServiceComp params = service_data params"

text \<open>\<open>req_comps = [comp]\<close>: the last component that is named.\<close>

definition requested_components :: "string list \<Rightarrow> exn + component list" where
  "requested_components components =
     (if components = [] then Inr COMPONENTS else
      (let req_comps = foldl (\<lambda>r comp. if component_name comp \<in> set components then [comp] else r) [] COMPONENTS in
       if req_comps = [] \<or> length req_comps \<noteq> length components then Inl RuntimeError else Inr req_comps))"

definition synthesize_config_as_dict :: "install_options \<Rightarrow> string list \<Rightarrow> exn + json list" where
  "synthesize_config_as_dict options components =
     sbind (requested_components components) (\<lambda>req_comps.
     sbind (map_sum_list (\<lambda>comp. component_data comp options) req_comps) (\<lambda>data. Inr (concat data)))"

definition yaml_separator :: string where
  "yaml_separator = CHR 0x0A # ''---'' @ [CHR 0x0A]"

definition synthesize_config_as_yaml ::
    "(json \<Rightarrow> string) \<Rightarrow> install_options \<Rightarrow> string list \<Rightarrow> exn + string" where
  "synthesize_config_as_yaml dump options components =
     sbind (synthesize_config_as_dict options components) (\<lambda>data.
     let docs = map dump data in
     if length docs > 1 then Inr (join yaml_separator docs) else nth_item docs 0)"

section \<open>The cluster as an administrator\<close>

text \<open>\<open>aa_create\<close> is \<open>create_from_dict\<close>; \<open>aa_event\<close> the reason of the next event of the watch,
  \<open>None\<close> when the stream has ended; \<open>aa_list\<close> the names of the resources of a kind.\<close>

record 'w admin_api =
  aa_create :: "json \<Rightarrow> ('w, unit) io"
  aa_ready_replicas :: "string \<Rightarrow> ('w, int option) io"
  aa_event :: "('w, string option) io"
  aa_namespace_phase :: "string \<Rightarrow> ('w, string) io"
  aa_patch_deployment :: "string \<Rightarrow> json \<Rightarrow> ('w, unit) io"
  aa_list :: "string \<Rightarrow> ('w, string list) io"
  aa_drop_finalizers :: "string \<Rightarrow> string \<Rightarrow> ('w, unit) io"
  aa_delete :: "string \<Rightarrow> string \<Rightarrow> ('w, unit) io"
  aa_delete_namespace :: "string \<Rightarrow> ('w, unit) io"
  aa_delete_crd :: "string \<Rightarrow> ('w, unit) io"
  aa_delete_cluster_role :: "string \<Rightarrow> ('w, unit) io"
  aa_delete_cluster_role_binding :: "string \<Rightarrow> ('w, unit) io"
  aa_delete_webhook :: "string \<Rightarrow> ('w, unit) io"

definition is_operator_running :: "'w admin_api \<Rightarrow> ('w, bool) io" where
  "is_operator_running A =
     try_except (bind (aa_ready_replicas A ''gefyra-operator'') (\<lambda>n. ret (n = Some 1)))
       (\<lambda>e. if is_api_exception e then ret False else raise e)"

section \<open>install\<close>

text \<open>The keyword arguments that are given; absent and \<open>None\<close> are the same.\<close>

record install_args =
  ia_namespace :: "string option"
  ia_version :: "string option"
  ia_service_type :: "string option"
  ia_service_port :: "number_arg option"
  ia_service_labels :: "pairs_arg option"
  ia_service_annotations :: "pairs_arg option"
  ia_registry :: "string option"
  ia_mtu :: "number_arg option"
  ia_stowaway_storage :: "number_arg option"
  ia_max_client_connection_age :: "number_arg option"
  ia_disable_client_sa_management :: "bool option"
  ia_bridge_debug :: "bool option"

definition no_args :: install_args where
  "no_args = \<lparr>ia_namespace = None, ia_version = None, ia_service_type = None, ia_service_port = None,
     ia_service_labels = None, ia_service_annotations = None, ia_registry = None, ia_mtu = None,
     ia_stowaway_storage = None, ia_max_client_connection_age = None,
     ia_disable_client_sa_management = None, ia_bridge_debug = None\<rparr>"

definition given_or :: "'a option \<Rightarrow> 'a \<Rightarrow> 'a" where
  "given_or a d = (case a of None \<Rightarrow> d | Some v \<Rightarrow> v)"

definition override_options :: "install_options \<Rightarrow> install_args \<Rightarrow> install_options" where
  "override_options o1 a =
     \<lparr>io_namespace = given_or (ia_namespace a) (io_namespace o1),
      io_version = given_or (ia_version a) (io_version o1),
      io_service_type = given_or (ia_service_type a) (io_service_type o1),
      io_service_port = given_or (ia_service_port a) (io_service_port o1),
      io_service_labels = given_or (ia_service_labels a) (io_service_labels o1),
      io_service_annotations = given_or (ia_service_annotations a) (io_service_annotations o1),
      io_registry = given_or (ia_registry a) (io_registry o1),
      io_mtu = (case ia_mtu a of None \<Rightarrow> io_mtu o1 | Some m \<Rightarrow> Some m),
      io_stowaway_storage = given_or (ia_stowaway_storage a) (io_stowaway_storage o1),
      io_max_client_connection_age = (case ia_max_client_connection_age a of
          None \<Rightarrow> io_max_client_connection_age o1 | Some m \<Rightarrow> Some m),
      io_disable_client_sa_management =
        given_or (ia_disable_client_sa_management a) (io_disable_client_sa_management o1),
      io_bridge_debug = given_or (ia_bridge_debug a) (io_bridge_debug o1)\<rparr>"

definition LB_PRESETS :: "install_options dict" where
  "LB_PRESETS =
     [(''aws'', GefyraInstallOptions\<lparr>io_service_type := ''LoadBalancer'', io_service_annotations := Pairs
        [(''service.beta.kubernetes.io/aws-load-balancer-type'', ''nlb''),
         (''service.beta.kubernetes.io/aws-load-balancer-nlb-target-type'', ''ip''),
         (''service.beta.kubernetes.io/aws-load-balancer-scheme'', ''internet-facing'')]\<rparr>),
      (''gke'', GefyraInstallOptions\<lparr>io_service_type := ''LoadBalancer'', io_service_annotations := Pairs []\<rparr>)]"

definition install_options_for :: "string option \<Rightarrow> install_args \<Rightarrow> exn + install_options" where
  "install_options_for preset args =
     (if given preset then
        (case dget LB_PRESETS (or_else preset []) of
           None \<Rightarrow> Inl RuntimeError | Some presetoptions \<Rightarrow> Inr (override_options presetoptions args))
      else Inr (override_options GefyraInstallOptions args))"

text \<open>Everything the check of the namespace raises is dropped, its own error included.\<close>

definition check_namespace :: "'w admin_api \<Rightarrow> ('w, unit) io" where
  "check_namespace A =
     try_except (bind (aa_namespace_phase A ''gefyra'') (\<lambda>phase.
         if lower phase \<noteq> ''active'' then raise ClusterError else ret ()))
       (\<lambda>_. ret ())"

fun json_get :: "json \<Rightarrow> string \<Rightarrow> exn + json" where
  "json_get (JObj d) k = item d k"
| "json_get _ k = Inl TypeError"

definition is_operator_deployment :: "json \<Rightarrow> exn + bool" where
  "is_operator_deployment objs =
     sbind (json_get objs ''kind'') (\<lambda>kind.
     if kind \<noteq> JStr ''Deployment'' then Inr False else
     sbind (json_get objs ''metadata'') (\<lambda>metadata.
     sbind (json_get metadata ''name'') (\<lambda>name. Inr (name = JStr ''gefyra-operator''))))"

text \<open>One object of the loop, with the variable \<open>wait\<close>.  Only the creation can raise
  \<open>FailToCreateError\<close>; 409 and 422 are objects that exist.\<close>

definition apply_object :: "'w admin_api \<Rightarrow> bool \<Rightarrow> json \<Rightarrow> ('w, bool) io" where
  "apply_object A wait objs =
     bind (of_sum (is_operator_deployment objs)) (\<lambda>op.
     bind (if op then bind (is_operator_running A) (\<lambda>running. ret (\<not> running)) else ret wait) (\<lambda>wait.
     thn (try_except (aa_create A objs)
            (\<lambda>e. case e of FailToCreateError status \<Rightarrow> if status \<in> {409, 422} then ret () else raise ClusterError
                 | _ \<Rightarrow> raise e))
     (ret wait)))"

text \<open>The watch ends with both events or with the stream; otherwise it blocks (\<open>None\<close>).\<close>

partial_function (option) await_ready_events ::
    "'w admin_api \<Rightarrow> bool \<Rightarrow> bool \<Rightarrow> 'w \<Rightarrow> ((exn + unit) \<times> 'w) option" where
  "await_ready_events A operator_ready operator_webhook_ready w =
     (case aa_event A w of
        (Inl e, w1) \<Rightarrow> Some (Inl e, w1)
      | (Inr None, w1) \<Rightarrow> Some (Inr (), w1)
      | (Inr (Some reason), w1) \<Rightarrow>
          (let op = (operator_ready \<or> reason = ''Gefyra-Ready'');
               wh = (operator_webhook_ready \<or> reason = ''Gefyra-Webhook-Ready'') in
           if op \<and> wh then Some (Inr (), w1) else await_ready_events A op wh w1))"

primrec await_webhook :: "'w machine \<Rightarrow> 'w admin_api \<Rightarrow> nat \<Rightarrow> ('w, unit) io" where
  "await_webhook M A 0 = raise ClusterError"
| "await_webhook M A (Suc n) =
     bind (aa_ready_replicas A ''gefyra-operator-webhook'') (\<lambda>ready.
     if ready = Some 1 then ret () else thn (mc_sleep M 1000) (await_webhook M A n))"

text \<open>All of \<open>install\<close> up to the waiting: the generated text and whether to wait.\<close>

definition install_objects ::
    "'w machine \<Rightarrow> 'w admin_api \<Rightarrow> (json \<Rightarrow> string) \<Rightarrow> string list \<Rightarrow> string option \<Rightarrow> bool \<Rightarrow> bool
     \<Rightarrow> string option \<Rightarrow> string option \<Rightarrow> install_args \<Rightarrow> ('w, string \<times> bool) io" where
  "install_objects M A dump component preset apply wait kubeconfig kubecontext args =
     bind (ClientConfiguration M (default_args\<lparr>ar_kube_config_file := kubeconfig,
             ar_kube_context := kubecontext, ar_ignore_docker := True,
             ar_registry := Some (or_empty (ia_registry args)),
             ar_wireguard_mtu := map_option number_text (ia_mtu args)\<rparr>)) (\<lambda>_.
     bind (of_sum (install_options_for preset args)) (\<lambda>options.
     bind (of_sum (synthesize_config_as_yaml dump options component)) (\<lambda>output.
     if apply then
       thn (check_namespace A)
       (bind (of_sum (synthesize_config_as_dict options component)) (\<lambda>objects.
        bind (fold_io (apply_object A) wait objects) (\<lambda>wait. ret (output, wait))))
     else ret (output, False))))"

definition install ::
    "'w machine \<Rightarrow> 'w admin_api \<Rightarrow> (json \<Rightarrow> string) \<Rightarrow> string list \<Rightarrow> string option \<Rightarrow> bool \<Rightarrow> bool
     \<Rightarrow> string option \<Rightarrow> string option \<Rightarrow> install_args \<Rightarrow> 'w \<Rightarrow> ((exn + string) \<times> 'w) option" where
  "install M A dump component preset apply wait kubeconfig kubecontext args w =
     (case install_objects M A dump component preset apply wait kubeconfig kubecontext args w of
        (Inl e, w1) \<Rightarrow> Some (Inl e, w1)
      | (Inr (output, wait), w1) \<Rightarrow>
          if \<not> wait then Some (Inr output, w1) else
          (case await_ready_events A False False w1 of
             None \<Rightarrow> None
           | Some (Inl e, w2) \<Rightarrow> Some (Inl e, w2)
           | Some (Inr _, w2) \<Rightarrow> Some (thn (await_webhook M A 20) (ret output) w2)))"

section \<open>operator update\<close>

definition container_patch :: "(string \<times> json) list \<Rightarrow> json" where
  "container_patch settings =
     JObj [(''spec'', JObj [(''template'', JObj [(''spec'', JObj
       [(''containers'', JList [JObj ((''name'', JStr ''gefyra'') # settings)])])])])]"

definition update_patches :: "client_config \<Rightarrow> string \<Rightarrow> json list" where
  "update_patches cfg version =
     [container_patch [(''image'', JStr (hd (split (CHR '':'') (cf_OPERATOR_IMAGE cfg)) @ '':'' @ version))],
      container_patch [(''env'', JList [env_entry (''GEFYRA_STOWAWAY_TAG'', version)])],
      container_patch [(''env'', JList [env_entry (''GEFYRA_CARRIER_IMAGE_TAG'', version)])]]"

definition operator_update ::
    "'w machine \<Rightarrow> 'w admin_api \<Rightarrow> string option \<Rightarrow> string option \<Rightarrow> string option \<Rightarrow> ('w, bool) io" where
  "operator_update M A version kubeconfig kubecontext =
     bind (ClientConfiguration M (default_args\<lparr>ar_kube_config_file := kubeconfig,
             ar_kube_context := kubecontext\<rparr>)) (\<lambda>cfg.
     thn (check_namespace A)
     (thn (for_each (\<lambda>name. for_each (aa_patch_deployment A name) (update_patches cfg (or_else version VERSION)))
             [''gefyra-operator'', ''gefyra-operator-webhook''])
     (ret True)))"

section \<open>uninstall\<close>

definition remove_all_clients :: "'w machine \<Rightarrow> ('w, unit) io" where
  "remove_all_clients M =
     bind (list_client M None None) (\<lambda>clients.
     for_each (\<lambda>c. thn (delete_client M (go_client_id c) True None None None True None) (ret ())) clients)"

text \<open>\<open>remove_remainder_bridge_mounts\<close> and \<open>remove_remainder_bridges\<close>: without their finalizers, so that
  no operator is needed to delete them.\<close>

definition remove_remainder :: "'w admin_api \<Rightarrow> string \<Rightarrow> ('w, unit) io" where
  "remove_remainder A plural =
     bind (try_except (aa_list A plural) (\<lambda>e. if is_api_exception e then ret [] else raise e)) (\<lambda>names.
     for_each (\<lambda>name.
       try_except (thn (aa_drop_finalizers A plural name) (aa_delete A plural name)) swallow_api_exception) names)"

definition remove_remainder_bridge_mounts :: "'w admin_api \<Rightarrow> ('w, unit) io" where
  "remove_remainder_bridge_mounts A = remove_remainder A ''gefyrabridgemounts''"

definition remove_remainder_bridges :: "'w admin_api \<Rightarrow> ('w, unit) io" where
  "remove_remainder_bridges A = remove_remainder A ''gefyrabridges''"

definition remove_gefyra_namespace :: "'w admin_api \<Rightarrow> ('w, unit) io" where
  "remove_gefyra_namespace A =
     try_except (aa_delete_namespace A ''gefyra'') (\<lambda>e. if status_of e = Some 404 then ret () else raise e)"

definition remove_gefyra_crds :: "'w admin_api \<Rightarrow> ('w, unit) io" where
  "remove_gefyra_crds A =
     for_each (\<lambda>crd. try_except (aa_delete_crd A crd) swallow_api_exception)
       [''gefyrabridges.gefyra.dev'', ''gefyraclients.gefyra.dev'', ''gefyrabridgemounts.gefyra.dev'']"

definition remove_gefyra_rbac :: "'w admin_api \<Rightarrow> ('w, unit) io" where
  "remove_gefyra_rbac A =
     thn (try_except (aa_delete_cluster_role A ''gefyra:operator'') swallow_api_exception)
     (thn (try_except (aa_delete_cluster_role_binding A ''gefyra-operator'') swallow_api_exception)
     (try_except (aa_delete_webhook A ''gefyra.dev'') swallow_api_exception))"

definition tolerated :: "exn \<Rightarrow> bool" where
  "tolerated e \<longleftrightarrow> is_api_exception e \<or> is_runtime_error e \<or> is_os_error e \<or> e = ValueError"

definition uninstall :: "'w machine \<Rightarrow> 'w admin_api \<Rightarrow> string option \<Rightarrow> string option \<Rightarrow> ('w, unit) io" where
  "uninstall M A kubeconfig kubecontext =
     bind (ClientConfiguration M (default_args\<lparr>ar_kube_config_file := kubeconfig,
             ar_kube_context := kubecontext\<rparr>)) (\<lambda>_.
     for_each (\<lambda>step. try_except step (\<lambda>e. if tolerated e then ret () else raise e))
       [remove_remainder_bridge_mounts A, remove_remainder_bridges A, remove_all_clients M,
        remove_gefyra_namespace A, remove_gefyra_crds A, remove_gefyra_rbac A])"

end
