(* ===== verification/MemLocal.thy ===== *)
theory MemLocal
  imports LocalInstall
begin

text \<open>
  A Docker engine without containers, a machine without connections and a cluster that accepts
  everything: the concrete parameters of the witnesses for the commands of the client.
\<close>

definition idle_docker :: "'w docker_api" where
  "idle_docker = \<lparr>dk_containers = (\<lambda>l. ret []), dk_container = (\<lambda>n. raise (DockerError 404)),
     dk_create_container = (\<lambda>r. raise (DockerError 500)), dk_run = (\<lambda>r. raise (DockerError 500)),
     dk_start = (\<lambda>n. ret ()), dk_stop = (\<lambda>n. ret ()), dk_kill = (\<lambda>n. ret ()), dk_remove = (\<lambda>n f. ret ()),
     dk_exec = (\<lambda>n c. ret (0, [])), dk_image = (\<lambda>n. ret ()), dk_pull = (\<lambda>r t p. ret ()),
     dk_network = (\<lambda>n. raise (DockerError 404)), dk_create_network = (\<lambda>r. raise (DockerError 500)),
     dk_remove_network = (\<lambda>i. ret ()), dk_connect = (\<lambda>n c ip. ret ())\<rparr>"

definition idle_clients :: "'w client_api" where
  "idle_clients = \<lparr>ca_create = (\<lambda>b. raise (ApiException 500)), ca_get = (\<lambda>n. raise (ApiException 404)),
     ca_list = ret [], ca_patch = (\<lambda>n p. ret ()), ca_delete = (\<lambda>n. ret ()), ca_drop_finalizers = (\<lambda>n. ret ())\<rparr>"

definition idle_machine :: "'w machine" where
  "idle_machine = \<lparr>mc_docker = idle_docker, mc_clients = idle_clients, mc_win32 = False,
     mc_release = ''6.1'', mc_system = ''Linux'', mc_home = ''/root'', mc_docker0 = ret ''172.17.0.1'',
     mc_host_internal = ret [], mc_isfile = (\<lambda>f. ret True), mc_mkdir = (\<lambda>f. ret ()), mc_write = (\<lambda>f s. ret ()),
     mc_unlink = (\<lambda>f. ret ()), mc_kube_default = ''~/.kube/config'', mc_active_context = (\<lambda>f. ret None),
     mc_api_url = ''https://1.2.3.4'', mc_resolve = (\<lambda>h. ret True), mc_time = ret 0, mc_sleep = (\<lambda>n. ret ()),
     mc_uuid4 = ret ''a-b'', mc_b64decode = Inr, mc_service = (\<lambda>n. raise (ApiException 404)),
     mc_nodes = ret [], mc_minikube = (\<lambda>p. raise OSError)\<rparr>"

lemma idle_machine_simps [simp]: "mc_docker idle_machine = idle_docker" "mc_clients idle_machine = idle_clients"
  by (simp_all add: idle_machine_def)

lemma idle_docker_simps [simp]: "dk_containers idle_docker l = ret []"
  "dk_container idle_docker n = raise (DockerError 404)"
  by (simp_all add: idle_docker_def)

definition idle_admin :: "'w admin_api" where
  "idle_admin = \<lparr>aa_create = (\<lambda>j. ret ()), aa_ready_replicas = (\<lambda>n. ret None), aa_event = ret None,
     aa_namespace_phase = (\<lambda>n. raise AttributeError), aa_patch_deployment = (\<lambda>n p. ret ()),
     aa_list = (\<lambda>p. ret []), aa_drop_finalizers = (\<lambda>p n. ret ()), aa_delete = (\<lambda>p n. ret ()),
     aa_delete_namespace = (\<lambda>n. ret ()), aa_delete_crd = (\<lambda>n. ret ()), aa_delete_cluster_role = (\<lambda>n. ret ()),
     aa_delete_cluster_role_binding = (\<lambda>n. ret ()), aa_delete_webhook = (\<lambda>n. ret ())\<rparr>"

section \<open>A running container\<close>

definition app_container :: "string \<Rightarrow> docker_container" where
  "app_container status = \<lparr>dc_id = ''1'', dc_short_id = ''1'', dc_name = ''app'', dc_status = status,
     dc_networks = [(''gefyra-network-default'', ''172.20.0.5'')], dc_dns_search = None, dc_labels = [], dc_created = None\<rparr>"

definition running_docker :: "'w docker_api" where
  "running_docker = idle_docker\<lparr>
     dk_network := (\<lambda>n. ret \<lparr>dn_id = ''n'', dn_name = n, dn_subnet = ''172.20.0.0/16'', dn_labels = [], dn_containers = []\<rparr>),
     dk_run := (\<lambda>q. ret (app_container ''created'')), dk_container := (\<lambda>n. ret (app_container ''running''))\<rparr>"

definition running_machine :: "'w machine" where
  "running_machine = idle_machine\<lparr>mc_docker := running_docker\<rparr>"

lemma running_machine_simps [simp]: "mc_docker running_machine = running_docker"
  "mc_sleep running_machine t = ret ()" "mc_uuid4 running_machine = ret ''a-b''"
  "dk_container running_docker n = ret (app_container ''running'')"
  "dk_run running_docker q = ret (app_container ''created'')"
  "dk_exec running_docker n c = ret (0, [])"
  by (simp_all add: running_machine_def idle_machine_def running_docker_def idle_docker_def)

lemma app_status: "dc_status (app_container s) = s"
  by (simp add: app_container_def)

lemma running_docker_lists [simp]: "dk_containers running_docker l = ret []"
  "dk_remove running_docker c f = ret ()"
  by (simp_all add: running_docker_def idle_docker_def)

text \<open>The configuration for the connection \<open>default\<close> on a machine without connections.\<close>

lemma default_connection:
  fixes M :: "'w machine"
  assumes "\<And>l. dk_containers (mc_docker M) l = ret []"
  shows "\<exists>cfg. (\<forall>w. ClientConfiguration M (default_args\<lparr>ar_connection_name := Some ''default''\<rparr>) w = (Inr cfg, w))
    \<and> cf_NETWORK_NAME cfg = ''gefyra-network-default'' \<and> cf_CLIENT_ID cfg = Some []
    \<and> cf_CARGO_CONTAINER_NAME cfg = ''gefyra-cargo-default'' \<and> cf_CARGO_PROBE_TIMEOUT cfg = 20"
  using assms by (simp add: ClientConfiguration_def default_args_def given_def Let_def bind_def initial_config_def
      or_else_def either_def)

section \<open>Bridges in memory\<close>

definition idle_mounts :: "'w mount_api" where
  "idle_mounts = \<lparr>ma_create = (\<lambda>b. raise (ApiException 500)), ma_get = (\<lambda>n. raise (ApiException 404)),
     ma_list = ret [], ma_delete = (\<lambda>n. ret ()), ma_drop_finalizers = (\<lambda>n. ret ()),
     ma_random_string = (\<lambda>n. ret ''abcde''), ma_sleep = (\<lambda>n. ret ())\<rparr>"

end
