(* ===== verification/InstallProperties.thy ===== *)
theory InstallProperties
  imports MemLocal
begin

text \<open>
  What the installation promises: the objects generated from the options, the operator they start, the
  service Stowaway is reached through, and what \<open>install\<close> and \<open>operator update\<close> do to a cluster.
\<close>

section \<open>Reading generated objects\<close>

fun json_at :: "json \<Rightarrow> string list \<Rightarrow> exn + json" where
  "json_at j [] = Inr j"
| "json_at j (k # ks) = sbind (json_get j k) (\<lambda>x. json_at x ks)"

fun json_items :: "json \<Rightarrow> json list" where
  "json_items (JList xs) = xs"
| "json_items _ = []"

definition at :: "json \<Rightarrow> string list \<Rightarrow> json" where
  "at j path = (case json_at j path of Inl _ \<Rightarrow> JNull | Inr x \<Rightarrow> x)"

definition find_object :: "json list \<Rightarrow> string \<Rightarrow> string \<Rightarrow> json" where
  "find_object objs kind name =
     (case filter (\<lambda>j. at j [''kind''] = JStr kind \<and> at j [''metadata'', ''name''] = JStr name) objs of
        [] \<Rightarrow> JNull | j # _ \<Rightarrow> j)"

fun read_env :: "json list \<Rightarrow> string \<Rightarrow> string option" where
  "read_env [] k = None"
| "read_env (j # js) k =
     (case (at j [''name''], at j [''value'']) of
        (JStr n, JStr v) \<Rightarrow> if k = n then Some v else read_env js k
      | _ \<Rightarrow> read_env js k)"

text \<open>The environment of the first container of a deployment.\<close>

definition deployment_env :: "json \<Rightarrow> string \<Rightarrow> string option" where
  "deployment_env j = (case json_items (at j [''spec'', ''template'', ''spec'', ''containers'']) of
       [] \<Rightarrow> (\<lambda>_. None) | c # _ \<Rightarrow> read_env (json_items (at c [''env''])))"

lemma read_env_entries: "read_env (map env_entry d) = dget d"
  by (rule ext, induction d) (auto simp: env_entry_def json_dict_def at_def item_def)

lemma read_deployment:
  "deployment_env (operator_deployment params name role env probe) = dget env"
  "at (operator_deployment params name role env probe) [''kind''] = JStr ''Deployment''"
  "at (operator_deployment params name role env probe) [''metadata'', ''name''] = JStr name"
  by (simp_all add: deployment_env_def operator_deployment_def at_def item_def read_env_entries)

lemma synthesize_single:
  "synthesize_config_as_dict options [component_name c] = component_data c options"
  by (cases c) (auto simp: synthesize_config_as_dict_def requested_components_def COMPONENTS_def sbind_def split: sum.split)

lemma find_operator:
  assumes "synthesize_config_as_dict options comps = Inr objs" and "comps \<in> {[], [''deployment'']}"
  shows "find_object objs ''Deployment'' ''gefyra-operator'' =
    operator_deployment options ''gefyra-operator'' ''operator'' (operator_env options) []"
  using assms synthesize_single [of options DeploymentComp]
  apply (auto simp: synthesize_config_as_dict_def requested_components_def COMPONENTS_def deployment_data_def
     find_object_def read_deployment)
  apply (auto simp: namespace_data_def rbac_data_def webhook_data_def at_def item_def json_dict_def)
  done

section \<open>The operator\<close>

text \<open>C7: The operator that \<open>install\<close> deploys runs with the images, the tag, the storage, the maximal age of
  connections and the two flags of the options; everything else keeps its default, whatever namespace,
  service port or MTU was asked for.\<close>

theorem operator_configured_as_installed:
  assumes "to_bool ''True'' = Inr True" and "to_bool ''False'' = Inr False"
    and storage: "py_int (number_text (io_stowaway_storage options)) = Inr storage"
    and age: "py_int (age_text (io_max_client_connection_age options)) = Inr age"
    and "synthesize_config_as_dict options comps = Inr objs" and "comps \<in> {[], [''deployment'']}"
  shows "OperatorConfiguration to_bool (deployment_env (find_object objs ''Deployment'' ''gefyra-operator'')) =
    Inr (default_configuration
      \<lparr>STOWAWAY_IMAGE := io_registry options @ ''/stowaway'', STOWAWAY_TAG := io_version options,
       STOWAWAY_STORAGE := storage, STOWAWAY_MAX_CONNECTION_AGE := age,
       CARRIER_IMAGE := io_registry options @ ''/carrier'', CARRIER_IMAGE_TAG := io_version options,
       CARRIER2_IMAGE := io_registry options @ ''/carrier2'', CARRIER2_IMAGE_TAG := io_version options,
       CARRIER2_DEBUG := io_bridge_debug options,
       DISABLE_CLIENT_SA_MANAGEMENT := io_disable_client_sa_management options\<rparr>)"
proof -
  have b: "to_bool (bool_text x) = Inr x" for x
    using assms(1,2) by (cases x) (simp_all add: bool_text_def)
  have n: "age_text (io_max_client_connection_age options) \<noteq> []"
    using age by (auto simp: py_int_def)
  show ?thesis
    unfolding find_operator [OF assms(5,6)] read_deployment operator_env_def
    by (simp add: OperatorConfiguration_def config_int_def config_str_def config_age_def config_bool_def
        storage age b n default_configuration_def)
qed


theorem operator_configured_as_installed_witness:
  "OperatorConfiguration (\<lambda>s. Inr (s = ''True'')) (deployment_env (find_object
     (deployment_data (GefyraInstallOptions\<lparr>io_max_client_connection_age := Some (Num 60)\<rparr>))
     ''Deployment'' ''gefyra-operator'')) =
   Inr (default_configuration
      \<lparr>STOWAWAY_IMAGE := ''quay.io/gefyra'' @ ''/stowaway'', STOWAWAY_TAG := VERSION,
       STOWAWAY_STORAGE := 64, STOWAWAY_MAX_CONNECTION_AGE := 60,
       CARRIER_IMAGE := ''quay.io/gefyra'' @ ''/carrier'', CARRIER_IMAGE_TAG := VERSION,
       CARRIER2_IMAGE := ''quay.io/gefyra'' @ ''/carrier2'', CARRIER2_IMAGE_TAG := VERSION,
       CARRIER2_DEBUG := False, DISABLE_CLIENT_SA_MANAGEMENT := False\<rparr>)"
proof -
  let ?o = "GefyraInstallOptions\<lparr>io_max_client_connection_age := Some (Num 60)\<rparr>"
  have "synthesize_config_as_dict ?o [''deployment''] = Inr (deployment_data ?o)"
    using synthesize_single [of ?o DeploymentComp] by simp
  from operator_configured_as_installed [where to_bool = "\<lambda>s. Inr (s = ''True'')", OF _ _ _ _ this, of 64 60]
  show ?thesis by (simp add: GefyraInstallOptions_def age_text_def)
qed

section \<open>Components\<close>

lemma no_two_components:
  "length (foldl (\<lambda>r comp. if P comp then [comp] else r) r cs) \<le> max (length r) (1::nat)"
proof (induction cs arbitrary: r)
  case (Cons c cs)
  from Cons [of "[c]"] Cons [of r] show ?case by auto
qed simp

definition all_components :: "install_options \<Rightarrow> exn + json list" where
  "all_components options = sbind (service_data options) (\<lambda>service. Inr
     (namespace_data options @ rbac_data options @ webhook_data options @ deployment_data options @ service))"

lemma synthesize_exact:
  "synthesize_config_as_dict options comps =
    (if comps = [] then all_components options
     else case filter (\<lambda>c. comps = [component_name c]) COMPONENTS of
       [] \<Rightarrow> Inl RuntimeError | c # _ \<Rightarrow> component_data c options)"
proof -
  consider "comps = []" | x where "comps = [x]" | x y zs where "comps = x # y # zs"
    by (cases comps rule: remdups_adj.cases) auto
  then show ?thesis
  proof cases
    case 1
    then show ?thesis by (cases "service_data options") (simp_all add: synthesize_config_as_dict_def requested_components_def
       COMPONENTS_def all_components_def)
  next
    case 2
    show ?thesis
    proof (cases "\<exists>c. x = component_name c")
      case True
      then obtain c where "x = component_name c" by blast
      with 2 synthesize_single [of options c] show ?thesis by (cases c) (simp_all add: COMPONENTS_def)
    next
      case False
      then have n: "component_name c \<noteq> x" "x \<noteq> component_name c" for c by metis+
      from 2 show ?thesis
        by (simp add: n synthesize_config_as_dict_def requested_components_def COMPONENTS_def del: component_name.simps)
    qed
  next
    case 3
    then show ?thesis
      using no_two_components [of "\<lambda>comp. component_name comp \<in> set comps" "[]" COMPONENTS]
      by (auto simp: synthesize_config_as_dict_def requested_components_def Let_def)
  qed
qed

text \<open>The objects that are generated: those of all components, or those of the one component that is
  named.  Two components can never be selected.\<close>

theorem synthesize_components:
  "synthesize_config_as_dict options comps =
    (if comps = [] then all_components options
     else case filter (\<lambda>c. comps = [component_name c]) COMPONENTS of
       [] \<Rightarrow> Inl RuntimeError | c # _ \<Rightarrow> component_data c options)"
  by (rule synthesize_exact)

section \<open>The service of Stowaway\<close>

text \<open>The service for WireGuard has the name under which the operator looks for it, selects exactly the
  pods of the Stowaway the operator creates, whatever labels were asked for, and leads to the port that
  Stowaway opens.\<close>

theorem wireguard_service_reaches_stowaway:
  assumes "service_data options = Inr objs"
  shows "\<exists>svc port. objs = [svc] \<and> at svc [''spec'', ''ports''] = JList [port]
    \<and> at svc [''metadata'', ''name''] = JStr (svc_name (create_stowaway_nodeport_service cfg sts))
    \<and> at svc [''spec'', ''selector''] = json_dict (template_selector (create_stowaway_statefulset STOWAWAY_LABELS cfg))
    \<and> (\<exists>cp \<in> set (given_or (c_ports (stowaway_container cfg)) []).
         at port [''targetPort''] = JInt (cp_container_port cp) \<and> map_option JStr (cp_protocol cp) = Some (at port [''protocol'']))"
  using assms
  by (auto simp: service_data_def service_ports_def at_def item_def STOWAWAY_SERVICE_LABELS_def STOWAWAY_LABELS_def
     template_selector_def create_stowaway_statefulset_def create_stowaway_nodeport_service_def stowaway_container_def given_or_def
     split: if_splits)
theorem wireguard_service_reaches_stowaway_witness:
  "\<exists>svc port. service_data (GefyraInstallOptions\<lparr>io_service_labels := Pairs [(''gefyra.dev/app'', ''x'')]\<rparr>) = Inr [svc]
    \<and> at svc [''spec'', ''ports''] = JList [port]
    \<and> at svc [''spec'', ''selector''] =
        json_dict (template_selector (create_stowaway_statefulset STOWAWAY_LABELS default_configuration))"
proof -
  let ?o = "GefyraInstallOptions\<lparr>io_service_labels := Pairs [(''gefyra.dev/app'', ''x'')]\<rparr>"
  have "lower ''NodePort'' = ''nodeport''" by code_simp
  then obtain objs where "service_data ?o = Inr objs"
    by (simp add: service_data_def GefyraInstallOptions_def no_pairs_def update_with_def annotation_heads_def
        service_ports_def)
  with wireguard_service_reaches_stowaway [OF this, of default_configuration] show ?thesis by fastforce
qed

definition key_value :: "string \<times> string \<Rightarrow> string list" where
  "key_value e = [fst e @ ''='' @ snd e]"

lemma split_key_value: "CHR ''='' \<notin> set k \<Longrightarrow> CHR ''='' \<notin> set v \<Longrightarrow> split (CHR ''='') (k @ CHR ''='' # v) = [k, v]"
  by (simp add: split_append)

lemma annotate_key_values:
  assumes "\<forall>(k, v) \<in> set kvs. CHR ''='' \<notin> set k \<and> CHR ''='' \<notin> set v"
  shows "annotate pairs (annotation_heads (Groups (map key_value kvs))) d = Inr (dupdate d kvs)"
  using assms by (induction kvs arbitrary: d) (auto simp: annotation_heads_def key_value_def split_key_value dupdate_def)

lemma update_key_values: "kvs \<noteq> [] \<Longrightarrow> update_with d (Groups (map key_value kvs)) = Inl ValueError"
  by (cases kvs) (simp_all add: update_with_def key_value_def)

text \<open>On the command line \<open>--service-annotations key=value\<close>, once per pair, gives exactly these
  annotations; \<open>--service-labels key=value\<close> is refused.\<close>

theorem cli_service_pairs:
  assumes "\<forall>(k, v) \<in> set kvs. CHR ''='' \<notin> set k \<and> CHR ''='' \<notin> set v" and "kvs \<noteq> []"
    and ports: "service_ports options = Inr p" and labels: "no_pairs (io_service_labels options)"
  shows "(\<exists>svc. service_data (options\<lparr>io_service_annotations := Groups (map key_value kvs)\<rparr>) = Inr [svc]
      \<and> at svc [''metadata'', ''annotations''] = json_dict (dupdate [] kvs))
    \<and> service_data (options\<lparr>io_service_labels := Groups (map key_value kvs)\<rparr>) = Inl ValueError"
proof -
  have p: "service_ports (options\<lparr>io_service_annotations := a\<rparr>) = Inr p" for a
    using ports by (auto simp: service_ports_def split: if_splits)
  have "\<exists>svc. service_data (options\<lparr>io_service_annotations := Groups (map key_value kvs)\<rparr>) = Inr [svc]
      \<and> at svc [''metadata'', ''annotations''] = json_dict (dupdate [] kvs)"
    using labels by (cases p) (simp add: service_data_def p annotate_key_values [OF assms(1)] at_def item_def)
  moreover have "service_data (options\<lparr>io_service_labels := Groups (map key_value kvs)\<rparr>) = Inl ValueError"
    using assms(2) by (simp add: service_data_def no_pairs_def update_key_values)
  ultimately show ?thesis ..
qed

theorem cli_service_pairs_witness:
  "(\<exists>svc. service_data (GefyraInstallOptions\<lparr>io_service_annotations := Groups (map key_value [(''a'', ''b'')])\<rparr>) = Inr [svc]
      \<and> at svc [''metadata'', ''annotations''] = json_dict (dupdate [] [(''a'', ''b'')]))
    \<and> service_data (GefyraInstallOptions\<lparr>io_service_labels := Groups (map key_value [(''a'', ''b'')])\<rparr>) = Inl ValueError"
proof -
  have "lower ''NodePort'' = ''nodeport''" by code_simp
  then have "\<exists>p. service_ports GefyraInstallOptions = Inr p"
    by (simp add: service_ports_def GefyraInstallOptions_def)
  then obtain p where "service_ports GefyraInstallOptions = Inr p" by blast
  then show ?thesis
    by (intro cli_service_pairs [where p = p]) (simp_all add: GefyraInstallOptions_def no_pairs_def)
qed

section \<open>operator update\<close>

text \<open>A strategic merge patch replaces the variables it names.\<close>

definition patch_env :: "(string \<Rightarrow> string option) \<Rightarrow> json \<Rightarrow> (string \<Rightarrow> string option)" where
  "patch_env env p = env ++ deployment_env p"

lemma deployment_env_patch:
  "deployment_env (container_patch [(''image'', i)]) = Map.empty"
  "deployment_env (container_patch [(''env'', JList (map env_entry es))]) = dget es"
  by (simp_all add: deployment_env_def container_patch_def at_def item_def read_env_entries
     fun_eq_iff)

lemma patched_configuration:
  assumes "OperatorConfiguration to_bool env = Inr cfg"
  shows "OperatorConfiguration to_bool (foldl patch_env env (update_patches client_cfg version)) =
     Inr (cfg\<lparr>STOWAWAY_TAG := version, CARRIER_IMAGE_TAG := version\<rparr>)"
proof -
  have e: "deployment_env (container_patch [(''env'', JList [env_entry (k, v)])]) = [k \<mapsto> v]" for k v
    using deployment_env_patch(2) [of "[(k, v)]"] by (simp add: fun_eq_iff)
  have "foldl patch_env env (update_patches client_cfg version) =
      env(''GEFYRA_STOWAWAY_TAG'' \<mapsto> version, ''GEFYRA_CARRIER_IMAGE_TAG'' \<mapsto> version)"
    by (simp add: update_patches_def patch_env_def e deployment_env_patch)
  with assms show ?thesis
    by (auto simp: OperatorConfiguration_def config_int_def config_str_def config_age_def config_bool_def)
qed
definition patches_env :: "'w admin_api \<Rightarrow> ('w \<Rightarrow> string \<Rightarrow> string \<Rightarrow> string option) \<Rightarrow> bool" where
  "patches_env A env \<longleftrightarrow>
     (\<forall>name p w. fst (aa_patch_deployment A name p w) = Inr ()
       \<and> env (snd (aa_patch_deployment A name p w)) = (env w)(name := patch_env (env w name) p))
   \<and> (\<forall>name w. env (snd (aa_namespace_phase A name w)) = env w)"

lemma patches_all:
  assumes "patches_env A env"
  shows "\<exists>w'. for_each (aa_patch_deployment A name) ps w = (Inr (), w')
    \<and> env w' = (env w)(name := foldl patch_env (env w name) ps)"
proof (induction ps arbitrary: w)
  case (Cons p ps)
  obtain w1 where 1: "aa_patch_deployment A name p w = (Inr (), w1)"
    and e: "env w1 = (env w)(name := patch_env (env w name) p)"
    using assms by (metis patches_env_def prod.collapse)
  from Cons.IH [of w1] e 1 show ?case by (auto simp: thn_Inr fun_eq_iff)
qed simp

lemma check_namespace_total:
  assumes "patches_env A env"
  shows "\<exists>w'. check_namespace A w = (Inr (), w') \<and> env w' = env w"
proof -
  have "env (snd (aa_namespace_phase A ''gefyra'' w)) = env w" using assms by (simp add: patches_env_def)
  then show ?thesis
    by (auto simp: check_namespace_def try_except_def bind_def split: prod.splits sum.splits)
qed

text \<open>C32: \<open>operator update\<close> sets the tags of Stowaway and of Carrier, and nothing else: the operator goes on
  installing the Carrier2 image of the old version.\<close>

theorem operator_update_outcome:
  assumes law: "patches_env A env"
    and cfg: "ClientConfiguration M (default_args\<lparr>ar_kube_config_file := kubeconfig, ar_kube_context := kubecontext\<rparr>) w
      = (Inr client_cfg, w0)"
    and op: "OperatorConfiguration to_bool (env w0 ''gefyra-operator'') = Inr cfg"
  shows "\<exists>w'. operator_update M A (Some (c # version)) kubeconfig kubecontext w = (Inr True, w')
    \<and> OperatorConfiguration to_bool (env w' ''gefyra-operator'') =
        Inr (cfg\<lparr>STOWAWAY_TAG := c # version, CARRIER_IMAGE_TAG := c # version\<rparr>)"
proof -
  let ?ps = "update_patches client_cfg (c # version)"
  obtain w1 where 1: "check_namespace A w0 = (Inr (), w1)" "env w1 = env w0"
    using check_namespace_total [OF law] by blast
  obtain w2 where 2: "for_each (aa_patch_deployment A ''gefyra-operator'') ?ps w1 = (Inr (), w2)"
    "env w2 = (env w1)(''gefyra-operator'' := foldl patch_env (env w1 ''gefyra-operator'') ?ps)"
    using patches_all [OF law] by blast
  obtain w3 where 3: "for_each (aa_patch_deployment A ''gefyra-operator-webhook'') ?ps w2 = (Inr (), w3)"
    "env w3 = (env w2)(''gefyra-operator-webhook'' := foldl patch_env (env w2 ''gefyra-operator-webhook'') ?ps)"
    using patches_all [OF law] by blast
  have "operator_update M A (Some (c # version)) kubeconfig kubecontext w = (Inr True, w3)"
    unfolding operator_update_def using cfg 1(1) 2(1) 3(1)
    by (simp add: bind_Inr thn_Inr or_else_def either_def)
  moreover have "env w3 ''gefyra-operator'' = foldl patch_env (env w0 ''gefyra-operator'') ?ps"
    using 1(2) 2(2) 3(2) by simp
  ultimately show ?thesis using patched_configuration [OF op] by simp
qed

theorem operator_update_outcome_witness:
  "\<exists>w'. operator_update idle_machine
        (idle_admin\<lparr>aa_patch_deployment := \<lambda>n p w. (Inr (), w(n := patch_env (w n) p))\<rparr>)
        (Some (CHR ''3'' # ''.0'')) None None (\<lambda>_. Map.empty) = (Inr True, w')
    \<and> OperatorConfiguration (\<lambda>_. Inl ValueError) (w' ''gefyra-operator'') =
        Inr (default_configuration\<lparr>STOWAWAY_TAG := CHR ''3'' # ''.0'', CARRIER_IMAGE_TAG := CHR ''3'' # ''.0''\<rparr>)"
proof -
  let ?A = "idle_admin\<lparr>aa_patch_deployment := \<lambda>n p w. (Inr (), w(n := patch_env (w n) p))\<rparr>"
  let ?w = "(\<lambda>_. Map.empty) :: string \<Rightarrow> string \<Rightarrow> string option"
  have l: "patches_env ?A id" by (simp add: patches_env_def idle_admin_def)
  obtain cfg where c: "ClientConfiguration idle_machine
      (default_args\<lparr>ar_kube_config_file := None, ar_kube_context := None\<rparr>) ?w = (Inr cfg, ?w)"
    by (simp add: ClientConfiguration_def default_args_def given_def Let_def bind_def)
  have o: "OperatorConfiguration (\<lambda>_. Inl ValueError) (id ?w ''gefyra-operator'') = Inr default_configuration"
    using default_configuration_eq by simp
  from operator_update_outcome [where env = id and to_bool = "\<lambda>_. Inl ValueError" and A = ?A, OF l c o] show ?thesis by simp
qed

section \<open>install\<close>

text \<open>A cluster that takes every object or has it already; \<open>add\<close> is the effect of an object that is
  sent on the observation \<open>applied\<close>.\<close>

definition sends :: "'w admin_api \<Rightarrow> ('w \<Rightarrow> 's) \<Rightarrow> (json \<Rightarrow> 's \<Rightarrow> 's) \<Rightarrow> bool \<Rightarrow> bool" where
  "sends A applied add up \<longleftrightarrow>
     (\<forall>j w. fst (aa_create A j w) \<in> {Inr (), Inl (FailToCreateError 409), Inl (FailToCreateError 422)}
        \<and> applied (snd (aa_create A j w)) = add j (applied w))
   \<and> (\<forall>w. fst (is_operator_running A w) = Inr up \<and> applied (snd (is_operator_running A w)) = applied w)
   \<and> (\<forall>w. applied (snd (check_namespace A w)) = applied w)"

text \<open>\<open>applied\<close> lists the objects sent.\<close>

definition installs :: "'w admin_api \<Rightarrow> ('w \<Rightarrow> json list) \<Rightarrow> bool \<Rightarrow> bool" where
  "installs A applied up \<longleftrightarrow> sends A applied (\<lambda>j js. js @ [j]) up"

lemma apply_object_result:
  assumes "sends A applied add up" and "is_operator_deployment j = Inr b"
  shows "\<exists>w'. apply_object A wait j w = (Inr (if b then \<not> up else wait), w') \<and> applied w' = add j (applied w)"
proof -
  have c: "\<exists>w2. try_except (aa_create A j) (\<lambda>e. case e of FailToCreateError status \<Rightarrow>
       if status \<in> {409, 422} then ret () else raise ClusterError | _ \<Rightarrow> raise e) w1 = (Inr (), w2)
       \<and> applied w2 = add j (applied w1)" for w1
  proof -
    obtain r w2 where c: "aa_create A j w1 = (r, w2)" by force
    from spec [OF spec [OF conjunct1 [OF assms(1) [unfolded sends_def]], of j], of w1] c
    have "r \<in> {Inr (), Inl (FailToCreateError 409), Inl (FailToCreateError 422)}" "applied w2 = add j (applied w1)"
      by simp_all
    with c show ?thesis by (auto simp: try_except_def)
  qed
  show ?thesis
  proof (cases b)
    case True
    obtain r w1 where r: "is_operator_running A w = (r, w1)" by force
    with conjunct1 [OF conjunct2 [OF assms(1) [unfolded sends_def]], rule_format, of w]
    have "is_operator_running A w = (Inr up, w1)" "applied w1 = applied w" by simp_all
    with c [of w1] True assms(2) show ?thesis by (auto simp: apply_object_def bind_Inr thn_Inr)
  next
    case False
    with c [of w] assms(2) show ?thesis by (auto simp: apply_object_def bind_Inr thn_Inr)
  qed
qed

lemma apply_objects_result:
  assumes "sends A applied add up" and "map_sum_list is_operator_deployment objs = Inr bs"
  shows "\<exists>w'. fold_io (apply_object A) wait objs w = (Inr (if True \<in> set bs then \<not> up else wait), w')
    \<and> applied w' = fold add objs (applied w)"
  using assms(2)
proof (induction objs arbitrary: wait w bs)
  case (Cons j objs)
  then obtain b bs' where b: "is_operator_deployment j = Inr b" "map_sum_list is_operator_deployment objs = Inr bs'"
    "bs = b # bs'" by auto
  obtain w1 where 1: "apply_object A wait j w = (Inr (if b then \<not> up else wait), w1)" "applied w1 = add j (applied w)"
    using apply_object_result [OF assms(1) b(1)] by blast
  from Cons.IH [OF b(2), of "if b then \<not> up else wait" w1] 1 b(3) show ?case
    by (cases b) (auto simp: bind_Inr)
qed simp

lemma operator_deployments:
  assumes "synthesize_config_as_dict options comps = Inr objs"
  shows "\<exists>bs. map_sum_list is_operator_deployment objs = Inr bs
    \<and> (True \<in> set bs \<longleftrightarrow> comps \<in> {[], [''deployment'']})"
proof -
  have d: "is_operator_deployment (operator_deployment options n r e p) = Inr (n = ''gefyra-operator'')" for n r e p
    by (simp add: is_operator_deployment_def operator_deployment_def item_def)
  have s: "service_data options = Inr js \<Longrightarrow> \<exists>j. js = [j] \<and> is_operator_deployment j = Inr False" for js
    by (auto simp: service_data_def is_operator_deployment_def item_def)
  have o: "map_sum_list is_operator_deployment (namespace_data options) = Inr [False]"
    "map_sum_list is_operator_deployment (rbac_data options) = Inr [False, False, False]"
    "map_sum_list is_operator_deployment (webhook_data options) = Inr [False, False]"
    by (simp_all add: namespace_data_def rbac_data_def webhook_data_def is_operator_deployment_def item_def)
  have o4: "map_sum_list is_operator_deployment (deployment_data options) = Inr [True, False]"
    by (simp add: deployment_data_def d)
  have app: "map_sum_list is_operator_deployment xs = Inr as \<Longrightarrow> map_sum_list is_operator_deployment ys = Inr bs \<Longrightarrow>
      map_sum_list is_operator_deployment (xs @ ys) = Inr (as @ bs)" for xs ys as bs
    by (induction xs arbitrary: as) auto
  consider "comps = []" | c where "comps = [component_name c]" | "comps \<noteq> []" "\<nexists>c. comps = [component_name c]" by blast
  then show ?thesis
  proof cases
    case 1
    with assms obtain js where js: "service_data options = Inr js"
      "objs = namespace_data options @ rbac_data options @ webhook_data options @ deployment_data options @ js"
      by (auto simp: synthesize_exact all_components_def)
    from s [OF js(1)] have "map_sum_list is_operator_deployment js = Inr [False]" by auto
    then show ?thesis using 1 js(2) app [OF o(1) app [OF o(2) app [OF o(3) app [OF o4]]]] by auto
  next
    case 2
    with assms have "component_data c options = Inr objs" by (simp add: synthesize_single)
    with 2 o o4 s show ?thesis by (cases c) auto
  next
    case 3
    then show ?thesis using assms by (auto simp: synthesize_exact split: list.splits dest!: filter_eq_ConsD)
  qed
qed

lemma fold_append_one: "fold (\<lambda>j js. js @ [j]) xs ys = ys @ xs"
  by (induction xs arbitrary: ys) auto

lemma install_sends_objects:
  assumes law: "sends A applied add up" and o: "install_options_for preset args = Inr options"
    and y: "synthesize_config_as_yaml dump options comps = Inr output"
  shows "\<exists>objs w'. synthesize_config_as_dict options comps = Inr objs
    \<and> install_objects M A dump comps preset True wait None kubecontext args w =
        (Inr (output, if comps \<in> {[], [''deployment'']} then \<not> up else wait), w')
    \<and> applied w' = fold add objs (applied w)"
proof -
  obtain objs where objs: "synthesize_config_as_dict options comps = Inr objs"
    using y by (auto simp: synthesize_config_as_yaml_def)
  obtain bs where bs: "map_sum_list is_operator_deployment objs = Inr bs"
     "True \<in> set bs \<longleftrightarrow> comps \<in> {[], [''deployment'']}"
    using operator_deployments [OF objs] by blast
  obtain cfg where c: "ClientConfiguration M (default_args\<lparr>ar_kube_config_file := None,
             ar_kube_context := kubecontext, ar_ignore_docker := True,
             ar_registry := Some (or_empty (ia_registry args)),
             ar_wireguard_mtu := map_option number_text (ia_mtu args)\<rparr>) w = (Inr cfg, w)"
    by (simp add: ClientConfiguration_def default_args_def Let_def given_def)
  have "fst (check_namespace A w) = Inr ()"
    by (simp add: check_namespace_def try_except_def split: prod.split sum.split)
  moreover have "applied (snd (check_namespace A w)) = applied w"
    by (rule conjunct2 [OF conjunct2 [OF law [unfolded sends_def]], rule_format])
  ultimately obtain w1 where 1: "check_namespace A w = (Inr (), w1)" "applied w1 = applied w"
    by (metis prod.collapse)
  obtain w2 where 2: "fold_io (apply_object A) wait objs w1 = (Inr (if True \<in> set bs then \<not> up else wait), w2)"
    "applied w2 = fold add objs (applied w1)"
    using apply_objects_result [OF law bs(1)] by blast
  show ?thesis
    using objs c 1 2 o y bs(2) by (auto simp: install_objects_def bind_Inr thn_Inr)
qed

text \<open>\<open>install --apply\<close> sends every generated object, in order, to a cluster that may have some of them
  already, and returns their text.  Whether it waits is decided by the operator when its deployment is
  among them, not by the option.\<close>

theorem install_applies_objects:
  assumes law: "installs A applied up" and o: "install_options_for preset args = Inr options"
    and y: "synthesize_config_as_yaml dump options comps = Inr output"
  shows "\<exists>objs w'. synthesize_config_as_dict options comps = Inr objs
    \<and> install_objects M A dump comps preset True wait None kubecontext args w =
        (Inr (output, if comps \<in> {[], [''deployment'']} then \<not> up else wait), w')
    \<and> applied w' = applied w @ objs"
  using install_sends_objects [OF law [unfolded installs_def] o y, of M wait kubecontext w]
  by (simp add: fold_append_one)

theorem install_applies_objects_witness:
  "\<exists>objs output w'. synthesize_config_as_dict GefyraInstallOptions [''namespace''] = Inr objs
    \<and> install_objects idle_machine (idle_admin\<lparr>aa_create := \<lambda>j w. (Inr (), w @ [j])\<rparr>) (\<lambda>_. ''x'') [''namespace''] None
        True False None None no_args [] = (Inr (output, False), w')
    \<and> w' = objs"
proof -
  let ?A = "idle_admin\<lparr>aa_create := \<lambda>j w. (Inr (), w @ [j])\<rparr>"
  have l: "installs ?A id False"
    by (simp add: installs_def sends_def idle_admin_def is_operator_running_def check_namespace_def try_except_def bind_def)
  have o: "install_options_for None no_args = Inr GefyraInstallOptions"
    by (simp add: install_options_for_def given_def override_options_def no_args_def given_or_def GefyraInstallOptions_def)
  have y: "synthesize_config_as_yaml (\<lambda>_. ''x'') GefyraInstallOptions [''namespace''] = Inr ''x''"
    using synthesize_single [of GefyraInstallOptions NamespaceComp]
    by (simp add: synthesize_config_as_yaml_def namespace_data_def nth_item_def)
  from install_applies_objects [where applied = id and up = False, OF l o y, of idle_machine False None "[]"] show ?thesis by auto
qed

end
