(* ===== verification/UninstallProperties.thy ===== *)
theory UninstallProperties
  imports InstallProperties
begin

text \<open>
  \<open>uninstall\<close> undoes \<open>install\<close>: on a cluster seen as the set of its objects, everything the installation
  created is gone, and nothing else is; an installation into another namespace than gefyra stays.
\<close>

section \<open>The objects of a cluster\<close>

type_synonym object_id = "string \<times> string option \<times> string"

definition cluster_kinds :: "string list" where
  "cluster_kinds = [''Namespace'', ''ClusterRole'', ''ClusterRoleBinding'', ''ValidatingWebhookConfiguration'',
     ''CustomResourceDefinition'']"

fun text_of :: "json \<Rightarrow> string" where
  "text_of (JStr s) = s"
| "text_of _ = []"

text \<open>Kind, namespace and name; the API server ignores a namespace on a kind without namespaces.\<close>

definition object_id :: "json \<Rightarrow> object_id" where
  "object_id j = (let kind = text_of (at j [''kind'']) in
     (kind, if kind \<in> set cluster_kinds then None else Some (text_of (at j [''metadata'', ''namespace''])),
      text_of (at j [''metadata'', ''name''])))"

definition in_gefyra :: "object_id set" where
  "in_gefyra = {x. fst (snd x) = Some ''gefyra''}"

definition gefyra_namespace :: object_id where
  "gefyra_namespace = (''Namespace'', None, ''gefyra'')"

definition gefyra_global :: "object_id set" where
  "gefyra_global = {(''ClusterRole'', None, ''gefyra:operator''), (''ClusterRoleBinding'', None, ''gefyra-operator''),
     (''ValidatingWebhookConfiguration'', None, ''gefyra.dev'')}
   \<union> (\<lambda>n. (''CustomResourceDefinition'', None, n)) `
       {''gefyrabridges.gefyra.dev'', ''gefyraclients.gefyra.dev'', ''gefyrabridgemounts.gefyra.dev''}"

definition gefyra_owned :: "object_id set" where
  "gefyra_owned = insert gefyra_namespace (in_gefyra \<union> gefyra_global)"

text \<open>A call that changes at most objects in the namespace, by removing them.\<close>

definition touches :: "('w \<Rightarrow> object_id set) \<Rightarrow> ('w, 'a) io \<Rightarrow> bool" where
  "touches stored m \<longleftrightarrow> (\<forall>w. stored (snd (m w)) \<subseteq> stored w \<and> stored w - in_gefyra \<subseteq> stored (snd (m w))
     \<and> (\<forall>e. fst (m w) = Inl e \<longrightarrow> tolerated e))"

text \<open>The deletion of a set of objects, with the error 404 if there is nothing to delete.\<close>

definition deletes :: "('w \<Rightarrow> object_id set) \<Rightarrow> object_id \<Rightarrow> object_id set \<Rightarrow> ('w, unit) io \<Rightarrow> bool" where
  "deletes stored x xs m \<longleftrightarrow> (\<forall>w.
     fst (m w) = (if x \<in> stored w then Inr () else Inl (ApiException 404))
   \<and> stored (snd (m w)) = (if x \<in> stored w then stored w - insert x xs else stored w))"

text \<open>The machine has no local connection.\<close>

definition removes :: "'w admin_api \<Rightarrow> 'w machine \<Rightarrow> ('w \<Rightarrow> object_id set) \<Rightarrow> bool" where
  "removes A M stored \<longleftrightarrow>
     deletes stored gefyra_namespace in_gefyra (aa_delete_namespace A ''gefyra'')
   \<and> (\<forall>n. deletes stored (''ClusterRole'', None, n) {} (aa_delete_cluster_role A n))
   \<and> (\<forall>n. deletes stored (''ClusterRoleBinding'', None, n) {} (aa_delete_cluster_role_binding A n))
   \<and> (\<forall>n. deletes stored (''ValidatingWebhookConfiguration'', None, n) {} (aa_delete_webhook A n))
   \<and> (\<forall>n. deletes stored (''CustomResourceDefinition'', None, n) {} (aa_delete_crd A n))
   \<and> (\<forall>p. touches stored (aa_list A p))
   \<and> (\<forall>p n. touches stored (aa_drop_finalizers A p n) \<and> touches stored (aa_delete A p n))
   \<and> touches stored (ca_list (mc_clients M))
   \<and> (\<forall>n. touches stored (ca_drop_finalizers (mc_clients M) n) \<and> touches stored (ca_delete (mc_clients M) n)
        \<and> touches stored (ca_get (mc_clients M) n))
   \<and> (\<forall>t. touches stored (mc_sleep M t))
   \<and> (\<forall>l w. dk_containers (mc_docker M) l w = (Inr [], w))"

section \<open>Steps that touch the namespace only\<close>

lemma touches_ret [simp]: "touches stored (ret x)"
  by (simp add: touches_def)

lemma touches_raise [simp]: "tolerated e \<Longrightarrow> touches stored (raise e)"
  by (simp add: touches_def)

lemma touches_bind:
  assumes "touches stored m" and "\<And>x. touches stored (f x)"
  shows "touches stored (bind m f)"
  unfolding touches_def
proof
  fix w
  obtain r w1 where m: "m w = (r, w1)" by force
  have 1: "stored w1 \<subseteq> stored w" "stored w - in_gefyra \<subseteq> stored w1" "\<And>e. r = Inl e \<Longrightarrow> tolerated e"
    using assms(1) [unfolded touches_def, rule_format, of w] m by auto
  show "stored (snd (bind m f w)) \<subseteq> stored w \<and> stored w - in_gefyra \<subseteq> stored (snd (bind m f w))
     \<and> (\<forall>e. fst (bind m f w) = Inl e \<longrightarrow> tolerated e)"
  proof (cases r)
    case (Inr x)
    have "stored (snd (f x w1)) \<subseteq> stored w1 \<and> stored w1 - in_gefyra \<subseteq> stored (snd (f x w1))
       \<and> (\<forall>e. fst (f x w1) = Inl e \<longrightarrow> tolerated e)"
      using assms(2) [of x, unfolded touches_def, rule_format, of w1] .
    then show ?thesis using 1(1,2) m Inr by (auto simp: bind_def)
  qed (use 1 m in \<open>auto simp: bind_def\<close>)
qed

lemma touches_thn: "touches stored m \<Longrightarrow> touches stored k \<Longrightarrow> touches stored (thn m k)"
  unfolding thn_def by (rule touches_bind)

lemma touches_try:
  assumes "touches stored m" and "\<And>e. tolerated e \<Longrightarrow> touches stored (h e)"
  shows "touches stored (try_except m h)"
  unfolding touches_def
proof
  fix w
  obtain r w1 where m: "m w = (r, w1)" by force
  have 1: "stored w1 \<subseteq> stored w" "stored w - in_gefyra \<subseteq> stored w1" "\<And>e. r = Inl e \<Longrightarrow> tolerated e"
    using assms(1) [unfolded touches_def, rule_format, of w] m by auto
  show "stored (snd (try_except m h w)) \<subseteq> stored w \<and> stored w - in_gefyra \<subseteq> stored (snd (try_except m h w))
     \<and> (\<forall>e. fst (try_except m h w) = Inl e \<longrightarrow> tolerated e)"
  proof (cases r)
    case (Inl e)
    have "stored (snd (h e w1)) \<subseteq> stored w1 \<and> stored w1 - in_gefyra \<subseteq> stored (snd (h e w1))
       \<and> (\<forall>e'. fst (h e w1) = Inl e' \<longrightarrow> tolerated e')"
      using assms(2) [OF 1(3) [OF Inl], unfolded touches_def, rule_format, of w1] .
    then show ?thesis using 1(1,2) m Inl by (auto simp: try_except_def)
  qed (use 1 m in \<open>auto simp: try_except_def\<close>)
qed

lemma touches_for_each: "(\<And>x. touches stored (f x)) \<Longrightarrow> touches stored (for_each f xs)"
  by (induction xs) (simp_all add: touches_thn)

lemmas touches_rules = touches_bind touches_thn touches_try touches_for_each

lemma tolerated_errors [simp]: "tolerated (ApiException s)" "tolerated GefyraObjectNotFound"
  "tolerated GefyraConnectionError" "tolerated TimeoutError" "tolerated CommandTimeoutError"
  by (simp_all add: tolerated_def is_runtime_error_def is_os_error_def)

lemma remainder_touches:
  assumes "removes A M stored"
  shows "touches stored (remove_remainder A p)"
  using assms unfolding remove_remainder_def removes_def swallow_api_exception_def
  by (intro touches_rules) auto

lemma plain_configuration:
  assumes "\<And>l w. dk_containers (mc_docker M) l w = (Inr [], w)"
  shows "\<exists>cfg. \<forall>w. ClientConfiguration M (default_args\<lparr>ar_kube_config_file := None, ar_kube_context := ctx,
      ar_connection_name := n\<rparr>) w = (Inr cfg, w)"
  using assms by (simp add: ClientConfiguration_def default_args_def given_def Let_def bind_def)

lemma touches_eq: "(\<And>w. m w = (Inr x, w)) \<Longrightarrow> touches stored m"
  by (simp add: touches_def)

lemma configuration_touches:
  assumes "removes A M stored"
  shows "touches stored (ClientConfiguration M (default_args\<lparr>ar_kube_config_file := None, ar_kube_context := ctx\<rparr>))"
    "touches stored (ClientConfiguration M (default_args\<lparr>ar_kube_config_file := None, ar_kube_context := ctx,
       ar_connection_name := n\<rparr>))"
proof -
  have d: "dk_containers (mc_docker M) l w = (Inr [], w)" for l w using assms by (simp add: removes_def)
  show "touches stored (ClientConfiguration M (default_args\<lparr>ar_kube_config_file := None, ar_kube_context := ctx\<rparr>))"
    "touches stored (ClientConfiguration M (default_args\<lparr>ar_kube_config_file := None, ar_kube_context := ctx,
       ar_connection_name := n\<rparr>))"
    by (rule touches_eq, simp add: ClientConfiguration_def default_args_def given_def Let_def bind_def d)+
qed

lemma client_gone_touches:
  assumes "removes A M stored"
  shows "touches stored (await_client_gone M n k)"
proof (induction k)
  case (Suc k)
  then show ?case
    using assms unfolding await_client_gone.simps handle_get_gefyraclient_def removes_def
    by (intro touches_bind touches_try touches_ret) (auto intro!: touches_thn)
next
  case 0
  show ?case using touches_raise [of TimeoutError] by (simp add: raise_def)
qed

lemma delete_client_touches:
  assumes "removes A M stored"
  shows "touches stored (delete_client M n True None None None True t)"
  using assms client_gone_touches [OF assms] unfolding delete_client_def handle_delete_gefyraclient_def removes_def whenever_def
  by (intro touches_bind touches_try configuration_touches [OF assms]) (auto intro!: touches_thn)

lemma clients_touch:
  assumes "removes A M stored"
  shows "touches stored (remove_all_clients M)"
  using assms unfolding remove_all_clients_def list_client_def removes_def
  by (intro touches_bind touches_for_each touches_thn touches_ret delete_client_touches [OF assms]
      configuration_touches [OF assms]) auto

text \<open>A step of \<open>uninstall\<close> that touches the namespace only: it succeeds, as its errors are tolerated.\<close>

definition tolerant :: "('w, unit) io \<Rightarrow> ('w, unit) io" where
  "tolerant m = try_except m (\<lambda>e. if tolerated e then ret () else raise e)"

lemma tolerant_touches:
  assumes "touches stored m"
  shows "\<exists>w'. tolerant m w = (Inr (), w') \<and> stored w' \<subseteq> stored w \<and> stored w - in_gefyra \<subseteq> stored w'"
  using assms [unfolded touches_def, rule_format, of w]
  by (cases "m w"; cases "fst (m w)") (auto simp: tolerant_def try_except_def)

lemma deleted_quietly:
  assumes "deletes stored x xs m" and "\<And>w. h (ApiException 404) w = (Inr (), w)"
  shows "\<exists>w'. try_except m h w = (Inr (), w') \<and> stored w' = (if x \<in> stored w then stored w - insert x xs else stored w)"
  using assms(1) [unfolded deletes_def, rule_format, of w] assms(2)
  by (cases "m w") (auto simp: try_except_def split: if_splits)

lemma deleted_one:
  assumes "deletes stored x {} m"
  shows "\<exists>w'. try_except m swallow_api_exception w = (Inr (), w') \<and> stored w' = stored w - {x}"
  using deleted_quietly [OF assms, of swallow_api_exception w] by (auto simp: swallow_api_exception_def)

lemma all_deleted:
  assumes "\<And>n. deletes stored (k, None, n) {} (f n)"
  shows "\<exists>w'. for_each (\<lambda>n. try_except (f n) swallow_api_exception) ns w = (Inr (), w')
    \<and> stored w' = stored w - (\<lambda>n. (k, None, n)) ` set ns"
proof (induction ns arbitrary: w)
  case (Cons n ns)
  obtain w1 where 1: "try_except (f n) swallow_api_exception w = (Inr (), w1)" "stored w1 = stored w - {(k, None, n)}"
    using deleted_one [OF assms [of n], of w] by (elim exE conjE)
  obtain w2 where 2: "for_each (\<lambda>n. try_except (f n) swallow_api_exception) ns w1 = (Inr (), w2)"
    "stored w2 = stored w1 - (\<lambda>n. (k, None, n)) ` set ns"
    using Cons.IH [of w1] by (elim exE conjE)
  show ?case using 1 2 by (auto simp: thn_Inr)
qed simp

lemma global_removed:
  assumes "removes A M stored"
  shows "\<exists>w'. thn (tolerant (remove_gefyra_crds A)) (thn (tolerant (remove_gefyra_rbac A)) (ret ())) w = (Inr (), w')
    \<and> stored w' = stored w - gefyra_global"
proof -
  note law = assms [unfolded removes_def]
  have crd: "deletes stored (''CustomResourceDefinition'', None, n) {} (aa_delete_crd A n)"
    and role: "deletes stored (''ClusterRole'', None, n) {} (aa_delete_cluster_role A n)"
    and bind: "deletes stored (''ClusterRoleBinding'', None, n) {} (aa_delete_cluster_role_binding A n)"
    and hook: "deletes stored (''ValidatingWebhookConfiguration'', None, n) {} (aa_delete_webhook A n)" for n
    using law by simp_all
  obtain w1 where 1: "remove_gefyra_crds A w = (Inr (), w1)"
    "stored w1 = stored w - (\<lambda>n. (''CustomResourceDefinition'', None, n)) `
       set [''gefyrabridges.gefyra.dev'', ''gefyraclients.gefyra.dev'', ''gefyrabridgemounts.gefyra.dev'']"
    using all_deleted [OF crd, of _ w] unfolding remove_gefyra_crds_def by blast
  obtain w2 where 2: "try_except (aa_delete_cluster_role A ''gefyra:operator'') swallow_api_exception w1 = (Inr (), w2)"
    "stored w2 = stored w1 - {(''ClusterRole'', None, ''gefyra:operator'')}"
    using deleted_one [OF role [of "''gefyra:operator''"], of w1] by (elim exE conjE)
  obtain w3 where 3: "try_except (aa_delete_cluster_role_binding A ''gefyra-operator'') swallow_api_exception w2 = (Inr (), w3)"
    "stored w3 = stored w2 - {(''ClusterRoleBinding'', None, ''gefyra-operator'')}"
    using deleted_one [OF bind [of "''gefyra-operator''"], of w2] by (elim exE conjE)
  obtain w4 where 4: "try_except (aa_delete_webhook A ''gefyra.dev'') swallow_api_exception w3 = (Inr (), w4)"
    "stored w4 = stored w3 - {(''ValidatingWebhookConfiguration'', None, ''gefyra.dev'')}"
    using deleted_one [OF hook [of "''gefyra.dev''"], of w3] by (elim exE conjE)
  have "remove_gefyra_rbac A w1 = (Inr (), w4)"
    by (simp add: remove_gefyra_rbac_def thn_Inr 2(1) 3(1) 4(1))
  moreover have "stored w4 = stored w - gefyra_global"
    unfolding gefyra_global_def 4(2) 3(2) 2(2) 1(2) by auto
  ultimately show ?thesis using 1(1) by (auto simp: tolerant_def thn_Inr try_Inr)
qed

lemma namespace_removed:
  assumes "removes A M stored"
  shows "\<exists>w'. tolerant (remove_gefyra_namespace A) w = (Inr (), w')
    \<and> stored w' = (if gefyra_namespace \<in> stored w then stored w - insert gefyra_namespace in_gefyra else stored w)"
proof -
  have "deletes stored gefyra_namespace in_gefyra (aa_delete_namespace A ''gefyra'')"
    using assms by (simp add: removes_def)
  from deleted_quietly [OF this, of "\<lambda>e. if status_of e = Some 404 then ret () else raise e" w]
  show ?thesis by (auto simp: tolerant_def remove_gefyra_namespace_def try_Inr)
qed

text \<open>All of \<open>uninstall\<close>, where the objects of the namespace have a namespace.\<close>

lemma uninstall_result:
  assumes law: "removes A M stored" and ns: "gefyra_namespace \<in> stored w \<or> stored w \<inter> in_gefyra = {}"
  shows "\<exists>w'. uninstall M A None ctx w = (Inr (), w') \<and> stored w' = stored w - gefyra_owned"
proof -
  have d: "dk_containers (mc_docker M) l w = (Inr [], w)" for l w using law by (simp add: removes_def)
  obtain cfg where c: "ClientConfiguration M (default_args\<lparr>ar_kube_config_file := None, ar_kube_context := ctx\<rparr>) w = (Inr cfg, w)"
    by (simp add: ClientConfiguration_def default_args_def given_def Let_def bind_def d)
  obtain w1 where 1: "tolerant (remove_remainder_bridge_mounts A) w = (Inr (), w1)"
    "stored w1 \<subseteq> stored w" "stored w - in_gefyra \<subseteq> stored w1"
    using tolerant_touches [OF remainder_touches [OF law]] unfolding remove_remainder_bridge_mounts_def by blast
  obtain w2 where 2: "tolerant (remove_remainder_bridges A) w1 = (Inr (), w2)"
    "stored w2 \<subseteq> stored w1" "stored w1 - in_gefyra \<subseteq> stored w2"
    using tolerant_touches [OF remainder_touches [OF law]] unfolding remove_remainder_bridges_def by blast
  obtain w3 where 3: "tolerant (remove_all_clients M) w2 = (Inr (), w3)"
    "stored w3 \<subseteq> stored w2" "stored w2 - in_gefyra \<subseteq> stored w3"
    using tolerant_touches [OF clients_touch [OF law]] by blast
  obtain w4 where 4: "tolerant (remove_gefyra_namespace A) w3 = (Inr (), w4)"
    "stored w4 = (if gefyra_namespace \<in> stored w3 then stored w3 - insert gefyra_namespace in_gefyra else stored w3)"
    using namespace_removed [OF law, of w3] by (elim exE conjE)
  obtain w5 where 5: "thn (tolerant (remove_gefyra_crds A)) (thn (tolerant (remove_gefyra_rbac A)) (ret ())) w4 = (Inr (), w5)"
    "stored w5 = stored w4 - gefyra_global"
    using global_removed [OF law, of w4] by (elim exE conjE)
  have "uninstall M A None ctx w = (Inr (), w5)"
    using c 1(1) 2(1) 3(1) 4(1) 5(1) unfolding uninstall_def by (simp add: bind_Inr thn_Inr flip: tolerant_def)
  moreover have n: "gefyra_namespace \<notin> in_gefyra" by (simp add: gefyra_namespace_def in_gefyra_def)
  have s: "stored w3 \<subseteq> stored w" "stored w - in_gefyra \<subseteq> stored w3"
    using 1(2,3) 2(2,3) 3(2,3) by blast+
  have "stored w4 = stored w - insert gefyra_namespace in_gefyra"
  proof (cases "gefyra_namespace \<in> stored w3")
    case True
    then show ?thesis using s unfolding 4(2) by auto
  next
    case False
    then have "gefyra_namespace \<notin> stored w" using s(2) n by blast
    then show ?thesis using False ns s unfolding 4(2) by auto
  qed
  then have "stored w5 = stored w - gefyra_owned" unfolding 5(2) gefyra_owned_def by auto
  ultimately show ?thesis by blast
qed

section \<open>Installing and uninstalling\<close>

lemma installed_ids:
  assumes "synthesize_config_as_dict options [] = Inr objs"
  shows "object_id ` set objs = (let ns = io_namespace options in
    {(''Namespace'', None, ns), (''ServiceAccount'', Some ns, ''gefyra-operator''), (''ClusterRole'', None, ''gefyra:operator''),
     (''ClusterRoleBinding'', None, ''gefyra-operator''), (''Service'', Some ns, ''gefyra-admission''),
     (''ValidatingWebhookConfiguration'', None, ''gefyra.dev''), (''Deployment'', Some ns, ''gefyra-operator''),
     (''Deployment'', Some ns, ''gefyra-operator-webhook''), (''Service'', Some ns, ''gefyra-stowaway-wireguard'')})"
proof -
  have s: "service_data options = Inr js \<Longrightarrow> object_id ` set js = {(''Service'', Some (io_namespace options), ''gefyra-stowaway-wireguard'')}" for js
    by (auto simp: service_data_def object_id_def at_def item_def cluster_kinds_def)
  have d: "object_id ` set (deployment_data options) =
     {(''Deployment'', Some (io_namespace options), ''gefyra-operator''), (''Deployment'', Some (io_namespace options), ''gefyra-operator-webhook'')}"
    by (simp add: deployment_data_def operator_deployment_def object_id_def at_def item_def cluster_kinds_def)
  have "object_id ` set (namespace_data options) = {(''Namespace'', None, io_namespace options)}"
    "object_id ` set (rbac_data options) = {(''ServiceAccount'', Some (io_namespace options), ''gefyra-operator''),
       (''ClusterRole'', None, ''gefyra:operator''), (''ClusterRoleBinding'', None, ''gefyra-operator'')}"
    "object_id ` set (webhook_data options) = {(''Service'', Some (io_namespace options), ''gefyra-admission''),
       (''ValidatingWebhookConfiguration'', None, ''gefyra.dev'')}"
    by (simp_all add: namespace_data_def rbac_data_def webhook_data_def object_id_def at_def item_def json_dict_def cluster_kinds_def)
  note o = this d
  obtain js where js: "service_data options = Inr js"
    "objs = namespace_data options @ rbac_data options @ webhook_data options @ deployment_data options @ js"
    using assms by (auto simp: synthesize_exact all_components_def)
  show ?thesis unfolding js(2) set_append image_Un o s [OF js(1)] by (auto simp: Let_def)
qed

lemma fold_insert: "fold (\<lambda>j s. insert (f j) s) js s = s \<union> f ` set js"
  by (induction js arbitrary: s) auto

text \<open>C6: Installing into a cluster without any object of Gefyra and uninstalling gives back the same
  objects; an operator that was installed into another namespace than gefyra stays.\<close>

theorem uninstall_reverts_install:
  assumes send: "sends A stored (\<lambda>j s. insert (object_id j) s) up" and law: "removes A M stored"
    and o: "install_options_for preset args = Inr options"
    and y: "synthesize_config_as_yaml dump options [] = Inr output"
    and fresh: "stored w \<inter> gefyra_owned = {}"
  shows "\<exists>r w1 w2. install_objects M A dump [] preset True wait None ctx args w = (Inr r, w1)
    \<and> (''Deployment'', Some (io_namespace options), ''gefyra-operator'') \<in> stored w1
    \<and> uninstall M A None ctx w1 = (Inr (), w2)
    \<and> (if io_namespace options = ''gefyra'' then stored w2 = stored w
       else (''Deployment'', Some (io_namespace options), ''gefyra-operator'') \<in> stored w2)"
proof -
  let ?ns = "io_namespace options"
  obtain objs w1 where 1: "synthesize_config_as_dict options [] = Inr objs"
    "install_objects M A dump [] preset True wait None ctx args w = (Inr (output, \<not> up), w1)"
    "stored w1 = stored w \<union> object_id ` set objs"
    using install_sends_objects [OF send o y, of M wait ctx w] by (auto simp: fold_insert)
  note ids = installed_ids [OF 1(1), unfolded Let_def]
  have "gefyra_namespace \<in> stored w1 \<or> stored w1 \<inter> in_gefyra = {}"
    using fresh unfolding 1(3) ids by (cases "?ns = ''gefyra''") (auto simp: gefyra_owned_def gefyra_namespace_def in_gefyra_def)
  from uninstall_result [OF law this, of ctx] obtain w2 where 2: "uninstall M A None ctx w1 = (Inr (), w2)"
    "stored w2 = stored w1 - gefyra_owned" by (elim exE conjE)
  have "?ns = ''gefyra'' \<Longrightarrow> object_id ` set objs \<subseteq> gefyra_owned"
    unfolding ids by (auto simp: gefyra_owned_def gefyra_namespace_def in_gefyra_def gefyra_global_def)
  then have "?ns = ''gefyra'' \<Longrightarrow> stored w2 = stored w"
    using fresh unfolding 2(2) 1(3) by blast
  moreover have d: "(''Deployment'', Some ?ns, ''gefyra-operator'') \<in> stored w1" unfolding 1(3) ids by simp
  moreover have "?ns \<noteq> ''gefyra'' \<Longrightarrow> (''Deployment'', Some ?ns, ''gefyra-operator'') \<in> stored w2"
    using d unfolding 2(2) by (auto simp: gefyra_owned_def gefyra_namespace_def in_gefyra_def gefyra_global_def)
  ultimately show ?thesis using 1(2) 2(1) by auto
qed

text \<open>A cluster that is the set of its objects.\<close>

definition set_admin :: "object_id set admin_api" where
  "set_admin = idle_admin\<lparr>aa_create := (\<lambda>j w. (Inr (), insert (object_id j) w)),
     aa_delete_namespace := (\<lambda>n w. if (''Namespace'', None, n) \<in> w
        then (Inr (), w - insert (''Namespace'', None, n) {x. fst (snd x) = Some n}) else (Inl (ApiException 404), w)),
     aa_delete_crd := (\<lambda>n w. if (''CustomResourceDefinition'', None, n) \<in> w
        then (Inr (), w - {(''CustomResourceDefinition'', None, n)}) else (Inl (ApiException 404), w)),
     aa_delete_cluster_role := (\<lambda>n w. if (''ClusterRole'', None, n) \<in> w
        then (Inr (), w - {(''ClusterRole'', None, n)}) else (Inl (ApiException 404), w)),
     aa_delete_cluster_role_binding := (\<lambda>n w. if (''ClusterRoleBinding'', None, n) \<in> w
        then (Inr (), w - {(''ClusterRoleBinding'', None, n)}) else (Inl (ApiException 404), w)),
     aa_delete_webhook := (\<lambda>n w. if (''ValidatingWebhookConfiguration'', None, n) \<in> w
        then (Inr (), w - {(''ValidatingWebhookConfiguration'', None, n)}) else (Inl (ApiException 404), w))\<rparr>"

lemma set_admin_sends: "sends set_admin id (\<lambda>j s. insert (object_id j) s) False"
  by (simp add: sends_def set_admin_def idle_admin_def is_operator_running_def check_namespace_def try_except_def bind_def)

lemma set_admin_removes: "removes set_admin idle_machine id"
  by (simp add: removes_def deletes_def touches_def set_admin_def idle_admin_def idle_machine_def idle_docker_def
      idle_clients_def gefyra_namespace_def in_gefyra_def tolerated_def)

theorem uninstall_reverts_install_witness:
  "\<exists>r w1 w2. install_objects idle_machine set_admin (\<lambda>_. ''x'') [] None True False None None no_args
       {(''Namespace'', None, ''default'')} = (Inr r, w1)
    \<and> (''Deployment'', Some ''gefyra'', ''gefyra-operator'') \<in> w1
    \<and> uninstall idle_machine set_admin None None w1 = (Inr (), w2)
    \<and> w2 = {(''Namespace'', None, ''default'')}"
proof -
  have o: "install_options_for None no_args = Inr GefyraInstallOptions"
    by (simp add: install_options_for_def given_def override_options_def no_args_def given_or_def GefyraInstallOptions_def)
  have n: "io_namespace GefyraInstallOptions = ''gefyra''" by (simp add: GefyraInstallOptions_def)
  have "lower ''NodePort'' = ''nodeport''" by code_simp
  then obtain js where "service_data GefyraInstallOptions = Inr js"
    by (simp add: service_data_def service_ports_def GefyraInstallOptions_def no_pairs_def annotation_heads_def)
  then obtain objs where "synthesize_config_as_dict GefyraInstallOptions [] = Inr objs" "length objs > 1"
    by (simp add: synthesize_exact all_components_def namespace_data_def rbac_data_def)
  then have y: "synthesize_config_as_yaml (\<lambda>_. ''x'') GefyraInstallOptions [] = Inr (join yaml_separator (map (\<lambda>_. ''x'') objs))"
    by (simp add: synthesize_config_as_yaml_def)
  have f: "id {(''Namespace'', None, ''default'')} \<inter> gefyra_owned = {}"
    by (simp add: gefyra_owned_def gefyra_namespace_def in_gefyra_def gefyra_global_def)
  from uninstall_reverts_install [where stored = id, OF set_admin_sends set_admin_removes o y f, of False None] show ?thesis
    unfolding n by simp
qed

end
