(* ===== verification/LocalRun.thy ===== *)
theory LocalRun
  imports LocalBridge LocalNetwork Carrier2Mount
begin

text \<open>
  Running a container in Gefyra: the command (client/gefyra/api/run.py), the deployment of the
  container (client/gefyra/local/bridge.py, \<open>deploy_app_container\<close>), the environment of a pod and its
  lookup (client/gefyra/cluster/utils.py, client/gefyra/cluster/resources.py), and the resource
  quantities (client/gefyra/api/utils.py).

  Docker, the API server and floating-point arithmetic are parameters.
\<close>

section \<open>Resource quantities\<close>

text \<open>\<open>quota_of_float s\<close> is \<open>round(float(s) * 100_000)\<close> and \<open>bytes_of_float s f\<close> is \<open>int(float(s) * f)\<close>;
  \<open>None\<close> stands for \<open>ValueError\<close> and \<open>OverflowError\<close>.\<close>

record floats =
  quota_of_float :: "string \<Rightarrow> int option"
  bytes_of_float :: "string \<Rightarrow> int \<Rightarrow> int option"

definition endswith :: "string \<Rightarrow> string \<Rightarrow> bool" where
  "endswith s p \<longleftrightarrow> suffix p s"

definition parse_k8s_cpu_to_cpu_quota :: "floats \<Rightarrow> string option \<Rightarrow> int option" where
  "parse_k8s_cpu_to_cpu_quota F cpu =
     (if \<not> given cpu then None else
      let v = lower (strip (or_empty cpu)) in
      case (if endswith v ''m''
            then (case py_int (butlast v) of Inl _ \<Rightarrow> None | Inr m \<Rightarrow> Some (m * 100))
            else quota_of_float F v) of
        None \<Rightarrow> None
      | Some quota \<Rightarrow> Some (if quota \<noteq> 0 \<and> quota < 1000 then 1000 else quota))"

definition memory_units :: "(string \<times> int) list" where
  "memory_units = [(''ki'', 1024), (''mi'', 1024 ^ 2), (''gi'', 1024 ^ 3), (''ti'', 1024 ^ 4),
     (''k'', 1000), (''m'', 1000 ^ 2), (''g'', 1000 ^ 3), (''t'', 1000 ^ 4)]"

definition parse_k8s_mem_to_bytes :: "floats \<Rightarrow> string option \<Rightarrow> int option" where
  "parse_k8s_mem_to_bytes F mem =
     (if \<not> given mem then None else
      let v = strip (or_empty mem) in
      case py_int v of
        Inr n \<Rightarrow> Some n
      | Inl _ \<Rightarrow>
          (case filter (\<lambda>(suf, fac). endswith (lower v) suf) memory_units of
             (suf, fac) # _ \<Rightarrow> bytes_of_float F (take (length v - length suf) v) fac
           | [] \<Rightarrow> bytes_of_float F v 1))"

text \<open>\<open>limits.get(k) or requests.get(k)\<close> of the first container.\<close>

definition first_given :: "string option \<Rightarrow> string option \<Rightarrow> string option" where
  "first_given a b = (if given a then a else b)"

definition extract_cpu_mem_from_containers :: "container list \<Rightarrow> string option \<times> string option" where
  "extract_cpu_mem_from_containers containers = (case containers of
       [] \<Rightarrow> (None, None)
     | c # _ \<Rightarrow> (first_given (dget (c_limits c) ''cpu'') (dget (c_requests c) ''cpu''),
                first_given (dget (c_limits c) ''memory'') (dget (c_requests c) ''memory'')))"

section \<open>The cluster\<close>

text \<open>A pod with the uids of its owners beside their names; its \<open>spec\<close> may be absent.\<close>

record client_pod = pod +
  cp_owner_uids :: "string list"
  cp_has_spec :: bool

text \<open>The answer of a command in a pod: its output, or the reason of the \<open>ApiException\<close>.\<close>

datatype exec_answer = Output string | Refused string

text \<open>\<open>ra_replica_set\<close>: the uids of the owners of a ReplicaSet.  \<open>ra_context_namespace\<close>: the namespace of
  the active context, if it has one.  \<open>ra_attach\<close> prints the logs until the container ends, the input is
  closed, or \<open>KeyboardInterrupt\<close>.\<close>

record 'w run_api =
  ra_workload :: "workload_kind \<Rightarrow> string \<Rightarrow> string \<Rightarrow> ('w, workload) io"
  ra_replica_set :: "string \<Rightarrow> string \<Rightarrow> ('w, string list) io"
  ra_pods :: "string \<Rightarrow> string \<Rightarrow> ('w, client_pod list) io"
  ra_pod :: "string \<Rightarrow> string \<Rightarrow> ('w, client_pod) io"
  ra_pod_status :: "string \<Rightarrow> string \<Rightarrow> ('w, pod) io"
  ra_exec :: "string \<Rightarrow> string \<Rightarrow> string \<Rightarrow> string list \<Rightarrow> ('w, exec_answer) io"
  ra_context_namespace :: "('w, string option) io"
  ra_bridges :: "string \<Rightarrow> ('w, raw_bridge list) io"
  ra_patch_destination :: "string \<Rightarrow> string \<Rightarrow> ('w, unit) io"
  ra_attach :: "string \<Rightarrow> ('w, unit) io"
  ra_cwd :: string
  ra_realpath :: "string \<Rightarrow> string"
  ra_floats :: floats

definition first_owner :: "'a list \<Rightarrow> exn + 'a" where
  "first_owner owners = (case owners of [] \<Rightarrow> Inl TypeError | x # _ \<Rightarrow> Inr x)"

text \<open>An error other than 404 leaves \<open>replicaset_set\<close> unbound.\<close>

definition owner_reference_consistent :: "'w run_api \<Rightarrow> client_pod \<Rightarrow> workload \<Rightarrow> ('w, bool) io" where
  "owner_reference_consistent R p workload = (case wl_kind workload of
       StatefulSet \<Rightarrow> bind (of_sum (first_owner (cp_owner_uids p))) (\<lambda>uid. ret (Some uid = wl_uid workload))
     | Deployment \<Rightarrow>
         bind (of_sum (first_owner (pod_owner_references p))) (\<lambda>name.
         bind (try_except (bind (ra_replica_set R name (pod_namespace p)) (\<lambda>uids. ret (Some uids)))
                 (\<lambda>e. if status_of e = Some 404 then ret None
                      else if is_api_exception e then raise OtherError else raise e)) (\<lambda>owners.
         case owners of
           None \<Rightarrow> ret False
         | Some uids \<Rightarrow> bind (of_sum (first_owner uids)) (\<lambda>uid. ret (Some uid = wl_uid workload))))
     | PodKind \<Rightarrow> raise RuntimeError)"

definition container_names :: "client_pod \<Rightarrow> string list" where
  "container_names p = map c_name (pod_containers p)"

fun add_pods ::
    "'w run_api \<Rightarrow> workload \<Rightarrow> client_pod list \<Rightarrow> string list dict \<Rightarrow> ('w, string list dict) io" where
  "add_pods R workload [] result = ret result"
| "add_pods R workload (p # ps) result =
     bind (owner_reference_consistent R p workload) (\<lambda>ok.
     add_pods R workload ps (if ok then dset result (pod_name p) (container_names p) else result))"

definition get_pods_and_containers_for_workload ::
    "'w run_api \<Rightarrow> string \<Rightarrow> string \<Rightarrow> string \<Rightarrow> ('w, string list dict) io" where
  "get_pods_and_containers_for_workload R name namespace workload_type =
     bind (of_sum (get_workload_type workload_type)) (\<lambda>workload_type.
     bind (try_except
             (if workload_type = ''deployment'' then ra_workload R Deployment name namespace
              else if workload_type = ''statefulset'' then ra_workload R StatefulSet name namespace
              else raise OtherError)
             (\<lambda>e. if status_of e = Some 404 then raise WorkloadNotFoundError
                  else if is_api_exception e then raise RuntimeError else raise e)) (\<lambda>workload.
     bind (of_sum (case wl_match_labels workload of None \<Rightarrow> Inl AttributeError | Some l \<Rightarrow> Inr l)) (\<lambda>labels.
     if get_label_selector labels = [] then raise WorkloadNotFoundError else
     bind (ra_pods R namespace (get_label_selector labels)) (\<lambda>pods. add_pods R workload pods []))))"

definition get_pods_and_containers_for_pod_name ::
    "'w run_api \<Rightarrow> string \<Rightarrow> string \<Rightarrow> ('w, string list dict) io" where
  "get_pods_and_containers_for_pod_name R name namespace =
     bind (try_except (ra_pod R name namespace)
             (\<lambda>e. if is_api_exception e then raise PodNotFoundError else raise e)) (\<lambda>p.
     if \<not> cp_has_spec p then raise PodNotFoundError else ret [(pod_name p, container_names p)])"

text \<open>\<open>next\<close> without a status of that name is \<open>StopIteration\<close>.\<close>

definition client_pod_healthy :: "'w run_api \<Rightarrow> string \<Rightarrow> string \<Rightarrow> string \<Rightarrow> ('w, bool) io" where
  "client_pod_healthy R name namespace container_name =
     bind (ra_pod_status R name namespace) (\<lambda>p.
     of_sum (case pod_container_statuses p of
         None \<Rightarrow> Inl TypeError
       | Some sts \<Rightarrow>
           (case find (\<lambda>s. cs_name s = container_name) sts of
              None \<Rightarrow> Inl StopIteration
            | Some s \<Rightarrow>
                if \<not> (pod_phase p = ''Running'' \<and> cs_ready s \<and> cs_started s) then Inr False
                else (case cs_state s of None \<Rightarrow> Inl AttributeError | Some _ \<Rightarrow> Inr (status_running s)))))"

text \<open>\<open>popitem\<close> takes the last pod first.\<close>

fun ready_pod :: "'w run_api \<Rightarrow> string \<Rightarrow> string \<Rightarrow> (string \<times> string list) list \<Rightarrow> ('w, string \<times> string) io" where
  "ready_pod R namespace container_name [] = raise RuntimeError"
| "ready_pod R namespace container_name ((name, containers) # pods) =
     (if container_name \<noteq> [] \<and> container_name \<notin> set containers then raise RuntimeError else
      bind (if container_name \<noteq> [] then ret container_name else of_sum (nth_item containers 0)) (\<lambda>actual.
      bind (client_pod_healthy R name namespace actual) (\<lambda>healthy.
      if healthy then ret (name, actual) else ready_pod R namespace container_name pods)))"

definition retrieve_pod_and_container :: "'w run_api \<Rightarrow> string \<Rightarrow> string \<Rightarrow> ('w, string \<times> string) io" where
  "retrieve_pod_and_container R workload namespace =
     bind (of_sum (unpack2 (split1 (CHR ''/'') workload))) (\<lambda>(workload_type, workload_name).
     bind (of_sum (get_workload_type workload_type)) (\<lambda>workload_type.
     bind (of_sum (if CHR ''/'' \<in> set workload_name then unpack2 (split (CHR ''/'') workload_name)
                   else Inr (workload_name, []))) (\<lambda>(workload_name, container_name).
     bind (if workload_type \<noteq> ''pod''
           then get_pods_and_containers_for_workload R workload_name namespace workload_type
           else get_pods_and_containers_for_pod_name R workload_name namespace) (\<lambda>pods.
     ready_pod R namespace container_name (rev pods)))))"

text \<open>The status of the exception is 0; only its reason is looked at.\<close>

primrec env_attempts :: "'w machine \<Rightarrow> 'w run_api \<Rightarrow> string \<Rightarrow> string \<Rightarrow> string \<Rightarrow> nat \<Rightarrow> ('w, string) io" where
  "env_attempts M R pod namespace container 0 = raise RuntimeError"
| "env_attempts M R pod namespace container (Suc n) =
     bind (ra_exec R pod namespace container [''env'']) (\<lambda>answer. case answer of
       Output out \<Rightarrow> ret out
     | Refused reason \<Rightarrow>
         if contains reason ''500 Internal Server Error'' then
           bind (ra_exec R pod namespace container [''busybox'', ''env'']) (\<lambda>answer. case answer of
             Output out \<Rightarrow> ret out
           | Refused _ \<Rightarrow> thn (mc_sleep M 1000) (env_attempts M R pod namespace container n))
         else raise (ApiException 0))"

definition get_env_from_pod_container ::
    "'w machine \<Rightarrow> 'w run_api \<Rightarrow> string \<Rightarrow> string \<Rightarrow> string \<Rightarrow> ('w, string) io" where
  "get_env_from_pod_container M R pod namespace container = env_attempts M R pod namespace container 10"

definition workload_resources ::
    "'w run_api \<Rightarrow> string \<Rightarrow> string \<Rightarrow> string \<Rightarrow> ('w, string option \<times> string option) io" where
  "workload_resources R namespace kind name =
     (if kind \<in> {''deployment'', ''deploy'', ''deployments''} then
        bind (ra_workload R Deployment name namespace) (\<lambda>w. ret (extract_cpu_mem_from_containers (wl_containers w)))
      else if kind \<in> {''statefulset'', ''sts'', ''statefulsets''} then
        bind (ra_workload R StatefulSet name namespace) (\<lambda>w. ret (extract_cpu_mem_from_containers (wl_containers w)))
      else if kind \<in> {''pod'', ''po'', ''pods''} then
        bind (ra_pod R name namespace) (\<lambda>p. if cp_has_spec p
          then ret (extract_cpu_mem_from_containers (pod_containers p)) else raise AttributeError)
      else ret (None, None))"

definition inherit_resources_from_workload ::
    "'w run_api \<Rightarrow> string \<Rightarrow> string option \<Rightarrow> ('w, string option \<times> string option) io" where
  "inherit_resources_from_workload R namespace ref =
     (if \<not> given ref then ret (None, None) else
      let (kind, name) = (case split1 (CHR ''/'') (strip (or_empty ref)) of
            [k, n] \<Rightarrow> (lower k, n) | parts \<Rightarrow> (''pod'', hd parts)) in
      try_except (workload_resources R namespace kind name)
        (\<lambda>e. if is_api_exception e \<or> e \<in> {AttributeError, KeyError, TypeError, IndexError}
             then ret (None, None) else raise e))"

section \<open>Deploying a container\<close>

record run_args =
  rn_image :: string
  rn_connection_name :: string
  rn_name :: string
  rn_command :: string
  rn_volumes :: "string list option"
  rn_ports :: "port_target dict option"
  rn_detach :: bool
  rn_auto_remove :: bool
  rn_namespace :: string
  rn_env :: "string list option"
  rn_env_from :: string
  rn_pull :: string
  rn_platform :: "string option"
  rn_cpu_from :: "string option"
  rn_memory_from :: "string option"
  rn_cpu :: "string option"
  rn_memory :: "string option"
  rn_security_opts :: "string list option"
  rn_user :: "string option"
  rn_privileged :: "bool option"
  rn_extra :: "extra_value dict option"

fun extra_kwarg :: "extra_value \<Rightarrow> kwarg" where
  "extra_kwarg (VBool b) = KBool b"
| "extra_kwarg (VInt i) = KInt i"
| "extra_kwarg (VFloat s) = KFloat s"
| "extra_kwarg (VStr s) = KStr s"

text \<open>\<open>all_kwargs\<close> without the entries that are \<open>None\<close>.\<close>

definition builtin_kwargs ::
    "client_config \<Rightarrow> run_args \<Rightarrow> string list option \<Rightarrow> string dict \<Rightarrow> string list \<Rightarrow> int option \<Rightarrow> int option
     \<Rightarrow> kwarg dict" where
  "builtin_kwargs cfg a volumes env dns_search cpu_quota mem_limit =
     concat (map (\<lambda>(k, v). case v of None \<Rightarrow> [] | Some x \<Rightarrow> [(k, x)])
       [(''network'', Some (KStr (cf_NETWORK_NAME cfg))),
        (''name'', Some (KStr (rn_name a))),
        (''command'', Some (KStr (rn_command a))),
        (''volumes'', map_option KList volumes),
        (''ports'', map_option KPorts (rn_ports a)),
        (''detach'', Some (KBool True)),
        (''dns'', Some (KList [STOWAWAY_IP])),
        (''dns_search'', Some (KList dns_search)),
        (''auto_remove'', Some (KBool (rn_auto_remove a))),
        (''environment'', Some (KEnv env)),
        (''cpu_quota'', map_option KInt cpu_quota),
        (''mem_limit'', map_option KInt mem_limit),
        (''user'', map_option KStr (rn_user a)),
        (''security_opt'', map_option KList (rn_security_opts a)),
        (''privileged'', map_option KBool (rn_privileged a))])"

definition managed_keys :: "string list" where
  "managed_keys = [''network'', ''dns'', ''dns_search'', ''detach'']"

text \<open>The keyword arguments of the call: an extra argument that names a parameter of the functions on
  the way, or the labels they set, is a \<open>TypeError\<close>.\<close>

definition container_kwargs :: "kwarg dict \<Rightarrow> extra_value dict option \<Rightarrow> exn + kwarg dict" where
  "container_kwargs builtin extra = (case extra of
       None \<Rightarrow> Inr builtin
     | Some e \<Rightarrow>
         if list_ex (\<lambda>k. k \<in> set managed_keys) (keys e) then Inl ValueError
         else if list_ex (\<lambda>k. k \<in> {''config'', ''image'', ''labels''}) (keys e) then Inl TypeError
         else Inr (dupdate builtin (map (\<lambda>(k, v). (k, extra_kwarg v)) e)))"

definition pull_always :: "'w machine \<Rightarrow> run_args \<Rightarrow> ('w, unit) io" where
  "pull_always M a =
     whenever (rn_pull a = ''always'')
       (bind (of_sum (if CHR '':'' \<in> set (rn_image a) then unpack2 (split (CHR '':'') (rn_image a))
                      else Inr (rn_image a, ''latest''))) (\<lambda>(repo, tag).
        dk_pull (mc_docker M) repo tag (rn_platform a)))"

text \<open>At most \<open>n\<close> looks, 0.1 seconds apart, at a container that is only created.\<close>

primrec await_started :: "'w machine \<Rightarrow> docker_container \<Rightarrow> nat \<Rightarrow> ('w, docker_container) io" where
  "await_started M c 0 = ret c"
| "await_started M c (Suc n) =
     (if dc_status c \<noteq> ''created'' then ret c else
      thn (mc_sleep M 100)
      (bind (try_except (dk_container (mc_docker M) (dc_id c))
               (\<lambda>e. if e = DockerError 404 then raise RuntimeError else raise e)) (\<lambda>c. await_started M c n)))"

definition patch_gateway ::
    "'w machine \<Rightarrow> docker_container \<Rightarrow> docker_container \<Rightarrow> string \<Rightarrow> ('w, docker_container) io" where
  "patch_gateway M cargo c cargo_ip =
     bind (dk_exec (mc_docker M) (dc_id cargo)
             (''bash patchContainerGateway.sh '' @ dc_name c @ '' '' @ cargo_ip)) (\<lambda>(exit_code, output).
     if exit_code = 0 then ret c
     else bind (dk_container (mc_docker M) (dc_id c)) (\<lambda>_. raise RuntimeError))"

definition deploy_app_container ::
    "'w machine \<Rightarrow> client_config \<Rightarrow> run_args \<Rightarrow> string list option \<Rightarrow> string dict \<Rightarrow> string list \<Rightarrow> int option
     \<Rightarrow> int option \<Rightarrow> ('w, docker_container) io" where
  "deploy_app_container M cfg a volumes env dns_search cpu_quota mem_limit =
     thn (pull_always M a)
     (let dns_search = (if dns_search = [] then [''default''] else dns_search) in
      bind (dk_network (mc_docker M) (cf_NETWORK_NAME cfg)) (\<lambda>gefyra_net.
      let cargo_ip = get_cargo_ip_from_netaddress (hd (split (CHR ''/'') (dn_subnet gefyra_net))) in
      bind (of_sum (container_kwargs (builtin_kwargs cfg a volumes env dns_search cpu_quota mem_limit)
              (if rn_extra a = Some [] then None else rn_extra a))) (\<lambda>kwargs.
      bind (handle_docker_run_container M (rn_image a) kwargs) (\<lambda>c.
      bind (dk_container (mc_docker M) (cf_CARGO_CONTAINER_NAME cfg)) (\<lambda>cargo.
      bind (await_started M c (CONTAINER_RUN_TIMEOUT * 10)) (\<lambda>c.
      if dc_status c \<noteq> ''running'' then raise RuntimeError
      else patch_gateway M cargo c cargo_ip))))))"

section \<open>Restoring bridges\<close>

definition restore_selector :: "client_config \<Rightarrow> string \<Rightarrow> string" where
  "restore_selector cfg container_name =
     ''gefyra.dev/client='' @ str_opt (cf_CLIENT_ID cfg) @ '',gefyra.dev/client-container='' @ container_name"

definition restore_bridge :: "'w run_api \<Rightarrow> string \<Rightarrow> raw_bridge \<Rightarrow> ('w, unit) io" where
  "restore_bridge R new_ip b =
     (if or_empty (br_destinationIP b) = new_ip then ret ()
      else try_except (ra_patch_destination R (cr_name b) new_ip)
             (\<lambda>e. if is_api_exception e then ret () else raise e))"

definition restore_bridges_for_container ::
    "'w run_api \<Rightarrow> client_config \<Rightarrow> docker_container \<Rightarrow> ('w, unit) io" where
  "restore_bridges_for_container R cfg c =
     (case dget (dc_networks c) (cf_NETWORK_NAME cfg) of
        None \<Rightarrow> ret ()
      | Some new_ip \<Rightarrow>
          bind (try_except (ra_bridges R (restore_selector cfg (dc_name c)))
                  (\<lambda>e. if is_api_exception e then ret [] else raise e)) (\<lambda>bridges.
          for_each (restore_bridge R new_ip) bridges))"

section \<open>The command\<close>

definition run_namespace :: "'w run_api \<Rightarrow> run_args \<Rightarrow> ('w, string) io" where
  "run_namespace R a =
     (if rn_namespace a \<noteq> [] then ret (rn_namespace a)
      else bind (ra_context_namespace R) (\<lambda>ns. ret (or_else ns ''default'')))"

definition search_domains :: "string \<Rightarrow> string list" where
  "search_domains namespace =
     split (CHR '' '') (namespace @ ''.svc.cluster.local svc.cluster.local cluster.local k8s'')"

text \<open>\<open>None\<close>: an \<open>ApiException\<close>.\<close>

definition inherited_env :: "'w machine \<Rightarrow> 'w run_api \<Rightarrow> run_args \<Rightarrow> string \<Rightarrow> ('w, string dict option) io" where
  "inherited_env M R a namespace =
     (if rn_env_from a = [] then ret (Some []) else
      try_except
        (bind (retrieve_pod_and_container R (rn_env_from a) namespace) (\<lambda>(pod, container).
         bind (get_env_from_pod_container M R pod namespace container) (\<lambda>raw_env.
         ret (Some (generate_env_dict_from_strings (split (CHR 0x0A) raw_env))))))
        (\<lambda>e. if is_api_exception e then ret None else raise e))"

definition run_env :: "run_args \<Rightarrow> string dict \<Rightarrow> string dict" where
  "run_env a env_dict = (if rn_env a \<in> {None, Some []} then env_dict
     else dupdate env_dict (generate_env_dict_from_strings (or_empty (rn_env a))))"

definition run_limits ::
    "'w run_api \<Rightarrow> run_args \<Rightarrow> string \<Rightarrow> ('w, int option \<times> int option) io" where
  "run_limits R a namespace =
     bind (inherit_resources_from_workload R namespace (rn_cpu_from a)) (\<lambda>(inherited_cpu, _).
     bind (inherit_resources_from_workload R namespace (rn_memory_from a)) (\<lambda>(_, inherited_mem).
     ret (parse_k8s_cpu_to_cpu_quota (ra_floats R) (first_given (rn_cpu a) inherited_cpu),
          parse_k8s_mem_to_bytes (ra_floats R) (first_given (rn_memory a) inherited_mem))))"

definition wireguard_works :: "'w machine \<Rightarrow> client_config \<Rightarrow> ('w, bool) io" where
  "wireguard_works M cfg =
     try_except (thn (probe_wireguard_connection M cfg) (ret True))
       (\<lambda>e. if e = GefyraConnectionError \<or> is_docker_error e then ret False else raise e)"

text \<open>\<open>None\<close>: a conflict, which counts as success.\<close>

definition run_deployment ::
    "'w machine \<Rightarrow> client_config \<Rightarrow> run_args \<Rightarrow> string list option \<Rightarrow> string dict \<Rightarrow> string \<Rightarrow> int option \<Rightarrow> int option
     \<Rightarrow> ('w, docker_container option) io" where
  "run_deployment M cfg a volumes env namespace cpu_quota mem_limit =
     try_except
       (bind (deploy_app_container M cfg a volumes env (search_domains namespace) cpu_quota mem_limit)
          (\<lambda>c. ret (Some c)))
       (\<lambda>e. if e = DockerError 409 then ret None else if is_docker_error e then raise RuntimeError else raise e)"

definition attach :: "'w machine \<Rightarrow> 'w run_api \<Rightarrow> docker_container \<Rightarrow> ('w, unit) io" where
  "attach M R c = try_except (ra_attach R (dc_id c))
     (\<lambda>e. if e = KeyboardInterrupt then dk_stop (mc_docker M) (dc_id c) else raise e)"

definition run_container :: "'w machine \<Rightarrow> 'w run_api \<Rightarrow> run_args \<Rightarrow> ('w, bool) io" where
  "run_container M R a =
     bind (ClientConfiguration M (default_args\<lparr>ar_connection_name := Some (rn_connection_name a)\<rparr>)) (\<lambda>cfg.
     bind (run_namespace R a) (\<lambda>namespace.
     bind (wireguard_works M cfg) (\<lambda>works.
     if \<not> works then ret False else
     bind (of_sum (if rn_volumes a \<in> {None, Some []} then Inr (rn_volumes a)
                   else get_processed_paths (ra_realpath R) (ra_cwd R) (rn_volumes a))) (\<lambda>volumes.
     bind (inherited_env M R a namespace) (\<lambda>env. case env of
       None \<Rightarrow> ret False
     | Some env_dict \<Rightarrow>
         bind (run_limits R a namespace) (\<lambda>(cpu_quota, mem_limit).
         bind (run_deployment M cfg a volumes (run_env a env_dict) namespace cpu_quota mem_limit) (\<lambda>deployed.
         case deployed of
           None \<Rightarrow> ret True
         | Some c \<Rightarrow>
             thn (restore_bridges_for_container R cfg c)
             (if rn_detach a then ret True else thn (attach M R c) (ret True)))))))))"

end
