(* ===== verification/RunProperties.thy ===== *)
theory RunProperties
  imports LocalRun MemLocal
begin

text \<open>
  What \<open>gefyra run\<close> promises: the resource limits, the settings of the container that its arguments cannot
  change, the state of a deployed container, and the bridges that follow it to its new address.
\<close>

section \<open>Resource quantities\<close>

lemma cpu_quota_in_bounds:
  assumes "parse_k8s_cpu_to_cpu_quota F cpu = Some q"
  shows "q = 0 \<or> 1000 \<le> q"
  using assms by (auto simp: parse_k8s_cpu_to_cpu_quota_def Let_def split: if_splits option.splits)

lemma lower_digits: "\<forall>c \<in> set s. is_digit c \<Longrightarrow> lower s = s"
  by (induction s) (auto simp: lower_def lower_char_def is_digit_def)

lemma millicpu_exact:
  "parse_k8s_cpu_to_cpu_quota F (Some (str_nat n @ ''m'')) = Some (if n = 0 then 0 else max 1000 (100 * int n))"
proof -
  have sp: "\<not> is_space (CHR ''m'')" by code_simp
  have "\<not> is_space c" if "c \<in> set (str_nat n @ ''m'')" for c
  proof (cases "c \<in> set (str_nat n)")
    case True
    then show ?thesis using str_nat_digits digit_not_special by blast
  qed (use that sp in auto)
  then have s: "strip (str_nat n @ ''m'') = str_nat n @ ''m''" by (intro strip_no_space) auto
  have "lower ''m'' = ''m''" by code_simp
  then have l: "lower (str_nat n @ ''m'') = str_nat n @ ''m''"
    using lower_digits [of "str_nat n"] str_nat_digits by (auto simp: lower_def)
  show ?thesis
    by (simp add: parse_k8s_cpu_to_cpu_quota_def s l given_def or_empty_def endswith_def)
qed

text \<open>The CPU quota given to Docker is 0 or at least one millisecond, Docker's minimum; \<open>n\<close> milli-CPUs are
  \<open>n\<close> times 100 microseconds where that is enough.\<close>

theorem cpu_quota_bounds:
  "(\<forall>q. parse_k8s_cpu_to_cpu_quota F cpu = Some q \<longrightarrow> q = 0 \<or> 1000 \<le> q)
   \<and> parse_k8s_cpu_to_cpu_quota F (Some (str_nat n @ ''m'')) = Some (if n = 0 then 0 else max 1000 (100 * int n))"
  using cpu_quota_in_bounds millicpu_exact by blast

theorem cpu_quota_bounds_witness:
  "parse_k8s_cpu_to_cpu_quota \<lparr>quota_of_float = \<lambda>_. None, bytes_of_float = \<lambda>_ _. None\<rparr> (Some (str_nat 5 @ ''m'')) = Some 1000
   \<and> ((1000 :: int) = 0 \<or> (1000 :: int) \<le> 1000)"
proof -
  let ?F = "\<lparr>quota_of_float = \<lambda>_. None, bytes_of_float = \<lambda>_ _. None\<rparr>"
  note b = cpu_quota_bounds [of ?F "Some (str_nat 5 @ ''m'')" 5]
  have "parse_k8s_cpu_to_cpu_quota ?F (Some (str_nat 5 @ ''m'')) = Some 1000" using b by simp
  with b show ?thesis by blast
qed

section \<open>Settings\<close>

lemma extra_args_distinct: "extra_args args d = Inr e \<Longrightarrow> distinct (keys d) \<Longrightarrow> distinct (keys e)"
proof (induction args d rule: extra_args.induct)
  case (2 arg rest d)
  then have dash: "startswith arg ''--''" by (auto split: if_splits)
  show ?case
  proof (cases "CHR ''='' \<in> set arg")
    case True
    then obtain k v where kv: "split1 (CHR ''='') arg = [k, v]" by (auto simp: split1_def)
    show ?thesis using 2 dash kv by (simp add: distinct_dset)
  next
    case False
    then have s: "split1 (CHR ''='') arg = [arg]" by (rule split1_notin)
    show ?thesis
    proof (cases rest)
      case Nil
      then show ?thesis using "2.prems" dash s by (auto simp: distinct_dset)
    next
      case (Cons v rest')
      then show ?thesis using 2 dash s
        by (cases "startswith v ''--''") (auto simp: distinct_dset)
    qed
  qed
qed simp

lemma keys_map: "keys (map (\<lambda>(k, v). (k, f v)) e) = keys e"
  by (induction e) auto

lemma dget_map: "dget (map (\<lambda>(k, v). (k, f v)) e) k = map_option f (dget e k)"
  by (induction e) auto

lemma builtin_managed:
  "dget (builtin_kwargs cfg a volumes env dns_search q m) ''network'' = Some (KStr (cf_NETWORK_NAME cfg))"
  "dget (builtin_kwargs cfg a volumes env dns_search q m) ''dns'' = Some (KList [STOWAWAY_IP])"
  "dget (builtin_kwargs cfg a volumes env dns_search q m) ''dns_search'' = Some (KList dns_search)"
  "dget (builtin_kwargs cfg a volumes env dns_search q m) ''detach'' = Some (KBool True)"
  by (auto simp: builtin_kwargs_def split: option.split)

text \<open>Additional container arguments of the command line never touch the network, the name servers, the
  search domains and the detached mode; every other setting they name is taken from them, the rest is
  Gefyra's.\<close>

theorem extra_arguments_keep_network:
  assumes e: "parse_extra_container_args args = Inr e"
    and kw: "container_kwargs (builtin_kwargs cfg a volumes env dns_search q m) (Some e) = Inr kw"
  shows "dget kw ''network'' = Some (KStr (cf_NETWORK_NAME cfg)) \<and> dget kw ''dns'' = Some (KList [STOWAWAY_IP])
    \<and> dget kw ''dns_search'' = Some (KList dns_search) \<and> dget kw ''detach'' = Some (KBool True)
    \<and> (\<forall>k. dget kw k = (case dget e k of Some v \<Rightarrow> Some (extra_kwarg v)
          | None \<Rightarrow> dget (builtin_kwargs cfg a volumes env dns_search q m) k))"
proof -
  have d: "distinct (keys e)"
    using extra_args_distinct [of args "[]" e] e by (simp add: parse_extra_container_args_def)
  from kw have n: "\<forall>k \<in> set (keys e). k \<notin> set managed_keys"
    and k: "kw = dupdate (builtin_kwargs cfg a volumes env dns_search q m) (map (\<lambda>(k, v). (k, extra_kwarg v)) e)"
    by (auto simp: container_kwargs_def list_ex_iff split: if_splits)
  have all: "dget kw k = (case dget e k of Some v \<Rightarrow> Some (extra_kwarg v)
          | None \<Rightarrow> dget (builtin_kwargs cfg a volumes env dns_search q m) k)" for k
    unfolding k using d by (simp add: dget_dupdate keys_map dget_map split: option.split)
  have "dget e k = None" if "k \<in> set managed_keys" for k
    using n that by (intro dget_notin) auto
  with all builtin_managed show ?thesis by (auto simp: managed_keys_def)
qed

theorem extra_arguments_keep_network_witness:
  "\<forall>cfg a. \<exists>kw. container_kwargs (builtin_kwargs cfg a None [] [''x''] None None) (Some [(''cpu_shares'', VInt 512)]) = Inr kw
    \<and> dget kw ''dns_search'' = Some (KList [''x'']) \<and> dget kw ''cpu_shares'' = Some (KInt 512)"
proof (intro allI)
  fix cfg a
  have e: "parse_extra_container_args [''--cpu-shares'', ''512''] = Inr [(''cpu_shares'', VInt 512)]" by code_simp
  obtain kw where kw: "container_kwargs (builtin_kwargs cfg a None [] [''x''] None None) (Some [(''cpu_shares'', VInt 512)]) = Inr kw"
    by (simp add: container_kwargs_def managed_keys_def)
  from extra_arguments_keep_network [OF e kw] kw
  show "\<exists>kw. container_kwargs (builtin_kwargs cfg a None [] [''x''] None None) (Some [(''cpu_shares'', VInt 512)]) = Inr kw
    \<and> dget kw ''dns_search'' = Some (KList [''x'']) \<and> dget kw ''cpu_shares'' = Some (KInt 512)" by auto
qed

section \<open>Deployment\<close>

text \<open>The last call was the patch of the gateway of the container, in Cargo, and it succeeded.\<close>

definition gateway_patched :: "'w machine \<Rightarrow> docker_container \<Rightarrow> 'w \<Rightarrow> bool" where
  "gateway_patched M c w' \<longleftrightarrow> (\<exists>cargo ip out w. dk_exec (mc_docker M) cargo
     (''bash patchContainerGateway.sh '' @ dc_name c @ '' '' @ ip) w = (Inr (0, out), w'))"

lemma patch_gateway_done:
  assumes "patch_gateway M cargo c ip w = (Inr d, w')"
  shows "d = c \<and> gateway_patched M c w'"
proof -
  from assms obtain code out w1 where x: "dk_exec (mc_docker M) (dc_id cargo)
      (''bash patchContainerGateway.sh '' @ dc_name c @ '' '' @ ip) w = (Inr (code, out), w1)"
    and r: "(if code = 0 then ret c else bind (dk_container (mc_docker M) (dc_id c)) (\<lambda>_. raise RuntimeError)) w1
      = (Inr d, w')"
    unfolding patch_gateway_def bind_Inr_iff [of _ "case_prod _"] by auto
  from r have "code = 0 \<and> d = c \<and> w1 = w'" by (auto simp: bind_Inr_iff split: if_splits)
  with x show ?thesis unfolding gateway_patched_def by blast
qed

text \<open>A deployment that returns has a running container whose gateway has been changed to Cargo.\<close>

theorem deployed_container_runs:
  assumes "deploy_app_container M cfg a volumes env dns_search q m w = (Inr c, w')"
  shows "dc_status c = ''running'' \<and> gateway_patched M c w'"
proof -
  from assms obtain cargo d ip w1 where "dc_status d = ''running''" "patch_gateway M cargo d ip w1 = (Inr c, w')"
    by (auto simp: deploy_app_container_def thn_Inr_iff bind_Inr_iff Let_def split: if_splits)
  with patch_gateway_done [OF this(2)] show ?thesis by simp
qed

definition sample_run :: run_args where
  "sample_run = \<lparr>rn_image = ''nginx'', rn_connection_name = ''default'', rn_name = ''app'', rn_command = [],
     rn_volumes = None, rn_ports = None, rn_detach = True, rn_auto_remove = False, rn_namespace = ''default'',
     rn_env = None, rn_env_from = [], rn_pull = ''missing'', rn_platform = None, rn_cpu_from = None,
     rn_memory_from = None, rn_cpu = None, rn_memory = None, rn_security_opts = None, rn_user = None,
     rn_privileged = None, rn_extra = None\<rparr>"

lemma app_started: "await_started running_machine (app_container ''created'') 100 = ret (app_container ''running'')"
proof -
  have n: "(100 :: nat) = Suc (Suc 98)" by simp
  show ?thesis unfolding n await_started.simps by (simp add: app_container_def) (simp add: ret_def)
qed

theorem deployed_container_runs_witness:
  "\<exists>c. deploy_app_container running_machine cfg sample_run None [] [] None None () = (Inr c, ())
    \<and> dc_status c = ''running'' \<and> gateway_patched running_machine c ()"
proof -
  have n: "\<exists>net. dk_network (running_docker :: unit docker_api) n = ret net" for n
    by (simp add: running_docker_def) (rule exI, rule refl)
  have "\<exists>c. deploy_app_container running_machine cfg sample_run None [] [] None None () = (Inr c, ())"
    using n [of "cf_NETWORK_NAME cfg"]
    by (auto simp: deploy_app_container_def sample_run_def pull_always_def container_kwargs_def
        handle_docker_run_container_def app_started patch_gateway_def bind_def
        app_status)
  then obtain c where c: "deploy_app_container running_machine cfg sample_run None [] [] None None () = (Inr c, ())" by blast
  from c deployed_container_runs [OF c] show ?thesis by blast
qed

section \<open>Restoring bridges\<close>

definition labelled :: "string \<Rightarrow> string \<Rightarrow> raw_bridge \<Rightarrow> bool" where
  "labelled client container b \<longleftrightarrow> (case cr_labels b of None \<Rightarrow> False
     | Some l \<Rightarrow> dget l ''gefyra.dev/client'' = Some client \<and> dget l ''gefyra.dev/client-container'' = Some container)"

definition redirect :: "string \<Rightarrow> raw_bridge \<Rightarrow> raw_bridge" where
  "redirect ip b = b\<lparr>br_destinationIP := Some ip\<rparr>"

text \<open>The API server: the label selector selects the bridges with both labels, a patch sets the address
  of the bridge of that name.\<close>

definition serves_bridges :: "'w run_api \<Rightarrow> ('w \<Rightarrow> raw_bridge list) \<Rightarrow> client_config \<Rightarrow> string \<Rightarrow> bool" where
  "serves_bridges R stored cfg container \<longleftrightarrow>
     (\<forall>w. \<exists>w'. ra_bridges R (restore_selector cfg container) w =
          (Inr (filter (labelled (str_opt (cf_CLIENT_ID cfg)) container) (stored w)), w') \<and> stored w' = stored w)
   \<and> (\<forall>name ip w. \<exists>w'. ra_patch_destination R name ip w = (Inr (), w')
        \<and> stored w' = map (\<lambda>b. if cr_name b = name then redirect ip b else b) (stored w))"

lemma restore_one:
  assumes law: "serves_bridges R stored cfg container" and "ip \<noteq> []" and "b \<in> set (stored w)"
    and "distinct (map cr_name (stored w))"
  shows "\<exists>w'. restore_bridge R ip b w = (Inr (), w')
    \<and> stored w' = map (\<lambda>c. if cr_name c = cr_name b then redirect ip c else c) (stored w)"
proof (cases "or_empty (br_destinationIP b) = ip")
  case True
  then have "redirect ip b = b" using assms(2) by (cases "br_destinationIP b") (auto simp: redirect_def or_empty_def)
  moreover have "c = b" if "c \<in> set (stored w)" "cr_name c = cr_name b" for c
    using that assms(3,4) by (metis distinct_map inj_onD)
  ultimately have "map (\<lambda>c. if cr_name c = cr_name b then redirect ip c else c) (stored w) = stored w"
    by (intro map_idI) auto
  with True show ?thesis by (simp add: restore_bridge_def)
next
  case False
  obtain w' where "ra_patch_destination R (cr_name b) ip w = (Inr (), w')"
    "stored w' = map (\<lambda>c. if cr_name c = cr_name b then redirect ip c else c) (stored w)"
    using law unfolding serves_bridges_def by blast
  with False show ?thesis by (simp add: restore_bridge_def try_Inr)
qed

lemma redirect_name [simp]: "cr_name (redirect ip b) = cr_name b" by (simp add: redirect_def)
lemma redirect_twice [simp]: "redirect ip (redirect ip b) = redirect ip b" by (simp add: redirect_def)

lemma restore_all:
  assumes law: "serves_bridges R stored cfg container" and "ip \<noteq> []"
    and "distinct (map cr_name (stored w))"
    and "distinct (map cr_name bs)" "set bs \<subseteq> set (stored w)"
  shows "\<exists>w'. for_each (restore_bridge R ip) bs w = (Inr (), w')
    \<and> stored w' = map (\<lambda>c. if cr_name c \<in> cr_name ` set bs then redirect ip c else c) (stored w)"
  using assms(3-)
proof (induction bs arbitrary: w)
  case Nil
  show ?case by simp
next
  case (Cons b bs)
  obtain w1 where 1: "restore_bridge R ip b w = (Inr (), w1)"
    "stored w1 = map (\<lambda>c. if cr_name c = cr_name b then redirect ip c else c) (stored w)"
    using restore_one [OF law assms(2), of b w] Cons.prems by auto
  have n: "map cr_name (stored w1) = map cr_name (stored w)" using 1(2) by simp
  have s: "set bs \<subseteq> set (stored w1)"
  proof
    fix c assume c: "c \<in> set bs"
    then have "c \<in> set (stored w)" "cr_name c \<noteq> cr_name b" using Cons.prems by (auto simp: rev_image_eqI)
    then show "c \<in> set (stored w1)" unfolding 1(2) by (auto simp: rev_image_eqI intro!: image_eqI [of _ _ c])
  qed
  obtain w2 where 2: "for_each (restore_bridge R ip) bs w1 = (Inr (), w2)"
    "stored w2 = map (\<lambda>c. if cr_name c \<in> cr_name ` set bs then redirect ip c else c) (stored w1)"
    using Cons.IH [of w1] Cons.prems(1,2) n s by auto
  from 1 2 show ?case by (auto simp: thn_Inr)
qed

text \<open>C8: When a container has been started, all bridges of this client made for a container of its name, and
  no others, lead to its address; the API server is assumed to answer.\<close>

theorem run_restores_bridges:
  assumes law: "serves_bridges R stored cfg (dc_name c)"
    and ip: "dget (dc_networks c) (cf_NETWORK_NAME cfg) = Some ip" "ip \<noteq> []"
    and d: "distinct (map cr_name (stored w))"
  shows "\<exists>w'. restore_bridges_for_container R cfg c w = (Inr (), w')
    \<and> stored w' = map (\<lambda>b. if labelled (str_opt (cf_CLIENT_ID cfg)) (dc_name c) b then redirect ip b else b) (stored w)"
proof -
  let ?L = "labelled (str_opt (cf_CLIENT_ID cfg)) (dc_name c)"
  let ?bs = "filter ?L (stored w)"
  obtain w1 where 1: "ra_bridges R (restore_selector cfg (dc_name c)) w = (Inr ?bs, w1)" "stored w1 = stored w"
    using law unfolding serves_bridges_def by blast
  have dd: "distinct (map cr_name ?bs)" using d by (simp add: distinct_map_filter)
  obtain w2 where 2: "for_each (restore_bridge R ip) ?bs w1 = (Inr (), w2)"
    "stored w2 = map (\<lambda>c. if cr_name c \<in> cr_name ` set ?bs then redirect ip c else c) (stored w1)"
    using restore_all [OF law ip(2), of w1 ?bs] d dd 1(2) by auto
  have m: "cr_name b \<in> cr_name ` set ?bs \<longleftrightarrow> ?L b" if "b \<in> set (stored w)" for b
    using that d by (auto simp: distinct_map inj_on_def)
  have "stored w2 = map (\<lambda>b. if ?L b then redirect ip b else b) (stored w)"
    unfolding 2(2) 1(2) using m by (intro map_cong refl) simp
  with 1(1) 2(1) ip(1) show ?thesis by (auto simp: restore_bridges_for_container_def bind_Inr try_Inr)
qed
definition mem_run :: "client_config \<Rightarrow> string \<Rightarrow> raw_bridge list run_api" where
  "mem_run cfg container =
     \<lparr>ra_workload = (\<lambda>k n ns. raise (ApiException 404)), ra_replica_set = (\<lambda>n ns. raise (ApiException 404)),
      ra_pods = (\<lambda>ns s. ret []), ra_pod = (\<lambda>n ns. raise (ApiException 404)),
      ra_pod_status = (\<lambda>n ns. raise (ApiException 404)), ra_exec = (\<lambda>p ns c cmd. ret (Refused [])),
      ra_context_namespace = ret None,
      ra_bridges = (\<lambda>s w. (Inr (if s = restore_selector cfg container
        then filter (labelled (str_opt (cf_CLIENT_ID cfg)) container) w else []), w)),
      ra_patch_destination = (\<lambda>n ip w. (Inr (), map (\<lambda>b. if cr_name b = n then redirect ip b else b) w)),
      ra_attach = (\<lambda>c. ret ()), ra_cwd = ''/'', ra_realpath = id,
      ra_floats = \<lparr>quota_of_float = \<lambda>_. None, bytes_of_float = \<lambda>_ _. None\<rparr>\<rparr>"

definition old_bridge :: "string \<Rightarrow> string \<Rightarrow> raw_bridge" where
  "old_bridge name client = \<lparr>cr_name = name, cr_namespace = ''gefyra'',
     cr_labels = Some [(''gefyra.dev/client'', client), (''gefyra.dev/client-container'', ''app'')],
     cr_state = ''ACTIVE'', cr_transitions = None, cr_sunset = None, br_provider = Some ''carrier2'',
     br_connectionProvider = None, br_client = Some client, br_destinationIP = Some ''172.20.0.2'',
     br_target = None, br_targetNamespace = None, br_targetContainer = None, br_portMappings = None,
     br_clusterEndpoint = None, br_parameter = None, rb_uid = None, rb_created = None\<rparr>"

theorem run_restores_bridges_witness:
  "\<exists>cfg w'. cf_CLIENT_ID cfg = Some ''me''
    \<and> restore_bridges_for_container (mem_run cfg ''app'') cfg (app_container ''running'')
        [old_bridge ''a'' ''me'', old_bridge ''b'' ''you''] = (Inr (), w')
    \<and> w' = [redirect ''172.20.0.5'' (old_bridge ''a'' ''me''), old_bridge ''b'' ''you'']"
proof -
  let ?cfg = "(initial_config (idle_machine :: raw_bridge list machine) default_args)
    \<lparr>cf_CLIENT_ID := Some ''me'', cf_NETWORK_NAME := ''gefyra-network-default''\<rparr>"
  have l: "serves_bridges (mem_run ?cfg (dc_name (app_container ''running''))) id ?cfg
      (dc_name (app_container ''running''))"
    by (simp add: serves_bridges_def mem_run_def)
  have ip: "dget (dc_networks (app_container ''running'')) (cf_NETWORK_NAME ?cfg) = Some ''172.20.0.5''"
    by (simp add: app_container_def)
  have d: "distinct (map cr_name (id [old_bridge ''a'' ''me'', old_bridge ''b'' ''you'']))"
    by (simp add: old_bridge_def)
  obtain w' where w: "restore_bridges_for_container (mem_run ?cfg (dc_name (app_container ''running''))) ?cfg
        (app_container ''running'') [old_bridge ''a'' ''me'', old_bridge ''b'' ''you''] = (Inr (), w')"
    "id w' = map (\<lambda>b. if labelled (str_opt (cf_CLIENT_ID ?cfg)) (dc_name (app_container ''running'')) b
      then redirect ''172.20.0.5'' b else b) (id [old_bridge ''a'' ''me'', old_bridge ''b'' ''you''])"
    using run_restores_bridges [where stored = id, OF l ip _ d] by blast
  have n: "dc_name (app_container ''running'') = ''app''" by (simp add: app_container_def)
  show ?thesis
    by (intro exI [of _ ?cfg] exI [of _ w']) (use w n in \<open>simp add: labelled_def old_bridge_def str_opt_def\<close>)
qed

end
