(* ===== verification/LocalStatus.thy ===== *)
theory LocalStatus
  imports LocalBridge LocalConnect
begin

text \<open>
  Containers, bridges and their state seen from the client: removing containers with their bridges
  (client/gefyra/api/rm.py), the status (client/gefyra/api/status.py), the list of containers
  (client/gefyra/api/list.py), and the check of a connection name (client/gefyra/cli/utils.py).
\<close>

section \<open>Removing containers\<close>

text \<open>The calls for bridges with the settings of a configuration.\<close>

definition with_config :: "'w bridge_api \<Rightarrow> client_config \<Rightarrow> 'w bridge_api" where
  "with_config K cfg = K\<lparr>ba_client_id := str_opt (cf_CLIENT_ID cfg), ba_network_name := cf_NETWORK_NAME cfg\<rparr>"

definition get_bridges_for_container :: "'w bridge_api \<Rightarrow> string \<Rightarrow> ('w, raw_bridge list) io" where
  "get_bridges_for_container K container_ip =
     bind (get_all_gefyrabridges K) (\<lambda>gefyra_bridges.
     ret (filter (\<lambda>b. br_destinationIP b = Some container_ip) gefyra_bridges))"

definition delete_bridges :: "'w bridge_api \<Rightarrow> raw_bridge list \<Rightarrow> ('w, unit) io" where
  "delete_bridges K bridges =
     for_each (\<lambda>b. thn (handle_delete_gefyrabridge K (cr_name b)) (ret ())) bridges"

text \<open>The outcome of the wait is not looked at.\<close>

definition await_deletions :: "'w bridge_api \<Rightarrow> bool \<Rightarrow> raw_bridge list \<Rightarrow> ('w, unit) io" where
  "await_deletions K wait bridges =
     whenever (wait \<and> bridges \<noteq> []) (thn (wait_for_deletion K (map rb_uid bridges) 60) (ret ()))"

definition rm_container ::
    "'w machine \<Rightarrow> 'w bridge_api \<Rightarrow> string \<Rightarrow> string \<Rightarrow> bool \<Rightarrow> bool \<Rightarrow> ('w, bool) io" where
  "rm_container M K name connection_name wait force =
     bind (ClientConfiguration M (default_args\<lparr>ar_connection_name := Some connection_name\<rparr>)) (\<lambda>cfg.
     let K = with_config K cfg in
     bind (try_except (dk_container (mc_docker M) name)
             (\<lambda>e. if e = DockerError 404 then raise RuntimeError else raise e)) (\<lambda>c.
     let container_ip = dget (dc_networks c) (cf_NETWORK_NAME cfg) in
     thn (whenever (given container_ip)
            (bind (get_bridges_for_container K (or_empty container_ip)) (\<lambda>matching_bridges.
             thn (delete_bridges K matching_bridges) (await_deletions K wait matching_bridges))))
     (thn (dk_remove (mc_docker M) (dc_id c) force) (ret True))))"

text \<open>\<open>except NotFound\<close> and \<open>KeyError\<close>: the container has no address.\<close>

definition container_address :: "'w machine \<Rightarrow> client_config \<Rightarrow> string \<Rightarrow> ('w, string option) io" where
  "container_address M cfg name =
     try_except (bind (dk_container (mc_docker M) name) (\<lambda>c. ret (dget (dc_networks c) (cf_NETWORK_NAME cfg))))
       (\<lambda>e. if e = DockerError 404 then ret None else raise e)"

definition rm_bridges_of ::
    "'w machine \<Rightarrow> 'w bridge_api \<Rightarrow> client_config \<Rightarrow> raw_bridge list \<Rightarrow> local_container \<Rightarrow> ('w, raw_bridge list) io" where
  "rm_bridges_of M K cfg all_bridges container_info =
     bind (container_address M cfg (lc_name container_info)) (\<lambda>address. case address of
       None \<Rightarrow> ret all_bridges
     | Some container_ip \<Rightarrow>
         bind (get_bridges_for_container K container_ip) (\<lambda>matching_bridges.
         thn (delete_bridges K matching_bridges) (ret (all_bridges @ matching_bridges))))"

definition remove_quietly :: "'w machine \<Rightarrow> bool \<Rightarrow> string \<Rightarrow> ('w, unit) io" where
  "remove_quietly M force name =
     try_except (bind (dk_container (mc_docker M) name) (\<lambda>c. dk_remove (mc_docker M) (dc_id c) force))
       (\<lambda>e. if is_docker_error e then ret () else raise e)"

definition unreachable :: "exn \<Rightarrow> bool" where
  "unreachable e \<longleftrightarrow> is_runtime_error e \<or> is_docker_error e \<or> is_api_exception e"

definition live_addresses :: "local_container list \<Rightarrow> string list" where
  "live_addresses containers = filter (\<lambda>a. a \<noteq> ''unknown'') (map lc_address containers)"

definition stale_bridges :: "string list \<Rightarrow> raw_bridge list \<Rightarrow> raw_bridge list" where
  "stale_bridges live_ips all_bridges =
     filter (\<lambda>b. given (br_destinationIP b) \<and> or_empty (br_destinationIP b) \<notin> set live_ips) all_bridges"

text \<open>\<open>cleanup_stale_bridges\<close> for a configuration, and without one.\<close>

definition cleanup_stale_bridges_for :: "'w bridge_api \<Rightarrow> ('w, nat) io" where
  "cleanup_stale_bridges_for K =
     bind (try_except (bind (get_all_containers K) (\<lambda>cs. ret (Some cs)))
             (\<lambda>e. if unreachable e then ret None else raise e)) (\<lambda>containers. case containers of
       None \<Rightarrow> ret 0
     | Some cs \<Rightarrow>
         bind (try_except (bind (get_all_gefyrabridges K) (\<lambda>bs. ret (Some bs)))
                 (\<lambda>e. if unreachable e then ret None else raise e)) (\<lambda>bridges. case bridges of
           None \<Rightarrow> ret 0
         | Some bs \<Rightarrow>
             let stale = stale_bridges (live_addresses cs) bs in
             thn (delete_bridges K stale) (ret (length stale))))"

definition cleanup_stale_bridges :: "'w machine \<Rightarrow> 'w bridge_api \<Rightarrow> string \<Rightarrow> ('w, nat) io" where
  "cleanup_stale_bridges M K connection_name =
     bind (try_except (bind (ClientConfiguration M (default_args\<lparr>ar_connection_name := Some connection_name\<rparr>))
                         (\<lambda>cfg. ret (Some cfg)))
             (\<lambda>e. if unreachable e \<or> is_os_error e \<or> e = ValueError then ret None else raise e)) (\<lambda>cfg. case cfg of
       None \<Rightarrow> ret 0
     | Some cfg \<Rightarrow> cleanup_stale_bridges_for (with_config K cfg))"

definition rm_all ::
    "'w machine \<Rightarrow> 'w bridge_api \<Rightarrow> string \<Rightarrow> bool \<Rightarrow> bool \<Rightarrow> ('w, bool) io" where
  "rm_all M K connection_name wait force =
     bind (ClientConfiguration M (default_args\<lparr>ar_connection_name := Some connection_name\<rparr>)) (\<lambda>cfg.
     let K = with_config K cfg in
     bind (get_all_containers K) (\<lambda>containers.
     if containers = [] then thn (cleanup_stale_bridges_for K) (ret True) else
     bind (fold_io (rm_bridges_of M K cfg) [] containers) (\<lambda>all_bridges.
     thn (await_deletions K wait all_bridges)
     (thn (for_each (remove_quietly M force) (map lc_name containers)) (ret True)))))"

section \<open>Status\<close>

text \<open>\<open>st_operator\<close>: the ready replicas and the images of the deployment.  \<open>st_stowaway\<close>: whether the
  containers of the pod are ready, if it has statuses, and their images.\<close>

record 'w status_api =
  st_api_resources :: "('w, unit) io"
  st_namespace :: "string \<Rightarrow> ('w, unit) io"
  st_operator :: "('w, nat option \<times> string list) io"
  st_stowaway :: "('w, bool list option \<times> string list) io"
  st_image_tags :: "string \<Rightarrow> ('w, string list) io"

record cluster_status =
  us_connected :: bool
  us_operator :: bool
  us_operator_image :: string
  us_stowaway :: bool
  us_stowaway_image :: string
  us_namespace :: bool
  us_operator_webhook :: bool

record client_status =
  is_version :: "string option"
  is_cargo :: bool
  is_cargo_image :: string
  is_network :: bool
  is_connection :: bool
  is_containers :: int
  is_bridges :: nat
  is_kubeconfig :: string
  is_context :: "string option"
  is_cargo_endpoint :: "string option"

datatype status_summary = UP | DOWN | INCOMPLETE

text \<open>\<open>step s next\<close>: an \<open>ApiException\<close> ends the function with the status so far.\<close>

definition or_status :: "'s \<Rightarrow> ('w, 's) io \<Rightarrow> ('s \<Rightarrow> ('w, 's) io) \<Rightarrow> (exn \<Rightarrow> bool) \<Rightarrow> ('w, 's) io" where
  "or_status s step next caught =
     try_except_else step (\<lambda>e. if caught e then ret s else raise e) next"

definition check_stowaway :: "'w status_api \<Rightarrow> cluster_status \<Rightarrow> ('w, cluster_status) io" where
  "check_stowaway S s =
     bind (st_stowaway S) (\<lambda>(statuses, images).
     bind (of_sum (case statuses of None \<Rightarrow> Inl TypeError | Some sts \<Rightarrow> nth_item sts 0)) (\<lambda>ready.
     if ready then bind (of_sum (nth_item images 0)) (\<lambda>i. ret (s\<lparr>us_stowaway := True, us_stowaway_image := i\<rparr>))
     else ret s))"

definition check_operator :: "'w status_api \<Rightarrow> cluster_status \<Rightarrow> ('w, cluster_status) io" where
  "check_operator S s =
     bind (st_operator S) (\<lambda>(ready_replicas, images).
     if ready_replicas \<notin> {None, Some 0}
     then bind (of_sum (nth_item images 0)) (\<lambda>i.
       ret (s\<lparr>us_operator := True, us_operator_webhook := True, us_operator_image := i\<rparr>))
     else ret s)"

definition no_cluster :: cluster_status where
  "no_cluster = \<lparr>us_connected = False, us_operator = False, us_operator_image = [], us_stowaway = False,
     us_stowaway_image = [], us_namespace = False, us_operator_webhook = False\<rparr>"

definition get_cluster_status :: "'w status_api \<Rightarrow> ('w, cluster_status) io" where
  "get_cluster_status S =
     (let s0 = no_cluster in
      or_status s0 (thn (st_api_resources S) (ret (s0\<lparr>us_connected := True\<rparr>))) (\<lambda>s1.
      or_status s1 (thn (st_namespace S ''gefyra'') (ret (s1\<lparr>us_namespace := True\<rparr>))) (\<lambda>s2.
      or_status s2 (check_operator S s2) (\<lambda>s3.
      or_status s3 (check_stowaway S s3) ret is_api_exception)
        is_api_exception) is_api_exception)
        (\<lambda>e. is_api_exception e \<or> e \<in> {ConfigException, MaxRetryError}))"

definition label_value :: "docker_container \<Rightarrow> string \<Rightarrow> string option" where
  "label_value c l = (case dget (dc_labels c) l of None \<Rightarrow> None | Some v \<Rightarrow> v)"

text \<open>The status of the client; \<open>NotFound\<close> is \<open>DockerError 404\<close>.\<close>

definition check_cargo ::
    "'w machine \<Rightarrow> 'w status_api \<Rightarrow> client_config \<Rightarrow> client_status \<Rightarrow> ('w, client_status) io" where
  "check_cargo M S cfg s =
     bind (try_except (bind (dk_container (mc_docker M) (cf_CARGO_CONTAINER_NAME cfg)) (\<lambda>c. ret (Some c)))
             (\<lambda>e. if e = DockerError 404 then ret None else raise e)) (\<lambda>cargo. case cargo of
       None \<Rightarrow> ret s
     | Some c \<Rightarrow>
         if dc_status c \<noteq> ''running'' then ret s else
         let s = s\<lparr>is_cargo := True, is_cargo_endpoint := label_value c CARGO_ENDPOINT_LABEL,
                   is_version := label_value c ''version.gefyra.dev''\<rparr> in
         try_except
           (bind (st_image_tags S (dc_id c)) (\<lambda>tags.
            bind (of_sum (nth_item tags 0)) (\<lambda>t. ret (s\<lparr>is_cargo_image := t\<rparr>))))
           (\<lambda>e. if e = DockerError 404 then ret s else raise e))"

text \<open>Whether the network exists; its containers are looked up one by one.\<close>

definition check_network :: "'w machine \<Rightarrow> client_config \<Rightarrow> client_status \<Rightarrow> ('w, bool \<times> client_status) io" where
  "check_network M cfg s =
     bind (try_except (bind (dk_network (mc_docker M) (cf_NETWORK_NAME cfg)) (\<lambda>n. ret (Some n)))
             (\<lambda>e. if e = DockerError 404 then ret None else raise e)) (\<lambda>net. case net of
       None \<Rightarrow> ret (False, s)
     | Some n \<Rightarrow>
         let s = s\<lparr>is_network := True\<rparr> in
         try_except
           (bind (map_io (dk_container (mc_docker M)) (dn_containers n)) (\<lambda>cs.
            ret (True, s\<lparr>is_containers := int (length cs) - (if is_cargo s then 1 else 0)\<rparr>)))
           (\<lambda>e. if e = DockerError 404 then ret (False, s) else raise e))"

definition get_client_status ::
    "'w machine \<Rightarrow> 'w status_api \<Rightarrow> 'w bridge_api \<Rightarrow> client_config \<Rightarrow> ('w, client_status) io" where
  "get_client_status M S K cfg =
     bind (KUBE_CONFIG_FILE M cfg) (\<lambda>(file, cfg).
     bind (KUBE_CONTEXT M cfg) (\<lambda>(context, cfg).
     bind (check_cargo M S cfg \<lparr>is_version = Some [], is_cargo = False, is_cargo_image = cf_CARGO_IMAGE cfg,
             is_network = False, is_connection = False, is_containers = 0, is_bridges = 0,
             is_kubeconfig = file, is_context = context, is_cargo_endpoint = Some []\<rparr>) (\<lambda>s.
     bind (check_network M cfg s) (\<lambda>(found, s).
     if \<not> found then ret s else
     or_status s
       (if is_cargo s then thn (probe_wireguard_connection M cfg) (ret (s\<lparr>is_connection := True\<rparr>)) else ret s)
       (\<lambda>s. bind (get_all_gefyrabridges (with_config K cfg)) (\<lambda>bs. ret (s\<lparr>is_bridges := length bs\<rparr>)))
       is_runtime_error))))"

definition summary_of :: "cluster_status \<Rightarrow> client_status \<Rightarrow> status_summary" where
  "summary_of cluster client =
     (if is_connection client then UP
      else if is_cargo client \<or> (us_connected cluster \<and> us_operator cluster \<and> us_stowaway cluster
        \<and> us_operator_webhook cluster) then INCOMPLETE
      else DOWN)"

definition gefyra_status ::
    "'w machine \<Rightarrow> 'w status_api \<Rightarrow> 'w bridge_api \<Rightarrow> string
     \<Rightarrow> ('w, status_summary \<times> cluster_status \<times> client_status) io" where
  "gefyra_status M S K connection_name =
     bind (ClientConfiguration M (default_args\<lparr>ar_connection_name := Some connection_name\<rparr>)) (\<lambda>cfg.
     bind (get_cluster_status S) (\<lambda>cluster.
     bind (try_except (get_client_status M S K cfg)
             (\<lambda>e. if e = MaxRetryError then raise ClientConfigurationError else raise e)) (\<lambda>client.
     ret (summary_of cluster client, cluster, client))))"

section \<open>Lists\<close>

definition containers_of :: "'w machine \<Rightarrow> 'w bridge_api \<Rightarrow> string \<Rightarrow> ('w, string \<times> local_container list) io" where
  "containers_of M K connection_name =
     bind (ClientConfiguration M (default_args\<lparr>ar_connection_name := Some connection_name\<rparr>)) (\<lambda>cfg.
     bind (get_all_containers (with_config K cfg)) (\<lambda>cs. ret (connection_name, cs)))"

definition list_containers ::
    "'w machine \<Rightarrow> 'w bridge_api \<Rightarrow> string option \<Rightarrow> ('w, (string \<times> local_container list) list) io" where
  "list_containers M K connection_name =
     bind (list_connections M) (\<lambda>conns.
     if given connection_name then
       (if or_empty connection_name \<notin> set (map ci_name conns) then raise ClientConfigurationError
        else bind (containers_of M K (or_empty connection_name)) (\<lambda>c. ret [c]))
     else map_io (\<lambda>c. containers_of M K (ci_name c)) conns)"

definition check_connection_name :: "'w machine \<Rightarrow> string option \<Rightarrow> ('w, string) io" where
  "check_connection_name M selected =
     (let selected = or_else selected ''default'' in
      bind (list_connections M) (\<lambda>conn_list.
      if conn_list = [] then raise UsageError
      else if selected \<in> set (map ci_name conn_list) then ret selected
      else raise UsageError))"

end
