(* ===== verification/StatusProperties.thy ===== *)
theory StatusProperties
  imports LocalStatus MemLocal
begin

text \<open>
  What removing containers and asking for the status promise: exactly the bridges concerned are deleted,
  and the parts of the status agree with each other.
\<close>

section \<open>Bridges of a client\<close>

definition mine :: "string \<Rightarrow> raw_bridge \<Rightarrow> bool" where
  "mine client b \<longleftrightarrow> (case cr_labels b of None \<Rightarrow> False | Some l \<Rightarrow> dget l ''gefyra.dev/client'' = Some client)"

text \<open>The API server: the selector selects the bridges of the client, a deletion removes the bridge of
  that name.\<close>

definition lists_and_deletes :: "'w bridge_api \<Rightarrow> ('w \<Rightarrow> raw_bridge list) \<Rightarrow> bool" where
  "lists_and_deletes K stored \<longleftrightarrow>
     (\<forall>w. \<exists>w'. ba_list K (Some (client_selector (ba_client_id K))) w =
          (Inr (filter (mine (ba_client_id K)) (stored w)), w') \<and> stored w' = stored w)
   \<and> (\<forall>name w. \<exists>uid w'. ba_delete K name w = (Inr uid, w') \<and> stored w' = filter (\<lambda>b. cr_name b \<noteq> name) (stored w))"

lemma listed:
  assumes "lists_and_deletes K stored"
  shows "\<exists>w'. get_all_gefyrabridges K w = (Inr (filter (mine (ba_client_id K)) (stored w)), w') \<and> stored w' = stored w"
proof -
  obtain w' where "ba_list K (Some (client_selector (ba_client_id K))) w =
      (Inr (filter (mine (ba_client_id K)) (stored w)), w')" "stored w' = stored w"
    using assms unfolding lists_and_deletes_def by blast
  then show ?thesis by (simp add: get_all_gefyrabridges_def try_Inr)
qed

lemma deleted_all:
  assumes law: "lists_and_deletes K stored"
  shows "\<exists>w'. delete_bridges K bs w = (Inr (), w')
    \<and> stored w' = filter (\<lambda>b. cr_name b \<notin> cr_name ` set bs) (stored w)"
proof (induction bs arbitrary: w)
  case Nil
  show ?case by (simp add: delete_bridges_def)
next
  case (Cons b bs)
  obtain uid w1 where 1: "ba_delete K (cr_name b) w = (Inr uid, w1)"
    "stored w1 = filter (\<lambda>c. cr_name c \<noteq> cr_name b) (stored w)"
    using law unfolding lists_and_deletes_def by blast
  from Cons.IH [of w1] obtain w2 where 2: "delete_bridges K bs w1 = (Inr (), w2)"
    "stored w2 = filter (\<lambda>b. cr_name b \<notin> cr_name ` set bs) (stored w1)" by blast
  have "delete_bridges K (b # bs) w = (Inr (), w2)"
    using 1(1) 2(1) by (simp add: delete_bridges_def handle_delete_gefyrabridge_def thn_def bind_def try_except_def)
  moreover have "stored w2 = filter (\<lambda>c. cr_name c \<notin> cr_name ` set (b # bs)) (stored w)"
    unfolding 2(2) 1(2) by (auto intro: filter_cong)
  ultimately show ?case by blast
qed

text \<open>With distinct names, deleting the selected bridges by name deletes exactly them.\<close>

lemma filter_names:
  assumes "distinct (map cr_name bs)"
  shows "filter (\<lambda>b. cr_name b \<notin> cr_name ` set (filter P bs)) bs = filter (\<lambda>b. \<not> P b) bs"
  using assms by (intro filter_cong refl) (auto simp: distinct_map inj_on_def)

definition stale :: "string list \<Rightarrow> raw_bridge \<Rightarrow> bool" where
  "stale live b \<longleftrightarrow> (\<exists>ip. br_destinationIP b = Some ip \<and> ip \<noteq> [] \<and> ip \<notin> set live)"

lemma stale_exact: "stale_bridges live bs = filter (stale live) bs"
  unfolding stale_bridges_def by (intro filter_cong refl) (auto simp: given_def or_empty_def stale_def split: option.splits)

text \<open>C9: The cleanup deletes exactly the bridges of this client that lead to no live container, and returns
  their number; the bridges of other clients stay.\<close>

theorem cleanup_removes_stale:
  assumes law: "lists_and_deletes K stored" and d: "distinct (map cr_name (stored w))"
    and cs: "get_all_containers K w = (Inr cs, w1)" "stored w1 = stored w"
  shows "\<exists>w'. cleanup_stale_bridges_for K w =
      (Inr (length (filter (\<lambda>b. mine (ba_client_id K) b \<and> stale (live_addresses cs) b) (stored w))), w')
    \<and> stored w' = filter (\<lambda>b. \<not> (mine (ba_client_id K) b \<and> stale (live_addresses cs) b)) (stored w)"
proof -
  let ?P = "\<lambda>b. mine (ba_client_id K) b \<and> stale (live_addresses cs) b"
  obtain w2 where 2: "get_all_gefyrabridges K w1 = (Inr (filter (mine (ba_client_id K)) (stored w)), w2)" "stored w2 = stored w"
    using listed [OF law, of w1] cs(2) by auto
  have s: "stale_bridges (live_addresses cs) (filter (mine (ba_client_id K)) (stored w)) = filter ?P (stored w)"
    by (simp add: stale_exact conj_commute)
  obtain w3 where 3: "delete_bridges K (filter ?P (stored w)) w2 = (Inr (), w3)"
    "stored w3 = filter (\<lambda>b. cr_name b \<notin> cr_name ` set (filter ?P (stored w))) (stored w2)"
    using deleted_all [OF law] by blast
  have "stored w3 = filter (\<lambda>b. \<not> ?P b) (stored w)" unfolding 3(2) 2(2) using d by (rule filter_names)
  moreover have "cleanup_stale_bridges_for K w = (Inr (length (filter ?P (stored w))), w3)"
    unfolding cleanup_stale_bridges_for_def
    using cs(1) 2(1) 3(1) s by (simp add: bind_def thn_def try_except_def Let_def)
  ultimately show ?thesis by blast
qed

definition kept_bridges :: "string \<Rightarrow> string list \<Rightarrow> raw_bridge list bridge_api" where
  "kept_bridges client addresses = \<lparr>ba_mounts = idle_mounts, ba_create = (\<lambda>b. raise (ApiException 500)),
     ba_delete = (\<lambda>n w. (Inr None, filter (\<lambda>b. cr_name b \<noteq> n) w)), ba_get = (\<lambda>n. raise (ApiException 404)),
     ba_list = (\<lambda>s w. (Inr (case s of None \<Rightarrow> w | Some l \<Rightarrow>
       if l = client_selector client then filter (mine client) w else []), w)),
     ba_watch = (\<lambda>t. ret []), ba_container = (\<lambda>n. raise (DockerError 404)),
     ba_network_containers = (\<lambda>n. ret (map (\<lambda>a. (app_container ''running'')\<lparr>dc_networks := [(n, a)]\<rparr>) addresses)),
     ba_client_id = client, ba_network_name = ''gefyra-network-default''\<rparr>"

lemma kept_bridges_law: "lists_and_deletes (kept_bridges client addresses) id"
  by (simp add: lists_and_deletes_def kept_bridges_def)

definition some_bridge :: "string \<Rightarrow> string \<Rightarrow> string \<Rightarrow> raw_bridge" where
  "some_bridge name client ip = \<lparr>cr_name = name, cr_namespace = ''gefyra'',
     cr_labels = Some [(''gefyra.dev/client'', client)],
     cr_state = ''ACTIVE'', cr_transitions = None, cr_sunset = None, br_provider = Some ''carrier2'',
     br_connectionProvider = None, br_client = Some client, br_destinationIP = Some ip,
     br_target = None, br_targetNamespace = None, br_targetContainer = None, br_portMappings = None,
     br_clusterEndpoint = None, br_parameter = None, rb_uid = None, rb_created = None\<rparr>"

theorem cleanup_removes_stale_witness:
  "cleanup_stale_bridges_for (kept_bridges ''me'' [''172.20.0.5''])
     [some_bridge ''a'' ''me'' ''172.20.0.5'', some_bridge ''b'' ''me'' ''172.20.0.6'', some_bridge ''c'' ''you'' ''172.20.0.6'']
   = (Inr 1, [some_bridge ''a'' ''me'' ''172.20.0.5'', some_bridge ''c'' ''you'' ''172.20.0.6''])"
proof -
  let ?K = "kept_bridges ''me'' [''172.20.0.5'']"
  let ?w = "[some_bridge ''a'' ''me'' ''172.20.0.5'', some_bridge ''b'' ''me'' ''172.20.0.6'', some_bridge ''c'' ''you'' ''172.20.0.6'']"
  let ?cs = "local_containers ''gefyra-network-default'' (map (\<lambda>a. (app_container ''running'')
     \<lparr>dc_networks := [(''gefyra-network-default'', a)]\<rparr>) [''172.20.0.5''])"
  have d: "distinct (map cr_name (id ?w))" by (simp add: some_bridge_def)
  have cs: "get_all_containers ?K ?w = (Inr ?cs, ?w)"
    by (simp add: get_all_containers_def kept_bridges_def bind_def)
  have live: "live_addresses ?cs = [''172.20.0.5'']" by code_simp
  from cleanup_removes_stale [OF kept_bridges_law d cs] live show ?thesis
    by (simp add: kept_bridges_def mine_def stale_def some_bridge_def)
qed

text \<open>C10: \<open>rm\<close> removes a container after deleting exactly the bridges of this client that lead to its address.\<close>

theorem rm_removes_bridges:
  assumes law: "lists_and_deletes (with_config K cfg) stored"
    and cfg: "ClientConfiguration M (default_args\<lparr>ar_connection_name := Some connection\<rparr>) w = (Inr cfg, w1)"
      "stored w1 = stored w"
    and c: "dk_container (mc_docker M) name w1 = (Inr c, w2)" "stored w2 = stored w"
    and ip: "dget (dc_networks c) (cf_NETWORK_NAME cfg) = Some ip" "ip \<noteq> []"
    and rm: "\<And>w. fst (dk_remove (mc_docker M) (dc_id c) force w) = Inr ()
      \<and> stored (snd (dk_remove (mc_docker M) (dc_id c) force w)) = stored w"
    and d: "distinct (map cr_name (stored w))"
  shows "\<exists>w'. rm_container M K name connection False force w = (Inr True, w')
    \<and> stored w' = filter (\<lambda>b. \<not> (mine (str_opt (cf_CLIENT_ID cfg)) b \<and> br_destinationIP b = Some ip)) (stored w)"
proof -
  let ?K = "with_config K cfg"
  let ?P = "\<lambda>b. mine (str_opt (cf_CLIENT_ID cfg)) b \<and> br_destinationIP b = Some ip"
  have i: "ba_client_id ?K = str_opt (cf_CLIENT_ID cfg)" by (simp add: with_config_def)
  obtain w3 where 3: "get_all_gefyrabridges ?K w2 = (Inr (filter (mine (str_opt (cf_CLIENT_ID cfg))) (stored w)), w3)"
    "stored w3 = stored w"
    using listed [OF law, of w2] c(2) i by auto
  have m: "get_bridges_for_container ?K ip w2 = (Inr (filter ?P (stored w)), w3)"
    using 3(1) by (simp add: get_bridges_for_container_def bind_Inr conj_commute)
  obtain w4 where 4: "delete_bridges ?K (filter ?P (stored w)) w3 = (Inr (), w4)"
    "stored w4 = filter (\<lambda>b. cr_name b \<notin> cr_name ` set (filter ?P (stored w))) (stored w3)"
    using deleted_all [OF law] by blast
  obtain w5 where 5: "dk_remove (mc_docker M) (dc_id c) force w4 = (Inr (), w5)" "stored w5 = stored w4"
    using rm [of w4] by (metis prod.collapse)
  have "rm_container M K name connection False force w = (Inr True, w5)"
    unfolding rm_container_def using cfg(1) c(1) ip m 4(1) 5(1)
    by (simp add: bind_def thn_def try_except_def Let_def given_def or_empty_def await_deletions_def)
  moreover have "stored w5 = filter (\<lambda>b. \<not> ?P b) (stored w)"
    unfolding 5(2) 4(2) 3(2) using d by (rule filter_names)
  ultimately show ?thesis by blast
qed

theorem rm_removes_bridges_witness:
  "rm_container running_machine (kept_bridges [] []) ''app'' ''default'' False True
     [some_bridge ''a'' [] ''172.20.0.5'', some_bridge ''b'' [] ''172.20.0.6'', some_bridge ''c'' ''you'' ''172.20.0.5'']
   = (Inr True, [some_bridge ''b'' [] ''172.20.0.6'', some_bridge ''c'' ''you'' ''172.20.0.5''])"
proof -
  let ?w = "[some_bridge ''a'' [] ''172.20.0.5'', some_bridge ''b'' [] ''172.20.0.6'', some_bridge ''c'' ''you'' ''172.20.0.5'']"
  obtain cfg where cfg: "\<forall>w :: raw_bridge list. ClientConfiguration running_machine (default_args\<lparr>ar_connection_name := Some ''default''\<rparr>) w = (Inr cfg, w)"
    "cf_NETWORK_NAME cfg = ''gefyra-network-default''" "cf_CLIENT_ID cfg = Some []"
    using default_connection [of "running_machine :: raw_bridge list machine"] by auto
  have k: "with_config (kept_bridges [] []) cfg = kept_bridges [] []"
    by (simp add: with_config_def kept_bridges_def cfg str_opt_def)
  have law: "lists_and_deletes (with_config (kept_bridges [] []) cfg) id"
    unfolding k by (rule kept_bridges_law)
  have c: "dk_container (mc_docker running_machine) ''app'' ?w = (Inr (app_container ''running''), ?w)" by simp
  have ip: "dget (dc_networks (app_container ''running'')) (cf_NETWORK_NAME cfg) = Some ''172.20.0.5''"
    using cfg(2) by (simp add: app_container_def)
  have d: "distinct (map cr_name (id ?w))" by (simp add: some_bridge_def)
  from rm_removes_bridges [where stored = id and force = True, OF law cfg(1) [rule_format] _ c _ ip _ _ d] cfg(3)
  show ?thesis by (simp add: mine_def some_bridge_def str_opt_def)
qed

section \<open>Status\<close>

lemma or_status_Inr: "or_status s step next caught w = (Inr r, w') \<Longrightarrow>
    r = s \<or> (\<exists>s1 w1. step w = (Inr s1, w1) \<and> next s1 w1 = (Inr r, w'))"
  by (auto simp: or_status_def try_except_else_def split: prod.splits sum.splits if_splits)

definition cluster_consistent :: "cluster_status \<Rightarrow> bool" where
  "cluster_consistent s \<longleftrightarrow> (us_namespace s \<longrightarrow> us_connected s) \<and> (us_operator s \<longrightarrow> us_namespace s)
     \<and> (us_stowaway s \<longrightarrow> us_namespace s) \<and> (us_operator_webhook s = us_operator s)"

lemma cluster_status_consistent:
  assumes "get_cluster_status S w = (Inr s, w')"
  shows "cluster_consistent s"
  using assms unfolding get_cluster_status_def Let_def
  apply -
  apply (drule or_status_Inr)
  apply (auto simp: cluster_consistent_def no_cluster_def thn_Inr_iff bind_Inr_iff check_operator_def check_stowaway_def
     split: if_splits dest!: or_status_Inr)
  done

lemma try_Inr_iff: "try_except m h w = (Inr r, w') \<longleftrightarrow>
    m w = (Inr r, w') \<or> (\<exists>e w1. m w = (Inl e, w1) \<and> h e w1 = (Inr r, w'))"
  by (auto simp: try_except_def split: prod.split sum.split)

lemma check_cargo_keeps:
  assumes "check_cargo M S cfg s w = (Inr r, w')"
  shows "is_connection r = is_connection s \<and> is_network r = is_network s"
  using assms by (auto simp: check_cargo_def bind_Inr_iff try_Inr_iff Let_def split: option.splits if_splits)

lemma check_network_keeps:
  assumes "check_network M cfg s w = (Inr (found, r), w')"
  shows "is_connection r = is_connection s \<and> is_cargo r = is_cargo s \<and> (found \<longrightarrow> is_network r)"
  using assms by (auto simp: check_network_def bind_Inr_iff try_Inr_iff Let_def split: option.splits if_splits)

lemma client_status_consistent:
  assumes "get_client_status M S K cfg w = (Inr s, w')"
  shows "is_connection s \<longrightarrow> is_cargo s \<and> is_network s"
proof -
  from assms obtain cfg2 s0 s1 s2 found w1 w2 w3 where s0: "\<not> is_connection s0" and
    1: "check_cargo M S cfg2 s0 w1 = (Inr s1, w2)" and 2: "check_network M cfg2 s1 w2 = (Inr (found, s2), w3)"
    and 3: "(if \<not> found then ret s2 else or_status s2
       (if is_cargo s2 then thn (probe_wireguard_connection M cfg2) (ret (s2\<lparr>is_connection := True\<rparr>)) else ret s2)
       (\<lambda>s. bind (get_all_gefyrabridges (with_config K cfg2)) (\<lambda>bs. ret (s\<lparr>is_bridges := length bs\<rparr>)))
       is_runtime_error) w3 = (Inr s, w')"
    unfolding get_client_status_def
    apply (auto simp: bind_Inr_iff)
    subgoal premises p by (rule p(1) [OF _ p(4-6)]) simp
    done
  note k = check_cargo_keeps [OF 1] check_network_keeps [OF 2]
  show ?thesis
  proof (cases found)
    case False
    with 3 k s0 show ?thesis by simp
  next
    case True
    have net: "is_network s2" and c2: "\<not> is_connection s2" using k s0 True by auto
    let ?probe = "if is_cargo s2 then thn (probe_wireguard_connection M cfg2) (ret (s2\<lparr>is_connection := True\<rparr>)) else ret s2"
    let ?count = "\<lambda>s. bind (get_all_gefyrabridges (with_config K cfg2)) (\<lambda>bs. ret (s\<lparr>is_bridges := length bs\<rparr>))"
    from 3 True have "or_status s2 ?probe ?count is_runtime_error w3 = (Inr s, w')" by simp
    from or_status_Inr [OF this] consider "s = s2" | s3 w4 where "?probe w3 = (Inr s3, w4)" "?count s3 w4 = (Inr s, w')"
      by blast
    then show ?thesis
    proof cases
      case 1
      with c2 show ?thesis by simp
    next
      case 2
      from 2(2) have "\<exists>n. s = s3\<lparr>is_bridges := n\<rparr>" by (auto simp: bind_Inr_iff)
      then obtain n where s: "s = s3\<lparr>is_bridges := n\<rparr>" by blast
      show ?thesis
      proof (cases "is_cargo s2")
        case True
        with 2(1) have "s3 = s2\<lparr>is_connection := True\<rparr>" by (auto simp: thn_Inr_iff)
        with s net True show ?thesis by simp
      next
        case False
        with 2(1) s c2 show ?thesis by simp
      qed
    qed
  qed
qed

text \<open>C33: The status is consistent: a cluster part is only found where the part it depends on has been found,
  \<open>UP\<close> is reported exactly for a working connection, which has a running Cargo and a network, and \<open>DOWN\<close>
  never with a running Cargo.\<close>

theorem status_consistent:
  assumes "gefyra_status M S K connection w = (Inr (summary, cluster, client), w')"
  shows "cluster_consistent cluster
    \<and> (summary = UP \<longleftrightarrow> is_connection client) \<and> (summary = UP \<longrightarrow> is_cargo client \<and> is_network client)
    \<and> (summary = DOWN \<longrightarrow> \<not> is_cargo client)"
proof -
  from assms obtain w1 w2 cfg where c: "get_cluster_status S w1 = (Inr cluster, w2)"
    and s: "summary = summary_of cluster client"
    and i: "try_except (get_client_status M S K cfg)
             (\<lambda>e. if e = MaxRetryError then raise ClientConfigurationError else raise e) w2 = (Inr client, w')"
    by (auto simp: gefyra_status_def bind_Inr_iff)
  from i have "get_client_status M S K cfg w2 = (Inr client, w')"
    by (auto simp: try_Inr_iff split: if_splits)
  from client_status_consistent [OF this] cluster_status_consistent [OF c] s show ?thesis
    by (auto simp: summary_of_def)
qed
definition healthy_cluster :: "'w status_api" where
  "healthy_cluster = \<lparr>st_api_resources = ret (), st_namespace = (\<lambda>n. ret ()), st_operator = ret (Some 1, [''operator:2.5.4'']),
     st_stowaway = ret (Some [True], [''stowaway:2.5.4'']), st_image_tags = (\<lambda>c. ret [''cargo:2.5.4''])\<rparr>"

lemma running_kube:
  "\<exists>f cfg1. KUBE_CONFIG_FILE running_machine cfg w = (Inr (f, cfg1), w) \<and> cf_CARGO_PROBE_TIMEOUT cfg1 = cf_CARGO_PROBE_TIMEOUT cfg"
  "\<exists>c cfg1. KUBE_CONTEXT running_machine cfg w = (Inr (c, cfg1), w) \<and> cf_CARGO_PROBE_TIMEOUT cfg1 = cf_CARGO_PROBE_TIMEOUT cfg"
  by (simp_all add: KUBE_CONTEXT_def KUBE_CONFIG_FILE_def set_kube_config_file_def bind_def running_machine_def idle_machine_def)

lemma running_cargo:
  "\<exists>s1. check_cargo running_machine healthy_cluster cfg s w = (Inr s1, w) \<and> is_cargo s1"
  by (simp add: check_cargo_def healthy_cluster_def app_status bind_def try_except_def nth_item_def Let_def)

lemma running_network:
  "\<exists>s1. check_network running_machine cfg s w = (Inr (True, s1), w) \<and> is_cargo s1 = is_cargo s"
proof -
  have "\<exists>n. dk_network (running_docker :: 'a docker_api) name = ret n \<and> dn_containers n = []" for name
    by (simp add: running_docker_def) (intro exI conjI, rule refl, simp)
  then obtain n where "dk_network (running_docker :: 'a docker_api) (cf_NETWORK_NAME cfg) = ret n" "dn_containers n = []"
    by blast
  then show ?thesis by (simp add: check_network_def bind_def try_except_def Let_def)
qed

lemma running_probe:
  assumes "cf_CARGO_PROBE_TIMEOUT cfg = 20"
  shows "probe_wireguard_connection running_machine cfg w = (Inr (), w)"
proof -
  have n: "cf_CARGO_PROBE_TIMEOUT cfg * 2 = Suc 39" using assms by simp
  have "ping_stowaway running_machine c (Suc 39) v = (Inr (), v)" for c v
    unfolding ping_stowaway.simps by (simp add: bind_def)
  then show ?thesis unfolding probe_wireguard_connection_def n by (simp add: bind_def del: ping_stowaway.simps)
qed

lemma running_client:
  assumes "cf_CARGO_PROBE_TIMEOUT cfg = 20"
  shows "\<exists>s. get_client_status running_machine healthy_cluster (kept_bridges [] []) cfg [] = (Inr s, []) \<and> is_connection s"
proof -
  obtain f cfg1 where 1: "KUBE_CONFIG_FILE running_machine cfg ([] :: raw_bridge list) = (Inr (f, cfg1), [])" "cf_CARGO_PROBE_TIMEOUT cfg1 = 20"
    using running_kube(1) assms by metis
  obtain c cfg2 where 2: "KUBE_CONTEXT running_machine cfg1 ([] :: raw_bridge list) = (Inr (c, cfg2), [])" "cf_CARGO_PROBE_TIMEOUT cfg2 = 20"
    using running_kube(2) 1(2) by metis
  let ?s0 = "\<lparr>is_version = Some [], is_cargo = False, is_cargo_image = cf_CARGO_IMAGE cfg2,
             is_network = False, is_connection = False, is_containers = 0, is_bridges = 0,
             is_kubeconfig = f, is_context = c, is_cargo_endpoint = Some []\<rparr>"
  obtain s1 where 3: "check_cargo running_machine healthy_cluster cfg2 ?s0 [] = (Inr s1, [] :: raw_bridge list)" "is_cargo s1"
    using running_cargo [of cfg2 ?s0 "[] :: raw_bridge list"] by auto
  obtain s2 where 4: "check_network running_machine cfg2 s1 [] = (Inr (True, s2), [] :: raw_bridge list)" "is_cargo s2"
    using running_network 3(2) by metis
  have "get_all_gefyrabridges (with_config (kept_bridges [] []) cfg2) [] = (Inr [], [])"
    by (simp add: get_all_gefyrabridges_def with_config_def kept_bridges_def try_except_def)
  with 1 2 3 4 running_probe [OF 2(2), of "[] :: raw_bridge list"] show ?thesis
    by (simp add: get_client_status_def or_status_def try_except_else_def bind_def thn_def)
qed

theorem status_consistent_witness:
  "\<exists>cluster client w. gefyra_status running_machine healthy_cluster (kept_bridges [] []) ''default'' [] = (Inr (UP, cluster, client), w)
    \<and> cluster_consistent cluster \<and> is_cargo client \<and> is_network client"
proof -
  obtain cfg where cfg: "\<forall>w :: raw_bridge list. ClientConfiguration running_machine (default_args\<lparr>ar_connection_name := Some ''default''\<rparr>) w = (Inr cfg, w)"
    "cf_CARGO_PROBE_TIMEOUT cfg = 20"
    using default_connection [of "running_machine :: raw_bridge list machine"] by auto
  obtain client where c: "get_client_status running_machine healthy_cluster (kept_bridges [] []) cfg [] = (Inr client, [])"
    "is_connection client" using running_client [OF cfg(2)] by blast
  have "\<exists>cluster. get_cluster_status healthy_cluster ([] :: raw_bridge list) = (Inr cluster, [])"
    by (simp add: get_cluster_status_def healthy_cluster_def or_status_def try_except_else_def check_operator_def
        check_stowaway_def nth_item_def bind_def thn_def Let_def)
  then obtain cluster where "get_cluster_status healthy_cluster ([] :: raw_bridge list) = (Inr cluster, [])" by blast
  with cfg(1) c have s: "gefyra_status running_machine healthy_cluster (kept_bridges [] []) ''default'' [] =
      (Inr (UP, cluster, client), [])"
    by (simp add: gefyra_status_def bind_def try_except_def summary_of_def)
  from s status_consistent [OF s] show ?thesis by blast
qed

end
