(* ===== verification/LocalCommands.thy ===== *)
theory LocalCommands
  imports LocalInstall LocalRun LocalStatus
begin

text \<open>
  The bodies of the commands of \<open>gefyra\<close> (client/gefyra/cli): what is done with the parsed options.
  Output, progress bars and log levels are left out.  Questions to the user are calls (\<open>cm_confirm\<close>); a
  refusal raises \<open>click.Abort\<close>, which is a \<open>RuntimeError\<close>.

  A command that waits without bound is a function from the world to an optional outcome, \<open>None\<close> where
  it does not return (\<open>pio\<close>).
\<close>

section \<open>Commands that may not return\<close>

type_synonym ('w, 'a) pio = "'w \<Rightarrow> ((exn + 'a) \<times> 'w) option"

definition total :: "('w, 'a) io \<Rightarrow> ('w, 'a) pio" where
  "total m = (\<lambda>w. Some (m w))"

definition pbind :: "('w, 'a) pio \<Rightarrow> ('a \<Rightarrow> ('w, 'b) pio) \<Rightarrow> ('w, 'b) pio" where
  "pbind m f = (\<lambda>w. case m w of None \<Rightarrow> None | Some (Inl e, w1) \<Rightarrow> Some (Inl e, w1) | Some (Inr x, w1) \<Rightarrow> f x w1)"

definition pthn :: "('w, 'a) pio \<Rightarrow> ('w, 'b) pio \<Rightarrow> ('w, 'b) pio" where
  "pthn m k = pbind m (\<lambda>_. k)"

definition ptry :: "('w, 'a) pio \<Rightarrow> (exn \<Rightarrow> ('w, 'a) pio) \<Rightarrow> ('w, 'a) pio" where
  "ptry m h = (\<lambda>w. case m w of None \<Rightarrow> None | Some (Inl e, w1) \<Rightarrow> h e w1 | Some (Inr x, w1) \<Rightarrow> Some (Inr x, w1))"

text \<open>A method of a client that may not return, on a client object.\<close>

definition on_client ::
    "(gefyra_client \<times> 'w \<Rightarrow> ((exn + 'a) \<times> (gefyra_client \<times> 'w)) option) \<Rightarrow> gefyra_client \<Rightarrow> ('w, 'a) pio" where
  "on_client m c = (\<lambda>w. map_option (\<lambda>(r, s). (r, snd s)) (m (c, w)))"

section \<open>Click\<close>

record 'w terminal =
  cm_confirm :: "('w, bool) io"
  cm_env_kubeconfig :: "string option"
  cm_literal_eval :: "string \<Rightarrow> exn + string list"

text \<open>\<open>click.confirm(..., abort=True)\<close>, unless \<open>force\<close>.\<close>

definition confirm :: "'w terminal \<Rightarrow> bool \<Rightarrow> ('w, unit) io" where
  "confirm T force = (if force then ret () else bind (cm_confirm T) (\<lambda>yes. if yes then ret () else raise RuntimeError))"

text \<open>The exit code of a command: \<open>standard_error_handler\<close> passes the attribute \<open>exit_code\<close> on.\<close>

fun exit_code :: "exn \<Rightarrow> nat" where
  "exit_code CommandTimeoutError = 100"
| "exit_code GefyraObjectNotFound = 101"
| "exit_code UsageError = 2"
| "exit_code (SystemExit n) = n"
| "exit_code _ = 1"

text \<open>A group of commands: the names, in order of definition, with their aliases.  \<open>None\<close>: no such
  command; an ambiguous abbreviation is a usage error.\<close>

type_synonym command_group = "string list dict"

definition get_command :: "command_group \<Rightarrow> string \<Rightarrow> exn + string option" where
  "get_command commands cmd_name =
     (if cmd_name \<in> set (keys commands) then Inr (Some cmd_name) else
      case filter (\<lambda>(name, alias). cmd_name \<in> set alias) commands of
        (name, _) # _ \<Rightarrow> Inr (Some name)
      | [] \<Rightarrow> (case filter (\<lambda>x. startswith x cmd_name) (keys commands) of
          [] \<Rightarrow> Inr None | [x] \<Rightarrow> Inr (Some x) | _ \<Rightarrow> Inl UsageError))"

text \<open>The groups of the client.  The commands of the root group have no aliases; the groups \<open>self\<close> and
  \<open>operator\<close> have none either.\<close>

definition root_group :: command_group where
  "root_group = map (\<lambda>c. (c, [])) [''bridge'', ''clients'', ''connections'', ''install'', ''uninstall'', ''up'', ''down'',
     ''status'', ''run'', ''rm'', ''version'', ''self'', ''operator'', ''list'', ''mount'']"

definition bridge_group :: command_group where
  "bridge_group = [(''create'', []), (''delete'', [''rm'', ''remove'']), (''list'', [''ls'']),
     (''inspect'', [''describe'', ''show'', ''get''])]"

definition clients_group :: command_group where
  "clients_group = [(''create'', []), (''delete'', [''rm'', ''remove'']), (''list'', [''ls'']),
     (''disconnect'', [''deactivate'', ''stop'']), (''inspect'', [''describe'', ''show'', ''get'']), (''config'', [''write''])]"

definition connections_group :: command_group where
  "connections_group = [(''connect'', [''create'']), (''disconnect'', [''stop'', ''halt'']), (''list'', [''ls'']),
     (''remove'', [''rm'']), (''inspect'', [])]"

definition mount_group :: command_group where
  "mount_group = [(''create'', []), (''delete'', [''rm'', ''remove'']), (''list'', [''ls'']),
     (''inspect'', [''describe'', ''show'', ''get''])]"

definition COMMAND_GROUPS :: "command_group list" where
  "COMMAND_GROUPS = [root_group, bridge_group, clients_group, connections_group, mount_group]"

text \<open>The groups for clients, bridges and mounts: the kubeconfig of the environment, or the default.\<close>

definition group_kubeconfig :: "'w machine \<Rightarrow> 'w terminal \<Rightarrow> string option \<Rightarrow> string option" where
  "group_kubeconfig M T kubeconfig = (case kubeconfig of
       Some k \<Rightarrow> Some k | None \<Rightarrow> Some (or_else (cm_env_kubeconfig T) (mc_home M @ ''/.kube/config'')))"

section \<open>Events\<close>

text \<open>An event of the namespace: the object it is about, its time, and its reason.\<close>

record watch_event =
  we_object :: "string option"
  we_time :: "int option"
  we_reason :: string

record 'w event_api =
  ev_stream :: "nat \<Rightarrow> ('w, watch_event list) io"
  ev_parse_time :: "string \<Rightarrow> exn + int"

text \<open>False when the reason has been seen; the object of the event is not compared.  True when the
  stream ends before.\<close>

definition timeout_in :: "int \<Rightarrow> string \<Rightarrow> watch_event list \<Rightarrow> bool" where
  "timeout_in created stop_reason events = (\<not> list_ex (\<lambda>e. we_object e \<notin> {None, Some []}
     \<and> (case we_time e of None \<Rightarrow> False | Some t \<Rightarrow> created < t) \<and> we_reason e = stop_reason) events)"

text \<open>\<open>WatchEventsMixin.watch_events\<close>; an \<open>ApiException\<close> other than 403 ends it with \<open>None\<close>, which
  is false.  \<open>refresh\<close> is the update of an object without a creation time.\<close>

definition watch_events ::
    "'w event_api \<Rightarrow> string option \<Rightarrow> ('w, string option) io \<Rightarrow> string \<Rightarrow> nat \<Rightarrow> ('w, bool) io" where
  "watch_events E created refresh stop_reason timeout =
     bind (case created of None \<Rightarrow> refresh | Some c \<Rightarrow> ret (Some c)) (\<lambda>created.
     bind (of_sum (case created of None \<Rightarrow> Inl TypeError | Some c \<Rightarrow> ev_parse_time E c)) (\<lambda>created.
     try_except (bind (ev_stream E timeout) (\<lambda>events. ret (timeout_in created stop_reason events)))
       (\<lambda>e. if status_of e = Some 403 then raise RuntimeError
            else if is_api_exception e then ret False else raise e)))"

section \<open>Bridges\<close>

definition connection_config :: "'w machine \<Rightarrow> string \<Rightarrow> ('w, client_config) io" where
  "connection_config M connection_name =
     ClientConfiguration M (default_args\<lparr>ar_connection_name := Some connection_name\<rparr>)"

definition api_create_bridge ::
    "'w machine \<Rightarrow> 'w bridge_api \<Rightarrow> string \<Rightarrow> string \<Rightarrow> port_target dict \<Rightarrow> string \<Rightarrow> string \<Rightarrow> match list list
     \<Rightarrow> ('w, gefyra_bridge) io" where
  "api_create_bridge M K name local ports mount connection_name rules =
     bind (connection_config M connection_name) (\<lambda>cfg.
     create_bridge (with_config K cfg) name local ports mount rules)"

definition api_delete_bridge ::
    "'w machine \<Rightarrow> 'w bridge_api \<Rightarrow> string option \<Rightarrow> string option \<Rightarrow> string \<Rightarrow> bool \<Rightarrow> nat \<Rightarrow> ('w, bool) io" where
  "api_delete_bridge M K name mount_name connection_name wait timeout =
     bind (connection_config M connection_name) (\<lambda>cfg.
     delete_bridge (with_config K cfg) name mount_name wait timeout)"

text \<open>The class \<open>GefyraBridge\<close> has no \<open>update\<close>.\<close>

definition create_bridge_command ::
    "'w machine \<Rightarrow> 'w bridge_api \<Rightarrow> 'w event_api \<Rightarrow> string \<Rightarrow> string \<Rightarrow> port_target dict \<Rightarrow> string
     \<Rightarrow> match list list \<Rightarrow> string \<Rightarrow> bool \<Rightarrow> nat \<Rightarrow> ('w, unit) io" where
  "create_bridge_command M K E name local ports mount rules connection_name nowait timeout =
     (if list_all (\<lambda>r. r = []) rules then raise UsageError else
      try_except
        (bind (api_create_bridge M K name local ports mount connection_name rules) (\<lambda>b.
         bind (if nowait then ret False
               else watch_events E (gb_created b) (raise AttributeError) ''Ready'' timeout) (\<lambda>timeout_reached.
         if timeout_reached then raise CommandTimeoutError else ret ())))
        (\<lambda>e. if is_runtime_error e then raise PlainException else raise e))"

definition delete_bridge_command ::
    "'w machine \<Rightarrow> 'w bridge_api \<Rightarrow> string option \<Rightarrow> string \<Rightarrow> bool \<Rightarrow> string option \<Rightarrow> bool \<Rightarrow> nat \<Rightarrow> ('w, unit) io" where
  "delete_bridge_command M K name connection_name all_bridges mount nowait timeout =
     (if \<not> all_bridges \<and> \<not> given name \<and> \<not> given mount then raise (SystemExit 1) else
      try_except
        (if all_bridges then
           bind (connection_config M connection_name) (\<lambda>cfg.
           thn (unbridge_all (with_config K cfg) (\<not> nowait)) (ret ()))
         else if given mount then
           thn (api_delete_bridge M K None mount connection_name (\<not> nowait) timeout) (ret ())
         else thn (api_delete_bridge M K name None connection_name (\<not> nowait) 60) (ret ()))
        (\<lambda>e. if e \<in> {TimeoutError, CommandTimeoutError} then raise CommandTimeoutError else raise e))"

definition bridges_command ::
    "'w machine \<Rightarrow> 'w bridge_api \<Rightarrow> string option \<Rightarrow> string option \<Rightarrow> bool \<Rightarrow> string option
     \<Rightarrow> ('w, (local_container option \<times> gefyra_bridge) list) io" where
  "bridges_command M K kubeconfig kubecontext all_bridges connection_name =
     (let args = default_args\<lparr>ar_kube_config_file := kubeconfig, ar_kube_context := kubecontext\<rparr> in
      if \<not> all_bridges \<and> given connection_name then
        thn (check_connection_name M connection_name)
        (bind (ClientConfiguration M (args\<lparr>ar_connection_name := connection_name\<rparr>)) (\<lambda>cfg.
         list_bridges (with_config K cfg) True True))
      else bind (ClientConfiguration M (args\<lparr>ar_connection_name := Some []\<rparr>)) (\<lambda>cfg.
         list_bridges (with_config K cfg) False False))"

section \<open>Mounts\<close>

definition update_mount :: "'w bridge_api \<Rightarrow> gefyra_mount \<Rightarrow> ('w, string option) io" where
  "update_mount K m =
     bind (get_gefyrabridgemount (ba_mounts K) (gm_mount_id m)) (\<lambda>obj. ret (gm_created (GefyraBridgeMount obj)))"

definition connection_args :: "string option \<Rightarrow> string option \<Rightarrow> string \<Rightarrow> config_args" where
  "connection_args kubeconfig kubecontext connection_name =
     default_args\<lparr>ar_kube_config_file := kubeconfig, ar_kube_context := kubecontext,
       ar_connection_name := Some connection_name\<rparr>"

definition create_mount_command ::
    "'w machine \<Rightarrow> 'w bridge_api \<Rightarrow> 'w event_api \<Rightarrow> string option \<Rightarrow> string option \<Rightarrow> string \<Rightarrow> string \<Rightarrow> string
     \<Rightarrow> bool \<Rightarrow> nat \<Rightarrow> string option \<Rightarrow> string list \<Rightarrow> string list \<Rightarrow> string list \<Rightarrow> ('w, unit) pio" where
  "create_mount_command M K E kubeconfig kubecontext namespace target connection_name nowait timeout name
     tls_certificate tls_key tls_sni =
     ptry
       (pbind (total (ClientConfiguration M (connection_args kubeconfig kubecontext connection_name))) (\<lambda>_.
        pbind (create_mount (ba_mounts K) namespace target (\<not> nowait) (int timeout) name ''carrier2mount''
                 tls_certificate tls_key tls_sni) (\<lambda>m.
        total
          (bind (if nowait then ret False
                 else watch_events E (gm_created m) (update_mount K m) ''Ready'' timeout) (\<lambda>timeout_reached.
           if timeout_reached then raise CommandTimeoutError else ret ())))))
       (\<lambda>e. total (if is_runtime_error e then raise PlainException else raise e))"

definition delete_mount_command ::
    "'w machine \<Rightarrow> 'w bridge_api \<Rightarrow> string option \<Rightarrow> string option \<Rightarrow> string list \<Rightarrow> bool \<Rightarrow> nat \<Rightarrow> string
     \<Rightarrow> ('w, unit) io" where
  "delete_mount_command M K kubeconfig kubecontext mount_names nowait timeout connection_name =
     for_each (\<lambda>name.
       try_except
         (bind (ClientConfiguration M (connection_args kubeconfig kubecontext connection_name)) (\<lambda>_.
          thn (delete_mount (ba_mounts K) name False (\<not> nowait) (Some timeout)) (ret ())))
         (\<lambda>e. if e \<in> {TimeoutError, CommandTimeoutError} then raise CommandTimeoutError else raise e)) mount_names"

section \<open>Clients\<close>

fun wait_clients :: "'w machine \<Rightarrow> int \<Rightarrow> gefyra_client list \<Rightarrow> ('w, unit) pio" where
  "wait_clients M timeout [] = total (ret ())"
| "wait_clients M timeout (c # cs) =
     pthn (on_client (wait_for_state M WAITING timeout) c) (wait_clients M timeout cs)"

definition create_clients_command ::
    "'w machine \<Rightarrow> string option \<Rightarrow> string option \<Rightarrow> string \<Rightarrow> nat \<Rightarrow> string option \<Rightarrow> bool \<Rightarrow> int \<Rightarrow> ('w, unit) pio" where
  "create_clients_command M kubeconfig kubecontext client_id quantity registry nowait timeout =
     pbind (total (add_clients M client_id quantity registry kubeconfig kubecontext)) (\<lambda>clients.
     if nowait then total (ret ()) else wait_clients M timeout clients)"

definition delete_client_command ::
    "'w machine \<Rightarrow> string option \<Rightarrow> string option \<Rightarrow> string list \<Rightarrow> bool \<Rightarrow> nat \<Rightarrow> bool \<Rightarrow> ('w, unit) io" where
  "delete_client_command M kubeconfig kubecontext client_ids nowait timeout force =
     for_each (\<lambda>c. thn (delete_client M c force kubeconfig kubecontext None (\<not> nowait) (Some timeout)) (ret ())) client_ids"

text \<open>A row: name, state, time of creation, handshake.\<close>

definition client_row :: "gefyra_client \<Rightarrow> exn + string \<times> string \<times> string \<times> wg_value option option" where
  "client_row c = sbind (GefyraClientState (go_state c)) (\<lambda>st.
     Inr (go_client_id c, state_value st,
       (case dget (go_state_transitions c) ''CREATING'' of None \<Rightarrow> ''Creating...'' | Some t \<Rightarrow> t), go_wg_handshake c))"

definition clients_command ::
    "'w machine \<Rightarrow> string option \<Rightarrow> string option
     \<Rightarrow> ('w, (string \<times> string \<times> string \<times> wg_value option option) list) io" where
  "clients_command M kubeconfig kubecontext =
     bind (list_client M kubeconfig kubecontext) (\<lambda>cs. of_sum (map_sum_list client_row cs))"

definition disconnect_client_command ::
    "'w machine \<Rightarrow> string option \<Rightarrow> string option \<Rightarrow> string \<Rightarrow> ('w, unit) io" where
  "disconnect_client_command M kubeconfig kubecontext client_id =
     bind (get_client M (Some client_id) [] kubeconfig kubecontext) (\<lambda>c w.
     case deactivate_connection M (c, w) of (r, (_, w1)) \<Rightarrow> (r, w1))"

section \<open>Connections\<close>

definition connection_bridges ::
    "'w machine \<Rightarrow> 'w bridge_api \<Rightarrow> string \<Rightarrow> ('w, (local_container option \<times> gefyra_bridge) list) io" where
  "connection_bridges M K connection_name =
     bind (connection_config M connection_name) (\<lambda>cfg. list_bridges (with_config K cfg) True False)"

definition remove_connection_container :: "'w machine \<Rightarrow> string \<Rightarrow> local_container \<Rightarrow> ('w, unit) io" where
  "remove_connection_container M connection_name c =
     bind (connection_config M connection_name) (\<lambda>_.
     bind (dk_container (mc_docker M) (lc_name c)) (\<lambda>container. dk_remove (mc_docker M) (dc_id container) True))"

definition manage_container_and_bridges ::
    "'w machine \<Rightarrow> 'w bridge_api \<Rightarrow> 'w terminal \<Rightarrow> string \<Rightarrow> bool \<Rightarrow> ('w, unit) io" where
  "manage_container_and_bridges M K T connection_name force =
     thn (try_except
       (bind (connection_bridges M K connection_name) (\<lambda>bridges.
        if bridges = [] then ret () else
        thn (confirm T force)
        (for_each (\<lambda>(_, b). thn (api_delete_bridge M K (Some (gb_name b)) None connection_name False 60) (ret ())) bridges)))
       (\<lambda>e. if e = MaxRetryError \<or> is_api_exception e then ret () else raise e))
     (bind (list_containers M K (Some connection_name)) (\<lambda>containers.
      case containers of
        (_, c # cs) # _ \<Rightarrow> thn (confirm T force) (for_each (remove_connection_container M connection_name) (c # cs))
      | _ \<Rightarrow> ret ()))"

text \<open>\<open>except RuntimeError: pass\<close>, which is also the refusal of the user.\<close>

definition manage_quietly ::
    "'w machine \<Rightarrow> 'w bridge_api \<Rightarrow> 'w terminal \<Rightarrow> string \<Rightarrow> bool \<Rightarrow> ('w, unit) io" where
  "manage_quietly M K T connection_name yes =
     try_except (manage_container_and_bridges M K T connection_name yes)
       (\<lambda>e. if is_runtime_error e then ret () else raise e)"

definition connect_command ::
    "'w machine \<Rightarrow> string option \<Rightarrow> string option \<Rightarrow> (exn + gefyra_client_config) option \<Rightarrow> string \<Rightarrow> string option
     \<Rightarrow> nat option \<Rightarrow> string option \<Rightarrow> bool \<Rightarrow> nat \<Rightarrow> ('w, unit) pio" where
  "connect_command M kubeconfig kubecontext client_config connection_name minikube mtu cargo_image force timeout =
     pbind (total (list_connections M)) (\<lambda>conn_list.
     if client_config \<noteq> None \<and> connection_name \<in> set (map ci_name conn_list) then total (raise UsageError) else
     pthn (api_connect M connection_name client_config kubeconfig kubecontext minikube mtu 60 True cargo_image force timeout)
       (total (ret ())))"

definition disconnect_command ::
    "'w machine \<Rightarrow> 'w bridge_api \<Rightarrow> 'w terminal \<Rightarrow> bool \<Rightarrow> string \<Rightarrow> int \<Rightarrow> bool \<Rightarrow> ('w, unit) pio" where
  "disconnect_command M K T yes connection_name timeout nowait =
     pthn (total (manage_quietly M K T connection_name yes))
     (pthn (api_disconnect M connection_name nowait timeout) (total (ret ())))"

definition remove_connection_command ::
    "'w machine \<Rightarrow> 'w bridge_api \<Rightarrow> 'w terminal \<Rightarrow> bool \<Rightarrow> string option \<Rightarrow> ('w, unit) pio" where
  "remove_connection_command M K T yes connection_name =
     pbind (total (check_connection_name M connection_name)) (\<lambda>connection_name.
     pthn (total (manage_quietly M K T connection_name yes))
     (remove_connection M connection_name))"

section \<open>Containers\<close>

text \<open>\<open>ast.literal_eval(command)[0]\<close> of a command that is given.\<close>

definition literal_command :: "'w terminal \<Rightarrow> string \<Rightarrow> exn + string" where
  "literal_command T command =
     (if command = [] then Inr [] else sbind (cm_literal_eval T command) (\<lambda>parts. nth_item parts 0))"

definition run_command ::
    "'w machine \<Rightarrow> 'w run_api \<Rightarrow> 'w terminal \<Rightarrow> run_args \<Rightarrow> string list \<Rightarrow> ('w, unit) io" where
  "run_command M R T a extra =
     bind (of_sum (literal_command T (rn_command a))) (\<lambda>command.
     if given (rn_memory a) \<and> given (rn_memory_from a) then raise UsageError
     else if given (rn_cpu a) \<and> given (rn_cpu_from a) then raise UsageError
     else
     bind (of_sum (if extra = [] then Inr None
                   else sbind (parse_extra_container_args extra) (\<lambda>e. Inr (Some e)))) (\<lambda>extra_container_args.
     bind (try_except (run_container M R (a\<lparr>rn_command := command, rn_extra := extra_container_args\<rparr>))
             (\<lambda>e. if e = ValueError then raise UsageError else raise e)) (\<lambda>result.
     if result then ret () else raise (SystemExit 1))))"

definition rm_command ::
    "'w machine \<Rightarrow> 'w bridge_api \<Rightarrow> string \<Rightarrow> bool \<Rightarrow> bool \<Rightarrow> bool \<Rightarrow> string option \<Rightarrow> ('w, unit) io" where
  "rm_command M K name all_containers force nowait connection_name =
     bind (check_connection_name M connection_name) (\<lambda>connection_name.
     if \<not> all_containers \<and> name = [] then raise UsageError
     else if all_containers then thn (rm_all M K connection_name (\<not> nowait) force) (ret ())
     else thn (rm_container M K name connection_name (\<not> nowait) force) (ret ()))"

section \<open>Installation\<close>

text \<open>Options that are empty, zero or false are left out.\<close>

definition truthy_number :: "number_arg option \<Rightarrow> number_arg option" where
  "truthy_number a = (if a \<in> {Some (Num 0), Some (Text [])} then None else a)"

definition truthy_pairs :: "pairs_arg option \<Rightarrow> pairs_arg option" where
  "truthy_pairs a = (case a of Some p \<Rightarrow> if no_pairs p then None else Some p | None \<Rightarrow> None)"

definition truthy_text :: "string option \<Rightarrow> string option" where
  "truthy_text a = (if given a then a else None)"

definition truthy_flag :: "bool option \<Rightarrow> bool option" where
  "truthy_flag a = (if a = Some True then a else None)"

definition truthy_args :: "install_args \<Rightarrow> install_args" where
  "truthy_args a = \<lparr>ia_namespace = truthy_text (ia_namespace a), ia_version = truthy_text (ia_version a),
     ia_service_type = truthy_text (ia_service_type a), ia_service_port = truthy_number (ia_service_port a),
     ia_service_labels = truthy_pairs (ia_service_labels a),
     ia_service_annotations = truthy_pairs (ia_service_annotations a),
     ia_registry = truthy_text (ia_registry a), ia_mtu = truthy_number (ia_mtu a),
     ia_stowaway_storage = truthy_number (ia_stowaway_storage a),
     ia_max_client_connection_age = truthy_number (ia_max_client_connection_age a),
     ia_disable_client_sa_management = truthy_flag (ia_disable_client_sa_management a),
     ia_bridge_debug = truthy_flag (ia_bridge_debug a)\<rparr>"

definition install_command ::
    "'w machine \<Rightarrow> 'w admin_api \<Rightarrow> (json \<Rightarrow> string) \<Rightarrow> string list \<Rightarrow> string option \<Rightarrow> bool \<Rightarrow> bool \<Rightarrow> install_args
     \<Rightarrow> ('w, string) pio" where
  "install_command M A dump component preset apply wait args =
     (if wait \<and> \<not> apply then total (raise UsageError)
      else install M A dump component preset apply wait None None (truthy_args args))"

definition uninstall_command :: "'w machine \<Rightarrow> 'w admin_api \<Rightarrow> 'w terminal \<Rightarrow> bool \<Rightarrow> ('w, unit) io" where
  "uninstall_command M A T force = thn (confirm T force) (uninstall M A None None)"

definition update_command :: "'w machine \<Rightarrow> 'w admin_api \<Rightarrow> string option \<Rightarrow> ('w, unit) io" where
  "update_command M A version = thn (operator_update M A version None None) (ret ())"

section \<open>up and down\<close>

definition kube_settings :: "'w machine \<Rightarrow> client_config \<Rightarrow> ('w, string \<times> string option \<times> client_config) io" where
  "kube_settings M cfg =
     bind (KUBE_CONFIG_FILE M cfg) (\<lambda>(file, cfg).
     bind (KUBE_CONTEXT M cfg) (\<lambda>(context, cfg). ret (file, context, cfg)))"

definition check_and_install ::
    "'w machine \<Rightarrow> 'w admin_api \<Rightarrow> 'w status_api \<Rightarrow> 'w bridge_api \<Rightarrow> (json \<Rightarrow> string) \<Rightarrow> client_config \<Rightarrow> string
     \<Rightarrow> string option \<Rightarrow> ('w, bool) pio" where
  "check_and_install M A S K dump cfg connection_name preset =
     pbind (total (gefyra_status M S K connection_name)) (\<lambda>(summary, _).
     case summary of
       UP \<Rightarrow> total (ret True)
     | INCOMPLETE \<Rightarrow> total (ret False)
     | DOWN \<Rightarrow>
         pbind (total (kube_settings M cfg)) (\<lambda>(file, context, cfg).
         pthn (install M A dump [] preset True True (Some file) context
                 (no_args\<lparr>ia_registry := Some (cf_REGISTRY cfg), ia_mtu := map_option Text (cf_WIREGUARD_MTU cfg)\<rparr>))
         (total (ret True))))"

definition get_default_client :: "'w machine \<Rightarrow> client_config \<Rightarrow> ('w, gefyra_client) io" where
  "get_default_client M cfg =
     bind (kube_settings M cfg) (\<lambda>(file, context, cfg). get_client M (Some ''default'') [] (Some file) context)"

definition new_default_client :: "'w machine \<Rightarrow> client_config \<Rightarrow> ('w, gefyra_client) pio" where
  "new_default_client M cfg =
     pbind (total (kube_settings M cfg)) (\<lambda>(file, context, cfg).
     ptry
       (pbind (total (bind (add_clients M ''default'' 1 None (Some file) context) (\<lambda>cs. of_sum (nth_item cs 0)))) (\<lambda>client.
        pthn (on_client (wait_for_state M WAITING 60) client) (total (ret client))))
       (\<lambda>e. total (if e = GefyraClientAlreadyExists then get_default_client M cfg else raise e)))"

primrec client_file_attempts ::
    "'w machine \<Rightarrow> client_config \<Rightarrow> string \<Rightarrow> string option \<Rightarrow> nat \<Rightarrow> ('w, gefyra_client_config) io" where
  "client_file_attempts M cfg client_id host_name 0 = raise ClientConfigurationError"
| "client_file_attempts M cfg client_id host_name (Suc n) =
     bind (try_except
             (bind (kube_settings M cfg) (\<lambda>(file, context, cfg).
              bind (write_client_file M client_id host_name None None (Some file) context None None False)
                (\<lambda>conf. ret (Some conf))))
             (\<lambda>e. if e = ClientConfigurationError then ret None else raise e)) (\<lambda>conf. case conf of
       Some conf \<Rightarrow> ret conf
     | None \<Rightarrow> thn (mc_sleep M 1000) (client_file_attempts M cfg client_id host_name n))"

text \<open>\<open>PRESET_TYPE_MAPPING\<close> has no local presets.\<close>

definition endpoint_for :: "'w machine \<Rightarrow> client_config \<Rightarrow> string option \<Rightarrow> ('w, string option) io" where
  "endpoint_for M cfg preset =
     (if \<not> given preset
      then bind (CARGO_ENDPOINT M cfg) (\<lambda>e. bind (of_sum (endpoint_host e)) (\<lambda>h. ret (Some h)))
      else ret None)"

text \<open>\<open>client_json\<close> prints the file of the client, \<open>reread\<close> is what reading it gives.\<close>

definition connect_default ::
    "'w machine \<Rightarrow> (gefyra_client_config \<Rightarrow> string) \<Rightarrow> (gefyra_client_config \<Rightarrow> exn + gefyra_client_config)
     \<Rightarrow> gefyra_client_config \<Rightarrow> string option \<Rightarrow> ('w, unit) pio" where
  "connect_default M client_json reread conf minikube =
     pbind (total (get_gefyra_config_location M)) (\<lambda>dir.
     let loc = path_join2 dir ''default_client.json'' in
     pthn (total (mc_write M loc (client_json conf)))
     (pthn (api_connect M ''default'' (Some (reread conf)) None None minikube None 180 False None False 60)
     (total (mc_unlink M loc))))"

definition up_command ::
    "'w machine \<Rightarrow> 'w admin_api \<Rightarrow> 'w status_api \<Rightarrow> 'w bridge_api \<Rightarrow> (json \<Rightarrow> string) \<Rightarrow> (gefyra_client_config \<Rightarrow> string)
     \<Rightarrow> (gefyra_client_config \<Rightarrow> exn + gefyra_client_config) \<Rightarrow> string option \<Rightarrow> string option \<Rightarrow> string option
     \<Rightarrow> string option \<Rightarrow> string option \<Rightarrow> nat option \<Rightarrow> ('w, unit) pio" where
  "up_command M A S K dump client_json reread kubeconfig kubecontext minikube preset registry mtu =
     (if given minikube \<and> given preset then total (raise UsageError) else
      pbind (total (ClientConfiguration M (default_args\<lparr>ar_kube_config_file := kubeconfig,
              ar_kube_context := kubecontext, ar_registry := registry,
              ar_wireguard_mtu := (case mtu of None \<Rightarrow> None | Some m \<Rightarrow> if m = 0 then None else Some (str_nat m))\<rparr>))) (\<lambda>cfg.
      pbind (check_and_install M A S K dump cfg ''default'' preset) (\<lambda>install_success.
      pbind (if install_success then new_default_client M cfg else total (get_default_client M cfg)) (\<lambda>client.
      pbind (total (endpoint_for M cfg preset)) (\<lambda>host_name.
      pbind (total (client_file_attempts M cfg (go_client_id client) host_name 20)) (\<lambda>conf.
      connect_default M client_json reread conf minikube))))))"

definition down_command ::
    "'w machine \<Rightarrow> 'w admin_api \<Rightarrow> 'w bridge_api \<Rightarrow> 'w terminal \<Rightarrow> string option \<Rightarrow> string option \<Rightarrow> ('w, unit) pio" where
  "down_command M A K T kubeconfig kubecontext =
     pbind (total (ClientConfiguration M (default_args\<lparr>ar_kube_config_file := group_kubeconfig M T kubeconfig,
             ar_kube_context := kubecontext\<rparr>))) (\<lambda>cfg.
     pthn (total (try_except (manage_container_and_bridges M K T ''default'' True)
             (\<lambda>e. if e = ClientConfigurationError then ret () else raise e)))
     (pthn (total (bind (kube_settings M cfg) (\<lambda>(file, context, cfg). uninstall M A (Some file) context)))
     (remove_connection M ''default'')))"

end
