(* ===== verification/CommandProperties.thy ===== *)
theory CommandProperties
  imports LocalCommands StatusProperties CarrierCalls Negotiation EndToEnd
begin

text \<open>
  What the commands of \<open>gefyra\<close> promise: which command a name stands for, which states the list of the
  clients can show, that the waits end, and what a refused confirmation prevents.
\<close>

section \<open>Names of commands\<close>

definition denotes :: "command_group \<Rightarrow> string \<Rightarrow> string \<Rightarrow> bool" where
  "denotes g n c \<longleftrightarrow> (\<exists>alias. (c, alias) \<in> set g \<and> (n = c \<or> n \<in> set alias))"

definition abbreviated :: "command_group \<Rightarrow> string \<Rightarrow> string set" where
  "abbreviated g n = {c \<in> set (keys g). startswith c n}"

text \<open>No name or alias is used twice.\<close>

definition unambiguous :: "command_group \<Rightarrow> bool" where
  "unambiguous g \<longleftrightarrow> distinct (concat (map (\<lambda>p. fst p # snd p) g))"

lemma unambiguous_Cons:
  assumes "unambiguous ((c, as) # g)"
  shows "unambiguous g" "(e, bs) \<in> set g \<Longrightarrow> set (c # as) \<inter> set (e # bs) = {}"
proof -
  have d: "distinct (c # as)" "distinct (concat (map (\<lambda>p. fst p # snd p) g))"
    "set (c # as) \<inter> set (concat (map (\<lambda>p. fst p # snd p) g)) = {}"
    using assms unfolding unambiguous_def list.map concat.simps distinct_append fst_conv snd_conv by blast+
  show "unambiguous g" using d(2) by (simp add: unambiguous_def)
  assume "(e, bs) \<in> set g"
  then have "set (e # bs) \<subseteq> set (concat (map (\<lambda>p. fst p # snd p) g))" by force
  then show "set (c # as) \<inter> set (e # bs) = {}" using d(3) by blast
qed

lemma unambiguous_keys: "unambiguous g \<Longrightarrow> distinct (keys g)"
proof (induction g)
  case (Cons p g)
  obtain k as where p: "p = (k, as)" by force
  have "k \<notin> set (keys g)" using unambiguous_Cons(2) [OF Cons.prems [unfolded p]] by (fastforce simp: keys_def)
  then show ?case using Cons.IH [OF unambiguous_Cons(1)] Cons.prems unfolding p by (simp add: keys_def)
qed (simp add: keys_def)

lemma denotes_unique:
  assumes "unambiguous g" and "denotes g n c" and "denotes g n d"
  shows "c = d"
  using assms
proof (induction g)
  case (Cons p g)
  obtain k as where p: "p = (k, as)" by force
  have s: "(e, bs) \<in> set g \<Longrightarrow> m = e \<or> m \<in> set bs \<Longrightarrow> m \<notin> set (k # as)" for e bs m
    using unambiguous_Cons(2) [OF Cons.prems(1) [unfolded p], of e bs] by auto
  show ?case
  proof (cases "n \<in> set (k # as)")
    case True
    then have "c = k" "d = k" using Cons.prems(2,3) s unfolding denotes_def p by auto
    then show ?thesis by simp
  next
    case False
    then have "denotes g n c" "denotes g n d" using Cons.prems(2,3) unfolding denotes_def p by auto
    then show ?thesis using Cons.IH unambiguous_Cons(1) Cons.prems(1) unfolding p by blast
  qed
qed (simp add: denotes_def)

lemma get_command_denoted:
  assumes "unambiguous g" and "denotes g n c"
  shows "get_command g n = Inr (Some c)"
proof (cases "n \<in> set (keys g)")
  case True
  then have "denotes g n n" by (auto simp: denotes_def keys_def)
  then have "c = n" using denotes_unique assms by blast
  with True show ?thesis by (simp add: get_command_def)
next
  case False
  obtain al where a: "(c, al) \<in> set g" "n = c \<or> n \<in> set al" using assms(2) by (auto simp: denotes_def)
  have "n \<noteq> c" using a(1) False by (force simp: keys_def)
  then have "(c, al) \<in> set (filter (\<lambda>(name, alias). n \<in> set alias) g)" using a by simp
  then obtain d ds ps where f: "filter (\<lambda>(name, alias). n \<in> set alias) g = (d, ds) # ps"
    by (cases "filter (\<lambda>(name, alias). n \<in> set alias) g") auto
  then have "(d, ds) \<in> set g" "n \<in> set ds" by (auto dest!: filter_eq_ConsD)
  then have "d = c" using denotes_unique [OF assms(1), of n d c] assms(2) by (auto simp: denotes_def)
  with f False show ?thesis by (simp add: get_command_def)
qed

lemma get_command_abbreviated:
  assumes "unambiguous g" and "\<nexists>c. denotes g n c"
  shows "get_command g n = Inr (Some c) \<longleftrightarrow> abbreviated g n = {c}"
    "get_command g n = Inr None \<longleftrightarrow> abbreviated g n = {}"
    "get_command g n = Inl e \<longleftrightarrow> e = UsageError \<and> (\<exists>x y. x \<noteq> y \<and> {x, y} \<subseteq> abbreviated g n)"
proof -
  let ?m = "filter (\<lambda>x. startswith x n) (keys g)"
  have 1: "n \<notin> set (keys g)" using assms(2) by (fastforce simp: denotes_def keys_def)
  have 2: "filter (\<lambda>(name, alias). n \<in> set alias) g = []" using assms(2) by (auto simp: denotes_def filter_empty_conv)
  have r: "get_command g n = (case ?m of [] \<Rightarrow> Inr None | [x] \<Rightarrow> Inr (Some x) | _ \<Rightarrow> Inl UsageError)"
    using 1 2 by (simp add: get_command_def)
  have s: "abbreviated g n = set ?m" by (auto simp: abbreviated_def)
  have d: "distinct ?m" using unambiguous_keys [OF assms(1)] by simp
  show "get_command g n = Inr (Some c) \<longleftrightarrow> abbreviated g n = {c}" "get_command g n = Inr None \<longleftrightarrow> abbreviated g n = {}"
    "get_command g n = Inl e \<longleftrightarrow> e = UsageError \<and> (\<exists>x y. x \<noteq> y \<and> {x, y} \<subseteq> abbreviated g n)"
    using d unfolding r s by (cases ?m; cases "tl ?m"; auto)+
qed

text \<open>C34: With distinct names and aliases, a name stands for the command it names, else for the only
  command it abbreviates; an abbreviation of several commands is refused.\<close>

theorem get_command_correct:
  assumes "unambiguous g"
  shows "(get_command g n = Inr (Some c) \<longleftrightarrow> denotes g n c \<or> (\<nexists>d. denotes g n d) \<and> abbreviated g n = {c})
    \<and> (get_command g n = Inr None \<longleftrightarrow> (\<nexists>d. denotes g n d) \<and> abbreviated g n = {})
    \<and> (get_command g n = Inl e \<longleftrightarrow> e = UsageError \<and> (\<nexists>d. denotes g n d)
         \<and> (\<exists>x y. x \<noteq> y \<and> {x, y} \<subseteq> abbreviated g n))"
proof (cases "\<exists>d. denotes g n d")
  case True
  then obtain d where d: "denotes g n d" by blast
  then have "denotes g n c \<longleftrightarrow> c = d" using denotes_unique [OF assms] by blast
  with d True show ?thesis by (auto simp: get_command_denoted [OF assms d])
next
  case False
  have "\<not> denotes g n c" using False by blast
  then show ?thesis using False get_command_abbreviated(1) [OF assms False, of c]
      get_command_abbreviated(2) [OF assms False] get_command_abbreviated(3) [OF assms False, of e] by simp
qed

text \<open>The groups of the client are of this kind; \<open>gefyra connections rm\<close> is \<open>remove\<close>, \<open>co\<close> is
  \<open>connect\<close>.\<close>

lemma groups_unambiguous: "list_all unambiguous COMMAND_GROUPS"
  by code_simp

theorem get_command_correct_witness:
  "get_command connections_group ''rm'' = Inr (Some ''remove'') \<and> get_command connections_group ''co'' = Inr (Some ''connect'')"
proof -
  have u: "unambiguous connections_group" using groups_unambiguous by (simp add: COMMAND_GROUPS_def)
  have 1: "denotes connections_group ''rm'' ''remove''" by (simp add: denotes_def connections_group_def)
  have 2: "(\<nexists>d. denotes connections_group ''co'' d)" "abbreviated connections_group ''co'' = {''connect''}"
    by (auto simp: denotes_def connections_group_def abbreviated_def keys_def startswith_def)
  show ?thesis using get_command_correct [OF u, of "''rm''" "''remove''" UsageError]
      get_command_correct [OF u, of "''co''" "''connect''" UsageError] 1 2 by blast
qed

section \<open>The list of clients\<close>

lemma known_state: "GefyraClientState v = Inr s \<longleftrightarrow> state_value s = v"
  by (cases s) (auto simp: GefyraClientState_def split: list.splits if_splits)

lemma operator_states: "(\<exists>s. state_value s = v) \<longleftrightarrow> (\<exists>s. client_value s = v)"
proof
  assume "\<exists>s. state_value s = v"
  then obtain s where "state_value s = v" by blast
  then show "\<exists>s. client_value s = v"
    by (cases s) (metis client_value.simps state_value.simps)+
next
  assume "\<exists>s. client_value s = v"
  then obtain s where "client_value s = v" by blast
  then show "\<exists>s. state_value s = v"
    by (cases s) (metis client_value.simps state_value.simps)+
qed

definition shown :: "gefyra_client \<Rightarrow> string \<times> string \<times> string \<times> wg_value option option" where
  "shown c = (go_client_id c, go_state c,
     (case dget (go_state_transitions c) ''CREATING'' of None \<Rightarrow> ''Creating...'' | Some t \<Rightarrow> t), go_wg_handshake c)"

lemma client_row_shown:
  "client_row c = (if \<exists>s. client_value s = go_state c then Inr (shown c) else Inl ValueError)"
proof (cases "\<exists>s. client_value s = go_state c")
  case True
  then obtain s where s: "state_value s = go_state c" using operator_states by blast
  then have "GefyraClientState (go_state c) = Inr s" by (simp add: known_state)
  with s True show ?thesis by (simp add: client_row_def shown_def)
next
  case False
  then have "GefyraClientState (go_state c) = Inl ValueError"
    using operator_states [of "go_state c"] by (auto simp: GefyraClientState_def)
  with False show ?thesis by (simp add: client_row_def)
qed

lemma client_rows_shown:
  "map_sum_list client_row cs =
     (if list_all (\<lambda>c. \<exists>s. client_value s = go_state c) cs then Inr (map shown cs) else Inl ValueError)"
  by (induction cs) (auto simp: client_row_shown)

text \<open>C35: The states of the operator are those the client knows: the list shows every client with the state
  the operator has written, and fails as a whole on any other state.\<close>

theorem client_listing_typed:
  assumes "list_client M kubeconfig kubecontext w = (Inr cs, w')"
  shows "clients_command M kubeconfig kubecontext w =
    (if list_all (\<lambda>c. \<exists>s. client_value s = go_state c) cs then Inr (map shown cs) else Inl ValueError, w')"
  using assms by (simp add: clients_command_def bind_Inr client_rows_shown)

theorem client_listing_typed_witness:
  "clients_command (idle_machine\<lparr>mc_clients := idle_clients\<lparr>ca_list := ret [waiting_raw]\<rparr>\<rparr>) None None ()
     = (Inr [(''c1'', ''WAITING'', ''Creating...'', None)], ())
   \<and> clients_command (idle_machine\<lparr>mc_clients := idle_clients\<lparr>ca_list := ret [waiting_raw, waiting_raw\<lparr>cr_state := []\<rparr>]\<rparr>\<rparr>) None None ()
     = (Inl ValueError, ())"
proof -
  let ?M = "\<lambda>cs. idle_machine\<lparr>mc_clients := idle_clients\<lparr>ca_list := ret cs\<rparr>\<rparr> :: unit machine"
  obtain cfg where "\<And>cs. ClientConfiguration (?M cs) (default_args\<lparr>ar_kube_config_file := None, ar_kube_context := None\<rparr>) ()
     = (Inr cfg, ())"
    by (simp add: ClientConfiguration_def default_args_def given_def Let_def bind_def idle_machine_def idle_docker_def initial_config_def)
  then have l: "list_client (?M cs) None None () = (Inr (map (\<lambda>c. GefyraClient c cfg) cs), ())" for cs
    by (simp add: list_client_def bind_Inr)
  have w: "client_value CWaiting = ''WAITING''" by simp
  have e: "client_value s \<noteq> []" for s by (cases s) simp_all
  have s: "go_state (GefyraClient c cfg) = cr_state c" for c by (simp add: GefyraClient_def init_data_def Let_def)
  have "shown (GefyraClient waiting_raw cfg) = (''c1'', ''WAITING'', ''Creating...'', None)"
    by (simp add: shown_def GefyraClient_def init_data_def Let_def waiting_raw_def or_empty_def)
  moreover have "cr_state waiting_raw = ''WAITING''" by (simp add: waiting_raw_def)
  ultimately show ?thesis
    using client_listing_typed [OF l, of "[waiting_raw]"] client_listing_typed [OF l, of "[waiting_raw, waiting_raw\<lparr>cr_state := []\<rparr>]"] w e s
    by (auto simp: exI [of _ CWaiting])
qed

section \<open>Waits end\<close>

lemma wait_mount_returns:
  assumes "timeout \<noteq> 0"
  shows "\<exists>r. wait_mount K name uid timeout waiting_time w = Some r"
proof (induction "nat waiting_time" arbitrary: waiting_time w rule: less_induct)
  case less
  show ?case
  proof (cases "waiting_time - 1 \<le> 0")
    case True
    then show ?thesis using assms
      by (subst wait_mount.simps) (auto split: prod.splits sum.splits)
  next
    case False
    then have "\<exists>r. wait_mount K name uid timeout (waiting_time - 1) v = Some r" for v
      by (intro less) simp
    then show ?thesis
      by (subst wait_mount.simps) (auto split: prod.splits sum.splits)
  qed
qed

lemma pbind_returns: "(\<exists>r. m w = Some r) \<Longrightarrow> (\<And>x v. \<exists>r. f x v = Some r) \<Longrightarrow> \<exists>r. pbind m f w = Some r"
  by (auto simp: pbind_def split: prod.splits sum.splits)

lemma ptry_returns: "(\<exists>r. m w = Some r) \<Longrightarrow> (\<And>e v. \<exists>r. h e v = Some r) \<Longrightarrow> \<exists>r. ptry m h w = Some r"
  by (auto simp: ptry_def split: prod.splits sum.splits)

lemma total_returns [simp]: "\<exists>r. total m w = Some r"
  by (simp add: total_def)

lemma create_mount_returns:
  assumes "wait \<Longrightarrow> timeout \<noteq> 0"
  shows "\<exists>r. create_mount K namespace target wait timeout mount_name provider cert key sni w = Some r"
proof -
  have "\<exists>r. wait_mount K name uid timeout timeout v = Some r" if wait for name uid v
    by (rule wait_mount_returns) (use assms that in blast)
  then show ?thesis unfolding create_mount_def
    by (auto split: prod.splits sum.splits option.splits) (metis option.distinct(1))
qed

text \<open>C36: \<open>gefyra mount create\<close> ends whatever the cluster answers, if it has a timeout or does not wait.\<close>

theorem mount_command_ends:
  assumes "0 < timeout \<or> nowait"
  shows "\<exists>r. create_mount_command M K E kubeconfig kubecontext namespace target connection_name nowait timeout
    name cert key sni w = Some r"
  unfolding create_mount_command_def
  by (intro ptry_returns pbind_returns total_returns create_mount_returns) (use assms in auto)

theorem mount_command_ends_witness:
  "\<exists>r. create_mount_command idle_machine (kept_bridges ''me'' []) \<lparr>ev_stream = (\<lambda>t. ret []), ev_parse_time = (\<lambda>s. Inr 0)\<rparr>
     None None ''default'' ''deploy/web'' ''default'' False 1 None [] [] [] [] = Some r"
  by (rule mount_command_ends) simp

text \<open>The clock does not go back, sleeping takes its time (in milliseconds; the clock counts
  microseconds).\<close>

definition machine_clock :: "'w machine \<Rightarrow> ('w \<Rightarrow> int) \<Rightarrow> bool" where
  "machine_clock M clk \<longleftrightarrow>
     (\<forall>w t w'. mc_time M w = (Inr t, w') \<longrightarrow> clk w \<le> t \<and> t \<le> clk w')
   \<and> (\<forall>n w. clk w + int n * 1000 \<le> clk (snd (mc_sleep M n w)))
   \<and> (\<forall>n. takes_time clk (ca_get (mc_clients M) n))"

lemma client_state_now_time:
  assumes "machine_clock M clk"
  shows "clk (snd s) \<le> clk (snd (snd (client_state_now M s)))"
proof -
  obtain c w where s: "s = (c, w)" by force
  obtain r w1 where g: "ca_get (mc_clients M) (go_client_id c) w = (r, w1)" by force
  have "clk w \<le> clk (snd (ca_get (mc_clients M) (go_client_id c) w))"
    using assms unfolding machine_clock_def takes_time_def by blast
  with g have t: "clk w \<le> clk w1" by simp
  have "snd (handle_get_gefyraclient M (go_client_id c) w) = w1"
    using g by (cases r) (auto simp: handle_get_gefyraclient_def try_except_def)
  then have "snd (snd (client_state_now M s)) = w1"
    unfolding s client_state_now_def client_update_def
    by (auto simp: thn_def bind_def current_def lift_def modify_def split: prod.splits sum.splits)
  with t s show ?thesis by simp
qed

lemma await_state_returns:
  assumes clock: "machine_clock M clk"
  shows "\<exists>r. await_state M desired_state timeout start s = Some r"
proof (induction "nat (start + timeout * 1000000 + 1 - clk (snd s))" arbitrary: s rule: less_induct)
  case less
  obtain r s1 where 1: "client_state_now M s = (r, s1)" by (cases "client_state_now M s") blast
  then have t1: "clk (snd s) \<le> clk (snd s1)" using client_state_now_time [OF clock, of s] by simp
  obtain c1 w1 where s1: "s1 = (c1, w1)" by force
  show ?case
  proof (cases r)
    case (Inl e)
    with 1 show ?thesis by (subst await_state.simps) simp
  next
    case (Inr st)
    obtain q w2 where 2: "mc_time M w1 = (q, w2)" by force
    have l2: "lift (mc_time M) s1 = (q, (c1, w2))" by (simp add: lift_def s1 2)
    show ?thesis
    proof (cases "\<exists>now. q = Inr now \<and> \<not> now - start > timeout * 1000000 \<and> st \<noteq> desired_state")
      case False
      with 1 Inr l2 show ?thesis by (cases q) (subst await_state.simps, auto)+
    next
      case True
      then obtain now where now: "q = Inr now" "now - start \<le> timeout * 1000000" "st \<noteq> desired_state" by auto
      have t2: "clk w1 \<le> now" "now \<le> clk w2" using clock 2 now(1) by (auto simp: machine_clock_def)
      obtain u w3 where 3: "mc_sleep M 2000 w2 = (u, w3)" by force
      have "clk w2 + int 2000 * 1000 \<le> clk (snd (mc_sleep M 2000 w2))"
        using clock unfolding machine_clock_def by blast
      then have t3: "clk w2 + 2000000 \<le> clk w3" by (simp add: 3)
      have "\<exists>r. await_state M desired_state timeout start (c1, w3) = Some r"
        using t1 t2 t3 now(2) s1 by (intro less) auto
      then show ?thesis using 1 Inr l2 now 3
        by (subst await_state.simps) (auto simp: lift_def split: sum.split)
    qed
  qed
qed

lemma wait_for_state_returns:
  assumes "machine_clock M clk"
  shows "\<exists>r. wait_for_state M desired_state timeout s = Some r"
  using await_state_returns [OF assms] unfolding wait_for_state_def by (auto split: prod.splits sum.splits)

lemma on_client_returns: "(\<And>s. \<exists>r. m s = Some r) \<Longrightarrow> \<exists>r. on_client m c w = Some r"
  unfolding on_client_def by (metis option.simps(9))

lemma wait_clients_returns:
  assumes "machine_clock M clk"
  shows "\<exists>r. wait_clients M timeout cs w = Some r"
proof (induction cs arbitrary: w)
  case (Cons c cs)
  show ?case unfolding wait_clients.simps pthn_def
    by (intro pbind_returns on_client_returns wait_for_state_returns [OF assms] Cons.IH)
qed (simp add: total_def)

text \<open>\<open>gefyra clients create\<close> ends on every machine whose clock runs, whatever the API server answers.\<close>

theorem clients_command_ends:
  assumes "machine_clock M clk"
  shows "\<exists>r. create_clients_command M kubeconfig kubecontext client_id quantity registry nowait timeout w = Some r"
  unfolding create_clients_command_def
  by (intro pbind_returns total_returns, cases nowait) (simp_all add: wait_clients_returns [OF assms] del: split_paired_Ex)

theorem clients_command_ends_witness:
  "\<exists>r. create_clients_command (idle_machine\<lparr>mc_clients := idle_clients\<lparr>ca_create := (\<lambda>b. ret waiting_raw),
       ca_get := (\<lambda>n. ret (waiting_raw\<lparr>cr_state := ''CREATING''\<rparr>))\<rparr>,
       mc_time := (\<lambda>w. (Inr w, w)), mc_sleep := (\<lambda>n w. (Inr (), w + int n * 1000))\<rparr>)
     None None ''c1'' 1 None False 60 0 = Some r"
  by (rule clients_command_ends [where clk = "\<lambda>w. w"]) (simp add: machine_clock_def takes_time_def)

section \<open>A refused confirmation\<close>

text \<open>A user who refuses whatever is asked.\<close>

definition refuses :: "'w terminal \<Rightarrow> bool" where
  "refuses T \<longleftrightarrow> (\<forall>w. fst (cm_confirm T w) = Inr False)"

lemma refused_confirm:
  assumes "refuses T"
  obtains w' where "confirm T False w = (Inl RuntimeError, w')"
proof -
  obtain w' where "cm_confirm T w = (Inr False, w')"
    using assms unfolding refuses_def by (metis prod.collapse)
  then show ?thesis using that by (simp add: confirm_def bind_def raise_def)
qed

text \<open>The two parts of the clean-up.\<close>

definition bridges_part :: "'w machine \<Rightarrow> 'w bridge_api \<Rightarrow> 'w terminal \<Rightarrow> string \<Rightarrow> ('w, unit) io" where
  "bridges_part M K T n = bind (connection_bridges M K n) (\<lambda>bridges.
     if bridges = [] then ret () else
     thn (confirm T False)
     (for_each (\<lambda>(_, b). thn (api_delete_bridge M K (Some (gb_name b)) None n False 60) (ret ())) bridges))"

definition containers_part :: "'w machine \<Rightarrow> 'w bridge_api \<Rightarrow> 'w terminal \<Rightarrow> string \<Rightarrow> ('w, unit) io" where
  "containers_part M K T n = bind (list_containers M K (Some n)) (\<lambda>containers.
     case containers of
       (_, c # cs) # _ \<Rightarrow> thn (confirm T False) (for_each (remove_connection_container M n) (c # cs))
     | _ \<Rightarrow> ret ())"

lemma manage_parts: "manage_container_and_bridges M K T n False =
    thn (try_except (bridges_part M K T n) (\<lambda>e. if e = MaxRetryError \<or> is_api_exception e then ret () else raise e))
      (containers_part M K T n)"
  unfolding manage_container_and_bridges_def bridges_part_def containers_part_def ..

lemma refused_bridges:
  assumes "refuses T" and "connection_bridges M K n w = (r, w1)"
  shows "case r of Inr (_ # _) \<Rightarrow> fst (bridges_part M K T n w) = Inl RuntimeError
    | Inr [] \<Rightarrow> bridges_part M K T n w = (Inr (), w1) | Inl e \<Rightarrow> bridges_part M K T n w = (Inl e, w1)"
proof -
  obtain w2 where "confirm T False w1 = (Inl RuntimeError, w2)" by (rule refused_confirm [OF assms(1)])
  with assms(2) show ?thesis
    by (auto simp: bridges_part_def bind_def thn_def split: sum.split list.split)
qed

definition has_containers :: "exn + (string \<times> local_container list) list \<Rightarrow> bool" where
  "has_containers r \<longleftrightarrow> (case r of Inr ((_, _ # _) # _) \<Rightarrow> True | _ \<Rightarrow> False)"

lemma refused_containers:
  assumes "refuses T" and "has_containers (fst (list_containers M K (Some n) w))"
  shows "fst (containers_part M K T n w) = Inl RuntimeError"
proof -
  obtain r w1 where l: "list_containers M K (Some n) w = (r, w1)" by force
  with assms(2) obtain x c cs rest where r: "r = Inr ((x, c # cs) # rest)"
    by (auto simp: has_containers_def neq_Nil_conv split: sum.splits list.splits)
  obtain w2 where "confirm T False w1 = (Inl RuntimeError, w2)" by (rule refused_confirm [OF assms(1)])
  with l r show ?thesis by (simp add: containers_part_def bind_def thn_def)
qed

text \<open>Is a question asked?  Either for the bridges of the connection or, if there are none or they cannot be
  read, for its containers.\<close>

definition asked :: "'w machine \<Rightarrow> 'w bridge_api \<Rightarrow> string \<Rightarrow> 'w \<Rightarrow> bool" where
  "asked M K n w =
     (let (bridges, w1) = connection_bridges M K n w;
          for_containers = has_containers (fst (list_containers M K (Some n) w1)) in
      case bridges of
        Inr (_ # _) \<Rightarrow> True
      | Inr [] \<Rightarrow> for_containers
      | Inl e \<Rightarrow> (e = MaxRetryError \<or> is_api_exception e) \<and> for_containers)"

lemma refused_quietly:
  assumes T: "refuses T" and a: "asked M K n w"
  shows "fst (manage_quietly M K T n False w) = Inr ()"
proof -
  obtain r w1 where b: "connection_bridges M K n w = (r, w1)" by force
  let ?h = "\<lambda>e. if e = MaxRetryError \<or> is_api_exception e then ret () else raise e"
  have "fst (try_except (bridges_part M K T n) ?h w) = Inl RuntimeError
      \<or> try_except (bridges_part M K T n) ?h w = (Inr (), w1)
        \<and> has_containers (fst (list_containers M K (Some n) w1))"
    using refused_bridges [OF T b] a unfolding asked_def b
    by (cases "bridges_part M K T n w") (auto simp: try_except_def Let_def split: sum.splits list.splits)
  then have "fst (manage_container_and_bridges M K T n False w) = Inl RuntimeError"
    using refused_containers [OF T, of M K n w1] unfolding manage_parts
    by (cases "try_except (bridges_part M K T n) ?h w") (auto simp: thn_def bind_def)
  then show ?thesis
    by (cases "manage_container_and_bridges M K T n False w")
      (simp add: manage_quietly_def try_except_def is_runtime_error_def)
qed

lemma refused_confirm_bind:
  fixes k :: "('w, unit) io"
  shows "refuses T \<Longrightarrow> thn (confirm T False) k = confirm T False"
proof (rule ext)
  fix w
  assume "refuses T"
  then obtain w' where "confirm T False w = (Inl RuntimeError, w')" by (rule refused_confirm)
  then show "thn (confirm T False) k w = confirm T False w" by (simp add: thn_def bind_def)
qed

lemma refused_keeps:
  assumes T: "refuses T" and "keeps v (cm_confirm T)" "keeps v (connection_bridges M K n)"
    "keeps v (list_containers M K (Some n))"
  shows "keeps v (manage_quietly M K T n False)"
proof -
  have c: "keeps v (confirm T False)" unfolding confirm_def using assms(2) by (auto intro!: keeps_intros)
  show ?thesis
    unfolding manage_quietly_def manage_container_and_bridges_def refused_confirm_bind [OF T]
    using assms(3,4) c by (intro keeps_intros) (auto split: list.split)
qed

text \<open>C11: A user who refuses whatever is asked loses nothing in the clean-up of the commands
  \<open>connections disconnect\<close> and \<open>connections remove\<close>: what their readings and questions keep (the stored
  bridges, the containers) is afterwards as before.  But refusing does not end the command, whether it was
  asked for the bridges or for the containers: \<open>click.Abort\<close> is a \<open>RuntimeError\<close>, which they drop, and they
  go on to disconnect or to remove the connection.  Only another exception of the readings ends them.\<close>

theorem refusal_still_disconnects:
  assumes "refuses T" and "keeps v (cm_confirm T)" "keeps v (connection_bridges M K n)"
    "keeps v (list_containers M K (Some n))"
  shows "\<exists>r w'. manage_quietly M K T n False w = (r, w') \<and> v w' = v w \<and> (asked M K n w \<longrightarrow> r = Inr ())
    \<and> disconnect_command M K T False n timeout nowait w =
        (case r of Inr _ \<Rightarrow> pthn (api_disconnect M n nowait timeout) (total (ret ())) w' | Inl e \<Rightarrow> Some (Inl e, w'))
    \<and> (check_connection_name M selected w0 = (Inr n, w) \<longrightarrow>
         remove_connection_command M K T False selected w0 =
        (case r of Inr _ \<Rightarrow> remove_connection M n w' | Inl e \<Rightarrow> Some (Inl e, w')))"
proof -
  obtain r w' where q: "manage_quietly M K T n False w = (r, w')" by force
  have "v w' = v w" by (rule keepsD [OF refused_keeps [OF assms] q])
  moreover have "asked M K n w \<longrightarrow> r = Inr ()" using refused_quietly [OF assms(1), of M K n w] q by simp
  ultimately show ?thesis
    using q by (cases r) (simp_all add: disconnect_command_def remove_connection_command_def pthn_def pbind_def total_def)
qed

text \<open>A bridge of the client and a user who refuses.\<close>

definition complete_bridge :: raw_bridge where
  "complete_bridge = (some_bridge ''b'' [] ''172.20.0.5'')\<lparr>br_target := Some ''deploy/web'',
     br_targetNamespace := Some ''default'', br_targetContainer := Some ''web'', br_portMappings := Some [''80:8080''],
     rb_created := Some ''t0''\<rparr>"

definition refusing :: "'w terminal" where
  "refusing = \<lparr>cm_confirm = ret False, cm_env_kubeconfig = None, cm_literal_eval = (\<lambda>s. Inl ValueError)\<rparr>"

lemma one_bridge: "\<exists>b. connection_bridges idle_machine (kept_bridges [] []) ''default'' [complete_bridge] = (Inr [b], [complete_bridge])"
proof -
  let ?M = "idle_machine :: raw_bridge list machine" and ?w = "[complete_bridge]"
  obtain cfg where c: "\<And>w. ClientConfiguration ?M (default_args\<lparr>ar_connection_name := Some ''default''\<rparr>) w = (Inr cfg, w)"
    "cf_CLIENT_ID cfg = Some []"
    using default_connection [of ?M] by (auto simp: idle_machine_def idle_docker_def)
  obtain b where b: "from_raw complete_bridge = Inr b"
    by (simp add: from_raw_def req_def complete_bridge_def some_bridge_def)
  have "mine [] complete_bridge" by (simp add: mine_def complete_bridge_def some_bridge_def)
  then have l: "list_bridges (with_config (kept_bridges [] []) cfg) True False ?w = (Inr [(None, b)], ?w)"
    using b by (simp add: list_bridges_def bind_def try_except_def with_config_def kept_bridges_def str_opt_def c(2))
  have "connection_bridges ?M (kept_bridges [] []) ''default'' ?w = (Inr [(None, b)], ?w)"
    using c(1) [of ?w] l by (simp add: connection_bridges_def connection_config_def bind_Inr)
  then show ?thesis by blast
qed

theorem refusal_still_disconnects_witness:
  "\<exists>r. disconnect_command idle_machine (kept_bridges [] []) refusing False ''default'' 60 True [complete_bridge]
     = pthn (api_disconnect idle_machine ''default'' True 60) (total (ret ())) [complete_bridge]
   \<and> manage_quietly idle_machine (kept_bridges [] []) refusing ''default'' False [complete_bridge] = (r, [complete_bridge])"
proof -
  let ?M = "idle_machine :: raw_bridge list machine" and ?K = "kept_bridges [] []"
  obtain b where one: "connection_bridges ?M ?K ''default'' [complete_bridge] = (Inr [b], [complete_bridge])"
    using one_bridge by blast
  have a: "asked ?M ?K ''default'' [complete_bridge]" by (simp add: asked_def one Let_def)
  obtain cfg where c: "\<And>w. ClientConfiguration ?M (default_args\<lparr>ar_connection_name := Some ''default''\<rparr>) w = (Inr cfg, w)"
    using default_connection [of ?M] by (auto simp: idle_machine_def idle_docker_def)
  have 1: "refuses (refusing :: raw_bridge list terminal)" "keeps (\<lambda>w. w) (cm_confirm (refusing :: raw_bridge list terminal))"
    by (simp_all add: refuses_def refusing_def)
  have l: "keeps (\<lambda>w. w) (ba_list (with_config ?K cfg) sel)" for sel
    by (simp add: with_config_def kept_bridges_def keeps_def)
  have k: "keeps (\<lambda>w. w) (list_bridges (with_config ?K cfg) True False)"
    unfolding list_bridges_def by (auto intro!: keeps_intros l)
  have 2: "keeps (\<lambda>w. w) (connection_bridges ?M ?K ''default'')"
    using k by (auto simp: connection_bridges_def connection_config_def keeps_def bind_Inr [OF c])
  have 3: "keeps (\<lambda>w. w) (list_containers ?M ?K (Some ''default''))"
  proof -
    have "\<exists>cfg. ClientConfiguration ?M default_args w = (Inr cfg, w)" for w
      by (simp add: ClientConfiguration_def default_args_def given_def Let_def bind_def initial_config_def
          or_else_def either_def)
    then have "list_connections ?M w = (Inr [], w)" for w
      by (metis (no_types, lifting) bind_Inr bind_ret idle_docker_simps(1) idle_machine_simps(1) list_connections_def
          map_io.simps(1) ret_def)
    then show ?thesis by (simp add: keeps_def list_containers_def bind_Inr given_def)
  qed
  show ?thesis
    using refusal_still_disconnects [OF 1 2 3, of "[complete_bridge]" 60 True] a by auto
qed

section \<open>Waiting for an event\<close>

text \<open>After a bridge is created, the command ends well exactly if some object of the namespace has the
  reason Ready in an event after the creation, before the stream ends; the bridge is created in both cases.\<close>

definition ready_after :: "int \<Rightarrow> watch_event \<Rightarrow> bool" where
  "ready_after t e \<longleftrightarrow> (\<exists>obj. we_object e = Some obj \<and> obj \<noteq> []) \<and> (\<exists>t'. we_time e = Some t' \<and> t < t') \<and> we_reason e = ''Ready''"

lemma timeout_ready: "timeout_in t ''Ready'' events \<longleftrightarrow> \<not> list_ex (ready_after t) events"
proof -
  have "(we_object e \<notin> {None, Some []} \<and> (case we_time e of None \<Rightarrow> False | Some t' \<Rightarrow> t < t') \<and> we_reason e = ''Ready'')
      = ready_after t e" for e
    by (cases "we_object e"; cases "we_time e") (auto simp: ready_after_def)
  then show ?thesis by (simp add: timeout_in_def)
qed

theorem created_bridge_ready:
  assumes "\<not> list_all (\<lambda>r. r = []) rules"
    and "api_create_bridge M K name local ports mount connection_name rules w = (Inr b, w1)"
    and "gb_created b = Some c" and "ev_parse_time E c = Inr t" and "ev_stream E timeout w1 = (Inr events, w2)"
  shows "create_bridge_command M K E name local ports mount rules connection_name False timeout w =
      (if list_ex (ready_after t) events then Inr () else Inl CommandTimeoutError, w2)"
proof -
  have "watch_events E (Some c) r ''Ready'' timeout w1 = (Inr (\<not> list_ex (ready_after t) events), w2)" for r
    using assms(4,5) by (simp add: watch_events_def bind_def try_except_def timeout_ready)
  then show ?thesis
    using assms(1-3) unfolding create_bridge_command_def
    by (simp add: try_except_def bind_def is_runtime_error_def)
qed

definition one_event :: "'w event_api" where
  "one_event = \<lparr>ev_stream = (\<lambda>t. ret [\<lparr>we_object = Some ''another-mount'', we_time = Some 5, we_reason = ''Ready''\<rparr>]),
     ev_parse_time = (\<lambda>s. Inr 3)\<rparr>"

definition creating_bridges :: "raw_bridge list bridge_api" where
  "creating_bridges = (kept_bridges [] [])\<lparr>ba_mounts := mem_mounts, ba_container := (\<lambda>n. ret (MemLocal.app_container ''running'')),
     ba_create := (\<lambda>b w. (Inr complete_bridge, w @ [complete_bridge]))\<rparr>"

theorem created_bridge_ready_witness:
  "create_bridge_command idle_machine creating_bridges one_event ''b'' ''app'' [(''8080'', Port ''80'')] ''web''
     [parse_match_path Exact [''/'']] ''default'' False 60 [] = (Inr (), [complete_bridge])"
proof -
  let ?M = "idle_machine :: raw_bridge list machine" and ?w = "[] :: raw_bridge list"
  let ?rules = "[parse_match_path Exact [''/'']]"
  obtain cfg where c: "\<And>w. ClientConfiguration ?M (default_args\<lparr>ar_connection_name := Some ''default''\<rparr>) w = (Inr cfg, w)"
    "cf_CLIENT_ID cfg = Some []" "cf_NETWORK_NAME cfg = ''gefyra-network-default''"
    using default_connection [of ?M] by (auto simp: idle_machine_def idle_docker_def)
  obtain b where b: "from_raw complete_bridge = Inr b" "gb_created b = Some ''t0''"
    by (simp add: from_raw_def req_def complete_bridge_def some_bridge_def)
  have "create_bridge (with_config creating_bridges cfg) ''b'' ''app'' [(''8080'', Port ''80'')] ''web'' ?rules ?w
      = (Inr b, [complete_bridge])"
    using b(1) by (simp add: create_bridge_def with_config_def creating_bridges_def mem_mounts_def get_gefyrabridgemount_def
        bind_def try_except_def bridge_name_of_def handle_create_gefyrabridge_def get_k8s_bridge_body_def
        new_bridge_def rules_param_def Let_def c(2,3) MemLocal.app_container_def)
  then have 1: "api_create_bridge ?M creating_bridges ''b'' ''app'' [(''8080'', Port ''80'')] ''web'' ''default'' ?rules ?w
      = (Inr b, [complete_bridge])"
    using c(1) [of ?w] by (simp add: api_create_bridge_def connection_config_def bind_Inr)
  have 2: "\<not> list_all (\<lambda>r. r = []) ?rules" by (simp add: parse_match_path_def)
  have 3: "ev_parse_time one_event ''t0'' = Inr 3" by (simp add: one_event_def)
  have 4: "ev_stream one_event 60 [complete_bridge] =
      (Inr [\<lparr>we_object = Some ''another-mount'', we_time = Some 5, we_reason = ''Ready''\<rparr>], [complete_bridge])"
    by (simp add: one_event_def)
  show ?thesis using created_bridge_ready [OF 2 1 b(2) 3 4] by (simp add: ready_after_def)
qed

end
