(* ===== verification/ExecSession.thy ===== *)
theory ExecSession
  imports CarrierApi
begin

text \<open>
  Sessions with a pod over a websocket: feeding commands to a shell and printing a file
  (operator/gefyra/bridge/carrier2/utils.py), and copying a file out of a pod (operator/gefyra/utils.py).
  \<open>CarrierApi\<close> takes one session as a call; here it is the loop over the calls of the client object.
\<close>

section \<open>A shell\<close>

text \<open>The object \<open>stream\<close> returns.  \<open>ws_update\<close> waits for a frame (milliseconds).\<close>

record 'w ws_client =
  ws_is_open :: "('w, bool) io"
  ws_update :: "nat \<Rightarrow> ('w, unit) io"
  ws_peek_stdout :: "('w, bool) io"
  ws_read_stdout :: "('w, string) io"
  ws_peek_stderr :: "('w, bool) io"
  ws_read_stderr :: "('w, string) io"
  ws_write_stdin :: "string \<Rightarrow> ('w, unit) io"
  ws_close :: "('w, unit) io"

text \<open>One round of the loop of \<open>stream_exec\<close>: it ends with the last output, or goes on with the remaining
  commands.  Output on stderr skips the command of the round.\<close>

datatype exec_step = Stop "string option" | Next "string list" "string option"

definition newline :: string where
  "newline = [CHR 0x0A]"

definition stops :: "(string \<Rightarrow> bool) option \<Rightarrow> string \<Rightarrow> bool" where
  "stops stop_cb out = (case stop_cb of None \<Rightarrow> False | Some f \<Rightarrow> f out)"

definition send_next ::
    "'w ws_client \<Rightarrow> 'w host \<Rightarrow> string list \<Rightarrow> string option \<Rightarrow> ('w, exec_step) io" where
  "send_next W H commands last_output = (case commands of
       [] \<Rightarrow> ret (Stop last_output)
     | c # cs \<Rightarrow> thn (ws_write_stdin W (c @ newline)) (thn (sleep H 500) (ret (Next cs last_output))))"

definition after_stderr ::
    "'w ws_client \<Rightarrow> 'w host \<Rightarrow> (string \<Rightarrow> bool) option \<Rightarrow> string list \<Rightarrow> string option \<Rightarrow> ('w, exec_step) io" where
  "after_stderr W H stop_cb commands last_output =
     bind (ws_peek_stderr W) (\<lambda>err.
     if err then bind (ws_read_stderr W) (\<lambda>out.
       ret (if stops stop_cb out then Stop (Some out) else Next commands (Some out)))
     else send_next W H commands last_output)"

definition exec_round ::
    "'w ws_client \<Rightarrow> 'w host \<Rightarrow> (string \<Rightarrow> bool) option \<Rightarrow> string list \<Rightarrow> string option \<Rightarrow> ('w, exec_step) io" where
  "exec_round W H stop_cb commands last_output =
     bind (ws_is_open W) (\<lambda>open_now.
     if \<not> open_now then ret (Stop last_output) else
     thn (ws_update W 200)
     (bind (ws_peek_stdout W) (\<lambda>out.
      if out then bind (ws_read_stdout W) (\<lambda>out.
        if stops stop_cb out then ret (Stop (Some out)) else after_stderr W H stop_cb commands (Some out))
      else after_stderr W H stop_cb commands last_output)))"

text \<open>The loop does not end while the pod goes on writing to stderr.\<close>

partial_function (option) exec_loop ::
    "'w ws_client \<Rightarrow> 'w host \<Rightarrow> (string \<Rightarrow> bool) option \<Rightarrow> string list \<Rightarrow> string option \<Rightarrow> 'w
     \<Rightarrow> ((exn + string option) \<times> 'w) option" where
  "exec_loop W H stop_cb commands last_output w =
     (case exec_round W H stop_cb commands last_output w of
        (Inl e, w1) \<Rightarrow> Some (Inl e, w1)
      | (Inr (Stop out), w1) \<Rightarrow> Some (Inr out, w1)
      | (Inr (Next cs out), w1) \<Rightarrow> exec_loop W H stop_cb cs out w1)"

text \<open>\<open>session\<close> opens the stream; a failed session is closed, if it is open.\<close>

definition close_failed :: "'w ws_client \<Rightarrow> exn \<Rightarrow> ('w, 'a) io" where
  "close_failed W e = bind (ws_is_open W) (\<lambda>open_now. thn (whenever open_now (ws_close W)) (raise e))"

definition stream_exec ::
    "('w, 'w ws_client) io \<Rightarrow> 'w host \<Rightarrow> string list \<Rightarrow> (string \<Rightarrow> bool) option \<Rightarrow> 'w
     \<Rightarrow> ((exn + string option) \<times> 'w) option" where
  "stream_exec session H commands stop_cb w = (case session w of
       (Inl e, w1) \<Rightarrow> Some (Inl e, w1)
     | (Inr W, w1) \<Rightarrow> (case exec_loop W H stop_cb commands None w1 of
          None \<Rightarrow> None
        | Some (Inl e, w2) \<Rightarrow> Some (close_failed W e w2)
        | Some (Inr out, w2) \<Rightarrow> Some (try_except (thn (ws_close W) (ret out)) (close_failed W) w2)))"

section \<open>Printing a file\<close>

text \<open>The reading of \<open>read_carrier2_file\<close>; the state carries the list of what has been read, which stays
  when the session fails.  When there is output on stderr, stdout is read.\<close>

definition append_stdout :: "'w ws_client \<Rightarrow> (string list \<times> 'w, unit) io" where
  "append_stdout W = bind (lift (ws_read_stdout W)) (\<lambda>out (res, w). (Inr (), (res @ [out], w)))"

fun cat_rounds :: "'w ws_client \<Rightarrow> string list \<Rightarrow> (string list \<times> 'w, unit) io" where
  "cat_rounds W commands =
     bind (lift (ws_is_open W)) (\<lambda>open_now.
     if \<not> open_now then ret () else
     thn (lift (ws_update W 500))
     (bind (lift (ws_peek_stdout W)) (\<lambda>out.
      thn (whenever out (append_stdout W))
      (bind (lift (ws_peek_stderr W)) (\<lambda>err.
       thn (whenever err (append_stdout W))
       (case commands of
          [] \<Rightarrow> ret ()
        | c # cs \<Rightarrow> thn (lift (ws_write_stdin W c)) (cat_rounds W cs)))))))"

text \<open>The lines read, and the exception that ended the reading; an attempt that is repeated is closed
  before the pause.\<close>

definition stream_cat ::
    "('w, 'w ws_client) io \<Rightarrow> string \<Rightarrow> ('w, string list \<times> exn option) io" where
  "stream_cat session filename = bind session (\<lambda>W w.
     case thn (cat_rounds W [''cat '' @ filename @ '' '' @ newline]) (lift (ws_close W)) ([], w) of
       (Inr _, (res, w1)) \<Rightarrow> (Inr (res, None), w1)
     | (Inl e, (res, w1)) \<Rightarrow>
         if retryable e
         then bind (ws_is_open W) (\<lambda>open_now. thn (whenever open_now (ws_close W)) (ret (res, Some e))) w1
         else (Inr (res, Some e), w1))"

section \<open>Copying a file\<close>

datatype opcode = OpClose | OpBinary | OpText | OpOther

text \<open>\<open>wf_connected\<close> is the connection of the socket, \<open>wf_open\<close> the attribute \<open>_connected\<close>, which
  \<open>is_open\<close> returns and \<open>wf_disconnect\<close> clears.\<close>

record 'w ws_file =
  wf_open :: "'w \<Rightarrow> bool"
  wf_disconnect :: "'w \<Rightarrow> 'w"
  wf_connected :: "('w, bool) io"
  wf_select :: "nat \<Rightarrow> ('w, bool) io"
  wf_recv :: "('w, opcode \<times> string) io"
  wf_close :: "('w, unit) io"

text \<open>The answer of \<open>WSFileManager.read_bytes\<close>: stdout, stderr, closed.  The first byte of a frame is its
  channel; a frame with nothing else is dropped.\<close>

definition answer ::
    "'w ws_file \<Rightarrow> string option \<Rightarrow> string option \<Rightarrow> ('w, string option \<times> string option \<times> bool) io" where
  "answer F out err = (\<lambda>w. (Inr (out, err, \<not> wf_open F w), w))"

definition disconnect :: "'w ws_file \<Rightarrow> ('w, unit) io" where
  "disconnect F = (\<lambda>w. (Inr (), wf_disconnect F w))"

definition STDOUT_CHANNEL :: char where "STDOUT_CHANNEL = CHR 0x01"
definition STDERR_CHANNEL :: char where "STDERR_CHANNEL = CHR 0x02"

definition payload :: "char \<Rightarrow> opcode \<times> string \<Rightarrow> string option" where
  "payload channel frame = (case frame of
       (op, c # d # data) \<Rightarrow> if op \<in> {OpBinary, OpText} \<and> c = channel then Some (d # data) else None
     | _ \<Rightarrow> None)"

definition read_bytes :: "'w ws_file \<Rightarrow> nat \<Rightarrow> ('w, string option \<times> string option \<times> bool) io" where
  "read_bytes F timeout = bind (\<lambda>w. (Inr (wf_open F w), w)) (\<lambda>open_now.
     if \<not> open_now then answer F None None else
     bind (wf_connected F) (\<lambda>connected.
     if \<not> connected then thn (disconnect F) (answer F None None) else
     bind (wf_select F timeout) (\<lambda>readable.
     if \<not> readable then answer F None None else
     bind (wf_recv F) (\<lambda>frame.
     if fst frame = OpClose then thn (disconnect F) (answer F None None)
     else answer F (payload STDOUT_CHANNEL frame) (payload STDERR_CHANNEL frame)))))"

text \<open>The loop of \<open>stream_copy_from_pod\<close> with the bytes of the buffer; it polls without a pause.\<close>

partial_function (option) copy_loop :: "'w ws_file \<Rightarrow> string \<Rightarrow> 'w \<Rightarrow> ((exn + string) \<times> 'w) option" where
  "copy_loop F buffer w = (case read_bytes F 0 w of
       (Inl e, w1) \<Rightarrow> Some (Inl e, w1)
     | (Inr (out, err, closed), w1) \<Rightarrow>
         (let buffer = buffer @ (case out of None \<Rightarrow> [] | Some data \<Rightarrow> data) in
          if closed then Some (Inr buffer, w1) else copy_loop F buffer w1))"

text \<open>\<open>tar_member\<close> opens the archive and writes one member to the destination.\<close>

definition stream_copy_from_pod ::
    "('w, 'w ws_file) io \<Rightarrow> (string \<Rightarrow> string \<Rightarrow> string \<Rightarrow> ('w, unit) io) \<Rightarrow> string \<Rightarrow> string \<Rightarrow> 'w
     \<Rightarrow> ((exn + bool) \<times> 'w) option" where
  "stream_copy_from_pod session tar_member source_path destination_path w = (case session w of
       (Inl e, w1) \<Rightarrow> Some (Inl e, w1)
     | (Inr F, w1) \<Rightarrow> (case copy_loop F [] w1 of
          None \<Rightarrow> None
        | Some (Inl e, w2) \<Rightarrow> Some (Inl e, w2)
        | Some (Inr buffer, w2) \<Rightarrow> Some
            (thn (wf_close F)
             (bind (of_sum (nth_item (split1 (CHR ''/'') source_path) 1)) (\<lambda>member.
              thn (tar_member buffer member destination_path) (ret True))) w2)))"

end
