(* ===== verification/SessionProperties.thy ===== *)
theory SessionProperties
  imports ExecSession MemCarrier
begin

text \<open>
  What the sessions with a pod promise: commands are sent in order and all of them, copying a file gives its
  bytes, and printing a file looks at the output twice only.
\<close>

section \<open>Sending commands\<close>

text \<open>\<open>written\<close> are the lines written to the shell, \<open>errs\<close> bounds the outputs on stderr that are still to
  come.\<close>

definition shell :: "'w ws_client \<Rightarrow> 'w host \<Rightarrow> ('w \<Rightarrow> string list) \<Rightarrow> ('w \<Rightarrow> nat) \<Rightarrow> bool" where
  "shell W H written errs \<longleftrightarrow>
     keeps (\<lambda>w. (written w, errs w)) (ws_is_open W) \<and> (\<forall>t. keeps (\<lambda>w. (written w, errs w)) (ws_update W t))
   \<and> keeps (\<lambda>w. (written w, errs w)) (ws_peek_stdout W) \<and> keeps (\<lambda>w. (written w, errs w)) (ws_read_stdout W)
   \<and> (\<forall>w. written (snd (ws_peek_stderr W w)) = written w \<and> errs (snd (ws_peek_stderr W w)) = errs w
        \<and> (fst (ws_peek_stderr W w) = Inr True \<longrightarrow> 0 < errs w))
   \<and> (\<forall>w. written (snd (ws_read_stderr W w)) = written w \<and> errs (snd (ws_read_stderr W w)) = errs w - 1)
   \<and> (\<forall>c w. written (snd (ws_write_stdin W c w)) =
          (if isl (fst (ws_write_stdin W c w)) then written w else written w @ [c])
        \<and> errs (snd (ws_write_stdin W c w)) = errs w)
   \<and> keeps (\<lambda>w. (written w, errs w)) (ws_close W) \<and> (\<forall>t. keeps (\<lambda>w. (written w, errs w)) (sleep H t))"

text \<open>What a round does: it ends the session, sends the next command, or reads from stderr.\<close>

definition round_ok ::
    "string list \<Rightarrow> ('w \<Rightarrow> string list) \<Rightarrow> ('w \<Rightarrow> nat) \<Rightarrow> 'w \<Rightarrow> (exn + exec_step) \<times> 'w \<Rightarrow> bool" where
  "round_ok commands written errs w r = (case r of
       (Inl e, w') \<Rightarrow> written w' = written w \<or> (\<exists>c cs. commands = c # cs \<and> written w' = written w @ [c @ newline])
     | (Inr (Stop out), w') \<Rightarrow> written w' = written w
     | (Inr (Next cs out), w') \<Rightarrow>
         (cs = commands \<and> written w' = written w \<and> errs w' < errs w)
       \<or> (\<exists>c. commands = c # cs \<and> written w' = written w @ [c @ newline] \<and> errs w' = errs w))"

lemma round_ok_cong:
  assumes "written w1 = written w" and "errs w1 = errs w"
  shows "round_ok commands written errs w1 r = round_ok commands written errs w r"
  unfolding round_ok_def assms ..

lemma round_ok_stays [simp]:
  "round_ok commands written errs w (Inl e, w') = (written w' = written w \<or> (\<exists>c cs. commands = c # cs \<and> written w' = written w @ [c @ newline]))"
  "round_ok commands written errs w (Inr (Stop out), w') = (written w' = written w)"
  by (simp_all add: round_ok_def)

lemma keepsD2: "keeps v m \<Longrightarrow> v (snd (m w)) = v w"
  by (simp add: keeps_def)

lemma round_ok_bind:
  assumes "keeps (\<lambda>w. (written w, errs w)) m" and "written w1 = written w" and "errs w1 = errs w"
    and "\<And>x w'. written w' = written w \<Longrightarrow> errs w' = errs w \<Longrightarrow> round_ok commands written errs w (f x w')"
  shows "round_ok commands written errs w (bind m f w1)"
proof -
  obtain r w2 where 1: "m w1 = (r, w2)" by force
  from keepsD2 [OF assms(1), of w1] have v: "written w2 = written w" "errs w2 = errs w" by (simp_all add: 1 assms(2,3))
  show ?thesis using assms(4) [OF v] v(1) by (cases r) (simp_all add: bind_def 1)
qed

lemma send_next_ok:
  assumes "shell W H written errs"
  shows "round_ok commands written errs w (send_next W H commands out w)"
proof (cases commands)
  case (Cons c cs)
  obtain r w1 where 1: "ws_write_stdin W (c @ newline) w = (r, w1)" by force
  obtain q w2 where 2: "sleep H 500 w1 = (q, w2)" by force
  have a: "written w1 = (if isl r then written w else written w @ [c @ newline])" "errs w1 = errs w"
    using assms 1 unfolding shell_def by (metis fst_conv snd_conv)+
  have "keeps (\<lambda>w. (written w, errs w)) (sleep H 500)" using assms by (simp add: shell_def)
  from keepsD2 [OF this, of w1] have b: "written w2 = written w1" "errs w2 = errs w1" by (simp_all add: 2)
  show ?thesis using 1 2 a b Cons
    by (cases r; cases q) (auto simp: send_next_def round_ok_def thn_def bind_def)
qed (simp add: send_next_def)

lemma after_stderr_ok:
  assumes "shell W H written errs"
  shows "round_ok commands written errs w (after_stderr W H stop_cb commands out w)"
proof -
  obtain r w1 where 1: "ws_peek_stderr W w = (r, w1)" by force
  have a: "written w1 = written w" "errs w1 = errs w" "r = Inr True \<Longrightarrow> 0 < errs w"
    using assms 1 unfolding shell_def by (metis fst_conv snd_conv)+
  show ?thesis
  proof (cases r)
    case (Inl e)
    with 1 a(1) show ?thesis by (simp add: after_stderr_def bind_def)
  next
    case (Inr err)
    show ?thesis
    proof (cases err)
      case True
      obtain q w2 where 2: "ws_read_stderr W w1 = (q, w2)" by force
      have "written w2 = written w1" "errs w2 = errs w1 - 1"
        using assms 2 unfolding shell_def by (metis snd_conv)+
      then have b: "written w2 = written w" "errs w2 < errs w" using a Inr True by auto
      show ?thesis
      proof (cases q)
        case (Inl e)
        with 1 2 Inr True b show ?thesis by (simp add: after_stderr_def bind_def)
      next
        case (Inr o')
        then have "after_stderr W H stop_cb commands out w =
            (Inr (if stops stop_cb o' then Stop (Some o') else Next commands (Some o')), w2)"
          using 1 2 \<open>r = Inr err\<close> True by (simp add: after_stderr_def bind_def)
        then show ?thesis using b by (simp add: round_ok_def)
      qed
    next
      case False
      with 1 Inr have "after_stderr W H stop_cb commands out w = send_next W H commands out w1"
        by (simp add: after_stderr_def bind_def)
      with send_next_ok [OF assms, of commands w1 out, unfolded round_ok_cong [OF a(1,2)]] show ?thesis by simp
    qed
  qed
qed

lemma exec_round_ok:
  assumes law: "shell W H written errs"
  shows "round_ok commands written errs w (exec_round W H stop_cb commands out w)"
proof -
  let ?v = "\<lambda>w. (written w, errs w)"
  have k: "keeps ?v (ws_is_open W)" "keeps ?v (ws_update W 200)" "keeps ?v (ws_peek_stdout W)" "keeps ?v (ws_read_stdout W)"
    using law by (simp_all add: shell_def)
  have e: "round_ok commands written errs w (after_stderr W H stop_cb commands o' w')"
    if "written w' = written w" "errs w' = errs w" for o' w'
    using after_stderr_ok [OF law, of commands w' stop_cb o', unfolded round_ok_cong [OF that]] .
  have r: "round_ok commands written errs w (bind (ws_read_stdout W) (\<lambda>out.
        if stops stop_cb out then ret (Stop (Some out)) else after_stderr W H stop_cb commands (Some out)) w')"
    if "written w' = written w" "errs w' = errs w" for w'
    using that e by (intro round_ok_bind [OF k(4)]) simp_all
  have p: "round_ok commands written errs w (bind (ws_peek_stdout W) (\<lambda>o'. if o' then bind (ws_read_stdout W) (\<lambda>out.
        if stops stop_cb out then ret (Stop (Some out)) else after_stderr W H stop_cb commands (Some out))
      else after_stderr W H stop_cb commands out) w')"
    if "written w' = written w" "errs w' = errs w" for w'
    using that e r by (intro round_ok_bind [OF k(3)]) simp_all
  have u: "round_ok commands written errs w (bind (ws_update W 200) (\<lambda>_. bind (ws_peek_stdout W) (\<lambda>o'. if o' then bind (ws_read_stdout W) (\<lambda>out.
        if stops stop_cb out then ret (Stop (Some out)) else after_stderr W H stop_cb commands (Some out))
      else after_stderr W H stop_cb commands out)) w')"
    if "written w' = written w" "errs w' = errs w" for w'
    using that p by (intro round_ok_bind [OF k(2)])
  show ?thesis unfolding exec_round_def thn_def using u by (intro round_ok_bind [OF k(1)]) simp_all
qed

text \<open>Without a stop callback and with a stream that stays open, only the end of the commands ends the
  session.\<close>

definition unstopped :: "'w ws_client \<Rightarrow> (string \<Rightarrow> bool) option \<Rightarrow> bool" where
  "unstopped W stop_cb \<longleftrightarrow> stop_cb = None \<and> (\<forall>w. fst (ws_is_open W w) \<noteq> Inr False)"

lemma unstopped_round:
  assumes "unstopped W stop_cb" and "exec_round W H stop_cb commands out w = (Inr (Stop o'), w')"
  shows "commands = []"
proof -
  have a: "commands = []" if "after_stderr W H stop_cb commands o1 v = (Inr (Stop o'), w')" for o1 v
    using that assms(1) by (auto simp: after_stderr_def send_next_def bind_Inr_iff thn_Inr_iff unstopped_def stops_def
        split: if_splits list.splits)
  from assms(2) obtain b w1 where b: "ws_is_open W w = (Inr b, w1)" by (auto simp: exec_round_def bind_Inr_iff)
  with assms(1) have b by (cases b) (auto simp: unstopped_def dest: spec [of _ w])
  with b assms(2) obtain b2 w2 w3 where 2: "ws_peek_stdout W w2 = (Inr b2, w3)"
    "(if b2 then bind (ws_read_stdout W) (\<lambda>out. if stops stop_cb out then ret (Stop (Some out))
       else after_stderr W H stop_cb commands (Some out)) else after_stderr W H stop_cb commands out) w3 = (Inr (Stop o'), w')"
    by (auto simp: exec_round_def bind_Inr_iff thn_Inr_iff)
  have s: "\<not> stops stop_cb x" for x using assms(1) by (simp add: unstopped_def stops_def)
  from 2(2) show ?thesis using a s by (cases b2) (auto simp: bind_Inr_iff)
qed

lemma exec_loop_ends:
  assumes law: "shell W H written errs"
  shows "\<exists>r w' k. exec_loop W H stop_cb commands out w = Some (r, w') \<and> k \<le> length commands
    \<and> written w' = written w @ map (\<lambda>c. c @ newline) (take k commands)
    \<and> (unstopped W stop_cb \<and> \<not> isl r \<longrightarrow> k = length commands)"
proof (induction "errs w + length commands" arbitrary: w commands out rule: less_induct)
  case less
  obtain s w1 where s: "exec_round W H stop_cb commands out w = (s, w1)" by force
  note ok = exec_round_ok [OF law, of commands w stop_cb out, unfolded s]
  show ?case
  proof (cases s)
    case (Inl e)
    with s have r: "exec_loop W H stop_cb commands out w = Some (Inl e, w1)" by (subst exec_loop.simps) simp
    from ok Inl have k: "\<exists>k \<le> length commands. written w1 = written w @ map (\<lambda>c. c @ newline) (take k commands)"
      by (auto intro: exI [of _ 0] exI [of _ "Suc 0"])
    have "isl (Inl e :: exn + string option)" by simp
    with r k show ?thesis by blast
  next
    case (Inr x)
    show ?thesis
    proof (cases x)
      case (Stop o')
      with s Inr have "exec_loop W H stop_cb commands out w = Some (Inr o', w1)" by (subst exec_loop.simps) simp
      moreover have "commands = []" if "unstopped W stop_cb"
        using unstopped_round [OF that, of H commands out w o' w1] s Inr Stop by simp
      ultimately show ?thesis using ok Inr Stop by (intro exI [of _ "Inr o'"] exI [of _ w1] exI [of _ 0]) auto
    next
      case (Next cs o')
      with s Inr have r: "exec_loop W H stop_cb commands out w = exec_loop W H stop_cb cs o' w1"
        by (subst exec_loop.simps) simp
      have c: "(cs = commands \<and> written w1 = written w \<and> errs w1 < errs w)
         \<or> (\<exists>c. commands = c # cs \<and> written w1 = written w @ [c @ newline] \<and> errs w1 = errs w)"
        using ok Inr Next by (simp add: round_ok_def)
      then have "errs w1 + length cs < errs w + length commands" by auto
      from less [OF this, of o'] obtain r' w' k where 2: "exec_loop W H stop_cb cs o' w1 = Some (r', w')" "k \<le> length cs"
        "written w' = written w1 @ map (\<lambda>c. c @ newline) (take k cs)"
        "unstopped W stop_cb \<and> \<not> isl r' \<longrightarrow> k = length cs" by blast
      from c show ?thesis
      proof
        assume "cs = commands \<and> written w1 = written w \<and> errs w1 < errs w"
        with 2 r show ?thesis by auto
      next
        assume "\<exists>c. commands = c # cs \<and> written w1 = written w @ [c @ newline] \<and> errs w1 = errs w"
        with 2 r show ?thesis by (intro exI [of _ r'] exI [of _ w'] exI [of _ "Suc k"]) auto
      qed
    qed
  qed
qed

text \<open>C26: A session on a pod that writes to stderr finitely often ends, and the shell has got the first
  commands in their order, each on a line of its own: all of them, if the session succeeds and neither a
  callback nor the end of the stream has stopped it.\<close>

theorem exec_sends_in_order:
  assumes law: "shell W H written errs" and open_session: "session w = (Inr W, w1)"
  shows "\<exists>r w' k. stream_exec session H commands stop_cb w = Some (r, w') \<and> k \<le> length commands
    \<and> written w' = written w1 @ map (\<lambda>c. c @ newline) (take k commands)
    \<and> (unstopped W stop_cb \<and> \<not> isl r \<longrightarrow> k = length commands)"
proof -
  obtain r w2 k where 1: "exec_loop W H stop_cb commands None w1 = Some (r, w2)" "k \<le> length commands"
    "written w2 = written w1 @ map (\<lambda>c. c @ newline) (take k commands)"
    "unstopped W stop_cb \<and> \<not> isl r \<longrightarrow> k = length commands"
    using exec_loop_ends [OF law] by blast
  have k: "keeps written (ws_is_open W)" "keeps written (ws_close W)"
    using law by (simp_all add: shell_def keeps_def)
  have c: "keeps written (close_failed W e :: (_, string option) io)" for e
    unfolding close_failed_def by (intro keeps_bind keeps_thn keeps_whenever k keeps_raise)
  have d: "keeps written (try_except (thn (ws_close W) (ret out)) (close_failed W))" for out :: "string option"
    by (intro keeps_try keeps_thn k keeps_ret c)
  show ?thesis
  proof (cases r)
    case (Inl e)
    obtain q :: "exn + string option" and w3 where "close_failed W e w2 = (q, w3)" "written w3 = written w2"
      using keepsD2 [OF c, of e w2] by (metis prod.collapse)
    moreover from this have "isl q" by (auto simp: close_failed_def bind_def thn_def raise_def split: prod.splits sum.splits)
    ultimately show ?thesis by (intro exI [of _ q] exI [of _ w3] exI [of _ k]) (simp add: stream_exec_def 1 Inl open_session)
  next
    case (Inr out)
    obtain q w3 where "try_except (thn (ws_close W) (ret out)) (close_failed W) w2 = (q, w3)" "written w3 = written w2"
      using keepsD2 [OF d, of out w2] by (metis prod.collapse)
    with 1 Inr open_session show ?thesis by (intro exI [of _ q] exI [of _ w3] exI [of _ k]) (simp add: stream_exec_def)
  qed
qed

text \<open>A shell that logs what is written to it.\<close>

definition logging_shell :: "mem ws_client" where
  "logging_shell = \<lparr>ws_is_open = ret True, ws_update = (\<lambda>t. ret ()), ws_peek_stdout = ret False, ws_read_stdout = ret [],
     ws_peek_stderr = ret False, ws_read_stderr = ret [],
     ws_write_stdin = (\<lambda>c m. (Inr (), m\<lparr>mm_log := mm_log m @ [c]\<rparr>)), ws_close = ret ()\<rparr>"

theorem exec_sends_in_order_witness:
  "\<exists>r w' k. stream_exec (ret logging_shell) mem_host [''a'', ''b''] None (mem_web\<lparr>mm_log := []\<rparr>) = Some (r, w') \<and> k \<le> 2
    \<and> mm_log w' = map (\<lambda>c. c @ newline) (take k [''a'', ''b'']) \<and> (\<not> isl r \<longrightarrow> k = 2)"
proof -
  have l: "shell logging_shell mem_host mm_log (\<lambda>_. 0)"
    by (simp add: shell_def logging_shell_def mem_host_def keeps_def)
  have o: "(ret logging_shell) (mem_web\<lparr>mm_log := []\<rparr>) = (Inr logging_shell, mem_web\<lparr>mm_log := []\<rparr>)" by simp
  have u: "unstopped logging_shell None" by (simp add: unstopped_def logging_shell_def)
  from exec_sends_in_order [where session = "ret logging_shell", OF l o, of "[''a'', ''b'']" None] u show ?thesis by (simp add: numeral_2_eq_2)
qed

section \<open>Copying a file\<close>

text \<open>The frames that are still to come are \<open>rest\<close>.\<close>

definition feeds :: "'w ws_file \<Rightarrow> ('w \<Rightarrow> (opcode \<times> string) list) \<Rightarrow> bool" where
  "feeds F rest \<longleftrightarrow> (\<forall>w. wf_connected F w = (Inr True, w))
   \<and> (\<forall>t w. rest w \<noteq> [] \<longrightarrow> wf_select F t w = (Inr True, w))
   \<and> (\<forall>w f fs. rest w = f # fs \<longrightarrow> (\<exists>w'. wf_recv F w = (Inr f, w') \<and> rest w' = fs \<and> wf_open F w' = wf_open F w))
   \<and> (\<forall>w. \<not> wf_open F (wf_disconnect F w) \<and> rest (wf_disconnect F w) = rest w)"

definition stdout_bytes :: "opcode \<times> string \<Rightarrow> string" where
  "stdout_bytes f = (case payload STDOUT_CHANNEL f of None \<Rightarrow> [] | Some data \<Rightarrow> data)"

lemma copy_frame:
  assumes law: "feeds F rest" and w: "wf_open F w" "rest w = f # fs"
  shows "\<exists>w'. rest w' = fs \<and> (if fst f = OpClose
     then read_bytes F t w = (Inr (None, None, True), w') \<and> \<not> wf_open F w'
     else read_bytes F t w = (Inr (payload STDOUT_CHANNEL f, payload STDERR_CHANNEL f, False), w') \<and> wf_open F w')"
proof -
  obtain w1 where r: "wf_recv F w = (Inr f, w1)" "rest w1 = fs" "wf_open F w1"
    using law w unfolding feeds_def by metis
  have c: "wf_connected F w = (Inr True, w)" "wf_select F t w = (Inr True, w)"
    "\<not> wf_open F (wf_disconnect F w1)" "rest (wf_disconnect F w1) = fs"
    using law w r unfolding feeds_def by simp_all
  show ?thesis
  proof (cases "fst f = OpClose")
    case True
    then show ?thesis using w r c
      by (intro exI [of _ "wf_disconnect F w1"]) (simp add: read_bytes_def bind_def thn_def disconnect_def answer_def)
  next
    case False
    then show ?thesis using w r c
      by (intro exI [of _ w1]) (simp add: read_bytes_def bind_def answer_def)
  qed
qed

text \<open>C27: Copying reads the frames up to the one that closes the session, and the buffer holds the bytes of
  stdout in their order.\<close>

theorem copy_reads_stdout:
  assumes law: "feeds F rest" and "wf_open F w" and "rest w = fs @ (OpClose, d) # gs"
    and "OpClose \<notin> fst ` set fs"
  shows "\<exists>w'. copy_loop F buffer w = Some (Inr (buffer @ concat (map stdout_bytes fs)), w')
    \<and> rest w' = gs \<and> \<not> wf_open F w'"
  using assms(2-)
proof (induction fs arbitrary: w buffer)
  case Nil
  then obtain w1 where "read_bytes F 0 w = (Inr (None, None, True), w1)" "rest w1 = gs" "\<not> wf_open F w1"
    using copy_frame [OF law, of w "(OpClose, d)" gs 0] by auto
  then show ?case by (subst copy_loop.simps) simp
next
  case (Cons f fs)
  then have "fst f \<noteq> OpClose" by auto
  with Cons obtain w1 where 1: "read_bytes F 0 w = (Inr (payload STDOUT_CHANNEL f, payload STDERR_CHANNEL f, False), w1)"
    "rest w1 = fs @ (OpClose, d) # gs" "wf_open F w1"
    using copy_frame [OF law, of w f "fs @ (OpClose, d) # gs" 0] by auto
  from Cons.IH [OF 1(3,2), of "buffer @ stdout_bytes f"] Cons.prems(3)
  obtain w' where "copy_loop F (buffer @ stdout_bytes f) w1 = Some (Inr (buffer @ stdout_bytes f @ concat (map stdout_bytes fs)), w')"
    "rest w' = gs" "\<not> wf_open F w'" by auto
  then show ?case using 1(1) by (subst copy_loop.simps) (simp add: stdout_bytes_def)
qed

text \<open>A connection that is open or not, and its frames.\<close>

definition framed :: "(bool \<times> (opcode \<times> string) list) ws_file" where
  "framed = \<lparr>wf_open = fst, wf_disconnect = (\<lambda>(b, fs). (False, fs)), wf_connected = ret True, wf_select = (\<lambda>t. ret True),
     wf_recv = (\<lambda>(b, fs). case fs of [] \<Rightarrow> (Inl WebSocketConnectionClosed, (b, fs)) | f # fs \<Rightarrow> (Inr f, (b, fs))),
     wf_close = ret ()\<rparr>"

theorem copy_reads_stdout_witness:
  "\<exists>w'. copy_loop framed [] (True, [(OpBinary, STDOUT_CHANNEL # ''ab''), (OpText, STDERR_CHANNEL # ''x''), (OpBinary, [STDOUT_CHANNEL]),
      (OpBinary, STDOUT_CHANNEL # ''c''), (OpClose, [])]) = Some (Inr ''abc'', w') \<and> \<not> fst w'"
proof -
  let ?fs = "[(OpBinary, STDOUT_CHANNEL # ''ab''), (OpText, STDERR_CHANNEL # ''x''), (OpBinary, [STDOUT_CHANNEL]),
      (OpBinary, STDOUT_CHANNEL # ''c'')]"
  have l: "feeds framed snd" by (simp add: feeds_def framed_def split: prod.split)
  have o: "wf_open framed (True, ?fs @ [(OpClose, [])])" by (simp add: framed_def)
  have r: "snd (True, ?fs @ [(OpClose, [])]) = ?fs @ (OpClose, []) # []" by simp
  have c: "concat (map stdout_bytes ?fs) = ''abc''" by code_simp
  from copy_reads_stdout [where rest = snd, OF l o r, of "[]"] show ?thesis unfolding c by (auto simp: framed_def)
qed

section \<open>Printing a file\<close>

text \<open>A pod that prints the content of the file by the poll number \<open>n\<close>.\<close>

definition prints :: "'w ws_client \<Rightarrow> ('w \<Rightarrow> nat) \<Rightarrow> nat \<Rightarrow> string \<Rightarrow> bool" where
  "prints W polls n content \<longleftrightarrow> (\<forall>w. ws_is_open W w = (Inr True, w))
   \<and> (\<forall>t w. \<exists>w'. ws_update W t w = (Inr (), w') \<and> polls w' = Suc (polls w))
   \<and> (\<forall>w. ws_peek_stdout W w = (Inr (polls w = n), w)) \<and> (\<forall>w. ws_peek_stderr W w = (Inr False, w))
   \<and> (\<forall>w. polls w = n \<longrightarrow> (\<exists>w'. ws_read_stdout W w = (Inr content, w') \<and> polls w' = n))
   \<and> (\<forall>c w. \<exists>w'. ws_write_stdin W c w = (Inr (), w') \<and> polls w' = polls w)
   \<and> (\<forall>w. \<exists>w'. ws_close W w = (Inr (), w'))"

lemma cat_twice:
  assumes law: "prints W polls n content" and "polls w = 0" and "2 \<le> n"
  shows "\<exists>w'. cat_rounds W [c] (res, w) = (Inr (), (if n = 2 then res @ [content] else res, w'))"
proof -
  have u: "\<exists>w'. ws_update W 500 v = (Inr (), w') \<and> polls w' = Suc (polls v)"
    and i: "\<exists>w'. ws_write_stdin W c v = (Inr (), w') \<and> polls w' = polls v" for v
    using law by (simp_all add: prints_def)
  obtain w1 where 1: "ws_update W 500 w = (Inr (), w1)" "polls w1 = 1" using u [of w] assms(2) by auto
  obtain w2 where 2: "ws_write_stdin W c w1 = (Inr (), w2)" "polls w2 = 1" using i [of w1] 1(2) by auto
  obtain w3 where 3: "ws_update W 500 w2 = (Inr (), w3)" "polls w3 = 2" using u [of w2] 2(2) by auto
  have o: "ws_is_open W v = (Inr True, v)" "ws_peek_stdout W v = (Inr (polls v = n), v)" "ws_peek_stderr W v = (Inr False, v)" for v
    using law by (simp_all add: prints_def)
  have first: "cat_rounds W [c] (res, w) = cat_rounds W [] (res, w2)"
    using 1 2 3 o assms(3) by (simp add: bind_def thn_def lift_def whenever_def ret_def split: sum.split prod.split)
  show ?thesis
  proof (cases "n = 2")
    case True
    obtain w4 where "ws_read_stdout W w3 = (Inr content, w4)" using law 3(2) True by (auto simp: prints_def)
    with 3 o True show ?thesis unfolding first by (simp add: bind_def thn_def lift_def whenever_def append_stdout_def)
  next
    case False
    with 3 o show ?thesis unfolding first by (simp add: bind_def thn_def lift_def whenever_def)
  qed
qed

text \<open>C28: A file is read if the pod prints it by the second poll, half a second after the command at most;
  later output is lost, and the operation fails without another attempt.\<close>

theorem file_read_by_second_poll:
  assumes law: "prints W polls n content" and s: "session w = (Inr W, w1)" "polls w1 = 0" "2 \<le> n"
    and A: "ca_stream_cat A name namespace container filename = stream_cat session filename"
  shows "fst (read_carrier2_file A name namespace filename container w) =
    (if n = 2 then Inr [content] else Inl (TemporaryError (Some 10)))"
proof -
  obtain w2 where 2: "cat_rounds W [''cat '' @ filename @ '' '' @ newline] ([], w1) =
      (Inr (), (if n = 2 then [content] else [], w2))"
    using cat_twice [OF law s(2,3), of "''cat '' @ filename @ '' '' @ newline" "[]"] by (auto split: if_splits)
  obtain w3 where 3: "ws_close W w2 = (Inr (), w3)" using law unfolding prints_def by blast
  have "stream_cat session filename w = (Inr (if n = 2 then [content] else [], None), w3)"
    using s(1) 2 3 by (simp add: stream_cat_def bind_Inr thn_Inr lift_def)
  moreover have n: "(30 :: nat) = Suc 29" by simp
  ultimately show ?thesis unfolding read_carrier2_file_def n read_file_retries.simps by (simp add: A try_else_Inr)
qed

definition late_shell :: "nat \<Rightarrow> string \<Rightarrow> mem ws_client" where
  "late_shell n content = logging_shell\<lparr>ws_update := (\<lambda>t m. (Inr (), m\<lparr>mm_log := ''poll'' # mm_log m\<rparr>)),
     ws_peek_stdout := (\<lambda>m. (Inr (length (mm_log m) = n), m)), ws_read_stdout := ret content,
     ws_write_stdin := (\<lambda>c. ret ())\<rparr>"

definition late_carrier :: "nat \<Rightarrow> string \<Rightarrow> mem carrier_api" where
  "late_carrier n content = (mem_carrier Carrier2Config)
     \<lparr>ca_stream_cat := (\<lambda>name namespace container filename. stream_cat (ret (late_shell n content)) filename)\<rparr>"

theorem file_read_by_second_poll_witness:
  "fst (read_carrier2_file (late_carrier 2 ''x: 1'') ''web'' ''default'' ''/tmp/config.yaml'' None (mem_web\<lparr>mm_log := []\<rparr>)) = Inr [''x: 1'']
   \<and> fst (read_carrier2_file (late_carrier 3 ''x: 1'') ''web'' ''default'' ''/tmp/config.yaml'' None (mem_web\<lparr>mm_log := []\<rparr>))
      = Inl (TemporaryError (Some 10))"
proof -
  have l: "prints (late_shell n content) (\<lambda>m. length (mm_log m)) n content" for n content
    by (simp add: prints_def late_shell_def logging_shell_def)
  have s: "(ret (late_shell n content)) (mem_web\<lparr>mm_log := []\<rparr>) = (Inr (late_shell n content), mem_web\<lparr>mm_log := []\<rparr>)" for n content
    by simp
  have p: "length (mm_log (mem_web\<lparr>mm_log := []\<rparr>)) = 0" by simp
  have a: "ca_stream_cat (late_carrier n content) name namespace container filename = stream_cat (ret (late_shell n content)) filename"
    for n content name namespace container filename by (simp add: late_carrier_def)
  show ?thesis
    using file_read_by_second_poll [where session = "ret (late_shell 2 ''x: 1'')" and polls = "\<lambda>m. length (mm_log m)", OF l s p _ a]
      file_read_by_second_poll [where session = "ret (late_shell 3 ''x: 1'')" and polls = "\<lambda>m. length (mm_log m)", OF l s p _ a] by simp
qed

end
