(* ===== verification/CliOptions.thy ===== *)
theory CliOptions
  imports LocalCommands ExecSession
begin

text \<open>
  The command line of the client as it is declared: the commands with their options, arguments and the
  parameters of the functions behind them (client/gefyra/cli), the options generated from the fields of
  the installation options, and the option that takes several words (client/gefyra/cli/utils.py).

  \<open>click\<close> builds the command line from these declarations and is not part of the repository.
\<close>

section \<open>Declarations\<close>

text \<open>A value in a declaration, the type of a parameter, and the keyword arguments of \<open>click.option\<close> and
  \<open>click.argument\<close>; \<open>None\<close> where a keyword is not given.\<close>

datatype click_literal = LNone | LBool bool | LInt int | LStr string | LList "click_literal list"

datatype click_type = TStr | TInt | TBool | TFloat | TList | TPath | TFile string | TChoice "string list" bool

record option_decl =
  od_decls :: "string list"
  od_help :: "string option"
  od_type :: "click_type option"
  od_default :: "click_literal option"
  od_required :: bool
  od_is_flag :: "bool option"
  od_flag_value :: "string option"
  od_multiple :: bool
  od_callback :: "string option"
  od_eat_all :: bool

record argument_decl =
  ad_name :: string
  ad_type :: "click_type option"
  ad_default :: "click_literal option"
  ad_required :: "bool option"
  ad_nargs :: "int option"
  ad_callback :: "string option"

datatype click_param = Option option_decl | Argument argument_decl

definition click_option :: "string list \<Rightarrow> option_decl" where
  "click_option decls = \<lparr>od_decls = decls, od_help = None, od_type = None, od_default = None, od_required = False,
     od_is_flag = None, od_flag_value = None, od_multiple = False, od_callback = None, od_eat_all = False\<rparr>"

definition click_argument :: "string \<Rightarrow> argument_decl" where
  "click_argument name = \<lparr>ad_name = name, ad_type = None, ad_default = None, ad_required = None, ad_nargs = None,
     ad_callback = None\<rparr>"

text \<open>A command: its declaration, and the parameters of its function.  Without a name \<open>click\<close> takes that
  of the function, without a help text its documentation.\<close>

record command_decl =
  cd_name :: "string option"
  cd_alias :: "string list"
  cd_help :: "string option"
  cd_hidden :: bool
  cd_pass_context :: bool
  cd_extra_args :: bool
  cd_params :: "click_param list"
  cd_arguments :: "string list"
  cd_kwargs :: bool

definition click_command :: "string option \<Rightarrow> command_decl" where
  "click_command name = \<lparr>cd_name = name, cd_alias = [], cd_help = None, cd_hidden = False, cd_pass_context = False,
     cd_extra_args = False, cd_params = [], cd_arguments = [], cd_kwargs = False\<rparr>"

datatype cli_command = Command command_decl | Group command_decl "(string \<times> cli_command) list"

section \<open>An option that takes several words\<close>

text \<open>\<open>OptionEatAll.parser_process\<close>: the value, then the arguments up to the next option (or all of them), and
  what is left.\<close>

definition eats :: "string list \<Rightarrow> string \<Rightarrow> bool" where
  "eats opening word = list_all (\<lambda>p. \<not> startswith word p) opening"

definition eat_all :: "bool \<Rightarrow> string list \<Rightarrow> string \<Rightarrow> string list \<Rightarrow> string list \<times> string list" where
  "eat_all save_other_options opening value rargs =
     (if save_other_options
      then (value # takeWhile (eats opening) rargs, dropWhile (eats opening) rargs)
      else (value # rargs, []))"

section \<open>Options generated from fields\<close>

text \<open>The fields of \<open>GefyraInstallOptions\<close> with their metadata.\<close>

datatype field_type = TypeName string | TypeOf click_type

record install_field =
  fd_name :: string
  fd_help :: "string option"
  fd_short :: "string option"
  fd_type :: "field_type option"
  fd_is_flag :: bool

definition field :: "string \<Rightarrow> string \<Rightarrow> install_field" where
  "field name help = \<lparr>fd_name = name, fd_help = Some help, fd_short = None, fd_type = None, fd_is_flag = False\<rparr>"

definition install_fields :: "install_field list" where
  "install_fields =
     [(field ''namespace'' ''The namespace to install Gefyra into (default: gefyra)'')\<lparr>fd_short := Some ''ns''\<rparr>,
      field ''version'' (''Set the Operator version; components are created according to this Gefyra version (default: '' @ VERSION @ '')''),
      field ''service_type'' ''The Kubernetes service for Stowaway to expose the Wireguard endpoint (default: NodePort)'',
      field ''service_port'' ''The port for Stowaway to expose the Wireguard endpoint (default: 31820)'',
      (field ''service_labels'' ''Additional Kubernetes labels for the Stowaway service (default: [])'')
        \<lparr>fd_type := Some (TypeName ''array'')\<rparr>,
      (field ''service_annotations'' ''Kubernetes annotations for the Stowaway service (default: [])'')
        \<lparr>fd_type := Some (TypeName ''array'')\<rparr>,
      field ''registry'' ''The registry URL for the images (default: quay.io/gefyra)'',
      field ''mtu'' ''The MTU for the Wireguard interface (default: auto-detected by WireGuard)'',
      field ''stowaway_storage'' ''The storage size for the Stowaway PVC in Mi (default: 64)'',
      field ''max_client_connection_age'' ''The maximum age of a Stowaway connection in seconds (default: None)'',
      (field ''disable_client_sa_management'' ''Whether to create/manage client service accounts for Gefyra (default: False)'')
        \<lparr>fd_type := Some (TypeOf TBool), fd_is_flag := True\<rparr>,
      (field ''bridge_debug'' ''Enable debug logging for GefyraBridgeMounts/GefyraBridges (default: False)'')
        \<lparr>fd_type := Some (TypeOf TBool), fd_is_flag := True\<rparr>]"

record opt_params =
  op_name :: string
  op_long :: string
  op_short :: "string option"
  op_required :: bool
  op_help :: "string option"
  op_type :: field_type
  op_is_flag :: bool

definition installoptions_to_cli_options :: "opt_params list" where
  "installoptions_to_cli_options = map (\<lambda>f.
     \<lparr>op_name = fd_name f, op_long = replace_char (CHR ''_'') (CHR ''-'') (fd_name f), op_short = fd_short f,
      op_required = False, op_help = fd_help f,
      op_type = (case fd_type f of None \<Rightarrow> TypeName ''string'' | Some t \<Rightarrow> t), op_is_flag = fd_is_flag f\<rparr>) install_fields"

text \<open>\<open>multi_options\<close> declares from the last on, and \<open>click\<close> lists what is declared last first.  A type
  name that is not in the table does not occur.\<close>

definition map_to_types :: "field_type \<Rightarrow> click_type" where
  "map_to_types t = (case t of TypeOf ty \<Rightarrow> ty
     | TypeName n \<Rightarrow> if n = ''array'' then TList else if n = ''number'' then TFloat else TStr)"

definition multi_option :: "opt_params \<Rightarrow> click_param" where
  "multi_option p = Option ((click_option
       ((case op_short p of None \<Rightarrow> [] | Some s \<Rightarrow> [''-'' @ s]) @ [''--'' @ op_long p, op_name p]))
     \<lparr>od_required := op_required p, od_type := Some (map_to_types (op_type p)), od_help := op_help p,
      od_is_flag := Some (op_is_flag p), od_eat_all := (op_type p = TypeName ''array''),
      od_multiple := (op_type p = TypeName ''array'')\<rparr>)"

definition multi_options :: "opt_params list \<Rightarrow> click_param list" where
  "multi_options params = map multi_option params"

section \<open>The commands\<close>

definition cli_root :: command_decl where
  "cli_root = (click_command None)\<lparr>
     cd_pass_context := True,
     cd_arguments := [''ctx'', ''kubeconfig'', ''context'', ''debug''],
     cd_params :=
      [Option ((click_option [''--kubeconfig''])\<lparr>od_help := Some ''Path to the kubeconfig file to use instead of loading the default''\<rparr>),
       Option ((click_option [''--context''])\<lparr>od_help := Some
          (''Context of the kubeconfig file to use instead of '' @ [CHR 0x27] @ ''default'' @
          [CHR 0x27])\<rparr>),
       Option ((click_option [''-d'', ''--debug''])\<lparr>od_default := Some (LBool False),
          od_is_flag := Some True\<rparr>)]\<rparr>"

definition cli_bridge :: command_decl where
  "cli_bridge = (click_command (Some ''bridge''))\<lparr>
     cd_help := Some ''Manage your GefyraBridges to redirect traffic from a GefyraBridgeMount target'',
     cd_pass_context := True,
     cd_arguments := [''ctx'']\<rparr>"

definition cli_bridge_create :: command_decl where
  "cli_bridge_create = (click_command (Some ''create''))\<lparr>
     cd_help := Some
        ''Establish a GefyraBridge from a GefyraBridgeMount in the cluster to a local container'',
     cd_arguments := [''name'', ''local'', ''ports'', ''mount'', ''match_header_exact'',
        ''match_header_prefix'', ''match_header_regex'', ''match_path_exact'', ''match_path_prefix'',
        ''match_path_regex'', ''no_probe_handling'', ''connection_name'', ''nowait'', ''timeout''],
     cd_params :=
      [Option ((click_option [''-t'', ''--local'', ''--target''])\<lparr>od_help := Some ''The name of the local container running in Gefyra'',
          od_required := True\<rparr>),
       Option ((click_option [''-N'', ''--name''])\<lparr>od_help := Some ''Assign a custom name to this GefyraBridge''\<rparr>),
       Option ((click_option [''-p'', ''--ports''])\<lparr>od_help := Some
          ''Add forward port mapping in form of <remote_container_port>:<local_container_port>'',
          od_required := True, od_multiple := True, od_callback := Some ''parse_ip_port_map''\<rparr>),
       Option ((click_option [''--match-header-exact''])\<lparr>od_help := Some
          ''Match header exactly to forward traffic to this client. E.g.: --match-header-exact x-gefyra:peer'',
          od_multiple := True, od_callback := Some ''parse_match_header''\<rparr>),
       Option ((click_option [''--match-header-regex''])\<lparr>od_help := Some
          ''Match header regex expression to forward traffic to this client. E.g.: --match-header-regex x-gefyra:(.*))'',
          od_multiple := True, od_callback := Some ''parse_match_header''\<rparr>),
       Option ((click_option [''--match-header-prefix''])\<lparr>od_help := Some
          ''Match header value prefix (and name exactly) to forward traffic to this client. E.g.: --match-header-prefix x-gefyra:peer1,'',
          od_multiple := True, od_callback := Some ''parse_match_header''\<rparr>),
       Option ((click_option [''--match-path-prefix''])\<lparr>od_help := Some
          ''Match path prefix to forward traffic to this client. E.g.: --match-path-prefix myroute/'',
          od_multiple := True, od_callback := Some ''parse_match_path''\<rparr>),
       Option ((click_option [''--match-path-regex''])\<lparr>od_help := Some
          ''Match patch regex to forward traffic to this client. E.g.: --match-path-regex myroute/(.*)/all'',
          od_multiple := True, od_callback := Some ''parse_match_path''\<rparr>),
       Option ((click_option [''--match-path-exact''])\<lparr>od_help := Some
          ''Match path exactly to forward traffic to this client. E.g.: --match-path-exact /only/this'',
          od_multiple := True, od_callback := Some ''parse_match_path''\<rparr>),
       Option ((click_option [''-P'', ''--no-probe-handling''])\<lparr>od_is_flag := Some True,
          od_help := Some ''Make Carrier to not handle probes during switch operation'',
          od_default := Some (LBool False)\<rparr>),
       Option ((click_option [''--mount''])\<lparr>od_help := Some ''The target GefyraBridgeMount to install this GefyraBridge on'',
          od_required := True\<rparr>),
       Option ((click_option [''--connection-name''])\<lparr>od_type := Some TStr,
          od_default := Some (LStr ''default''), od_callback := Some ''check_connection_name''\<rparr>),
       Option ((click_option [''--nowait''])\<lparr>od_is_flag := Some True,
          od_help := Some ''Do not wait for the GefyraBridgeMount to be ready''\<rparr>),
       Option ((click_option [''--timeout''])\<lparr>od_type := Some TInt,
          od_default := Some (LInt 60)\<rparr>)]\<rparr>"

definition cli_bridge_delete :: command_decl where
  "cli_bridge_delete = (click_command (Some ''delete''))\<lparr>
     cd_alias := [''rm'', ''remove''],
     cd_help := Some ''Mark a GefyraBridge for deletion'',
     cd_arguments := [''name'', ''connection_name'', ''all'', ''mount'', ''nowait'', ''timeout''],
     cd_params :=
      [Argument ((click_argument ''name'')\<lparr>ad_required := Some False\<rparr>),
       Option ((click_option [''-A'', ''--all''])\<lparr>od_help := Some ''Unbridge all GefyraBridges with local target containers'',
          od_is_flag := Some True, od_default := Some (LBool False)\<rparr>),
       Option ((click_option [''-m'', ''--mount''])\<lparr>od_help := Some ''Unbridge all bridges for a specific mount'',
          od_default := Some (LNone)\<rparr>),
       Option ((click_option [''--nowait''])\<lparr>od_is_flag := Some True,
          od_help := Some ''Do not wait for the GefyraBridge to be deleted.''\<rparr>),
       Option ((click_option [''--connection-name''])\<lparr>od_type := Some TStr,
          od_default := Some (LStr ''default''), od_callback := Some ''check_connection_name''\<rparr>),
       Option ((click_option [''--timeout''])\<lparr>od_type := Some TInt,
          od_default := Some (LInt 60)\<rparr>)]\<rparr>"

definition cli_bridge_list :: command_decl where
  "cli_bridge_list = (click_command (Some ''list''))\<lparr>
     cd_alias := [''ls''],
     cd_help := Some ''List all GefyraBridges with local target containers'',
     cd_pass_context := True,
     cd_arguments := [''ctx'', ''all'', ''connection_name'', ''output''],
     cd_params :=
      [Option ((click_option [''-A'', ''--all''])\<lparr>od_help := Some ''List all GefyraBridges from all GefyraClients'',
          od_is_flag := Some True, od_default := Some (LBool False)\<rparr>),
       Option ((click_option [''--connection-name''])\<lparr>od_type := Some TStr,
          od_default := Some (LStr ''default'')\<rparr>),
       Option ((click_option [''-o'', ''--output''])\<lparr>od_type := Some (TChoice [''json'', ''text''] True),
          od_default := Some (LStr ''text'')\<rparr>)]\<rparr>"

definition cli_bridge_inspect :: command_decl where
  "cli_bridge_inspect = (click_command (Some ''inspect''))\<lparr>
     cd_alias := [''describe'', ''show'', ''get''],
     cd_help := Some ''Describe a GefyraBridge'',
     cd_pass_context := True,
     cd_arguments := [''ctx'', ''bridge_name'', ''output'', ''connection_name''],
     cd_params :=
      [Argument (click_argument ''bridge_name''),
       Option ((click_option [''--output'', ''-o''])\<lparr>od_type := Some (TChoice [''json'', ''text''] True),
          od_default := Some (LStr ''text'')\<rparr>),
       Option ((click_option [''--connection-name'', ''-c''])\<lparr>od_type := Some TStr,
          od_default := Some (LStr ''default'')\<rparr>)]\<rparr>"

definition cli_clients :: command_decl where
  "cli_clients = (click_command (Some ''clients''))\<lparr>
     cd_help := Some ''Manage GefyraClients for a Gefyra installation'',
     cd_pass_context := True,
     cd_arguments := [''ctx'']\<rparr>"

definition cli_clients_create :: command_decl where
  "cli_clients_create = (click_command (Some ''create''))\<lparr>
     cd_help := Some ''Create a new GefyraClient'',
     cd_pass_context := True,
     cd_arguments := [''ctx'', ''client_id'', ''quantity'', ''registry'', ''nowait'', ''timeout''],
     cd_params :=
      [Option ((click_option [''--client-id'', ''--name''])\<lparr>od_help := Some ''The client id/name of the GefyraClient'',
          od_type := Some TStr\<rparr>),
       Option ((click_option [''-n'', ''quantity''])\<lparr>od_help := Some
          ''Number of GefyraClient to be generated (not allowed with explicit --client-id/--name)'',
          od_type := Some TInt, od_default := Some (LInt 1)\<rparr>),
       Option ((click_option [''--registry''])\<lparr>od_help := Some ''The registry URL for the images'',
          od_type := Some TStr\<rparr>),
       Option ((click_option [''--nowait''])\<lparr>od_is_flag := Some True,
          od_help := Some ''Do not wait for the GefyraClient to be ready''\<rparr>),
       Option ((click_option [''--timeout''])\<lparr>od_type := Some TInt,
          od_help := Some ''Timeout in seconds for the GefyraClient to be ready'',
          od_default := Some (LInt 60)\<rparr>)]\<rparr>"

definition cli_clients_delete :: command_decl where
  "cli_clients_delete = (click_command (Some ''delete''))\<lparr>
     cd_alias := [''rm'', ''remove''],
     cd_help := Some ''Mark a GefyraClient for deletion'',
     cd_pass_context := True,
     cd_arguments := [''ctx'', ''client_id'', ''nowait'', ''timeout'', ''force''],
     cd_params :=
      [Argument ((click_argument ''client_id'')\<lparr>ad_nargs := Some (-1),
          ad_required := Some True\<rparr>),
       Option ((click_option [''--nowait''])\<lparr>od_is_flag := Some True,
          od_help := Some ''Do not wait for the GefyraClient to be deleted''\<rparr>),
       Option ((click_option [''--timeout''])\<lparr>od_type := Some TInt,
          od_help := Some ''Timeout in seconds for the GefyraClient to be deleted'',
          od_default := Some (LInt 60)\<rparr>),
       Option ((click_option [''--force''])\<lparr>od_is_flag := Some True,
          od_help := Some ''Force deletion of the GefyraClient''\<rparr>)]\<rparr>"

definition cli_clients_list :: command_decl where
  "cli_clients_list = (click_command (Some ''list''))\<lparr>
     cd_alias := [''ls''],
     cd_help := Some ''List all GefyraClients'',
     cd_pass_context := True,
     cd_arguments := [''ctx'', ''output''],
     cd_params :=
      [Option ((click_option [''-o'', ''--output''])\<lparr>od_type := Some (TChoice [''json'', ''text''] True),
          od_default := Some (LStr ''text'')\<rparr>)]\<rparr>"

definition cli_clients_disconnect :: command_decl where
  "cli_clients_disconnect = (click_command (Some ''disconnect''))\<lparr>
     cd_alias := [''deactivate'', ''stop''],
     cd_help := Some ''Disconnect a GefyraClient'',
     cd_pass_context := True,
     cd_arguments := [''ctx'', ''client_id''],
     cd_params :=
      [Argument (click_argument ''client_id'')]\<rparr>"

definition cli_clients_inspect :: command_decl where
  "cli_clients_inspect = (click_command (Some ''inspect''))\<lparr>
     cd_alias := [''describe'', ''show'', ''get''],
     cd_help := Some ''Describe a GefyraClient'',
     cd_pass_context := True,
     cd_arguments := [''ctx'', ''client_id'', ''output''],
     cd_params :=
      [Argument (click_argument ''client_id''),
       Option ((click_option [''-o'', ''--output''])\<lparr>od_help := Some ''Output format (json, text)'',
          od_default := Some (LStr ''text''), od_type := Some (TChoice [''json'', ''text''] True)\<rparr>)]\<rparr>"

definition cli_clients_config :: command_decl where
  "cli_clients_config = (click_command (Some ''config''))\<lparr>
     cd_alias := [''write''],
     cd_help := Some ''Get a Gefyra connection config for a client'',
     cd_pass_context := True,
     cd_arguments := [''ctx'', ''client_id'', ''host'', ''port'', ''kube_api'', ''output'', ''registry'',
        ''mtu'', ''local''],
     cd_params :=
      [Argument (click_argument ''client_id''),
       Option ((click_option [''-h'', ''--host''])\<lparr>od_help := Some ''The connection host'',
          od_type := Some TStr\<rparr>),
       Option ((click_option [''-p'', ''--port''])\<lparr>od_help := Some ''The connection port (default: 31820)'',
          od_type := Some TInt\<rparr>),
       Option ((click_option [''-a'', ''--kube-api'', ''--kubernetes-api''])\<lparr>od_help := Some
          ''The Kubernetes API adress for the host cluster (default: API adresse of your kubeconfig)'',
          od_type := Some TStr\<rparr>),
       Option ((click_option [''-o'', ''--output''])\<lparr>od_help := Some ''The output file to write the config to'',
          od_type := Some (TFile ''wb'')\<rparr>),
       Option ((click_option [''--registry''])\<lparr>od_help := Some ''The registry URL for the images'',
          od_type := Some TStr\<rparr>),
       Option ((click_option [''--mtu''])\<lparr>od_help := Some
          ''The MTU for the Wireguard interface (default: auto-detected by WireGuard)'',
          od_type := Some TInt, od_default := Some (LNone)\<rparr>),
       Option ((click_option [''--local''])\<lparr>od_is_flag := Some True,
          od_help := Some ''Whether the target cluster is a local k8s cluster'',
          od_default := Some (LBool False)\<rparr>)]\<rparr>"

definition cli_connections :: command_decl where
  "cli_connections = (click_command (Some ''connections''))\<lparr>
     cd_help := Some ''Manage connections to Kubernetes clusters for a GefyraClient on this machine'',
     cd_pass_context := True,
     cd_arguments := [''ctx'']\<rparr>"

definition cli_connections_connect :: command_decl where
  "cli_connections_connect = (click_command (Some ''connect''))\<lparr>
     cd_alias := [''create''],
     cd_help := Some ''Connect this local machine to a Gefyra cluster'',
     cd_pass_context := True,
     cd_arguments := [''ctx'', ''client_config'', ''connection_name'', ''minikube'', ''mtu'',
        ''cargo_image'', ''force'', ''timeout''],
     cd_params :=
      [Option ((click_option [''-f'', ''--client-config''])\<lparr>od_type := Some (TFile ''r'')\<rparr>),
       Option ((click_option [''-n'', ''--connection-name''])\<lparr>od_default := Some (LStr ''default''),
          od_help := Some ''Assign a local name to this client connection'',
          od_type := Some TStr\<rparr>),
       Option ((click_option [''--minikube''])\<lparr>od_help := Some
          ''Connect Gefyra to a Minikube cluster (accepts minikube profile name, default is 'minikube'))'',
          od_type := Some TStr, od_is_flag := Some False, od_flag_value := Some ''minikube''\<rparr>),
       Option ((click_option [''--mtu''])\<lparr>od_help := Some
          ''The MTU (Maximum Transmission Unit) for the Wireguard interface (default: auto-detected by WireGuard)'',
          od_type := Some TInt, od_default := Some (LNone)\<rparr>),
       Option ((click_option [''--cargo-image''])\<lparr>od_help := Some ''Use a custom Cargo container image'',
          od_type := Some TStr, od_default := Some (LNone)\<rparr>),
       Option ((click_option [''--force''])\<lparr>od_is_flag := Some True,
          od_help := Some ''Force re-connection of client, even if it is already active.''\<rparr>),
       Option ((click_option [''--timeout''])\<lparr>od_type := Some TInt,
          od_help := Some ''Timeout for each connection step in seconds.'',
          od_default := Some (LInt 60)\<rparr>)]\<rparr>"

definition cli_connections_disconnect :: command_decl where
  "cli_connections_disconnect = (click_command (Some ''disconnect''))\<lparr>
     cd_alias := [''stop'', ''halt''],
     cd_help := Some ''Disconnect this local machine from a Gefyra cluster'',
     cd_arguments := [''yes'', ''connection_name'', ''timeout'', ''nowait''],
     cd_params :=
      [Option ((click_option [''--yes''])\<lparr>od_help := Some ''Non-interactive mode, do not ask for confirmation'',
          od_type := Some TBool, od_is_flag := Some True, od_default := Some (LBool False)\<rparr>),
       Option ((click_option [''--nowait''])\<lparr>od_is_flag := Some True, od_help := Some
          (''Do not wait for the GefyraClient to be in state '' @ [CHR 0x27] @ ''WAITING'' @
          [CHR 0x27])\<rparr>),
       Option ((click_option [''--timeout''])\<lparr>od_type := Some TInt,
          od_help := Some ''Timeout for disconnect in seconds.'', od_default := Some (LInt 60)\<rparr>),
       Argument ((click_argument ''connection_name'')\<lparr>ad_type := Some TStr,
          ad_default := Some (LStr ''default'')\<rparr>)]\<rparr>"

definition cli_connections_list :: command_decl where
  "cli_connections_list = (click_command (Some ''list''))\<lparr>
     cd_alias := [''ls''],
     cd_help := Some ''List all Gefyra connections'',
     cd_arguments := [''output''],
     cd_params :=
      [Option ((click_option [''--output'', ''-o''])\<lparr>od_type := Some (TChoice [''json'', ''text''] True),
          od_default := Some (LStr ''text''),
          od_help := Some ''Output format for the connection list''\<rparr>)]\<rparr>"

definition cli_connections_remove :: command_decl where
  "cli_connections_remove = (click_command (Some ''remove''))\<lparr>
     cd_alias := [''rm''],
     cd_help := Some ''Remove a Gefyra connection'',
     cd_arguments := [''yes'', ''connection_name''],
     cd_params :=
      [Option ((click_option [''--yes''])\<lparr>od_help := Some ''Non-interactive mode, do not ask for confirmation'',
          od_type := Some TBool, od_is_flag := Some True, od_default := Some (LBool False)\<rparr>),
       Argument ((click_argument ''connection_name'')\<lparr>ad_type := Some TStr,
          ad_default := Some (LStr ''default''), ad_callback := Some ''check_connection_name''\<rparr>)]\<rparr>"

definition cli_connections_inspect :: command_decl where
  "cli_connections_inspect = (click_command (Some ''inspect''))\<lparr>
     cd_help := Some ''Inspect a Gefyra connection'',
     cd_arguments := [''connection_name'', ''output''],
     cd_params :=
      [Option ((click_option [''--output'', ''-o''])\<lparr>od_type := Some (TChoice [''json'', ''text''] True),
          od_default := Some (LStr ''text''),
          od_help := Some ''Output format for the connection details''\<rparr>),
       Argument ((click_argument ''connection_name'')\<lparr>ad_type := Some TStr,
          ad_default := Some (LStr ''default'')\<rparr>)]\<rparr>"

definition cli_install :: command_decl where
  "cli_install = (click_command (Some ''install''))\<lparr>
     cd_help := Some
        ''Create and print the Kubernetes configs for Gefyra; usage: 'gefyra install [options] | kubectl apply -f -'',
     cd_pass_context := True,
     cd_kwargs := True,
     cd_arguments := [''ctx'', ''component'', ''preset'', ''apply'', ''wait''],
     cd_params :=
      [Option ((click_option [''--component'', ''--comp''])\<lparr>od_help := Some
          (''Limit config creation to this component (available: '' @ join '','' (map component_name
          COMPONENTS) @ '')''), od_type := Some TStr, od_multiple := True\<rparr>),
       Option ((click_option [''--preset''])\<lparr>od_help := Some
          (''Set configs from a preset (available: '' @ join '','' (keys LB_PRESETS) @ '')''),
          od_type := Some TStr\<rparr>),
       Option ((click_option [''--apply''])\<lparr>od_is_flag := Some True\<rparr>),
       Option ((click_option [''--wait''])\<lparr>od_is_flag := Some True\<rparr>)] @ multi_options installoptions_to_cli_options\<rparr>"

definition cli_uninstall :: command_decl where
  "cli_uninstall = (click_command (Some ''uninstall''))\<lparr>
     cd_help := Some ''Removes the Gefyra installation from the cluster'',
     cd_arguments := [''force''],
     cd_params :=
      [Option ((click_option [''--force'', ''-f''])\<lparr>od_help := Some ''Delete without promt'',
          od_is_flag := Some True\<rparr>)]\<rparr>"

definition cli_up :: command_decl where
  "cli_up = (click_command (Some ''up''))\<lparr>
     cd_help := Some ''Install Gefyra on a cluster and directly connect to it'',
     cd_pass_context := True,
     cd_arguments := [''ctx'', ''minikube'', ''preset'', ''registry'', ''mtu''],
     cd_params :=
      [Option ((click_option [''--minikube''])\<lparr>od_help := Some
          ''Connect Gefyra to a Minikube cluster (accepts minikube profile name, default is 'minikube'))'',
          od_type := Some TStr, od_is_flag := Some False, od_flag_value := Some ''minikube''\<rparr>),
       Option ((click_option [''--preset''])\<lparr>od_help := Some
          (''Set configs from a preset (available: '' @ join '','' (keys LB_PRESETS) @ '')''),
          od_type := Some TStr\<rparr>),
       Option ((click_option [''--registry''])\<lparr>od_help := Some ''Set the registry to use for the Gefyra components'',
          od_type := Some TStr\<rparr>),
       Option ((click_option [''--mtu''])\<lparr>od_help := Some
          ''Set the MTU for the Gefyra network (default: auto-detected by WireGuard)'',
          od_type := Some TInt, od_default := Some (LNone)\<rparr>)]\<rparr>"

definition cli_down :: command_decl where
  "cli_down = (click_command (Some ''down''))\<lparr>
     cd_help := Some ''Remove Gefyra locally and on the cluster'',
     cd_pass_context := True,
     cd_arguments := [''ctx'']\<rparr>"

definition cli_status :: command_decl where
  "cli_status = (click_command (Some ''status''))\<lparr>
     cd_help := Some ''Get Gefyra's status''\<rparr>"

definition cli_run :: command_decl where
  "cli_run = (click_command None)\<lparr>
     cd_help := Some (join newline [''Run a container in Gefyra.'', [], [CHR 0x08],
        ''Any additional container engine arguments can be passed after the known'',
        ''options.  They are forwarded directly to the Docker/Podman API.'',
        ''Use the docker-py parameter names with '--' prefix and '-' separators:'', [], [CHR 0x08],
        ''  gefyra run -i myimage -N myname -- --cpu-shares 512 --mem-reservation 256m'',
        ''  gefyra run -i myimage -N myname -- --cpu-period 100000 --cpu-quota 50000'', [], [CHR 0x08],
        ''See https://docker-py.readthedocs.io/en/stable/containers.html for the'',
        ''full list of supported parameters.'']),
     cd_pass_context := True,
     cd_extra_args := True,
     cd_arguments := [''ctx'', ''detach'', ''auto_remove'', ''expose'', ''env_from'', ''cpu_from'',
        ''memory_from'', ''cpu'', ''memory'', ''user'', ''volume'', ''env'', ''namespace'', ''command'',
        ''name'', ''image'', ''pull'', ''platform'', ''connection_name'', ''security_opt'',
        ''privileged''],
     cd_params :=
      [Option ((click_option [''-d'', ''--detach''])\<lparr>od_help := Some ''Run container in background and print container ID'',
          od_type := Some TBool, od_default := Some (LBool False), od_is_flag := Some True\<rparr>),
       Option ((click_option [''--rm'', ''auto_remove''])\<lparr>od_help := Some ''Automatically remove the container when it exits'',
          od_type := Some TBool, od_is_flag := Some True, od_default := Some (LBool False)\<rparr>),
       Option ((click_option [''-p'', ''--expose''])\<lparr>od_help := Some ''Add port mapping in form of <container_port>:<host_port>'',
          od_type := Some TStr, od_multiple := True, od_callback := Some ''parse_ip_port_map''\<rparr>),
       Option ((click_option [''--env-from''])\<lparr>od_help := Some
          (''Copy the environment from the container in the notation '' @ [CHR 0x27] @ ''Pod/Container'' @
          [CHR 0x27]), od_type := Some TStr, od_callback := Some ''parse_workload''\<rparr>),
       Option ((click_option [''--cpu-from''])\<lparr>od_help := Some
          (''Inherit CPU limit from a workload, e.g. '' @ [CHR 0x27] @ ''pod/<name>'' @ [CHR 0x27] @
          '', '' @ [CHR 0x27] @ ''deployment/<name>'' @ [CHR 0x27] @ '' or '' @ [CHR 0x27] @
          ''statefulset/<name>'' @ [CHR 0x27]), od_type := Some TStr\<rparr>),
       Option ((click_option [''--memory-from''])\<lparr>od_help := Some
          (''Inherit memory limit from a workload, e.g. '' @ [CHR 0x27] @ ''pod/<name>'' @ [CHR 0x27] @
          '', '' @ [CHR 0x27] @ ''deployment/<name>'' @ [CHR 0x27] @ '' or '' @ [CHR 0x27] @
          ''statefulset/<name>'' @ [CHR 0x27]), od_type := Some TStr\<rparr>),
       Option ((click_option [''--cpu''])\<lparr>od_help := Some
          ''[Deprecated: pass docker/podman args after '--' instead, e.g. `-- --cpu-period 100000 --cpu-quota 50000` for 0.5 CPU. Note: raw microseconds, k8s-style notation is not supported by the engine] CPU limit for the container (e.g. '500m' or '2')'',
          od_type := Some TStr\<rparr>),
       Option ((click_option [''--memory''])\<lparr>od_help := Some
          ''[Deprecated: pass docker/podman args after '--' instead, e.g. `-- --memory 512m`. Note: the engine accepts suffixes 'b/k/m/g', not k8s-style 'Mi'/'Gi'] Memory limit for the container (e.g. '512Mi', '1Gi', or '1g')'',
          od_type := Some TStr\<rparr>),
       Option ((click_option [''--user''])\<lparr>od_help := Some ''Username or UID (format: <name|uid>[:<group|gid>])'',
          od_type := Some TStr\<rparr>),
       Option ((click_option [''-v'', ''--volume''])\<lparr>od_help := Some
          ''Bind mount a volume into the container in notation src:dest, allowed multiple times'',
          od_type := Some TStr, od_multiple := True\<rparr>),
       Option ((click_option [''--env''])\<lparr>od_help := Some
          ''Set or override environment variables in the form ENV=value, allowed multiple times'',
          od_type := Some TStr, od_callback := Some ''parse_env'', od_multiple := True\<rparr>),
       Option ((click_option [''-n'', ''--namespace''])\<lparr>od_help := Some ''The namespace for this container to run in'',
          od_type := Some TStr\<rparr>),
       Option ((click_option [''-c'', ''--command''])\<lparr>od_help := Some ''The command for this container to in Gefyra'',
          od_type := Some TStr, od_eat_all := True\<rparr>),
       Option ((click_option [''-N'', ''--name''])\<lparr>od_help := Some ''The name of the container running in Gefyra'',
          od_type := Some TStr, od_required := True\<rparr>),
       Option ((click_option [''-i'', ''--image''])\<lparr>od_help := Some ''The docker image to run in Gefyra'',
          od_type := Some TStr, od_required := True\<rparr>),
       Option ((click_option [''--pull''])\<lparr>od_type := Some (TChoice [''always'', ''missing''] False),
          od_help := Some ''Define whether image should always be pulled'',
          od_default := Some (LStr ''missing'')\<rparr>),
       Option ((click_option [''--platform''])\<lparr>od_type := Some TStr,
          od_help := Some ''Define platform for image pull. Default: linux/amd64'',
          od_default := Some (LStr ''linux/amd64'')\<rparr>),
       Option ((click_option [''--security-opt''])\<lparr>od_type := Some TStr,
          od_help := Some ''Security Options'', od_multiple := True,
          od_default := Some (LList [])\<rparr>),
       Option ((click_option [''--connection-name''])\<lparr>od_type := Some TStr,
          od_callback := Some ''check_connection_name''\<rparr>),
       Option ((click_option [''--privileged'', ''privileged''])\<lparr>od_help := Some ''Give extended privileges to this container'',
          od_type := Some TBool, od_is_flag := Some True, od_default := Some (LBool False)\<rparr>)]\<rparr>"

definition cli_rm :: command_decl where
  "cli_rm = (click_command (Some ''rm''))\<lparr>
     cd_help := Some ''Remove a Gefyra container and its associated bridges'',
     cd_arguments := [''name'', ''all'', ''force'', ''nowait'', ''connection_name''],
     cd_params :=
      [Argument ((click_argument ''name'')\<lparr>ad_required := Some False\<rparr>),
       Option ((click_option [''-A'', ''--all''])\<lparr>od_help := Some ''Remove all Gefyra containers and their bridges'',
          od_is_flag := Some True, od_default := Some (LBool False)\<rparr>),
       Option ((click_option [''-f'', ''--force''])\<lparr>od_help := Some ''Force remove containers (even if running)'',
          od_is_flag := Some True, od_default := Some (LBool False)\<rparr>),
       Option ((click_option [''--nowait''])\<lparr>od_help := Some ''Do not wait for containers and bridges to be fully removed'',
          od_is_flag := Some True, od_default := Some (LBool False)\<rparr>),
       Option ((click_option [''--connection-name''])\<lparr>od_type := Some TStr,
          od_default := Some (LStr ''default''), od_callback := Some ''check_connection_name''\<rparr>)]\<rparr>"

definition cli_version :: command_decl where
  "cli_version = (click_command None)\<lparr>
     cd_pass_context := True,
     cd_arguments := [''ctx'', ''no_check''],
     cd_params :=
      [Option ((click_option [''-n'', ''--no-check''])\<lparr>od_help := Some ''Do not check whether there is a new version'',
          od_is_flag := Some True, od_default := Some (LBool False)\<rparr>)]\<rparr>"

definition cli_self :: command_decl where
  "cli_self = (click_command (Some ''self''))\<lparr>
     cd_help := Some ''Manage this Gefyra executable'',
     cd_pass_context := True,
     cd_arguments := [''ctx'']\<rparr>"

definition cli_self_restore :: command_decl where
  "cli_self_restore = (click_command (Some ''restore''))\<lparr>
     cd_help := Some ''Restore the local Gefyra client installation''\<rparr>"

definition cli_self_update :: command_decl where
  "cli_self_update = (click_command (Some ''update''))\<lparr>
     cd_help := Some ''Update the local Gefyra client installation''\<rparr>"

definition cli_operator :: command_decl where
  "cli_operator = (click_command (Some ''operator''))\<lparr>
     cd_help := Some ''Manage operator installation'',
     cd_pass_context := True,
     cd_arguments := [''ctx'']\<rparr>"

definition cli_operator_update :: command_decl where
  "cli_operator_update = (click_command (Some ''update''))\<lparr>
     cd_help := Some ''Update operator to latest or specific version.'',
     cd_arguments := [''version''],
     cd_params :=
      [Option ((click_option [''--version''])\<lparr>od_help := Some ''Set specific version to update operator to.'',
          od_type := Some TStr\<rparr>)]\<rparr>"

definition cli_list :: command_decl where
  "cli_list = (click_command (Some ''status''))\<lparr>
     cd_help := Some ''List running containers'',
     cd_arguments := [''connection_name''],
     cd_params :=
      [Option ((click_option [''-n'', ''--connection-name''])\<lparr>od_help := Some ''Only list from this client connection name.'',
          od_type := Some TStr\<rparr>)]\<rparr>"

definition cli_mount :: command_decl where
  "cli_mount = (click_command (Some ''mount''))\<lparr>
     cd_help := Some ''Manage GefyraBridgeMounts for a Gefyra installation'',
     cd_pass_context := True,
     cd_arguments := [''ctx'']\<rparr>"

definition cli_mount_create :: command_decl where
  "cli_mount_create = (click_command (Some ''create''))\<lparr>
     cd_help := Some ''Create a new GefyraBridgeMount in the cluster'',
     cd_pass_context := True,
     cd_arguments := [''ctx'', ''namespace'', ''target'', ''connection_name'', ''nowait'', ''timeout'',
        ''name'', ''tls_certificate'', ''tls_key'', ''tls_sni''],
     cd_params :=
      [Option ((click_option [''--namespace''])\<lparr>od_help := Some ''The GefyraBridgeMount's target namespace'',
          od_type := Some TStr, od_default := Some (LStr ''default'')\<rparr>),
       Option ((click_option [''--name''])\<lparr>od_help := Some ''Assign a custom name to this GefyraBridgeMount'',
          od_type := Some TStr\<rparr>),
       Option ((click_option [''--target''])\<lparr>od_help := Some
          ''Install a GefyraBridgeMount to workloads following the notion 'resource/name/container'. Resource can be one of 'deployment', 'statefulset' or 'pod'. E.g.: --target deployment/hello-nginx/nginx'',
          od_required := True\<rparr>),
       Option ((click_option [''--tls-key''])\<lparr>od_help := Some
          ''Path to key file for tls traffic (within the target container) or secret notation 'secret:{namespace}/{name}:{key}'. To address specific ports, use the format <key>@port'',
          od_type := Some TStr, od_multiple := True\<rparr>),
       Option ((click_option [''--tls-certificate''])\<lparr>od_help := Some
          ''Path to certificate file for tls traffic (within the target container) or secret notation 'secret:{namespace}/{name}:{key}'. To address specific ports, use the format <cert>@port'',
          od_type := Some TStr, od_multiple := True\<rparr>),
       Option ((click_option [''--tls-sni''])\<lparr>od_help := Some
          ''SNI for tls traffic (within the target container) or secret notation 'secret:{namespace}/{name}:{key}'. To address specific ports, use the format <sni>@port'',
          od_type := Some TStr, od_multiple := True\<rparr>),
       Option ((click_option [''--connection-name'', ''-c''])\<lparr>od_type := Some TStr,
          od_default := Some (LStr ''default'')\<rparr>),
       Option ((click_option [''--nowait''])\<lparr>od_is_flag := Some True,
          od_help := Some ''Do not wait for the GefyraBridgeMount to be ready''\<rparr>),
       Option ((click_option [''--timeout''])\<lparr>od_type := Some TInt,
          od_default := Some (LInt 60)\<rparr>)]\<rparr>"

definition cli_mount_delete :: command_decl where
  "cli_mount_delete = (click_command (Some ''delete''))\<lparr>
     cd_alias := [''rm'', ''remove''],
     cd_help := Some ''Mark a GefyraBridgeMount for deletion'',
     cd_pass_context := True,
     cd_arguments := [''ctx'', ''mount_name'', ''nowait'', ''timeout'', ''connection_name''],
     cd_params :=
      [Option ((click_option [''--nowait''])\<lparr>od_is_flag := Some True,
          od_help := Some ''Do not wait for the GefyraBridgeMount to be deleted.''\<rparr>),
       Option ((click_option [''--connection-name'', ''-c''])\<lparr>od_type := Some TStr,
          od_default := Some (LStr ''default'')\<rparr>),
       Argument ((click_argument ''mount_name'')\<lparr>ad_nargs := Some (-1),
          ad_required := Some True\<rparr>),
       Option ((click_option [''--timeout''])\<lparr>od_type := Some TInt,
          od_default := Some (LInt 60)\<rparr>)]\<rparr>"

definition cli_mount_list :: command_decl where
  "cli_mount_list = (click_command (Some ''list''))\<lparr>
     cd_alias := [''ls''],
     cd_help := Some ''List all GefyraBridgeMounts'',
     cd_pass_context := True,
     cd_arguments := [''ctx'', ''output'', ''connection_name''],
     cd_params :=
      [Option ((click_option [''--output'', ''-o''])\<lparr>od_type := Some (TChoice [''json'', ''text''] True),
          od_default := Some (LStr ''text'')\<rparr>),
       Option ((click_option [''--connection-name''])\<lparr>od_type := Some TStr,
          od_default := Some (LStr ''default'')\<rparr>)]\<rparr>"

definition cli_mount_inspect :: command_decl where
  "cli_mount_inspect = (click_command (Some ''inspect''))\<lparr>
     cd_alias := [''describe'', ''show'', ''get''],
     cd_help := Some ''Describe a GefyraBridgeMount'',
     cd_pass_context := True,
     cd_arguments := [''ctx'', ''mount_name'', ''output'', ''connection_name''],
     cd_params :=
      [Argument (click_argument ''mount_name''),
       Option ((click_option [''-o'', ''--output''])\<lparr>od_type := Some (TChoice [''json'', ''text''] True),
          od_default := Some (LStr ''text'')\<rparr>),
       Option ((click_option [''--connection-name''])\<lparr>od_type := Some TStr,
          od_default := Some (LStr ''default'')\<rparr>)]\<rparr>"

text \<open>The groups, with their commands in the order of their declaration.\<close>

definition bridge_commands :: "(string \<times> cli_command) list" where
  "bridge_commands = [(''create'', Command cli_bridge_create), (''delete'', Command cli_bridge_delete),
     (''list'', Command cli_bridge_list), (''inspect'', Command cli_bridge_inspect)]"

definition clients_commands :: "(string \<times> cli_command) list" where
  "clients_commands = [(''create'', Command cli_clients_create), (''delete'', Command cli_clients_delete),
     (''list'', Command cli_clients_list), (''disconnect'', Command cli_clients_disconnect),
     (''inspect'', Command cli_clients_inspect), (''config'', Command cli_clients_config)]"

definition connections_commands :: "(string \<times> cli_command) list" where
  "connections_commands = [(''connect'', Command cli_connections_connect),
     (''disconnect'', Command cli_connections_disconnect), (''list'', Command cli_connections_list),
     (''remove'', Command cli_connections_remove), (''inspect'', Command cli_connections_inspect)]"

definition mount_commands :: "(string \<times> cli_command) list" where
  "mount_commands = [(''create'', Command cli_mount_create), (''delete'', Command cli_mount_delete),
     (''list'', Command cli_mount_list), (''inspect'', Command cli_mount_inspect)]"

definition self_commands :: "(string \<times> cli_command) list" where
  "self_commands = [(''restore'', Command cli_self_restore), (''update'', Command cli_self_update)]"

definition operator_commands :: "(string \<times> cli_command) list" where
  "operator_commands = [(''update'', Command cli_operator_update)]"

definition root_commands :: "(string \<times> cli_command) list" where
  "root_commands = [(''bridge'', Group cli_bridge bridge_commands), (''clients'', Group cli_clients clients_commands),
     (''connections'', Group cli_connections connections_commands), (''install'', Command cli_install),
     (''uninstall'', Command cli_uninstall), (''up'', Command cli_up), (''down'', Command cli_down),
     (''status'', Command cli_status), (''run'', Command cli_run), (''rm'', Command cli_rm),
     (''version'', Command cli_version), (''self'', Group cli_self self_commands),
     (''operator'', Group cli_operator operator_commands), (''list'', Command cli_list),
     (''mount'', Group cli_mount mount_commands)]"

definition gefyra_cli :: cli_command where
  "gefyra_cli = Group cli_root root_commands"

end
