(* ===== verification/DocGen.thy ===== *)
theory DocGen
  imports CliOptions "HOL-Library.Char_ord" "HOL-Library.List_Lexorder"
begin

text \<open>
  The manual of the command line, generated from the commands as markdown (client/gefyra/cli/docgen.py).
  Texts are UTF-8 here: an arrow and a dash outside of ASCII are three bytes.  What \<open>click\<close> makes of a
  declaration -- the attributes of its objects -- is a parameter.
\<close>

section \<open>Texts\<close>

definition unlines :: "string list \<Rightarrow> string" where
  "unlines ls = concat (map (\<lambda>l. l @ newline) ls)"

definition example :: "string list \<Rightarrow> string" where
  "example ls = newline @ unlines (''```sh'' # ls @ [''```''])"

definition EXAMPLES :: "string dict" where
  "EXAMPLES =
     [(''bridge'', example [''gefyra bridge create'', ''gefyra bridge list'',
         ''gefyra bridge delete my-bridge'']),
      (''bridge create'', example
         [''gefyra bridge create -t mycontainer -p 8080:8080 --mount my-mount'']),
      (''bridge delete'', example [''gefyra bridge delete my-bridge'', ''gefyra bridge rm my-bridge'']),
      (''bridge list'', example [''gefyra bridge list'', ''gefyra bridge ls'']),
      (''bridge inspect'', example [''gefyra bridge inspect my-bridge'']),
      (''clients'', example [''gefyra clients create'', ''gefyra clients list'',
         ''gefyra clients delete my-client'']),
      (''clients create'', example [''gefyra clients create -n 2 # creates 2 clients'']),
      (''clients list'', example [''gefyra clients list'', ''gefyra clients ls'']),
      (''clients inspect'', example [''gefyra clients inspect <client-id>'',
         ''gefyra clients inspect my-client-id'']),
      (''clients config'', example [''gefyra clients config -h 1.1.1.1 my-client-id'']),
      (''clients delete'', example [''gefyra clients delete my-client-id'',
         ''gefyra clients rm my-client-id'', ''gefyra clients remove my-client-id'']),
      (''clients disconnect'', example [''gefyra clients disconnect my-client-id'']),
      (''connections'', example [''gefyra connections connect -f con_file.json -n my-connection'',
         ''gefyra connections list'', ''gefyra connections disconnect my-connection'']),
      (''connections connect'', example
         [''gefyra connections connect -f con_file.json -n my-connection'']),
      (''connections disconnect'', example [''gefyra connections disconnect my-connection'']),
      (''connections list'', example [''gefyra connections list'']),
      (''connections remove'', example [''gefyra connections rm my-connection'']),
      (''connections inspect'', example [''gefyra connections inspect my-connection'']),
      (''down'', example [''gefyra down'']),
      (''install'', example [''gefyra install'']),
      (''list'', example [''gefyra list'']),
      (''mount'', example [''gefyra mount create --target deploy/my-deploy/my-container'',
         ''gefyra mount list'', ''gefyra mount delete my-mount'']),
      (''mount create'', example
         [''gefyra mount create --target deploy/my-deploy/my-container -n default'']),
      (''mount delete'', example [''gefyra mount delete my-mount'', ''gefyra mount rm my-mount'']),
      (''mount list'', example [''gefyra mount list'', ''gefyra mount ls'']),
      (''mount inspect'', example [''gefyra mount inspect my-mount'']),
      (''operator'', example [''gefyra operator update'']),
      (''operator update'', example [''gefyra operator update'']),
      (''rm'', example [''gefyra rm mycontainer'']),
      (''run'', example [''gefyra run -i pyserver -N mypyserver -n default'']),
      (''self'', example [''gefyra self update'', ''gefyra self restore'']),
      (''self restore'', example [''gefyra self restore'']),
      (''self update'', example [''gefyra self update'']),
      (''status'', example [''gefyra status'']),
      (''uninstall'', example [''gefyra uninstall'']),
      (''up'', example [''gefyra up'']),
      (''version'', example [''gefyra version''])]"

definition FRONTMATTER :: string where
  "FRONTMATTER = unlines
     [''---'',
      ''title: Command line tool (CLI)'',
      ''description: Gefyra's CLI allows you to run containers on your local machine and connect them to Kubernetes-based resources.'',
      ''navigation:'',
      ''  title: CLI'',
      ''  icon: i-lucide-square-terminal'',
      ''---'']"

definition INTRO :: string where
  "INTRO = unlines
     [''# Command line tool (CLI)'',
      [],
      ''## Syntax'',
      [],
      ''Use the following syntax to run `gefyra` commands from your terminal:'',
      [],
      ''```sh'',
      ''gefyra [-h] [-d] [action] [arguments]'',
      ''```'',
      [],
      ''where `action` and `arguments` are:'',
      ''- `action`: specifies the operation that you want to perform, for example `up` or `bridge`'',
      ''- `arguments`:  specifies the required and optional arguments for a specific action, for example `-n` or `--namespace`'',
      [],
      ''Global flags are:'',
      ''- `-h, --help`: show help message and exit'',
      ''- `-d, --debug`: add debug output for each action'']"

definition TRIANGLE :: string where
  "TRIANGLE = [CHR 0xE2, CHR 0x96, CHR 0xB6]"

definition EM_DASH :: string where
  "EM_DASH = [CHR 0xE2, CHR 0x80, CHR 0x94]"

section \<open>Parameters\<close>

text \<open>\<open>re.sub(r"(?<!`)(<[^<>]+>)(?!`)", r"`\1`", text)\<close>; \<open>quoted\<close>: the character before is a backtick.\<close>

definition bracket :: "char \<Rightarrow> bool" where
  "bracket c \<longleftrightarrow> c \<in> {CHR ''<'', CHR ''>''}"

function escape_from :: "bool \<Rightarrow> string \<Rightarrow> string" where
  "escape_from quoted [] = []"
| "escape_from quoted (c # s) =
     (let body = takeWhile (\<lambda>x. \<not> bracket x) s; rest = dropWhile (\<lambda>x. \<not> bracket x) s in
      if c = CHR ''<'' \<and> \<not> quoted \<and> body \<noteq> [] \<and> rest \<noteq> [] \<and> hd rest = CHR ''>'' \<and> take 1 (tl rest) \<noteq> ''`''
      then ''`<'' @ body @ ''>`'' @ escape_from False (tl rest)
      else c # escape_from (c = CHR ''`'') s)"
  by pat_completeness auto
termination
proof (relation "measure (length \<circ> snd)", goal_cases)
  case (2 quoted c s body rest)
  then have "length rest \<le> length s" by (simp add: length_dropWhile_le)
  then show ?case by simp
qed simp_all

definition escape_angle_brackets :: "string \<Rightarrow> string" where
  "escape_angle_brackets s = escape_from False s"

text \<open>The attributes of the objects of \<open>click\<close>.  A default is absent, an empty tuple, the mark for a default
  that is not set, or a value with its text.\<close>

datatype doc_default = NoDefault | EmptyTuple | Sentinel | Value string

record click_view =
  cv_opts :: "option_decl \<Rightarrow> string list"
  cv_secondary_opts :: "option_decl \<Rightarrow> string list"
  cv_is_flag :: "option_decl \<Rightarrow> bool"
  cv_default :: "option_decl \<Rightarrow> doc_default"
  cv_required :: "option_decl \<Rightarrow> bool"
  cv_argument_required :: "argument_decl \<Rightarrow> bool"
  cv_short_help :: "command_decl \<Rightarrow> nat \<Rightarrow> string"

definition code :: "string \<Rightarrow> string" where
  "code s = ''`'' @ s @ ''`''"

definition get_option_names :: "click_view \<Rightarrow> option_decl \<Rightarrow> string" where
  "get_option_names V param = join '', '' (map code (cv_opts V param @ cv_secondary_opts V param))"

definition get_aliases :: "command_decl \<Rightarrow> string list" where
  "get_aliases cmd = cd_alias cmd"

definition skip_default :: "click_view \<Rightarrow> option_decl \<Rightarrow> bool" where
  "skip_default V param \<longleftrightarrow> cv_default V param \<in> {NoDefault, EmptyTuple, Sentinel} \<or> cv_is_flag V param"

definition add_default :: "click_view \<Rightarrow> option_decl \<Rightarrow> string \<Rightarrow> string" where
  "add_default V param desc = (if skip_default V param then desc else
     case cv_default V param of
       Value d \<Rightarrow> if desc \<noteq> [] then desc @ '' (default: '' @ code d @ '')'' else ''Default: '' @ code d
     | _ \<Rightarrow> desc)"

definition add_required :: "bool \<Rightarrow> string \<Rightarrow> string" where
  "add_required required desc =
     (if \<not> required then desc else if desc \<noteq> [] then desc @ '' **(required)**'' else ''**(required)**'')"

definition format_param_description :: "click_view \<Rightarrow> option_decl \<Rightarrow> string" where
  "format_param_description V param =
     add_required (cv_required V param) (add_default V param (escape_angle_brackets (or_empty (od_help param))))"

definition table_row :: "string \<Rightarrow> string \<Rightarrow> string" where
  "table_row name desc = ''| '' @ name @ '' | '' @ desc @ '' |''"

definition options_of :: "command_decl \<Rightarrow> option_decl list" where
  "options_of cmd = concat (map (\<lambda>p. case p of Option o' \<Rightarrow> [o'] | Argument a \<Rightarrow> []) (cd_params cmd))"

definition arguments_of :: "command_decl \<Rightarrow> argument_decl list" where
  "arguments_of cmd = concat (map (\<lambda>p. case p of Option o' \<Rightarrow> [] | Argument a \<Rightarrow> [a]) (cd_params cmd))"

definition generate_options_table :: "click_view \<Rightarrow> command_decl \<Rightarrow> string" where
  "generate_options_table V cmd = (let options = options_of cmd in
     if options = [] then []
     else join newline ([[], ''**Arguments:**  '', [], ''| Argument | Description |'', ''|:---------|:------------|'']
       @ map (\<lambda>o'. table_row (get_option_names V o') (format_param_description V o')) options))"

definition generate_arguments_table :: "click_view \<Rightarrow> command_decl \<Rightarrow> string" where
  "generate_arguments_table V cmd = (let args = arguments_of cmd in
     if args = [] then []
     else join newline ([[], ''**Positional Arguments:**  '', [], ''| Argument | Description |'', ''|:---------|:------------|'']
       @ map (\<lambda>a. table_row (code (ad_name a)) (if cv_argument_required V a then ''**(required)**'' else [])) args))"

section \<open>Commands and groups\<close>

definition optional :: "bool \<Rightarrow> string \<Rightarrow> string list" where
  "optional b line = (if b then [line] else [])"

definition full_name_of :: "string \<Rightarrow> string \<Rightarrow> string" where
  "full_name_of pre name = (if pre \<noteq> [] then strip (pre @ '' '' @ name) else name)"

definition anchor_id :: "string \<Rightarrow> string \<Rightarrow> string" where
  "anchor_id pre name = lower (replace_char (CHR '' '') (CHR ''-'') (pre @ ''-'' @ name))"

definition anchor_line :: "string \<Rightarrow> string" where
  "anchor_line anchor = ''<a id='' @ [CHR 0x22] @ anchor @ [CHR 0x22] @ ''></a>''"

definition alias_lines :: "command_decl \<Rightarrow> string list" where
  "alias_lines cmd = optional (get_aliases cmd \<noteq> [])
     (newline @ ''*Aliases: '' @ join '', '' (map code (get_aliases cmd)) @ ''*'')"

definition help_lines :: "command_decl \<Rightarrow> string list" where
  "help_lines cmd = optional (given (cd_help cmd)) (newline @ escape_angle_brackets (or_empty (cd_help cmd)))"

definition example_lines :: "string \<Rightarrow> string list" where
  "example_lines full_name = (case dget EXAMPLES full_name of None \<Rightarrow> []
     | Some e \<Rightarrow> [newline @ ''**Example:**'' @ newline @ e])"

definition generate_command_doc ::
    "click_view \<Rightarrow> command_decl \<Rightarrow> string \<Rightarrow> string \<Rightarrow> nat \<Rightarrow> bool \<Rightarrow> string" where
  "generate_command_doc V cmd name pre level is_subcommand = join newline
     ((if is_subcommand \<and> pre \<noteq> []
       then [anchor_line (anchor_id pre name), ''**'' @ TRIANGLE @ '' '' @ pre @ '' '' @ name @ ''**'']
       else [replicate level (CHR ''#'') @ '' '' @ name])
      @ alias_lines cmd @ help_lines cmd @ example_lines (full_name_of pre name)
      @ optional (generate_arguments_table V cmd \<noteq> []) (generate_arguments_table V cmd)
      @ optional (generate_options_table V cmd \<noteq> []) (generate_options_table V cmd))"

fun decl_of :: "cli_command \<Rightarrow> command_decl" where
  "decl_of (Command c) = c"
| "decl_of (Group c cs) = c"

definition short_help :: "click_view \<Rightarrow> command_decl \<Rightarrow> nat \<Rightarrow> string" where
  "short_help V cmd limit = (if given (cd_help cmd) then escape_angle_brackets (cv_short_help V cmd limit) else [])"

text \<open>The commands of a group by name, without the hidden ones.\<close>

definition visible :: "(string \<times> cli_command) list \<Rightarrow> (string \<times> cli_command) list" where
  "visible commands = filter (\<lambda>(n, c). \<not> cd_hidden (decl_of c)) (sort_key fst commands)"

definition link_line :: "click_view \<Rightarrow> string \<Rightarrow> string \<Rightarrow> command_decl \<Rightarrow> string" where
  "link_line V name sub cmd =
     ''- ['' @ code (name @ '' '' @ sub) @ ''](#'' @ name @ ''-'' @ sub @ '') '' @ EM_DASH @ '' '' @ short_help V cmd 60"

definition overview :: "click_view \<Rightarrow> string \<Rightarrow> (string \<times> cli_command) list \<Rightarrow> bool \<Rightarrow> string list" where
  "overview V name subcommands is_toplevel = (if subcommands = [] \<or> \<not> is_toplevel then []
     else (newline @ ''**Subcommands:**'') # map (\<lambda>(n, c). link_line V name n (decl_of c)) subcommands)"

definition group_head ::
    "click_view \<Rightarrow> command_decl \<Rightarrow> (string \<times> cli_command) list \<Rightarrow> string \<Rightarrow> string \<Rightarrow> nat \<Rightarrow> bool \<Rightarrow> string list" where
  "group_head V grp commands name pre level is_toplevel =
     (replicate level (CHR ''#'') @ '' '' @ name) # alias_lines grp @ help_lines grp
      @ example_lines (full_name_of pre name) @ overview V name (visible commands) is_toplevel"

lemma visible_subset: "set (visible commands) \<subseteq> set commands"
  by (auto simp: visible_def)

function generate_group_doc ::
    "click_view \<Rightarrow> command_decl \<Rightarrow> (string \<times> cli_command) list \<Rightarrow> string \<Rightarrow> string \<Rightarrow> nat \<Rightarrow> bool \<Rightarrow> string" where
  "generate_group_doc V grp commands name pre level is_toplevel = join newline
     (group_head V grp commands name pre level is_toplevel
      @ concat (map (\<lambda>(n, c). [[], case c of
            Group g cs \<Rightarrow> generate_group_doc V g cs n (full_name_of pre name) (level + 1) False
          | Command cmd \<Rightarrow> generate_command_doc V cmd n (full_name_of pre name) (level + 1) True])
          (visible commands)))"
  by pat_completeness auto

termination
proof (relation "measure (\<lambda>(V, grp, commands, rest). size_list (\<lambda>(n, c). size c) commands)", goal_cases)
  case (2 V grp commands name pre level is_toplevel p n c g cs)
  then have m: "(n, Group g cs) \<in> set commands" using visible_subset by (metis subsetD)
  have "size (Group g cs) < Suc (size_list (\<lambda>(n, c). size c) commands)"
    using size_list_estimation' [OF m, of "size (Group g cs)" "\<lambda>(n, c). size c"] by simp
  moreover have "size_list (\<lambda>(n, c). size c) cs \<le> size_list (size_prod (\<lambda>_. 0) size) cs"
    by (rule size_list_pointwise) (auto simp: size_prod_simp)
  ultimately show ?case by (simp add: case_prod_beta')
qed simp

definition generate_toc :: "click_view \<Rightarrow> (string \<times> cli_command) list \<Rightarrow> string" where
  "generate_toc V commands = join newline
     ([''## Commands Overview'', [], ''| Command | Description |'', ''|:--------|:------------|'']
      @ map (\<lambda>(n, c). ''| ['' @ code n @ ''](#'' @ n @ '') | '' @ short_help V (decl_of c) 80 @ '' |'') (visible commands)
      @ [[]])"

section \<open>The document\<close>

definition command_section :: "click_view \<Rightarrow> string \<times> cli_command \<Rightarrow> string list" where
  "command_section V p = (case p of (n, c) \<Rightarrow> [''---'', [], (case c of
       Group g cs \<Rightarrow> generate_group_doc V g cs n [] 3 True
     | Command cmd \<Rightarrow> generate_command_doc V cmd n [] 3 False), []])"

definition docs_content :: "click_view \<Rightarrow> (string \<times> cli_command) list \<Rightarrow> string" where
  "docs_content V commands = join newline
     ([FRONTMATTER, INTRO, generate_toc V commands] @ concat (map (command_section V) (visible commands)))"

text \<open>\<open>write_file\<close> makes the directories of the file and writes it.\<close>

definition generate_docs ::
    "click_view \<Rightarrow> (string \<Rightarrow> string \<Rightarrow> ('w, unit) io) \<Rightarrow> string option \<Rightarrow> ('w, string) io" where
  "generate_docs V write_file output =
     (let content = docs_content V root_commands in
      thn (whenever (given output) (write_file (or_empty output) content)) (ret content))"

definition docgen_main ::
    "click_view \<Rightarrow> (string \<Rightarrow> string \<Rightarrow> ('w, unit) io) \<Rightarrow> (string \<Rightarrow> ('w, unit) io) \<Rightarrow> string option \<Rightarrow> ('w, unit) io" where
  "docgen_main V write_file echo output =
     bind (generate_docs V write_file output) (\<lambda>content. whenever (\<not> given output) (echo content))"

end
