(* ===== verification/DocProperties.thy ===== *)
theory DocProperties
  imports DocGen CommandProperties
begin

text \<open>
  What the declarations of the command line and the manual made from them promise: every function gets the
  parameters it has, an option that takes several words leaves the rest, the links of the manual lead to
  anchors, and its examples are for commands that exist.
\<close>

section \<open>Declarations and functions\<close>

text \<open>The commands of a group, with their names from the root.\<close>

fun commands_of :: "string \<Rightarrow> cli_command \<Rightarrow> (string \<times> command_decl) list" where
  "commands_of path (Command c) = [(path, c)]"
| "commands_of path (Group c cs) = (path, c) # concat (map (\<lambda>(n, x). commands_of (path @ '' '' @ n) x) cs)"

text \<open>How \<open>click\<close> names the parameter of an option: by the identifier among the declarations, else after
  the first option with two dashes, else after the first one.\<close>

definition is_plain :: "string \<Rightarrow> bool" where
  "is_plain d \<longleftrightarrow> \<not> startswith d ''-''"

definition name_of_flag :: "string list \<Rightarrow> string" where
  "name_of_flag ds = lower (replace_char (CHR ''-'') (CHR ''_'')
     (dropWhile (\<lambda>c. c = CHR ''-'') (hd (filter (\<lambda>d. startswith d ''--'') ds @ ds))))"

definition click_naming :: "(string list \<Rightarrow> string) \<Rightarrow> bool" where
  "click_naming f \<longleftrightarrow> (\<forall>ds n. filter is_plain ds = [n] \<longrightarrow> f ds = n)
   \<and> (\<forall>ds. ds \<noteq> [] \<and> filter is_plain ds = [] \<longrightarrow> f ds = name_of_flag ds)"

definition standard_name :: "string list \<Rightarrow> string" where
  "standard_name ds = (case filter is_plain ds of [] \<Rightarrow> name_of_flag ds | n # _ \<Rightarrow> n)"

lemma standard_naming: "click_naming standard_name"
  by (simp add: click_naming_def standard_name_def)

fun param_name :: "(string list \<Rightarrow> string) \<Rightarrow> click_param \<Rightarrow> string" where
  "param_name f (Option p) = f (od_decls p)"
| "param_name f (Argument a) = ad_name a"

fun named :: "click_param \<Rightarrow> bool" where
  "named (Option p) \<longleftrightarrow> od_decls p \<noteq> [] \<and> length (filter is_plain (od_decls p)) \<le> 1"
| "named (Argument a) \<longleftrightarrow> True"

fun flags :: "click_param \<Rightarrow> string list" where
  "flags (Option p) = filter (\<lambda>d. \<not> is_plain d) (od_decls p)"
| "flags (Argument a) = []"

text \<open>\<open>pass_context\<close> passes the context first.\<close>

definition own_arguments :: "command_decl \<Rightarrow> string list" where
  "own_arguments c = (if cd_pass_context c then tl (cd_arguments c) else cd_arguments c)"

definition callable :: "(string list \<Rightarrow> string) \<Rightarrow> command_decl \<Rightarrow> bool" where
  "callable f c \<longleftrightarrow> (let names = map (param_name f) (cd_params c) in
     distinct names \<and> distinct (concat (map flags (cd_params c)))
   \<and> list_all (\<lambda>a. a \<in> set names) (own_arguments c)
   \<and> (cd_kwargs c \<or> list_all (\<lambda>n. n \<in> set (own_arguments c)) names))"

lemma named_standard:
  assumes "click_naming f" and "named p"
  shows "param_name f p = param_name standard_name p"
proof (cases p)
  case (Option q)
  show ?thesis
  proof (cases "filter is_plain (od_decls q)")
    case Nil
    with assms Option show ?thesis by (simp add: click_naming_def standard_name_def)
  next
    case (Cons n ns)
    with assms(2) Option have "ns = []" by simp
    with Cons assms(1) Option show ?thesis by (simp add: click_naming_def standard_name_def)
  qed
qed simp

lemma callable_standard:
  assumes "click_naming f" and "list_all named (cd_params c)"
  shows "callable f c = callable standard_name c"
proof -
  have "map (param_name f) (cd_params c) = map (param_name standard_name) (cd_params c)"
    using assms named_standard by (auto simp: list_all_iff)
  then show ?thesis by (simp only: callable_def)
qed

lemma all_named: "list_all (\<lambda>(path, c). list_all named (cd_params c)) (commands_of ''gefyra'' gefyra_cli)"
  by code_simp

lemma all_standard: "list_all (\<lambda>(path, c). callable standard_name c) (commands_of ''gefyra'' gefyra_cli)"
  by code_simp

text \<open>C37: Every command of the client can be called: its options and arguments are the parameters of its
  function, all of them and nothing else (but for functions that take any keyword), no two have the same
  name, and no flag is declared twice.\<close>

theorem options_match_parameters:
  assumes "click_naming f"
  shows "list_all (\<lambda>(path, c). callable f c) (commands_of ''gefyra'' gefyra_cli)"
  using all_standard all_named callable_standard [OF assms] by (fastforce simp: list_all_iff)

theorem options_match_parameters_witness:
  "list_all (\<lambda>(path, c). callable standard_name c) (commands_of ''gefyra'' gefyra_cli)"
  using options_match_parameters [OF standard_naming] .

text \<open>The keywords of \<open>install\<close> are the fields of the installation options.\<close>

lemma install_keywords:
  "filter (\<lambda>n. n \<notin> set (own_arguments cli_install)) (map (param_name standard_name) (cd_params cli_install)) = map fd_name install_fields"
  by code_simp

text \<open>The declared aliases are those that names are looked up with.\<close>

definition aliases_of :: "(string \<times> cli_command) list \<Rightarrow> command_group" where
  "aliases_of commands = map (\<lambda>(n, c). (n, cd_alias (decl_of c))) commands"

lemma declared_groups:
  "map aliases_of [root_commands, bridge_commands, clients_commands, connections_commands, mount_commands] = COMMAND_GROUPS"
  by code_simp

section \<open>Options with several words\<close>

text \<open>Such an option takes the words up to the next option and leaves the rest; nothing is lost.\<close>

lemma eat_all_words:
  assumes "list_all (eats opening) ws" and "rest = [] \<or> \<not> eats opening (hd rest)"
  shows "eat_all True opening value (ws @ rest) = (value # ws, rest)"
proof -
  have "takeWhile (eats opening) (ws @ rest) = ws \<and> dropWhile (eats opening) (ws @ rest) = rest"
    using assms by (induction ws) (cases rest, auto)+
  then show ?thesis by (simp add: eat_all_def)
qed

text \<open>Of the words of \<open>run --command\<close> only the first one reaches the container: the text of the tuple is
  evaluated, and its first item is the command.\<close>

lemma command_keeps_first_word:
  assumes "cm_literal_eval T (tuple_text (fst (eat_all True opening value rargs))) = Inr (fst (eat_all True opening value rargs))"
    and "tuple_text (fst (eat_all True opening value rargs)) \<noteq> []"
  shows "literal_command T (tuple_text (fst (eat_all True opening value rargs))) = Inr value"
  using assms by (simp add: literal_command_def eat_all_def nth_item_def)

section \<open>Escaping\<close>

lemma escape_plain:
  assumes "CHR ''<'' \<notin> set b"
  shows "escape_from q (b @ s) = b @ escape_from (if b = [] then q else last b = CHR ''`'') s"
  using assms by (induction b arbitrary: q) (auto simp: Let_def)

text \<open>After an angle bracket: the rest of a placeholder that is to be escaped.\<close>

definition closing :: "string \<Rightarrow> bool" where
  "closing s \<longleftrightarrow> (\<exists>b r. s = b @ CHR ''>'' # r \<and> b \<noteq> [] \<and> list_all (\<lambda>c. \<not> bracket c) b \<and> take 1 r \<noteq> ''`'')"

lemma until_bracket:
  assumes "list_all (\<lambda>x. \<not> bracket x) b" and "bracket c"
  shows "takeWhile (\<lambda>x. \<not> bracket x) (b @ c # r) = b" "dropWhile (\<lambda>x. \<not> bracket x) (b @ c # r) = c # r"
  using assms by (induction b) auto

lemma bracket_signs [simp]: "bracket (CHR ''<'')" "bracket (CHR ''>'')"
  by (simp_all add: bracket_def)

lemma no_open: "list_all (\<lambda>c. \<not> bracket c) b \<Longrightarrow> CHR ''<'' \<notin> set b"
  by (induction b) auto

lemma closing_split:
  "closing s \<longleftrightarrow> (let body = takeWhile (\<lambda>x. \<not> bracket x) s; rest = dropWhile (\<lambda>x. \<not> bracket x) s in
      body \<noteq> [] \<and> rest \<noteq> [] \<and> hd rest = CHR ''>'' \<and> take 1 (tl rest) \<noteq> ''`'')" (is "_ = ?r")
proof
  assume "closing s"
  then obtain b r where 1: "s = b @ CHR ''>'' # r" "b \<noteq> []" "list_all (\<lambda>c. \<not> bracket c) b" "take 1 r \<noteq> ''`''"
    by (auto simp: closing_def)
  then show ?r by (simp add: until_bracket)
next
  assume r: ?r
  let ?rest = "dropWhile (\<lambda>x. \<not> bracket x) s"
  have "s = takeWhile (\<lambda>x. \<not> bracket x) s @ CHR ''>'' # tl ?rest"
    using r by (metis (lifting) list.collapse takeWhile_dropWhile_id)
  moreover have "list_all (\<lambda>c. \<not> bracket c) (takeWhile (\<lambda>x. \<not> bracket x) s)"
    by (auto simp: list_all_iff dest: set_takeWhileD)
  ultimately show "closing s" using r unfolding closing_def Let_def by blast
qed

lemma closing_brackets:
  "list_all (\<lambda>c. \<not> bracket c) b \<Longrightarrow> closing (b @ CHR ''>'' # r) = (b \<noteq> [] \<and> take 1 r \<noteq> ''`'')"
  by (simp add: closing_split until_bracket)

lemma escape_placeholder:
  assumes "list_all (\<lambda>c. \<not> bracket c) b" and "b \<noteq> []" and "take 1 r \<noteq> ''`''"
  shows "escape_from False (CHR ''<'' # b @ CHR ''>'' # r) = ''`<'' @ b @ ''>`'' @ escape_from False r"
  using assms by (simp add: Let_def until_bracket)

lemma escape_other:
  assumes "c = CHR ''<'' \<Longrightarrow> q \<or> \<not> closing s"
  shows "escape_from q (c # s) = c # escape_from (c = CHR ''`'') s"
  using assms by (auto simp: closing_split Let_def)

lemma escape_char [simp]: "c \<noteq> CHR ''<'' \<Longrightarrow> escape_from q (c # s) = c # escape_from (c = CHR ''`'') s"
  by (rule escape_other) simp

lemma escape_first: "take 1 s = ''`'' \<Longrightarrow> take 1 (escape_from q s) = ''`''"
  by (cases s) (auto simp: Let_def)

declare escape_from.simps(2) [simp del]

text \<open>Escaping makes no placeholder where there was none.\<close>

lemma escape_closing_parts:
  assumes b: "list_all (\<lambda>c. \<not> bracket c) b" and r: "r = [] \<or> bracket (hd r)" and a: "closing (escape_from q (b @ r))"
  shows "closing (b @ r)"
proof -
  obtain q' where e: "escape_from q (b @ r) = b @ escape_from q' r"
    using escape_plain [OF no_open [OF b]] that by blast
  show ?thesis
  proof (cases r)
    case Nil
    with a e show ?thesis by simp
  next
    case (Cons c t)
    with r have c: "c = CHR ''>'' \<or> c = CHR ''<''" by (auto simp: bracket_def)
    then show ?thesis
    proof
      assume c: "c = CHR ''>''"
      then have 1: "escape_from q (b @ r) = b @ CHR ''>'' # escape_from False t"
        by (simp only: e) (simp add: Cons c)
      have 2: "b \<noteq> []" "take 1 (escape_from False t) \<noteq> ''`''" using a unfolding 1 closing_brackets [OF b] by simp_all
      have "take 1 t \<noteq> ''`''" using 2(2) escape_first [of t False] by metis
      then show ?thesis unfolding Cons c closing_brackets [OF b] using 2(1) by simp
    next
      assume c: "c = CHR ''<''"
      have "\<exists>u v. escape_from q' (c # t) = u @ CHR ''<'' # v \<and> list_all (\<lambda>c. \<not> bracket c) u"
      proof (cases "q' \<or> \<not> closing t")
        case True
        then have "escape_from q' (c # t) = [] @ CHR ''<'' # escape_from False t" using c by (simp add: escape_other)
        then show ?thesis by (intro exI) (erule conjI, simp)
      next
        case False
        then obtain d w where "t = d @ CHR ''>'' # w" "d \<noteq> []" "list_all (\<lambda>c. \<not> bracket c) d" "take 1 w \<noteq> ''`''"
          by (auto simp: closing_def)
        then have "escape_from q' (c # t) = ''`'' @ CHR ''<'' # (d @ ''>`'' @ escape_from False w)"
          using escape_placeholder [of d w] False c by simp
        then show ?thesis by (intro exI) (erule conjI, simp add: bracket_def)
      qed
      then obtain u v where u: "escape_from q' (c # t) = u @ CHR ''<'' # v" "list_all (\<lambda>c. \<not> bracket c) u" by blast
      have 3: "escape_from q (b @ r) = (b @ u) @ CHR ''<'' # v"
        by (simp only: e) (simp add: Cons u(1))
      have 4: "list_all (\<lambda>c. \<not> bracket c) (b @ u)" using b u(2) by simp
      from a show ?thesis unfolding 3 closing_split Let_def until_bracket [OF 4 bracket_signs(1)] by simp
    qed
  qed
qed

lemma escape_closing: "closing (escape_from q s) \<Longrightarrow> closing s"
proof -
  assume a: "closing (escape_from q s)"
  have b: "list_all (\<lambda>c. \<not> bracket c) (takeWhile (\<lambda>c. \<not> bracket c) s)"
    by (auto simp: list_all_iff dest: set_takeWhileD)
  have "dropWhile (\<lambda>c. \<not> bracket c) s = [] \<or> bracket (hd (dropWhile (\<lambda>c. \<not> bracket c) s))"
    using hd_dropWhile by blast
  from escape_closing_parts [OF b this, of q] a show ?thesis unfolding takeWhile_dropWhile_id by blast
qed

lemma escape_again: "(q \<Longrightarrow> q') \<Longrightarrow> escape_from q' (escape_from q s) = escape_from q s"
proof (induction s arbitrary: q q' rule: length_induct)
  case (1 s)
  show ?case
  proof (cases s)
    case (Cons c t)
    show ?thesis
    proof (cases "c = CHR ''<'' \<and> \<not> q \<and> closing t")
      case True
      then obtain b r where b: "t = b @ CHR ''>'' # r" "b \<noteq> []" "list_all (\<lambda>c. \<not> bracket c) b" "take 1 r \<noteq> ''`''"
        by (auto simp: closing_def)
      have lt: "CHR ''<'' \<notin> set b" by (rule no_open [OF b(3)])
      have e: "escape_from q s = ''`<'' @ b @ ''>`'' @ escape_from False r"
        using escape_placeholder [OF b(3,2,4)] True Cons b(1) by simp
      have "escape_from True (escape_from False r) = escape_from False r" using 1(1) Cons b(1) by simp
      moreover have "escape_from False (b @ CHR ''>'' # ''`'' @ u) = b @ CHR ''>'' # ''`'' @ escape_from True u" for u
        using escape_plain [OF lt, of False "CHR ''>'' # ''`'' @ u"] by simp
      ultimately show ?thesis unfolding e by (simp add: escape_other)
    next
      case False
      then have e: "escape_from q s = c # escape_from (c = CHR ''`'') t" using Cons escape_other [of c q t] by blast
      have "c = CHR ''<'' \<Longrightarrow> q' \<or> \<not> closing (escape_from (c = CHR ''`'') t)"
        using False escape_closing 1(2) by blast
      then show ?thesis unfolding e using escape_other 1(1) Cons by simp
    qed
  qed simp
qed

text \<open>Escaping twice is escaping once.\<close>

theorem escape_idempotent: "escape_angle_brackets (escape_angle_brackets s) = escape_angle_brackets s"
  unfolding escape_angle_brackets_def by (rule escape_again) simp

section \<open>The manual\<close>

lemma sublist_join: "x \<in> set ls \<Longrightarrow> sublist x (join sep ls)"
proof (induction sep ls rule: join.induct)
  case (3 sep x1 y ys)
  show ?case
  proof (cases "x = x1")
    case False
    then have "sublist x (join sep (y # ys))" using 3 by simp
    then obtain ps ss where "join sep (y # ys) = ps @ x @ ss" by (auto simp: sublist_def)
    then have "join sep (x1 # y # ys) = (x1 @ sep @ ps) @ x @ ss" by simp
    then show ?thesis unfolding sublist_def by blast
  qed simp
qed simp_all

lemma sublist_line: "sublist x y \<Longrightarrow> y \<in> set ls \<Longrightarrow> sublist x (join sep ls)"
  using sublist_join sublist_order.order_trans by blast

lemma visible_mem: "(n, c) \<in> set (visible commands) \<longleftrightarrow> (n, c) \<in> set commands \<and> \<not> cd_hidden (decl_of c)"
  by (simp add: visible_def)

text \<open>A group at the top lists its commands with links, and each of them has its anchor.\<close>

lemma group_has_links:
  assumes "(n, Command c) \<in> set (visible cs)" and "name \<noteq> []"
  shows "sublist (link_line V name n c) (generate_group_doc V g cs name [] level True)"
    and "sublist (anchor_line (anchor_id name n)) (generate_group_doc V g cs name [] level True)"
proof -
  have ne: "visible cs \<noteq> []" using assms(1) by auto
  have "link_line V name n c = (\<lambda>(n, c). link_line V name n (decl_of c)) (n, Command c)" by simp
  then have "link_line V name n c \<in> set (overview V name (visible cs) True)"
    using assms(1) ne unfolding overview_def by force
  then show "sublist (link_line V name n c) (generate_group_doc V g cs name [] level True)"
    by (subst generate_group_doc.simps, intro sublist_join) (simp add: group_head_def)
  let ?doc = "generate_command_doc V c n name (level + 1) True"
  have f: "full_name_of [] name = name" by (simp add: full_name_of_def)
  have "?doc \<in> set (concat (map (\<lambda>(n, c). [[], case c of
            Group g cs \<Rightarrow> generate_group_doc V g cs n (full_name_of [] name) (level + 1) False
          | Command cmd \<Rightarrow> generate_command_doc V cmd n (full_name_of [] name) (level + 1) True]) (visible cs)))"
    unfolding f set_concat set_map by (intro UN_I [OF imageI [OF assms(1)]]) simp
  then have d: "sublist ?doc (generate_group_doc V g cs name [] level True)"
    by (subst generate_group_doc.simps, intro sublist_join) simp
  have "sublist (anchor_line (anchor_id name n)) ?doc"
    unfolding generate_command_doc_def using assms(2) by (intro sublist_join) simp
  then show "sublist (anchor_line (anchor_id name n)) (generate_group_doc V g cs name [] level True)"
    using d by (rule sublist_order.order_trans)
qed

lemma manual_has_group:
  assumes "(name, Group g cs) \<in> set (visible commands)"
  shows "sublist (generate_group_doc V g cs name [] 3 True) (docs_content V commands)"
proof -
  have "generate_group_doc V g cs name [] 3 True \<in> set (command_section V (name, Group g cs))"
    by (simp add: command_section_def)
  then have "generate_group_doc V g cs name [] 3 True \<in> set (concat (map (command_section V) (visible commands)))"
    unfolding set_concat set_map by (intro UN_I [OF imageI [OF assms]])
  then show ?thesis unfolding docs_content_def by (intro sublist_join) simp
qed

text \<open>Names that are their own anchors; all of the client's are, and no command of it is hidden.\<close>

definition linked :: "string \<times> cli_command \<Rightarrow> bool" where
  "linked p = (case p of (name, Command c) \<Rightarrow> True
     | (name, Group g cs) \<Rightarrow> name \<noteq> [] \<and> \<not> cd_hidden g \<and>
         list_all (\<lambda>(n, c). anchor_id name n = name @ ''-'' @ n \<and> \<not> cd_hidden (decl_of c)) cs)"

lemma all_linked: "list_all linked root_commands"
  by code_simp

text \<open>C38: In the manual of the client every command of a group is listed with a link, and the anchor the link
  points to is there.\<close>

theorem manual_links_resolve:
  assumes g: "(name, Group g cs) \<in> set root_commands" and c: "(n, Command c) \<in> set cs"
  shows "\<exists>anchor. anchor = name @ ''-'' @ n
    \<and> link_line V name n c = ''- ['' @ code (name @ '' '' @ n) @ ''](#'' @ anchor @ '') '' @ EM_DASH @ '' '' @ short_help V c 60
    \<and> sublist (link_line V name n c) (docs_content V root_commands)
    \<and> sublist (anchor_line anchor) (docs_content V root_commands)"
proof -
  have "linked (name, Group g cs)" using all_linked g by (simp add: list_all_iff)
  then have l: "name \<noteq> []" "\<not> cd_hidden g" "anchor_id name n = name @ ''-'' @ n" "\<not> cd_hidden c"
    using c by (auto simp: linked_def list_all_iff)
  have v: "(n, Command c) \<in> set (visible cs)" and r: "(name, Group g cs) \<in> set (visible root_commands)"
    using g c l by (simp_all add: visible_mem)
  note m = manual_has_group [OF r, of V] and gl = group_has_links [OF v l(1), of V g 3]
  show ?thesis
    using sublist_order.order_trans [OF gl(1) m] sublist_order.order_trans [OF gl(2) m]
    unfolding l(3) by (simp add: link_line_def)
qed

definition plain_view :: click_view where
  "plain_view = \<lparr>cv_opts = od_decls, cv_secondary_opts = (\<lambda>p. []), cv_is_flag = (\<lambda>p. od_is_flag p = Some True),
     cv_default = (\<lambda>p. NoDefault), cv_required = od_required, cv_argument_required = (\<lambda>a. ad_required a \<noteq> Some False),
     cv_short_help = (\<lambda>c limit. or_empty (cd_help c))\<rparr>"

theorem manual_links_resolve_witness:
  "sublist (anchor_line ''bridge-create'') (docs_content plain_view root_commands)"
proof -
  have "(''bridge'', Group cli_bridge bridge_commands) \<in> set root_commands" by (simp add: root_commands_def)
  moreover have "(''create'', Command cli_bridge_create) \<in> set bridge_commands" by (simp add: bridge_commands_def)
  ultimately show ?thesis using manual_links_resolve [of "''bridge''" cli_bridge bridge_commands "''create''" cli_bridge_create plain_view] by simp
qed

text \<open>The examples are for the commands and groups of the client, each with one.\<close>

definition documented :: "(string \<times> command_decl) list" where
  "documented = concat (map (\<lambda>(n, c). commands_of n c) root_commands)"

lemma examples_complete:
  "distinct (keys EXAMPLES) \<and> list_all (\<lambda>n. n \<in> set (keys EXAMPLES)) (map fst documented)
   \<and> list_all (\<lambda>k. k \<in> fst ` set documented) (keys EXAMPLES)"
  by code_simp

text \<open>The options in the examples are declared, but for one: \<open>-n\<close> is no option of \<open>mount create\<close>.\<close>

definition words_of :: "string \<Rightarrow> string list" where
  "words_of text = concat (map (split (CHR '' '')) (split (CHR 0x0A) text))"

definition undeclared :: "string \<times> command_decl \<Rightarrow> (string \<times> string) list" where
  "undeclared p = (case p of (path, c) \<Rightarrow> map (\<lambda>w. (path, w))
     (filter (\<lambda>w. startswith w ''-'' \<and> w \<notin> set (concat (map flags (cd_params c))))
       (words_of (or_empty (dget EXAMPLES path)))))"

definition leaves :: "(string \<times> command_decl) list" where
  "leaves = filter (\<lambda>(path, c). contains path '' '') documented"

lemma example_options: "concat (map undeclared leaves) = [(''mount create'', ''-n'')]"
  by code_simp

end
