(* ===== verification/Spec2Isabelle.thy ===== *)
theory Spec2Isabelle
  imports StowawayPeers WgRoundTrip WatchProperties BridgeProperties ClientProperties
    CarrierRules CarrierCalls CarrierContracts AdmissionProperties EndToEnd Negotiation
    UninstallProperties RunProperties StatusProperties CommandProperties
    SessionProperties DocProperties
begin

text \<open>
  Gefyra: a model of the operator (operator/gefyra) and of the command line client (client/gefyra),
  both in Python, and what they guarantee.

  \<^bold>\<open>The program.\<close>  Gefyra connects a developer's machine to a Kubernetes cluster and diverts the
  traffic of a workload to it.  The operator acts on three custom resources.  A \<^emph>\<open>client\<close>
  (clientstate.py, handler/clients.py) is a developer's machine: it gets a service account and, on
  request, a WireGuard peer on Stowaway, the VPN server in the cluster.  A \<^emph>\<open>bridge mount\<close>
  (bridge_mount_state.py, handler/bridge_mounts.py) prepares a workload: the provider carrier2mount
  duplicates the workload and its service and replaces the image of the original pods by the proxy
  Carrier2, which at first forwards everything to the duplicate.  A \<^emph>\<open>bridge\<close> (bridgestate.py,
  handler/bridges.py) diverts the requests that match its rules to a client: the provider carrier2
  writes the rules into the configuration of the proxies, and the connection provider adds a proxy
  route on Stowaway to the client's address.  An admission webhook (handler/configure_webhook.py)
  checks the resources before they are stored, and two periodic tasks
  (connection/stowaway/handler.py) clean the proxy routes and report the WireGuard status.  The
  client installs the operator, creates these resources, and runs on the developer's machine the
  container Cargo, the other end of the VPN, in a Docker network of its own, and the containers
  that bridges lead to.

  \<^bold>\<open>Foundations.\<close>  \<open>Prelude\<close> has the exceptions, the effectful calls \<open>('w, 'a) io\<close> (a function of the
  state of the world outside the process to an exception or a value, and the new world), a small Hoare
  logic, and Python dictionaries as association lists; \<open>PyStr\<close> the string operations of the standard
  library.  \<open>Kube\<close> has the configuration (configuration.py), the Kubernetes objects as records
  of the attributes the code uses, and the API calls as records of functions; \<open>Machine\<close> what the three
  state machines share (base.py).  The API server, Docker, the clock, random names, \<open>websocket\<close> calls,
  YAML, JSON, base64 and floating-point numbers, and the processing loop of the state-machine library are
  not part of the repository: they are arguments of the definitions.  What the code relies on is stated
  as named laws (\<open>config_map_store\<close>: reads return the data, patches merge, replacements overwrite;
  \<open>rtc_loop\<close>: events run to completion in order; \<open>docker_creates\<close>, \<open>installs\<close>, \<open>lists_and_deletes\<close>, \<open>shell\<close>,
  \<open>feeds\<close> and others), and \<open>MemCluster\<close>, \<open>MemOperator\<close>, \<open>MemCarrier\<close>, \<open>MemLocal\<close> are concrete functions
  that satisfy them, on which every hypothesis is discharged by a witness.

  \<^bold>\<open>Stowaway.\<close>  \<open>StowawayResources\<close> (connection/stowaway/components.py, resources/) and \<open>Stowaway\<close>
  (connection/stowaway/__init__.py) have one definition per function.  \<open>StowawayRoutes\<close>,
  \<open>StowawayProperties\<close>: the route table keeps its invariant \<open>routes_inv\<close>, ports are fresh, in 10000..59999
  and found as long as one is free, a removal deletes one route -- of any client; a configuration
  file is read back.  \<open>StowawayPeers\<close>: the comma-separated peer list refines a set.  \<open>WgOutput\<close>, \<open>WgRoundTrip\<close>: the
  parser of the WireGuard status, with regular expressions as backtracking matchers, and its round trip
  with a printer.  \<open>StowawayWatch\<close>, \<open>WatchProperties\<close>: the periodic tasks; what stays in the table is exactly
  what a bridge uses, and a bridge in setup ends the task.  \<open>ConnectionProvider\<close> is the interface
  of a connection provider, with the locales \<open>destination_provider\<close> and \<open>peer_provider\<close> for what bridges
  and clients rely on; \<open>StowawayProvider\<close> interprets them on Stowaway.

  \<^bold>\<open>State machines.\<close>  \<open>BridgeState\<close>, \<open>ClientState\<close>, \<open>MountState\<close>: states and events as datatypes, the declared
  transitions as a function to an option, the callbacks in the order of the library, the
  handlers over a processing loop.  The lemmas of \<open>BridgeProperties\<close>, \<open>ClientProperties\<close>, \<open>MountProperties\<close> give the
  outcome of the handlers: the state they end in and what they raise, as functions of the answers of the
  provider, and what they leave in the cluster (an ACTIVE client is a peer; a disconnected one is none, unless
  the API server refused the ConfigMap; the timer never deletes a mount).  An asyncio lock is modelled by making
  a handler one step.

  \<^bold>\<open>Carrier2.\<close>  \<open>CarrierApi\<close> (bridge_mount/utils.py, retries and waits), \<open>ExecSession\<close> (sessions with a pod:
  bridge/carrier2/utils.py, utils.py), \<open>CarrierConfig\<close> (bridge/carrier2/config.py), \<open>Carrier2Mount\<close>
  (bridge_mount/carrier2mount), \<open>Carrier2\<close> (bridge/carrier2).  \<open>CarrierRules\<close>: the rules written for a mount
  are those of its bridges, and a committed route is found again.  \<open>CarrierCalls\<close>: waits and retries end,
  commits are confirmed, secrets are cached.  \<open>SessionProperties\<close>: commands reach a shell in order, a copied
  file has the bytes of stdout, and a file is read by the second poll or not at all.  \<open>CarrierShadow\<close>:
  duplicate and original are selected apart, up to label values at the limit of 63, both providers build the same configuration, a removal
  restores what was stored.  \<open>CarrierContracts\<close>: the locales \<open>mount_contract\<close> and \<open>bridge_contract\<close>
  interpreted on the providers, and the machines composed with them.

  \<^bold>\<open>Start and admission.\<close>  \<open>Startup\<close>: the schemas of the custom resources as data, readiness events and the
  startup handlers.  \<open>Admission\<close>, \<open>AdmissionProperties\<close>: the webhook admits a bridge exactly on an active
  mount and beside other bridges, and connection parameters only for a waiting client with a free network.

  \<^bold>\<open>Installation.\<close>  \<open>LocalInstall\<close> (types/install.py, misc/, api/install.py, api/operator.py) has the
  options, the objects generated from them as JSON, their application, and the removal.
  \<open>InstallProperties\<close>: the operator of the installed deployment reads the images, tag, storage, age and flags of the
  options, and its defaults for the rest, and what the update changes in it.  \<open>UninstallProperties\<close>: on a cluster seen as the set of its objects, the removal
  undoes the installation, if it was made into the namespace gefyra.

  \<^bold>\<open>The client.\<close>  \<open>LocalConfig\<close> (configuration.py) has its settings with their caches, and the interfaces of Docker and
  the local machine.  \<open>CliArguments\<close> (cli/utils.py, api/utils.py), \<open>LocalMount\<close> (local/mount.py, types/bridge_mount.py,
  api/mount.py), \<open>LocalBridge\<close> (local/bridge.py, types/bridge.py, api/bridge.py), \<open>LocalNetwork\<close>
  (local/networking.py, utils.py, cargo.py, minikube.py), \<open>LocalClient\<close> (local/clients.py, types/client.py) and
  \<open>LocalConnect\<close> (api/clients.py, api/connect.py) are the commands on the three resources.  A client object
  changes its attributes and the world: its methods act on the pair of both.  \<open>LocalRun\<close> (api/run.py, cluster/) runs a
  container, \<open>LocalStatus\<close> (api/rm.py, status.py, list.py) removes and lists them, \<open>LocalCommands\<close> (cli/) has
  the bodies of the commands, with the questions to the user.  \<open>EndToEnd\<close>: what the client asks for is what
  the operator works with -- bridges with their mappings, TLS arguments, the peer file.  \<open>Negotiation\<close>: the choice of
  the subnet of a connection ends with one that nobody uses.  \<open>RunProperties\<close>, \<open>StatusProperties\<close>: bridges follow their
  container, are removed with it, and stale ones are cleaned up; the parts of the status agree.
  \<open>CommandProperties\<close>: which command a name stands for, that the waits end, and what a refused question prevents.

  \<^bold>\<open>The command line.\<close>  \<open>CliOptions\<close> has the declarations of the commands as data (the decorators of cli/ and the tree of
  cli/main.py), the options generated from the fields of the installation options, and the option that takes
  several words; \<open>DocGen\<close> (cli/docgen.py) the manual generated from them.  What \<open>click\<close> makes of a declaration is a
  parameter.  \<open>DocProperties\<close>: every function gets the parameters it has, the links of the manual lead to anchors,
  escaping twice is escaping once, the examples are for commands that exist, and one of them uses an option that
  does not.

  \<^bold>\<open>Bounds.\<close>  No definition runs on fuel that could run out before the code does.  Loops without a bound of their own
  are \<open>partial_function\<close>s, \<open>None\<close> where they do not return: \<open>wait_loop\<close>, \<open>wait_mount\<close>, \<open>await_state\<close>, \<open>exec_loop\<close>
  and \<open>copy_loop\<close> are proved to end (\<open>wait_terminates\<close>, \<open>mount_command_ends\<close>, \<open>clients_command_ends\<close>,
  \<open>exec_sends_in_order\<close>, \<open>copy_reads_stdout\<close>, each under what it needs of the environment), and
  \<open>await_ready_events\<close> waits as long as one of the events does not come.  Retries
  recurse on the number of attempts the code passes, \<open>periodic\<close> takes the number of rounds of an endless
  loop, and the search for a free port is a function with a measure.

  \<^bold>\<open>Not modelled.\<close>  Log lines, console output and the texts of events; the settings of the kopf framework, the
  choice of handlers at import and the health check; the reaction of the API server to the schemas; interleavings inside
  one handler; the check for a new version, and terminals attached to a container.
  The proxy in Rust (carrier2) and the container images are other programs.
\<close>

end
